(* ===== verification/PyNum.thy ===== *)
theory PyNum
  imports Complex_Main
begin

text \<open>
  Numbers of the modelled Python code.  A finite \<open>float\<close> and a finite \<open>decimal.Decimal\<close> are both
  rational numbers of bounded precision, and each arithmetic operation returns the exact result
  rounded half-even to that precision: 53 binary digits for \<open>float\<close> (IEEE 754 binary64, whose
  overflow to infinity and subnormal range are left out) and 28 decimal digits for \<open>Decimal\<close> (the
  default context of the module, whose exponent limits are left out).  The theory defines this
  rounding once, for any base and precision, shows the laws every proof about the code needs
  (monotone, odd, exact on representable numbers) and gives them as the locale \<open>rounding\<close>, which
  both number types interpret.
\<close>

section \<open>Rounding a rational to the nearest integer, ties to even\<close>

definition round_half_even :: "rat \<Rightarrow> int" where
  "round_half_even x =
     (let f = \<lfloor>x\<rfloor>; d = x - of_int f
      in if d < 1/2 then f else if 1/2 < d then f + 1 else if even f then f else f + 1)"

lemma round_half_even_of_int [simp]: "round_half_even (of_int n) = n"
  by (simp add: round_half_even_def)

lemma round_half_even_error: "\<bar>of_int (round_half_even x) - x\<bar> \<le> 1/2"
proof -
  have "of_int \<lfloor>x\<rfloor> \<le> x" "x < of_int \<lfloor>x\<rfloor> + 1" by linarith+
  then show ?thesis
    unfolding round_half_even_def Let_def by (simp split: if_split; linarith)
qed

lemma round_half_even_cases:
  "round_half_even x = \<lfloor>x\<rfloor> \<or> round_half_even x = \<lfloor>x\<rfloor> + 1"
  by (simp add: round_half_even_def Let_def)

lemma round_half_even_mono:
  assumes "x \<le> y"
  shows "round_half_even x \<le> round_half_even y"
proof (cases "\<lfloor>x\<rfloor> = \<lfloor>y\<rfloor>")
  case True
  with assms show ?thesis by (auto simp: round_half_even_def Let_def)
next
  case False
  with assms have "\<lfloor>x\<rfloor> + 1 \<le> \<lfloor>y\<rfloor>" using floor_mono [OF assms] by linarith
  moreover have "round_half_even x \<le> \<lfloor>x\<rfloor> + 1" "\<lfloor>y\<rfloor> \<le> round_half_even y"
    using round_half_even_cases [of x] round_half_even_cases [of y] by auto
  ultimately show ?thesis by linarith
qed

lemma round_half_even_minus: "round_half_even (- x) = - round_half_even x"
proof (cases "x = of_int \<lfloor>x\<rfloor>")
  case True
  then show ?thesis
    by (metis of_int_minus round_half_even_of_int)
next
  case False
  then have fl: "\<lfloor>- x\<rfloor> = - \<lfloor>x\<rfloor> - 1"
    by (intro floor_unique) (auto, linarith+)
  then show ?thesis
    by (auto simp: round_half_even_def Let_def)
qed

section \<open>Rounding to a number of significant digits\<close>

text \<open>
  \<open>sig_exp b x\<close> is the exponent of the leading base-\<open>b\<close> digit of \<open>x\<close>; \<open>round_sig b p x\<close> keeps
  \<open>p\<close> digits.
\<close>

function ilog :: "nat \<Rightarrow> int \<Rightarrow> nat" where
  "ilog b n = (if 1 < b \<and> int b \<le> n then Suc (ilog b (n div int b)) else 0)"
  by pat_completeness auto
termination
  by (relation "measure (\<lambda>(b, n). nat n)") (auto simp: zdiv_mono2 nat_less_iff int_div_less_self)

declare ilog.simps [simp del]

definition sig_exp :: "nat \<Rightarrow> rat \<Rightarrow> int" where
  "sig_exp b x =
     (if 1 \<le> \<bar>x\<bar> then int (ilog b \<lfloor>\<bar>x\<bar>\<rfloor>) else - int (Suc (ilog b (\<lceil>1 / \<bar>x\<bar>\<rceil> - 1))))"

definition round_sig :: "nat \<Rightarrow> nat \<Rightarrow> rat \<Rightarrow> rat" where
  "round_sig b p x =
     (if x = 0 then 0
      else let u = power_int (of_nat b) (sig_exp b x - (int p - 1))
           in of_int (round_half_even (x / u)) * u)"

lemma sig_exp_minus [simp]: "sig_exp b (- x) = sig_exp b x"
  by (simp add: sig_exp_def)

lemma round_sig_zero [simp]: "round_sig b p 0 = 0"
  by (simp add: round_sig_def)

lemma round_sig_minus: "round_sig b p (- x) = - round_sig b p x"
  by (simp add: round_sig_def Let_def round_half_even_minus)

lemma ilog_bounds:
  assumes "1 < b" "0 < n"
  shows "int b ^ ilog b n \<le> n \<and> n < int b ^ Suc (ilog b n)"
  using assms
proof (induction b n rule: ilog.induct)
  case (1 b n)
  show ?case
  proof (cases "int b \<le> n")
    case False
    with 1 show ?thesis by (simp add: ilog.simps [of b n])
  next
    case True
    let ?m = "n div int b"
    have m: "0 < ?m" using True 1 by (simp add: pos_imp_zdiv_pos_iff)
    have ih: "int b ^ ilog b ?m \<le> ?m" "?m < int b ^ Suc (ilog b ?m)"
      using 1 True m by auto
    have "int b * ?m + n mod int b = n" "0 \<le> n mod int b" "n mod int b < int b"
      using 1(2) by simp_all
    then have "int b * ?m \<le> n" "n < int b * (?m + 1)"
      by (simp_all only: distrib_left mult_1_right)
    moreover have "int b * int b ^ ilog b ?m \<le> int b * ?m"
      using ih(1) by (simp add: mult_left_mono)
    moreover have "int b * (?m + 1) \<le> int b * int b ^ Suc (ilog b ?m)"
      using ih(2) by (intro mult_left_mono) auto
    moreover have "ilog b n = Suc (ilog b ?m)"
      using True 1(2) by (simp add: ilog.simps [of b n])
    ultimately show ?thesis by simp
  qed
qed

lemma sig_exp_bounds:
  assumes b: "1 < b" and x: "x \<noteq> 0"
  shows "power_int (of_nat b) (sig_exp b x) \<le> \<bar>x\<bar> \<and> \<bar>x\<bar> < power_int (of_nat b) (sig_exp b x + 1)"
proof (cases "1 \<le> \<bar>x\<bar>")
  case True
  define n where "n = \<lfloor>\<bar>x\<bar>\<rfloor>"
  from True have n: "0 < n" by (simp add: n_def)
  have fb: "int b ^ ilog b n \<le> n" "n + 1 \<le> int b ^ Suc (ilog b n)"
    using ilog_bounds [OF b n] by simp_all
  have nx: "of_int n \<le> \<bar>x\<bar>" "\<bar>x\<bar> < of_int (n + 1)"
    unfolding n_def by (rule of_int_floor_le, rule floor_correct [THEN conjunct2])
  have "(of_int (int b ^ ilog b n) :: rat) \<le> of_int n" "(of_int (n + 1) :: rat) \<le> of_int (int b ^ Suc (ilog b n))"
    using fb by (simp_all only: of_int_le_iff)
  then have "of_nat b ^ ilog b n \<le> \<bar>x\<bar>" "\<bar>x\<bar> < of_nat b ^ Suc (ilog b n)"
    using nx by (simp_all del: power_Suc)
  moreover have e: "sig_exp b x = int (ilog b n)" "sig_exp b x + 1 = int (Suc (ilog b n))"
    using True by (simp_all add: sig_exp_def n_def)
  ultimately show ?thesis by (simp only: e power_int_of_nat)
next
  case False
  define y where "y = 1 / \<bar>x\<bar>"
  from False x have y: "1 < y" by (simp add: y_def)
  define n where "n = \<lceil>y\<rceil> - 1"
  have n: "0 < n" using y by (simp add: n_def)
  define k where "k = Suc (ilog b n)"
  have fb: "int b ^ (k - 1) \<le> n" "n + 1 \<le> int b ^ k"
    using ilog_bounds [OF b n] by (simp_all add: k_def)
  have e: "sig_exp b x = - int k"
    using False by (simp add: sig_exp_def n_def y_def k_def)
  have ny: "of_int n < y" "y \<le> of_int (n + 1)"
    by (simp_all add: n_def) linarith+
  have "(of_int (int b ^ (k - 1)) :: rat) \<le> of_int n" "(of_int (n + 1) :: rat) \<le> of_int (int b ^ k)"
    using fb by (simp_all only: of_int_le_iff)
  with ny have lo: "of_nat b ^ (k - 1) < y" and hi: "y \<le> of_nat b ^ k" by simp_all
  have ax: "\<bar>x\<bar> = 1 / y" by (simp add: y_def)
  have bp: "(0 :: rat) < of_nat b ^ m" for m using b by simp
  have "power_int (of_nat b) (- int k) = 1 / (of_nat b :: rat) ^ k"
    by (simp add: power_int_minus divide_inverse)
  moreover have "power_int (of_nat b) (- int k + 1) = 1 / (of_nat b :: rat) ^ (k - 1)"
  proof -
    have "- int k + 1 = - int (k - 1)" by (simp add: k_def)
    then show ?thesis
      by (simp only: power_int_minus power_int_of_nat divide_inverse mult_1)
  qed
  moreover have "1 / (of_nat b :: rat) ^ k \<le> 1 / y"
    using hi y bp [of k] by (intro divide_left_mono) auto
  moreover have "1 / y < 1 / (of_nat b :: rat) ^ (k - 1)"
    using lo y bp [of "k - 1"] by (intro divide_strict_left_mono) auto
  ultimately show ?thesis by (simp add: e ax)
qed

lemma powi_less_iff:
  assumes "1 < b"
  shows "(power_int (of_nat b) i < (power_int (of_nat b) j :: rat)) = (i < j)"
  using power_int_strict_increasing [of i j "of_nat b :: rat"]
    power_int_increasing [of j i "of_nat b :: rat"] assms by fastforce

lemma powi_pos: "1 < b \<Longrightarrow> (0 :: rat) < power_int (of_nat b) i"
  by (intro zero_less_power_int) simp

lemma sig_exp_unique:
  assumes b: "1 < b" and lo: "power_int (of_nat b) e \<le> \<bar>x\<bar>"
    and hi: "\<bar>x\<bar> < power_int (of_nat b) (e + 1)"
  shows "sig_exp b x = e"
proof -
  have "x \<noteq> 0" using lo powi_pos [OF b, of e] by auto
  note sb = sig_exp_bounds [OF b this]
  have "power_int (of_nat b :: rat) e < power_int (of_nat b) (sig_exp b x + 1)"
    "power_int (of_nat b :: rat) (sig_exp b x) < power_int (of_nat b) (e + 1)"
    using sb lo hi by linarith+
  then have "e < sig_exp b x + 1" "sig_exp b x < e + 1"
    by (simp_all only: powi_less_iff [OF b])
  then show ?thesis by simp
qed

lemma sig_exp_mono:
  assumes b: "1 < b" and x: "0 < x" "x \<le> y"
  shows "sig_exp b x \<le> sig_exp b y"
proof -
  have "power_int (of_nat b) (sig_exp b x) < (power_int (of_nat b) (sig_exp b y + 1) :: rat)"
    using sig_exp_bounds [OF b, of x] sig_exp_bounds [OF b, of y] x by simp
  then show ?thesis
    by (simp add: powi_less_iff [OF b])
qed

text \<open>A number with at most \<open>p\<close> significant digits is rounded to itself.\<close>

lemma round_sig_exact:
  assumes b: "1 < b" and p: "0 < p" and m: "\<bar>m\<bar> \<le> int b ^ p"
  shows "round_sig b p (of_int m * power_int (of_nat b) q) = of_int m * power_int (of_nat b) q"
proof (cases "m = 0")
  case False
  let ?B = "of_nat b :: rat"
  let ?x = "of_int m * power_int ?B q"
  have B: "1 < ?B" using b by simp
  have Bp: "0 < power_int ?B k" for k by (rule powi_pos [OF b])
  have x0: "?x \<noteq> 0" using False Bp [of q] by (metis less_irrefl no_zero_divisors of_int_eq_0_iff)
  define e where "e = sig_exp b ?x - (int p - 1)"
  have sb: "power_int ?B (sig_exp b ?x) \<le> \<bar>?x\<bar>" using sig_exp_bounds [OF b x0] by simp
  have ax: "\<bar>?x\<bar> = of_int \<bar>m\<bar> * power_int ?B q"
    using Bp [of q] by (simp add: abs_mult)
  have main: "\<exists>k. ?x / power_int ?B e = of_int k"
  proof (cases "e \<le> q")
    case True
    then have "power_int ?B q = power_int ?B e * ?B ^ nat (q - e)"
      using b by (simp flip: power_int_add power_int_of_nat)
    then have "?x / power_int ?B e = of_int (m * int b ^ nat (q - e))"
      using b Bp [of e] by (simp add: field_simps)
    then show ?thesis by blast
  next
    case False
    have "(of_int \<bar>m\<bar> :: rat) \<le> ?B ^ p"
      using m by (metis of_int_le_iff of_int_of_nat_eq of_int_power)
    then have "power_int ?B (sig_exp b ?x) \<le> ?B ^ p * power_int ?B q"
      using sb ax Bp [of q] by (metis mult_right_mono order.trans less_imp_le)
    also have "\<dots> = power_int ?B (int p + q)"
      using b by (simp add: power_int_add)
    finally have le: "sig_exp b ?x \<le> int p + q"
      using powi_less_iff [OF b, of "int p + q" "sig_exp b ?x"] by linarith
    with False have e: "e = q + 1" "sig_exp b ?x = int p + q" by (simp_all add: e_def)
    then have "power_int ?B (int p + q) \<le> of_int \<bar>m\<bar> * power_int ?B q" using sb ax by simp
    then have "?B ^ p \<le> of_int \<bar>m\<bar>"
      using b Bp [of q] by (simp add: power_int_add)
    then have "\<bar>m\<bar> = int b ^ p"
      using \<open>of_int \<bar>m\<bar> \<le> ?B ^ p\<close>
      by (metis of_int_eq_iff of_int_of_nat_eq of_int_power order_antisym)
    then have "m = int b ^ p \<or> m = - (int b ^ p)" by linarith
    then obtain s :: int where s: "m = s * int b ^ p" by (metis mult_1 mult_minus1)
    have "int b ^ p = int b ^ (p - 1) * int b" using p by (metis power_minus_mult)
    then have "?x / power_int ?B e = of_int (s * int b ^ (p - 1))"
      using b Bp [of q] by (simp add: s e power_int_add field_simps)
    then show ?thesis by blast
  qed
  then obtain k where k: "?x / power_int ?B e = of_int k" by blast
  then have "of_int k * power_int ?B e = ?x"
    using Bp [of e] by (metis less_irrefl nonzero_divide_eq_eq)
  then show ?thesis
    using x0 k by (simp add: round_sig_def Let_def flip: e_def)
qed simp

lemma round_sig_pos:
  assumes "0 \<le> x"
  shows "0 \<le> round_sig b p x"
proof -
  have "0 \<le> round_half_even y" if "0 \<le> y" for y
    using round_half_even_mono [OF that] round_half_even_of_int [of 0] by simp
  with assms show ?thesis
    by (simp add: round_sig_def Let_def zero_le_power_int)
qed

lemma round_sig_bounds:
  assumes b: "1 < b" and p: "0 < p" and x: "0 < x"
  shows "power_int (of_nat b) (sig_exp b x) \<le> round_sig b p x \<and>
         round_sig b p x \<le> power_int (of_nat b) (sig_exp b x + 1)"
proof -
  let ?B = "of_nat b :: rat"
  let ?e = "sig_exp b x"
  define u where "u = power_int ?B (?e - (int p - 1))"
  have u: "0 < u" unfolding u_def by (rule powi_pos [OF b])
  have sb: "power_int ?B ?e \<le> x" "x < power_int ?B (?e + 1)"
    using sig_exp_bounds [OF b, of x] x by simp_all
  have e1: "power_int ?B ?e = of_int (int b ^ (p - 1)) * u"
    using b p by (simp add: u_def of_nat_diff flip: power_int_add power_int_of_nat)
  have e2: "power_int ?B (?e + 1) = of_int (int b ^ p) * u"
    using b p by (simp add: u_def flip: power_int_add power_int_of_nat)
  have "of_int (int b ^ (p - 1)) \<le> x / u" "x / u \<le> of_int (int b ^ p)"
    using sb u unfolding e1 e2 by (simp_all add: field_simps)
  then have "int b ^ (p - 1) \<le> round_half_even (x / u)" "round_half_even (x / u) \<le> int b ^ p"
    using round_half_even_mono round_half_even_of_int by metis+
  then have "of_int (int b ^ (p - 1)) * u \<le> of_int (round_half_even (x / u)) * u"
    "of_int (round_half_even (x / u)) * u \<le> of_int (int b ^ p) * u"
    using u by (simp_all only: mult_le_cancel_right of_int_le_iff) simp_all
  then show ?thesis
    using x by (simp add: e1 e2 round_sig_def Let_def flip: u_def)
qed

lemma round_sig_mono_pos:
  assumes b: "1 < b" and p: "0 < p" and x: "0 < x" "x \<le> y"
  shows "round_sig b p x \<le> round_sig b p y"
proof (cases "sig_exp b x = sig_exp b y")
  case True
  have "0 < power_int (of_nat b :: rat) (sig_exp b y - (int p - 1))" by (rule powi_pos [OF b])
  with x True show ?thesis
    by (simp add: round_sig_def Let_def round_half_even_mono divide_right_mono mult_right_mono)
next
  case False
  then have "sig_exp b x + 1 \<le> sig_exp b y" using sig_exp_mono [OF b x] by simp
  then have "power_int (of_nat b) (sig_exp b x + 1) \<le> (power_int (of_nat b) (sig_exp b y) :: rat)"
    using powi_less_iff [OF b, of "sig_exp b y" "sig_exp b x + 1"] by linarith
  then show ?thesis
    using round_sig_bounds [OF b p, of x] round_sig_bounds [OF b p, of y] x by linarith
qed

lemma round_sig_mono:
  assumes b: "1 < b" and p: "0 < p" and le: "x \<le> y"
  shows "round_sig b p x \<le> round_sig b p y"
proof -
  consider "0 < x" | "y < 0" | "x \<le> 0" "0 \<le> y" using le by linarith
  then show ?thesis
  proof cases
    case 1
    then show ?thesis using round_sig_mono_pos [OF b p _ le] by simp
  next
    case 2
    then have "round_sig b p (- y) \<le> round_sig b p (- x)"
      using round_sig_mono_pos [OF b p, of "- y" "- x"] le by simp
    then show ?thesis by (simp add: round_sig_minus)
  next
    case 3
    then show ?thesis
      using round_sig_pos [of "- x" b p] round_sig_pos [of y b p] by (simp add: round_sig_minus)
  qed
qed

lemma round_sig_idem:
  assumes b: "1 < b" and p: "0 < p"
  shows "round_sig b p (round_sig b p x) = round_sig b p x"
proof (cases "x = 0")
  case False
  define u where "u = power_int (of_nat b :: rat) (sig_exp b x - (int p - 1))"
  have u: "0 < u" unfolding u_def by (rule powi_pos [OF b])
  have r: "round_sig b p x = of_int (round_half_even (x / u)) * u"
    using False by (simp add: round_sig_def Let_def u_def)
  have "power_int (of_nat b) (sig_exp b x + 1) = (of_int (int b ^ p) :: rat) * u"
    using b p by (simp add: u_def flip: power_int_add power_int_of_nat)
  then have "\<bar>x\<bar> < of_int (int b ^ p) * u"
    using sig_exp_bounds [OF b False] by simp
  then have "x / u \<le> of_int (int b ^ p)" "of_int (- (int b ^ p)) \<le> x / u"
    using u by (simp_all add: field_simps abs_less_iff)
  then have "round_half_even (x / u) \<le> int b ^ p" "- (int b ^ p) \<le> round_half_even (x / u)"
    using round_half_even_mono round_half_even_of_int by metis+
  then show ?thesis
    unfolding r unfolding u_def by (intro round_sig_exact [OF b p]) simp
qed simp

section \<open>The interface both number types share\<close>

locale rounding =
  fixes r :: "rat \<Rightarrow> rat"
  assumes mono: "x \<le> y \<Longrightarrow> r x \<le> r y"
    and minus: "r (- x) = - r x"
    and idem: "r (r x) = r x"
    and one: "r 1 = 1"
begin

lemma zero: "r 0 = 0"
  using minus [of 0] by simp

lemma nonneg: "0 \<le> x \<Longrightarrow> 0 \<le> r x"
  using mono [of 0 x] by (simp add: zero)

lemma nonpos: "x \<le> 0 \<Longrightarrow> r x \<le> 0"
  using mono [of x 0] by (simp add: zero)

lemma between: "r a = a \<Longrightarrow> r b = b \<Longrightarrow> a \<le> x \<Longrightarrow> x \<le> b \<Longrightarrow> a \<le> r x \<and> r x \<le> b"
  using mono [of a x] mono [of x b] by simp

lemma unit: "0 \<le> x \<Longrightarrow> x \<le> 1 \<Longrightarrow> 0 \<le> r x \<and> r x \<le> 1"
  by (intro between) (simp_all add: zero one)

lemma sum_ge: "r a = a \<Longrightarrow> 0 \<le> b \<Longrightarrow> a \<le> r (a + b)"
  using mono [of a "a + b"] by simp

end

text \<open>\<open>fl\<close> is the rounding of every \<open>float\<close> operation, \<open>dec\<close> of every \<open>Decimal\<close> operation.\<close>

definition fl :: "rat \<Rightarrow> rat" where
  "fl = round_sig 2 53"

definition dec :: "rat \<Rightarrow> rat" where
  "dec = round_sig 10 28"

lemma round_sig_one:
  assumes "1 < b" "0 < p"
  shows "round_sig b p 1 = 1"
  using round_sig_exact [OF assms, of 1 0] assms by (simp add: one_le_power)

interpretation fl: rounding fl
  by unfold_locales (simp_all add: fl_def round_sig_mono round_sig_minus round_sig_idem round_sig_one)

interpretation dec: rounding dec
  by unfold_locales (simp_all add: dec_def round_sig_mono round_sig_minus round_sig_idem round_sig_one)

lemma fl_of_int: "\<bar>m\<bar> \<le> 2 ^ 53 \<Longrightarrow> fl (of_int m) = of_int m"
  using round_sig_exact [of 2 53 m 0] by (simp add: fl_def)

lemma dec_of_int: "\<bar>m\<bar> \<le> 10 ^ 28 \<Longrightarrow> dec (of_int m) = of_int m"
  using round_sig_exact [of 10 28 m 0] by (simp add: dec_def)

lemma dec_scaled: "\<bar>m\<bar> \<le> 10 ^ 28 \<Longrightarrow> dec (of_int m / 10 ^ k) = of_int m / 10 ^ k"
  using round_sig_exact [of 10 28 m "- int k"] by (simp add: dec_def power_int_minus divide_inverse)

text \<open>A short number is evaluated without rounding it.\<close>

lemma dec_code [code]:
  "dec x = (case quotient_of x of (p, q) \<Rightarrow>
     if 10 ^ 12 mod q = 0 \<and> \<bar>p\<bar> * (10 ^ 12 div q) \<le> 10 ^ 28 then x else round_sig 10 28 x)"
proof -
  obtain p q where pq: "quotient_of x = (p, q)" by fastforce
  then have x: "x = of_int p / of_int q" "0 < q"
    using quotient_of_div quotient_of_denom_pos by auto
  define N :: int where "N = 10 ^ 12"
  have "dec x = x" if dvd: "N mod q = 0" and le: "\<bar>p\<bar> * (N div q) \<le> 10 ^ 28"
  proof -
    obtain k where k: "N = q * k" using dvd by (metis mod_0_imp_dvd dvdE)
    have N: "0 < N" by (simp add: N_def)
    then have "0 < k" using x(2) k by (simp add: zero_less_mult_iff)
    have "x = of_int (p * k) / of_int N"
      using x \<open>0 < k\<close> by (simp add: k)
    moreover have "\<bar>p * k\<bar> \<le> 10 ^ 28"
      using le \<open>0 < k\<close> x(2) by (simp add: k abs_mult)
    moreover have "(of_int N :: rat) = 10 ^ 12" by (simp add: N_def)
    ultimately show ?thesis using dec_scaled [of "p * k" 12] by (simp only:)
  qed
  then show ?thesis
    unfolding pq prod.case N_def by (simp only: dec_def if_split simp_thms) (intro impI, elim conjE)
qed

text \<open>
  A number that a column of twelve decimal places holds with room to spare; the difference of two is
  exact.
\<close>

definition twelve_places :: "rat \<Rightarrow> bool" where
  "twelve_places x = (\<exists>n. x = of_int n / 10 ^ 12 \<and> \<bar>n\<bar> \<le> 10 ^ 27)"

lemma twelve_places_diff:
  assumes "twelve_places x" "twelve_places y"
  shows "dec (x - y) = x - y"
proof -
  obtain m n where "x = of_int m / 10 ^ 12" "\<bar>m\<bar> \<le> 10 ^ 27" "y = of_int n / 10 ^ 12" "\<bar>n\<bar> \<le> 10 ^ 27"
    using assms by (auto simp: twelve_places_def)
  moreover from this have "\<bar>m - n\<bar> \<le> 10 ^ 28" by simp
  moreover have "x - y = of_int (m - n) / 10 ^ 12" using calculation by (simp add: diff_divide_distrib)
  ultimately show ?thesis
    using dec_scaled [of "m - n" 12] by (simp only:)
qed

text \<open>A rounding to \<open>p\<close> digits is off by half a unit of the last place at most.\<close>

lemma round_sig_error:
  assumes b: "1 < b" and p: "0 < p"
  shows "\<bar>round_sig b p x - x\<bar> \<le> \<bar>x\<bar> / (2 * of_nat b ^ (p - 1))"
proof (cases "x = 0")
  case False
  define u where "u = power_int (of_nat b :: rat) (sig_exp b x - (int p - 1))"
  have u: "0 < u" unfolding u_def by (rule powi_pos [OF b])
  have "round_sig b p x - x = (of_int (round_half_even (x / u)) - x / u) * u"
    using False u b by (simp add: round_sig_def Let_def u_def left_diff_distrib)
  then have "\<bar>round_sig b p x - x\<bar> = \<bar>of_int (round_half_even (x / u)) - x / u\<bar> * u"
    using u by (simp add: abs_mult)
  also have "\<dots> \<le> (1 / 2) * u"
    using u by (intro mult_right_mono round_half_even_error) simp
  also have "u = power_int (of_nat b) (sig_exp b x) / of_nat b ^ (p - 1)"
    using b p by (simp add: u_def power_int_diff of_nat_diff flip: power_int_of_nat)
  also have "(1 / 2) * (power_int (of_nat b) (sig_exp b x) / of_nat b ^ (p - 1)) \<le> \<bar>x\<bar> / (2 * of_nat b ^ (p - 1))"
    using sig_exp_bounds [OF b False] b by (simp add: field_simps)
  finally show ?thesis .
qed simp

lemma dec_error: "\<bar>dec x - x\<bar> \<le> \<bar>x\<bar> / (2 * 10 ^ 27)"
  using round_sig_error [of 10 28 x] by (simp add: dec_def)

end
