(* ===== verification/Prelude.thy ===== *)
theory Prelude
  imports PyNum
begin

text \<open>
  What every component shares: the exceptions of the modelled code, its effectful functions as
  state transformers that return a value or raise, the weakest-precondition calculus and the
  compositional reasoning about frame conditions for them.
\<close>

section \<open>Exceptions and effectful programs\<close>

text \<open>
  The exceptions that the modelled functions raise or let through.  The string arguments are
  the texts attached to them.
\<close>

datatype exn =
    TypeError | ValueError | KeyError | AttributeError | IndexError
  | InvalidOperation | ZeroDivision | OverflowError | JSONDecodeError | ValidationError | Timeout
  | JobLifecycleError | StrategyLifecycleError string | NormalizeError | DecryptError
  | AuthError string | ConnectionClosed string | RuntimeError string
  | RedisError string | DbError string | IntegrityError string | HttpError nat string

text \<open>
  A Python coroutine of the modelled code transforms a state and either returns (\<open>Inr\<close>) or raises
  (\<open>Inl\<close>); the changes made before a raise stay.
\<close>

type_synonym ('w, 'a) prog = "'w \<Rightarrow> (exn + 'a) \<times> 'w"

definition mret :: "'a \<Rightarrow> ('w, 'a) prog" where
  "mret x w = (Inr x, w)"

definition mraise :: "exn \<Rightarrow> ('w, 'a) prog" where
  "mraise e w = (Inl e, w)"

definition mbind :: "('w, 'a) prog \<Rightarrow> ('a \<Rightarrow> ('w, 'b) prog) \<Rightarrow> ('w, 'b) prog" where
  "mbind m f w = (case m w of (Inl e, w') \<Rightarrow> (Inl e, w') | (Inr x, w') \<Rightarrow> f x w')"

definition mseq :: "('w, unit) prog \<Rightarrow> ('w, 'b) prog \<Rightarrow> ('w, 'b) prog" where
  "mseq m k = mbind m (\<lambda>_. k)"

text \<open>\<open>try: m except Exception as exc: h exc\<close>.\<close>

definition mtry :: "('w, 'a) prog \<Rightarrow> (exn \<Rightarrow> ('w, 'a) prog) \<Rightarrow> ('w, 'a) prog" where
  "mtry m h w = (case m w of (Inl e, w') \<Rightarrow> h e w' | (Inr x, w') \<Rightarrow> (Inr x, w'))"

text \<open>A \<open>try\<close> whose handler only logs.\<close>

definition mlogged :: "('w, unit) prog \<Rightarrow> ('w, unit) prog" where
  "mlogged m = mtry m (\<lambda>_. mret ())"

definition mget :: "('w \<Rightarrow> 'a) \<Rightarrow> ('w, 'a) prog" where
  "mget f w = (Inr (f w), w)"

definition mput :: "('w \<Rightarrow> 'w) \<Rightarrow> ('w, unit) prog" where
  "mput f w = (Inr (), f w)"

text \<open>A pure function that returns or raises, used in an effectful one.\<close>

definition mlift :: "exn + 'a \<Rightarrow> ('w, 'a) prog" where
  "mlift r w = (r, w)"

definition mwhen :: "bool \<Rightarrow> ('w, unit) prog \<Rightarrow> ('w, unit) prog" where
  "mwhen b m = (if b then m else mret ())"

primrec mfor :: "'a list \<Rightarrow> ('a \<Rightarrow> ('w, unit) prog) \<Rightarrow> ('w, unit) prog" where
  "mfor [] f = mret ()"
| "mfor (x # xs) f = mseq (f x) (mfor xs f)"

text \<open>One step for each element, the results in order.\<close>

fun mcollect :: "('a \<Rightarrow> ('w, 'b) prog) \<Rightarrow> 'a list \<Rightarrow> ('w, 'b list) prog" where
  "mcollect f [] = mret []"
| "mcollect f (x # xs) = mbind (f x) (\<lambda>y. mbind (mcollect f xs) (\<lambda>ys. mret (y # ys)))"

lemma mbind_Inr: "(mbind m f w = (Inr y, v)) = (\<exists>x u. m w = (Inr x, u) \<and> f x u = (Inr y, v))"
  by (auto simp: mbind_def split: prod.splits sum.splits)

text \<open>The same for pure functions: values of type \<open>exn + 'a\<close>.\<close>

definition ebind :: "exn + 'a \<Rightarrow> ('a \<Rightarrow> exn + 'b) \<Rightarrow> exn + 'b" where
  "ebind r f = (case r of Inl e \<Rightarrow> Inl e | Inr x \<Rightarrow> f x)"

lemma ebind_simps [simp]: "ebind (Inl e) f = Inl e" "ebind (Inr x) f = f x"
  by (simp_all add: ebind_def)

lemma ebind_Inr: "(ebind r f = Inr y) = (\<exists>x. r = Inr x \<and> f x = Inr y)"
  by (cases r) simp_all

text \<open>A list comprehension whose body, or whose condition, may raise.\<close>

fun emap :: "('a \<Rightarrow> exn + 'b) \<Rightarrow> 'a list \<Rightarrow> exn + 'b list" where
  "emap f [] = Inr []"
| "emap f (x # xs) = ebind (f x) (\<lambda>y. ebind (emap f xs) (\<lambda>ys. Inr (y # ys)))"

fun efilter :: "('a \<Rightarrow> exn + bool) \<Rightarrow> 'a list \<Rightarrow> exn + 'a list" where
  "efilter p [] = Inr []"
| "efilter p (x # xs) = ebind (p x) (\<lambda>b. ebind (efilter p xs) (\<lambda>ys. Inr (if b then x # ys else ys)))"

lemma emap_Inr: "(emap f xs = Inr ys) = (map f xs = map Inr ys)"
  by (induction f xs arbitrary: ys rule: emap.induct)
    (auto simp: ebind_def split: sum.splits, metis list.collapse)

definition the_ok :: "exn + 'a \<Rightarrow> 'a option" where
  "the_ok r = (case r of Inl _ \<Rightarrow> None | Inr x \<Rightarrow> Some x)"

lemma the_ok_simps [simp]: "the_ok (Inl e) = None" "the_ok (Inr x) = Some x"
  by (simp_all add: the_ok_def)

lemmas prog_defs =
  mret_def mraise_def mbind_def mseq_def mtry_def mlogged_def mget_def mput_def mlift_def mwhen_def

section \<open>Weakest preconditions\<close>

text \<open>
  \<open>wp m Q w\<close>: run from \<open>w\<close>, the program \<open>m\<close> ends with an outcome and a state that satisfy \<open>Q\<close>.
  The rules of \<open>wp\<close> push a postcondition backwards through a program.
\<close>

named_theorems wp \<open>weakest-precondition rules of the modelled operations\<close>

definition wp :: "('w, 'a) prog \<Rightarrow> (exn + 'a \<Rightarrow> 'w \<Rightarrow> bool) \<Rightarrow> 'w \<Rightarrow> bool" where
  "wp m Q w = (case m w of (r, w') \<Rightarrow> Q r w')"

lemma wp_ret [wp]: "wp (mret x) Q w = Q (Inr x) w"
  by (simp add: wp_def mret_def)

lemma wp_raise [wp]: "wp (mraise e) Q w = Q (Inl e) w"
  by (simp add: wp_def mraise_def)

lemma wp_bind [wp]:
  "wp (mbind m f) Q w =
     wp m (\<lambda>r w'. case r of Inl e \<Rightarrow> Q (Inl e) w' | Inr x \<Rightarrow> wp (f x) Q w') w"
  by (auto simp: wp_def mbind_def split: prod.splits sum.splits)

lemma wp_seq [wp]:
  "wp (mseq m k) Q w =
     wp m (\<lambda>r w'. case r of Inl e \<Rightarrow> Q (Inl e) w' | Inr x \<Rightarrow> wp k Q w') w"
  by (simp add: mseq_def wp_bind)

lemma wp_try [wp]:
  "wp (mtry m h) Q w =
     wp m (\<lambda>r w'. case r of Inl e \<Rightarrow> wp (h e) Q w' | Inr x \<Rightarrow> Q (Inr x) w') w"
  by (auto simp: wp_def mtry_def split: prod.splits sum.splits)

lemma wp_logged [wp]: "wp (mlogged m) Q w = wp m (\<lambda>r w'. Q (Inr ()) w') w"
  by (auto simp: mlogged_def mtry_def mret_def wp_def split: prod.splits sum.splits)

lemma wp_get [wp]: "wp (mget f) Q w = Q (Inr (f w)) w"
  by (simp add: wp_def mget_def)

lemma wp_put [wp]: "wp (mput f) Q w = Q (Inr ()) (f w)"
  by (simp add: wp_def mput_def)

lemma wp_lift [wp]: "wp (mlift r) Q w = Q r w"
  by (simp add: wp_def mlift_def)

lemma wp_when [wp]: "wp (mwhen b m) Q w = (if b then wp m Q w else Q (Inr ()) w)"
  by (simp add: mwhen_def wp_ret)

lemma wp_run: "wp m Q w \<Longrightarrow> Q (fst (m w)) (snd (m w))"
  by (simp add: wp_def split: prod.splits)

lemma wp_mono: "wp m Q w \<Longrightarrow> (\<And>r w'. m w = (r, w') \<Longrightarrow> Q r w' \<Longrightarrow> R r w') \<Longrightarrow> wp m R w"
  by (simp add: wp_def split: prod.splits)

lemma wp_conj: "wp m (\<lambda>r w'. Q r w' \<and> R r w') w = (wp m Q w \<and> wp m R w)"
  by (simp add: wp_def split: prod.splits)

lemma wpI: "(\<And>r w'. m w = (r, w') \<Longrightarrow> Q r w') \<Longrightarrow> wp m Q w"
  by (simp add: wp_def split: prod.splits)

section \<open>Frame conditions\<close>

text \<open>
  \<open>moves R m\<close>: every run of \<open>m\<close>, whether it returns or raises, takes the state along \<open>R\<close>.  For a
  reflexive and transitive \<open>R\<close> the condition composes along the syntax of programs; the locale
  gives the rules once, and each frame condition of the development interprets it.
\<close>

named_theorems moves \<open>frame-condition rules of the modelled operations\<close>

definition moves :: "('w \<Rightarrow> 'w \<Rightarrow> bool) \<Rightarrow> ('w, 'a) prog \<Rightarrow> bool" where
  "moves R m = (\<forall>w. R w (snd (m w)))"

lemma movesD: "moves R m \<Longrightarrow> m w = (r, w') \<Longrightarrow> R w w'"
  by (metis moves_def snd_conv)

lemma movesI: "(\<And>w r w'. m w = (r, w') \<Longrightarrow> R w w') \<Longrightarrow> moves R m"
  by (metis moves_def surjective_pairing)

lemma moves_mono: "moves R m \<Longrightarrow> (\<And>w w'. R w w' \<Longrightarrow> S w w') \<Longrightarrow> moves S m"
  by (simp add: moves_def)

lemma moves_wp: "moves R m \<Longrightarrow> (\<And>r w'. R w w' \<Longrightarrow> Q r w') \<Longrightarrow> wp m Q w"
  by (simp add: moves_def wp_def split: prod.splits) (metis snd_conv)

text \<open>A first step of which only the frame matters.\<close>

lemma wp_bind_moves:
  "moves R m \<Longrightarrow> (\<And>e v. R w v \<Longrightarrow> Q (Inl e) v) \<Longrightarrow> (\<And>x v. R w v \<Longrightarrow> wp (f x) Q v) \<Longrightarrow>
   wp (mbind m f) Q w"
  unfolding wp_bind by (erule moves_wp) (auto split: sum.split)

lemma wp_seq_moves:
  "moves R m \<Longrightarrow> (\<And>e v. R w v \<Longrightarrow> Q (Inl e) v) \<Longrightarrow> (\<And>v. R w v \<Longrightarrow> wp k Q v) \<Longrightarrow>
   wp (mseq m k) Q w"
  unfolding mseq_def by (rule wp_bind_moves)

locale frame =
  fixes R :: "'w \<Rightarrow> 'w \<Rightarrow> bool"
  assumes refl: "R w w"
    and trans: "R u v \<Longrightarrow> R v w \<Longrightarrow> R u w"
begin

lemma ret: "moves R (mret x)"
  by (simp add: moves_def mret_def refl)

lemma raise: "moves R (mraise e)"
  by (simp add: moves_def mraise_def refl)

lemma get: "moves R (mget f)"
  by (simp add: moves_def mget_def refl)

lemma lift: "moves R (mlift r)"
  by (simp add: moves_def mlift_def refl)

lemma bind: "moves R m \<Longrightarrow> (\<And>x. moves R (f x)) \<Longrightarrow> moves R (mbind m f)"
  by (auto simp: moves_def mbind_def split: prod.splits sum.splits) (metis snd_conv trans)+

lemma seq: "moves R m \<Longrightarrow> moves R k \<Longrightarrow> moves R (mseq m k)"
  by (simp add: mseq_def bind)

lemma catch: "moves R m \<Longrightarrow> (\<And>e. moves R (h e)) \<Longrightarrow> moves R (mtry m h)"
  by (auto simp: moves_def mtry_def split: prod.splits sum.splits) (metis snd_conv trans)+

lemma logged: "moves R m \<Longrightarrow> moves R (mlogged m)"
  by (simp add: mlogged_def catch ret)

lemma whens: "(b \<Longrightarrow> moves R m) \<Longrightarrow> moves R (mwhen b m)"
  by (simp add: mwhen_def ret)

lemma for_each: "(\<And>x. x \<in> set xs \<Longrightarrow> moves R (f x)) \<Longrightarrow> moves R (mfor xs f)"
  by (induction xs) (simp_all add: ret seq)

lemma collect: "(\<And>x. x \<in> set xs \<Longrightarrow> moves R (f x)) \<Longrightarrow> moves R (mcollect f xs)"
  by (induction xs) (auto intro!: ret bind)

lemmas rules = ret raise get lift bind seq catch logged whens for_each collect

end

section \<open>Programs that return\<close>

text \<open>\<open>returns m\<close>: from every state \<open>m\<close> returns a value; no exception escapes.\<close>

named_theorems returns \<open>rules for programs that return\<close>

definition returns :: "('w, 'a) prog \<Rightarrow> bool" where
  "returns m = (\<forall>w. \<exists>x w'. m w = (Inr x, w'))"

lemma returnsD: "returns m \<Longrightarrow> \<exists>x w'. m w = (Inr x, w')"
  by (simp add: returns_def)

lemma returns_ret [returns]: "returns (mret x)"
  by (simp add: returns_def mret_def)

lemma returns_get [returns]: "returns (mget f)"
  by (simp add: returns_def mget_def)

lemma returns_put [returns]: "returns (mput f)"
  by (simp add: returns_def mput_def)

lemma returns_lift [returns]: "returns (mlift (Inr x))"
  by (simp add: returns_def mlift_def)

lemma returns_bind [returns]:
  assumes "returns m" "\<And>x. returns (f x)"
  shows "returns (mbind m f)"
  unfolding returns_def
proof
  fix w
  obtain x v where "m w = (Inr x, v)" using returnsD [OF assms(1)] by blast
  moreover obtain y u where "f x v = (Inr y, u)" using returnsD [OF assms(2)] by blast
  ultimately show "\<exists>x w'. mbind m f w = (Inr x, w')" by (simp add: mbind_def)
qed

lemma returns_seq [returns]: "returns m \<Longrightarrow> returns k \<Longrightarrow> returns (mseq m k)"
  unfolding mseq_def by (rule returns_bind)

lemma returns_try [returns]:
  assumes "\<And>e. returns (h e)"
  shows "returns (mtry m h)"
  unfolding returns_def
proof
  fix w
  show "\<exists>x w'. mtry m h w = (Inr x, w')"
    using returnsD [OF assms] by (auto simp: mtry_def split: prod.split sum.split)
qed

lemma returns_logged [returns]: "returns (mlogged m)"
  unfolding mlogged_def by (intro returns)

lemma returns_when [returns]: "(b \<Longrightarrow> returns m) \<Longrightarrow> returns (mwhen b m)"
  by (simp add: mwhen_def returns_ret)

lemma returns_for [returns]: "(\<And>x. x \<in> set xs \<Longrightarrow> returns (f x)) \<Longrightarrow> returns (mfor xs f)"
  by (induction xs) (simp_all add: returns_ret returns_seq)

section \<open>Association lists\<close>

text \<open>A Python dict: insertion-ordered, one entry per key.\<close>

fun dict_set :: "'k \<Rightarrow> 'v \<Rightarrow> ('k \<times> 'v) list \<Rightarrow> ('k \<times> 'v) list" where
  "dict_set k v [] = [(k, v)]"
| "dict_set k v ((k', v') # d) = (if k = k' then (k, v) # d else (k', v') # dict_set k v d)"

definition dict_del :: "'k \<Rightarrow> ('k \<times> 'v) list \<Rightarrow> ('k \<times> 'v) list" where
  "dict_del k d = filter (\<lambda>(k', _). k' \<noteq> k) d"

lemma map_of_dict_set [simp]: "map_of (dict_set k v d) = (map_of d)(k \<mapsto> v)"
  by (induction k v d rule: dict_set.induct) auto

lemma map_of_dict_del [simp]: "map_of (dict_del k d) = (map_of d)(k := None)"
  by (induction d) (auto simp: dict_del_def)

lemma keys_dict_set: "fst ` set (dict_set k v d) = insert k (fst ` set d)"
  by (induction k v d rule: dict_set.induct) auto

lemma distinct_dict_set [simp]: "distinct (map fst d) \<Longrightarrow> distinct (map fst (dict_set k v d))"
  by (induction k v d rule: dict_set.induct) (auto simp: keys_dict_set)

lemma distinct_dict_del [simp]: "distinct (map fst d) \<Longrightarrow> distinct (map fst (dict_del k d))"
  by (induction d) (auto simp: dict_del_def)

end
