(* ===== verification/PyVal.thy ===== *)
theory PyVal
  imports Prelude "HOL-Library.Sublist"
begin

text \<open>
  Python values as the modelled code sees them: dynamically typed data that came from JSON, the
  string methods the code calls, number literals, UUIDs, and the text of a value in Redis.
  Strings are ASCII; \<open>str\<close> of a float, a Decimal or a container is a parameter wherever the code
  builds a text with it.
\<close>

section \<open>Dynamically typed values\<close>

text \<open>\<open>JNum\<close> is a \<open>float\<close>, \<open>JDec\<close> a \<open>Decimal\<close> (in dicts the code builds itself).\<close>

datatype json =
    JNull | JBool bool | JInt int | JNum rat | JDec rat | JStr string
  | JArr "json list" | JObj "(string \<times> json) list"

text \<open>The truth value of an object.\<close>

fun truthy :: "json \<Rightarrow> bool" where
  "truthy JNull = False"
| "truthy (JBool b) = b"
| "truthy (JInt i) = (i \<noteq> 0)"
| "truthy (JNum x) = (x \<noteq> 0)"
| "truthy (JDec x) = (x \<noteq> 0)"
| "truthy (JStr s) = (s \<noteq> [])"
| "truthy (JArr xs) = (xs \<noteq> [])"
| "truthy (JObj d) = (d \<noteq> [])"

text \<open>\<open>d.get(k, default)\<close> of a dict, and of an arbitrary object.\<close>

definition dict_get :: "string \<Rightarrow> json \<Rightarrow> (string \<times> json) list \<Rightarrow> json" where
  "dict_get k dflt d = (case map_of d k of None \<Rightarrow> dflt | Some v \<Rightarrow> v)"

fun obj_get :: "json \<Rightarrow> string \<Rightarrow> json \<Rightarrow> exn + json" where
  "obj_get (JObj d) k dflt = Inr (dict_get k dflt d)"
| "obj_get _ k dflt = Inl AttributeError"

text \<open>\<open>a or b\<close>.\<close>

definition py_or :: "json \<Rightarrow> json \<Rightarrow> json" where
  "py_or a b = (if truthy a then a else b)"

definition opt_json :: "('a \<Rightarrow> json) \<Rightarrow> 'a option \<Rightarrow> json" where
  "opt_json f x = (case x of None \<Rightarrow> JNull | Some v \<Rightarrow> f v)"

text \<open>What iterating over an object gives, if it is possible.\<close>

fun list_items :: "json \<Rightarrow> exn + json list" where
  "list_items (JArr xs) = Inr xs"
| "list_items (JObj d) = Inr (map (\<lambda>(k, v). JStr k) d)"
| "list_items (JStr s) = Inr (map (\<lambda>c. JStr [c]) s)"
| "list_items _ = Inl TypeError"

section \<open>Strings\<close>

definition upper_char :: "char \<Rightarrow> char" where
  "upper_char c = (let n = of_char c :: nat in if 97 \<le> n \<and> n \<le> 122 then char_of (n - 32) else c)"

definition lower_char :: "char \<Rightarrow> char" where
  "lower_char c = (let n = of_char c :: nat in if 65 \<le> n \<and> n \<le> 90 then char_of (n + 32) else c)"

definition upper :: "string \<Rightarrow> string" where
  "upper = map upper_char"

definition lower :: "string \<Rightarrow> string" where
  "lower = map lower_char"

lemma upper_char_idem [simp]: "upper_char (upper_char c) = upper_char c"
  by (auto simp: upper_char_def Let_def)

lemma upper_idem [simp]: "upper (upper s) = upper s"
  by (simp add: upper_def)

lemma length_upper [simp]: "length (upper s) = length s"
  by (simp add: upper_def)

definition is_space :: "char \<Rightarrow> bool" where
  "is_space c = (let n = of_char c :: nat in (9 \<le> n \<and> n \<le> 13) \<or> (28 \<le> n \<and> n \<le> 32))"

definition strip :: "string \<Rightarrow> string" where
  "strip s = rev (dropWhile is_space (rev (dropWhile is_space s)))"

definition startswith :: "string \<Rightarrow> string \<Rightarrow> bool" where
  "startswith p s = (take (length p) s = p)"

text \<open>\<open>s.split(c)\<close> for a one-character separator.\<close>

fun split_on :: "char \<Rightarrow> string \<Rightarrow> string list" where
  "split_on c [] = [[]]"
| "split_on c (x # xs) =
     (if x = c then [] # split_on c xs
      else case split_on c xs of [] \<Rightarrow> [[x]] | w # ws \<Rightarrow> (x # w) # ws)"

text \<open>\<open>sub in s\<close> on strings.\<close>

fun contains :: "string \<Rightarrow> string \<Rightarrow> bool" where
  "contains p [] = (p = [])"
| "contains p (c # s) = (startswith p (c # s) \<or> contains p s)"

definition join :: "string \<Rightarrow> string list \<Rightarrow> string" where
  "join sep ws = (case ws of [] \<Rightarrow> [] | w # ws' \<Rightarrow> w @ concat (map (\<lambda>v. sep @ v) ws'))"

section \<open>Quotes\<close>

text \<open>A text in single quotes.\<close>

definition quoted :: "string \<Rightarrow> string" where
  "quoted s = CHR 0x27 # s @ [CHR 0x27]"

text \<open>\<open>repr\<close> of a text.\<close>

definition repr_char :: "char \<Rightarrow> char \<Rightarrow> string" where
  "repr_char q c =
     (let n = of_char c :: nat; hex = (\<lambda>k. char_of (if k < 10 then k + 48 else k + 87 :: nat)) in
      if c = q \<or> c = CHR 0x5C then [CHR 0x5C, c]
      else if c = CHR 0x0A then [CHR 0x5C, CHR ''n'']
      else if c = CHR 0x0D then [CHR 0x5C, CHR ''r'']
      else if c = CHR 0x09 then [CHR 0x5C, CHR ''t'']
      else if n < 32 \<or> n = 127 then [CHR 0x5C, CHR ''x'', hex (n div 16), hex (n mod 16)]
      else [c])"

definition repr_str :: "string \<Rightarrow> string" where
  "repr_str s =
     (let q = (if CHR 0x27 \<in> set s \<and> CHR 0x22 \<notin> set s then CHR 0x22 else CHR 0x27)
      in q # concat (map (repr_char q) s) @ [q])"

text \<open>\<open>str\<close> of a list of texts.\<close>

definition repr_list :: "string list \<Rightarrow> string" where
  "repr_list xs = CHR ''['' # join '', '' (map repr_str xs) @ '']''"

section \<open>Decimal digits\<close>

definition digit_char :: "int \<Rightarrow> char" where
  "digit_char d = char_of (nat (48 + d))"

function show_pos :: "int \<Rightarrow> string" where
  "show_pos n = (if n < 10 then [digit_char n] else show_pos (n div 10) @ [digit_char (n mod 10)])"
  by pat_completeness auto
termination
  by (relation "measure nat") auto

declare show_pos.simps [simp del]

definition show_int :: "int \<Rightarrow> string" where
  "show_int i = (if i < 0 then CHR ''-'' # show_pos (- i) else show_pos i)"

definition digit_val :: "char \<Rightarrow> int option" where
  "digit_val c = (let n = of_char c :: nat in if 48 \<le> n \<and> n \<le> 57 then Some (int n - 48) else None)"

definition is_digit :: "char \<Rightarrow> bool" where
  "is_digit c = (digit_val c \<noteq> None)"

definition digits_val :: "string \<Rightarrow> int" where
  "digits_val s = fold (\<lambda>c n. 10 * n + the (digit_val c)) s 0"

text \<open>An optionally signed run of digits, as in \<open>int(s)\<close>.\<close>

definition split_sign :: "string \<Rightarrow> bool \<times> string" where
  "split_sign s =
     (case s of c # r \<Rightarrow> if c = CHR ''-'' then (True, r) else if c = CHR ''+'' then (False, r)
                       else (False, s)
      | [] \<Rightarrow> (False, []))"

definition parse_int :: "string \<Rightarrow> int option" where
  "parse_int s =
     (let (neg, r) = split_sign (strip s)
      in if r \<noteq> [] \<and> list_all is_digit r
         then Some (if neg then - digits_val r else digits_val r) else None)"

lemma digit_val_digit_char [simp]: "0 \<le> d \<Longrightarrow> d < 10 \<Longrightarrow> digit_val (digit_char d) = Some d"
  by (simp add: digit_val_def digit_char_def Let_def nat_le_iff nat_less_iff)

lemma is_digit_digit_char [simp]: "0 \<le> d \<Longrightarrow> d < 10 \<Longrightarrow> is_digit (digit_char d)"
  by (simp add: is_digit_def)

lemma show_pos_digits: "0 \<le> n \<Longrightarrow> list_all is_digit (show_pos n)"
proof (induction n rule: show_pos.induct)
  case (1 n)
  then show ?case by (subst show_pos.simps) simp
qed

lemma show_pos_not_Nil [simp]: "show_pos n \<noteq> []"
  by (subst show_pos.simps) simp

lemma digits_val_show_pos: "0 \<le> n \<Longrightarrow> digits_val (show_pos n) = n"
proof (induction n rule: show_pos.induct)
  case (1 n)
  then show ?case by (subst show_pos.simps) (simp add: digits_val_def)
qed

lemma digit_not_space: "is_digit c \<Longrightarrow> \<not> is_space c \<and> c \<noteq> CHR ''-'' \<and> c \<noteq> CHR ''+''"
  by (auto simp: is_digit_def digit_val_def is_space_def Let_def split: if_splits)

lemma strip_self: "s \<noteq> [] \<Longrightarrow> \<not> is_space (hd s) \<Longrightarrow> \<not> is_space (last s) \<Longrightarrow> strip s = s"
proof -
  assume s: "s \<noteq> []" "\<not> is_space (hd s)" "\<not> is_space (last s)"
  then have "dropWhile is_space s = s" "dropWhile is_space (rev s) = rev s"
    by (simp_all add: dropWhile_eq_self_iff hd_rev)
  then show "strip s = s" by (simp add: strip_def)
qed

lemma split_sign_digits: "0 \<le> n \<Longrightarrow> split_sign (show_pos n) = (False, show_pos n)"
  using show_pos_digits [of n] digit_not_space [of "hd (show_pos n)"]
  by (cases "show_pos n") (auto simp: split_sign_def)

lemma strip_digits:
  assumes "0 \<le> n"
  shows "strip (show_pos n) = show_pos n" "strip (CHR ''-'' # show_pos n) = CHR ''-'' # show_pos n"
proof -
  have d: "\<not> is_space CHR ''-''" by (simp add: is_space_def Let_def)
  have "is_digit c" if "c \<in> set (show_pos n)" for c
    using show_pos_digits [OF assms] that by (simp add: list_all_iff)
  then have "\<not> is_space (hd (show_pos n))" "\<not> is_space (last (show_pos n))"
    by (simp_all add: digit_not_space)
  with d show "strip (show_pos n) = show_pos n" "strip (CHR ''-'' # show_pos n) = CHR ''-'' # show_pos n"
    by (simp_all add: strip_self)
qed

lemma parse_int_show_int [simp]: "parse_int (show_int i) = Some i"
proof -
  have "split_sign (CHR ''-'' # x) = (True, x)" for x by (simp add: split_sign_def)
  then show ?thesis
    by (simp add: parse_int_def show_int_def digits_val_show_pos split_sign_digits strip_digits
        show_pos_digits)
qed

lemma show_int_inject [simp]: "(show_int i = show_int j) = (i = j)"
  by (metis option.inject parse_int_show_int)

text \<open>
  A number literal \<open>[sign] digits [. digits] [e [sign] digits]\<close>, with a digit on at least one side
  of the point; its value is exact.  The words for infinities and NaNs are not numbers here.
\<close>

definition parse_exponent :: "string \<Rightarrow> int option" where
  "parse_exponent s =
     (case s of [] \<Rightarrow> Some 0
      | c # r \<Rightarrow>
          if c = CHR ''e'' \<or> c = CHR ''E''
          then let (neg, ds) = split_sign r
               in if ds \<noteq> [] \<and> list_all is_digit ds
                  then Some (if neg then - digits_val ds else digits_val ds) else None
          else None)"

definition parse_number :: "string \<Rightarrow> rat option" where
  "parse_number s =
     (let (neg, r) = split_sign (strip s);
          ip = takeWhile is_digit r;
          r1 = dropWhile is_digit r;
          (fp, r2) = (case r1 of c # r' \<Rightarrow>
                        if c = CHR ''.'' then (takeWhile is_digit r', dropWhile is_digit r')
                        else ([], r1)
                      | [] \<Rightarrow> ([], []))
      in if ip = [] \<and> fp = [] then None
         else case parse_exponent r2 of None \<Rightarrow> None
              | Some e \<Rightarrow>
                  Some ((if neg then - 1 else 1) * of_int (digits_val (ip @ fp)) *
                        power_int 10 (e - int (length fp))))"

text \<open>\<open>Decimal(v)\<close>, \<open>int(v)\<close> and \<open>float(v)\<close>.  \<open>Decimal\<close> of a string drops underscores.\<close>

definition dec_literal :: "string \<Rightarrow> exn + rat" where
  "dec_literal s =
     (case parse_number (filter (\<lambda>c. c \<noteq> CHR ''_'') s) of
        None \<Rightarrow> Inl InvalidOperation | Some x \<Rightarrow> Inr x)"

fun py_decimal :: "json \<Rightarrow> exn + rat" where
  "py_decimal (JStr s) = dec_literal s"
| "py_decimal (JInt i) = Inr (of_int i)"
| "py_decimal (JNum x) = Inr x"
| "py_decimal (JDec x) = Inr x"
| "py_decimal (JBool b) = Inr (if b then 1 else 0)"
| "py_decimal (JArr xs) = Inl ValueError"
| "py_decimal JNull = Inl TypeError"
| "py_decimal (JObj d) = Inl TypeError"

definition trunc :: "rat \<Rightarrow> int" where
  "trunc x = (if 0 \<le> x then \<lfloor>x\<rfloor> else - \<lfloor>- x\<rfloor>)"

fun py_int :: "json \<Rightarrow> exn + int" where
  "py_int (JStr s) = (case parse_int s of None \<Rightarrow> Inl ValueError | Some i \<Rightarrow> Inr i)"
| "py_int (JInt i) = Inr i"
| "py_int (JNum x) = Inr (trunc x)"
| "py_int (JDec x) = Inr (trunc x)"
| "py_int (JBool b) = Inr (if b then 1 else 0)"
| "py_int _ = Inl TypeError"

fun py_float :: "json \<Rightarrow> exn + rat" where
  "py_float (JStr s) = (case parse_number s of None \<Rightarrow> Inl ValueError | Some x \<Rightarrow> Inr (fl x))"
| "py_float (JInt i) = Inr (fl (of_int i))"
| "py_float (JNum x) = Inr x"
| "py_float (JDec x) = Inr (fl x)"
| "py_float (JBool b) = Inr (if b then 1 else 0)"
| "py_float _ = Inl TypeError"

text \<open>
  \<open>x.quantize(Decimal("1e-n"))\<close>: half-even to \<open>n\<close> places; a result of more than 28 digits raises.
\<close>

definition quantize :: "nat \<Rightarrow> rat \<Rightarrow> exn + rat" where
  "quantize n x =
     (let c = round_half_even (x * 10 ^ n)
      in if \<bar>c\<bar> < 10 ^ 28 then Inr (of_int c / 10 ^ n) else Inl InvalidOperation)"

lemma quantize_error:
  assumes "quantize n x = Inr y"
  shows "\<bar>y - x\<bar> \<le> 1 / (2 * 10 ^ n)"
proof -
  have y: "y = of_int (round_half_even (x * 10 ^ n)) / 10 ^ n"
    using assms by (auto simp: quantize_def Let_def split: if_splits)
  have "y - x = (of_int (round_half_even (x * 10 ^ n)) - x * 10 ^ n) / 10 ^ n"
    by (simp add: y diff_divide_distrib)
  then have "\<bar>y - x\<bar> = \<bar>of_int (round_half_even (x * 10 ^ n)) - x * 10 ^ n\<bar> / 10 ^ n"
    by (simp add: abs_divide)
  also have "\<dots> \<le> (1 / 2) / 10 ^ n"
    by (intro divide_right_mono round_half_even_error) simp
  finally show ?thesis by simp
qed

lemma quantize_nonneg: "quantize n x = Inr y \<Longrightarrow> 0 \<le> x \<Longrightarrow> 0 \<le> y"
  using round_half_even_mono [of 0 "x * 10 ^ n"] round_half_even_of_int [of 0]
  by (auto simp: quantize_def Let_def split: if_splits)

text \<open>\<open>str(v)\<close>, given the text \<open>sh\<close> of floats, Decimals and containers.\<close>

fun py_str :: "(json \<Rightarrow> string) \<Rightarrow> json \<Rightarrow> string" where
  "py_str sh JNull = ''None''"
| "py_str sh (JBool b) = (if b then ''True'' else ''False'')"
| "py_str sh (JInt i) = show_int i"
| "py_str sh (JStr s) = s"
| "py_str sh v = sh v"

section \<open>UUIDs\<close>

text \<open>
  A \<open>uuid.UUID\<close> is its canonical text: 32 lower-case hexadecimal digits in groups of 8, 4, 4, 4
  and 12.  \<open>parse_uuid\<close> is the constructor on a string: it drops \<open>urn:\<close>, \<open>uuid:\<close>, braces and
  hyphens and wants 32 hexadecimal digits.
\<close>

type_synonym uuid = string

definition is_hex :: "char \<Rightarrow> bool" where
  "is_hex c = (let n = of_char c :: nat in (48 \<le> n \<and> n \<le> 57) \<or> (65 \<le> n \<and> n \<le> 70) \<or> (97 \<le> n \<and> n \<le> 102))"

function remove_all :: "string \<Rightarrow> string \<Rightarrow> string" where
  "remove_all p s =
     (case s of [] \<Rightarrow> []
      | c # r \<Rightarrow> if p \<noteq> [] \<and> startswith p s then remove_all p (drop (length p) s)
                 else c # remove_all p r)"
  by pat_completeness auto
termination
  by (relation "measure (\<lambda>(p, s). length s)") auto

definition parse_uuid :: "string \<Rightarrow> uuid option" where
  "parse_uuid s =
     (let s1 = remove_all ''uuid:'' (remove_all ''urn:'' s);
          brace = (\<lambda>c. c = CHR ''{'' \<or> c = CHR ''}'');
          s2 = rev (dropWhile brace (rev (dropWhile brace s1)));
          h = filter (\<lambda>c. c \<noteq> CHR ''-'') s2
      in if length h = 32 \<and> list_all is_hex h
         then let l = lower h in
           Some (join ''-'' [take 8 l, take 4 (drop 8 l), take 4 (drop 12 l), take 4 (drop 16 l),
                             drop 20 l])
         else None)"

section \<open>Texts in Redis\<close>

text \<open>
  A stored text is either a JSON text, kept as the value \<open>json.loads\<close> gives, or any other text,
  which the program only reads as plain text.
\<close>

datatype rtext = Raw string | Json json

definition text_truthy :: "rtext option \<Rightarrow> bool" where
  "text_truthy t = (case t of None \<Rightarrow> False | Some (Raw s) \<Rightarrow> s \<noteq> [] | Some (Json _) \<Rightarrow> True)"

fun json_loads :: "rtext \<Rightarrow> exn + json" where
  "json_loads (Json j) = Inr j"
| "json_loads (Raw s) = Inl JSONDecodeError"

end
