(* ===== verification/Schemas.thy ===== *)
theory Schemas
  imports PyVal
begin

text \<open>
  The shared data model (\<open>shared/schemas\<close>, \<open>shared/risk/limits.py\<close>): the enumerations with their
  string values, trade intents, execution requests and risk decisions.  A \<open>datetime\<close> is its
  microseconds since the epoch.
\<close>

section \<open>Enumerations\<close>

datatype market_type = SPOT | FUTURES

datatype approval_level =
  L0_READONLY | L1_SIMULATION | L2_PAPER | L3_ASSISTED_LIVE | L4_BOUNDED_AUTO

datatype trading_mode = PAPER | LIVE

datatype order_side = BUY | SELL

datatype order_type =
    LIMIT | MARKET | STOP | STOP_MARKET | TAKE_PROFIT | TAKE_PROFIT_MARKET
  | TRAILING_STOP_MARKET | LIMIT_MAKER

datatype time_in_force = GTC | IOC | FOK | GTX | GTD

datatype strategy_state =
    DRAFT | SIMULATION | PAPER_ACTIVE | ASSISTED_LIVE | BOUNDED_AUTO_LIVE | PAUSED
  | ROLLED_BACK | ARCHIVED

fun market_type_value :: "market_type \<Rightarrow> string" where
  "market_type_value SPOT = ''spot''"
| "market_type_value FUTURES = ''futures''"

fun approval_level_value :: "approval_level \<Rightarrow> string" where
  "approval_level_value L0_READONLY = ''l0_readonly''"
| "approval_level_value L1_SIMULATION = ''l1_simulation''"
| "approval_level_value L2_PAPER = ''l2_paper''"
| "approval_level_value L3_ASSISTED_LIVE = ''l3_assisted_live''"
| "approval_level_value L4_BOUNDED_AUTO = ''l4_bounded_auto''"

fun trading_mode_value :: "trading_mode \<Rightarrow> string" where
  "trading_mode_value PAPER = ''paper''"
| "trading_mode_value LIVE = ''live''"

fun side_value :: "order_side \<Rightarrow> string" where
  "side_value BUY = ''BUY''"
| "side_value SELL = ''SELL''"

fun order_type_value :: "order_type \<Rightarrow> string" where
  "order_type_value LIMIT = ''LIMIT''"
| "order_type_value MARKET = ''MARKET''"
| "order_type_value STOP = ''STOP''"
| "order_type_value STOP_MARKET = ''STOP_MARKET''"
| "order_type_value TAKE_PROFIT = ''TAKE_PROFIT''"
| "order_type_value TAKE_PROFIT_MARKET = ''TAKE_PROFIT_MARKET''"
| "order_type_value TRAILING_STOP_MARKET = ''TRAILING_STOP_MARKET''"
| "order_type_value LIMIT_MAKER = ''LIMIT_MAKER''"

fun time_in_force_value :: "time_in_force \<Rightarrow> string" where
  "time_in_force_value GTC = ''GTC''"
| "time_in_force_value IOC = ''IOC''"
| "time_in_force_value FOK = ''FOK''"
| "time_in_force_value GTX = ''GTX''"
| "time_in_force_value GTD = ''GTD''"

fun strategy_state_value :: "strategy_state \<Rightarrow> string" where
  "strategy_state_value DRAFT = ''draft''"
| "strategy_state_value SIMULATION = ''simulation''"
| "strategy_state_value PAPER_ACTIVE = ''paper_active''"
| "strategy_state_value ASSISTED_LIVE = ''assisted_live''"
| "strategy_state_value BOUNDED_AUTO_LIVE = ''bounded_auto_live''"
| "strategy_state_value PAUSED = ''paused''"
| "strategy_state_value ROLLED_BACK = ''rolled_back''"
| "strategy_state_value ARCHIVED = ''archived''"

text \<open>The constructor of an enumeration on a string: \<open>ValueError\<close> for any other.\<close>

definition enum_of :: "('a \<Rightarrow> string) \<Rightarrow> 'a list \<Rightarrow> string \<Rightarrow> exn + 'a" where
  "enum_of value members s =
     (case find (\<lambda>x. value x = s) members of None \<Rightarrow> Inl ValueError | Some x \<Rightarrow> Inr x)"

definition approval_levels :: "approval_level list" where
  "approval_levels = [L0_READONLY, L1_SIMULATION, L2_PAPER, L3_ASSISTED_LIVE, L4_BOUNDED_AUTO]"

definition approval_level_of :: "string \<Rightarrow> exn + approval_level" where
  "approval_level_of = enum_of approval_level_value approval_levels"

definition trading_mode_of :: "string \<Rightarrow> exn + trading_mode" where
  "trading_mode_of = enum_of trading_mode_value [PAPER, LIVE]"

definition market_type_of :: "string \<Rightarrow> exn + market_type" where
  "market_type_of = enum_of market_type_value [SPOT, FUTURES]"

definition side_of :: "string \<Rightarrow> exn + order_side" where
  "side_of = enum_of side_value [BUY, SELL]"

definition order_type_of :: "string \<Rightarrow> exn + order_type" where
  "order_type_of = enum_of order_type_value
     [LIMIT, MARKET, STOP, STOP_MARKET, TAKE_PROFIT, TAKE_PROFIT_MARKET, TRAILING_STOP_MARKET,
      LIMIT_MAKER]"

definition strategy_states :: "strategy_state list" where
  "strategy_states =
     [DRAFT, SIMULATION, PAPER_ACTIVE, ASSISTED_LIVE, BOUNDED_AUTO_LIVE, PAUSED, ROLLED_BACK,
      ARCHIVED]"

definition strategy_state_of :: "string \<Rightarrow> exn + strategy_state" where
  "strategy_state_of = enum_of strategy_state_value strategy_states"

lemma enum_of_value:
  assumes "inj value" "x \<in> set members"
  shows "enum_of value members (value x) = Inr x"
proof -
  have "find (\<lambda>y. value y = value x) ms = Some x" if "x \<in> set ms" for ms
    using that by (induction ms) (auto dest: injD [OF assms(1)])
  with assms(2) show ?thesis by (simp add: enum_of_def)
qed

lemma inj_strategy_state_value: "inj strategy_state_value"
  by (rule injI) (case_tac x; case_tac y; simp)

lemma strategy_state_of_value [simp]: "strategy_state_of (strategy_state_value s) = Inr s"
  unfolding strategy_state_of_def
  by (rule enum_of_value [OF inj_strategy_state_value]) (cases s; simp add: strategy_states_def)

lemma inj_approval_level_value: "inj approval_level_value"
  by (rule injI) (case_tac x; case_tac y; simp)

lemma approval_level_of_value [simp]: "approval_level_of (approval_level_value s) = Inr s"
  unfolding approval_level_of_def
  by (rule enum_of_value [OF inj_approval_level_value]) (cases s; simp add: approval_levels_def)

section \<open>Trade intents and execution requests\<close>

record trade_intent =
  ti_intent_id :: uuid
  ti_strategy_id :: "uuid option"
  ti_strategy_version :: "int option"
  ti_symbol :: string
  ti_market_type :: market_type
  ti_side :: order_side
  ti_intent_type :: string
  ti_order_type :: order_type
  ti_size :: rat
  ti_size_usd :: "rat option"
  ti_limit_price :: "rat option"
  ti_stop_loss :: "rat option"
  ti_take_profit :: "rat option"
  ti_reduce_only :: bool
  ti_time_in_force :: time_in_force
  ti_position_side :: "string option"
  ti_explanation :: "(string \<times> json) list"
  ti_created_at :: int
  ti_expires_at :: "int option"
  ti_metadata :: "(string \<times> json) list"

record execution_request =
  rq_request_id :: uuid
  rq_job_id :: uuid
  rq_trade_intent :: trade_intent
  rq_user_id :: string
  rq_account_id :: string
  rq_trading_mode :: trading_mode
  rq_approval_level :: approval_level
  rq_source :: string
  rq_created_at :: int

record risk_decision =
  rd_passed :: bool
  rd_checks :: "(string \<times> bool) list"
  rd_failures :: "string list"
  rd_metadata :: "(string \<times> json) list"

record risk_limits =
  rl_max_position_size_usd :: rat
  rl_max_leverage :: rat
  rl_max_daily_loss_usd :: rat
  rl_max_concurrent_positions :: int
  rl_symbol_cooldown_seconds :: int
  rl_funding_window_filter :: bool
  rl_funding_threshold_pct :: rat
  rl_circuit_breaker_loss_pct :: rat
  rl_circuit_breaker_window_seconds :: int
  rl_large_trade_usd_threshold :: rat

definition default_risk_limits :: risk_limits where
  "default_risk_limits =
     \<lparr>rl_max_position_size_usd = 1000, rl_max_leverage = 5, rl_max_daily_loss_usd = 500,
      rl_max_concurrent_positions = 3, rl_symbol_cooldown_seconds = 300,
      rl_funding_window_filter = True, rl_funding_threshold_pct = 1 / 10,
      rl_circuit_breaker_loss_pct = 5, rl_circuit_breaker_window_seconds = 3600,
      rl_large_trade_usd_threshold = 10000\<rparr>"

text \<open>\<open>intent.model_dump(mode="json")\<close>: UUIDs, datetimes and Decimals become strings.\<close>

definition dump_opt_dec :: "(json \<Rightarrow> string) \<Rightarrow> rat option \<Rightarrow> json" where
  "dump_opt_dec sh = opt_json (\<lambda>x. JStr (py_str sh (JDec x)))"

definition dump_intent :: "(json \<Rightarrow> string) \<Rightarrow> (int \<Rightarrow> string) \<Rightarrow> trade_intent \<Rightarrow> json" where
  "dump_intent sh isof i =
     JObj [(''intent_id'', JStr (ti_intent_id i)),
           (''strategy_id'', opt_json JStr (ti_strategy_id i)),
           (''strategy_version'', opt_json JInt (ti_strategy_version i)),
           (''symbol'', JStr (ti_symbol i)),
           (''market_type'', JStr (market_type_value (ti_market_type i))),
           (''side'', JStr (side_value (ti_side i))),
           (''intent_type'', JStr (ti_intent_type i)),
           (''order_type'', JStr (order_type_value (ti_order_type i))),
           (''size'', JStr (py_str sh (JDec (ti_size i)))),
           (''size_usd'', dump_opt_dec sh (ti_size_usd i)),
           (''limit_price'', dump_opt_dec sh (ti_limit_price i)),
           (''stop_loss'', dump_opt_dec sh (ti_stop_loss i)),
           (''take_profit'', dump_opt_dec sh (ti_take_profit i)),
           (''reduce_only'', JBool (ti_reduce_only i)),
           (''time_in_force'', JStr (time_in_force_value (ti_time_in_force i))),
           (''position_side'', opt_json JStr (ti_position_side i)),
           (''explanation'', JObj (ti_explanation i)),
           (''created_at'', JStr (isof (ti_created_at i))),
           (''expires_at'', opt_json (\<lambda>t. JStr (isof t)) (ti_expires_at i)),
           (''metadata'', JObj (ti_metadata i))]"

end
