(* ===== verification/RedisStore.thy ===== *)
theory RedisStore
  imports Schemas
begin

text \<open>
  Redis is a service outside the repository: the model takes its commands as the argument
  \<open>ops :: 'r redis_ops\<close> on a state of any type \<open>'r\<close>, and each may fail.  The locale \<open>redis\<close> states
  the documented behaviour the program relies on, over \<open>live\<close>, the keys and texts a reader sees;
  \<open>timed_redis\<close> adds expiry.  A store in memory whose commands follow a script of failures
  interprets both, and is where the witnesses run.  The key builders are those of
  \<open>shared/redis/keys.py\<close>.
\<close>

section \<open>Keys and streams\<close>

definition key2 :: "string \<Rightarrow> string \<Rightarrow> string \<Rightarrow> string \<Rightarrow> string" where
  "key2 p a b q = p @ '':'' @ a @ '':'' @ b @ '':'' @ q"

definition market_price_key :: "string \<Rightarrow> string \<Rightarrow> string" where
  "market_price_key mt symbol = key2 ''market'' mt symbol ''price''"

definition market_book_key :: "string \<Rightarrow> string \<Rightarrow> string" where
  "market_book_key mt symbol = key2 ''market'' mt symbol ''book''"

definition market_book_ticker_key :: "string \<Rightarrow> string \<Rightarrow> string" where
  "market_book_ticker_key mt symbol = key2 ''market'' mt symbol ''book_ticker''"

definition market_mark_key :: "string \<Rightarrow> string \<Rightarrow> string" where
  "market_mark_key mt symbol = key2 ''market'' mt symbol ''mark''"

definition market_funding_key :: "string \<Rightarrow> string \<Rightarrow> string" where
  "market_funding_key mt symbol = key2 ''market'' mt symbol ''funding''"

definition market_klines_key :: "string \<Rightarrow> string \<Rightarrow> string \<Rightarrow> string" where
  "market_klines_key mt symbol interval = key2 ''market'' mt symbol (''klines:'' @ interval)"

definition analytics_snapshot_key :: "string \<Rightarrow> string \<Rightarrow> string" where
  "analytics_snapshot_key mt symbol = key2 ''analytics'' mt symbol ''snapshot''"

definition strategy_active_key :: "string \<Rightarrow> string" where
  "strategy_active_key strategy_id = ''strategy:'' @ strategy_id @ '':active''"

definition kill_switch_key :: "string \<Rightarrow> string" where
  "kill_switch_key account_id = ''kill_switch:'' @ account_id"

definition user_pause_key :: "string \<Rightarrow> string" where
  "user_pause_key account_id = ''pause:user:'' @ account_id"

definition symbol_pause_key :: "string \<Rightarrow> string \<Rightarrow> string" where
  "symbol_pause_key account_id symbol = ''pause:symbol:'' @ account_id @ '':'' @ symbol"

definition symbol_cooldown_key :: "string \<Rightarrow> string \<Rightarrow> string" where
  "symbol_cooldown_key account_id symbol = ''cooldown:'' @ account_id @ '':'' @ symbol"

definition circuit_breaker_key :: "string \<Rightarrow> string" where
  "circuit_breaker_key account_id = ''circuit_breaker:'' @ account_id"

definition job_lock_key :: "string \<Rightarrow> string" where
  "job_lock_key job_id = ''job:lock:'' @ job_id"

definition STRATEGY_INTENTS :: string where "STRATEGY_INTENTS = ''stream:strategy:intents''"

definition EXECUTION_EVENTS :: string where "EXECUTION_EVENTS = ''stream:execution:events''"

definition NORMALIZED :: string where "NORMALIZED = ''stream:binance:normalized''"

definition ANALYTICS_DERIVED :: string where "ANALYTICS_DERIVED = ''stream:analytics:derived''"

definition MCP_AUDIT :: string where "MCP_AUDIT = ''stream:mcp:audit''"

definition RAW_STREAM :: string where "RAW_STREAM = ''stream:binance:raw''"

lemmas key_defs =
  kill_switch_key_def user_pause_key_def symbol_pause_key_def symbol_cooldown_key_def
  circuit_breaker_key_def job_lock_key_def

text \<open>Keys of different controls never coincide.\<close>

lemma control_keys_disjoint [simp]:
  "kill_switch_key a \<noteq> job_lock_key c" "job_lock_key c \<noteq> kill_switch_key a"
  "user_pause_key a \<noteq> job_lock_key c" "job_lock_key c \<noteq> user_pause_key a"
  "symbol_pause_key a s \<noteq> job_lock_key c" "job_lock_key c \<noteq> symbol_pause_key a s"
  "circuit_breaker_key a \<noteq> job_lock_key c" "job_lock_key c \<noteq> circuit_breaker_key a"
  "symbol_cooldown_key a s \<noteq> job_lock_key c" "job_lock_key c \<noteq> symbol_cooldown_key a s"
  "kill_switch_key a \<noteq> symbol_cooldown_key b s" "symbol_cooldown_key b s \<noteq> kill_switch_key a"
  by (simp_all add: key_defs)

section \<open>The commands\<close>

type_synonym fields = "(string \<times> rtext) list"

record 'r redis_ops =
  r_get :: "string \<Rightarrow> ('r, rtext option) prog"
  r_exists :: "string \<Rightarrow> ('r, bool) prog"
  r_ttl :: "string \<Rightarrow> ('r, int) prog"
  r_set :: "string \<Rightarrow> rtext \<Rightarrow> bool \<Rightarrow> int option \<Rightarrow> ('r, bool) prog"
  r_delete :: "string \<Rightarrow> ('r, unit) prog"
  r_getdel :: "string \<Rightarrow> ('r, rtext option) prog"
  r_incr :: "string \<Rightarrow> ('r, int) prog"
  r_expire :: "string \<Rightarrow> int \<Rightarrow> ('r, unit) prog"
  r_set_all :: "(string \<times> rtext \<times> int) list \<Rightarrow> ('r, unit) prog"
  r_xadd :: "string \<Rightarrow> fields \<Rightarrow> ('r, unit) prog"
  r_xack :: "string \<Rightarrow> string \<Rightarrow> string \<Rightarrow> ('r, unit) prog"
  r_xgroup_create :: "string \<Rightarrow> string \<Rightarrow> ('r, unit) prog"
  r_xreadgroup :: "string \<Rightarrow> string \<Rightarrow> string \<Rightarrow> int \<Rightarrow> int \<Rightarrow> ('r, (string \<times> fields) list) prog"
  r_xlen :: "string \<Rightarrow> ('r, int) prog"
  r_xinfo_groups :: "string \<Rightarrow> ('r, json list) prog"

definition live_after :: "(string \<Rightarrow> rtext option) \<Rightarrow> (string \<times> rtext \<times> int) list \<Rightarrow> (string \<Rightarrow> rtext option)" where
  "live_after m ws = fold (\<lambda>(k, v, _) f. f(k \<mapsto> v)) ws m"

text \<open>
  A failing command has either not run or run without its answer reaching the client.
\<close>

locale redis =
  fixes ops :: "'r redis_ops" and live :: "'r \<Rightarrow> string \<Rightarrow> rtext option"
  assumes get_live: "r_get ops k s = (ro, s') \<Longrightarrow> live s' = live s \<and> (\<forall>v. ro = Inr v \<longrightarrow> v = live s k)"
    and exists_live: "r_exists ops k s = (rb, s') \<Longrightarrow>
      live s' = live s \<and> (\<forall>b. rb = Inr b \<longrightarrow> b = (live s k \<noteq> None))"
    and ttl_live: "r_ttl ops k s = (ri, s') \<Longrightarrow> live s' = live s"
    and set_live: "r_set ops k v nx ex s = (rb, s') \<Longrightarrow>
      (rb = Inr True \<longrightarrow> live s' = (live s)(k \<mapsto> v) \<and> (nx \<longrightarrow> live s k = None)) \<and>
      (rb = Inr False \<longrightarrow> live s' = live s \<and> nx \<and> live s k \<noteq> None) \<and>
      (live s' = live s \<or> live s' = (live s)(k \<mapsto> v) \<and> (nx \<longrightarrow> live s k = None))"
    and delete_live: "r_delete ops k s = (ru, s') \<Longrightarrow>
      (ru = Inr () \<longrightarrow> live s' = (live s)(k := None)) \<and> (live s' = live s \<or> live s' = (live s)(k := None))"
    and getdel_live: "r_getdel ops k s = (ro, s') \<Longrightarrow>
      (\<forall>v. ro = Inr v \<longrightarrow> v = live s k \<and> live s' = (live s)(k := None)) \<and>
      (live s' = live s \<or> live s' = (live s)(k := None))"
    and incr_live: "r_incr ops k s = (ri, s') \<Longrightarrow>
      (\<forall>n. ri = Inr n \<longrightarrow> live s' = (live s)(k \<mapsto> Raw (show_int n)) \<and> (live s k = None \<longrightarrow> n = 1) \<and>
             (\<forall>m. live s k = Some (Raw (show_int m)) \<longrightarrow> n = m + 1)) \<and>
      (\<forall>k'. k' \<noteq> k \<longrightarrow> live s' k' = live s k')"
    and expire_live: "r_expire ops k t s = (ru, s') \<Longrightarrow> 0 < t \<Longrightarrow> live s' = live s"
    and set_all_live: "r_set_all ops ws s = (ru, s') \<Longrightarrow>
      (ru = Inr () \<longrightarrow> live s' = live_after (live s) ws) \<and>
      (\<forall>k. k \<notin> fst ` set ws \<longrightarrow> live s' k = live s k)"
    and xadd_live: "r_xadd ops st fs s = (ru, s') \<Longrightarrow> live s' = live s"
    and xack_live: "r_xack ops st g i s = (ru, s') \<Longrightarrow> live s' = live s"
    and xgroup_live: "r_xgroup_create ops st g s = (ru, s') \<Longrightarrow> live s' = live s"
    and xread_live: "r_xreadgroup ops st g c n b s = (rs, s') \<Longrightarrow> live s' = live s"
    and xlen_live: "r_xlen ops st s = (ri, s') \<Longrightarrow> live s' = live s"
    and xinfo_live: "r_xinfo_groups ops st s = (rj, s') \<Longrightarrow> live s' = live s"
    and incr_fails: "r_incr ops k s = (Inl e, s') \<Longrightarrow>
      live s' k = live s k \<or> (\<exists>n. live s' k = Some (Raw (show_int n)) \<and> (live s k = None \<longrightarrow> n = 1) \<and>
        (\<forall>m. live s k = Some (Raw (show_int m)) \<longrightarrow> n = m + 1))"
begin

text \<open>No command but \<open>DEL\<close> and \<open>GETDEL\<close> removes a key.\<close>

lemma set_keeps: "r_set ops k v nx ex s = (r, s') \<Longrightarrow> live s k' \<noteq> None \<Longrightarrow> live s' k' \<noteq> None"
  using set_live [of k v nx ex s r s'] by auto

lemma set_other: "r_set ops k v nx ex s = (r, s') \<Longrightarrow> k' \<noteq> k \<Longrightarrow> live s' k' = live s k'"
  using set_live [of k v nx ex s r s'] by auto

end

locale timed_redis = redis +
  fixes expiry :: "'a \<Rightarrow> string \<Rightarrow> int option" and elapse :: "int \<Rightarrow> 'a \<Rightarrow> 'a"
  assumes set_expiry: "r_set ops k v nx ex s = (Inr True, s') \<Longrightarrow> expiry s' k = ex"
    and elapse_live: "live (elapse d s) k =
      (case expiry s k of Some t \<Rightarrow> if d < t then live s k else None | None \<Rightarrow> live s k)"
begin

lemma lock_held: "r_set ops k v nx (Some t) s = (Inr True, s') \<Longrightarrow> d < t \<Longrightarrow> live (elapse d s') k = Some v"
  using set_live [of k v nx "Some t" s "Inr True" s'] by (simp add: elapse_live set_expiry)

lemma lock_gone: "r_set ops k v nx (Some t) s = (Inr True, s') \<Longrightarrow> t \<le> d \<Longrightarrow> live (elapse d s') k = None"
  by (simp add: elapse_live set_expiry)

end

section \<open>A store in memory\<close>

record mem_redis =
  mr_kv :: "string \<Rightarrow> (rtext \<times> int option) option"
  mr_fail :: "bool list"
  mr_log :: "(string \<times> fields) list"

definition mem_live :: "mem_redis \<Rightarrow> string \<Rightarrow> rtext option" where
  "mem_live s k = map_option fst (mr_kv s k)"

definition mem_expiry :: "mem_redis \<Rightarrow> string \<Rightarrow> int option" where
  "mem_expiry s k = (case mr_kv s k of None \<Rightarrow> None | Some (_, t) \<Rightarrow> t)"

definition mem_elapse :: "int \<Rightarrow> mem_redis \<Rightarrow> mem_redis" where
  "mem_elapse d s = s\<lparr>mr_kv := (\<lambda>k. case mr_kv s k of
     Some (v, Some t) \<Rightarrow> if d < t then Some (v, Some (t - d)) else None | x \<Rightarrow> x)\<rparr>"

text \<open>Each command consumes one entry of the failure script; when it is used up nothing fails.\<close>

definition mem_cmd :: "(mem_redis \<Rightarrow> 'a \<times> mem_redis) \<Rightarrow> (mem_redis, 'a) prog" where
  "mem_cmd f s =
     (case mr_fail s of
        [] \<Rightarrow> (case f s of (x, s') \<Rightarrow> (Inr x, s'))
      | b # bs \<Rightarrow>
          if b then (Inl (RedisError ''connection''), s\<lparr>mr_fail := bs\<rparr>)
          else (case f (s\<lparr>mr_fail := bs\<rparr>) of (x, s') \<Rightarrow> (Inr x, s')))"

definition mem_put :: "string \<Rightarrow> rtext \<Rightarrow> int option \<Rightarrow> mem_redis \<Rightarrow> mem_redis" where
  "mem_put k v ex s = s\<lparr>mr_kv := (mr_kv s)(k \<mapsto> (v, ex))\<rparr>"

definition mem_del :: "string \<Rightarrow> mem_redis \<Rightarrow> mem_redis" where
  "mem_del k s = s\<lparr>mr_kv := (mr_kv s)(k := None)\<rparr>"

definition mem_incr :: "string \<Rightarrow> mem_redis \<Rightarrow> int \<times> mem_redis" where
  "mem_incr k s =
     (let n = (case mem_live s k of Some (Raw t) \<Rightarrow> (case parse_int t of None \<Rightarrow> 0 | Some i \<Rightarrow> i)
               | _ \<Rightarrow> 0) + 1
      in (n, mem_put k (Raw (show_int n)) (mem_expiry s k) s))"

definition mem_ops :: "mem_redis redis_ops" where
  "mem_ops =
     \<lparr>r_get = (\<lambda>k. mem_cmd (\<lambda>s. (mem_live s k, s))),
      r_exists = (\<lambda>k. mem_cmd (\<lambda>s. (mem_live s k \<noteq> None, s))),
      r_ttl = (\<lambda>k. mem_cmd (\<lambda>s. (case mr_kv s k of None \<Rightarrow> - 2 | Some (_, None) \<Rightarrow> - 1
                                 | Some (_, Some n) \<Rightarrow> n, s))),
      r_set = (\<lambda>k v nx ex. mem_cmd (\<lambda>s. if nx \<and> mem_live s k \<noteq> None then (False, s)
                                       else (True, mem_put k v ex s))),
      r_delete = (\<lambda>k. mem_cmd (\<lambda>s. ((), mem_del k s))),
      r_getdel = (\<lambda>k. mem_cmd (\<lambda>s. (mem_live s k, mem_del k s))),
      r_incr = (\<lambda>k. mem_cmd (mem_incr k)),
      r_expire = (\<lambda>k t. mem_cmd (\<lambda>s. ((), case mem_live s k of None \<Rightarrow> s
                      | Some v \<Rightarrow> mem_put k v (Some t) s))),
      r_set_all = (\<lambda>ws. mem_cmd (\<lambda>s. ((), fold (\<lambda>(k, v, t). mem_put k v (Some t)) ws s))),
      r_xadd = (\<lambda>st fs. mem_cmd (\<lambda>s. ((), s\<lparr>mr_log := mr_log s @ [(st, fs)]\<rparr>))),
      r_xack = (\<lambda>st g i. mem_cmd (\<lambda>s. ((), s))),
      r_xgroup_create = (\<lambda>st g. mem_cmd (\<lambda>s. ((), s))),
      r_xreadgroup = (\<lambda>st g c n b. mem_cmd (\<lambda>s.
         (map (\<lambda>(i, f). (show_int (int i), f))
            (take (nat n) (enumerate 0 (map snd (filter (\<lambda>(st', _). st' = st) (mr_log s))))), s))),
      r_xlen = (\<lambda>st. mem_cmd (\<lambda>s. (int (length (filter (\<lambda>(st', _). st' = st) (mr_log s))), s))),
      r_xinfo_groups = (\<lambda>st. mem_cmd (\<lambda>s. ([], s)))\<rparr>"

definition empty_mem :: mem_redis where
  "empty_mem = \<lparr>mr_kv = (\<lambda>_. None), mr_fail = [], mr_log = []\<rparr>"

lemma mem_live_empty [simp]: "mem_live empty_mem = Map.empty"
  by (rule ext) (simp add: mem_live_def empty_mem_def)

text \<open>What a command of the store does: nothing, with an error, or its effect.\<close>

lemma mem_cmd_cases:
  assumes "mem_cmd f s = (r, s')"
  obtains (fails) e where "r = Inl e" "mr_kv s' = mr_kv s"
  | (runs) t x where "mr_kv t = mr_kv s" "f t = (x, s')" "r = Inr x"
proof (cases "mr_fail s")
  case Nil
  then show ?thesis using assms runs [of s] by (auto simp: mem_cmd_def split: prod.splits)
next
  case (Cons b bs)
  then show ?thesis
    using assms fails runs [of "s\<lparr>mr_fail := bs\<rparr>"]
    by (auto simp: mem_cmd_def split: prod.splits if_splits)
qed

lemma mem_live_simps [simp]:
  "mem_live (mem_put k v ex s) = (mem_live s)(k \<mapsto> v)"
  "mem_live (mem_del k s) = (mem_live s)(k := None)"
  by (auto simp: mem_live_def mem_put_def mem_del_def)

lemma mem_live_kv: "mr_kv s = mr_kv t \<Longrightarrow> mem_live s = mem_live t"
  by (auto simp: mem_live_def)

lemma mem_live_fold:
  "mem_live (fold (\<lambda>(k, v, t). mem_put k v (Some t)) ws s) = live_after (mem_live s) ws"
  by (induction ws arbitrary: s) (auto simp: live_after_def)

lemma live_after_other: "k \<notin> fst ` set ws \<Longrightarrow> live_after m ws k = m k"
  by (induction ws arbitrary: m) (auto simp: live_after_def)

lemma mem_incr_live:
  assumes "mem_incr k s = (n, s')"
  shows "mem_live s' = (mem_live s)(k \<mapsto> Raw (show_int n)) \<and> (mem_live s k = None \<longrightarrow> n = 1) \<and>
         (\<forall>m. mem_live s k = Some (Raw (show_int m)) \<longrightarrow> n = m + 1)"
  using assms by (auto simp: mem_incr_def Let_def)

lemma mem_live_log [simp]: "mem_live (s\<lparr>mr_log := l\<rparr>) = mem_live s"
  by (simp add: mem_live_def fun_eq_iff)

interpretation mem: redis mem_ops mem_live
proof (unfold_locales, goal_cases)
  case (7 k s ri s')
  then show ?case
    by (auto simp: mem_ops_def dest!: mem_live_kv mem_incr_live elim!: mem_cmd_cases)
qed (auto simp: mem_ops_def mem_live_fold live_after_other dest!: mem_live_kv
      elim!: mem_cmd_cases split: if_splits option.splits)

interpretation mem_time: timed_redis mem_ops mem_live mem_expiry mem_elapse
  by unfold_locales
    (auto simp: mem_ops_def mem_cmd_def mem_expiry_def mem_put_def mem_elapse_def mem_live_def
      split: list.splits if_splits option.splits prod.splits)

end
