(* ===== verification/Events.thy ===== *)
theory Events
  imports Schemas
begin

text \<open>
  The envelopes of market and account events (\<open>shared/schemas/events.py\<close>) and the JSON that
  \<open>model_dump_json\<close> writes for them.  The only venue is \<open>binance\<close>.
\<close>

datatype event_type =
    TRADE | AGG_TRADE | BOOK_TICKER | ORDERBOOK_SNAPSHOT | ORDERBOOK_DELTA | KLINE
  | CONTINUOUS_KLINE | MINI_TICKER | TICKER_24H | ROLLING_TICKER | MARK_PRICE
  | ALL_MARKET_MARK_PRICE | LIQUIDATION | CONTRACT_INFO | COMPOSITE_INDEX | ASSET_INDEX
  | OPEN_INTEREST | USER_ORDER | USER_BALANCE | USER_POSITION | ACCOUNT_UPDATE
  | EXECUTION_EVENT | STRATEGY_INTENT | VENUE_STATUS

fun event_type_value :: "event_type \<Rightarrow> string" where
  "event_type_value TRADE = ''trade''"
| "event_type_value AGG_TRADE = ''agg_trade''"
| "event_type_value BOOK_TICKER = ''book_ticker''"
| "event_type_value ORDERBOOK_SNAPSHOT = ''orderbook_snapshot''"
| "event_type_value ORDERBOOK_DELTA = ''orderbook_delta''"
| "event_type_value KLINE = ''kline''"
| "event_type_value CONTINUOUS_KLINE = ''continuous_kline''"
| "event_type_value MINI_TICKER = ''mini_ticker''"
| "event_type_value TICKER_24H = ''ticker_24h''"
| "event_type_value ROLLING_TICKER = ''rolling_ticker''"
| "event_type_value MARK_PRICE = ''mark_price''"
| "event_type_value ALL_MARKET_MARK_PRICE = ''all_market_mark_price''"
| "event_type_value LIQUIDATION = ''liquidation''"
| "event_type_value CONTRACT_INFO = ''contract_info''"
| "event_type_value COMPOSITE_INDEX = ''composite_index''"
| "event_type_value ASSET_INDEX = ''asset_index''"
| "event_type_value OPEN_INTEREST = ''open_interest''"
| "event_type_value USER_ORDER = ''user_order''"
| "event_type_value USER_BALANCE = ''user_balance''"
| "event_type_value USER_POSITION = ''user_position''"
| "event_type_value ACCOUNT_UPDATE = ''account_update''"
| "event_type_value EXECUTION_EVENT = ''execution_event''"
| "event_type_value STRATEGY_INTENT = ''strategy_intent''"
| "event_type_value VENUE_STATUS = ''venue_status''"

text \<open>The fields \<open>sequence\<close> and \<open>raw\<close> that no modelled code sets or reads are always \<open>None\<close>.\<close>

record normalized_event =
  ne_event_type :: event_type
  ne_market_type :: market_type
  ne_symbol :: string
  ne_timestamp_ms :: int
  ne_received_ms :: int
  ne_source_stream :: "string option"
  ne_data :: "(string \<times> json) list"

record raw_event =
  rw_market_type :: market_type
  rw_source_stream :: string
  rw_received_ms :: int
  rw_payload :: "(string \<times> json) list"

definition dump_event :: "normalized_event \<Rightarrow> json" where
  "dump_event e =
     JObj [(''event_type'', JStr (event_type_value (ne_event_type e))), (''venue'', JStr ''binance''),
           (''market_type'', JStr (market_type_value (ne_market_type e))),
           (''symbol'', JStr (ne_symbol e)), (''timestamp_ms'', JInt (ne_timestamp_ms e)),
           (''received_ms'', JInt (ne_received_ms e)), (''sequence'', JNull),
           (''source_stream'', opt_json JStr (ne_source_stream e)), (''data'', JObj (ne_data e)),
           (''raw'', JNull)]"

end
