(* ===== verification/World.thy ===== *)
theory World
  imports RedisStore Events
begin

text \<open>
  The state a service acts on.  A \<open>world\<close> has the Redis state, the tables of the database (of any
  type \<open>'d\<close>), the count of database sessions opened and of random UUIDs drawn, the wall clock, and
  the history of the calls whose order the theorems speak about; each service extends it with its
  own fields.  What the code takes from libraries it does not contain is the record \<open>env\<close>.
\<close>

section \<open>The environment\<close>

text \<open>
  \<open>e_sha256\<close> is the hexadecimal digest, \<open>e_hmac\<close> the keyed one, \<open>e_show\<close> is \<open>str\<close> on floats, Decimals and containers,
  \<open>e_exn_text\<close> is \<open>str\<close> on exceptions, \<open>e_iso\<close> prints a datetime, \<open>e_numeric p s x\<close> is what a column
  \<open>Numeric(p, s)\<close> stores for \<open>x\<close> (\<open>None\<close> when it does not fit), \<open>e_db_down n\<close> says that the \<open>n\<close>-th
  database session fails, \<open>e_uuid4 n\<close> is the \<open>n\<close>-th random UUID, and \<open>e_parse_intent\<close>,
  \<open>e_parse_event\<close> and \<open>e_parse_raw\<close> are \<open>model_validate_json\<close> of \<open>TradeIntent\<close>,
  \<open>NormalizedEvent\<close> and \<open>RawEvent\<close>.
\<close>

record env =
  e_sha256 :: "string \<Rightarrow> string"
  e_hmac :: "string \<Rightarrow> string \<Rightarrow> string"
  e_show :: "json \<Rightarrow> string"
  e_exn_text :: "exn \<Rightarrow> string"
  e_iso :: "int \<Rightarrow> string"
  e_numeric :: "nat \<Rightarrow> nat \<Rightarrow> rat \<Rightarrow> rat option"
  e_db_down :: "nat \<Rightarrow> bool"
  e_uuid4 :: "nat \<Rightarrow> uuid"
  e_parse_intent :: "rtext \<Rightarrow> exn + trade_intent"
  e_parse_event :: "rtext \<Rightarrow> exn + normalized_event"
  e_parse_raw :: "rtext \<Rightarrow> exn + raw_event"

definition show_dec :: "env \<Rightarrow> rat \<Rightarrow> string" where
  "show_dec env x = py_str (e_show env) (JDec x)"

text \<open>\<open>str(v)\<close> and \<open>Decimal(str(v))\<close> of a value.\<close>

definition str_of :: "env \<Rightarrow> json \<Rightarrow> string" where
  "str_of env v = py_str (e_show env) v"

definition dec_of_str :: "env \<Rightarrow> json \<Rightarrow> exn + rat" where
  "dec_of_str env v = dec_literal (str_of env v)"

definition show_opt_dec :: "env \<Rightarrow> rat option \<Rightarrow> string" where
  "show_opt_dec env x = (case x of None \<Rightarrow> ''None'' | Some v \<Rightarrow> show_dec env v)"

section \<open>Worlds\<close>

datatype effect =
    Published string fields
  | Acked string string string
  | Submitted string string

record ('r, 'd) world =
  w_redis :: 'r
  w_db :: 'd
  w_sessions :: nat
  w_uuids :: nat
  w_now :: int
  w_trace :: "effect list"

type_synonym ('r, 'd, 'm, 'a) act = "(('r, 'd, 'm) world_scheme, 'a) prog"

definition on_redis :: "('r, 'a) prog \<Rightarrow> ('r, 'd, 'm, 'a) act" where
  "on_redis m w = (case m (w_redis w) of (r, s) \<Rightarrow> (r, w\<lparr>w_redis := s\<rparr>))"

definition record_effect :: "effect \<Rightarrow> ('r, 'd, 'm, unit) act" where
  "record_effect e = mput (\<lambda>w. w\<lparr>w_trace := w_trace w @ [e]\<rparr>)"

definition uuid4 :: "env \<Rightarrow> ('r, 'd, 'm, uuid) act" where
  "uuid4 env w = (Inr (e_uuid4 env (w_uuids w)), w\<lparr>w_uuids := Suc (w_uuids w)\<rparr>)"

text \<open>
  \<open>async with factory() as session: ... await session.commit()\<close>: the body reads and changes the
  tables; when the session fails or the body raises, the tables stay as they were.
\<close>

definition session :: "env \<Rightarrow> ('d \<Rightarrow> exn + 'a \<times> 'd) \<Rightarrow> ('r, 'd, 'm, 'a) act" where
  "session env body w =
     (let w1 = w\<lparr>w_sessions := Suc (w_sessions w)\<rparr>
      in if e_db_down env (w_sessions w) then (Inl (DbError ''unavailable''), w1)
         else case body (w_db w) of
                Inl e \<Rightarrow> (Inl e, w1)
              | Inr (x, d) \<Rightarrow> (Inr x, w1\<lparr>w_db := d\<rparr>))"

definition query :: "env \<Rightarrow> ('d \<Rightarrow> 'a) \<Rightarrow> ('r, 'd, 'm, 'a) act" where
  "query env q = session env (\<lambda>d. Inr (q d, d))"

text \<open>A column \<open>Numeric(p, s)\<close>, and one that may be null.\<close>

definition num_col :: "env \<Rightarrow> nat \<Rightarrow> nat \<Rightarrow> rat \<Rightarrow> exn + rat" where
  "num_col env p s x = (case e_numeric env p s x of None \<Rightarrow> Inl (DbError ''numeric'') | Some y \<Rightarrow> Inr y)"

definition num_col_opt :: "env \<Rightarrow> nat \<Rightarrow> nat \<Rightarrow> rat option \<Rightarrow> exn + rat option" where
  "num_col_opt env p s x =
     (case x of None \<Rightarrow> Inr None | Some v \<Rightarrow> ebind (num_col env p s v) (\<lambda>y. Inr (Some y)))"

text \<open>The columns \<open>String(n)\<close> hold their texts.\<close>

definition varchars :: "(nat \<times> string) list \<Rightarrow> exn + unit" where
  "varchars cs = (if list_all (\<lambda>(n, s). length s \<le> n) cs then Inr () else Inl (DbError ''string too long''))"

section \<open>Redis streams\<close>

definition stream_publish :: "'r redis_ops \<Rightarrow> string \<Rightarrow> fields \<Rightarrow> ('r, 'd, 'm, unit) act" where
  "stream_publish ops stream fs =
     mseq (on_redis (r_xadd ops stream fs)) (record_effect (Published stream fs))"

definition stream_read_group ::
  "'r redis_ops \<Rightarrow> string \<Rightarrow> string \<Rightarrow> string \<Rightarrow> int \<Rightarrow> int \<Rightarrow> ('r, 'd, 'm, (string \<times> fields) list) act" where
  "stream_read_group ops stream grp consumer count block_ms =
     mseq (mlogged (on_redis (r_xgroup_create ops stream grp)))
          (on_redis (r_xreadgroup ops stream grp consumer count block_ms))"

text \<open>\<open>_ack\<close> of a consumer: a failing \<open>XACK\<close> is only logged.\<close>

definition ack :: "'r redis_ops \<Rightarrow> string \<Rightarrow> string \<Rightarrow> string \<Rightarrow> ('r, 'd, 'm, unit) act" where
  "ack ops stream grp msg_id =
     mseq (record_effect (Acked stream grp msg_id))
          (mlogged (on_redis (r_xack ops stream grp msg_id)))"

text \<open>\<open>ExecutionEventPublisher.publish\<close>.\<close>

definition event_fields :: "int \<Rightarrow> string \<Rightarrow> string \<Rightarrow> (string \<times> json) list \<Rightarrow> fields" where
  "event_fields now event_type job_id data =
     [(''event_type'', Raw event_type), (''job_id'', Raw job_id), (''data'', Json (JObj data)),
      (''timestamp_ms'', Raw (show_int now))]"

definition publish ::
  "'r redis_ops \<Rightarrow> string \<Rightarrow> string \<Rightarrow> (string \<times> json) list \<Rightarrow> ('r, 'd, 'm, unit) act" where
  "publish ops event_type job_id data =
     mbind (mget w_now) (\<lambda>now. stream_publish ops EXECUTION_EVENTS (event_fields now event_type job_id data))"

section \<open>Rules\<close>

lemma wp_on_redis [wp]:
  "wp (on_redis m) Q w = wp m (\<lambda>r s. Q r (w\<lparr>w_redis := s\<rparr>)) (w_redis w)"
  by (simp add: wp_def on_redis_def split: prod.splits)

lemma wp_record [wp]: "wp (record_effect e) Q w = Q (Inr ()) (w\<lparr>w_trace := w_trace w @ [e]\<rparr>)"
  by (simp add: record_effect_def wp_put)

lemma wp_uuid4 [wp]:
  "wp (uuid4 env) Q w = Q (Inr (e_uuid4 env (w_uuids w))) (w\<lparr>w_uuids := Suc (w_uuids w)\<rparr>)"
  by (simp add: wp_def uuid4_def)

lemma wp_session [wp]:
  "wp (session env body) Q w =
     (if e_db_down env (w_sessions w)
      then Q (Inl (DbError ''unavailable'')) (w\<lparr>w_sessions := Suc (w_sessions w)\<rparr>)
      else case body (w_db w) of
             Inl e \<Rightarrow> Q (Inl e) (w\<lparr>w_sessions := Suc (w_sessions w)\<rparr>)
           | Inr (x, d) \<Rightarrow> Q (Inr x) (w\<lparr>w_sessions := Suc (w_sessions w), w_db := d\<rparr>))"
  by (auto simp: wp_def session_def Let_def split: sum.splits)

text \<open>
  Relations between worlds that only look at one part are frames of every operation on the other
  parts.
\<close>

definition same_db :: "('r, 'd, 'm) world_scheme \<Rightarrow> ('r, 'd, 'm) world_scheme \<Rightarrow> bool" where
  "same_db w w' = (w_db w' = w_db w)"

interpretation same_db: frame same_db
  by unfold_locales (auto simp: same_db_def)

lemma same_db_redis [moves]: "moves same_db (on_redis m)"
  by (auto simp: moves_def same_db_def on_redis_def split: prod.splits)

lemma same_db_put: "(\<And>w. w_db (f w) = w_db w) \<Longrightarrow> moves same_db (mput f)"
  by (simp add: moves_def same_db_def mput_def)

lemma same_db_record [moves]: "moves same_db (record_effect e)"
  by (simp add: record_effect_def same_db_put)

lemma same_db_uuid4 [moves]: "moves same_db (uuid4 env)"
  by (simp add: moves_def same_db_def uuid4_def)

lemma same_db_query [moves]: "moves same_db (query env q)"
  by (simp add: moves_def same_db_def query_def session_def Let_def)

lemma same_db_publish [moves]: "moves same_db (publish ops t j d)"
  unfolding publish_def stream_publish_def by (intro same_db.rules moves)

lemma same_db_ack [moves]: "moves same_db (ack ops s g i)"
  unfolding ack_def by (intro same_db.rules moves)

definition more_trace :: "(effect \<Rightarrow> bool) \<Rightarrow> ('r, 'd, 'm) world_scheme \<Rightarrow> ('r, 'd, 'm) world_scheme \<Rightarrow> bool" where
  "more_trace P w w' = (\<exists>es. w_trace w' = w_trace w @ es \<and> list_all P es)"

interpretation more_trace: frame "more_trace P" for P
proof
  fix u v w :: "('a, 'b, 'c) world_scheme"
  show "more_trace P w w" by (simp add: more_trace_def)
  show "more_trace P u v \<Longrightarrow> more_trace P v w \<Longrightarrow> more_trace P u w"
    by (auto simp: more_trace_def)
qed

lemma more_trace_redis [moves]: "moves (more_trace P) (on_redis m)"
  by (auto simp: moves_def more_trace_def on_redis_def split: prod.splits)

lemma more_trace_record: "P e \<Longrightarrow> moves (more_trace P) (record_effect e)"
  by (auto simp: moves_def more_trace_def record_effect_def mput_def)

lemma more_trace_put: "(\<And>w. w_trace (f w) = w_trace w) \<Longrightarrow> moves (more_trace P) (mput f)"
  by (simp add: moves_def more_trace_def mput_def)

lemma more_trace_uuid4 [moves]: "moves (more_trace P) (uuid4 env)"
  by (simp add: moves_def more_trace_def uuid4_def)

lemma more_trace_session [moves]: "moves (more_trace P) (session env body)"
  by (auto simp: moves_def more_trace_def session_def Let_def split: sum.splits)

lemma more_trace_query [moves]: "moves (more_trace P) (query env q)"
  unfolding query_def by (rule moves)

section \<open>Acknowledgements\<close>

definition acks :: "effect \<Rightarrow> ('r, 'd, 'm) world_scheme \<Rightarrow> ('r, 'd, 'm) world_scheme \<Rightarrow> bool" where
  "acks e w w' = (\<exists>es. w_trace w' = w_trace w @ es \<and> e \<in> set es)"

lemma more_then_acks: "more_trace (\<lambda>_. True) u v \<Longrightarrow> acks e v w \<Longrightarrow> acks e u w"
  by (auto simp: more_trace_def acks_def)

lemma acks_then_more: "acks e u v \<Longrightarrow> more_trace (\<lambda>_. True) v w \<Longrightarrow> acks e u w"
  by (auto simp: more_trace_def acks_def)

lemma acks_more: "acks e u v \<Longrightarrow> more_trace (\<lambda>_. True) u v"
  by (auto simp: acks_def more_trace_def list_all_iff)

lemma wp_ack: "wp (ack ops st g i) (\<lambda>r w'. r = Inr () \<and> acks (Acked st g i) w w') w"
  unfolding ack_def wp_seq wp_record sum.case wp_logged wp_on_redis by (rule wpI) (simp add: acks_def)

section \<open>Steps that return\<close>

lemma returns_on_redis [returns]:
  assumes "returns m"
  shows "returns (on_redis m)"
  unfolding returns_def
proof
  fix w
  show "\<exists>x w'. on_redis m w = (Inr x, w')"
    using returnsD [OF assms, of "w_redis w"] by (auto simp: on_redis_def)
qed

lemma returns_record [returns]: "returns (record_effect e)"
  unfolding record_effect_def by (rule returns)

lemma returns_uuid4 [returns]: "returns (uuid4 env)"
  by (simp add: returns_def uuid4_def)

lemma returns_ack [returns]: "returns (ack ops st g i)"
  unfolding ack_def by (intro returns)

lemma returns_publish [returns]:
  "(\<And>st fs. returns (r_xadd ops st fs)) \<Longrightarrow> returns (publish ops t j d)"
  unfolding publish_def stream_publish_def by (intro returns)

end
