(* ===== verification/JobLifecycle.thy ===== *)
theory JobLifecycle
  imports Schemas
begin

text \<open>
  The state machine of an execution job (\<open>services/execution/jobs\<close>) and the deterministic client
  order id.  A job status is a string, as in the table the program keeps it in.
\<close>

section \<open>Job states\<close>

definition VALID_JOB_TRANSITIONS :: "(string \<times> string list) list" where
  "VALID_JOB_TRANSITIONS =
     [(''queued'', [''approved'', ''blocked'', ''failed'']),
      (''approved'', [''submitted'', ''failed'']),
      (''blocked'', []),
      (''submitted'', [''acknowledged'', ''failed'', ''canceled'']),
      (''acknowledged'', [''partially_filled'', ''filled'', ''canceled'', ''failed'']),
      (''partially_filled'', [''filled'', ''canceled'', ''failed'']),
      (''filled'', []),
      (''canceled'', []),
      (''failed'', [''rolled_back'']),
      (''rolled_back'', [])]"

definition job_nexts :: "string \<Rightarrow> string list" where
  "job_nexts s = (case map_of VALID_JOB_TRANSITIONS s of None \<Rightarrow> [] | Some ns \<Rightarrow> ns)"

definition TERMINAL_STATES :: "string list" where
  "TERMINAL_STATES = map fst (filter (\<lambda>(s, nexts). nexts = []) VALID_JOB_TRANSITIONS)"

definition can_transition :: "string \<Rightarrow> string \<Rightarrow> bool" where
  "can_transition from_state to_state = (to_state \<in> set (job_nexts from_state))"

definition assert_transition :: "string \<Rightarrow> string \<Rightarrow> exn + unit" where
  "assert_transition from_state to_state =
     (if can_transition from_state to_state then Inr () else Inl JobLifecycleError)"

definition is_terminal :: "string \<Rightarrow> bool" where
  "is_terminal s = (s \<in> set TERMINAL_STATES)"

definition job_states :: "string list" where
  "job_states = map fst VALID_JOB_TRANSITIONS"

lemma terminal_states: "set TERMINAL_STATES = {''blocked'', ''filled'', ''canceled'', ''rolled_back''}"
  by (auto simp: TERMINAL_STATES_def VALID_JOB_TRANSITIONS_def)

lemma can_transition_iff:
  "can_transition s t =
     (s = ''queued'' \<and> t \<in> {''approved'', ''blocked'', ''failed''} \<or>
      s = ''approved'' \<and> t \<in> {''submitted'', ''failed''} \<or>
      s = ''submitted'' \<and> t \<in> {''acknowledged'', ''failed'', ''canceled''} \<or>
      s = ''acknowledged'' \<and> t \<in> {''partially_filled'', ''filled'', ''canceled'', ''failed''} \<or>
      s = ''partially_filled'' \<and> t \<in> {''filled'', ''canceled'', ''failed''} \<or>
      s = ''failed'' \<and> t = ''rolled_back'')"
  by (simp add: can_transition_def job_nexts_def VALID_JOB_TRANSITIONS_def)

lemma terminal_no_transition: "is_terminal s \<Longrightarrow> \<not> can_transition s t"
  by (auto simp: is_terminal_def terminal_states can_transition_iff)

text \<open>Every transition raises the stage of a job, so a job makes at most six of them.\<close>

definition job_stage :: "string \<Rightarrow> nat" where
  "job_stage s =
     (case map_of [(''queued'', 0), (''approved'', 1), (''submitted'', 2), (''acknowledged'', 3),
                   (''partially_filled'', 4), (''failed'', 5)] s of None \<Rightarrow> 6 | Some n \<Rightarrow> n)"

lemma stage_table: "\<forall>(s, ns) \<in> set VALID_JOB_TRANSITIONS. \<forall>t \<in> set ns. job_stage s < job_stage t"
  by code_simp

lemma transition_raises_stage: "can_transition s t \<Longrightarrow> job_stage s < job_stage t"
  using stage_table map_of_SomeD [of VALID_JOB_TRANSITIONS s]
  by (fastforce simp: can_transition_def job_nexts_def split: option.splits)

text \<open>A history of statuses in which every change is a transition.\<close>

fun lifecycle_path :: "string list \<Rightarrow> bool" where
  "lifecycle_path (s # t # h) = (can_transition s t \<and> lifecycle_path (t # h))"
| "lifecycle_path _ = True"

lemma lifecycle_path_stage:
  "lifecycle_path (s # h) \<Longrightarrow> length h + job_stage s \<le> job_stage (last (s # h))"
proof (induction h arbitrary: s)
  case (Cons t h)
  then have "job_stage s < job_stage t" "length h + job_stage t \<le> job_stage (last (t # h))"
    by (auto dest: transition_raises_stage)
  then show ?case by simp
qed simp

lemma job_stage_le: "job_stage s \<le> 6"
  by (auto simp: job_stage_def split: option.splits dest!: map_of_SomeD)

lemma lifecycle_path_bound: "lifecycle_path (s # h) \<Longrightarrow> length h \<le> 6"
  using lifecycle_path_stage [of s h] job_stage_le [of "last (s # h)"] by linarith

lemma lifecycle_path_append:
  "lifecycle_path (h @ [s, t]) = (lifecycle_path (h @ [s]) \<and> can_transition s t)"
  by (induction h rule: lifecycle_path.induct) (auto split: list.splits)

section \<open>Client order ids\<close>

text \<open>\<open>sha\<close> is \<open>hashlib.sha256(raw.encode()).hexdigest()\<close>.\<close>

definition coid_raw :: "string \<Rightarrow> string \<Rightarrow> string \<Rightarrow> string \<Rightarrow> string" where
  "coid_raw intent_id account_id symbol side =
     intent_id @ '':'' @ account_id @ '':'' @ symbol @ '':'' @ side"

definition make_client_order_id ::
  "(string \<Rightarrow> string) \<Rightarrow> string \<Rightarrow> string \<Rightarrow> string \<Rightarrow> string \<Rightarrow> string" where
  "make_client_order_id sha intent_id account_id symbol side =
     ''tp2-'' @ take 32 (sha (coid_raw intent_id account_id symbol side))"

lemma coid_prefix [simp]: "startswith ''tp2-'' (make_client_order_id sha i a s d)"
  by (simp add: startswith_def make_client_order_id_def)

lemma coid_length: "(\<And>x. length (sha x) = 64) \<Longrightarrow> length (make_client_order_id sha i a s d) = 36"
  by (simp add: make_client_order_id_def)

lemma append_sep_inject:
  "c \<notin> set a \<Longrightarrow> c \<notin> set b \<Longrightarrow> (a @ c # x = b @ c # y) = (a = b \<and> x = y)"
proof (induction a arbitrary: b)
  case Nil
  then show ?case by (cases b) auto
next
  case (Cons d a)
  then show ?case by (cases b) auto
qed

text \<open>
  The text that is hashed determines its parts: the intent id has no colon, and neither do the
  account id and the symbol of a well-formed request.
\<close>

lemma coid_raw_inject:
  assumes "CHR '':'' \<notin> set i" "CHR '':'' \<notin> set i'" "CHR '':'' \<notin> set a" "CHR '':'' \<notin> set a'"
    and "CHR '':'' \<notin> set s" "CHR '':'' \<notin> set s'"
  shows "(coid_raw i a s d = coid_raw i' a' s' d') = (i = i' \<and> a = a' \<and> s = s' \<and> d = d')"
  using assms by (simp add: coid_raw_def append_sep_inject)

section \<open>Properties\<close>

lemma job_state_entries:
  "((s, nexts) \<in> set VALID_JOB_TRANSITIONS) = (map_of VALID_JOB_TRANSITIONS s = Some nexts)"
proof -
  have "distinct (map fst VALID_JOB_TRANSITIONS)" by code_simp
  then show ?thesis by (metis map_of_eq_Some_iff)
qed

lemma terminal_iff: "is_terminal s = (s \<in> set job_states \<and> (\<forall>t. \<not> can_transition s t))"
proof -
  have "is_terminal s = (map_of VALID_JOB_TRANSITIONS s = Some [])"
    by (auto simp: is_terminal_def TERMINAL_STATES_def image_iff simp flip: job_state_entries)
  moreover have "(s \<in> set job_states) = (map_of VALID_JOB_TRANSITIONS s \<noteq> None)"
    by (simp only: job_states_def set_map map_of_eq_None_iff not_not)
  moreover have "(\<forall>t. \<not> can_transition s t) = (job_nexts s = [])"
    by (simp add: can_transition_def flip: set_empty)
  ultimately show ?thesis by (auto simp: job_nexts_def split: option.split)
qed

text \<open>
  C17: The job life cycle terminates: no infinite sequence of transitions exists, whatever state it
  starts in, and the states without a successor are exactly those the code computes as terminal.
\<close>

theorem job_lifecycle_terminates:
  "wf {(t, s). can_transition s t} \<and>
   (\<forall>s. is_terminal s = (s \<in> set job_states \<and> (\<forall>t. \<not> can_transition s t)))"
proof
  have "{(t, s). can_transition s t} \<subseteq> measure (\<lambda>s. 6 - job_stage s)"
  proof clarsimp
    fix t s assume "can_transition s t"
    from transition_raises_stage [OF this] job_stage_le [of t] show "6 - job_stage t < 6 - job_stage s"
      by linarith
  qed
  then show "wf {(t, s). can_transition s t}" by (rule wf_subset [OF wf_measure])
  have "is_terminal s = (s \<in> set job_states \<and> (\<forall>t. \<not> can_transition s t))" for s
    by (rule terminal_iff)
  then show "\<forall>s. is_terminal s = (s \<in> set job_states \<and> (\<forall>t. \<not> can_transition s t))" by blast
qed

text \<open>
  Client order ids have the exchange's 36 characters and the prefix the reconciliation consumer
  looks for; two orders have the same id only if intent, account, symbol and side all agree, unless
  their hashes collide.
\<close>

theorem client_order_id_identifies_order:
  assumes "\<And>x. length (sha x) = 64"
    and "CHR '':'' \<notin> set i" "CHR '':'' \<notin> set i'" "CHR '':'' \<notin> set a" "CHR '':'' \<notin> set a'"
    and "CHR '':'' \<notin> set s" "CHR '':'' \<notin> set s'"
    and "take 32 (sha (coid_raw i a s d)) = take 32 (sha (coid_raw i' a' s' d')) \<Longrightarrow>
      coid_raw i a s d = coid_raw i' a' s' d'"
  shows "length (make_client_order_id sha i a s d) = 36 \<and>
    startswith ''tp2-'' (make_client_order_id sha i a s d) \<and>
    (make_client_order_id sha i a s d = make_client_order_id sha i' a' s' d') =
      (i = i' \<and> a = a' \<and> s = s' \<and> d = d')"
  using assms coid_raw_inject [OF assms(2-7), of d d']
  by (auto simp: coid_length) (auto simp: make_client_order_id_def)

definition demo_sha :: "string \<Rightarrow> string" where
  "demo_sha x = take 64 (x @ replicate 64 CHR ''0'')"

theorem client_order_id_identifies_order_witness:
  "make_client_order_id demo_sha ''7'' ''acc'' ''BTCUSDT'' ''BUY'' \<noteq>
   make_client_order_id demo_sha ''7'' ''acc'' ''BTCUSDT'' ''SELL''"
  using client_order_id_identifies_order [of demo_sha "''7''" "''7''" "''acc''" "''acc''" "''BTCUSDT''" "''BTCUSDT''"
      "''BUY''" "''SELL''"]
  by (simp add: demo_sha_def coid_raw_def)

end
