(* ===== verification/Repository.thy ===== *)
theory Repository
  imports World JobLifecycle
begin

text \<open>
  The tables of the execution service (\<open>shared/db/models/account.py\<close>, \<open>execution.py\<close>,
  \<open>audit.py\<close>) and its repository (\<open>services/execution/persistence/repository.py\<close>,
  \<open>reconciliation/incident.py\<close>).  A table is the list of its rows; a method is a session whose body
  checks the constraints of the schema (primary keys, unique and foreign keys, column widths,
  \<open>Numeric\<close> columns) and commits, or leaves the tables as they were.  The random keys of event
  rows are left out.
\<close>

section \<open>Tables\<close>

record account_row =
  ac_id :: uuid
  ac_user_id :: uuid
  ac_venue :: string
  ac_account_label :: string
  ac_trading_mode :: string
  ac_approval_level :: string
  ac_is_active :: bool
  ac_connection_status :: string
  ac_last_connectivity_check_ms :: "int option"
  ac_listen_key :: "string option"
  ac_listen_key_expires_ms :: "int option"
  ac_stream_status :: string
  ac_stream_last_event_ms :: "int option"
  ac_stream_error :: "string option"

record approval_row =
  al_account_id :: uuid
  al_level :: string
  al_allowed_symbols :: "string list option"
  al_denied_symbols :: "string list option"
  al_paper_only :: bool
  al_live_enabled :: bool

record policy_row =
  rp_account_id :: uuid
  rp_max_position_size_usd :: rat
  rp_max_daily_loss_usd :: rat
  rp_max_concurrent_positions :: int
  rp_symbol_cooldown_seconds :: int

record credential_row =
  cd_account_id :: uuid
  cd_credential_type :: string
  cd_encrypted_key :: string
  cd_encrypted_secret :: string
  cd_iv :: string

record balance_row =
  bl_account_id :: uuid
  bl_asset :: string
  bl_free :: rat
  bl_locked :: rat
  bl_total :: rat
  bl_wallet_balance :: "rat option"
  bl_unrealized_pnl :: "rat option"
  bl_updated_at_ms :: int

record position_row =
  ps_account_id :: uuid
  ps_symbol :: string
  ps_market_type :: string
  ps_side :: string
  ps_quantity :: rat
  ps_entry_price :: rat
  ps_mark_price :: "rat option"
  ps_unrealized_pnl :: "rat option"
  ps_leverage :: "rat option"
  ps_margin :: "rat option"
  ps_isolated :: bool
  ps_updated_at_ms :: int

record order_row =
  or_id :: uuid
  or_account_id :: uuid
  or_job_id :: "uuid option"
  or_exchange_order_id :: "string option"
  or_client_order_id :: string
  or_symbol :: string
  or_market_type :: string
  or_side :: string
  or_order_type :: string
  or_status :: string
  or_quantity :: rat
  or_filled_qty :: rat
  or_price :: "rat option"
  or_avg_fill_price :: "rat option"
  or_reduce_only :: bool
  or_time_in_force :: string
  or_created_at_ms :: int
  or_updated_at_ms :: int

record fill_row =
  fl_id :: uuid
  fl_order_id :: uuid
  fl_account_id :: uuid
  fl_exchange_trade_id :: string
  fl_symbol :: string
  fl_side :: string
  fl_price :: rat
  fl_qty :: rat
  fl_quote_qty :: rat
  fl_commission :: rat
  fl_commission_asset :: string
  fl_realized_pnl :: "rat option"
  fl_is_maker :: bool
  fl_timestamp_ms :: int

record job_row =
  jb_id :: uuid
  jb_account_id :: uuid
  jb_trade_intent_id :: uuid
  jb_strategy_id :: "uuid option"
  jb_trading_mode :: string
  jb_status :: string
  jb_client_order_id :: string
  jb_symbol :: string
  jb_market_type :: string
  jb_side :: string
  jb_intent_json :: json
  jb_result_json :: "json option"
  jb_error :: "string option"
  jb_created_at_ms :: int

record job_event_row =
  ev_job_id :: uuid
  ev_event_type :: string
  ev_data :: json
  ev_timestamp_ms :: int

record incident_row =
  ic_id :: uuid
  ic_incident_type :: string
  ic_severity :: string
  ic_description :: string
  ic_job_id :: "uuid option"
  ic_strategy_id :: "uuid option"
  ic_context :: json
  ic_resolved :: bool
  ic_created_at_ms :: int

record exec_db =
  d_accounts :: "account_row list"
  d_approvals :: "approval_row list"
  d_policies :: "policy_row list"
  d_credentials :: "credential_row list"
  d_balances :: "balance_row list"
  d_positions :: "position_row list"
  d_orders :: "order_row list"
  d_fills :: "fill_row list"
  d_jobs :: "job_row list"
  d_job_events :: "job_event_row list"
  d_incidents :: "incident_row list"

definition empty_exec_db :: exec_db where
  "empty_exec_db =
     \<lparr>d_accounts = [], d_approvals = [], d_policies = [], d_credentials = [], d_balances = [],
      d_positions = [], d_orders = [], d_fills = [], d_jobs = [], d_job_events = [], d_incidents = []\<rparr>"

definition has_account :: "exec_db \<Rightarrow> uuid \<Rightarrow> bool" where
  "has_account d a = list_ex (\<lambda>r. ac_id r = a) (d_accounts d)"

text \<open>\<open>session.get\<close> and \<open>scalar_one_or_none\<close> on a unique column.\<close>

definition find_job :: "uuid \<Rightarrow> exec_db \<Rightarrow> job_row option" where
  "find_job i d = find (\<lambda>j. jb_id j = i) (d_jobs d)"

definition find_order :: "uuid \<Rightarrow> exec_db \<Rightarrow> order_row option" where
  "find_order i d = find (\<lambda>r. or_id r = i) (d_orders d)"

text \<open>Flushing the changes of the row \<open>i\<close>.\<close>

definition update_job :: "uuid \<Rightarrow> (job_row \<Rightarrow> job_row) \<Rightarrow> exec_db \<Rightarrow> exec_db" where
  "update_job i f d = d\<lparr>d_jobs := map (\<lambda>j. if jb_id j = i then f j else j) (d_jobs d)\<rparr>"

definition update_order :: "uuid \<Rightarrow> (order_row \<Rightarrow> order_row) \<Rightarrow> exec_db \<Rightarrow> exec_db" where
  "update_order i f d = d\<lparr>d_orders := map (\<lambda>r. if or_id r = i then f r else r) (d_orders d)\<rparr>"

section \<open>Inserts with the constraints of the schema\<close>

definition insert_job_row :: "job_row \<Rightarrow> exec_db \<Rightarrow> exn + exec_db" where
  "insert_job_row j d =
     ebind (varchars [(16, jb_trading_mode j), (32, jb_status j), (64, jb_client_order_id j),
                      (32, jb_symbol j), (16, jb_market_type j), (8, jb_side j)]) (\<lambda>_.
     if find_job (jb_id j) d \<noteq> None then Inl (IntegrityError ''execution_jobs_pkey'')
     else if list_ex (\<lambda>k. jb_client_order_id k = jb_client_order_id j) (d_jobs d)
     then Inl (IntegrityError ''execution_jobs_client_order_id'')
     else if \<not> has_account d (jb_account_id j) then Inl (IntegrityError ''execution_jobs_account_id'')
     else Inr (d\<lparr>d_jobs := d_jobs d @ [j]\<rparr>))"

definition insert_order_row :: "order_row \<Rightarrow> exec_db \<Rightarrow> exn + exec_db" where
  "insert_order_row r d =
     ebind (varchars [(64, case or_exchange_order_id r of None \<Rightarrow> [] | Some x \<Rightarrow> x),
                      (64, or_client_order_id r), (32, or_symbol r), (16, or_market_type r),
                      (8, or_side r), (32, or_order_type r), (32, or_status r),
                      (8, or_time_in_force r)]) (\<lambda>_.
     if find_order (or_id r) d \<noteq> None then Inl (IntegrityError ''orders_pkey'')
     else if list_ex (\<lambda>k. or_client_order_id k = or_client_order_id r) (d_orders d)
     then Inl (IntegrityError ''orders_client_order_id'')
     else if \<not> has_account d (or_account_id r) then Inl (IntegrityError ''orders_account_id'')
     else if (case or_job_id r of None \<Rightarrow> False | Some j \<Rightarrow> find_job j d = None)
     then Inl (IntegrityError ''orders_job_id'')
     else Inr (d\<lparr>d_orders := d_orders d @ [r]\<rparr>))"

definition insert_fill_row :: "fill_row \<Rightarrow> exec_db \<Rightarrow> exn + exec_db" where
  "insert_fill_row r d =
     ebind (varchars [(64, fl_exchange_trade_id r), (32, fl_symbol r), (8, fl_side r),
                      (16, fl_commission_asset r)]) (\<lambda>_.
     if list_ex (\<lambda>k. fl_id k = fl_id r) (d_fills d) then Inl (IntegrityError ''fills_pkey'')
     else if list_ex (\<lambda>k. fl_account_id k = fl_account_id r \<and>
                          fl_exchange_trade_id k = fl_exchange_trade_id r) (d_fills d)
     then Inl (IntegrityError ''uq_fills_account_trade'')
     else if find_order (fl_order_id r) d = None then Inl (IntegrityError ''fills_order_id'')
     else if \<not> has_account d (fl_account_id r) then Inl (IntegrityError ''fills_account_id'')
     else Inr (d\<lparr>d_fills := d_fills d @ [r]\<rparr>))"

definition job_event :: "uuid \<Rightarrow> string \<Rightarrow> (string \<times> json) list \<Rightarrow> int \<Rightarrow> job_event_row" where
  "job_event i t data now =
     \<lparr>ev_job_id = i, ev_event_type = t, ev_data = JObj data, ev_timestamp_ms = now\<rparr>"

definition insert_event :: "job_event_row \<Rightarrow> exec_db \<Rightarrow> exec_db" where
  "insert_event e d = d\<lparr>d_job_events := d_job_events d @ [e]\<rparr>"

section \<open>Adapter responses\<close>

record adapter_response =
  ar_success :: bool
  ar_client_order_id :: string
  ar_exchange_order_id :: "string option"
  ar_fill_price :: "rat option"
  ar_fill_quantity :: "rat option"
  ar_commission :: "rat option"
  ar_commission_asset :: string
  ar_error :: "string option"

section \<open>Jobs\<close>

text \<open>\<open>uuid.UUID(account_id) if account_id else uuid.uuid4()\<close>.\<close>

definition account_uuid :: "env \<Rightarrow> string \<Rightarrow> ('r, 'd, 'm, uuid) act" where
  "account_uuid env account_id =
     (if account_id = [] then uuid4 env
      else mlift (case parse_uuid account_id of None \<Rightarrow> Inl ValueError | Some u \<Rightarrow> Inr u))"

definition new_job :: "env \<Rightarrow> uuid \<Rightarrow> uuid \<Rightarrow> execution_request \<Rightarrow> string \<Rightarrow> int \<Rightarrow> job_row" where
  "new_job env account job_id q client_order_id now =
     (let i = rq_trade_intent q in
      \<lparr>jb_id = job_id, jb_account_id = account, jb_trade_intent_id = ti_intent_id i,
       jb_strategy_id = ti_strategy_id i, jb_trading_mode = trading_mode_value (rq_trading_mode q),
       jb_status = ''queued'', jb_client_order_id = client_order_id, jb_symbol = ti_symbol i,
       jb_market_type = market_type_value (ti_market_type i), jb_side = side_value (ti_side i),
       jb_intent_json = dump_intent (e_show env) (e_iso env) i, jb_result_json = None,
       jb_error = None, jb_created_at_ms = now\<rparr>)"

definition create_job ::
  "env \<Rightarrow> uuid \<Rightarrow> execution_request \<Rightarrow> string \<Rightarrow> ('r, exec_db, 'm, unit) act" where
  "create_job env job_id q client_order_id =
     mbind (account_uuid env (rq_account_id q)) (\<lambda>account.
     mbind (mget w_now) (\<lambda>now.
       session env (\<lambda>d.
         ebind (insert_job_row (new_job env account job_id q client_order_id now) d) (\<lambda>d'.
           Inr ((), insert_event (job_event job_id ''job_queued''
                      [(''client_order_id'', JStr client_order_id)] now) d')))))"

definition job_by_coid :: "string \<Rightarrow> exec_db \<Rightarrow> job_row option" where
  "job_by_coid c d = find (\<lambda>j. jb_client_order_id j = c) (d_jobs d)"

definition get_job_by_client_order_id :: "env \<Rightarrow> string \<Rightarrow> ('r, exec_db, 'm, job_row option) act" where
  "get_job_by_client_order_id env c = query env (job_by_coid c)"

definition set_status :: "string \<Rightarrow> json option \<Rightarrow> string option \<Rightarrow> job_row \<Rightarrow> job_row" where
  "set_status s res err j =
     j\<lparr>jb_status := s,
       jb_result_json := (case res of None \<Rightarrow> jb_result_json j | Some _ \<Rightarrow> res),
       jb_error := (case err of None \<Rightarrow> jb_error j | Some _ \<Rightarrow> err)\<rparr>"

definition update_job_status ::
  "env \<Rightarrow> uuid \<Rightarrow> string \<Rightarrow> (string \<times> json) list \<Rightarrow> json option \<Rightarrow> string option \<Rightarrow>
   ('r, exec_db, 'm, unit) act" where
  "update_job_status env job_id new_status event_data result_json error =
     mbind (mget w_now) (\<lambda>now.
       session env (\<lambda>d.
         case find_job job_id d of
           None \<Rightarrow> Inr ((), d)
         | Some _ \<Rightarrow>
             ebind (varchars [(32, new_status)]) (\<lambda>_.
               Inr ((), insert_event (job_event job_id (''job_'' @ new_status) event_data now)
                          (update_job job_id (set_status new_status result_json error) d)))))"

definition active_jobs :: "exec_db \<Rightarrow> job_row list" where
  "active_jobs d =
     filter (\<lambda>j. jb_status j \<in> {''submitted'', ''acknowledged'', ''partially_filled''}) (d_jobs d)"

definition get_active_jobs :: "env \<Rightarrow> ('r, exec_db, 'm, job_row list) act" where
  "get_active_jobs env = query env active_jobs"

section \<open>Orders and fills\<close>

text \<open>An order row from a request and a response; the Decimals go through their columns.\<close>

definition new_order ::
  "env \<Rightarrow> uuid \<Rightarrow> uuid \<Rightarrow> uuid \<Rightarrow> execution_request \<Rightarrow> string \<Rightarrow> adapter_response \<Rightarrow> int \<Rightarrow> exn + order_row" where
  "new_order env order_id account job_id q client_order_id resp now =
     (let i = rq_trade_intent q;
          nonzero = (\<lambda>x. case x of Some v \<Rightarrow> if v = 0 then None else Some v | None \<Rightarrow> None) in
      ebind (num_col env 30 12 (ti_size i)) (\<lambda>quantity.
      ebind (num_col env 30 12 (case ar_fill_quantity resp of None \<Rightarrow> 0 | Some x \<Rightarrow> x)) (\<lambda>filled.
      ebind (num_col_opt env 30 12 (nonzero (ti_limit_price i))) (\<lambda>price.
      ebind (num_col_opt env 30 12 (nonzero (ar_fill_price resp))) (\<lambda>avg.
        Inr \<lparr>or_id = order_id, or_account_id = account, or_job_id = Some job_id,
             or_exchange_order_id = ar_exchange_order_id resp, or_client_order_id = client_order_id,
             or_symbol = ti_symbol i, or_market_type = market_type_value (ti_market_type i),
             or_side = side_value (ti_side i), or_order_type = order_type_value (ti_order_type i),
             or_status = (if ar_success resp then ''FILLED'' else ''FAILED''),
             or_quantity = quantity, or_filled_qty = filled, or_price = price,
             or_avg_fill_price = avg, or_reduce_only = ti_reduce_only i,
             or_time_in_force = time_in_force_value (ti_time_in_force i),
             or_created_at_ms = now, or_updated_at_ms = now\<rparr>)))))"

definition create_order ::
  "env \<Rightarrow> uuid \<Rightarrow> execution_request \<Rightarrow> string \<Rightarrow> adapter_response \<Rightarrow> ('r, exec_db, 'm, uuid) act" where
  "create_order env job_id q client_order_id resp =
     mbind (uuid4 env) (\<lambda>order_id.
     mbind (account_uuid env (rq_account_id q)) (\<lambda>account.
     mbind (mget w_now) (\<lambda>now.
       session env (\<lambda>d.
         ebind (new_order env order_id account job_id q client_order_id resp now) (\<lambda>r.
         ebind (insert_order_row r d) (\<lambda>d'. Inr (order_id, d')))))))"

text \<open>The fill row both inserts build.\<close>

definition new_fill ::
  "env \<Rightarrow> uuid \<Rightarrow> uuid \<Rightarrow> uuid \<Rightarrow> string \<Rightarrow> string \<Rightarrow> string \<Rightarrow> rat \<Rightarrow> rat \<Rightarrow> rat \<Rightarrow> rat \<Rightarrow> string \<Rightarrow>
   rat option \<Rightarrow> int \<Rightarrow> exn + fill_row" where
  "new_fill env fill_id order_id account trade_id symbol side price qty quote commission asset pnl t =
     ebind (num_col env 30 12 price) (\<lambda>price'.
     ebind (num_col env 30 12 qty) (\<lambda>qty'.
     ebind (num_col env 30 12 quote) (\<lambda>quote'.
     ebind (num_col env 30 12 commission) (\<lambda>commission'.
     ebind (num_col_opt env 30 12 pnl) (\<lambda>pnl'.
       Inr \<lparr>fl_id = fill_id, fl_order_id = order_id, fl_account_id = account,
            fl_exchange_trade_id = trade_id, fl_symbol = symbol, fl_side = side, fl_price = price',
            fl_qty = qty', fl_quote_qty = quote', fl_commission = commission',
            fl_commission_asset = asset, fl_realized_pnl = pnl', fl_is_maker = False,
            fl_timestamp_ms = t\<rparr>)))))"

definition quote_quantity :: "rat \<Rightarrow> rat \<Rightarrow> exn + rat" where
  "quote_quantity price qty = quantize 8 (dec (price * qty))"

definition save_fill ::
  "env \<Rightarrow> uuid \<Rightarrow> execution_request \<Rightarrow> adapter_response \<Rightarrow> ('r, exec_db, 'm, unit) act" where
  "save_fill env order_id q resp =
     (case (ar_fill_price resp, ar_fill_quantity resp) of
        (Some fill_price, Some fill_qty) \<Rightarrow>
          if fill_price = 0 \<or> fill_qty = 0 then mret ()
          else
            mbind (mlift (quote_quantity fill_price fill_qty)) (\<lambda>quote.
            mbind (account_uuid env (rq_account_id q)) (\<lambda>account.
            mbind (case ar_exchange_order_id resp of Some (c # cs) \<Rightarrow> mret (c # cs) | _ \<Rightarrow> uuid4 env) (\<lambda>trade_id.
            mbind (uuid4 env) (\<lambda>fill_id.
            mbind (mget w_now) (\<lambda>now.
              session env (\<lambda>d.
                ebind (new_fill env fill_id order_id account trade_id
                         (ti_symbol (rq_trade_intent q)) (side_value (ti_side (rq_trade_intent q)))
                         fill_price fill_qty quote
                         (case ar_commission resp of None \<Rightarrow> 0 | Some c \<Rightarrow> c)
                         (ar_commission_asset resp) None now) (\<lambda>r.
                ebind (insert_fill_row r d) (\<lambda>d'. Inr ((), d')))))))))
      | _ \<Rightarrow> mret ())"

definition order_by_coid :: "string \<Rightarrow> exec_db \<Rightarrow> order_row option" where
  "order_by_coid c d = find (\<lambda>r. or_client_order_id r = c) (d_orders d)"

definition get_order_by_client_order_id :: "env \<Rightarrow> string \<Rightarrow> ('r, exec_db, 'm, order_row option) act" where
  "get_order_by_client_order_id env c = query env (order_by_coid c)"

definition fill_by_trade :: "uuid \<Rightarrow> string \<Rightarrow> exec_db \<Rightarrow> fill_row option" where
  "fill_by_trade a t d = find (\<lambda>r. fl_account_id r = a \<and> fl_exchange_trade_id r = t) (d_fills d)"

definition get_fill_by_exchange_trade_id ::
  "env \<Rightarrow> uuid \<Rightarrow> string \<Rightarrow> ('r, exec_db, 'm, fill_row option) act" where
  "get_fill_by_exchange_trade_id env a t = query env (fill_by_trade a t)"

definition insert_fill ::
  "env \<Rightarrow> uuid \<Rightarrow> uuid \<Rightarrow> string \<Rightarrow> string \<Rightarrow> string \<Rightarrow> rat \<Rightarrow> rat \<Rightarrow> rat \<Rightarrow> string \<Rightarrow> int \<Rightarrow> rat option \<Rightarrow>
   ('r, exec_db, 'm, uuid) act" where
  "insert_fill env order_id account_id trade_id symbol side price qty commission asset trade_time_ms pnl =
     mbind (mlift (quote_quantity price qty)) (\<lambda>quote.
     mbind (uuid4 env) (\<lambda>fill_id.
       session env (\<lambda>d.
         ebind (new_fill env fill_id order_id account_id trade_id symbol side price qty quote
                  commission asset pnl trade_time_ms) (\<lambda>r.
         ebind (insert_fill_row r d) (\<lambda>d'. Inr (fill_id, d'))))))"

definition update_order_filled_qty ::
  "env \<Rightarrow> uuid \<Rightarrow> rat \<Rightarrow> rat \<Rightarrow> string option \<Rightarrow> ('r, exec_db, 'm, unit) act" where
  "update_order_filled_qty env order_id filled_qty avg_fill_price new_status =
     mbind (mget w_now) (\<lambda>now.
       session env (\<lambda>d.
         case find_order order_id d of
           None \<Rightarrow> Inr ((), d)
         | Some _ \<Rightarrow>
             ebind (num_col env 30 12 filled_qty) (\<lambda>fq.
             ebind (num_col env 30 12 avg_fill_price) (\<lambda>ap.
               Inr ((), update_order order_id (\<lambda>r. r\<lparr>or_filled_qty := fq, or_avg_fill_price := Some ap,
                            or_status := (case new_status of None \<Rightarrow> or_status r | Some s \<Rightarrow> s),
                            or_updated_at_ms := now\<rparr>) d)))))"

section \<open>Risk data\<close>

text \<open>The sum of the losses of an account since a time, and its open positions.\<close>

definition loss_sum :: "uuid \<Rightarrow> int \<Rightarrow> exec_db \<Rightarrow> rat" where
  "loss_sum a since d =
     sum_list (map (\<lambda>r. case fl_realized_pnl r of Some p \<Rightarrow> if p < 0 then p else 0 | None \<Rightarrow> 0)
       (filter (\<lambda>r. fl_account_id r = a \<and> since \<le> fl_timestamp_ms r \<and> fl_realized_pnl r \<noteq> None)
          (d_fills d)))"

definition utc_midnight_ms :: "int \<Rightarrow> int" where
  "utc_midnight_ms now_ms = now_ms - now_ms mod 86400000"

text \<open>\<open>abs\<close> rounds to the precision of the decimal context, as every operation does.\<close>

definition get_daily_realized_loss_usd ::
  "env \<Rightarrow> string \<Rightarrow> int option \<Rightarrow> ('r, exec_db, 'm, rat) act" where
  "get_daily_realized_loss_usd env account_id since_ms =
     (case parse_uuid account_id of
        None \<Rightarrow> mret 0
      | Some a \<Rightarrow>
          mbind (mget w_now) (\<lambda>now.
          mbind (query env (loss_sum a (case since_ms of None \<Rightarrow> utc_midnight_ms now | Some s \<Rightarrow> s)))
            (\<lambda>v. mret (dec \<bar>v\<bar>))))"

definition open_positions :: "uuid \<Rightarrow> exec_db \<Rightarrow> int" where
  "open_positions a d = int (length (filter (\<lambda>p. ps_account_id p = a \<and> 0 < ps_quantity p) (d_positions d)))"

definition get_open_positions_count :: "env \<Rightarrow> string \<Rightarrow> ('r, exec_db, 'm, int) act" where
  "get_open_positions_count env account_id =
     (case parse_uuid account_id of None \<Rightarrow> mret 0 | Some a \<Rightarrow> query env (open_positions a))"

section \<open>Incidents\<close>

definition incident ::
  "string \<Rightarrow> string \<Rightarrow> string \<Rightarrow> uuid option \<Rightarrow> uuid option \<Rightarrow> (string \<times> json) list \<Rightarrow> incident_row" where
  "incident t severity description job strategy context' =
     \<lparr>ic_id = [], ic_incident_type = t, ic_severity = severity, ic_description = description, ic_job_id = job,
      ic_strategy_id = strategy, ic_context = JObj context', ic_resolved = False, ic_created_at_ms = 0\<rparr>"

text \<open>Saving sets the key and the time of the row.\<close>

definition log_incident :: "env \<Rightarrow> incident_row \<Rightarrow> ('r, exec_db, 'm, unit) act" where
  "log_incident env i =
     mlogged (mbind (uuid4 env) (\<lambda>k. mbind (mget w_now) (\<lambda>now. session env (\<lambda>d.
       ebind (varchars [(64, ic_incident_type i), (16, ic_severity i)]) (\<lambda>_.
         Inr ((), d\<lparr>d_incidents := d_incidents d @ [i\<lparr>ic_id := k, ic_created_at_ms := now\<rparr>]\<rparr>))))))"

section \<open>Relations between database states\<close>

text \<open>A relation between tables, as one between worlds; a session moves along it if its body does.\<close>

definition db_rel :: "('d \<Rightarrow> 'd \<Rightarrow> bool) \<Rightarrow> ('r, 'd, 'm) world_scheme \<Rightarrow> ('r, 'd, 'm) world_scheme \<Rightarrow> bool" where
  "db_rel P w w' = P (w_db w) (w_db w')"

locale db_frame = frame P for P :: "'d \<Rightarrow> 'd \<Rightarrow> bool"
begin

lemma same: "moves same_db m \<Longrightarrow> moves (db_rel P) m"
  by (simp add: moves_def same_db_def db_rel_def refl)

lemma session:
  "(\<And>d x d'. body d = Inr (x, d') \<Longrightarrow> P d d') \<Longrightarrow> moves (db_rel P) (session env body)"
  by (auto simp: moves_def db_rel_def session_def Let_def refl split: sum.splits)

end

sublocale db_frame \<subseteq> w: frame "db_rel P"
  by unfold_locales (auto simp: db_rel_def refl intro: trans)

text \<open>A repository method touches the tables, the session count and the UUID count only.\<close>

definition db_only :: "('r, 'd, 'm) world_scheme \<Rightarrow> ('r, 'd, 'm) world_scheme \<Rightarrow> bool" where
  "db_only w w' =
     (w\<lparr>w_db := w_db w', w_sessions := w_sessions w', w_uuids := w_uuids w'\<rparr> = w')"

interpretation db_only: frame db_only
proof
  fix u v w :: "('a, 'b, 'c) world_scheme"
  show "db_only w w" by (simp add: db_only_def)
  assume v: "db_only u v" and w: "db_only v w"
  have "u\<lparr>w_db := w_db w, w_sessions := w_sessions w, w_uuids := w_uuids w\<rparr> =
        (u\<lparr>w_db := w_db v, w_sessions := w_sessions v, w_uuids := w_uuids v\<rparr>)
          \<lparr>w_db := w_db w, w_sessions := w_sessions w, w_uuids := w_uuids w\<rparr>" by simp
  then show "db_only u w"
    using v w unfolding db_only_def by simp
qed

lemma db_only_sel:
  assumes "db_only w w'"
  shows "w_redis w' = w_redis w" "w_trace w' = w_trace w" "w_now w' = w_now w" "world.more w' = world.more w"
  by (subst assms [unfolded db_only_def, symmetric], simp)+

lemma db_only_session [moves]: "moves db_only (session env body)"
  by (auto simp: moves_def db_only_def session_def Let_def split: sum.splits)

lemma db_only_query [moves]: "moves db_only (query env q)"
  unfolding query_def by (rule moves)

lemma db_only_uuid4 [moves]: "moves db_only (uuid4 env)"
  by (simp add: moves_def db_only_def uuid4_def)

lemma db_only_account_uuid [moves]: "moves db_only (account_uuid env a)"
  unfolding account_uuid_def by (simp add: db_only.lift moves)

lemma db_only_ops [moves]:
  "moves db_only (create_job env i q c)"
  "moves db_only (get_job_by_client_order_id env c)"
  "moves db_only (update_job_status env i s data res err)"
  "moves db_only (get_active_jobs env)"
  "moves db_only (create_order env i q c resp)"
  "moves db_only (get_order_by_client_order_id env c)"
  "moves db_only (get_fill_by_exchange_trade_id env a t)"
  "moves db_only (insert_fill env oi a t sy sd p qt cm ca tm pnl)"
  "moves db_only (update_order_filled_qty env i fq ap st)"
  "moves db_only (get_daily_realized_loss_usd env acc since)"
  "moves db_only (get_open_positions_count env acc)"
  "moves db_only (log_incident env inc)"
  unfolding create_job_def get_job_by_client_order_id_def update_job_status_def get_active_jobs_def
    create_order_def get_order_by_client_order_id_def get_fill_by_exchange_trade_id_def
    insert_fill_def update_order_filled_qty_def get_daily_realized_loss_usd_def
    get_open_positions_count_def log_incident_def
  by (auto intro!: db_only.rules moves split: option.split)

lemma db_only_save_fill [moves]: "moves db_only (save_fill env i q resp)"
  unfolding save_fill_def
  by (auto intro!: db_only.rules moves split: option.split list.split)

section \<open>Integrity of the tables\<close>

text \<open>
  The keys are unique, a fill belongs to an order, an order to a job, and an event to a job.
\<close>

definition job_ids :: "exec_db \<Rightarrow> uuid list" where
  "job_ids d = map jb_id (d_jobs d)"

definition job_coids :: "exec_db \<Rightarrow> string list" where
  "job_coids d = map jb_client_order_id (d_jobs d)"

definition order_ids :: "exec_db \<Rightarrow> uuid list" where
  "order_ids d = map or_id (d_orders d)"

definition order_coids :: "exec_db \<Rightarrow> string list" where
  "order_coids d = map or_client_order_id (d_orders d)"

definition order_jobs :: "exec_db \<Rightarrow> uuid option list" where
  "order_jobs d = map or_job_id (d_orders d)"

definition fill_trades :: "exec_db \<Rightarrow> (uuid \<times> string) list" where
  "fill_trades d = map (\<lambda>r. (fl_account_id r, fl_exchange_trade_id r)) (d_fills d)"

definition db_ok :: "exec_db \<Rightarrow> bool" where
  "db_ok d =
     (distinct (job_ids d) \<and> distinct (job_coids d) \<and> distinct (order_ids d) \<and>
      distinct (order_coids d) \<and> distinct (fill_trades d) \<and> distinct (map fl_id (d_fills d)) \<and>
      set (map fl_order_id (d_fills d)) \<subseteq> set (order_ids d) \<and>
      (\<forall>j. Some j \<in> set (order_jobs d) \<longrightarrow> j \<in> set (job_ids d)) \<and>
      set (map ev_job_id (d_job_events d)) \<subseteq> set (job_ids d))"

lemmas db_columns =
  job_ids_def job_coids_def order_ids_def order_coids_def order_jobs_def fill_trades_def

definition keeps_ok :: "exec_db \<Rightarrow> exec_db \<Rightarrow> bool" where
  "keeps_ok d d' = (db_ok d \<longrightarrow> db_ok d')"

interpretation keeps_ok: db_frame keeps_ok
  by unfold_locales (auto simp: keeps_ok_def)

lemma find_key_None: "(find (\<lambda>x. g x = k) xs = None) = (k \<notin> set (map g xs))"
  by (auto simp: find_None_iff)

lemma find_job_None: "(find_job i d = None) = (i \<notin> set (job_ids d))"
  by (simp only: find_job_def job_ids_def find_key_None)

lemma find_order_None: "(find_order i d = None) = (i \<notin> set (order_ids d))"
  by (simp only: find_order_def order_ids_def find_key_None)

lemma find_some_in: "find P xs = Some x \<Longrightarrow> x \<in> set xs \<and> P x"
  by (auto simp: find_Some_iff)

lemma list_ex_key: "list_ex (\<lambda>k. g k = y) xs = (y \<in> set (map g xs))"
  by (auto simp: list_ex_iff)

lemma list_ex_key2: "list_ex (\<lambda>k. g k = y \<and> h k = z) xs = ((y, z) \<in> set (map (\<lambda>k. (g k, h k)) xs))"
  by (auto simp: list_ex_iff)

lemma map_if_same: "(\<And>x. g (f x) = g x) \<Longrightarrow> map g (map (\<lambda>x. if c x then f x else x) xs) = map g xs"
  by simp

lemma insert_job_row_Inr:
  "insert_job_row j d = Inr d' \<Longrightarrow>
     d' = d\<lparr>d_jobs := d_jobs d @ [j]\<rparr> \<and> jb_id j \<notin> set (job_ids d) \<and>
     jb_client_order_id j \<notin> set (job_coids d) \<and> has_account d (jb_account_id j)"
  by (auto simp: insert_job_row_def ebind_Inr find_job_None list_ex_key job_coids_def
      simp del: set_map split: if_splits)

lemma insert_order_row_Inr:
  "insert_order_row r d = Inr d' \<Longrightarrow>
     d' = d\<lparr>d_orders := d_orders d @ [r]\<rparr> \<and> or_id r \<notin> set (order_ids d) \<and>
     or_client_order_id r \<notin> set (order_coids d) \<and>
     (\<forall>j. or_job_id r = Some j \<longrightarrow> j \<in> set (job_ids d))"
  by (auto simp: insert_order_row_def ebind_Inr find_job_None find_order_None list_ex_key
      order_coids_def simp del: set_map split: if_splits option.splits)

lemma insert_fill_row_Inr:
  "insert_fill_row r d = Inr d' \<Longrightarrow>
     d' = d\<lparr>d_fills := d_fills d @ [r]\<rparr> \<and> fl_id r \<notin> set (map fl_id (d_fills d)) \<and>
     (fl_account_id r, fl_exchange_trade_id r) \<notin> set (fill_trades d) \<and>
     fl_order_id r \<in> set (order_ids d)"
  by (auto simp: insert_fill_row_def ebind_Inr find_order_None list_ex_key list_ex_key2
      fill_trades_def simp del: set_map split: if_splits)

lemma insert_job_ok: "insert_job_row j d = Inr d' \<Longrightarrow> keeps_ok d d'"
  by (drule insert_job_row_Inr) (auto simp: keeps_ok_def db_ok_def db_columns)

lemma insert_order_ok: "insert_order_row r d = Inr d' \<Longrightarrow> keeps_ok d d'"
  by (drule insert_order_row_Inr) (auto simp: keeps_ok_def db_ok_def db_columns)

lemma insert_fill_ok: "insert_fill_row r d = Inr d' \<Longrightarrow> keeps_ok d d'"
  by (drule insert_fill_row_Inr) (auto simp: keeps_ok_def db_ok_def db_columns)

lemma insert_event_ok: "find_job (ev_job_id e) d \<noteq> None \<Longrightarrow> keeps_ok d (insert_event e d)"
  by (auto simp: insert_event_def keeps_ok_def db_ok_def find_job_None db_columns)

lemma update_job_columns:
  assumes "\<And>j. jb_id (f j) = jb_id j" "\<And>j. jb_client_order_id (f j) = jb_client_order_id j"
  shows "job_ids (update_job i f d) = job_ids d" "job_coids (update_job i f d) = job_coids d"
    "order_ids (update_job i f d) = order_ids d" "order_coids (update_job i f d) = order_coids d"
    "order_jobs (update_job i f d) = order_jobs d" "fill_trades (update_job i f d) = fill_trades d"
    "d_fills (update_job i f d) = d_fills d" "d_job_events (update_job i f d) = d_job_events d"
    "d_orders (update_job i f d) = d_orders d"
  using assms by (simp_all add: update_job_def db_columns)

lemma update_order_columns:
  assumes "\<And>r. or_id (f r) = or_id r" "\<And>r. or_client_order_id (f r) = or_client_order_id r"
    "\<And>r. or_job_id (f r) = or_job_id r"
  shows "job_ids (update_order i f d) = job_ids d" "job_coids (update_order i f d) = job_coids d"
    "order_ids (update_order i f d) = order_ids d" "order_coids (update_order i f d) = order_coids d"
    "order_jobs (update_order i f d) = order_jobs d" "fill_trades (update_order i f d) = fill_trades d"
    "d_fills (update_order i f d) = d_fills d" "d_job_events (update_order i f d) = d_job_events d"
    "d_jobs (update_order i f d) = d_jobs d"
  using assms by (simp_all add: update_order_def db_columns)

lemma update_job_ok:
  assumes "\<And>j. jb_id (f j) = jb_id j" "\<And>j. jb_client_order_id (f j) = jb_client_order_id j"
  shows "keeps_ok d (update_job i f d)"
  using update_job_columns [of f i d] assms by (simp add: keeps_ok_def db_ok_def)

lemma update_order_ok:
  assumes "\<And>r. or_id (f r) = or_id r" "\<And>r. or_client_order_id (f r) = or_client_order_id r"
    "\<And>r. or_job_id (f r) = or_job_id r"
  shows "keeps_ok d (update_order i f d)"
  using update_order_columns [of f i d] assms by (simp add: keeps_ok_def db_ok_def)

lemma set_status_sel [simp]:
  "jb_id (set_status s r e j) = jb_id j" "jb_client_order_id (set_status s r e j) = jb_client_order_id j"
  "jb_status (set_status s r e j) = s" "jb_account_id (set_status s r e j) = jb_account_id j"
  by (simp_all add: set_status_def)

lemma find_job_update:
  "(find_job i (update_job k (set_status s r e) d) = None) = (find_job i d = None)"
  using update_job_columns [of "set_status s r e" k d] by (simp add: find_job_None)

lemma keeps_ok_redis [moves]: "moves (db_rel keeps_ok) (on_redis m)"
  by (rule keeps_ok.same [OF same_db_redis])

lemma keeps_ok_uuid4 [moves]: "moves (db_rel keeps_ok) (uuid4 env)"
  by (rule keeps_ok.same [OF same_db_uuid4])

lemma keeps_ok_record [moves]: "moves (db_rel keeps_ok) (record_effect e)"
  by (rule keeps_ok.same [OF same_db_record])

lemma keeps_ok_publish [moves]: "moves (db_rel keeps_ok) (publish ops t j d)"
  by (rule keeps_ok.same [OF same_db_publish])

lemma keeps_ok_ack [moves]: "moves (db_rel keeps_ok) (ack ops s g i)"
  by (rule keeps_ok.same [OF same_db_ack])

lemma keeps_ok_query [moves]: "moves (db_rel keeps_ok) (query env q)"
  by (rule keeps_ok.same [OF same_db_query])

lemma keeps_ok_account_uuid [moves]: "moves (db_rel keeps_ok) (account_uuid env a)"
  unfolding account_uuid_def by (simp add: keeps_ok.w.lift moves)

lemma keeps_ok_create_job [moves]: "moves (db_rel keeps_ok) (create_job env i q c)"
  unfolding create_job_def
proof (intro keeps_ok.w.rules moves keeps_ok.session)
  fix account now d x d'
  assume "ebind (insert_job_row (new_job env account i q c now) d)
     (\<lambda>d'. Inr ((), insert_event (job_event i ''job_queued'' [(''client_order_id'', JStr c)] now) d')) = Inr (x, d')"
  then obtain d1 where d1: "insert_job_row (new_job env account i q c now) d = Inr d1"
    and d': "d' = insert_event (job_event i ''job_queued'' [(''client_order_id'', JStr c)] now) d1"
    by (auto simp: ebind_Inr)
  have "find_job i d1 \<noteq> None"
    using insert_job_row_Inr [OF d1] by (auto simp: find_job_None job_ids_def new_job_def Let_def)
  then show "keeps_ok d d'"
    using insert_job_ok [OF d1] insert_event_ok [of _ d1] d' by (auto simp: keeps_ok_def job_event_def)
qed

lemma keeps_ok_status [moves]: "moves (db_rel keeps_ok) (update_job_status env i s data res err)"
  unfolding update_job_status_def
proof (intro keeps_ok.w.rules keeps_ok.session)
  fix now d x d'
  assume "(case find_job i d of None \<Rightarrow> Inr ((), d)
     | Some _ \<Rightarrow> ebind (varchars [(32, s)]) (\<lambda>_. Inr ((), insert_event (job_event i (''job_'' @ s) data now)
                  (update_job i (set_status s res err) d)))) = Inr (x, d')"
  then show "keeps_ok d d'"
    using update_job_ok [of "set_status s res err" d i]
      insert_event_ok [of "job_event i (''job_'' @ s) data now" "update_job i (set_status s res err) d"]
    by (auto simp: ebind_Inr keeps_ok_def find_job_update job_event_def split: option.splits)
qed

lemma keeps_ok_create_order [moves]: "moves (db_rel keeps_ok) (create_order env j q c resp)"
  unfolding create_order_def
  by (intro keeps_ok.w.rules moves keeps_ok.session) (auto simp: ebind_Inr intro: insert_order_ok)

lemma keeps_ok_save_fill [moves]: "moves (db_rel keeps_ok) (save_fill env i q resp)"
  unfolding save_fill_def
  by (auto intro!: keeps_ok.w.rules moves keeps_ok.session dest: insert_fill_ok
      simp: ebind_Inr split: option.split list.split)

lemma keeps_ok_insert_fill [moves]:
  "moves (db_rel keeps_ok) (insert_fill env i a t s sd p q c ca tm pnl)"
  unfolding insert_fill_def
  by (intro keeps_ok.w.rules moves keeps_ok.session) (auto simp: ebind_Inr intro: insert_fill_ok)

lemma keeps_ok_update_order [moves]:
  "moves (db_rel keeps_ok) (update_order_filled_qty env i fq ap st)"
  unfolding update_order_filled_qty_def
  by (intro keeps_ok.w.rules keeps_ok.session)
    (auto simp: ebind_Inr keeps_ok.refl intro!: update_order_ok split: option.splits)

lemma keeps_ok_incident [moves]: "moves (db_rel keeps_ok) (log_incident env i)"
  unfolding log_incident_def
  by (intro keeps_ok.w.rules keeps_ok.session keeps_ok.same [OF same_db_uuid4])
    (auto simp: ebind_Inr keeps_ok_def db_ok_def db_columns)

section \<open>What the methods do to the tables\<close>

text \<open>The tables without the incidents.\<close>

definition ledger :: "exec_db \<Rightarrow> exec_db" where
  "ledger d = d\<lparr>d_incidents := []\<rparr>"

lemma log_incident_effect:
  "wp (log_incident env i) (\<lambda>r w'. r = Inr () \<and> w_redis w' = w_redis w \<and> w_trace w' = w_trace w \<and>
     ledger (w_db w') = ledger (w_db w)) w"
  by (auto simp: log_incident_def wp ledger_def ebind_Inr split: sum.split)

text \<open>A method that raises leaves the tables as they are; one that returns has the stated effect.\<close>

definition effect_on :: "('d \<Rightarrow> 'd \<Rightarrow> bool) \<Rightarrow> 'd \<Rightarrow> exn + 'a \<Rightarrow> 'd \<Rightarrow> bool" where
  "effect_on P d r d' = (case r of Inl _ \<Rightarrow> d' = d | Inr _ \<Rightarrow> P d d')"

lemma effect_on_simps [simp]:
  "effect_on P d (Inl e) d' = (d' = d)" "effect_on P d (Inr x) d' = P d d'"
  by (simp_all add: effect_on_def)

definition status_set :: "uuid \<Rightarrow> string \<Rightarrow> (string \<times> json) list \<Rightarrow> json option \<Rightarrow> string option \<Rightarrow> int \<Rightarrow> exec_db \<Rightarrow> exec_db" where
  "status_set i s data res err now d =
     (if find_job i d = None then d
      else insert_event (job_event i (''job_'' @ s) data now) (update_job i (set_status s res err) d))"

lemma status_effect:
  "wp (update_job_status env i s data res err)
     (\<lambda>r w'. effect_on (\<lambda>d d'. d' = status_set i s data res err (w_now w) d) (w_db w) r (w_db w')) w"
  unfolding update_job_status_def
  by (auto simp: wp status_set_def varchars_def split: option.split sum.split)

lemma insert_fill_effect:
  "wp (insert_fill env oid a t sy sd p q c ca tm pnl)
     (\<lambda>r w'. effect_on (\<lambda>d d'. \<exists>row. d' = d\<lparr>d_fills := d_fills d @ [row]\<rparr> \<and> fl_account_id row = a \<and>
         fl_exchange_trade_id row = t \<and> fl_order_id row = oid \<and> num_col env 30 12 q = Inr (fl_qty row) \<and>
         (a, t) \<notin> set (fill_trades d)) (w_db w) r (w_db w')) w"
  unfolding insert_fill_def
  by (auto simp: wp ebind_Inr new_fill_def dest!: insert_fill_row_Inr split: sum.split)

lemma update_order_effect:
  "wp (update_order_filled_qty env oid fq ap st)
     (\<lambda>r w'. effect_on (\<lambda>d d'. if find_order oid d = None then d' = d
         else \<exists>fq' ap'. num_col env 30 12 fq = Inr fq' \<and> d' = update_order oid (\<lambda>r. r\<lparr>or_filled_qty := fq',
             or_avg_fill_price := Some ap', or_status := (case st of None \<Rightarrow> or_status r | Some s \<Rightarrow> s),
             or_updated_at_ms := w_now w\<rparr>) d) (w_db w) r (w_db w')) w"
  unfolding update_order_filled_qty_def
  by (auto simp: wp ebind_Inr split: option.split sum.split)

lemma query_effect: "wp (query env q) (\<lambda>r w'. w_db w' = w_db w \<and> (\<forall>x. r = Inr x \<longrightarrow> x = q (w_db w))) w"
  by (auto simp: query_def wp)

end
