(* ===== verification/Controls.thy ===== *)
theory Controls
  imports World "HOL-Library.List_Lexorder" "HOL-Library.Char_ord"
begin

text \<open>
  The Redis-backed controls of the execution service (\<open>services/execution/controls\<close>): kill switch,
  user pause, symbol pause, circuit breaker and symbol cooldown; and the operator endpoints that
  set them (\<open>services/gateway_api/ops/kill_switch.py\<close>, \<open>trading_mode.py\<close>).  A control is a key
  whose presence means that it is on; every one expires.
\<close>

section \<open>The controls\<close>

definition is_kill_switch_active :: "'r redis_ops \<Rightarrow> string \<Rightarrow> ('r, bool) prog" where
  "is_kill_switch_active ops account_id = r_exists ops (kill_switch_key account_id)"

definition ks_activate :: "'r redis_ops \<Rightarrow> string \<Rightarrow> int \<Rightarrow> ('r, bool) prog" where
  "ks_activate ops account_id ttl_s = r_set ops (kill_switch_key account_id) (Raw ''1'') False (Some ttl_s)"

definition ks_clear :: "'r redis_ops \<Rightarrow> string \<Rightarrow> ('r, unit) prog" where
  "ks_clear ops account_id = r_delete ops (kill_switch_key account_id)"

definition is_user_paused :: "'r redis_ops \<Rightarrow> string \<Rightarrow> ('r, bool) prog" where
  "is_user_paused ops account_id = r_exists ops (user_pause_key account_id)"

definition pause_user :: "'r redis_ops \<Rightarrow> string \<Rightarrow> int \<Rightarrow> ('r, bool) prog" where
  "pause_user ops account_id ttl_s = r_set ops (user_pause_key account_id) (Raw ''1'') False (Some ttl_s)"

definition resume_user :: "'r redis_ops \<Rightarrow> string \<Rightarrow> ('r, unit) prog" where
  "resume_user ops account_id = r_delete ops (user_pause_key account_id)"

definition is_symbol_paused :: "'r redis_ops \<Rightarrow> string \<Rightarrow> string \<Rightarrow> ('r, bool) prog" where
  "is_symbol_paused ops account_id symbol = r_exists ops (symbol_pause_key account_id symbol)"

definition pause_symbol :: "'r redis_ops \<Rightarrow> string \<Rightarrow> string \<Rightarrow> int \<Rightarrow> ('r, bool) prog" where
  "pause_symbol ops account_id symbol ttl_s =
     r_set ops (symbol_pause_key account_id symbol) (Raw ''1'') False (Some ttl_s)"

definition resume_symbol :: "'r redis_ops \<Rightarrow> string \<Rightarrow> string \<Rightarrow> ('r, unit) prog" where
  "resume_symbol ops account_id symbol = r_delete ops (symbol_pause_key account_id symbol)"

definition is_circuit_breaker_active :: "'r redis_ops \<Rightarrow> string \<Rightarrow> ('r, bool) prog" where
  "is_circuit_breaker_active ops account_id = r_exists ops (circuit_breaker_key account_id)"

definition trip_circuit_breaker :: "'r redis_ops \<Rightarrow> string \<Rightarrow> int \<Rightarrow> ('r, bool) prog" where
  "trip_circuit_breaker ops account_id window_s =
     r_set ops (circuit_breaker_key account_id) (Raw ''1'') False (Some window_s)"

definition reset_circuit_breaker :: "'r redis_ops \<Rightarrow> string \<Rightarrow> ('r, unit) prog" where
  "reset_circuit_breaker ops account_id = r_delete ops (circuit_breaker_key account_id)"

definition is_on_cooldown :: "'r redis_ops \<Rightarrow> string \<Rightarrow> string \<Rightarrow> ('r, bool) prog" where
  "is_on_cooldown ops account_id symbol = r_exists ops (symbol_cooldown_key account_id symbol)"

definition set_cooldown :: "'r redis_ops \<Rightarrow> string \<Rightarrow> string \<Rightarrow> int \<Rightarrow> ('r, bool) prog" where
  "set_cooldown ops account_id symbol seconds =
     r_set ops (symbol_cooldown_key account_id symbol) (Raw ''1'') False (Some seconds)"

definition clear_cooldown :: "'r redis_ops \<Rightarrow> string \<Rightarrow> string \<Rightarrow> ('r, unit) prog" where
  "clear_cooldown ops account_id symbol = r_delete ops (symbol_cooldown_key account_id symbol)"

definition remaining_ttl :: "'r redis_ops \<Rightarrow> string \<Rightarrow> string \<Rightarrow> ('r, int) prog" where
  "remaining_ttl ops account_id symbol = r_ttl ops (symbol_cooldown_key account_id symbol)"

section \<open>Operator endpoints\<close>

definition VALID_ACTIONS :: "string list" where
  "VALID_ACTIONS =
     [''activate'', ''clear'', ''pause_user'', ''resume_user'', ''pause_symbol'', ''resume_symbol'',
      ''trip_circuit_breaker'', ''reset_circuit_breaker'']"

record kill_switch_request =
  kq_action :: string
  kq_account_id :: string
  kq_symbol :: "string option"
  kq_ttl_s :: int

definition discard :: "('w, 'a) prog \<Rightarrow> ('w, unit) prog" where
  "discard m = mbind m (\<lambda>_. mret ())"

definition ks_dispatch :: "'r redis_ops \<Rightarrow> kill_switch_request \<Rightarrow> string \<Rightarrow> ('r, unit) prog" where
  "ks_dispatch ops q symbol =
     (let a = kq_account_id q; t = kq_ttl_s q in
      if kq_action q = ''activate'' then discard (ks_activate ops a t)
      else if kq_action q = ''clear'' then ks_clear ops a
      else if kq_action q = ''pause_user'' then discard (pause_user ops a t)
      else if kq_action q = ''resume_user'' then resume_user ops a
      else if kq_action q = ''pause_symbol'' then discard (pause_symbol ops a symbol t)
      else if kq_action q = ''resume_symbol'' then resume_symbol ops a symbol
      else if kq_action q = ''trip_circuit_breaker'' then discard (trip_circuit_breaker ops a t)
      else if kq_action q = ''reset_circuit_breaker'' then reset_circuit_breaker ops a
      else mret ())"

definition kill_switch_post :: "'r redis_ops \<Rightarrow> kill_switch_request \<Rightarrow> ('r, json) prog" where
  "kill_switch_post ops q =
     (if kq_action q \<notin> set VALID_ACTIONS then mraise (HttpError 422 (''action must be one of '' @ repr_list (sort VALID_ACTIONS)))
      else if kq_action q \<in> {''pause_symbol'', ''resume_symbol''} \<and>
              (kq_symbol q = None \<or> kq_symbol q = Some [])
      then mraise (HttpError 422 (quoted ''symbol'' @ '' is required for action '' @ quoted (kq_action q)))
      else mseq (ks_dispatch ops q (case kq_symbol q of None \<Rightarrow> [] | Some s \<Rightarrow> s))
             (mret (JObj
               [(''action'', JStr (kq_action q)), (''account_id'', JStr (kq_account_id q)),
                (''symbol'', opt_json JStr (kq_symbol q)),
                (''ttl_s'', if kq_action q \<in> {''activate'', ''pause_user'', ''pause_symbol'', ''trip_circuit_breaker''}
                          then JInt (kq_ttl_s q) else JNull)])))"

definition kill_switch_status :: "'r redis_ops \<Rightarrow> string \<Rightarrow> ('r, json) prog" where
  "kill_switch_status ops account_id =
     mbind (is_kill_switch_active ops account_id) (\<lambda>k.
     mbind (is_user_paused ops account_id) (\<lambda>p.
     mbind (is_circuit_breaker_active ops account_id) (\<lambda>c.
       mret (JObj [(''account_id'', JStr account_id), (''kill_switch_active'', JBool k),
                   (''user_paused'', JBool p), (''circuit_breaker_active'', JBool c)]))))"

definition VALID_MODES :: "string list" where
  "VALID_MODES = [''paper_only'', ''mixed'', ''emergency_stop'']"

definition MODE_NOTES :: "(string \<times> string) list" where
  "MODE_NOTES =
     [(''paper_only'', ''All execution enforced to paper mode. Live trading is blocked.''),
      (''mixed'', ''Accepted but live trading is not yet implemented. Paper mode remains enforced.''),
      (''emergency_stop'', ''Emergency stop active. All intent processing should halt.'')]"

definition mode_note :: "string \<Rightarrow> json" where
  "mode_note mode = JStr (case map_of MODE_NOTES mode of None \<Rightarrow> [] | Some n \<Rightarrow> n)"

definition global_trading_mode_key :: string where
  "global_trading_mode_key = ''global:trading_mode''"

definition global_emergency_stop_key :: string where
  "global_emergency_stop_key = ''global:emergency_stop''"

definition set_trading_mode :: "'r redis_ops \<Rightarrow> string \<Rightarrow> string \<Rightarrow> int \<Rightarrow> ('r, json) prog" where
  "set_trading_mode ops mode reason now_s =
     (if mode \<notin> set VALID_MODES then mraise (HttpError 422 (''mode must be one of '' @ repr_list (sort VALID_MODES)))
      else mbind (r_set ops global_trading_mode_key (Raw mode) False None) (\<lambda>_.
           mseq (if mode = ''emergency_stop''
                 then discard (r_set ops global_emergency_stop_key (Raw ''1'') False None)
                 else r_delete ops global_emergency_stop_key)
             (mret (JObj [(''mode'', JStr mode), (''reason'', JStr reason), (''note'', mode_note mode),
                          (''set_at'', JInt now_s)]))))"

definition get_trading_mode :: "'r redis_ops \<Rightarrow> ('r, json) prog" where
  "get_trading_mode ops =
     mbind (r_get ops global_trading_mode_key) (\<lambda>stored.
     mbind (r_exists ops global_emergency_stop_key) (\<lambda>emergency.
       let mode = (case stored of Some (Raw (c # cs)) \<Rightarrow> c # cs | _ \<Rightarrow> ''paper_only'')
       in mret (JObj [(''mode'', JStr mode), (''emergency_stop_active'', JBool emergency),
                      (''note'', mode_note mode)])))"

section \<open>What a control does\<close>

lemma wp_discard [wp]:
  "wp (discard m) Q s = wp m (\<lambda>r s'. case r of Inl e \<Rightarrow> Q (Inl e) s' | Inr _ \<Rightarrow> Q (Inr ()) s') s"
  by (simp only: discard_def wp_bind wp_ret)

lemmas control_defs =
  is_kill_switch_active_def ks_activate_def ks_clear_def is_user_paused_def pause_user_def
  resume_user_def is_symbol_paused_def pause_symbol_def resume_symbol_def
  is_circuit_breaker_active_def trip_circuit_breaker_def reset_circuit_breaker_def
  is_on_cooldown_def set_cooldown_def clear_cooldown_def remaining_ttl_def

context redis
begin

text \<open>What a reader of \<open>EXISTS\<close> and \<open>GET\<close> sees, as rules of the calculus.\<close>

lemma sees_exists:
  assumes "\<And>r s'. live s' = live s \<Longrightarrow> (\<And>b. r = Inr b \<Longrightarrow> b = (live s k \<noteq> None)) \<Longrightarrow> Q r s'"
  shows "wp (r_exists ops k) Q s"
  using assms exists_live by (intro wpI) blast

lemma sees_get:
  assumes "\<And>r s'. live s' = live s \<Longrightarrow> (\<And>v. r = Inr v \<Longrightarrow> v = live s k) \<Longrightarrow> Q r s'"
  shows "wp (r_get ops k) Q s"
  using assms get_live by (intro wpI) blast

lemma activate_then_active:
  assumes "ks_activate ops a t s = (Inr True, s1)" "is_kill_switch_active ops b s1 = (Inr x, s2)"
  shows "x = (b = a \<or> live s (kill_switch_key b) \<noteq> None)"
  using set_live [of "kill_switch_key a" "Raw ''1''" False "Some t" s "Inr True" s1]
    exists_live [of "kill_switch_key b" s1 "Inr x" s2] assms
  by (auto simp: control_defs key_defs)

lemma clear_then_inactive:
  assumes "ks_clear ops a s = (Inr (), s1)" "is_kill_switch_active ops b s1 = (Inr x, s2)"
  shows "x = (b \<noteq> a \<and> live s (kill_switch_key b) \<noteq> None)"
  using delete_live [of "kill_switch_key a" s "Inr ()" s1]
    exists_live [of "kill_switch_key b" s1 "Inr x" s2] assms
  by (auto simp: control_defs key_defs)

end

end
