(* ===== verification/Adapters.thy ===== *)
theory Adapters
  imports Repository Controls
begin

text \<open>
  The execution adapters (\<open>services/execution/adapter\<close>).  The paper adapter fills an order at a
  price it finds, in a fixed order of sources, in the request or in Redis; the live adapter sends
  the order to the exchange only if every gate of the live trading policy passes.  The answer of
  the exchange is the parameter \<open>post\<close>, a function of the calls made so far and of the order's
  parameters.
\<close>

section \<open>Prices in Redis\<close>

text \<open>\<open>str(v) not in words\<close>.\<close>

definition str_not_in :: "env \<Rightarrow> json \<Rightarrow> string list \<Rightarrow> bool" where
  "str_not_in env v words = (py_str (e_show env) v \<notin> set words)"

text \<open>
  The three sources.  Each parser is the body of a \<open>try\<close> whose handler drops the exception, so a
  value of a wrong type or an unreadable number means that the source has no price.
\<close>

definition snapshot_price :: "env \<Rightarrow> rtext \<Rightarrow> rat option" where
  "snapshot_price env raw =
     (case
        ebind (json_loads raw) (\<lambda>snapshot.
        ebind (obj_get snapshot ''market_state'' JNull) (\<lambda>ms0.
        ebind (obj_get (py_or ms0 (JObj [])) ''price'' JNull) (\<lambda>p.
          if p \<noteq> JNull \<and> str_not_in env p ['''', ''0'', ''None'']
          then ebind (dec_of_str env p) (\<lambda>c. Inr (if 0 < c then Some c else None))
          else Inr None)))
      of Inl _ \<Rightarrow> None | Inr x \<Rightarrow> x)"

definition market_price :: "env \<Rightarrow> rtext \<Rightarrow> rat option" where
  "market_price env raw =
     (case
        ebind (json_loads raw) (\<lambda>data.
        ebind (obj_get data ''price'' JNull) (\<lambda>p.
          if truthy p \<and> str_not_in env p ['''', ''0'']
          then ebind (dec_of_str env p) (\<lambda>c. Inr (if 0 < c then Some c else None))
          else Inr None))
      of Inl _ \<Rightarrow> None | Inr x \<Rightarrow> x)"

definition book_mid :: "env \<Rightarrow> rtext \<Rightarrow> rat option" where
  "book_mid env raw =
     (case
        ebind (json_loads raw) (\<lambda>book.
        ebind (obj_get book ''bid_price'' JNull) (\<lambda>bid.
        ebind (obj_get book ''ask_price'' JNull) (\<lambda>ask.
          if truthy bid \<and> truthy ask \<and> str_not_in env bid ['''', ''0''] \<and> str_not_in env ask ['''', ''0'']
          then ebind (dec_of_str env bid) (\<lambda>b. ebind (dec_of_str env ask) (\<lambda>a.
                 let mid = dec (dec (b + a) / 2) in Inr (if 0 < mid then Some mid else None)))
          else Inr None)))
      of Inl _ \<Rightarrow> None | Inr x \<Rightarrow> x)"

definition source_price :: "(rtext \<Rightarrow> rat option) \<Rightarrow> rtext option \<Rightarrow> rat option" where
  "source_price f raw = (if text_truthy raw then f (the raw) else None)"

definition redis_price :: "'r redis_ops \<Rightarrow> env \<Rightarrow> string \<Rightarrow> string \<Rightarrow> ('r, rat option) prog" where
  "redis_price ops env mt symbol =
     mbind (r_get ops (analytics_snapshot_key mt symbol)) (\<lambda>analytics_raw.
     case source_price (snapshot_price env) analytics_raw of Some p \<Rightarrow> mret (Some p) | None \<Rightarrow>
     mbind (r_get ops (market_price_key mt symbol)) (\<lambda>raw.
     case source_price (market_price env) raw of Some p \<Rightarrow> mret (Some p) | None \<Rightarrow>
     mbind (r_get ops (market_book_ticker_key mt symbol)) (\<lambda>book_raw.
     mret (source_price (book_mid env) book_raw))))"

section \<open>The paper adapter\<close>

definition PAPER_COMMISSION_RATE :: rat where
  "PAPER_COMMISSION_RATE = 4 / 10000"

definition MARKET_TYPE_FALLBACK :: "(string \<times> string) list" where
  "MARKET_TYPE_FALLBACK = [(''spot'', ''futures''), (''futures'', ''spot'')]"

definition derived_price :: "trade_intent \<Rightarrow> exn + rat option" where
  "derived_price i =
     (case ti_size_usd i of
        Some usd \<Rightarrow> if 0 < ti_size i then ebind (quantize 2 (dec (usd / ti_size i))) (\<lambda>p. Inr (Some p))
                    else Inr None
      | None \<Rightarrow> Inr None)"

definition resolve_fill_price :: "'r redis_ops option \<Rightarrow> env \<Rightarrow> trade_intent \<Rightarrow> ('r, rat option) prog" where
  "resolve_fill_price redis_client env i =
     (case ti_limit_price i of
        Some lp \<Rightarrow> mret (Some lp)
      | None \<Rightarrow>
          (case redis_client of
             None \<Rightarrow> mlift (derived_price i)
           | Some ops \<Rightarrow>
               let mt = market_type_value (ti_market_type i); symbol = ti_symbol i in
               mbind (redis_price ops env mt symbol) (\<lambda>price.
               case price of Some p \<Rightarrow> mbind (mlift (quantize 2 p)) (\<lambda>x. mret (Some x)) | None \<Rightarrow>
               (case map_of MARKET_TYPE_FALLBACK mt of
                  None \<Rightarrow> mlift (derived_price i)
                | Some fallback \<Rightarrow>
                    mbind (redis_price ops env fallback symbol) (\<lambda>price2.
                    case price2 of Some p \<Rightarrow> mbind (mlift (quantize 2 p)) (\<lambda>x. mret (Some x))
                    | None \<Rightarrow> mlift (derived_price i))))))"

definition paper_order_id :: "env \<Rightarrow> string \<Rightarrow> string" where
  "paper_order_id env client_order_id =
     ''PAPER-'' @ upper (take 16 (e_sha256 env (''paper:'' @ client_order_id)))"

definition failure_response :: "string \<Rightarrow> string \<Rightarrow> adapter_response" where
  "failure_response client_order_id error =
     \<lparr>ar_success = False, ar_client_order_id = client_order_id, ar_exchange_order_id = None,
      ar_fill_price = None, ar_fill_quantity = None, ar_commission = None,
      ar_commission_asset = ''USDT'', ar_error = Some error\<rparr>"

definition paper_submit ::
  "'r redis_ops option \<Rightarrow> env \<Rightarrow> execution_request \<Rightarrow> string \<Rightarrow> ('r, exec_db, 'm, adapter_response) act" where
  "paper_submit redis_client env q client_order_id =
     (let i = rq_trade_intent q in
      mbind (on_redis (resolve_fill_price redis_client env i)) (\<lambda>fill_price.
      case fill_price of
        Some p \<Rightarrow>
          if p \<le> 0 then mret (failure_response client_order_id
            (''paper_price_unavailable: no limit_price, Redis has no current price for '' @ ti_symbol i @
             ''/'' @ market_type_value (ti_market_type i) @ '', and size_usd/size derivation is not possible''))
          else
            mbind (mlift (quantize 8 (dec (dec (ti_size i * p) * PAPER_COMMISSION_RATE)))) (\<lambda>commission.
            mseq (record_effect (Submitted ''paper'' client_order_id))
              (mret \<lparr>ar_success = True, ar_client_order_id = client_order_id,
                     ar_exchange_order_id = Some (paper_order_id env client_order_id),
                     ar_fill_price = Some p, ar_fill_quantity = Some (ti_size i),
                     ar_commission = Some commission, ar_commission_asset = ''USDT'', ar_error = None\<rparr>))
      | None \<Rightarrow> mret (failure_response client_order_id
            (''paper_price_unavailable: no limit_price, Redis has no current price for '' @ ti_symbol i @
             ''/'' @ market_type_value (ti_market_type i) @ '', and size_usd/size derivation is not possible''))))"

section \<open>The live trading policy\<close>

record live_policy =
  lp_enabled :: bool
  lp_account_allowlist :: "string list"
  lp_symbol_allowlist :: "string list"
  lp_max_notional :: rat

record live_settings =
  ls_live_trading_enabled :: bool
  ls_account_allowlist :: string
  ls_symbol_allowlist :: string
  ls_live_max_notional_usd :: rat

record policy_result =
  pr_allowed :: bool
  pr_blocked_reasons :: "string list"
  pr_is_dry_run :: bool

definition make_live_policy ::
  "env \<Rightarrow> bool \<Rightarrow> string list \<Rightarrow> string list \<Rightarrow> rat \<Rightarrow> exn + live_policy" where
  "make_live_policy env enabled accounts symbols max_notional_usd =
     ebind (dec_of_str env (JNum max_notional_usd)) (\<lambda>cap.
       Inr \<lparr>lp_enabled = enabled,
            lp_account_allowlist = map strip (filter (\<lambda>a. strip a \<noteq> []) accounts),
            lp_symbol_allowlist = map (\<lambda>s. upper (strip s)) (filter (\<lambda>s. strip s \<noteq> []) symbols),
            lp_max_notional = cap\<rparr>)"

definition split_list :: "string \<Rightarrow> string list" where
  "split_list s = (if s = [] then [] else filter (\<lambda>a. strip a \<noteq> []) (split_on CHR '','' s))"

definition policy_from_settings :: "env \<Rightarrow> live_settings \<Rightarrow> exn + live_policy" where
  "policy_from_settings env s =
     make_live_policy env (ls_live_trading_enabled s) (split_list (ls_account_allowlist s))
       (split_list (ls_symbol_allowlist s)) (ls_live_max_notional_usd s)"

text \<open>\<open>known\<close>: the account is on the list.\<close>

definition account_reasons :: "live_policy \<Rightarrow> bool \<Rightarrow> string \<Rightarrow> string list" where
  "account_reasons p known account_id =
     (if lp_account_allowlist p = []
      then [''account_not_allowed: no accounts in allowlist (LIVE_TRADING_ACCOUNT_ALLOWLIST is empty)'']
      else if \<not> known
      then [''account_not_allowed: account_id '' @ quoted account_id @ '' not in allowlist''] else [])"

definition symbol_reasons :: "live_policy \<Rightarrow> string \<Rightarrow> string list" where
  "symbol_reasons p symbol =
     (if lp_symbol_allowlist p = [] then [''symbol_not_allowed: symbol allowlist is empty'']
      else if upper symbol \<notin> set (lp_symbol_allowlist p)
      then [''symbol_not_allowed: '' @ quoted symbol @ '' not in allowlist '' @
            repr_list (sort (remdups (lp_symbol_allowlist p)))] else [])"

definition gate_reasons :: "env \<Rightarrow> live_policy \<Rightarrow> string list \<Rightarrow> string list \<Rightarrow> rat option \<Rightarrow> string list" where
  "gate_reasons env p accounts symbols notional_usd =
     (if \<not> lp_enabled p then [''live_trading_disabled: LIVE_TRADING_ENABLED is false''] else []) @
     accounts @ symbols @
     (case notional_usd of
        Some n \<Rightarrow> if lp_max_notional p < n
                  then [''notional_exceeds_cap: '' @ show_dec env n @ '' USD > cap '' @
                        show_dec env (lp_max_notional p) @ '' USD''] else []
      | None \<Rightarrow> [])"

definition policy_reasons :: "env \<Rightarrow> live_policy \<Rightarrow> string \<Rightarrow> string \<Rightarrow> rat option \<Rightarrow> string list" where
  "policy_reasons env p account_id symbol notional_usd =
     gate_reasons env p (account_reasons p (account_id \<in> set (lp_account_allowlist p)) account_id)
       (symbol_reasons p symbol) notional_usd"

lemmas policy_defs = policy_reasons_def gate_reasons_def account_reasons_def symbol_reasons_def

definition policy_evaluate ::
  "env \<Rightarrow> live_policy \<Rightarrow> string \<Rightarrow> string \<Rightarrow> rat option \<Rightarrow> bool \<Rightarrow> policy_result" where
  "policy_evaluate env p account_id symbol notional_usd dry_run =
     (let reasons = policy_reasons env p account_id symbol notional_usd in
      \<lparr>pr_allowed = (reasons = [] \<and> \<not> dry_run), pr_blocked_reasons = reasons, pr_is_dry_run = dry_run\<rparr>)"

section \<open>The live adapter\<close>

type_synonym exchange = "effect list \<Rightarrow> (string \<times> json) list \<Rightarrow> exn + int \<times> rtext"

record live_adapter =
  la_policy :: live_policy
  la_api_key :: string
  la_api_secret :: string
  la_has_incident_logger :: bool

definition query_string :: "(string \<times> json) list \<Rightarrow> string" where
  "query_string params =
     join ''&'' (map (\<lambda>(k, v). k @ ''='' @ py_str (\<lambda>_. []) v) params)"

definition sign :: "env \<Rightarrow> live_adapter \<Rightarrow> (string \<times> json) list \<Rightarrow> string" where
  "sign env la params = e_hmac env (la_api_secret la) (query_string params)"

definition order_params :: "env \<Rightarrow> live_adapter \<Rightarrow> execution_request \<Rightarrow> string \<Rightarrow> int \<Rightarrow> (string \<times> json) list" where
  "order_params env la q client_order_id now =
     (let i = rq_trade_intent q;
          base = [(''symbol'', JStr (ti_symbol i)), (''side'', JStr (side_value (ti_side i))),
                  (''type'', JStr (order_type_value (ti_order_type i))),
                  (''quantity'', JStr (show_dec env (ti_size i))),
                  (''newClientOrderId'', JStr client_order_id), (''timestamp'', JInt now),
                  (''recvWindow'', JInt 5000)];
          params = base @ (case ti_limit_price i of None \<Rightarrow> []
                           | Some lp \<Rightarrow> [(''price'', JStr (show_dec env lp)), (''timeInForce'', JStr ''GTC'')])
      in params @ [(''signature'', JStr (sign env la params))])"

fun arr_items :: "json \<Rightarrow> exn + json list" where
  "arr_items (JArr xs) = Inr xs"
| "arr_items _ = Inl TypeError"

text \<open>\<open>sum(Decimal(str(f.get("commission", "0"))) for f in fills)\<close>.\<close>

fun sum_commissions :: "env \<Rightarrow> rat \<Rightarrow> json list \<Rightarrow> exn + rat" where
  "sum_commissions env acc [] = Inr acc"
| "sum_commissions env acc (f # fs) =
     ebind (obj_get f ''commission'' (JStr ''0'')) (\<lambda>v. ebind (dec_of_str env v) (\<lambda>c.
       sum_commissions env (dec (acc + c)) fs))"

record order_fill =
  of_price :: "rat option"
  of_qty :: "rat option"
  of_commission :: "rat option"
  of_asset :: json

definition parse_fills :: "env \<Rightarrow> json \<Rightarrow> exn + order_fill" where
  "parse_fills env body =
     ebind (obj_get body ''fills'' (JArr [])) (\<lambda>fills.
     if truthy fills then
       ebind (arr_items fills) (\<lambda>fs. case fs of [] \<Rightarrow> Inl IndexError | f # _ \<Rightarrow>
       ebind (obj_get f ''price'' (JStr ''0'')) (\<lambda>p. ebind (dec_of_str env p) (\<lambda>fill_price.
       ebind (obj_get body ''executedQty'' (JStr ''0'')) (\<lambda>e. ebind (dec_of_str env e) (\<lambda>fill_qty.
       ebind (sum_commissions env 0 fs) (\<lambda>commission.
       ebind (obj_get f ''commissionAsset'' (JStr ''USDT'')) (\<lambda>asset.
         Inr \<lparr>of_price = Some fill_price, of_qty = Some fill_qty, of_commission = Some commission,
              of_asset = asset\<rparr>)))))))
     else
       ebind (obj_get body ''status'' JNull) (\<lambda>status.
       if status = JStr ''FILLED'' then
         ebind (obj_get body ''executedQty'' (JStr ''0'')) (\<lambda>e. ebind (dec_of_str env e) (\<lambda>fill_qty.
         ebind (obj_get body ''cummulativeQuoteQty'' (JStr ''0'')) (\<lambda>cumm.
         if fill_qty \<noteq> 0 \<and> 0 < fill_qty
         then ebind (py_decimal cumm) (\<lambda>c.
                Inr \<lparr>of_price = Some (dec (c / fill_qty)), of_qty = Some fill_qty,
                     of_commission = None, of_asset = JStr ''USDT''\<rparr>)
         else Inr \<lparr>of_price = None, of_qty = Some fill_qty, of_commission = None,
                   of_asset = JStr ''USDT''\<rparr>)))
       else Inr \<lparr>of_price = None, of_qty = None, of_commission = None, of_asset = JStr ''USDT''\<rparr>))"

text \<open>What the adapter makes of the exchange's answer; every exception becomes a network error.\<close>

definition read_answer :: "env \<Rightarrow> string \<Rightarrow> int \<times> rtext \<Rightarrow> exn + adapter_response" where
  "read_answer env client_order_id answer =
     (case answer of (status_code, text) \<Rightarrow>
        if status_code = 200 then
          ebind (json_loads text) (\<lambda>body.
          ebind (parse_fills env body) (\<lambda>fill.
          ebind (obj_get body ''orderId'' (JStr [])) (\<lambda>oid.
            Inr \<lparr>ar_success = True, ar_client_order_id = client_order_id,
                 ar_exchange_order_id = Some (py_str (e_show env) oid),
                 ar_fill_price = of_price fill, ar_fill_quantity = of_qty fill,
                 ar_commission = of_commission fill,
                 ar_commission_asset = py_str (e_show env) (of_asset fill), ar_error = None\<rparr>)))
        else
          (let err = (case text of Json j \<Rightarrow> j | Raw s \<Rightarrow> JObj [(''msg'', JStr s)]) in
           ebind (obj_get err ''msg'' (JStr ''unknown'')) (\<lambda>msg.
             Inr (failure_response client_order_id
                    (''exchange_error_'' @ show_int status_code @ '': '' @ py_str (e_show env) msg)))))"

definition submit_to_exchange ::
  "exchange \<Rightarrow> env \<Rightarrow> live_adapter \<Rightarrow> execution_request \<Rightarrow> string \<Rightarrow> ('r, exec_db, 'm, adapter_response) act" where
  "submit_to_exchange post env la q client_order_id =
     mbind (mget (\<lambda>w. (w_now w, w_trace w))) (\<lambda>(now, trace).
     mseq (record_effect (Submitted ''live'' client_order_id))
       (mret (case ebind (post trace (order_params env la q client_order_id now))
                     (read_answer env client_order_id) of
                Inr resp \<Rightarrow> resp
              | Inl e \<Rightarrow> failure_response client_order_id (''network_error: '' @ e_exn_text env e))))"

definition log_policy_block ::
  "env \<Rightarrow> live_adapter \<Rightarrow> execution_request \<Rightarrow> string \<Rightarrow> policy_result \<Rightarrow> ('r, exec_db, 'm, unit) act" where
  "log_policy_block env la q client_order_id result =
     mwhen (la_has_incident_logger la)
       (mlogged (log_incident env (incident ''live_trade_blocked_by_policy''
          (''Live order blocked: '' @ join ''; '' (pr_blocked_reasons result)) ''info'' None None
          [(''account_id'', JStr (rq_account_id q)), (''symbol'', JStr (ti_symbol (rq_trade_intent q))),
           (''side'', JStr (side_value (ti_side (rq_trade_intent q)))),
           (''client_order_id'', JStr client_order_id),
           (''blocked_reasons'', JArr (map JStr (pr_blocked_reasons result))),
           (''is_dry_run'', JBool (pr_is_dry_run result))])))"

definition live_notional :: "trade_intent \<Rightarrow> rat option" where
  "live_notional i =
     (case ti_size_usd i of
        Some u \<Rightarrow> Some u
      | None \<Rightarrow> (case ti_limit_price i of Some lp \<Rightarrow> Some (dec (ti_size i * lp)) | None \<Rightarrow> None))"

definition dry_run_of :: "trade_intent \<Rightarrow> bool" where
  "dry_run_of i = truthy (dict_get ''dry_run'' (JBool False) (ti_metadata i))"

definition live_submit ::
  "exchange \<Rightarrow> env \<Rightarrow> live_adapter \<Rightarrow> execution_request \<Rightarrow> string \<Rightarrow> ('r, exec_db, 'm, adapter_response) act" where
  "live_submit post env la q client_order_id =
     (let i = rq_trade_intent q;
          dry_run = dry_run_of i;
          notional = live_notional i;
          result = policy_evaluate env (la_policy la) (rq_account_id q) (ti_symbol i) notional dry_run;
          reasons_str = join ''; '' (pr_blocked_reasons result)
      in if \<not> pr_allowed result
         then mseq (log_policy_block env la q client_order_id result)
                (mret (failure_response client_order_id
                   (if pr_is_dry_run result
                    then ''dry_run_preview: policy='' @
                         (if pr_blocked_reasons result = [] then ''would_allow'' else ''would_block'') @
                         ''; '' @ reasons_str
                    else ''blocked_by_policy: '' @ reasons_str)))
         else if dry_run
         then mret (failure_response client_order_id
                (''dry_run_preview: all policy gates pass; live order WOULD be submitted for '' @
                 ti_symbol i @ '' '' @ side_value (ti_side i) @ '' '' @ show_dec env (ti_size i) @
                 '' (notional='' @ show_opt_dec env notional @ '' USD). '' @
                 ''Remove dry_run=true from metadata to execute.''))
         else submit_to_exchange post env la q client_order_id)"

end
