(* ===== verification/AccountContext.thy ===== *)
theory AccountContext
  imports Repository
begin

text \<open>
  The policy of an account (\<open>services/execution/account/context.py\<close>): trading mode, approval level,
  symbol lists and risk limits, read in one session from the account, approval, policy and
  credential tables.
\<close>

record account_context =
  cx_account_id :: string
  cx_user_id :: string
  cx_trading_mode :: trading_mode
  cx_approval_level :: approval_level
  cx_has_credentials :: bool
  cx_paper_only :: bool
  cx_allowed_symbols :: "string list option"
  cx_denied_symbols :: "string list"
  cx_limits :: risk_limits

text \<open>What the session reads: \<open>None\<close> when there is no such account.\<close>

definition account_records ::
  "uuid \<Rightarrow> exec_db \<Rightarrow> (account_row \<times> approval_row option \<times> policy_row option \<times> bool) option" where
  "account_records a d =
     (case find (\<lambda>r. ac_id r = a) (d_accounts d) of
        None \<Rightarrow> None
      | Some acct \<Rightarrow>
          Some (acct, find (\<lambda>r. al_account_id r = a) (d_approvals d),
                find (\<lambda>r. rp_account_id r = a) (d_policies d),
                find (\<lambda>r. cd_account_id r = a) (d_credentials d) \<noteq> None))"

definition context_level :: "account_row \<Rightarrow> approval_row option \<Rightarrow> approval_level" where
  "context_level acct approval =
     (case approval_level_of (case approval of Some al \<Rightarrow> al_level al | None \<Rightarrow> ac_approval_level acct) of
        Inr l \<Rightarrow> l | Inl _ \<Rightarrow> L2_PAPER)"

definition context_limits :: "policy_row option \<Rightarrow> risk_limits" where
  "context_limits policy =
     (case policy of
        None \<Rightarrow> default_risk_limits
      | Some p \<Rightarrow> default_risk_limits\<lparr>rl_max_position_size_usd := rp_max_position_size_usd p,
                    rl_max_daily_loss_usd := rp_max_daily_loss_usd p,
                    rl_max_concurrent_positions := rp_max_concurrent_positions p,
                    rl_symbol_cooldown_seconds := rp_symbol_cooldown_seconds p\<rparr>)"

definition build_context ::
  "string \<Rightarrow> account_row \<Rightarrow> approval_row option \<Rightarrow> policy_row option \<Rightarrow> bool \<Rightarrow> exn + account_context" where
  "build_context account_id acct approval policy has_credentials =
     ebind (trading_mode_of (ac_trading_mode acct)) (\<lambda>mode.
       Inr \<lparr>cx_account_id = account_id, cx_user_id = ac_user_id acct, cx_trading_mode = mode,
            cx_approval_level = context_level acct approval, cx_has_credentials = has_credentials,
            cx_paper_only = (case approval of Some al \<Rightarrow> al_paper_only al | None \<Rightarrow> True),
            cx_allowed_symbols =
              (case approval of
                 Some al \<Rightarrow> (case al_allowed_symbols al of Some (s # ss) \<Rightarrow> Some (s # ss) | _ \<Rightarrow> None)
               | None \<Rightarrow> None),
            cx_denied_symbols =
              (case approval of
                 Some al \<Rightarrow> (case al_denied_symbols al of Some ss \<Rightarrow> ss | None \<Rightarrow> [])
               | None \<Rightarrow> []),
            cx_limits = context_limits policy\<rparr>)"

definition load_context :: "env \<Rightarrow> string \<Rightarrow> ('r, exec_db, 'm, account_context option) act" where
  "load_context env account_id =
     (case parse_uuid account_id of
        None \<Rightarrow> mret None
      | Some a \<Rightarrow>
          mbind (query env (account_records a)) (\<lambda>recs.
          case recs of
            None \<Rightarrow> mret None
          | Some (acct, approval, policy, has_credentials) \<Rightarrow>
              mbind (mlift (build_context account_id acct approval policy has_credentials))
                (\<lambda>ctx. mret (Some ctx))))"

text \<open>An account without an approval record can only trade on paper.\<close>

lemma context_paper_default:
  "build_context a acct None policy h = Inr ctx \<Longrightarrow>
     cx_paper_only ctx \<and> cx_allowed_symbols ctx = None \<and> cx_denied_symbols ctx = []"
  by (auto simp: build_context_def ebind_Inr)

lemma same_db_load [moves]: "moves same_db (load_context env a)"
  unfolding load_context_def
  by (auto intro!: same_db.rules moves split: option.split prod.split)

end
