(* ===== verification/Risk.thy ===== *)
theory Risk
  imports Controls
begin

text \<open>
  The risk engine of the execution service (\<open>services/execution/risk\<close>): the structural checks,
  pure functions of the request and of the limits, and the gate that runs the Redis-backed controls
  first, stops at the first one that is on, and then collects the failures of the structural
  checks.
\<close>

section \<open>Structural checks\<close>

record check_result =
  cr_name :: string
  cr_passed :: bool
  cr_reason :: string
  cr_metadata :: "(string \<times> json) list"

definition check_result :: "string \<Rightarrow> bool \<Rightarrow> string \<Rightarrow> (string \<times> json) list \<Rightarrow> check_result" where
  "check_result n p r m = \<lparr>cr_name = n, cr_passed = p, cr_reason = r, cr_metadata = m\<rparr>"

text \<open>The notional the size check looks at: \<open>size_usd\<close>, or size times a positive limit price.\<close>

definition notional_usd :: "execution_request \<Rightarrow> rat option" where
  "notional_usd q =
     (case ti_size_usd (rq_trade_intent q) of
        Some s \<Rightarrow> Some s
      | None \<Rightarrow> (case ti_limit_price (rq_trade_intent q) of
                   Some lp \<Rightarrow> if lp \<noteq> 0 \<and> 0 < lp then Some (dec (ti_size (rq_trade_intent q) * lp)) else None
                 | None \<Rightarrow> None))"

definition check_max_position_size :: "env \<Rightarrow> execution_request \<Rightarrow> rat \<Rightarrow> check_result" where
  "check_max_position_size env q max_usd =
     (case notional_usd q of
        None \<Rightarrow> check_result ''max_position_size'' True ''size_usd_unavailable'' []
      | Some size_usd \<Rightarrow>
          let passed = size_usd \<le> max_usd
          in check_result ''max_position_size'' passed
               (if passed then []
                else ''size_usd='' @ show_dec env size_usd @ '' > max='' @ show_dec env max_usd)
               [(''size_usd'', JStr (show_dec env size_usd)), (''max_usd'', JStr (show_dec env max_usd))])"

definition check_unsupported_order_type ::
  "env \<Rightarrow> execution_request \<Rightarrow> string list option \<Rightarrow> check_result" where
  "check_unsupported_order_type env q allowed =
     (let supported = (case allowed of Some (a # as) \<Rightarrow> a # as | _ \<Rightarrow> [''MARKET'', ''LIMIT'']);
          ot = order_type_value (ti_order_type (rq_trade_intent q));
          passed = ot \<in> set supported
      in check_result ''unsupported_order_type'' passed
           (if passed then []
            else ''order_type='' @ ot @ '' not in '' @ e_show env (JArr (map JStr supported)))
           [(''order_type'', JStr ot)])"

definition check_symbol_policy ::
  "execution_request \<Rightarrow> string list option \<Rightarrow> string list \<Rightarrow> check_result" where
  "check_symbol_policy q allowed_symbols denied_symbols =
     (let symbol = ti_symbol (rq_trade_intent q)
      in if symbol \<in> set denied_symbols
         then check_result ''symbol_policy'' False (''symbol '' @ symbol @ '' is denied'') []
         else case allowed_symbols of
                Some a \<Rightarrow> if symbol \<notin> set a
                  then check_result ''symbol_policy'' False (''symbol '' @ symbol @ '' not in allowed list'') []
                  else check_result ''symbol_policy'' True [] []
              | None \<Rightarrow> check_result ''symbol_policy'' True [] [])"

definition check_trading_mode :: "execution_request \<Rightarrow> bool \<Rightarrow> check_result" where
  "check_trading_mode q paper_only =
     (if paper_only \<and> rq_trading_mode q = LIVE
      then check_result ''trading_mode'' False ''account is paper_only but intent requests live execution'' []
      else check_result ''trading_mode'' True [] [])"

definition check_missing_account_context :: "execution_request \<Rightarrow> bool \<Rightarrow> check_result" where
  "check_missing_account_context q has_credentials =
     (if rq_trading_mode q = LIVE \<and> \<not> has_credentials
      then check_result ''missing_account_context'' False
             ''live mode requires API credentials but none are configured'' []
      else check_result ''missing_account_context'' True [] [])"

definition check_max_daily_loss :: "env \<Rightarrow> rat option \<Rightarrow> rat \<Rightarrow> check_result" where
  "check_max_daily_loss env daily_loss_usd max_daily_loss_usd =
     (case daily_loss_usd of
        None \<Rightarrow> check_result ''max_daily_loss'' True ''no_daily_loss_data'' []
      | Some l \<Rightarrow>
          let passed = l < max_daily_loss_usd
          in check_result ''max_daily_loss'' passed
               (if passed then []
                else ''daily_loss='' @ show_dec env l @ '' >= max='' @ show_dec env max_daily_loss_usd)
               [(''daily_loss_usd'', JStr (show_dec env l)),
                (''max_usd'', JStr (show_dec env max_daily_loss_usd))])"

definition check_max_concurrent_exposure :: "int option \<Rightarrow> int \<Rightarrow> check_result" where
  "check_max_concurrent_exposure open_positions max_concurrent =
     (case open_positions of
        None \<Rightarrow> check_result ''max_concurrent_exposure'' True ''no_position_data'' []
      | Some n \<Rightarrow>
          let passed = n < max_concurrent
          in check_result ''max_concurrent_exposure'' passed
               (if passed then []
                else ''open_positions='' @ show_int n @ '' >= max='' @ show_int max_concurrent)
               [(''open_positions'', JInt n), (''max_concurrent'', JInt max_concurrent)])"

section \<open>The engine\<close>

record risk_engine =
  re_limits :: risk_limits
  re_paper_only :: bool
  re_has_credentials :: bool
  re_allowed_symbols :: "string list option"
  re_denied_symbols :: "string list"

definition default_risk_engine :: risk_engine where
  "default_risk_engine =
     \<lparr>re_limits = default_risk_limits, re_paper_only = True, re_has_credentials = False,
      re_allowed_symbols = None, re_denied_symbols = []\<rparr>"

definition sync_checks ::
  "env \<Rightarrow> risk_engine \<Rightarrow> risk_limits \<Rightarrow> execution_request \<Rightarrow> rat option \<Rightarrow> int option \<Rightarrow> check_result list" where
  "sync_checks env eng limits q daily_loss_usd open_positions =
     [check_symbol_policy q (re_allowed_symbols eng) (re_denied_symbols eng),
      check_trading_mode q (re_paper_only eng),
      check_missing_account_context q (re_has_credentials eng),
      check_max_position_size env q (rl_max_position_size_usd limits),
      check_unsupported_order_type env q None,
      check_max_daily_loss env daily_loss_usd (rl_max_daily_loss_usd limits),
      check_max_concurrent_exposure open_positions (rl_max_concurrent_positions limits)]"

definition failure_text :: "check_result \<Rightarrow> string" where
  "failure_text r = (if cr_reason r = [] then cr_name r else cr_reason r)"

definition collect :: "(string \<times> bool) list \<Rightarrow> check_result list \<Rightarrow> risk_decision" where
  "collect checks rs =
     (let failures = map failure_text (filter (\<lambda>r. \<not> cr_passed r) rs)
      in \<lparr>rd_passed = (failures = []),
          rd_checks = fold (\<lambda>r. dict_set (cr_name r) (cr_passed r)) rs checks,
          rd_failures = failures,
          rd_metadata = fold (\<lambda>r m. if cr_metadata r = [] then m
                                   else dict_set (cr_name r) (JObj (cr_metadata r)) m) rs []\<rparr>)"

definition blocked :: "(string \<times> bool) list \<Rightarrow> string \<Rightarrow> string \<Rightarrow> (string \<times> json) list \<Rightarrow> risk_decision" where
  "blocked checks name failure metadata =
     \<lparr>rd_passed = False, rd_checks = dict_set name False checks, rd_failures = [failure],
      rd_metadata = metadata\<rparr>"

definition evaluate ::
  "'r redis_ops \<Rightarrow> env \<Rightarrow> risk_engine \<Rightarrow> execution_request \<Rightarrow> rat option \<Rightarrow> int option \<Rightarrow>
   risk_limits option \<Rightarrow> ('r, risk_decision) prog" where
  "evaluate ops env eng q daily_loss_usd open_positions limits_override =
     (let limits = (case limits_override of None \<Rightarrow> re_limits eng | Some l \<Rightarrow> l);
          a = rq_account_id q;
          symbol = ti_symbol (rq_trade_intent q);
          c1 = [(''kill_switch'', True)];
          c2 = dict_set ''user_paused'' True c1;
          c3 = dict_set ''symbol_paused'' True c2;
          c4 = dict_set ''circuit_breaker'' True c3;
          c5 = dict_set ''symbol_cooldown'' True c4
      in mbind (is_kill_switch_active ops a) (\<lambda>k.
         if k then mret (blocked [] ''kill_switch'' ''kill_switch_active'' [(''account_id'', JStr a)]) else
         mbind (is_user_paused ops a) (\<lambda>p.
         if p then mret (blocked c1 ''user_paused'' ''user_paused'' []) else
         mbind (is_symbol_paused ops a symbol) (\<lambda>s.
         if s then mret (blocked c2 ''symbol_paused'' ''symbol_paused'' []) else
         mbind (is_circuit_breaker_active ops a) (\<lambda>cb.
         if cb then mret (blocked c3 ''circuit_breaker'' ''circuit_breaker_active'' []) else
         mbind (is_on_cooldown ops a symbol) (\<lambda>cd.
         if cd then mbind (remaining_ttl ops a symbol) (\<lambda>ttl.
                mret (blocked c4 ''symbol_cooldown'' ''symbol_on_cooldown''
                        [(''cooldown_remaining_s'', JInt ttl)])) else
         mret (collect c5 (sync_checks env eng limits q daily_loss_usd open_positions))))))))"

section \<open>What a passed gate means\<close>

lemma collect_passed: "rd_passed (collect c rs) = list_all cr_passed rs"
  by (auto simp: collect_def Let_def list_all_iff filter_empty_conv)

lemma collect_failures: "(rd_failures (collect c rs) = []) = rd_passed (collect c rs)"
  by (simp add: collect_def Let_def)

lemma check_result_sel [simp]:
  "cr_passed (check_result n p r m) = p" "cr_name (check_result n p r m) = n"
  by (simp_all add: check_result_def)

lemma size_check_iff:
  "cr_passed (check_max_position_size env q m) = (\<forall>n. notional_usd q = Some n \<longrightarrow> n \<le> m)"
  by (auto simp: check_max_position_size_def Let_def split: option.splits)

lemma order_type_check_iff:
  "cr_passed (check_unsupported_order_type env q None) =
     (ti_order_type (rq_trade_intent q) \<in> {MARKET, LIMIT})"
  by (cases "ti_order_type (rq_trade_intent q)") (simp_all add: check_unsupported_order_type_def)

lemma symbol_check_iff:
  "cr_passed (check_symbol_policy q al dn) =
     (ti_symbol (rq_trade_intent q) \<notin> set dn \<and>
      (\<forall>a. al = Some a \<longrightarrow> ti_symbol (rq_trade_intent q) \<in> set a))"
  by (auto simp: check_symbol_policy_def Let_def split: option.splits)

lemma mode_check_iff: "cr_passed (check_trading_mode q p) = (p \<longrightarrow> rq_trading_mode q = PAPER)"
  by (cases "rq_trading_mode q") (auto simp: check_trading_mode_def)

lemma credential_check_iff:
  "cr_passed (check_missing_account_context q h) = (rq_trading_mode q = LIVE \<longrightarrow> h)"
  by (auto simp: check_missing_account_context_def)

lemma loss_check_iff: "cr_passed (check_max_daily_loss env l m) = (\<forall>x. l = Some x \<longrightarrow> x < m)"
  by (auto simp: check_max_daily_loss_def Let_def split: option.splits)

lemma exposure_check_iff: "cr_passed (check_max_concurrent_exposure n m) = (\<forall>x. n = Some x \<longrightarrow> x < m)"
  by (auto simp: check_max_concurrent_exposure_def Let_def split: option.splits)

lemmas check_iffs =
  size_check_iff order_type_check_iff symbol_check_iff mode_check_iff credential_check_iff
  loss_check_iff exposure_check_iff

text \<open>The specification of the gate: every control is off and every limit is respected.\<close>

definition within_limits ::
  "risk_engine \<Rightarrow> risk_limits \<Rightarrow> execution_request \<Rightarrow> rat option \<Rightarrow> int option \<Rightarrow> bool" where
  "within_limits eng limits q loss positions =
     (let i = rq_trade_intent q in
      ti_symbol i \<notin> set (re_denied_symbols eng) \<and>
      (\<forall>a. re_allowed_symbols eng = Some a \<longrightarrow> ti_symbol i \<in> set a) \<and>
      (re_paper_only eng \<longrightarrow> rq_trading_mode q = PAPER) \<and>
      (rq_trading_mode q = LIVE \<longrightarrow> re_has_credentials eng) \<and>
      (\<forall>n. notional_usd q = Some n \<longrightarrow> n \<le> rl_max_position_size_usd limits) \<and>
      ti_order_type i \<in> {MARKET, LIMIT} \<and>
      (\<forall>l. loss = Some l \<longrightarrow> l < rl_max_daily_loss_usd limits) \<and>
      (\<forall>n. positions = Some n \<longrightarrow> n < rl_max_concurrent_positions limits))"

definition controls_off :: "(string \<Rightarrow> rtext option) \<Rightarrow> string \<Rightarrow> string \<Rightarrow> bool" where
  "controls_off l a symbol =
     (l (kill_switch_key a) = None \<and> l (user_pause_key a) = None \<and>
      l (symbol_pause_key a symbol) = None \<and> l (circuit_breaker_key a) = None \<and>
      l (symbol_cooldown_key a symbol) = None)"

lemma collect_sync_passed:
  "rd_passed (collect c (sync_checks env eng limits q loss positions)) =
     within_limits eng limits q loss positions"
  by (auto simp: collect_passed sync_checks_def check_iffs within_limits_def Let_def)

text \<open>What the gate promises: it passes exactly when the specification holds.\<close>

definition gate_post ::
  "risk_engine \<Rightarrow> execution_request \<Rightarrow> rat option \<Rightarrow> int option \<Rightarrow> risk_limits option \<Rightarrow>
   (string \<Rightarrow> rtext option) \<Rightarrow> risk_decision \<Rightarrow> bool" where
  "gate_post eng q loss positions ov l d =
     (rd_passed d = (controls_off l (rq_account_id q) (ti_symbol (rq_trade_intent q)) \<and>
        within_limits eng (case ov of None \<Rightarrow> re_limits eng | Some x \<Rightarrow> x) q loss positions) \<and>
      (l (kill_switch_key (rq_account_id q)) \<noteq> None \<longrightarrow> rd_failures d = [''kill_switch_active'']) \<and>
      rd_passed d = (rd_failures d = []))"

context redis
begin

text \<open>One control of the gate.\<close>

lemma wp_control:
  assumes "live s = l"
    and "\<And>s'. live s' = l \<Longrightarrow> l k \<noteq> None \<Longrightarrow> wp m1 Q s'"
    and "\<And>s'. live s' = l \<Longrightarrow> l k = None \<Longrightarrow> wp m2 Q s'"
    and "\<And>e s'. live s' = l \<Longrightarrow> Q (Inl e) s'"
  shows "wp (mbind (r_exists ops k) (\<lambda>b. if b then m1 else m2)) Q s"
  unfolding wp_bind by (rule sees_exists) (use assms in \<open>auto split: sum.split\<close>)

text \<open>The gate changes no live key.\<close>

lemma evaluate_wp:
  assumes "live s = l"
  shows "wp (evaluate ops env eng q loss positions ov)
           (\<lambda>r s'. live s' = l \<and> (\<forall>d. r = Inr d \<longrightarrow> gate_post eng q loss positions ov l d)) s"
  using assms unfolding evaluate_def Let_def control_defs
  apply -
  apply (rule wp_control, assumption, simp add: wp gate_post_def blocked_def controls_off_def)
   apply (rule wp_control, assumption, simp add: wp gate_post_def blocked_def controls_off_def)
    apply (rule wp_control, assumption, simp add: wp gate_post_def blocked_def controls_off_def)
     apply (rule wp_control, assumption, simp add: wp gate_post_def blocked_def controls_off_def)
      apply (rule wp_control, assumption)
        apply (unfold wp_bind, rule wpI)
        apply (auto simp: wp gate_post_def blocked_def controls_off_def collect_sync_passed
          collect_failures dest: ttl_live split: sum.split)
  done

end

end
