(* ===== verification/ExecutionConsumer.thy ===== *)
theory ExecutionConsumer
  imports Adapters AccountContext Risk
begin

text \<open>
  The execution consumer (\<open>services/execution/consumer.py\<close>): it takes a trade intent from the
  stream, blocks duplicates with a lock in Redis, persists the job, gates it through the risk
  engine, submits it to the adapter, records the order and the fill and publishes what happened.
  \<open>process_intent\<close> is composed of the phases the source marks; the collaborators the code may leave
  out (repository, context loader, incident logger) are flags of the configuration.
\<close>

section \<open>Configuration\<close>

record exec_settings =
  es_consumer_group :: string
  es_consumer_name :: string
  es_batch_size :: int
  es_block_ms :: int
  es_job_lock_ttl_s :: int
  es_symbol_cooldown_s :: int
  es_default_account_id :: string
  es_default_user_id :: string
  es_default_approval_level :: string
  es_trading_mode :: trading_mode
  es_stale_order_timeout_s :: int
  es_recon_consumer_group :: string
  es_recon_consumer_name :: string

definition default_settings :: exec_settings where
  "default_settings =
     \<lparr>es_consumer_group = ''execution'', es_consumer_name = ''execution-1'', es_batch_size = 50,
      es_block_ms = 500, es_job_lock_ttl_s = 30, es_symbol_cooldown_s = 300,
      es_default_account_id = '''', es_default_user_id = '''',
      es_default_approval_level = ''l2_paper'', es_trading_mode = PAPER,
      es_stale_order_timeout_s = 300, es_recon_consumer_group = ''execution-reconcile'',
      es_recon_consumer_name = ''execution-recon-1''\<rparr>"

text \<open>
  The state of the service: its world and the counters of the consumer, of the reconciliation
  consumer and of the reconciliation loop.
\<close>

record 'r exec_world = "('r, exec_db) world" +
  x_processed :: nat
  x_blocked :: nat
  x_orphans :: nat
  x_fills :: nat
  x_scans :: nat
  x_stale :: nat

type_synonym ('r, 'a) xact = "('r exec_world, 'a) prog"

text \<open>The adapter is an interface: its name and its \<open>submit\<close>.\<close>

record 'r adapter =
  ad_name :: string
  ad_submit :: "execution_request \<Rightarrow> string \<Rightarrow> ('r, adapter_response) xact"

record 'r consumer =
  cs_settings :: exec_settings
  cs_ops :: "'r redis_ops"
  cs_env :: env
  cs_adapter :: "'r adapter"
  cs_risk :: risk_engine
  cs_has_repository :: bool
  cs_has_context_loader :: bool
  cs_has_incident_logger :: bool

text \<open>What became of an intent.\<close>

datatype outcome = Ignored | Duplicate | Failed | Blocked | Filled

section \<open>Helpers\<close>

definition with_repo :: "'r consumer \<Rightarrow> ('r, unit) xact \<Rightarrow> ('r, unit) xact" where
  "with_repo cs m = mwhen (cs_has_repository cs) (mlogged m)"

definition account_of :: "exec_settings \<Rightarrow> string" where
  "account_of s = (if es_default_account_id s = [] then ''default'' else es_default_account_id s)"

definition coid_of :: "'r consumer \<Rightarrow> trade_intent \<Rightarrow> string" where
  "coid_of cs i =
     make_client_order_id (e_sha256 (cs_env cs)) (ti_intent_id i) (account_of (cs_settings cs))
       (ti_symbol i) (side_value (ti_side i))"

definition build_request ::
  "'r consumer \<Rightarrow> uuid \<Rightarrow> uuid \<Rightarrow> trade_intent \<Rightarrow> int \<Rightarrow> exn + execution_request" where
  "build_request cs request_id job_id i now =
     (let s = cs_settings cs in
      ebind (approval_level_of (es_default_approval_level s)) (\<lambda>level.
        Inr \<lparr>rq_request_id = request_id, rq_job_id = job_id, rq_trade_intent = i,
             rq_user_id = (if es_default_user_id s = [] then ''system'' else es_default_user_id s),
             rq_account_id = account_of s, rq_trading_mode = es_trading_mode s,
             rq_approval_level = level, rq_source = ''strategy'', rq_created_at = now\<rparr>))"

definition on_blocked ::
  "'r consumer \<Rightarrow> uuid \<Rightarrow> string \<Rightarrow> string list \<Rightarrow> (string \<times> json) list \<Rightarrow> ('r, unit) xact" where
  "on_blocked cs job_id client_order_id failures metadata =
     (let event_type =
            (if ''kill_switch_active'' \<in> set failures then ''kill_switch_blocked''
             else if ''symbol_on_cooldown'' \<in> set failures then ''cooldown_blocked''
             else ''job_blocked'')
      in mseq (with_repo cs (update_job_status (cs_env cs) job_id ''blocked''
                [(''failures'', JArr (map JStr failures)), (''metadata'', JObj metadata)] None None))
           (publish (cs_ops cs) event_type job_id
              (fold (\<lambda>(k, v). dict_set k v) metadata
                 [(''failures'', JArr (map JStr failures)), (''client_order_id'', JStr client_order_id)])))"

definition failure_incident ::
  "env \<Rightarrow> uuid \<Rightarrow> string \<Rightarrow> string \<Rightarrow> string \<Rightarrow> trade_intent \<Rightarrow> string \<Rightarrow> incident_row" where
  "failure_incident env job_id client_order_id reason error i account_id =
     incident
       (if contains ''paper_price_unavailable'' error then ''paper_price_unavailable'' else ''execution_failure'')
       (''Execution failed ('' @ reason @ ''): '' @ error) ''error'' (Some job_id) (ti_strategy_id i)
       [(''symbol'', JStr (ti_symbol i)),
        (''market_type'', JStr (market_type_value (ti_market_type i))),
        (''side'', JStr (side_value (ti_side i))),
        (''size'', JStr (show_dec env (ti_size i))),
        (''size_usd'', case ti_size_usd i of None \<Rightarrow> JNull
                     | Some u \<Rightarrow> if u = 0 then JNull else JStr (show_dec env u)),
        (''account_id'', JStr account_id),
        (''client_order_id'', JStr client_order_id),
        (''reason'', JStr reason)]"

definition on_failed ::
  "'r consumer \<Rightarrow> uuid \<Rightarrow> string \<Rightarrow> string \<Rightarrow> string \<Rightarrow> trade_intent option \<Rightarrow> string \<Rightarrow>
   ('r, unit) xact" where
  "on_failed cs job_id client_order_id reason error intent account_id =
     mseq (with_repo cs (update_job_status (cs_env cs) job_id ''failed''
             [(''reason'', JStr reason), (''error'', JStr error)] None (Some error)))
    (mseq (publish (cs_ops cs) ''job_failed'' job_id
             [(''reason'', JStr reason), (''error'', JStr error), (''client_order_id'', JStr client_order_id)])
          (case intent of
             None \<Rightarrow> mret ()
           | Some i \<Rightarrow>
               mwhen (cs_has_incident_logger cs)
                 (mlogged (log_incident (cs_env cs)
                    (failure_incident (cs_env cs) job_id client_order_id reason error i account_id)))))"

definition consumer_ack :: "'r consumer \<Rightarrow> string \<Rightarrow> ('r, unit) xact" where
  "consumer_ack cs msg_id = ack (cs_ops cs) STRATEGY_INTENTS (es_consumer_group (cs_settings cs)) msg_id"

section \<open>The phases of processing an intent\<close>

text \<open>The job is persisted, as queued, and announced.\<close>

definition queue_job ::
  "'r consumer \<Rightarrow> execution_request \<Rightarrow> string \<Rightarrow> ('r, unit) xact" where
  "queue_job cs q client_order_id =
     (let i = rq_trade_intent q in
      mseq (with_repo cs (create_job (cs_env cs) (rq_job_id q) q client_order_id))
           (publish (cs_ops cs) ''job_queued'' (rq_job_id q)
              [(''client_order_id'', JStr client_order_id), (''symbol'', JStr (ti_symbol i)),
               (''side'', JStr (side_value (ti_side i))), (''intent_id'', JStr (ti_intent_id i))]))"

text \<open>
  The data of the risk gate.  When loading the context or a query fails, what is already known is
  used: both queries are in one \<open>try\<close>, so the daily loss may be known without the positions.
\<close>

definition load_limits :: "'r consumer \<Rightarrow> string \<Rightarrow> ('r, risk_limits option) xact" where
  "load_limits cs account_id =
     (if cs_has_context_loader cs
      then mtry (mbind (load_context (cs_env cs) account_id) (\<lambda>ctx. mret (map_option cx_limits ctx)))
             (\<lambda>_. mret None)
      else mret None)"

definition load_risk_data ::
  "'r consumer \<Rightarrow> string \<Rightarrow> ('r, rat option \<times> int option) xact" where
  "load_risk_data cs account_id =
     (if cs_has_repository cs
      then mtry
             (mbind (get_daily_realized_loss_usd (cs_env cs) account_id None) (\<lambda>loss.
              mtry (mbind (get_open_positions_count (cs_env cs) account_id) (\<lambda>n. mret (Some loss, Some n)))
                (\<lambda>_. mret (Some loss, None))))
             (\<lambda>_. mret (None, None))
      else mret (None, None))"

definition risk_gate ::
  "'r consumer \<Rightarrow> execution_request \<Rightarrow> ('r, exn + risk_decision) xact" where
  "risk_gate cs q =
     mbind (load_limits cs (rq_account_id q)) (\<lambda>limits.
     mbind (load_risk_data cs (rq_account_id q)) (\<lambda>(loss, positions).
     mtry (mbind (on_redis (evaluate (cs_ops cs) (cs_env cs) (cs_risk cs) q loss positions limits))
             (\<lambda>d. mret (Inr d)))
       (\<lambda>e. mret (Inl e))))"

definition approve_job ::
  "'r consumer \<Rightarrow> uuid \<Rightarrow> risk_decision \<Rightarrow> ('r, unit) xact" where
  "approve_job cs job_id d =
     mseq (with_repo cs (update_job_status (cs_env cs) job_id ''approved''
             [(''checks'', JObj (map (\<lambda>(k, b). (k, JBool b)) (rd_checks d)))] None None))
          (publish (cs_ops cs) ''job_approved'' job_id
             [(''checks_passed'', JArr (map (\<lambda>(k, b). JStr k) (rd_checks d)))])"

definition mark_status ::
  "'r consumer \<Rightarrow> uuid \<Rightarrow> adapter_response \<Rightarrow> string \<Rightarrow> ('r, unit) xact" where
  "mark_status cs job_id resp status =
     mseq (with_repo cs (update_job_status (cs_env cs) job_id status [] None None))
          (publish (cs_ops cs) (''job_'' @ status) job_id
             [(''exchange_order_id'', opt_json JStr (ar_exchange_order_id resp))])"

definition persist_fill ::
  "'r consumer \<Rightarrow> execution_request \<Rightarrow> string \<Rightarrow> adapter_response \<Rightarrow> ('r, unit) xact" where
  "persist_fill cs q client_order_id resp =
     with_repo cs
       (mbind (create_order (cs_env cs) (rq_job_id q) q client_order_id resp) (\<lambda>order_id.
        mseq (save_fill (cs_env cs) order_id q resp)
             (update_job_status (cs_env cs) (rq_job_id q) ''filled'' []
                (Some (JObj [(''exchange_order_id'', opt_json JStr (ar_exchange_order_id resp)),
                             (''fill_price'', JStr (show_opt_dec (cs_env cs) (ar_fill_price resp))),
                             (''fill_quantity'', JStr (show_opt_dec (cs_env cs) (ar_fill_quantity resp))),
                             (''adapter'', JStr (ad_name (cs_adapter cs)))])) None)))"

definition announce_fill ::
  "'r consumer \<Rightarrow> uuid \<Rightarrow> adapter_response \<Rightarrow> ('r, unit) xact" where
  "announce_fill cs job_id resp =
     publish (cs_ops cs) ''job_filled'' job_id
       [(''exchange_order_id'', opt_json JStr (ar_exchange_order_id resp)),
        (''fill_price'', JStr (show_opt_dec (cs_env cs) (ar_fill_price resp))),
        (''fill_quantity'', JStr (show_opt_dec (cs_env cs) (ar_fill_quantity resp))),
        (''commission'', JStr (show_opt_dec (cs_env cs) (ar_commission resp))),
        (''adapter'', JStr (ad_name (cs_adapter cs)))]"

text \<open>After approval: submit, then either the failure path or the statuses, the fill and the cooldown.\<close>

definition execute_approved ::
  "'r consumer \<Rightarrow> execution_request \<Rightarrow> string \<Rightarrow> ('r, outcome) xact" where
  "execute_approved cs q client_order_id =
     (let job_id = rq_job_id q; i = rq_trade_intent q in
      mbind (mtry (mbind (ad_submit (cs_adapter cs) q client_order_id) (\<lambda>resp. mret (Inr resp)))
               (\<lambda>e. mret (Inl e))) (\<lambda>res.
      case res of
        Inl e \<Rightarrow> mseq (on_failed cs job_id client_order_id ''adapter_error'' (e_exn_text (cs_env cs) e) None [])
                   (mret Failed)
      | Inr resp \<Rightarrow>
          if \<not> ar_success resp
          then mseq (on_failed cs job_id client_order_id ''adapter_rejected''
                       (case ar_error resp of Some (c # cs') \<Rightarrow> c # cs' | _ \<Rightarrow> ''unknown'')
                       (Some i) (rq_account_id q))
                 (mret Failed)
          else mseq (mark_status cs job_id resp ''submitted'')
              (mseq (mark_status cs job_id resp ''acknowledged'')
              (mseq (persist_fill cs q client_order_id resp)
              (mseq (announce_fill cs job_id resp)
              (mseq (discard (on_redis (set_cooldown (cs_ops cs) (rq_account_id q) (ti_symbol i)
                                          (es_symbol_cooldown_s (cs_settings cs)))))
              (mseq (mput (\<lambda>w. w\<lparr>x_processed := Suc (x_processed w)\<rparr>))
                    (mret Filled))))))))"

text \<open>From the queued job to the outcome.\<close>

definition run_job ::
  "'r consumer \<Rightarrow> execution_request \<Rightarrow> string \<Rightarrow> ('r, outcome) xact" where
  "run_job cs q client_order_id =
     mseq (queue_job cs q client_order_id)
    (mbind (risk_gate cs q) (\<lambda>res.
     case res of
       Inl e \<Rightarrow> mseq (on_failed cs (rq_job_id q) client_order_id ''risk_engine_error''
                        (e_exn_text (cs_env cs) e) None [])
                  (mret Failed)
     | Inr d \<Rightarrow>
         if \<not> rd_passed d
         then mseq (mput (\<lambda>w. w\<lparr>x_blocked := Suc (x_blocked w)\<rparr>))
             (mseq (on_blocked cs (rq_job_id q) client_order_id (rd_failures d) (rd_metadata d)) (mret Blocked))
         else mseq (approve_job cs (rq_job_id q) d) (execute_approved cs q client_order_id)))"

definition process_locked :: "'r consumer \<Rightarrow> string \<Rightarrow> trade_intent \<Rightarrow> uuid \<Rightarrow> ('r, outcome) xact" where
  "process_locked cs msg_id i job_id =
     mbind (uuid4 (cs_env cs)) (\<lambda>request_id.
     mbind (mget w_now) (\<lambda>now.
     mbind (mlift (build_request cs request_id job_id i now)) (\<lambda>q.
     mbind (run_job cs q (coid_of cs i)) (\<lambda>out.
     mseq (consumer_ack cs msg_id) (mret out)))))"

definition process_intent :: "'r consumer \<Rightarrow> string \<Rightarrow> trade_intent \<Rightarrow> ('r, outcome) xact" where
  "process_intent cs msg_id i =
     (let client_order_id = coid_of cs i in
      mbind (uuid4 (cs_env cs)) (\<lambda>job_id.
      mbind (on_redis (r_set (cs_ops cs) (job_lock_key client_order_id) (Raw job_id) True
                         (Some (es_job_lock_ttl_s (cs_settings cs))))) (\<lambda>acquired.
      if \<not> acquired
      then mseq (publish (cs_ops cs) ''duplicate_blocked'' job_id
                   [(''client_order_id'', JStr client_order_id), (''intent_id'', JStr (ti_intent_id i)),
                    (''reason'', JStr ''duplicate_job'')])
          (mseq (consumer_ack cs msg_id) (mret Duplicate))
      else process_locked cs msg_id i job_id)))"

text \<open>One stream entry, and one batch: an exception ends the batch.\<close>

definition process ::
  "'r consumer \<Rightarrow> string \<Rightarrow> fields \<Rightarrow> ('r, outcome) xact" where
  "process cs msg_id fs =
     (case map_of fs ''intent'' of
        None \<Rightarrow> mseq (consumer_ack cs msg_id) (mret Ignored)
      | Some raw \<Rightarrow>
          if \<not> text_truthy (Some raw) then mseq (consumer_ack cs msg_id) (mret Ignored)
          else case e_parse_intent (cs_env cs) raw of
                 Inl _ \<Rightarrow> mseq (consumer_ack cs msg_id) (mret Ignored)
               | Inr i \<Rightarrow> process_intent cs msg_id i)"

definition process_batch :: "'r consumer \<Rightarrow> (string \<times> fields) list \<Rightarrow> ('r, unit) xact" where
  "process_batch cs entries = mfor entries (\<lambda>(msg_id, fs). discard (process cs msg_id fs))"

definition consumer_tick :: "'r consumer \<Rightarrow> ('r, unit) xact" where
  "consumer_tick cs =
     (let s = cs_settings cs in
      mbind (stream_read_group (cs_ops cs) STRATEGY_INTENTS (es_consumer_group s) (es_consumer_name s)
               (es_batch_size s) (es_block_ms s))
        (process_batch cs))"

text \<open>\<open>start\<close>, for a number of rounds: an exception of a tick is logged and the loop goes on.\<close>

primrec consumer_rounds :: "'r consumer \<Rightarrow> nat \<Rightarrow> ('r, unit) xact" where
  "consumer_rounds cs 0 = mret ()"
| "consumer_rounds cs (Suc n) = mseq (mlogged (consumer_tick cs)) (consumer_rounds cs n)"

end
