(* ===== verification/Demo.thy ===== *)
theory Demo
  imports ExecutionConsumer
begin

text \<open>
  A concrete configuration of the execution service on the store in memory, for the witnesses: an
  environment whose libraries are simple functions, one account, one intent, and the worlds they
  start from.
\<close>

definition demo_uuid :: "nat \<Rightarrow> uuid" where
  "demo_uuid n = ''00000000-0000-4000-8000-00000000'' @ (let s = show_int (int n) in replicate (4 - length s) CHR ''0'' @ s)"

definition demo_account :: uuid where
  "demo_account = ''11111111-1111-4111-8111-111111111111''"

definition demo_digest :: string where
  "demo_digest = ''00000000000000001111111111111111aaaaaaaaaaaaaaaabbbbbbbbbbbbbbbb''"

definition demo_intent :: trade_intent where
  "demo_intent =
     \<lparr>ti_intent_id = ''22222222-2222-4222-8222-222222222222'', ti_strategy_id = None,
      ti_strategy_version = None, ti_symbol = ''BTCUSDT'', ti_market_type = SPOT, ti_side = BUY,
      ti_intent_type = ''OPEN'', ti_order_type = LIMIT, ti_size = 1 / 100, ti_size_usd = None,
      ti_limit_price = Some 50000, ti_stop_loss = None, ti_take_profit = None,
      ti_reduce_only = False, ti_time_in_force = GTC, ti_position_side = None, ti_explanation = [],
      ti_created_at = 0, ti_expires_at = None, ti_metadata = []\<rparr>"

text \<open>Events are read from JSON: an order update is its data, a raw event its payload and the stream in it.\<close>

definition demo_event :: "(string \<times> json) list \<Rightarrow> normalized_event" where
  "demo_event data =
     \<lparr>ne_event_type = USER_ORDER, ne_market_type = FUTURES, ne_symbol = ''BTCUSDT'',
      ne_timestamp_ms = 0, ne_received_ms = 0, ne_source_stream = None, ne_data = data\<rparr>"

definition demo_raw :: "(string \<times> json) list \<Rightarrow> raw_event" where
  "demo_raw payload =
     \<lparr>rw_market_type = FUTURES,
      rw_source_stream = (case dict_get ''stream'' (JStr []) payload of JStr s \<Rightarrow> s | _ \<Rightarrow> []),
      rw_received_ms = 0, rw_payload = payload\<rparr>"

definition demo_env :: env where
  "demo_env =
     \<lparr>e_sha256 = (\<lambda>s. demo_digest), e_hmac = (\<lambda>k s. k @ s),
      e_show = (\<lambda>j. case j of JNum x \<Rightarrow> show_int \<lfloor>x\<rfloor> @ ''.0'' | JDec x \<Rightarrow> show_int \<lfloor>x\<rfloor> | _ \<Rightarrow> ''value''),
      e_exn_text = (\<lambda>e. ''error''), e_iso = show_int,
      e_numeric = (\<lambda>p s x. Some x),
      e_db_down = (\<lambda>n. False), e_uuid4 = demo_uuid,
      e_parse_intent = (\<lambda>raw. if raw = Raw ''intent'' then Inr demo_intent else Inl ValidationError),
      e_parse_event = (\<lambda>raw. case raw of Json (JObj d) \<Rightarrow> Inr (demo_event d) | _ \<Rightarrow> Inl ValidationError),
      e_parse_raw = (\<lambda>raw. case raw of Json (JObj d) \<Rightarrow> Inr (demo_raw d) | _ \<Rightarrow> Inl ValidationError)\<rparr>"

definition demo_settings :: exec_settings where
  "demo_settings = default_settings\<lparr>es_default_account_id := demo_account\<rparr>"

definition demo_consumer :: "mem_redis consumer" where
  "demo_consumer =
     \<lparr>cs_settings = demo_settings, cs_ops = mem_ops, cs_env = demo_env,
      cs_adapter = \<lparr>ad_name = ''paper'', ad_submit = paper_submit (Some mem_ops) demo_env\<rparr>,
      cs_risk = default_risk_engine, cs_has_repository = True, cs_has_context_loader = True,
      cs_has_incident_logger = True\<rparr>"

definition demo_db :: exec_db where
  "demo_db = empty_exec_db\<lparr>d_accounts :=
     [\<lparr>ac_id = demo_account, ac_user_id = ''33333333-3333-4333-8333-333333333333'',
       ac_venue = ''binance'',
       ac_account_label = ''default'', ac_trading_mode = ''paper'', ac_approval_level = ''l2_paper'', ac_is_active = True,
       ac_connection_status = ''disconnected'',
       ac_last_connectivity_check_ms = None, ac_listen_key = None, ac_listen_key_expires_ms = None,
       ac_stream_status = ''stopped'', ac_stream_last_event_ms = None, ac_stream_error = None\<rparr>]\<rparr>"

definition demo_world :: "mem_redis exec_world" where
  "demo_world =
     \<lparr>w_redis = empty_mem, w_db = demo_db, w_sessions = 0, w_uuids = 0, w_now = 1700000000000,
      w_trace = [], x_processed = 0, x_blocked = 0, x_orphans = 0, x_fills = 0, x_scans = 0,
      x_stale = 0\<rparr>"

definition demo_entry :: fields where
  "demo_entry = [(''intent'', Raw ''intent'')]"

lemma demo_sel [simp]:
  "cs_settings demo_consumer = demo_settings" "cs_ops demo_consumer = mem_ops"
  "cs_env demo_consumer = demo_env" "cs_risk demo_consumer = default_risk_engine"
  "ad_name (cs_adapter demo_consumer) = ''paper''"
  "ad_submit (cs_adapter demo_consumer) = paper_submit (Some mem_ops) demo_env"
  "cs_has_repository demo_consumer"
  "w_redis demo_world = empty_mem" "w_db demo_world = demo_db" "w_trace demo_world = []"
  by (simp_all add: demo_consumer_def demo_world_def)

end
