(* ===== verification/DemoRun.thy ===== *)
theory DemoRun
  imports Demo
begin

text \<open>
  The paper consumer of the demo configuration on its one entry: the order is filled, and the trace,
  the tables and the events are those of a filled job.
\<close>

lemma demo_run:
  "let (r, w) = process demo_consumer ''1-0'' demo_entry demo_world
   in r = Inr Filled \<and>
      filter (\<lambda>e. case e of Published _ _ \<Rightarrow> False | _ \<Rightarrow> True) (w_trace w) =
        [Submitted ''paper'' (coid_of demo_consumer demo_intent),
         Acked STRATEGY_INTENTS ''execution'' ''1-0''] \<and>
      map jb_status (d_jobs (w_db w)) = [''filled''] \<and>
      map or_status (d_orders (w_db w)) = [''FILLED''] \<and>
      map fl_qty (d_fills (w_db w)) = [1 / 100] \<and>
      map ev_event_type (d_job_events (w_db w)) =
        [''job_queued'', ''job_approved'', ''job_submitted'', ''job_acknowledged'', ''job_filled'']"
  by code_simp

end
