(* ===== verification/ConsumerSafety.thy ===== *)
theory ConsumerSafety
  imports ExecutionConsumer DemoRun
begin

text \<open>
  Safety of the execution consumer, for every behaviour of Redis within its laws, every failure of
  the database and every adapter that keeps its contract: an order is submitted only by the holder
  of the lock and after the gate has seen every control off, and at most once.
\<close>

section \<open>The contract of an adapter\<close>

definition is_submit :: "effect \<Rightarrow> bool" where
  "is_submit e = (case e of Submitted _ _ \<Rightarrow> True | _ \<Rightarrow> False)"

definition adapter_step ::
  "('r \<Rightarrow> string \<Rightarrow> rtext option) \<Rightarrow> 'r exec_world \<Rightarrow> 'r exec_world \<Rightarrow> bool" where
  "adapter_step live w w' =
     (live (w_redis w') = live (w_redis w) \<and> ledger (w_db w') = ledger (w_db w) \<and>
      (\<exists>es. w_trace w' = w_trace w @ es \<and> list_all is_submit es))"

interpretation adapter_step: frame "adapter_step live" for live :: "'r \<Rightarrow> string \<Rightarrow> rtext option"
  by unfold_locales (auto simp: adapter_step_def)

text \<open>
  An adapter leaves the keys of Redis and the tables but the incidents as they are, and submits at
  most one order, the one it was asked for.
\<close>

locale execution_adapter =
  fixes submit :: "execution_request \<Rightarrow> string \<Rightarrow> ('r, adapter_response) xact"
    and live :: "'r \<Rightarrow> string \<Rightarrow> rtext option" and name :: string
  assumes step: "moves (adapter_step live) (submit q c)"
    and once: "submit q c w = (r, w') \<Longrightarrow>
      w_trace w' = w_trace w \<or> w_trace w' = w_trace w @ [Submitted name c]"
    and reported: "submit q c w = (Inr resp, w') \<Longrightarrow> ar_success resp \<Longrightarrow>
      w_trace w' = w_trace w @ [Submitted name c]"

text \<open>Both adapters keep it.\<close>

lemma incident_step [moves]: "moves (adapter_step live) (log_incident env i)"
proof (rule movesI)
  fix w w' :: "'a exec_world" and r
  assume "log_incident env i w = (r, w')"
  then show "adapter_step live w w'"
    using log_incident_effect [of env i w] by (simp add: wp_def adapter_step_def)
qed

lemma adapter_step_record [moves]: "is_submit e \<Longrightarrow> moves (adapter_step live) (record_effect e)"
  by (simp add: moves_def adapter_step_def record_effect_def mput_def)

lemma is_submit_simps [simp]:
  "is_submit (Submitted n c)" "\<not> is_submit (Published s f)" "\<not> is_submit (Acked s g i)"
  by (simp_all add: is_submit_def)

context redis
begin

lemma adapter_step_reads:
  assumes "\<And>s. wp m (\<lambda>r s'. live s' = live s) s"
  shows "moves (adapter_step live) (on_redis m)"
proof (rule movesI)
  fix w w' :: "'r exec_world" and r
  assume "on_redis m w = (r, w')"
  then show "adapter_step live w w'"
    using assms [of "w_redis w"]
    by (auto simp: adapter_step_def on_redis_def wp_def split: prod.splits)
qed

lemma redis_price_reads:
  "live s = l \<Longrightarrow> (\<And>r s'. live s' = l \<Longrightarrow> Q r s') \<Longrightarrow> wp (redis_price ops env mt sy) Q s"
  unfolding redis_price_def
  by (auto simp: wp intro!: sees_get split: sum.split option.split)

lemma resolve_reads: "wp (resolve_fill_price (Some ops) env i) (\<lambda>r s'. live s' = live s) s"
  unfolding resolve_fill_price_def Let_def
  by (auto simp: wp intro!: redis_price_reads split: sum.split option.split)

lemma paper_adapter: "execution_adapter (paper_submit (Some ops) env) live ''paper''"
proof
  fix q c and w w' :: "'r exec_world" and r resp
  show "moves (adapter_step live) (paper_submit (Some ops) env q c)"
    unfolding paper_submit_def Let_def
    by (auto intro!: adapter_step.rules moves adapter_step_reads resolve_reads split: option.split)
  have post: "wp (paper_submit (Some ops) env q c) (\<lambda>r w'.
      (w_trace w' = w_trace w \<or> w_trace w' = w_trace w @ [Submitted ''paper'' c]) \<and>
      (\<forall>resp. r = Inr resp \<longrightarrow> ar_success resp \<longrightarrow> w_trace w' = w_trace w @ [Submitted ''paper'' c])) w"
    unfolding paper_submit_def Let_def
    by (auto simp: wp failure_response_def intro!: wpI split: sum.split option.split)
  show "paper_submit (Some ops) env q c w = (r, w') \<Longrightarrow>
      w_trace w' = w_trace w \<or> w_trace w' = w_trace w @ [Submitted ''paper'' c]"
    using post by (simp add: wp_def)
  show "paper_submit (Some ops) env q c w = (Inr resp, w') \<Longrightarrow> ar_success resp \<Longrightarrow>
      w_trace w' = w_trace w @ [Submitted ''paper'' c]"
    using post by (simp add: wp_def)
qed

lemma live_adapter: "execution_adapter (live_submit post env la) live ''live''"
proof
  fix q c and w w' :: "'r exec_world" and r resp
  show "moves (adapter_step live) (live_submit post env la q c)"
    unfolding live_submit_def Let_def submit_to_exchange_def log_policy_block_def
    by (auto intro!: adapter_step.rules moves)
  have post: "wp (live_submit post env la q c) (\<lambda>r w'.
      (w_trace w' = w_trace w \<or> w_trace w' = w_trace w @ [Submitted ''live'' c]) \<and>
      (\<forall>resp. r = Inr resp \<longrightarrow> ar_success resp \<longrightarrow> w_trace w' = w_trace w @ [Submitted ''live'' c])) w"
    unfolding live_submit_def Let_def submit_to_exchange_def log_policy_block_def wp
    by (auto simp: wp failure_response_def intro!: log_incident_effect [THEN wp_mono]
        split: sum.split)
  show "live_submit post env la q c w = (r, w') \<Longrightarrow>
      w_trace w' = w_trace w \<or> w_trace w' = w_trace w @ [Submitted ''live'' c]"
    using post by (simp add: wp_def)
  show "live_submit post env la q c w = (Inr resp, w') \<Longrightarrow> ar_success resp \<Longrightarrow>
      w_trace w' = w_trace w @ [Submitted ''live'' c]"
    using post by (simp add: wp_def)
qed

end

interpretation mem_paper: execution_adapter "paper_submit (Some mem_ops) env" mem_live "''paper''" for env
  by (rule mem.paper_adapter)

interpretation mem_live_adapter: execution_adapter "live_submit post env la" mem_live "''live''" for post env la
  by (rule mem.live_adapter)

section \<open>Steps that submit nothing\<close>

text \<open>\<open>adds L\<close>: the orders submitted meanwhile are \<open>L\<close>.  \<open>calm K\<close>: none is, and the keys of \<open>K\<close> stay.\<close>

definition adds :: "effect list \<Rightarrow> 'r exec_world \<Rightarrow> 'r exec_world \<Rightarrow> bool" where
  "adds L w w' = (\<exists>es. w_trace w' = w_trace w @ es \<and> filter is_submit es = L)"

definition calm ::
  "('r \<Rightarrow> string \<Rightarrow> rtext option) \<Rightarrow> string set \<Rightarrow> 'r exec_world \<Rightarrow> 'r exec_world \<Rightarrow> bool" where
  "calm live K w w' = ((\<forall>k \<in> K. live (w_redis w') k = live (w_redis w) k) \<and> adds [] w w')"

lemma adds_trans: "adds L u v \<Longrightarrow> adds M v w \<Longrightarrow> adds (L @ M) u w"
  by (auto simp: adds_def)

lemma adds_refl [simp]: "adds [] w w"
  by (simp add: adds_def)

interpretation calm: frame "calm live K" for live :: "'r \<Rightarrow> string \<Rightarrow> rtext option" and K
proof
  fix u v w :: "'r exec_world"
  show "calm live K w w" by (simp add: calm_def)
  show "calm live K u v \<Longrightarrow> calm live K v w \<Longrightarrow> calm live K u w"
    using adds_trans [of "[]" u v "[]" w] by (simp add: calm_def)
qed

lemma calm_db_only: "moves db_only m \<Longrightarrow> moves (calm live K) m"
  by (erule moves_mono) (auto simp: calm_def adds_def dest: db_only_sel)

lemma calm_record: "\<not> is_submit e \<Longrightarrow> moves (calm live K) (record_effect e)"
  by (simp add: moves_def calm_def adds_def record_effect_def mput_def)

lemma calm_put:
  "(\<And>w. w_redis (f w) = w_redis w) \<Longrightarrow> (\<And>w. w_trace (f w) = w_trace w) \<Longrightarrow> moves (calm live K) (mput f)"
  by (simp add: moves_def calm_def adds_def mput_def)

lemma calm_redis:
  assumes "\<And>s. wp m (\<lambda>r s'. \<forall>k \<in> K. live s' k = live s k) s"
  shows "moves (calm live K) (on_redis m)"
proof (rule movesI)
  fix w w' :: "'a exec_world" and r
  assume "on_redis m w = (r, w')"
  then show "calm live K w w'"
    using assms [of "w_redis w"] by (auto simp: calm_def adds_def on_redis_def wp_def split: prod.splits)
qed

lemma calm_with_repo: "moves db_only m \<Longrightarrow> moves (calm live K) (with_repo cs m)"
  unfolding with_repo_def by (intro calm.whens calm.logged calm_db_only)

lemma calm_incident: "moves (calm live K) (log_incident env i)"
  by (intro calm_db_only moves)

lemma db_only_load [moves]: "moves db_only (load_context env a)"
  unfolding load_context_def
  by (auto intro!: db_only.rules moves split: option.split prod.split)

lemma calm_load_limits: "moves (calm live K) (load_limits cs a)"
  unfolding load_limits_def by (auto intro!: calm_db_only db_only.rules moves)

lemma calm_load_risk_data: "moves (calm live K) (load_risk_data cs a)"
  unfolding load_risk_data_def by (auto intro!: calm_db_only db_only.rules moves)

definition control_keys :: "string \<Rightarrow> string \<Rightarrow> string set" where
  "control_keys a s =
     {kill_switch_key a, user_pause_key a, symbol_pause_key a s, circuit_breaker_key a,
      symbol_cooldown_key a s}"

lemma controls_off_cong:
  "(\<forall>k \<in> control_keys a s. l' k = l k) \<Longrightarrow> controls_off l' a s = controls_off l a s"
  by (simp add: controls_off_def control_keys_def)

text \<open>At most the order \<open>c\<close> of the adapter \<open>n\<close> is submitted, and only if \<open>P\<close>.\<close>

definition may_submit :: "string \<Rightarrow> string \<Rightarrow> bool \<Rightarrow> 'r exec_world \<Rightarrow> 'r exec_world \<Rightarrow> bool" where
  "may_submit n c P w w' = (adds [] w w' \<or> adds [Submitted n c] w w' \<and> P)"

text \<open>A request the consumer with the settings \<open>st\<close> makes of an intent.\<close>

definition request_of :: "exec_settings \<Rightarrow> trade_intent \<Rightarrow> execution_request \<Rightarrow> bool" where
  "request_of st i q =
     (rq_trade_intent q = i \<and> rq_account_id q = account_of st \<and> rq_trading_mode q = es_trading_mode st)"

text \<open>What the gate has checked when an order goes out.\<close>

definition gated :: "risk_engine \<Rightarrow> execution_request \<Rightarrow> (string \<Rightarrow> rtext option) \<Rightarrow> bool" where
  "gated eng q l =
     (controls_off l (rq_account_id q) (ti_symbol (rq_trade_intent q)) \<and>
      (\<exists>limits loss positions. within_limits eng limits q loss positions))"

locale exec_consumer =
  redis "cs_ops cs" live + execution_adapter "ad_submit (cs_adapter cs)" live "ad_name (cs_adapter cs)"
  for cs :: "'r consumer" and live :: "'r \<Rightarrow> string \<Rightarrow> rtext option"
begin

lemma calm_publish: "moves (calm live K) (publish (cs_ops cs) t j d)"
  unfolding publish_def stream_publish_def
  by (intro calm.rules calm_redis calm_record) (auto intro!: wpI dest: xadd_live)

lemma calm_ack: "moves (calm live K) (consumer_ack cs i)"
  unfolding consumer_ack_def ack_def
  by (intro calm.rules calm_redis calm_record) (auto intro!: wpI dest: xack_live)

lemmas calm_rules =
  calm.rules calm_publish calm_ack calm_with_repo calm_load_limits calm_load_risk_data
  calm_incident

lemma calm_queue: "moves (calm live K) (queue_job cs q c)"
  unfolding queue_job_def Let_def by (intro calm_rules moves)

lemma calm_blocked: "moves (calm live K) (on_blocked cs j c fs md)"
  unfolding on_blocked_def Let_def by (intro calm_rules moves)

lemma calm_failed: "moves (calm live K) (on_failed cs j c rs er i a)"
  unfolding on_failed_def by (cases i; simp; intro calm_rules moves)

lemma calm_approve: "moves (calm live K) (approve_job cs j d)"
  unfolding approve_job_def by (intro calm_rules moves)

lemma calm_mark: "moves (calm live K) (mark_status cs j rs st)"
  unfolding mark_status_def by (intro calm_rules moves)

lemma calm_persist: "moves (calm live K) (persist_fill cs q c rs)"
  unfolding persist_fill_def by (intro calm_with_repo db_only.rules moves)

lemma calm_cooldown: "moves (calm live {}) (discard (on_redis (set_cooldown (cs_ops cs) a s n)))"
  unfolding discard_def by (intro calm.rules calm_redis) (simp add: wp_def split: prod.split)

text \<open>The gate: what it passes had every control off.\<close>

lemma gate_calm:
  defines "K \<equiv> \<lambda>q. control_keys (rq_account_id q) (ti_symbol (rq_trade_intent q))"
  shows "wp (risk_gate cs q) (\<lambda>r w'. calm live (K q) w w' \<and>
     (\<forall>d. r = Inr (Inr d) \<longrightarrow> rd_passed d \<longrightarrow>
        controls_off (live (w_redis w)) (rq_account_id q) (ti_symbol (rq_trade_intent q)) \<and>
        (\<exists>limits loss positions. within_limits (cs_risk cs) limits q loss positions))) w"
  unfolding risk_gate_def
proof (rule wp_bind_moves [OF calm_load_limits [where K = "K q" and live = live]], simp,
    rule wp_bind_moves [OF calm_load_risk_data [where K = "K q" and live = live]], goal_cases)
  case (1 limits v1 e v)
  then show ?case using calm.trans [of live "K q" w v1 v] by simp
next
  case (2 limits v1 x v)
  obtain loss positions where x: "x = (loss, positions)" by fastforce
  from 2 have wv: "calm live (K q) w v" by (rule calm.trans)
  have "wp (on_redis (evaluate (cs_ops cs) (cs_env cs) (cs_risk cs) q loss positions limits))
     (\<lambda>r w'. calm live (K q) v w' \<and> (\<forall>d. r = Inr d \<longrightarrow>
        gate_post (cs_risk cs) q loss positions limits (live (w_redis v)) d)) v"
    unfolding wp_on_redis
    by (rule wp_mono [OF evaluate_wp [OF HOL.refl]]) (auto simp: calm_def adds_def)
  then show ?case
    unfolding x prod.case wp_try wp_bind wp_ret
  proof (rule wp_mono, goal_cases)
    case (1 r w')
    then have "calm live (K q) w w'" using calm.trans [OF wv] by blast
    moreover have "controls_off (live (w_redis v)) (rq_account_id q) (ti_symbol (rq_trade_intent q)) =
        controls_off (live (w_redis w)) (rq_account_id q) (ti_symbol (rq_trade_intent q))"
      using wv by (intro controls_off_cong) (simp add: calm_def K_def)
    moreover have "gate_post (cs_risk cs) q loss positions limits (live (w_redis v)) d" if "r = Inr d" for d
      using 1 that by blast
    ultimately show ?case
      by (cases r) (auto simp: gate_post_def)
  qed
qed

lemma execute_once: "wp (execute_approved cs q c) (\<lambda>r w'. may_submit (ad_name (cs_adapter cs)) c True w w') w"
proof -
  have sub: "wp (ad_submit (cs_adapter cs) q c) (\<lambda>r w'. may_submit (ad_name (cs_adapter cs)) c True w w') w"
  proof (rule wpI)
    fix r w'
    assume "ad_submit (cs_adapter cs) q c w = (r, w')"
    from once [OF this] show "may_submit (ad_name (cs_adapter cs)) c True w w'"
      by (auto simp: may_submit_def adds_def)
  qed
  have after: "may_submit (ad_name (cs_adapter cs)) c True w v \<Longrightarrow> calm live {} v w' \<Longrightarrow> may_submit (ad_name (cs_adapter cs)) c True w w'" for v w'
    using adds_trans [of "[]" w v "[]" w'] adds_trans [of "[Submitted (ad_name (cs_adapter cs)) c]" w v "[]" w']
    by (auto simp: may_submit_def calm_def)
  show ?thesis
    unfolding execute_approved_def Let_def wp_try wp_bind wp_ret
  proof (rule wp_mono [OF sub], goal_cases)
    case (1 r v)
    have failed: "moves (calm live {}) (mseq (on_failed cs (rq_job_id q) c er1 er2 i a) (mret Failed))" for er1 er2 i a
      by (intro calm_rules calm_failed)
    have filled: "moves (calm live {}) (mseq (mark_status cs (rq_job_id q) resp ''submitted'')
              (mseq (mark_status cs (rq_job_id q) resp ''acknowledged'')
              (mseq (persist_fill cs q c resp)
              (mseq (announce_fill cs (rq_job_id q) resp)
              (mseq (discard (on_redis (set_cooldown (cs_ops cs) (rq_account_id q) (ti_symbol (rq_trade_intent q))
                                          (es_symbol_cooldown_s (cs_settings cs)))))
              (mseq (mput (\<lambda>w. w\<lparr>x_processed := Suc (x_processed w)\<rparr>))
                    (mret Filled)))))))" for resp
      unfolding announce_fill_def by (intro calm_rules calm_mark calm_persist calm_cooldown calm_put) simp_all
    show ?case
    proof (cases r)
      case (Inl e)
      show ?thesis unfolding Inl sum.case by (rule moves_wp [OF failed]) (rule after [OF 1(2)])
    next
      case (Inr resp)
      show ?thesis unfolding Inr sum.case
        by (cases "ar_success resp"; simp only: simp_thms if_True if_False)
          ((rule moves_wp [OF failed] moves_wp [OF filled]; rule after [OF 1(2)], assumption))+
    qed
  qed
qed

lemma run_once:
  "wp (run_job cs q c)
     (\<lambda>r w'. may_submit (ad_name (cs_adapter cs)) c (gated (cs_risk cs) q (live (w_redis w))) w w') w"
proof -
  define K where "K = control_keys (rq_account_id q) (ti_symbol (rq_trade_intent q))"
  let ?G = "gated (cs_risk cs) q (live (w_redis w))"
  have quiet: "calm live K w v \<Longrightarrow> calm live K v w' \<Longrightarrow> may_submit n c P w w'" for v w' n P
    using calm.trans [of live K w v w'] by (simp add: may_submit_def calm_def)
  have off: "controls_off (live (w_redis v)) (rq_account_id q) (ti_symbol (rq_trade_intent q)) =
      controls_off (live (w_redis w)) (rq_account_id q) (ti_symbol (rq_trade_intent q))"
    if "calm live K w v" for v
    using that by (intro controls_off_cong) (simp add: calm_def K_def)
  have last: "calm live K w v \<Longrightarrow> may_submit n c True v w' \<Longrightarrow> ?G \<Longrightarrow> may_submit n c ?G w w'" for v w' n
    using adds_trans [of "[]" w v "[]" w'] adds_trans [of "[]" w v "[Submitted n c]" w']
    by (auto simp: may_submit_def calm_def)
  show ?thesis
    unfolding run_job_def
  proof (rule wp_seq_moves [OF calm_queue [where K = K]], goal_cases)
    case (1 e v)
    then show ?case using quiet [OF 1 calm.refl] by simp
  next
    case (2 v)
    show ?case
      unfolding wp_bind
    proof (rule wp_mono [OF gate_calm [where q = q]], fold K_def, goal_cases)
      case (1 r u)
      have wu: "calm live K w u" using calm.trans [OF 2] 1 by blast
      have failed: "moves (calm live K) (mseq (on_failed cs (rq_job_id q) c a1 a2 a3 a4) (mret Failed))"
        for a1 a2 a3 a4 by (intro calm_rules calm_failed)
      have blocked: "moves (calm live K) (mseq (mput (\<lambda>w. w\<lparr>x_blocked := Suc (x_blocked w)\<rparr>))
           (mseq (on_blocked cs (rq_job_id q) c a1 a2) (mret Blocked)))" for a1 a2
        by (intro calm_rules calm_blocked calm_put) simp_all
      consider (exc) e where "r = Inl e" | (failed) e where "r = Inr (Inl e)"
        | (blocked) d where "r = Inr (Inr d)" "\<not> rd_passed d"
        | (passed) d where "r = Inr (Inr d)" "rd_passed d"
        by (metis old.sum.exhaust)
      then show ?case
      proof cases
        case exc
        then show ?thesis using quiet [OF wu calm.refl] by simp
      next
        case failed
        show ?thesis
          unfolding failed sum.case by (rule moves_wp [OF \<open>\<And>a1 a2 a3 a4. moves _ (mseq (on_failed _ _ _ a1 a2 a3 a4) _)\<close>])
            (rule quiet [OF wu])
      next
        case blocked
        then show ?thesis
          by (simp, intro moves_wp [OF \<open>\<And>a1 a2. moves _ (mseq (mput _) (mseq (on_blocked _ _ _ a1 a2) _))\<close>] quiet [OF wu])
      next
        case passed
        then have G: ?G
          using 1 off [OF 2] by (simp add: gated_def)
        show ?thesis
          unfolding passed(1) sum.case using passed(2)
        proof (simp, intro wp_seq_moves [OF calm_approve [where K = K]])
          fix v1 e assume "calm live K u v1"
          then show "may_submit (ad_name (cs_adapter cs)) c ?G w v1" by (rule quiet [OF wu])
        next
          fix v1 assume "calm live K u v1"
          with wu have v1: "calm live K w v1" by (rule calm.trans)
          show "wp (execute_approved cs q c) (\<lambda>r. may_submit (ad_name (cs_adapter cs)) c ?G w) v1"
            by (rule wp_mono [OF execute_once]) (rule last [OF v1 _ G])
        qed
      qed
    qed
  qed
qed

lemma uuid4_calm: "moves (calm live K) (uuid4 env)"
  by (intro calm_db_only moves)

lemma quiet_then:
  "calm live K u v \<Longrightarrow> may_submit n c P v w \<Longrightarrow> (P \<Longrightarrow> P') \<Longrightarrow> may_submit n c P' u w"
  using adds_trans [of "[]" u v "[]" w] adds_trans [of "[]" u v "[Submitted n c]" w]
  by (auto simp: may_submit_def calm_def)

lemma then_quiet: "may_submit n c P u v \<Longrightarrow> calm live K v w \<Longrightarrow> may_submit n c P u w"
  using adds_trans [of "[]" u v "[]" w] adds_trans [of "[Submitted n c]" u v "[]" w]
  by (auto simp: may_submit_def calm_def)

lemma quiet: "calm live K u v \<Longrightarrow> may_submit n c P u v"
  by (simp add: may_submit_def calm_def)

lemma gated_cong:
  assumes "calm live (control_keys (account_of st) (ti_symbol i)) v w" "request_of st i q"
  shows "gated eng q (live (w_redis w)) = gated eng q (live (w_redis v))"
  using assms controls_off_cong [of "rq_account_id q" "ti_symbol i" "live (w_redis w)" "live (w_redis v)"]
  by (simp add: gated_def calm_def request_of_def)

lemma locked_once:
  "wp (process_locked cs msg_id i job_id)
     (\<lambda>r w'. may_submit (ad_name (cs_adapter cs)) (coid_of cs i)
        (\<exists>q. request_of (cs_settings cs) i q \<and> gated (cs_risk cs) q (live (w_redis w))) w w') w"
  unfolding process_locked_def
proof (rule wp_bind_moves [OF uuid4_calm [where K = "control_keys (account_of (cs_settings cs)) (ti_symbol i)"]],
    goal_cases)
  case (1 e v)
  then show ?case by (rule quiet)
next
  case (2 request_id v)
  let ?n = "ad_name (cs_adapter cs)" and ?c = "coid_of cs i"
  let ?P = "\<exists>q. request_of (cs_settings cs) i q \<and> gated (cs_risk cs) q (live (w_redis w))"
  show ?case
  proof (cases "build_request cs request_id job_id i (w_now v)")
    case (Inl e)
    then show ?thesis using quiet [OF 2] by (simp add: wp)
  next
    case (Inr q)
    then have q: "request_of (cs_settings cs) i q"
      by (auto simp: build_request_def request_of_def Let_def ebind_Inr)
    have ack: "moves (calm live {}) (mseq (consumer_ack cs msg_id) (mret out))" for out :: outcome
      by (intro calm_rules)
    have "wp (run_job cs q ?c) (\<lambda>r x. may_submit ?n ?c ?P w x) v"
      by (rule wp_mono [OF run_once], erule quiet_then [OF 2]) (use q gated_cong [OF 2 q] in auto)
    then have "wp (mbind (run_job cs q ?c) (\<lambda>out. mseq (consumer_ack cs msg_id) (mret out)))
        (\<lambda>r x. may_submit ?n ?c ?P w x) v"
      unfolding wp_bind
      by (rule wp_mono) (auto split: sum.split intro: moves_wp [OF ack] then_quiet)
    then show ?thesis by (simp only: wp_bind wp_get wp_lift Inr sum.case)
  qed
qed

lemma process_intent_once:
  "wp (process_intent cs msg_id i)
     (\<lambda>r w'. may_submit (ad_name (cs_adapter cs)) (coid_of cs i)
        (live (w_redis w) (job_lock_key (coid_of cs i)) = None \<and>
         (\<exists>q. request_of (cs_settings cs) i q \<and> gated (cs_risk cs) q (live (w_redis w)))) w w') w"
  unfolding process_intent_def Let_def
proof (rule wp_bind_moves [OF uuid4_calm [where K = UNIV]], goal_cases)
  case (1 e v)
  then show ?case by (rule quiet)
next
  case (2 job_id v)
  let ?c = "coid_of cs i"
  define K where "K = control_keys (account_of (cs_settings cs)) (ti_symbol i)"
  have live: "live (w_redis v) = live (w_redis w)" and wv: "calm live K w v"
    using 2 by (auto simp: calm_def)
  have dup: "moves (calm live K) (mseq (publish (cs_ops cs) t j d) (mseq (consumer_ack cs msg_id) (mret Duplicate)))"
    for t j d by (intro calm_rules)
  show ?case
    unfolding wp_bind wp_on_redis
  proof (rule wpI, goal_cases)
    case (1 r s)
    let ?u = "v\<lparr>w_redis := s\<rparr>"
    have "live s k = live (w_redis v) k" if "k \<in> K" for k
      using set_other [OF 1, of k] that by (auto simp: K_def control_keys_def)
    then have "calm live K v ?u" by (simp add: calm_def adds_def)
    with wv have wu: "calm live K w ?u" by (rule calm.trans)
    consider e where "r = Inl e" | "r = Inr False" | "r = Inr True" by (cases r) auto
    then show ?case
    proof cases
      case 1
      then show ?thesis using quiet [OF wu] by simp
    next
      case 2
      then show ?thesis by (simp, intro moves_wp [OF dup] quiet [OF calm.trans [OF wu]])
    next
      case 3
      then have "live (w_redis w) (job_lock_key ?c) = None" using set_live [OF 1] live by simp
      then show ?thesis
        unfolding 3 sum.case not_True_eq_False if_False
        using gated_cong [OF wu [unfolded K_def]]
        by (intro wp_mono [OF locked_once]) (erule quiet_then [OF wu], auto)
    qed
  qed
qed

lemma process_once:
  "wp (process cs msg_id fs) (\<lambda>r w'. adds [] w w' \<or>
     (\<exists>raw i q. map_of fs ''intent'' = Some raw \<and> e_parse_intent (cs_env cs) raw = Inr i \<and>
        adds [Submitted (ad_name (cs_adapter cs)) (coid_of cs i)] w w' \<and>
        live (w_redis w) (job_lock_key (coid_of cs i)) = None \<and>
        request_of (cs_settings cs) i q \<and> gated (cs_risk cs) q (live (w_redis w)))) w"
proof -
  have ign: "moves (calm live {}) (mseq (consumer_ack cs msg_id) (mret Ignored))"
    by (intro calm_rules)
  show ?thesis
    unfolding process_def
    by (auto simp: calm_def may_submit_def intro!: moves_wp [OF ign] wp_mono [OF process_intent_once]
        split: option.split sum.split)
qed

end

section \<open>The property\<close>

lemma exec_consumerI:
  "redis (cs_ops cs) live \<Longrightarrow> execution_adapter (ad_submit (cs_adapter cs)) live (ad_name (cs_adapter cs)) \<Longrightarrow>
   exec_consumer cs live"
  by (simp add: exec_consumer_def)

interpretation demo_exec: exec_consumer demo_consumer mem_live
  by (rule exec_consumerI) (simp_all add: mem.redis_axioms mem.paper_adapter)



end
