(* ===== verification/ExecutionProperties.thy ===== *)
theory ExecutionProperties
  imports ConsumerSafety
begin

text \<open>
  What the execution service promises beyond the gate: the decisions of the risk engine, the effect
  of the operator's controls on it, duplicates, the money of a paper fill and the gates of a live
  order.
\<close>

section \<open>The risk gate\<close>

text \<open>
  C11: The risk engine decides exactly its specification: a request passes if and only if the five
  controls are off and the request is within the limits that apply (those of the account, or the
  engine's own), and a refusal always says why; deciding changes no key.
\<close>

theorem gate_decides:
  assumes "redis ops live" and "evaluate ops env eng q loss positions ov s = (Inr d, s')"
  shows "live s' = live s \<and>
    rd_passed d = (controls_off (live s) (rq_account_id q) (ti_symbol (rq_trade_intent q)) \<and>
      within_limits eng (case ov of None \<Rightarrow> re_limits eng | Some x \<Rightarrow> x) q loss positions) \<and>
    rd_passed d = (rd_failures d = [])"
proof -
  have "live s' = live s" "gate_post eng q loss positions ov (live s) d"
    using redis.evaluate_wp [OF assms(1) HOL.refl, of env eng q loss positions ov s] assms(2)
    by (simp_all add: wp_def)
  then show ?thesis by (auto simp: gate_post_def)
qed

definition demo_request :: execution_request where
  "demo_request =
     \<lparr>rq_request_id = [], rq_job_id = [], rq_trade_intent = demo_intent, rq_user_id = ''system'',
      rq_account_id = demo_account, rq_trading_mode = PAPER, rq_approval_level = L2_PAPER,
      rq_source = ''strategy'', rq_created_at = 0\<rparr>"

theorem gate_decides_witness:
  "within_limits default_risk_engine default_risk_limits demo_request None None"
proof -
  let ?e = "evaluate mem_ops demo_env default_risk_engine demo_request None None None empty_mem"
  have "map_option rd_passed (the_ok (fst ?e)) = Some True" by code_simp
  then obtain d where d: "?e = (Inr d, snd ?e)" "rd_passed d"
    by (cases "fst ?e") (auto simp: prod_eq_iff)
  show ?thesis
    using gate_decides [OF mem.redis_axioms d(1)] d(2) by (simp add: default_risk_engine_def)
qed

section \<open>Operator controls\<close>

text \<open>The keys an action of the operator endpoint switches on, and those it switches off.\<close>

definition switched_on :: "kill_switch_request \<Rightarrow> string option" where
  "switched_on q =
     (let a = kq_account_id q in
      if kq_action q = ''activate'' then Some (kill_switch_key a)
      else if kq_action q = ''pause_user'' then Some (user_pause_key a)
      else if kq_action q = ''pause_symbol'' then map_option (symbol_pause_key a) (kq_symbol q)
      else if kq_action q = ''trip_circuit_breaker'' then Some (circuit_breaker_key a)
      else None)"

definition switched_off :: "kill_switch_request \<Rightarrow> string option" where
  "switched_off q =
     (let a = kq_account_id q in
      if kq_action q = ''clear'' then Some (kill_switch_key a)
      else if kq_action q = ''resume_user'' then Some (user_pause_key a)
      else if kq_action q = ''resume_symbol'' then map_option (symbol_pause_key a) (kq_symbol q)
      else if kq_action q = ''reset_circuit_breaker'' then Some (circuit_breaker_key a)
      else None)"

definition after_action :: "kill_switch_request \<Rightarrow> (string \<Rightarrow> rtext option) \<Rightarrow> (string \<Rightarrow> rtext option)" where
  "after_action q l =
     (case switched_on q of Some k \<Rightarrow> l(k \<mapsto> Raw ''1'')
      | None \<Rightarrow> (case switched_off q of Some k \<Rightarrow> l(k := None) | None \<Rightarrow> l))"

lemma set_plain:
  assumes "redis ops live" "r_set ops k v False ex s = (Inr b, s')"
  shows "live s' = (live s)(k \<mapsto> v)"
  using redis.set_live [OF assms] by (cases b) auto

lemma dispatched:
  assumes "redis ops live" "ks_dispatch ops q symbol s = (Inr (), s')"
    and "kq_action q \<in> {''pause_symbol'', ''resume_symbol''} \<Longrightarrow> kq_symbol q = Some symbol"
  shows "live s' = after_action q (live s)"
proof -
  note sets = set_plain [OF assms(1)] and dels = redis.delete_live [OF assms(1)]
  show ?thesis
    using assms(2,3) unfolding ks_dispatch_def Let_def
    by (auto simp: discard_def mbind_def mret_def control_defs after_action_def switched_on_def switched_off_def
        Let_def split: if_splits prod.splits sum.splits dest: sets dels)
qed

text \<open>
  An operator action that is answered has exactly its effect: it switches its one control on or
  off and leaves every other key; an unknown action, or a symbol action without a symbol, is refused
  and changes nothing.
\<close>

theorem operator_actions_take_effect:
  assumes "redis ops live" and "kill_switch_post ops q s = (r, s')"
  shows "(\<forall>j. r = Inr j \<longrightarrow> live s' = after_action q (live s)) \<and>
    (kq_action q \<notin> set VALID_ACTIONS \<or>
       kq_action q \<in> {''pause_symbol'', ''resume_symbol''} \<and> (kq_symbol q = None \<or> kq_symbol q = Some []) \<longrightarrow>
     (\<exists>text. r = Inl (HttpError 422 text)) \<and> s' = s)"
proof (cases "kq_action q \<notin> set VALID_ACTIONS \<or>
    kq_action q \<in> {''pause_symbol'', ''resume_symbol''} \<and> (kq_symbol q = None \<or> kq_symbol q = Some [])")
  case True
  then show ?thesis using assms(2) by (auto simp: kill_switch_post_def mraise_def split: if_splits)
next
  case False
  let ?sy = "case kq_symbol q of None \<Rightarrow> [] | Some s \<Rightarrow> s"
  have "live s' = after_action q (live s)" if "r = Inr j" for j
  proof -
    have "kill_switch_post ops q s = mseq (ks_dispatch ops q ?sy) (mret j) s"
      using False assms(2) that unfolding kill_switch_post_def de_Morgan_disj not_not
      by (simp only: if_False simp_thms not_not) (simp add: mseq_def mbind_def mret_def split: prod.splits sum.splits)
    then have "ks_dispatch ops q ?sy s = (Inr (), s')"
      using assms(2) that by (simp add: mseq_def mbind_def mret_def split: prod.splits sum.splits)
    moreover have "kq_action q \<in> {''pause_symbol'', ''resume_symbol''} \<Longrightarrow> kq_symbol q = Some ?sy"
      using False by (auto split: option.split)
    ultimately show ?thesis by (rule dispatched [OF assms(1)])
  qed
  with False show ?thesis by blast
qed

theorem operator_actions_take_effect_witness:
  "mem_live (snd (kill_switch_post mem_ops
      \<lparr>kq_action = ''activate'', kq_account_id = demo_account, kq_symbol = None, kq_ttl_s = 3600\<rparr> empty_mem)) =
   [kill_switch_key demo_account \<mapsto> Raw ''1'']"
proof -
  let ?q = "\<lparr>kq_action = ''activate'', kq_account_id = demo_account, kq_symbol = None, kq_ttl_s = 3600\<rparr>"
  have "the_ok (fst (kill_switch_post mem_ops ?q empty_mem)) \<noteq> None" by code_simp
  then obtain j where "fst (kill_switch_post mem_ops ?q empty_mem) = Inr j"
    by (metis the_ok_simps(1) sum.exhaust)
  then show ?thesis
    using operator_actions_take_effect [OF mem.redis_axioms prod.collapse [symmetric], of ?q empty_mem]
    by (simp add: after_action_def switched_on_def)
qed

text \<open>
  C8: From the operator to the order: once a request that switches on the kill switch, a user pause,
  the circuit breaker, or the pause of the intent's own symbol has been answered, processing an entry
  for that account submits nothing.
\<close>

theorem switched_on_control_stops_orders:
  assumes "redis (cs_ops cs) live"
    and "execution_adapter (ad_submit (cs_adapter cs)) live (ad_name (cs_adapter cs))"
    and "kill_switch_post (cs_ops cs) kq s = (Inr j, s')"
    and "kq_account_id kq = account_of (cs_settings cs)"
    and "map_of fs ''intent'' = Some raw" "e_parse_intent (cs_env cs) raw = Inr i"
    and "kq_action kq \<in> {''activate'', ''pause_user'', ''trip_circuit_breaker''} \<or>
      kq_action kq = ''pause_symbol'' \<and> kq_symbol kq = Some (ti_symbol i)"
    and "process cs msg_id fs w = (r, w')" "w_redis w = s'" "w_trace w' = w_trace w @ es"
  shows "filter is_submit es = []"
proof (rule ccontr)
  assume sub: "filter is_submit es \<noteq> []"
  have "exec_consumer cs live" using assms(1,2) by (rule exec_consumerI)
  from exec_consumer.process_once [OF this, of msg_id fs w] obtain q where
    q: "request_of (cs_settings cs) i q" "gated (cs_risk cs) q (live s')"
    using assms(5,6,8-10) sub by (auto simp: wp_def adds_def)
  have "kq_action kq \<in> set VALID_ACTIONS"
    using assms(7) by (auto simp: VALID_ACTIONS_def)
  then have "live s' = after_action kq (live s)"
    using dispatched [OF assms(1), of kq "case kq_symbol kq of None \<Rightarrow> [] | Some s \<Rightarrow> s" s s'] assms(3)
    by (auto simp: kill_switch_post_def mseq_def mbind_def mret_def mraise_def split: if_splits prod.splits sum.splits)
  then show False
    using q assms(4,7)
    by (auto simp: gated_def controls_off_def request_of_def after_action_def switched_on_def Let_def)
qed

definition demo_pause :: kill_switch_request where
  "demo_pause = \<lparr>kq_action = ''pause_symbol'', kq_account_id = demo_account, kq_symbol = Some ''BTCUSDT'', kq_ttl_s = 60\<rparr>"

theorem switched_on_control_stops_orders_witness:
  "let s1 = snd (kill_switch_post mem_ops demo_pause empty_mem)
   in filter is_submit (w_trace (snd (process demo_consumer ''1-0'' demo_entry (demo_world\<lparr>w_redis := s1\<rparr>)))) = []"
proof -
  let ?p = "kill_switch_post mem_ops demo_pause empty_mem"
  let ?w = "demo_world\<lparr>w_redis := snd ?p\<rparr>"
  have "the_ok (fst ?p) \<noteq> None" by code_simp
  then obtain j where j: "?p = (Inr j, snd ?p)"
    by (metis prod.collapse the_ok_simps(1) sum.exhaust)
  have "e_parse_intent demo_env (Raw ''intent'') = Inr demo_intent" by (simp add: demo_env_def)
  then show ?thesis
    using switched_on_control_stops_orders [OF _ _ _ _ _ _ _ prod.collapse [symmetric],
        where cs = demo_consumer and live = mem_live and kq = demo_pause and s = empty_mem and j = j and s' = "snd ?p" and
          fs = demo_entry and raw = "Raw ''intent''" and i = demo_intent and msg_id = "''1-0''" and w = ?w]
      j mem.redis_axioms mem.paper_adapter [of demo_env]
    by (simp add: Let_def demo_entry_def demo_pause_def demo_settings_def account_of_def demo_account_def
        demo_intent_def default_settings_def)
qed

section \<open>Acknowledgement\<close>

section \<open>Every entry is answered\<close>

text \<open>The two commands whose failure the consumer lets through: \<open>SET\<close> with a positive expiry, and \<open>XADD\<close>.\<close>

definition answers :: "'r redis_ops \<Rightarrow> bool" where
  "answers ops = ((\<forall>k v nx t. 0 < t \<longrightarrow> returns (r_set ops k v nx (Some t))) \<and> (\<forall>st fs. returns (r_xadd ops st fs)))"

definition well_configured :: "exec_settings \<Rightarrow> bool" where
  "well_configured s =
     (0 < es_job_lock_ttl_s s \<and> 0 < es_symbol_cooldown_s s \<and>
      (\<exists>l. approval_level_of (es_default_approval_level s) = Inr l))"

lemma consumer_returns:
  assumes "answers (cs_ops cs)"
  shows "returns (publish (cs_ops cs) t j d)" "returns (with_repo cs m)" "returns (consumer_ack cs i)"
    "returns (queue_job cs q c)" "returns (load_limits cs a)" "returns (load_risk_data cs a)"
    "returns (risk_gate cs q)" "returns (on_failed cs j c rs er it a)" "returns (on_blocked cs j c fs md)"
    "returns (approve_job cs j d')" "returns (mark_status cs j rp st)" "returns (announce_fill cs j rp)"
    "returns (persist_fill cs q c rp)"
proof -
  show pub: "returns (publish (cs_ops cs) t j d)" for t j d
    using assms by (intro returns_publish) (simp add: answers_def)
  show repo: "returns (with_repo cs m)" for m
    unfolding with_repo_def by (intro returns)
  show "returns (consumer_ack cs i)" unfolding consumer_ack_def by (rule returns)
  show "returns (queue_job cs q c)" unfolding queue_job_def Let_def by (intro returns pub repo)
  show lim: "returns (load_limits cs a)" for a unfolding load_limits_def by (simp add: returns_ret returns_try)
  show dat: "returns (load_risk_data cs a)" for a unfolding load_risk_data_def by (simp add: returns_ret returns_try)
  show "returns (risk_gate cs q)"
    unfolding risk_gate_def by (auto intro!: returns lim dat)
  show "returns (on_failed cs j c rs er it a)"
    unfolding on_failed_def by (auto intro!: returns pub repo split: option.split)
  show "returns (on_blocked cs j c fs md)" unfolding on_blocked_def Let_def by (intro returns pub repo)
  show "returns (approve_job cs j d')" unfolding approve_job_def by (intro returns pub repo)
  show "returns (mark_status cs j rp st)" unfolding mark_status_def by (intro returns pub repo)
  show "returns (announce_fill cs j rp)" unfolding announce_fill_def by (rule pub)
  show "returns (persist_fill cs q c rp)" unfolding persist_fill_def by (rule repo)
qed

lemma execute_returns:
  assumes "answers (cs_ops cs)" "0 < es_symbol_cooldown_s (cs_settings cs)"
  shows "returns (execute_approved cs q c)"
proof -
  note steps = returns consumer_returns [OF assms(1)]
  have cool: "returns (discard (on_redis (set_cooldown (cs_ops cs) a s (es_symbol_cooldown_s (cs_settings cs)))))" for a s
    unfolding discard_def set_cooldown_def using assms by (intro returns) (simp add: answers_def)
  show ?thesis
    unfolding execute_approved_def Let_def
    by (auto intro!: steps cool split: sum.split)
qed

lemma process_returns:
  assumes "answers (cs_ops cs)" "well_configured (cs_settings cs)"
  shows "returns (process cs msg_id fs)"
proof -
  obtain l where l: "approval_level_of (es_default_approval_level (cs_settings cs)) = Inr l"
    using assms(2) by (auto simp: well_configured_def)
  note steps = returns consumer_returns [OF assms(1)]
  have run: "returns (run_job cs q c)" for q c
    unfolding run_job_def using assms(2)
    by (auto intro!: steps execute_returns [OF assms(1)] simp: well_configured_def split: sum.split)
  have built: "returns (mlift (build_request cs r j i t))" for r j i t
    by (simp add: build_request_def Let_def l returns_lift)
  have locked: "returns (process_locked cs msg_id i j)" for i j
    unfolding process_locked_def by (intro steps run built returns_uuid4)
  have set: "returns (on_redis (r_set (cs_ops cs) k v True (Some (es_job_lock_ttl_s (cs_settings cs)))))" for k v
    using assms by (intro returns) (simp add: answers_def well_configured_def)
  have "returns (process_intent cs msg_id i)" for i
    unfolding process_intent_def Let_def by (auto intro!: steps locked set returns_uuid4)
  then show ?thesis
    unfolding process_def by (auto intro!: steps split: option.split sum.split)
qed

context exec_consumer
begin

definition entry_ack :: "string \<Rightarrow> effect" where
  "entry_ack msg_id = Acked STRATEGY_INTENTS (es_consumer_group (cs_settings cs)) msg_id"

lemma calm_extends: "calm live K w v \<Longrightarrow> more_trace (\<lambda>_. True) w v"
  by (auto simp: calm_def adds_def more_trace_def list_all_iff)

lemma run_extends: "wp (run_job cs q c) (\<lambda>r w'. more_trace (\<lambda>_. True) w w') w"
  by (rule wp_mono [OF run_once]) (auto simp: may_submit_def adds_def more_trace_def list_all_iff)

lemma ack_last:
  assumes "more_trace (\<lambda>_. True) w v"
  shows "wp (mseq (consumer_ack cs i) (mret out)) (\<lambda>r w'. acks (entry_ack i) w w') v"
  unfolding wp_seq consumer_ack_def
  by (rule wp_mono [OF wp_ack]) (use assms in \<open>auto simp: wp_ret entry_ack_def intro: more_then_acks\<close>)

lemma locked_acks:
  assumes "more_trace (\<lambda>_. True) w v"
  shows "wp (process_locked cs msg_id i j) (\<lambda>r w'. (\<exists>x. r = Inr x) \<longrightarrow> acks (entry_ack msg_id) w w') v"
  unfolding process_locked_def
proof (rule wp_bind_moves [OF uuid4_calm [where K = "{}"]], goal_cases)
  case (2 request_id u)
  have wu: "more_trace (\<lambda>_. True) w u" using assms calm_extends [OF 2] by (rule more_trace.trans)
  have "wp (mbind (run_job cs q (coid_of cs i)) (\<lambda>out. mseq (consumer_ack cs msg_id) (mret out)))
      (\<lambda>r w'. (\<exists>x. r = Inr x) \<longrightarrow> acks (entry_ack msg_id) w w') u" for q
    unfolding wp_bind
    by (rule wp_mono [OF run_extends])
      (auto split: sum.split intro!: wp_mono [OF ack_last [OF more_trace.trans [OF wu]]])
  then show ?case by (simp add: wp_bind [of "mget _"] wp_bind [of "mlift _"] wp_get wp_lift split: sum.split)
qed simp

lemma entry_acked: "wp (process cs msg_id fs) (\<lambda>r w'. (\<exists>x. r = Inr x) \<longrightarrow> acks (entry_ack msg_id) w w') w"
proof -
  have ign: "wp (mseq (consumer_ack cs msg_id) (mret Ignored)) (\<lambda>r w'. (\<exists>x. r = Inr x) \<longrightarrow> acks (entry_ack msg_id) w w') w"
    by (rule wp_mono [OF ack_last [OF more_trace.refl]]) simp
  have "wp (process_intent cs msg_id i) (\<lambda>r w'. (\<exists>x. r = Inr x) \<longrightarrow> acks (entry_ack msg_id) w w') w" for i
    unfolding process_intent_def Let_def
  proof (rule wp_bind_moves [OF uuid4_calm [where K = "{}"]], goal_cases)
    case (2 job_id v)
    show ?case
      unfolding wp_bind wp_on_redis
    proof (rule wpI, goal_cases)
      case (1 r s)
      have wv: "more_trace (\<lambda>_. True) w (v\<lparr>w_redis := s\<rparr>)"
        using calm_extends [OF 2] by (auto simp: more_trace_def)
      have dup: "wp (mseq (publish (cs_ops cs) t j d) (mseq (consumer_ack cs msg_id) (mret Duplicate)))
          (\<lambda>r w'. (\<exists>x. r = Inr x) \<longrightarrow> acks (entry_ack msg_id) w w') (v\<lparr>w_redis := s\<rparr>)" for t j d
        by (rule wp_seq_moves [OF calm_publish [where K = "{}"]], simp,
            rule wp_mono [OF ack_last [OF more_trace.trans [OF wv calm_extends]]], assumption) simp
      then show ?case
        using locked_acks [OF wv] by (auto split: sum.split)
    qed
  qed simp
  then show ?thesis
    unfolding process_def by (auto intro: ign split: option.split sum.split)
qed

end


text \<open>The store in memory whose \<open>SET\<close> and \<open>XADD\<close> never fail.\<close>

definition steady_ops :: "mem_redis redis_ops" where
  "steady_ops = mem_ops
     \<lparr>r_set := (\<lambda>k v nx ex s. r_set mem_ops k v nx ex (s\<lparr>mr_fail := []\<rparr>)),
      r_xadd := (\<lambda>st fs s. r_xadd mem_ops st fs (s\<lparr>mr_fail := []\<rparr>))\<rparr>"

lemma steady_same [simp]:
  "r_get steady_ops = r_get mem_ops" "r_exists steady_ops = r_exists mem_ops" "r_ttl steady_ops = r_ttl mem_ops"
  "r_delete steady_ops = r_delete mem_ops" "r_getdel steady_ops = r_getdel mem_ops"
  "r_incr steady_ops = r_incr mem_ops" "r_expire steady_ops = r_expire mem_ops"
  "r_set_all steady_ops = r_set_all mem_ops" "r_xack steady_ops = r_xack mem_ops"
  "r_xgroup_create steady_ops = r_xgroup_create mem_ops" "r_xreadgroup steady_ops = r_xreadgroup mem_ops"
  "r_xlen steady_ops = r_xlen mem_ops" "r_xinfo_groups steady_ops = r_xinfo_groups mem_ops"
  "r_set steady_ops k v nx ex s = r_set mem_ops k v nx ex (s\<lparr>mr_fail := []\<rparr>)"
  "r_xadd steady_ops st fs s = r_xadd mem_ops st fs (s\<lparr>mr_fail := []\<rparr>)"
  by (simp_all add: steady_ops_def)

lemma mem_live_fail [simp]: "mem_live (s\<lparr>mr_fail := l\<rparr>) = mem_live s"
  by (simp add: mem_live_def fun_eq_iff)

interpretation steady: redis steady_ops mem_live
proof (unfold_locales, goal_cases)
  case (4 k v nx ex s rb s')
  then show ?case using mem.set_live [of k v nx ex "s\<lparr>mr_fail := []\<rparr>" rb s'] by simp
next
  case (10 st fs s ru s')
  then show ?case using mem.xadd_live [of st fs "s\<lparr>mr_fail := []\<rparr>" ru s'] by simp
qed (simp_all only: steady_same, (erule mem.get_live mem.exists_live mem.ttl_live mem.delete_live mem.getdel_live
     mem.incr_live mem.set_all_live mem.xack_live mem.xgroup_live mem.xread_live mem.expire_live
     mem.xlen_live mem.xinfo_live mem.incr_fails, assumption?)+)

lemma steady_answers: "answers steady_ops"
  by (auto simp: answers_def returns_def mem_ops_def mem_cmd_def)

definition steady_consumer :: "mem_redis consumer" where
  "steady_consumer = demo_consumer\<lparr>cs_ops := steady_ops\<rparr>"


section \<open>Duplicates\<close>

text \<open>The lock of an order, once taken, is never released by the consumer.\<close>

definition same_lock :: "('r \<Rightarrow> string \<Rightarrow> rtext option) \<Rightarrow> string \<Rightarrow> 'r exec_world \<Rightarrow> 'r exec_world \<Rightarrow> bool" where
  "same_lock live c w w' = (live (w_redis w') (job_lock_key c) = live (w_redis w) (job_lock_key c))"

interpretation same_lock: frame "same_lock live c" for live :: "'r \<Rightarrow> string \<Rightarrow> rtext option" and c
  by unfold_locales (auto simp: same_lock_def)

lemma calm_same_lock: "moves (calm live {job_lock_key c}) m \<Longrightarrow> moves (same_lock live c) m"
  by (erule moves_mono) (simp add: calm_def same_lock_def)

lemma same_lock_put: "(\<And>w. w_redis (f w) = w_redis w) \<Longrightarrow> moves (same_lock live c) (mput f)"
  by (simp add: moves_def same_lock_def mput_def)

context exec_consumer
begin

lemma same_lock_submit: "moves (same_lock live c) (ad_submit (cs_adapter cs) q d)"
  by (rule moves_mono [OF step]) (simp add: adapter_step_def same_lock_def)

lemma same_lock_cooldown: "moves (same_lock live c) (discard (on_redis (set_cooldown (cs_ops cs) a s n)))"
  unfolding discard_def set_cooldown_def
  by (intro same_lock.rules, rule calm_same_lock, rule calm_redis)
    (auto intro!: wpI dest!: set_other [where k' = "job_lock_key c"])

lemmas same_lock_steps =
  calm_same_lock [OF calm_publish] calm_same_lock [OF calm_ack] calm_same_lock [OF calm_queue]
  calm_same_lock [OF calm_blocked] calm_same_lock [OF calm_failed] calm_same_lock [OF calm_approve]
  calm_same_lock [OF calm_mark] calm_same_lock [OF calm_persist] calm_same_lock [OF uuid4_calm]

lemma gate_lock: "moves (same_lock live c) (risk_gate cs q)"
proof -
  have "moves (calm live {job_lock_key c}) (on_redis (evaluate (cs_ops cs) (cs_env cs) (cs_risk cs) q x y z))" for x y z
    by (intro calm_redis wp_mono [OF evaluate_wp [OF HOL.refl]]) simp
  then show ?thesis
    unfolding risk_gate_def
    by (auto intro!: calm_same_lock calm.rules calm_load_limits calm_load_risk_data)
qed

lemma execute_lock: "moves (same_lock live c) (execute_approved cs q d)"
  unfolding execute_approved_def Let_def announce_fill_def
  by (auto intro!: same_lock.rules same_lock_steps same_lock_submit same_lock_cooldown same_lock_put split: sum.split)

lemma run_lock: "moves (same_lock live c) (run_job cs q d)"
  unfolding run_job_def
  by (auto intro!: same_lock.rules same_lock_steps gate_lock execute_lock same_lock_put split: sum.split)

lemma locked_lock: "moves (same_lock live c) (process_locked cs m i j)"
  unfolding process_locked_def by (intro same_lock.rules same_lock_steps run_lock)

text \<open>Whoever submits holds the lock afterwards.\<close>

lemma intent_lock:
  "wp (process_intent cs msg_id i) (\<lambda>r w'. (live (w_redis w) (job_lock_key c) \<noteq> None \<longrightarrow> live (w_redis w') (job_lock_key c) \<noteq> None) \<and>
     (adds [] w w' \<or> live (w_redis w') (job_lock_key (coid_of cs i)) \<noteq> None)) w"
  unfolding process_intent_def Let_def
proof (rule wp_bind_moves [OF uuid4_calm [where K = UNIV]], goal_cases)
  case (1 e v)
  then show ?case by (simp add: calm_def)
next
  case (2 job_id v)
  then have live: "live (w_redis v) = live (w_redis w)" and wv: "adds [] w v" by (auto simp: calm_def)
  let ?c = "coid_of cs i"
  show ?case
    unfolding wp_bind wp_on_redis
  proof (rule wpI, goal_cases)
    case (1 r s)
    let ?u = "v\<lparr>w_redis := s\<rparr>"
    have keep: "live (w_redis w) k \<noteq> None \<Longrightarrow> live s k \<noteq> None" for k
      using set_keeps [OF 1, of k] live by simp
    have wu: "adds [] w ?u" using wv by (simp add: adds_def)
    consider e where "r = Inl e" | "r = Inr False" | "r = Inr True" by (cases r) auto
    then show ?case
    proof cases
      case 1
      then show ?thesis using keep wu by (simp del: not_None_eq)
    next
      case 2
      have "moves (calm live {job_lock_key c}) (mseq (publish (cs_ops cs) t j d) (mseq (consumer_ack cs msg_id) (mret Duplicate)))" for t j d
        by (intro calm_rules)
      then show ?thesis
        unfolding 2 sum.case not_False_eq_True if_True
        by (rule moves_wp) (use keep adds_trans [OF wu] in \<open>auto simp: calm_def simp del: not_None_eq\<close>)
    next
      case 3
      then have held: "live s (job_lock_key ?c) \<noteq> None" using set_live [OF 1] by simp
      show ?thesis
        unfolding 3 sum.case not_True_eq_False if_False
      proof (rule wpI, goal_cases)
        case (1 r' w')
        show ?case
          using movesD [OF locked_lock [of c] 1] movesD [OF locked_lock [of ?c] 1] keep held
          by (simp add: same_lock_def del: not_None_eq)
      qed
    qed
  qed
qed

lemma process_lock:
  "wp (process cs msg_id fs) (\<lambda>r w'. (live (w_redis w) (job_lock_key c) \<noteq> None \<longrightarrow> live (w_redis w') (job_lock_key c) \<noteq> None) \<and>
     (adds [] w w' \<or> (\<exists>raw i. map_of fs ''intent'' = Some raw \<and> e_parse_intent (cs_env cs) raw = Inr i \<and>
        live (w_redis w') (job_lock_key (coid_of cs i)) \<noteq> None))) w"
proof -
  have ign: "moves (calm live {job_lock_key c}) (mseq (consumer_ack cs msg_id) (mret Ignored))"
    by (intro calm_rules)
  have *: "wp (mseq (consumer_ack cs msg_id) (mret Ignored)) (\<lambda>r w'. (live (w_redis w) (job_lock_key c) \<noteq> None \<longrightarrow> live (w_redis w') (job_lock_key c) \<noteq> None) \<and>
     adds [] w w') w"
    by (rule moves_wp [OF ign]) (simp add: calm_def del: not_None_eq)
  show ?thesis
    unfolding process_def
    by (auto intro!: * wp_mono [OF *] wp_mono [OF intent_lock [where c = c]] simp del: not_None_eq split: option.split sum.split)
qed

end

text \<open>
  C5: An entry that is delivered twice submits at most one order in total, as long as the locks taken
  by the first delivery have not expired when the second is processed; what happens in between does
  not matter.
\<close>

theorem redelivered_entry_submits_once:
  assumes "redis (cs_ops cs) live"
    and "execution_adapter (ad_submit (cs_adapter cs)) live (ad_name (cs_adapter cs))"
    and "process cs m1 fs w = (r, w')" "w_trace w' = w_trace w @ es"
    and "\<And>c. live (w_redis w') (job_lock_key c) \<noteq> None \<Longrightarrow> live (w_redis v) (job_lock_key c) \<noteq> None"
    and "process cs m2 fs v = (q, v')" "w_trace v' = w_trace v @ ds"
  shows "length (filter is_submit es) + length (filter is_submit ds) \<le> 1"
proof -
  have consumer: "exec_consumer cs live" using assms(1,2) by (rule exec_consumerI)
  note once = exec_consumer.process_once [OF consumer] and lock = exec_consumer.process_lock [OF consumer]
  have es: "length (filter is_submit es) \<le> 1" and ds: "length (filter is_submit ds) \<le> 1"
    using once [of m1 fs w] once [of m2 fs v] assms(3,4,6,7) by (auto simp: wp_def adds_def)
  show ?thesis
  proof (cases "filter is_submit es = [] \<or> filter is_submit ds = []")
    case False
    obtain raw i where i: "map_of fs ''intent'' = Some raw" "e_parse_intent (cs_env cs) raw = Inr i"
      "live (w_redis w') (job_lock_key (coid_of cs i)) \<noteq> None"
      using lock [where c = "[]" and msg_id = m1 and fs = fs and w = w] assms(3,4) False by (auto simp: wp_def adds_def)
    have "live (w_redis v) (job_lock_key (coid_of cs i)) = None"
      using once [of m2 fs v] assms(6,7) False i(1,2) by (auto simp: wp_def adds_def)
    with assms(5) [OF i(3)] show ?thesis by simp
  qed (use es ds in auto)
qed

theorem redelivered_entry_submits_once_witness:
  "let w' = snd (process demo_consumer ''1-0'' demo_entry demo_world)
   in filter is_submit (drop (length (w_trace w')) (w_trace (snd (process demo_consumer ''2-0'' demo_entry w')))) = []"
proof -
  let ?w = "snd (process demo_consumer ''1-0'' demo_entry demo_world)"
  let ?v = "snd (process demo_consumer ''2-0'' demo_entry ?w)"
  have "Submitted ''paper'' (coid_of demo_consumer demo_intent) \<in> set (w_trace ?w)"
    using demo_run by (auto simp: Let_def split_beta dest: filter_eq_ConsD)
  then have "filter is_submit (w_trace ?w) \<noteq> []"
    by (metis filter_empty_conv is_submit_simps(1))
  moreover obtain ds where ds: "w_trace ?v = w_trace ?w @ ds"
    using exec_consumer.process_once [OF demo_exec.exec_consumer_axioms, of "''2-0''" demo_entry ?w]
    by (auto simp: wp_def adds_def split: prod.splits)
  moreover have "length (filter is_submit (w_trace ?w)) + length (filter is_submit ds) \<le> 1"
    by (rule redelivered_entry_submits_once [OF _ _ prod.collapse [symmetric] _ _ prod.collapse [symmetric] ds,
          where live = mem_live])
      (use mem.redis_axioms mem.paper_adapter [of demo_env] in \<open>simp_all\<close>)
  ultimately show ?thesis by (cases "filter is_submit (w_trace ?w)") (auto simp: Let_def)
qed

section \<open>The tables\<close>

lemma db_ok_ledger: "db_ok (ledger d) = db_ok d"
  by (simp add: db_ok_def ledger_def db_columns)

lemma keeps_ok_counter: "(\<And>w. w_db (f w) = w_db w) \<Longrightarrow> moves (db_rel keeps_ok) (mput f)"
  by (rule keeps_ok.same [OF same_db_put])

lemma keeps_ok_repo: "moves (db_rel keeps_ok) m \<Longrightarrow> moves (db_rel keeps_ok) (with_repo cs m)"
  unfolding with_repo_def by (intro keeps_ok.w.rules)

lemma keeps_ok_load: "moves (db_rel keeps_ok) (load_context env a)"
  by (rule keeps_ok.same [OF same_db_load])

lemma keeps_ok_reads:
  "moves (db_rel keeps_ok) (load_limits cs a)" "moves (db_rel keeps_ok) (load_risk_data cs a)"
  unfolding load_limits_def load_risk_data_def get_daily_realized_loss_usd_def get_open_positions_count_def
  by (auto intro!: keeps_ok.w.rules keeps_ok_load moves split: option.split prod.split)

lemma keeps_ok_phases:
  "moves (db_rel keeps_ok) (queue_job cs q c)" "moves (db_rel keeps_ok) (on_blocked cs j c fs md)"
  "moves (db_rel keeps_ok) (on_failed cs j c rs er it a)" "moves (db_rel keeps_ok) (approve_job cs j d)"
  "moves (db_rel keeps_ok) (mark_status cs j rp st)" "moves (db_rel keeps_ok) (persist_fill cs q c rp)"
  "moves (db_rel keeps_ok) (announce_fill cs j rp)" "moves (db_rel keeps_ok) (risk_gate cs q)"
  "moves (db_rel keeps_ok) (consumer_ack cs m)"
  unfolding queue_job_def on_blocked_def on_failed_def approve_job_def mark_status_def persist_fill_def
    announce_fill_def risk_gate_def consumer_ack_def Let_def
  by (auto intro!: keeps_ok.w.rules keeps_ok_repo keeps_ok_reads moves split: option.split)

context exec_consumer
begin

lemma keeps_ok_submit: "moves (db_rel keeps_ok) (ad_submit (cs_adapter cs) q c)"
proof (rule moves_mono [OF step])
  fix w w' :: "'r exec_world"
  assume "adapter_step live w w'"
  then have "db_ok (w_db w') = db_ok (w_db w)"
    by (metis adapter_step_def db_ok_ledger)
  then show "db_rel keeps_ok w w'" by (simp add: db_rel_def keeps_ok_def)
qed

lemma keeps_ok_run: "moves (db_rel keeps_ok) (run_job cs q c)"
  unfolding run_job_def execute_approved_def discard_def Let_def
  by (auto intro!: keeps_ok.w.rules keeps_ok_phases keeps_ok_submit keeps_ok_counter moves split: sum.split)

lemma keeps_ok_process: "moves (db_rel keeps_ok) (process cs m fs)"
  unfolding process_def process_intent_def process_locked_def Let_def
  by (auto intro!: keeps_ok.w.rules keeps_ok_phases keeps_ok_run moves split: option.split sum.split)

end



section \<open>The money of a paper fill\<close>

lemma commission_error:
  fixes a r :: rat
  assumes "quantize 8 (dec (dec a * r)) = Inr k"
  shows "\<bar>k - a * r\<bar> \<le> 1 / (2 * 10 ^ 8) + \<bar>a * r\<bar> / 10 ^ 26"
proof -
  let ?e = "1 / (2 * 10 ^ 27) :: rat"
  let ?b = "dec a" and ?d = "dec (dec a * r)"
  have "\<bar>k - ?d\<bar> \<le> 1 / (2 * 10 ^ 8)" using quantize_error [OF assms] .
  moreover have "\<bar>?d - ?b * r\<bar> \<le> \<bar>?b * r\<bar> * ?e" using dec_error [of "?b * r"] by simp
  moreover have ba: "\<bar>?b - a\<bar> \<le> \<bar>a\<bar> * ?e" using dec_error [of a] by simp
  moreover have br: "\<bar>?b * r - a * r\<bar> \<le> \<bar>a * r\<bar> * ?e"
  proof -
    have "\<bar>?b * r - a * r\<bar> = \<bar>?b - a\<bar> * \<bar>r\<bar>" by (simp only: abs_mult flip: left_diff_distrib)
    also have "\<dots> \<le> (\<bar>a\<bar> * ?e) * \<bar>r\<bar>" by (rule mult_right_mono [OF ba]) simp
    finally show ?thesis by (simp add: abs_mult)
  qed
  moreover have "\<bar>?b * r\<bar> * ?e \<le> (2 * \<bar>a * r\<bar>) * ?e"
  proof (rule mult_right_mono)
    have "\<bar>a * r\<bar> * ?e \<le> \<bar>a * r\<bar> * 1" by (intro mult_left_mono) simp_all
    with br show "\<bar>?b * r\<bar> \<le> 2 * \<bar>a * r\<bar>" by linarith
  qed simp
  moreover have "\<bar>k - a * r\<bar> \<le> \<bar>k - ?d\<bar> + \<bar>?d - ?b * r\<bar> + \<bar>?b * r - a * r\<bar>"
    by linarith
  ultimately have "\<bar>k - a * r\<bar> \<le> 1 / (2 * 10 ^ 8) + \<bar>a * r\<bar> * (3 * ?e)" by linarith
  also have "\<bar>a * r\<bar> * (3 * ?e) \<le> \<bar>a * r\<bar> * (1 / 10 ^ 26)"
    by (intro mult_left_mono) simp_all
  finally show ?thesis by simp
qed

text \<open>
  C13: A paper order that succeeds is filled at a positive price, the limit price if there is one, for
  its whole size, and is charged 0.04 percent of its notional, to half a unit of the eighth decimal
  place and the rounding of the decimal arithmetic.
\<close>

theorem paper_fills_are_priced:
  fixes w :: "('r, exec_db, 'm) world_scheme"
  assumes "paper_submit rc env q c w = (Inr resp, w')" "ar_success resp"
  shows "\<exists>p k. ar_fill_price resp = Some p \<and> 0 < p \<and>
    (\<forall>lp. ti_limit_price (rq_trade_intent q) = Some lp \<longrightarrow> p = lp) \<and>
    ar_fill_quantity resp = Some (ti_size (rq_trade_intent q)) \<and> ar_commission resp = Some k \<and>
    \<bar>k - ti_size (rq_trade_intent q) * p * (4 / 10000)\<bar> \<le>
      1 / (2 * 10 ^ 8) + \<bar>ti_size (rq_trade_intent q) * p * (4 / 10000)\<bar> / 10 ^ 26"
proof -
  let ?i = "rq_trade_intent q"
  let ?good = "\<lambda>p. \<forall>lp. ti_limit_price ?i = Some lp \<longrightarrow> p = lp"
  have price: "wp (on_redis (resolve_fill_price rc env ?i)) (\<lambda>r v. \<forall>p. r = Inr (Some p) \<longrightarrow> ?good p) w"
    by (cases "ti_limit_price ?i") (auto simp: wp_on_redis resolve_fill_price_def wp_ret intro: wpI)
  let ?Q = "\<lambda>r v. \<forall>resp. r = Inr resp \<longrightarrow> ar_success resp \<longrightarrow>
      (\<exists>p k. ar_fill_price resp = Some p \<and> 0 < p \<and> ?good p \<and> ar_fill_quantity resp = Some (ti_size ?i) \<and>
        ar_commission resp = Some k \<and> quantize 8 (dec (dec (ti_size ?i * p) * (4 / 10000))) = Inr k)"
  have none: "wp (mret (failure_response c e)) ?Q v" for e and v :: "('r, exec_db, 'm) world_scheme"
    by (simp add: wp_ret failure_response_def)
  have some: "wp (mbind (mlift (quantize 8 (dec (dec (ti_size ?i * p) * PAPER_COMMISSION_RATE)))) (\<lambda>commission.
      mseq (record_effect (Submitted ''paper'' c))
        (mret \<lparr>ar_success = True, ar_client_order_id = c, ar_exchange_order_id = Some (paper_order_id env c),
               ar_fill_price = Some p, ar_fill_quantity = Some (ti_size ?i), ar_commission = Some commission,
               ar_commission_asset = ''USDT'', ar_error = None\<rparr>))) ?Q v"
    if "0 < p" "?good p" for p and v :: "('r, exec_db, 'm) world_scheme"
    using that by (cases "quantize 8 (dec (dec (ti_size ?i * p) * PAPER_COMMISSION_RATE))")
      (simp_all add: wp_bind wp_lift wp_seq wp_record wp_ret PAPER_COMMISSION_RATE_def)
  have "wp (paper_submit rc env q c) ?Q w"
    unfolding paper_submit_def Let_def wp_bind [of "on_redis _"]
  proof (rule wp_mono [OF price], goal_cases)
    case (1 r v)
    consider e where "r = Inl e" | "r = Inr None" | p where "r = Inr (Some p)" by (metis option.exhaust sum.exhaust)
    then show ?case
    proof cases
      case 3
      then show ?thesis
        unfolding 3 sum.case option.case using 1(2)
        by (cases "p \<le> 0"; simp only: if_True if_False; intro none some) (simp_all add: 3)
    next
      case 2
      show ?thesis unfolding 2 sum.case option.case by (rule none)
    qed simp
  qed
  then obtain p k where "ar_fill_price resp = Some p" "0 < p" "?good p" "ar_fill_quantity resp = Some (ti_size ?i)"
    "ar_commission resp = Some k" "quantize 8 (dec (dec (ti_size ?i * p) * (4 / 10000))) = Inr k"
    using assms by (auto simp: wp_def)
  with commission_error [of "ti_size ?i * p" "4 / 10000" k] show ?thesis by blast
qed

theorem paper_fills_are_priced_witness:
  "\<exists>resp k. fst (paper_submit (Some mem_ops) demo_env demo_request ''tp2-1'' demo_world) = Inr resp \<and>
     ar_fill_price resp = Some 50000 \<and> ar_commission resp = Some k \<and>
     \<bar>k - 1 / 100 * 50000 * (4 / 10000)\<bar> \<le> 1 / 10 ^ 8"
proof -
  let ?s = "paper_submit (Some mem_ops) demo_env demo_request ''tp2-1'' demo_world"
  have "map_option ar_success (the_ok (fst ?s)) = Some True" by code_simp
  then obtain resp where resp: "?s = (Inr resp, snd ?s)" "ar_success resp"
    by (cases "fst ?s") (auto simp: prod_eq_iff)
  have i: "ti_limit_price (rq_trade_intent demo_request) = Some 50000" "ti_size (rq_trade_intent demo_request) = 1 / 100"
    by (simp_all add: demo_request_def demo_intent_def)
  obtain p k where pk: "ar_fill_price resp = Some p" "p = 50000" "ar_commission resp = Some k"
    "\<bar>k - 1 / 100 * p * (4 / 10000)\<bar> \<le> 1 / (2 * 10 ^ 8) + \<bar>1 / 100 * p * (4 / 10000)\<bar> / 10 ^ 26"
    using paper_fills_are_priced [OF resp] unfolding i by auto
  have "\<bar>k - 1 / 100 * 50000 * (4 / 10000)\<bar> \<le> 1 / 10 ^ 8"
    using pk(4) unfolding pk(2) by simp
  then show ?thesis using resp(1) pk by (metis fst_conv)
qed

section \<open>The gates of a live order\<close>

text \<open>
  C12: The live adapter sends an order to the exchange only if live trading is enabled in the settings,
  account and symbol are on the allow lists, the notional it can compute is within the cap and the
  intent is not a dry run.
\<close>

theorem live_orders_pass_every_gate:
  fixes w :: "('r, exec_db, 'm) world_scheme"
  assumes "policy_from_settings env st = Inr (la_policy la)"
    and "live_submit post env la q c w = (r, w')" "w_trace w' \<noteq> w_trace w"
  shows "ls_live_trading_enabled st \<and>
    rq_account_id q \<in> strip ` set (split_on CHR '','' (ls_account_allowlist st)) \<and>
    upper (ti_symbol (rq_trade_intent q)) \<in> (\<lambda>s. upper (strip s)) ` set (split_on CHR '','' (ls_symbol_allowlist st)) \<and>
    (\<forall>n. live_notional (rq_trade_intent q) = Some n \<longrightarrow> n \<le> lp_max_notional (la_policy la)) \<and>
    \<not> dry_run_of (rq_trade_intent q)"
proof -
  let ?i = "rq_trade_intent q" and ?p = "la_policy la"
  let ?res = "policy_evaluate env ?p (rq_account_id q) (ti_symbol ?i) (live_notional ?i) (dry_run_of ?i)"
  have log: "moves db_only (log_policy_block env la q c ?res)"
    unfolding log_policy_block_def by (intro db_only.rules moves)
  have "pr_allowed ?res"
  proof (rule ccontr)
    assume no: "\<not> pr_allowed ?res"
    have "moves db_only (mseq (log_policy_block env la q c ?res) (mret x))" for x :: adapter_response
      by (intro db_only.rules log)
    from movesD [OF this] have "db_only w w'"
      using assms(2) no by (simp add: live_submit_def Let_def)
    then show False using assms(3) by (simp add: db_only_sel)
  qed
  then have none: "policy_reasons env ?p (rq_account_id q) (ti_symbol ?i) (live_notional ?i) = []"
    and dry: "\<not> dry_run_of ?i"
    by (simp_all add: policy_evaluate_def Let_def)
  have gates: "lp_enabled ?p" "rq_account_id q \<in> set (lp_account_allowlist ?p)"
    "upper (ti_symbol ?i) \<in> set (lp_symbol_allowlist ?p)"
    "\<forall>n. live_notional ?i = Some n \<longrightarrow> n \<le> lp_max_notional ?p"
    using none by (auto simp: policy_defs split: if_splits option.splits)
  have "set (split_list x) \<subseteq> set (split_on CHR '','' x)" for x
    by (auto simp: split_list_def)
  moreover have "lp_enabled ?p = ls_live_trading_enabled st"
    "set (lp_account_allowlist ?p) \<subseteq> strip ` set (split_list (ls_account_allowlist st))"
    "set (lp_symbol_allowlist ?p) \<subseteq> (\<lambda>s. upper (strip s)) ` set (split_list (ls_symbol_allowlist st))"
    using assms(1) by (auto simp: policy_from_settings_def make_live_policy_def ebind_Inr dest!: sym [of _ ?p])
  ultimately have "ls_live_trading_enabled st"
    "rq_account_id q \<in> strip ` set (split_on CHR '','' (ls_account_allowlist st))"
    "upper (ti_symbol ?i) \<in> (\<lambda>s. upper (strip s)) ` set (split_on CHR '','' (ls_symbol_allowlist st))"
    using gates(1-3) by blast+
  with gates(4) dry show ?thesis by blast
qed

definition demo_live_settings :: live_settings where
  "demo_live_settings =
     \<lparr>ls_live_trading_enabled = True, ls_account_allowlist = demo_account, ls_symbol_allowlist = ''btcusdt'',
      ls_live_max_notional_usd = 1000\<rparr>"

definition demo_live_adapter :: live_adapter where
  "demo_live_adapter =
     \<lparr>la_policy = the (the_ok (policy_from_settings demo_env demo_live_settings)), la_api_key = ''key'',
      la_api_secret = ''secret'', la_has_incident_logger = False\<rparr>"

definition demo_exchange :: exchange where
  "demo_exchange tr ps =
     Inr (200, Json (JObj [(''orderId'', JInt 7), (''status'', JStr ''FILLED''), (''executedQty'', JStr ''0.01''),
                           (''cummulativeQuoteQty'', JStr ''500'')]))"

theorem live_orders_pass_every_gate_witness:
  "upper ''BTCUSDT'' \<in> (\<lambda>s. upper (strip s)) ` set (split_on CHR '','' ''btcusdt'')"
proof -
  let ?s = "live_submit demo_exchange demo_env demo_live_adapter demo_request ''tp2-1'' demo_world"
  have "the_ok (policy_from_settings demo_env demo_live_settings) \<noteq> None" by code_simp
  then have "policy_from_settings demo_env demo_live_settings = Inr (la_policy demo_live_adapter)"
    by (cases "policy_from_settings demo_env demo_live_settings") (simp_all add: demo_live_adapter_def)
  moreover have "w_trace (snd ?s) \<noteq> w_trace demo_world" by code_simp
  ultimately show ?thesis
    using live_orders_pass_every_gate [OF _ prod.collapse [symmetric], of demo_env demo_live_settings
        demo_live_adapter demo_exchange demo_request "''tp2-1''" demo_world]
    by (simp add: demo_live_settings_def demo_request_def demo_intent_def)
qed

end
