(* ===== verification/AccountState.thy ===== *)
theory AccountState
  imports Repository
begin

text \<open>
  Account state from the exchange's user-data stream
  (\<open>services/execution/account_stream/state.py\<close>): balances, positions, orders and fills are
  upserted in the tables, each event in one session, and the balances and positions are cached in
  Redis.  The events are the JSON the exchange sends; their texts go into the columns as they are,
  and a text that is not a number does not fit a \<open>Numeric\<close> column.
\<close>

section \<open>Columns\<close>

definition BALANCE_CACHE_TTL_S :: int where "BALANCE_CACHE_TTL_S = 300"

definition POSITION_CACHE_TTL_S :: int where "POSITION_CACHE_TTL_S = 300"

definition account_live_balances_key :: "string \<Rightarrow> string" where
  "account_live_balances_key account_id = ''account:'' @ account_id @ '':live:balances''"

definition account_live_positions_key :: "string \<Rightarrow> string" where
  "account_live_positions_key account_id = ''account:'' @ account_id @ '':live:positions''"

text \<open>A text for a \<open>Numeric(30, 12)\<close> column, and a value for a \<open>String(n)\<close> one.\<close>

definition num_text :: "env \<Rightarrow> string \<Rightarrow> exn + rat" where
  "num_text env s = (case parse_number s of None \<Rightarrow> Inl (DbError ''numeric'') | Some x \<Rightarrow> num_col env 30 12 x)"

definition num_text_opt :: "env \<Rightarrow> string option \<Rightarrow> exn + rat option" where
  "num_text_opt env s =
     (case s of None \<Rightarrow> Inr None | Some t \<Rightarrow> ebind (num_text env t) (\<lambda>x. Inr (Some x)))"

definition str_col :: "nat \<Rightarrow> json \<Rightarrow> exn + string" where
  "str_col n v =
     (case v of JStr s \<Rightarrow> if length s \<le> n then Inr s else Inl (DbError ''string too long'')
      | _ \<Rightarrow> Inl (DbError ''not a string''))"

text \<open>\<open>str(x.get(k, default))\<close>.\<close>

definition str_field :: "env \<Rightarrow> (string \<times> json) list \<Rightarrow> string \<Rightarrow> json \<Rightarrow> string" where
  "str_field env d k dflt = py_str (e_show env) (dict_get k dflt d)"

fun dict_of :: "json \<Rightarrow> exn + (string \<times> json) list" where
  "dict_of (JObj d) = Inr d"
| "dict_of _ = Inl AttributeError"

text \<open>A session body over a list of entries: each sees the changes of those before it.\<close>

fun each_row :: "('a \<Rightarrow> 'd \<Rightarrow> exn + 'd) \<Rightarrow> 'a list \<Rightarrow> 'd \<Rightarrow> exn + 'd" where
  "each_row f [] d = Inr d"
| "each_row f (x # xs) d = ebind (f x d) (each_row f xs)"

section \<open>Balances\<close>

definition total_text :: "env \<Rightarrow> string \<Rightarrow> string \<Rightarrow> string" where
  "total_text env free locked =
     (case ebind (dec_literal free) (\<lambda>f. ebind (dec_literal locked) (\<lambda>l. Inr (dec (f + l)))) of
        Inl _ \<Rightarrow> ''0'' | Inr t \<Rightarrow> show_dec env t)"

definition is_balance :: "uuid \<Rightarrow> string \<Rightarrow> balance_row \<Rightarrow> bool" where
  "is_balance a asset r = (bl_account_id r = a \<and> bl_asset r = asset)"

definition put_balance ::
  "uuid \<Rightarrow> string \<Rightarrow> rat \<Rightarrow> rat \<Rightarrow> rat \<Rightarrow> int \<Rightarrow> exec_db \<Rightarrow> exn + exec_db" where
  "put_balance a asset free locked tot now d =
     (if list_ex (is_balance a asset) (d_balances d)
      then Inr (d\<lparr>d_balances := map (\<lambda>r. if is_balance a asset r
             then r\<lparr>bl_free := free, bl_locked := locked, bl_total := tot, bl_updated_at_ms := now\<rparr> else r)
             (d_balances d)\<rparr>)
      else if \<not> has_account d a then Inl (IntegrityError ''balances_account_id'')
      else Inr (d\<lparr>d_balances := d_balances d @
             [\<lparr>bl_account_id = a, bl_asset = asset, bl_free = free, bl_locked = locked, bl_total = tot,
               bl_wallet_balance = None, bl_unrealized_pnl = None, bl_updated_at_ms = now\<rparr>]\<rparr>))"

text \<open>What an entry asks for: nothing without an asset, else the asset and its free, locked and total amounts.\<close>

definition balance_entry :: "env \<Rightarrow> json \<Rightarrow> exn + (string \<times> rat \<times> rat \<times> rat) option" where
  "balance_entry env entry =
     ebind (dict_of entry) (\<lambda>b.
     let field = (\<lambda>k long dflt. py_or (dict_get k JNull b) (dict_get long dflt b));
         asset = field ''a'' ''asset'' (JStr []);
         free = py_str (e_show env) (field ''f'' ''free'' (JStr ''0''));
         locked = py_str (e_show env) (field ''l'' ''locked'' (JStr ''0''))
     in if \<not> truthy asset then Inr None
        else ebind (str_col 16 asset) (\<lambda>asset.
             ebind (num_text env free) (\<lambda>f.
             ebind (num_text env locked) (\<lambda>l.
             ebind (num_text env (total_text env free locked)) (\<lambda>t. Inr (Some (asset, f, l, t)))))))"

definition upsert_balance :: "env \<Rightarrow> uuid \<Rightarrow> int \<Rightarrow> json \<Rightarrow> exec_db \<Rightarrow> exn + exec_db" where
  "upsert_balance env a now entry d =
     ebind (balance_entry env entry) (\<lambda>u.
     case u of None \<Rightarrow> Inr d | Some (asset, f, l, t) \<Rightarrow> put_balance a asset f l t now d)"

definition balance_json :: "env \<Rightarrow> balance_row \<Rightarrow> json" where
  "balance_json env r =
     JObj [(''asset'', JStr (bl_asset r)), (''free'', JStr (show_dec env (bl_free r))),
           (''locked'', JStr (show_dec env (bl_locked r))), (''total'', JStr (show_dec env (bl_total r))),
           (''updated_at_ms'', JInt (bl_updated_at_ms r))]"

definition cache_balances :: "'r redis_ops \<Rightarrow> env \<Rightarrow> uuid \<Rightarrow> ('r, exec_db, 'm, unit) act" where
  "cache_balances ops env a =
     mbind (query env (\<lambda>d. filter (\<lambda>r. bl_account_id r = a) (d_balances d))) (\<lambda>rows.
     mbind (on_redis (r_set ops (account_live_balances_key a)
              (Json (JArr (map (balance_json env) (filter (\<lambda>r. 0 < bl_total r) rows)))) False
              (Some BALANCE_CACHE_TTL_S))) (\<lambda>_. mret ()))"

text \<open>\<open>timestamp_ms or now\<close>.\<close>

definition stamp :: "int \<Rightarrow> ('r, 'd, 'm, int) act" where
  "stamp ts_ms = mget (\<lambda>w. if ts_ms = 0 then w_now w else ts_ms)"

definition upsert_balances ::
  "'r redis_ops \<Rightarrow> env \<Rightarrow> uuid \<Rightarrow> json \<Rightarrow> int \<Rightarrow> ('r, exec_db, 'm, unit) act" where
  "upsert_balances ops env a balances ts_ms =
     mbind (stamp ts_ms) (\<lambda>now.
     mseq (session env (\<lambda>d. ebind (list_items balances) (\<lambda>bs.
             ebind (each_row (upsert_balance env a now) bs d) (\<lambda>d'. Inr ((), d')))))
          (cache_balances ops env a))"

section \<open>Positions\<close>

definition is_position :: "uuid \<Rightarrow> string \<Rightarrow> string \<Rightarrow> string \<Rightarrow> position_row \<Rightarrow> bool" where
  "is_position a symbol market_type side r =
     (ps_account_id r = a \<and> ps_symbol r = symbol \<and> ps_market_type r = market_type \<and> ps_side r = side)"

definition put_position ::
  "uuid \<Rightarrow> string \<Rightarrow> string \<Rightarrow> string \<Rightarrow> rat \<Rightarrow> rat \<Rightarrow> rat \<Rightarrow> int \<Rightarrow> exec_db \<Rightarrow> exn + exec_db" where
  "put_position a symbol market_type side qty entry_price pnl now d =
     (if list_ex (is_position a symbol market_type side) (d_positions d)
      then Inr (d\<lparr>d_positions := map (\<lambda>r. if is_position a symbol market_type side r
             then r\<lparr>ps_quantity := qty, ps_entry_price := entry_price, ps_unrealized_pnl := Some pnl,
                    ps_updated_at_ms := now\<rparr> else r) (d_positions d)\<rparr>)
      else if \<not> has_account d a then Inl (IntegrityError ''positions_account_id'')
      else Inr (d\<lparr>d_positions := d_positions d @
             [\<lparr>ps_account_id = a, ps_symbol = symbol, ps_market_type = market_type, ps_side = side,
               ps_quantity = qty, ps_entry_price = entry_price, ps_mark_price = None,
               ps_unrealized_pnl = Some pnl, ps_leverage = None, ps_margin = None, ps_isolated = False,
               ps_updated_at_ms = now\<rparr>]\<rparr>))"

definition upsert_position :: "env \<Rightarrow> uuid \<Rightarrow> int \<Rightarrow> json \<Rightarrow> exec_db \<Rightarrow> exn + exec_db" where
  "upsert_position env a now entry d =
     ebind (dict_of entry) (\<lambda>p.
     let symbol = dict_get ''s'' (JStr []) p
     in if \<not> truthy symbol then Inr d
        else ebind (str_col 32 symbol) (\<lambda>symbol.
             ebind (str_col 16 (dict_get ''mt'' (JStr ''futures'') p)) (\<lambda>market_type.
             ebind (str_col 8 (dict_get ''ps'' (JStr ''BOTH'') p)) (\<lambda>side.
             ebind (num_text env (str_field env p ''pa'' (JStr ''0''))) (\<lambda>qty.
             ebind (num_text env (str_field env p ''ep'' (JStr ''0''))) (\<lambda>entry_price.
             ebind (num_text env (str_field env p ''up'' (JStr ''0''))) (\<lambda>pnl.
               put_position a symbol market_type side qty entry_price pnl now d)))))))"

definition position_json :: "env \<Rightarrow> position_row \<Rightarrow> json" where
  "position_json env r =
     JObj [(''symbol'', JStr (ps_symbol r)), (''market_type'', JStr (ps_market_type r)),
           (''side'', JStr (ps_side r)), (''quantity'', JStr (show_dec env (ps_quantity r))),
           (''entry_price'', JStr (show_dec env (ps_entry_price r))),
           (''unrealized_pnl'', JStr (case ps_unrealized_pnl r of
              None \<Rightarrow> ''0'' | Some p \<Rightarrow> if p = 0 then ''0'' else show_dec env p)),
           (''updated_at_ms'', JInt (ps_updated_at_ms r))]"

definition cache_positions :: "'r redis_ops \<Rightarrow> env \<Rightarrow> uuid \<Rightarrow> ('r, exec_db, 'm, unit) act" where
  "cache_positions ops env a =
     mbind (query env (\<lambda>d. filter (\<lambda>r. ps_account_id r = a) (d_positions d))) (\<lambda>rows.
     mbind (on_redis (r_set ops (account_live_positions_key a)
              (Json (JArr (map (position_json env) (filter (\<lambda>r. ps_quantity r \<noteq> 0) rows)))) False
              (Some POSITION_CACHE_TTL_S))) (\<lambda>_. mret ()))"

definition upsert_positions ::
  "'r redis_ops \<Rightarrow> env \<Rightarrow> uuid \<Rightarrow> json \<Rightarrow> int \<Rightarrow> ('r, exec_db, 'm, unit) act" where
  "upsert_positions ops env a positions ts_ms =
     mbind (stamp ts_ms) (\<lambda>now.
     mseq (session env (\<lambda>d. ebind (list_items positions) (\<lambda>ps.
             ebind (each_row (upsert_position env a now) ps d) (\<lambda>d'. Inr ((), d')))))
          (cache_positions ops env a))"

section \<open>Orders and fills\<close>

text \<open>
  What an execution report says.  Spot reports carry the price of the last fill in \<open>L\<close>, futures
  reports the average price in \<open>ap\<close> and the realized profit in \<open>rp\<close>; a spot report whose quote
  quantity cannot be computed raises, a futures report takes 0 for it.
\<close>

record exec_report =
  xr_market_type :: string
  xr_event :: "(string \<times> json) list"
  xr_price :: "string option"
  xr_avg_fill :: "string option"
  xr_created_ms :: int
  xr_updated_ms :: int
  xr_realized_pnl :: "string option"
  xr_quote_qty :: "exn + string"

text \<open>\<open>str(evt.get(k, "0")) or None\<close>, then \<open>v if v and v != "0" else None\<close>.\<close>

definition price_field :: "env \<Rightarrow> (string \<times> json) list \<Rightarrow> string \<Rightarrow> string option" where
  "price_field env evt k =
     (let s = str_field env evt k (JStr ''0'') in if s = [] \<or> s = ''0'' then None else Some s)"

definition quote_text :: "env \<Rightarrow> (string \<times> json) list \<Rightarrow> exn + string" where
  "quote_text env evt =
     ebind (dec_literal (str_field env evt ''L'' (JStr ''0''))) (\<lambda>price.
     ebind (dec_literal (str_field env evt ''l'' (JStr ''0''))) (\<lambda>qty.
       Inr (show_dec env (dec (price * qty)))))"

definition spot_report :: "env \<Rightarrow> int \<Rightarrow> (string \<times> json) list \<Rightarrow> exn + exec_report" where
  "spot_report env now evt =
     ebind (py_int (dict_get ''O'' (JInt now) evt)) (\<lambda>created.
     ebind (py_int (dict_get ''T'' (JInt now) evt)) (\<lambda>updated.
       Inr \<lparr>xr_market_type = ''spot'', xr_event = evt, xr_price = price_field env evt ''p'',
            xr_avg_fill = price_field env evt ''L'', xr_created_ms = created, xr_updated_ms = updated,
            xr_realized_pnl = None, xr_quote_qty = quote_text env evt\<rparr>))"

definition futures_report :: "env \<Rightarrow> int \<Rightarrow> (string \<times> json) list \<Rightarrow> exn + exec_report" where
  "futures_report env now evt =
     ebind (py_int (dict_get ''T'' (JInt now) evt)) (\<lambda>created.
       Inr \<lparr>xr_market_type = ''futures'', xr_event = evt, xr_price = price_field env evt ''p'',
            xr_avg_fill = price_field env evt ''ap'', xr_created_ms = created, xr_updated_ms = created,
            xr_realized_pnl = (let s = str_field env evt ''rp'' (JStr ''0'') in if s = [] then None else Some s),
            xr_quote_qty = (case quote_text env evt of Inl _ \<Rightarrow> Inr ''0'' | Inr q \<Rightarrow> Inr q)\<rparr>)"

text \<open>The order row: updated when the client order id is known, inserted otherwise.\<close>

definition report_order :: "env \<Rightarrow> uuid \<Rightarrow> uuid \<Rightarrow> exec_report \<Rightarrow> exn + order_row" where
  "report_order env a order_id x =
     (let evt = xr_event x; txt = (\<lambda>n k dflt. str_col n (dict_get k (JStr dflt) evt)) in
      ebind (txt 64 ''c'' []) (\<lambda>coid.
      ebind (str_col 64 (JStr (str_field env evt ''i'' (JStr [])))) (\<lambda>exchange_id.
      ebind (txt 32 ''s'' []) (\<lambda>symbol.
      ebind (txt 8 ''S'' ''BUY'') (\<lambda>side.
      ebind (txt 32 ''o'' ''MARKET'') (\<lambda>order_type.
      ebind (txt 32 ''X'' ''NEW'') (\<lambda>status.
      ebind (txt 8 ''f'' ''GTC'') (\<lambda>tif.
      ebind (num_text env (str_field env evt ''q'' (JStr ''0''))) (\<lambda>qty.
      ebind (num_text env (str_field env evt ''z'' (JStr ''0''))) (\<lambda>filled.
      ebind (num_text_opt env (xr_price x)) (\<lambda>price.
      ebind (num_text_opt env (xr_avg_fill x)) (\<lambda>avg.
        Inr \<lparr>or_id = order_id, or_account_id = a, or_job_id = None,
             or_exchange_order_id = Some exchange_id, or_client_order_id = coid, or_symbol = symbol,
             or_market_type = xr_market_type x, or_side = side, or_order_type = order_type,
             or_status = status, or_quantity = qty, or_filled_qty = filled, or_price = price,
             or_avg_fill_price = avg, or_reduce_only = False, or_time_in_force = tif,
             or_created_at_ms = xr_created_ms x, or_updated_at_ms = xr_updated_ms x\<rparr>))))))))))))"

definition report_update :: "env \<Rightarrow> exec_report \<Rightarrow> exn + (order_row \<Rightarrow> order_row)" where
  "report_update env x =
     (let evt = xr_event x in
      ebind (str_col 32 (dict_get ''X'' (JStr ''NEW'') evt)) (\<lambda>status.
      ebind (str_col 64 (JStr (str_field env evt ''i'' (JStr [])))) (\<lambda>exchange_id.
      ebind (num_text env (str_field env evt ''z'' (JStr ''0''))) (\<lambda>filled.
      ebind (num_text_opt env (xr_avg_fill x)) (\<lambda>avg.
        Inr (\<lambda>r. r\<lparr>or_status := status, or_filled_qty := filled, or_exchange_order_id := Some exchange_id,
               or_avg_fill_price := (case avg of Some p \<Rightarrow> Some p | None \<Rightarrow> or_avg_fill_price r),
               or_updated_at_ms := xr_updated_ms x\<rparr>))))))"

definition report_fill :: "env \<Rightarrow> uuid \<Rightarrow> uuid \<Rightarrow> uuid \<Rightarrow> string \<Rightarrow> exec_report \<Rightarrow> exn + fill_row" where
  "report_fill env a fill_id order_id trade_id x =
     (let evt = xr_event x in
      ebind (str_col 64 (JStr trade_id)) (\<lambda>trade_id.
      ebind (str_col 32 (dict_get ''s'' (JStr []) evt)) (\<lambda>symbol.
      ebind (str_col 8 (dict_get ''S'' (JStr ''BUY'') evt)) (\<lambda>side.
      ebind (str_col 16 (JStr (let n = dict_get ''N'' (JStr ''USDT'') evt
                               in if truthy n then py_str (e_show env) n else ''USDT''))) (\<lambda>asset.
      ebind (num_text env (str_field env evt ''L'' (JStr ''0''))) (\<lambda>price.
      ebind (num_text env (str_field env evt ''l'' (JStr ''0''))) (\<lambda>qty.
      ebind (xr_quote_qty x) (\<lambda>quote. ebind (num_text env quote) (\<lambda>quote.
      ebind (num_text env (str_field env evt ''n'' (JStr ''0''))) (\<lambda>commission.
      ebind (num_text_opt env (xr_realized_pnl x)) (\<lambda>pnl.
        Inr \<lparr>fl_id = fill_id, fl_order_id = order_id, fl_account_id = a, fl_exchange_trade_id = trade_id,
             fl_symbol = symbol, fl_side = side, fl_price = price, fl_qty = qty, fl_quote_qty = quote,
             fl_commission = commission, fl_commission_asset = asset, fl_realized_pnl = pnl,
             fl_is_maker = truthy (dict_get ''m'' (JBool False) evt),
             fl_timestamp_ms = xr_updated_ms x\<rparr>)))))))))))"

definition save_report_order ::
  "env \<Rightarrow> uuid \<Rightarrow> uuid \<Rightarrow> exec_report \<Rightarrow> exec_db \<Rightarrow> exn + uuid \<times> exec_db" where
  "save_report_order env a order_id x d =
     (let coid = dict_get ''c'' (JStr []) (xr_event x) in
      ebind (case coid of JStr c \<Rightarrow> Inr c | _ \<Rightarrow> Inl (DbError ''not a string'')) (\<lambda>c.
      case order_by_coid c d of
        Some r \<Rightarrow> ebind (report_update env x) (\<lambda>f. Inr (or_id r, update_order (or_id r) f d))
      | None \<Rightarrow> ebind (report_order env a order_id x) (\<lambda>r.
                  ebind (insert_order_row r d) (\<lambda>d'. Inr (order_id, d')))))"

definition save_report_fill ::
  "env \<Rightarrow> uuid \<Rightarrow> uuid \<Rightarrow> uuid \<Rightarrow> exec_report \<Rightarrow> exec_db \<Rightarrow> exn + exec_db" where
  "save_report_fill env a fill_id order_id x d =
     (let evt = xr_event x; trade_id = str_field env evt ''t'' (JInt (- 1)) in
      if dict_get ''x'' (JStr []) evt = JStr ''TRADE'' \<and> trade_id \<noteq> ''-1''
      then ebind (xr_quote_qty x) (\<lambda>_.
           if fill_by_trade a trade_id d \<noteq> None then Inr d
           else ebind (report_fill env a fill_id order_id trade_id x) (\<lambda>r. insert_fill_row r d))
      else Inr d)"

definition save_report :: "env \<Rightarrow> uuid \<Rightarrow> exec_report \<Rightarrow> ('r, exec_db, 'm, unit) act" where
  "save_report env a x =
     mbind (uuid4 env) (\<lambda>order_id.
     mbind (uuid4 env) (\<lambda>fill_id.
       session env (\<lambda>d.
         ebind (save_report_order env a order_id x d) (\<lambda>(oid, d1).
         ebind (save_report_fill env a fill_id oid x d1) (\<lambda>d2. Inr ((), d2))))))"

definition skip_report :: "(string \<times> json) list \<Rightarrow> bool" where
  "skip_report evt = (\<not> truthy (dict_get ''c'' (JStr []) evt) \<or> \<not> truthy (dict_get ''s'' (JStr []) evt))"

definition upsert_spot_order :: "env \<Rightarrow> uuid \<Rightarrow> (string \<times> json) list \<Rightarrow> ('r, exec_db, 'm, unit) act" where
  "upsert_spot_order env a evt =
     mbind (mget w_now) (\<lambda>now. mbind (mlift (spot_report env now evt)) (\<lambda>x.
       if skip_report evt then mret () else save_report env a x))"

definition upsert_futures_order :: "env \<Rightarrow> uuid \<Rightarrow> json \<Rightarrow> ('r, exec_db, 'm, unit) act" where
  "upsert_futures_order env a evt_o =
     mbind (mlift (dict_of evt_o)) (\<lambda>evt.
     mbind (mget w_now) (\<lambda>now. mbind (mlift (futures_report env now evt)) (\<lambda>x.
       if skip_report evt then mret () else save_report env a x)))"

end
