(* ===== verification/Listener.thy ===== *)
theory Listener
  imports AccountState
begin

text \<open>
  The user-data stream of one exchange account (\<open>services/execution/account_stream/listener.py\<close>):
  subscribing, dispatching events to the account state, publishing the status of the stream, and
  reconnecting with exponential backoff.  The exchange is a script of connections: what opening one
  and its acknowledgement give, the messages it delivers, and how it ends.
\<close>

section \<open>Constants\<close>

definition RECONNECT_BASE_S :: rat where "RECONNECT_BASE_S = 2"

definition RECONNECT_MAX_S :: rat where "RECONNECT_MAX_S = 60"

definition RECONNECT_FACTOR :: rat where "RECONNECT_FACTOR = 2"

definition account_stream_status_key :: "string \<Rightarrow> string" where
  "account_stream_status_key account_id = ''account:'' @ account_id @ '':stream:status''"

definition STATUS_REDIS_TTL :: "(string \<times> int) list" where
  "STATUS_REDIS_TTL =
     [(''connecting'', 300), (''connected'', 120), (''reconnecting'', 300), (''auth_error'', 3600),
      (''stopped'', 3600)]"

section \<open>The listener and its world\<close>

record ws_connection =
  wc_open :: "exn + unit"
  wc_ack :: "exn + rtext"
  wc_messages :: "rtext list"
  wc_end :: "exn option"

record 'r listener =
  li_account :: uuid
  li_api_key :: string
  li_api_secret :: string
  li_market_type :: string
  li_ops :: "'r redis_ops"
  li_env :: env
  li_has_incident_logger :: bool
  li_stop :: "nat \<Rightarrow> bool"

text \<open>
  The world counts the questions to the stop event (\<open>li_stop n\<close> is the answer to the \<open>n\<close>-th), keeps
  the requests sent, the delays slept and the subscription.
\<close>

record 'r stream_world = "('r, exec_db) world" +
  sl_checks :: nat
  sl_sent :: "json list"
  sl_delays :: "rat list"
  sl_subscription :: json
  sl_listen_key :: "string option"

type_synonym ('r, 'a) sact = "('r stream_world, 'a) prog"

datatype stream_outcome = Listening | Stopped | AuthStopped

definition is_stopped :: "'r listener \<Rightarrow> ('r, bool) sact" where
  "is_stopped li = mbind (mget sl_checks) (\<lambda>n. mseq (mput (\<lambda>w. w\<lparr>sl_checks := Suc n\<rparr>)) (mret (li_stop li n)))"

section \<open>Subscribing\<close>

definition build_subscribe_request :: "env \<Rightarrow> string \<Rightarrow> string \<Rightarrow> int \<Rightarrow> string \<Rightarrow> json" where
  "build_subscribe_request env api_key api_secret ts req_id =
     JObj [(''id'', JStr req_id), (''method'', JStr ''userDataStream.subscribe.signature''),
           (''params'', JObj [(''apiKey'', JStr api_key), (''timestamp'', JInt ts),
              (''signature'', JStr (e_hmac env api_secret (''apiKey='' @ api_key @ ''&timestamp='' @ show_int ts)))])]"

definition is_number :: "int \<Rightarrow> json \<Rightarrow> bool" where
  "is_number n v = (v = JInt n \<or> v = JNum (of_int n))"

definition error_text :: "env \<Rightarrow> json \<Rightarrow> json \<Rightarrow> string" where
  "error_text env resp status =
     (let err = (case resp of JObj d \<Rightarrow> py_or (dict_get ''error'' JNull d) (JObj []) | _ \<Rightarrow> JObj []);
          field = (\<lambda>k dflt. case err of JObj e \<Rightarrow> py_str (e_show env) (dict_get k (JStr dflt) e) | _ \<Rightarrow> dflt)
      in ''subscribe '' @ py_str (e_show env) status @ '': '' @ field ''code'' ''?'' @ '' '' @
         field ''msg'' (e_show env resp))"

definition check_subscribe_response :: "env \<Rightarrow> json \<Rightarrow> string \<Rightarrow> exn + unit" where
  "check_subscribe_response env resp expected_id =
     ebind (obj_get resp ''id'' JNull) (\<lambda>i.
     if i \<noteq> JStr expected_id then Inr () else
     ebind (obj_get resp ''status'' (JInt 0)) (\<lambda>status.
     if is_number 200 status then Inr ()
     else if is_number 401 status \<or> is_number 403 status then Inl (AuthError (error_text env resp status))
     else Inl (RuntimeError (error_text env resp status))))"

section \<open>The status of the stream\<close>

definition update_account :: "uuid \<Rightarrow> (account_row \<Rightarrow> account_row) \<Rightarrow> exec_db \<Rightarrow> exec_db" where
  "update_account a f d = d\<lparr>d_accounts := map (\<lambda>r. if ac_id r = a then f r else r) (d_accounts d)\<rparr>"

definition status_columns :: "string \<Rightarrow> string option \<Rightarrow> account_row \<Rightarrow> account_row" where
  "status_columns status err r =
     r\<lparr>ac_stream_status := status,
       ac_stream_error := (case err of Some e \<Rightarrow> Some (take 512 e)
                           | None \<Rightarrow> if status = ''connected'' then None else ac_stream_error r)\<rparr>"

definition status_json :: "string \<Rightarrow> string option \<Rightarrow> int \<Rightarrow> json" where
  "status_json status err now =
     JObj ([(''status'', JStr status), (''updated_at_ms'', JInt now)] @
           (case err of Some (c # cs) \<Rightarrow> [(''error'', JStr (take 512 (c # cs)))] | _ \<Rightarrow> []))"

definition stream_set_status :: "'r listener \<Rightarrow> string \<Rightarrow> string option \<Rightarrow> ('r, unit) sact" where
  "stream_set_status li status err =
     mseq (mlogged (session (li_env li) (\<lambda>d. Inr ((), update_account (li_account li) (status_columns status err) d))))
          (mlogged (mbind (mget w_now) (\<lambda>now.
             mbind (on_redis (r_set (li_ops li) (account_stream_status_key (li_account li))
                      (Json (status_json status err now)) False
                      (Some (case map_of STATUS_REDIS_TTL status of Some t \<Rightarrow> t | None \<Rightarrow> 300)))) (\<lambda>_. mret ()))))"

definition mark_event :: "'r listener \<Rightarrow> ('r, unit) sact" where
  "mark_event li =
     mbind (mget w_now) (\<lambda>now.
     mseq (mlogged (session (li_env li) (\<lambda>d.
             Inr ((), update_account (li_account li) (\<lambda>r. r\<lparr>ac_stream_last_event_ms := Some now\<rparr>) d))))
          (mbind (on_redis (r_set (li_ops li) (account_stream_status_key (li_account li))
                    (Json (JObj [(''status'', JStr ''connected''), (''updated_at_ms'', JInt now),
                                 (''last_event_ms'', JInt now)])) False (Some 120))) (\<lambda>_. mret ())))"

definition stream_incident :: "'r listener \<Rightarrow> string \<Rightarrow> string \<Rightarrow> string \<Rightarrow> ('r, unit) sact" where
  "stream_incident li incident_type message severity =
     mwhen (li_has_incident_logger li)
       (mlogged (log_incident (li_env li) (incident incident_type severity message None None
          [(''account_id'', JStr (li_account li)), (''market_type'', JStr (li_market_type li))])))"

section \<open>Events\<close>

definition handle_event :: "'r listener \<Rightarrow> json \<Rightarrow> ('r, unit) sact" where
  "handle_event li payload =
     (let ops = li_ops li; env = li_env li; a = li_account li in
      mbind (mlift (dict_of payload)) (\<lambda>d.
      mbind (mget w_now) (\<lambda>now.
      mbind (mlift (py_int (dict_get ''E'' (JInt now) d))) (\<lambda>ts_ms.
      let event_type = dict_get ''e'' (JStr []) d in
      if event_type = JStr ''outboundAccountPosition''
      then upsert_balances ops env a (dict_get ''B'' (JArr []) d) ts_ms
      else if event_type = JStr ''balanceUpdate''
      then mwhen (truthy (dict_get ''a'' (JStr []) d))
             (upsert_balances ops env a
                (JArr [JObj [(''a'', dict_get ''a'' (JStr []) d), (''f'', JStr (str_field env d ''d'' (JStr ''0''))),
                             (''l'', JStr ''0'')]]) ts_ms)
      else if event_type = JStr ''executionReport'' then upsert_spot_order env a d
      else if event_type = JStr ''ACCOUNT_UPDATE''
      then mbind (mlift (dict_of (dict_get ''a'' (JObj []) d))) (\<lambda>data.
           let balances = dict_get ''B'' (JArr []) data; positions = dict_get ''P'' (JArr []) data in
           mseq (mwhen (truthy balances) (upsert_balances ops env a balances ts_ms))
                (mwhen (truthy positions) (upsert_positions ops env a positions ts_ms)))
      else if event_type = JStr ''ORDER_TRADE_UPDATE''
      then upsert_futures_order env a (dict_get ''o'' (JObj []) d)
      else mret ()))))"

text \<open>\<open>"id" in payload\<close>.\<close>

fun has_id :: "json \<Rightarrow> exn + bool" where
  "has_id (JObj d) = Inr (map_of d ''id'' \<noteq> None)"
| "has_id (JArr xs) = Inr (JStr ''id'' \<in> set xs)"
| "has_id (JStr s) = Inr (contains ''id'' s)"
| "has_id _ = Inl TypeError"

definition apply_event :: "'r listener \<Rightarrow> json \<Rightarrow> ('r, unit) sact" where
  "apply_event li payload = mlogged (mseq (handle_event li payload) (mark_event li))"

text \<open>The messages of a connection, until the stop event.  Unreadable JSON ends a spot connection.\<close>

primrec spot_messages :: "'r listener \<Rightarrow> rtext list \<Rightarrow> exn option \<Rightarrow> ('r, unit) sact" where
  "spot_messages li [] e = (case e of None \<Rightarrow> mret () | Some x \<Rightarrow> mraise x)"
| "spot_messages li (raw # raws) e =
     mbind (is_stopped li) (\<lambda>stop.
     if stop then mret () else
     mbind (mlift (json_loads raw)) (\<lambda>payload.
     mbind (mlift (has_id payload)) (\<lambda>response.
     mseq (mwhen (\<not> response) (apply_event li payload)) (spot_messages li raws e))))"

primrec futures_messages :: "'r listener \<Rightarrow> rtext list \<Rightarrow> exn option \<Rightarrow> ('r, unit) sact" where
  "futures_messages li [] e = (case e of None \<Rightarrow> mret () | Some x \<Rightarrow> mraise x)"
| "futures_messages li (raw # raws) e =
     mbind (is_stopped li) (\<lambda>stop.
     if stop then mret () else
     mseq (mlogged (mbind (mlift (json_loads raw)) (\<lambda>payload.
             mseq (handle_event li payload) (mark_event li))))
          (futures_messages li raws e))"

definition subscription_of :: "json \<Rightarrow> json" where
  "subscription_of answer =
     (case answer of
        JObj d \<Rightarrow> (case dict_get ''result'' JNull d of JObj r \<Rightarrow> dict_get ''subscriptionId'' JNull r | _ \<Rightarrow> JNull)
      | _ \<Rightarrow> JNull)"

definition connect_and_subscribe :: "'r listener \<Rightarrow> ws_connection \<Rightarrow> ('r, unit) sact" where
  "connect_and_subscribe li c =
     mseq (mlift (wc_open c))
    (mbind (mget w_now) (\<lambda>now.
     mbind (uuid4 (li_env li)) (\<lambda>req_id.
     mseq (mput (\<lambda>w. w\<lparr>sl_sent := sl_sent w @
             [build_subscribe_request (li_env li) (li_api_key li) (li_api_secret li) now req_id]\<rparr>))
    (mbind (mlift (wc_ack c)) (\<lambda>raw_ack.
     mbind (mlift (json_loads raw_ack)) (\<lambda>answer.
     mseq (mlift (check_subscribe_response (li_env li) answer req_id))
    (mseq (mput (\<lambda>w. w\<lparr>sl_subscription := subscription_of answer\<rparr>))
    (mseq (stream_set_status li ''connected'' None)
          (spot_messages li (wc_messages c) (wc_end c))))))))))"

section \<open>Reconnecting\<close>

text \<open>
  \<open>min(max, base * factor ** attempt)\<close> in floats: the power overflows from the 1024th attempt on.
\<close>

definition backoff :: "nat \<Rightarrow> exn + rat" where
  "backoff attempt =
     (if 1024 \<le> attempt then Inl OverflowError
      else Inr (min RECONNECT_MAX_S (RECONNECT_BASE_S * RECONNECT_FACTOR ^ attempt)))"

definition sleep_backoff :: "nat \<Rightarrow> ('r, unit) sact" where
  "sleep_backoff attempt =
     mbind (mlift (backoff attempt)) (\<lambda>delay. mput (\<lambda>w. w\<lparr>sl_delays := sl_delays w @ [delay]\<rparr>))"

definition stop_stream :: "'r listener \<Rightarrow> ('r, stream_outcome) sact" where
  "stop_stream li = mseq (stream_set_status li ''stopped'' None) (mret Stopped)"

definition auth_failed :: "'r listener \<Rightarrow> string \<Rightarrow> ('r, stream_outcome) sact" where
  "auth_failed li message =
     mseq (stream_set_status li ''auth_error'' (Some message))
    (mseq (stream_incident li ''stream_auth_error'' message ''error'') (mret AuthStopped))"

text \<open>The spot loop: only a connection that ends without an exception resets the attempts.\<close>

fun run_ws_api :: "'r listener \<Rightarrow> nat \<Rightarrow> ws_connection list \<Rightarrow> ('r, stream_outcome) sact" where
  "run_ws_api li attempt [] = mret Listening"
| "run_ws_api li attempt (c # cs) =
     mbind (is_stopped li) (\<lambda>stop.
     if stop then stop_stream li else
     mbind (mtry (mseq (connect_and_subscribe li c) (mret None)) (\<lambda>e. mret (Some e))) (\<lambda>result.
     case result of
       Some (AuthError message) \<Rightarrow> auth_failed li message
     | _ \<Rightarrow>
         mseq (case result of None \<Rightarrow> mret ()
               | Some e \<Rightarrow> stream_set_status li ''reconnecting'' (Some (e_exn_text (li_env li) e)))
        (mbind (is_stopped li) (\<lambda>stop.
         if stop then stop_stream li
         else let n = (if result = None then 0 else attempt) in
              mseq (sleep_backoff n) (run_ws_api li (Suc n) cs)))))"

text \<open>The futures loop: opening a connection resets the attempts; the listen key comes from REST.\<close>

definition legacy_connection :: "'r listener \<Rightarrow> nat \<Rightarrow> ws_connection \<Rightarrow> ('r, nat) sact" where
  "legacy_connection li attempt c w =
     (case mlift (wc_open c) w of
        (Inl e, v) \<Rightarrow> mseq (stream_set_status li ''reconnecting'' (Some (e_exn_text (li_env li) e))) (mret attempt) v
      | (Inr _, v) \<Rightarrow>
          mseq (stream_set_status li ''connected'' None)
            (mseq (mtry (futures_messages li (wc_messages c) (wc_end c))
                     (\<lambda>e. stream_set_status li ''reconnecting'' (Some (e_exn_text (li_env li) e))))
               (mret 0)) v)"

fun legacy_loop :: "'r listener \<Rightarrow> nat \<Rightarrow> ws_connection list \<Rightarrow> ('r, stream_outcome) sact" where
  "legacy_loop li attempt [] = mret Listening"
| "legacy_loop li attempt (c # cs) =
     mbind (is_stopped li) (\<lambda>stop.
     if stop then mret Stopped else
     mseq (stream_set_status li ''connecting'' None)
    (mbind (legacy_connection li attempt c) (\<lambda>n.
     mbind (is_stopped li) (\<lambda>stop.
     if stop then mret Stopped
     else mseq (sleep_backoff n) (legacy_loop li (Suc n) cs)))))"

definition run_legacy_stream ::
  "'r listener \<Rightarrow> exn + string \<Rightarrow> ws_connection list \<Rightarrow> ('r, stream_outcome) sact" where
  "run_legacy_stream li listen_key cs =
     (case listen_key of
        Inl e \<Rightarrow> auth_failed li (e_exn_text (li_env li) e)
      | Inr k \<Rightarrow>
          mseq (mput (\<lambda>w. w\<lparr>sl_listen_key := Some k\<rparr>))
            (mbind (mtry (mbind (legacy_loop li 0 cs) (\<lambda>out. mret (Inr out))) (\<lambda>e. mret (Inl e))) (\<lambda>res.
             case res of
               Inr Listening \<Rightarrow> mret Listening
             | Inr out \<Rightarrow> mseq (stream_set_status li ''stopped'' None) (mret out)
             | Inl e \<Rightarrow> mseq (stream_set_status li ''stopped'' None) (mraise e))))"

definition run_listener ::
  "'r listener \<Rightarrow> exn + string \<Rightarrow> ws_connection list \<Rightarrow> ('r, stream_outcome) sact" where
  "run_listener li listen_key cs =
     mseq (stream_set_status li ''connecting'' None)
       (if li_market_type li = ''spot'' then run_ws_api li 0 cs else run_legacy_stream li listen_key cs)"

end
