(* ===== verification/AccountStreamProperties.thy ===== *)
theory AccountStreamProperties
  imports Listener Demo
begin

text \<open>
  What the user-data stream promises: the tables stay consistent whatever the exchange sends, the
  balances of an account are the last it was told, a redelivered report changes nothing, a refused
  subscription is final, and the waits between connections are bounded.
\<close>

section \<open>Consistency\<close>

definition balance_keys :: "exec_db \<Rightarrow> (uuid \<times> string) list" where
  "balance_keys d = map (\<lambda>r. (bl_account_id r, bl_asset r)) (d_balances d)"

definition position_keys :: "exec_db \<Rightarrow> (uuid \<times> string \<times> string \<times> string) list" where
  "position_keys d = map (\<lambda>r. (ps_account_id r, ps_symbol r, ps_market_type r, ps_side r)) (d_positions d)"

definition account_ok :: "exec_db \<Rightarrow> bool" where
  "account_ok d = (db_ok d \<and> distinct (balance_keys d) \<and> distinct (position_keys d))"

definition keeps_account :: "exec_db \<Rightarrow> exec_db \<Rightarrow> bool" where
  "keeps_account d d' = (account_ok d \<longrightarrow> account_ok d')"

interpretation keeps_account: db_frame keeps_account
  by unfold_locales (auto simp: keeps_account_def)

lemma db_ok_other [simp]:
  "db_ok (d\<lparr>d_balances := b\<rparr>) = db_ok d" "db_ok (d\<lparr>d_positions := q\<rparr>) = db_ok d"
  "db_ok (d\<lparr>d_accounts := c\<rparr>) = db_ok d"
  by (simp_all add: db_ok_def db_columns)

lemma account_keys_other [simp]:
  "balance_keys (d\<lparr>d_positions := q\<rparr>) = balance_keys d" "position_keys (d\<lparr>d_balances := b\<rparr>) = position_keys d"
  "balance_keys (d\<lparr>d_accounts := c\<rparr>) = balance_keys d" "position_keys (d\<lparr>d_accounts := c\<rparr>) = position_keys d"
  by (simp_all add: balance_keys_def position_keys_def)

lemma keeps_account_put_balance:
  assumes "put_balance a s f l t now d = Inr d'"
  shows "keeps_account d d'"
proof (cases "list_ex (is_balance a s) (d_balances d)")
  case True
  then have "balance_keys d' = balance_keys d" "db_ok d' = db_ok d" "position_keys d' = position_keys d"
    using assms by (auto simp: put_balance_def) (simp add: balance_keys_def)
  then show ?thesis by (simp add: keeps_account_def account_ok_def)
next
  case False
  then have new: "(a, s) \<notin> set (balance_keys d)"
    by (auto simp: balance_keys_def list_ex_iff is_balance_def)
  have "balance_keys d' = balance_keys d @ [(a, s)]" "db_ok d' = db_ok d" "position_keys d' = position_keys d"
    using False assms by (auto simp: put_balance_def split: if_splits) (simp add: balance_keys_def)
  with new show ?thesis by (simp add: keeps_account_def account_ok_def)
qed

lemma keeps_account_put_position:
  assumes "put_position a s m sd q p u now d = Inr d'"
  shows "keeps_account d d'"
proof (cases "list_ex (is_position a s m sd) (d_positions d)")
  case True
  then have "position_keys d' = position_keys d" "db_ok d' = db_ok d" "balance_keys d' = balance_keys d"
    using assms by (auto simp: put_position_def) (simp add: position_keys_def)
  then show ?thesis by (simp add: keeps_account_def account_ok_def)
next
  case False
  then have new: "(a, s, m, sd) \<notin> set (position_keys d)"
    by (auto simp: position_keys_def list_ex_iff is_position_def)
  have "position_keys d' = position_keys d @ [(a, s, m, sd)]" "db_ok d' = db_ok d" "balance_keys d' = balance_keys d"
    using False assms by (auto simp: put_position_def split: if_splits) (simp add: position_keys_def)
  with new show ?thesis by (simp add: keeps_account_def account_ok_def)
qed

lemma each_row_keeps:
  assumes "\<And>x d d'. f x d = Inr d' \<Longrightarrow> keeps_account d d'"
  shows "each_row f xs d = Inr d' \<Longrightarrow> keeps_account d d'"
proof (induction xs arbitrary: d)
  case (Cons x xs)
  then obtain e where "f x d = Inr e" "each_row f xs e = Inr d'" by (auto simp: ebind_Inr)
  then show ?case using assms Cons.IH keeps_account.trans by blast
qed (simp add: keeps_account_def)

lemma keeps_account_upserts:
  "upsert_balance env a now e d = Inr d' \<Longrightarrow> keeps_account d d'"
  "upsert_position env a now e d = Inr d' \<Longrightarrow> keeps_account d d'"
  by (auto simp: upsert_balance_def upsert_position_def ebind_Inr Let_def keeps_account.refl
      intro: keeps_account_put_balance keeps_account_put_position split: option.splits if_splits)

lemma keeps_account_ok:
  "keeps_ok d d' \<Longrightarrow> d_balances d' = d_balances d \<Longrightarrow> d_positions d' = d_positions d \<Longrightarrow> keeps_account d d'"
  by (auto simp: keeps_account_def keeps_ok_def account_ok_def balance_keys_def position_keys_def)

lemma keeps_account_order: "save_report_order env a i x d = Inr (oid, d') \<Longrightarrow> keeps_account d d'"
proof -
  have upd: "keeps_account d (update_order j f d)" if "report_update env x = Inr f" for j f
    using that by (intro keeps_account_ok update_order_ok) (auto simp: report_update_def ebind_Inr Let_def update_order_def)
  have ins: "insert_order_row r d = Inr d' \<Longrightarrow> keeps_account d d'" for r
    using insert_order_row_Inr [of r d d'] by (intro keeps_account_ok insert_order_ok) auto
  show "save_report_order env a i x d = Inr (oid, d') \<Longrightarrow> keeps_account d d'"
    by (auto simp: save_report_order_def Let_def ebind_Inr upd ins split: option.splits)
qed

lemma keeps_account_fill: "save_report_fill env a i oid x d = Inr d' \<Longrightarrow> keeps_account d d'"
proof -
  have ins: "insert_fill_row r d = Inr d' \<Longrightarrow> keeps_account d d'" for r
    using insert_fill_row_Inr [of r d d'] by (intro keeps_account_ok insert_fill_ok) auto
  show "save_report_fill env a i oid x d = Inr d' \<Longrightarrow> keeps_account d d'"
    by (auto simp: save_report_fill_def Let_def ebind_Inr ins keeps_account.refl split: if_splits)
qed

lemma keeps_account_columns:
  "(\<And>r. ac_id (f r) = ac_id r) \<Longrightarrow> keeps_account d (update_account a f d)"
  by (simp add: keeps_account_def account_ok_def update_account_def)

lemma keeps_account_redis: "moves (db_rel keeps_account) (on_redis m)"
  by (rule keeps_account.same [OF same_db_redis])

lemma keeps_account_query: "moves (db_rel keeps_account) (query env q)"
  by (rule keeps_account.same [OF same_db_query])

lemma keeps_account_uuid: "moves (db_rel keeps_account) (uuid4 env)"
  by (rule keeps_account.same [OF same_db_uuid4])

lemma keeps_account_mput: "(\<And>w. w_db (f w) = w_db w) \<Longrightarrow> moves (db_rel keeps_account) (mput f)"
  by (rule keeps_account.same [OF same_db_put])

lemmas keeps_account_rules =
  keeps_account.w.rules keeps_account_redis keeps_account_query keeps_account_uuid keeps_account.session

lemma keeps_account_balances: "moves (db_rel keeps_account) (upsert_balances ops env a bs t)"
  unfolding upsert_balances_def cache_balances_def stamp_def
  by (intro keeps_account_rules) (auto simp: ebind_Inr intro: each_row_keeps keeps_account_upserts)

lemma keeps_account_positions: "moves (db_rel keeps_account) (upsert_positions ops env a bs t)"
  unfolding upsert_positions_def cache_positions_def stamp_def
  by (intro keeps_account_rules) (auto simp: ebind_Inr intro: each_row_keeps keeps_account_upserts)

lemma keeps_account_report: "moves (db_rel keeps_account) (save_report env a x)"
  unfolding save_report_def
  by (intro keeps_account_rules)
    (auto simp: ebind_Inr intro: keeps_account.trans keeps_account_order keeps_account_fill)

lemma keeps_account_reports:
  "moves (db_rel keeps_account) (upsert_spot_order env a e)" "moves (db_rel keeps_account) (upsert_futures_order env a j)"
  unfolding upsert_spot_order_def upsert_futures_order_def
  by (auto intro!: keeps_account_rules keeps_account_report)

lemma keeps_account_log: "moves (db_rel keeps_account) (log_incident env i)"
  unfolding log_incident_def
  by (intro keeps_account_rules)
    (auto simp: ebind_Inr keeps_account_def account_ok_def db_ok_def db_columns balance_keys_def position_keys_def)

section \<open>Relations every step of the stream moves along\<close>

text \<open>
  A relation between worlds that the stream's own steps move along: those on Redis and the tables,
  the writes of the account state, the requests sent and the waits (which last 2 to 60 seconds).
\<close>

locale stream_frame = frame R for R :: "'r stream_world \<Rightarrow> 'r stream_world \<Rightarrow> bool" +
  assumes redis: "moves R (on_redis (m :: ('r, bool) prog))"
    and uuid: "moves R (uuid4 env)"
    and columns: "(\<And>r. ac_id (f r) = ac_id r) \<Longrightarrow> moves R (session env (\<lambda>d. Inr ((), update_account a f d)))"
    and balances: "moves R (upsert_balances ops env a bs t)"
    and positions: "moves R (upsert_positions ops env a ps t)"
    and spot_order: "moves R (upsert_spot_order env a evt)"
    and futures_order: "moves R (upsert_futures_order env a j)"
    and log_incident: "moves R (log_incident env i)"
    and checked: "moves R (mput (\<lambda>w. w\<lparr>sl_checks := n\<rparr>))"
    and sent: "moves R (mput (\<lambda>w. w\<lparr>sl_sent := sl_sent w @ [q]\<rparr>))"
    and subscribed: "moves R (mput (\<lambda>w. w\<lparr>sl_subscription := sub\<rparr>))"
    and listen_key: "moves R (mput (\<lambda>w. w\<lparr>sl_listen_key := k\<rparr>))"
    and waited: "2 \<le> delay \<Longrightarrow> delay \<le> 60 \<Longrightarrow> moves R (mput (\<lambda>w. w\<lparr>sl_delays := sl_delays w @ [delay]\<rparr>))"
begin

lemmas writes =
  rules redis uuid balances positions spot_order futures_order log_incident checked sent subscribed listen_key

lemma status: "moves R (stream_set_status li s e)"
  unfolding stream_set_status_def by (intro writes columns) (simp add: status_columns_def)

lemma mark: "moves R (mark_event li)"
  unfolding mark_event_def by (intro writes columns) simp

lemma incident: "moves R (stream_incident li t m s)"
  unfolding stream_incident_def by (intro writes)

lemma event: "moves R (handle_event li p)"
  unfolding handle_event_def Let_def by (auto intro!: writes)

lemma stopped: "moves R (is_stopped li)"
  unfolding is_stopped_def by (intro writes)

lemmas steps = writes status mark incident event stopped

lemma spot: "moves R (spot_messages li raws e)"
proof (induction raws)
  case Nil
  then show ?case by (cases e) (auto intro: steps)
next
  case (Cons raw raws)
  then show ?case by (auto simp: apply_event_def intro!: steps)
qed

lemma futures: "moves R (futures_messages li raws e)"
proof (induction raws)
  case Nil
  then show ?case by (cases e) (auto intro: steps)
next
  case (Cons raw raws)
  then show ?case by (auto intro!: steps)
qed

lemma connection: "moves R (connect_and_subscribe li c)"
  unfolding connect_and_subscribe_def by (intro steps spot)

lemma sleeps: "moves R (sleep_backoff n)"
proof (cases "1024 \<le> n")
  case True
  then show ?thesis by (simp add: sleep_backoff_def backoff_def mlift_def mbind_def moves_def refl)
next
  case False
  have "moves R (mput (\<lambda>w. w\<lparr>sl_delays := sl_delays w @ [min 60 (2 * 2 ^ n)]\<rparr>))"
    by (rule waited) (simp_all add: min_def)
  then show ?thesis
    using False by (simp add: sleep_backoff_def backoff_def mlift_def mbind_def RECONNECT_MAX_S_def
        RECONNECT_BASE_S_def RECONNECT_FACTOR_def moves_def)
qed

lemma ends: "moves R (auth_failed li m)" "moves R (stop_stream li)"
  unfolding auth_failed_def stop_stream_def by (intro steps)+

lemma auth_case:
  "(\<And>m. moves R (A m)) \<Longrightarrow> moves R k \<Longrightarrow>
   moves R (case result of Some (AuthError m) \<Rightarrow> A m | _ \<Rightarrow> k)"
  by (auto split: option.split exn.split)

lemma ws_api: "moves R (run_ws_api li n cs)"
proof (induction cs arbitrary: n)
  case (Cons c cs)
  have again: "moves R (if stop then stop_stream li
      else let n = (if (result :: exn option) = None then 0 else n) in mseq (sleep_backoff n) (run_ws_api li (Suc n) cs))"
    for stop result by (auto simp: Let_def intro!: steps sleeps ends Cons.IH)
  have told: "moves R (case result of None \<Rightarrow> mret () | Some e \<Rightarrow> stream_set_status li ''reconnecting'' (f e))"
    for result f by (auto intro: steps split: option.split)
  have "moves R
      (mbind (mtry (mseq (connect_and_subscribe li c) (mret None)) (\<lambda>e. mret (Some e))) (\<lambda>result.
       case result of Some (AuthError message) \<Rightarrow> auth_failed li message
       | _ \<Rightarrow> mseq (case result of None \<Rightarrow> mret ()
               | Some e \<Rightarrow> stream_set_status li ''reconnecting'' (Some (e_exn_text (li_env li) e)))
        (mbind (is_stopped li) (\<lambda>stop.
         if stop then stop_stream li
         else let n = (if result = None then 0 else n) in mseq (sleep_backoff n) (run_ws_api li (Suc n) cs)))))"
    by (intro bind catch seq ret connection stopped auth_case ends told again)
  then show ?case
    unfolding run_ws_api.simps by (intro bind stopped) (simp add: ends)
qed (simp add: ret)

lemma legacy_one: "moves R (legacy_connection li n c)"
proof (cases "wc_open c")
  case (Inl e)
  then have "legacy_connection li n c = mseq (stream_set_status li ''reconnecting'' (Some (e_exn_text (li_env li) e))) (mret n)"
    by (intro ext) (simp add: legacy_connection_def mlift_def)
  then show ?thesis by (simp, intro steps)
next
  case (Inr u)
  then have "legacy_connection li n c = mseq (stream_set_status li ''connected'' None)
            (mseq (mtry (futures_messages li (wc_messages c) (wc_end c))
                     (\<lambda>e. stream_set_status li ''reconnecting'' (Some (e_exn_text (li_env li) e))))
               (mret 0))"
    by (intro ext) (simp add: legacy_connection_def mlift_def)
  then show ?thesis by (simp, intro steps futures)
qed

lemma legacy: "moves R (legacy_loop li n cs)"
proof (induction cs arbitrary: n)
  case (Cons c cs)
  show ?case
    unfolding legacy_loop.simps by (auto intro!: steps legacy_one sleeps Cons.IH)
qed (simp add: ret)

lemma run_legacy: "moves R (run_legacy_stream li k cs)"
proof (cases k)
  case (Inr key)
  then show ?thesis
    unfolding run_legacy_stream_def Inr sum.case
    by (intro steps legacy) (auto intro!: steps split: sum.splits stream_outcome.splits)
qed (simp add: run_legacy_stream_def ends)

lemma run: "moves R (run_listener li k cs)"
  unfolding run_listener_def by (auto intro!: steps ws_api run_legacy)

end

interpretation consistent: stream_frame "db_rel keeps_account"
  by unfold_locales
    (auto intro: keeps_account_redis keeps_account_uuid keeps_account_balances keeps_account_positions
      keeps_account_reports keeps_account_log keeps_account_mput keeps_account.session keeps_account_columns
      keeps_account.w.refl dest: keeps_account.w.trans)

section \<open>A concrete stream\<close>

definition demo_listener :: "mem_redis listener" where
  "demo_listener =
     \<lparr>li_account = demo_account, li_api_key = ''key'', li_api_secret = ''secret'', li_market_type = ''spot'',
      li_ops = mem_ops, li_env = demo_env, li_has_incident_logger = True, li_stop = (\<lambda>n. False)\<rparr>"

lemma demo_env_sel [simp]: "e_uuid4 demo_env = demo_uuid" "e_db_down demo_env = (\<lambda>n. False)"
  by (simp_all add: demo_env_def)

definition demo_stream :: "mem_redis stream_world" where
  "demo_stream =
     \<lparr>w_redis = empty_mem, w_db = demo_db, w_sessions = 0, w_uuids = 0, w_now = 1700000000000,
      w_trace = [], sl_checks = 0, sl_sent = [], sl_delays = [], sl_subscription = JNull,
      sl_listen_key = None\<rparr>"

definition demo_answer :: "nat \<Rightarrow> int \<Rightarrow> exn + rtext" where
  "demo_answer n status = Inr (Json (JObj [(''id'', JStr (demo_uuid n)), (''status'', JInt status)]))"

definition demo_balances :: "json list" where
  "demo_balances =
     [JObj [(''a'', JStr ''BTC''), (''f'', JStr ''1''), (''l'', JStr ''0'')],
      JObj [(''a'', JStr ''USDT''), (''f'', JStr ''500''), (''l'', JStr ''20'')],
      JObj [(''a'', JStr ''BTC''), (''f'', JStr ''3''), (''l'', JStr ''1'')]]"

definition demo_report :: "(string \<times> json) list" where
  "demo_report =
     [(''e'', JStr ''executionReport''), (''c'', JStr ''mcp-1''), (''i'', JInt 7), (''s'', JStr ''BTCUSDT''),
      (''S'', JStr ''BUY''), (''x'', JStr ''TRADE''), (''X'', JStr ''FILLED''), (''q'', JStr ''2''),
      (''z'', JStr ''2''), (''p'', JStr ''100''), (''L'', JStr ''100''), (''l'', JStr ''2''), (''t'', JInt 5),
      (''O'', JInt 10), (''T'', JInt 20)]"

definition demo_connection :: "nat \<Rightarrow> int \<Rightarrow> ws_connection" where
  "demo_connection n status =
     \<lparr>wc_open = Inr (), wc_ack = demo_answer n status,
      wc_messages = [Json (JObj [(''e'', JStr ''outboundAccountPosition''), (''B'', JArr demo_balances)]),
                     Json (JObj demo_report)],
      wc_end = Some (ConnectionClosed ''1006'')\<rparr>"

text \<open>
  Whatever the exchange sends on however many connections, and whatever fails in Redis or in the
  database, the stream keeps the tables consistent: one balance per account and asset, one position
  per account, symbol, market and side, unique orders and trades, no dangling reference.
\<close>

theorem stream_keeps_tables_consistent:
  assumes "account_ok (w_db w)" "run_listener li listen_key cs w = (r, w')"
  shows "account_ok (w_db w')"
  using movesD [OF consistent.run assms(2)] assms(1) by (simp add: db_rel_def keeps_account_def)

lemma stream_keeps_tables_consistent_witness:
  "account_ok (w_db (snd (run_listener demo_listener (Inr ''k'') [demo_connection 0 200, demo_connection 3 401] demo_stream)))"
proof -
  have "account_ok (w_db demo_stream)"
    by (simp add: account_ok_def db_ok_def db_columns balance_keys_def position_keys_def demo_stream_def
        demo_db_def empty_exec_db_def)
  then show ?thesis by (rule stream_keeps_tables_consistent [OF _ prod.collapse [symmetric]])
qed

section \<open>Waits between connections\<close>

definition waits_ok :: "'r stream_world \<Rightarrow> 'r stream_world \<Rightarrow> bool" where
  "waits_ok w w' = (\<exists>ds. sl_delays w' = sl_delays w @ ds \<and> list_all (\<lambda>d. 2 \<le> d \<and> d \<le> 60) ds)"

interpretation waits: frame waits_ok
proof
  fix u v w :: "'a stream_world"
  show "waits_ok w w" by (simp add: waits_ok_def)
  show "waits_ok u v \<Longrightarrow> waits_ok v w \<Longrightarrow> waits_ok u w"
    by (auto simp: waits_ok_def)
qed

lemma waits_same: "(\<And>w. sl_delays (snd (m w)) = sl_delays w) \<Longrightarrow> moves waits_ok m"
  by (simp add: moves_def waits_ok_def)

lemma waits_put: "(\<And>w. waits_ok w (f w)) \<Longrightarrow> moves waits_ok (mput f)"
  by (simp add: moves_def mput_def)

lemma waits_redis: "moves waits_ok (on_redis m)"
  by (rule waits_same) (simp add: on_redis_def split: prod.split)

lemma waits_uuid: "moves waits_ok (uuid4 env)"
  by (rule waits_same) (simp add: uuid4_def)

lemma waits_session: "moves waits_ok (session env body)"
  by (rule waits_same) (simp add: session_def Let_def split: sum.split prod.split)

lemma waits_query: "moves waits_ok (query env q)"
  unfolding query_def by (rule waits_session)

lemmas waits_rules = waits.rules waits_redis waits_uuid waits_session waits_query

lemma waits_state:
  "moves waits_ok (upsert_balances ops env a bs t)" "moves waits_ok (upsert_positions ops env a bs t)"
  "moves waits_ok (save_report env a x)" "moves waits_ok (log_incident env i)"
  unfolding upsert_balances_def cache_balances_def upsert_positions_def cache_positions_def stamp_def
    save_report_def log_incident_def
  by (intro waits_rules)+

lemma waits_orders:
  "moves waits_ok (upsert_spot_order env a evt)" "moves waits_ok (upsert_futures_order env a j)"
  unfolding upsert_spot_order_def upsert_futures_order_def
  by (auto intro!: waits_rules waits_state)

interpretation waiting: stream_frame waits_ok
  by unfold_locales
    (auto intro: waits_rules waits_state waits_orders intro!: waits_put simp: waits_ok_def)

text \<open>
  Between two connections the stream of an account waits at least 2 and at most 60 seconds,
  whatever the exchange answers and however often it fails.
\<close>

theorem reconnection_waits_are_bounded:
  assumes "run_listener li listen_key cs w = (r, w')" "sl_delays w = []" "d \<in> set (sl_delays w')"
  shows "2 \<le> d \<and> d \<le> 60"
  using movesD [OF waiting.run assms(1)] assms(2, 3) by (auto simp: waits_ok_def list_all_iff)

lemma reconnection_waits_are_bounded_witness:
  "let (r, w) = run_listener demo_listener (Inr ''k'') [demo_connection 0 500, demo_connection 1 401] demo_stream
   in sl_delays w = [2] \<and> 2 \<le> hd (sl_delays w) \<and> hd (sl_delays w) \<le> 60"
proof -
  obtain r w where run: "run_listener demo_listener (Inr ''k'') [demo_connection 0 500, demo_connection 1 401]
      demo_stream = (r, w)" by fastforce
  have "map_prod id sl_delays (run_listener demo_listener (Inr ''k'')
      [demo_connection 0 500, demo_connection 1 401] demo_stream) = (Inr AuthStopped, [2])"
    by code_simp
  then have waits: "sl_delays w = [2]" unfolding run by simp
  have "2 \<le> hd (sl_delays w) \<and> hd (sl_delays w) \<le> 60"
    by (rule reconnection_waits_are_bounded [OF run]) (simp_all add: demo_stream_def waits)
  then show ?thesis unfolding run using waits by simp
qed

section \<open>Refused and failing connections\<close>

lemma returns_stopped: "returns (is_stopped li)"
  unfolding is_stopped_def by (intro returns)

lemma returns_stream:
  "returns (stream_set_status li s e)" "returns (stream_incident li t m sv)" "returns (stop_stream li)"
  "returns (auth_failed li m)"
  unfolding stream_set_status_def stream_incident_def stop_stream_def auth_failed_def
  by (intro returns)+

lemma returns_sleep: "n < 1024 \<Longrightarrow> returns (sleep_backoff n)"
  unfolding sleep_backoff_def backoff_def by (auto intro!: returns)

lemma returns_auth_case:
  "(\<And>m. returns (A m)) \<Longrightarrow> returns k \<Longrightarrow>
   returns (case result of Some (AuthError m) \<Rightarrow> A m | _ \<Rightarrow> k)"
  by (auto split: option.split exn.split)

lemma returns_ws_api: "n + length cs \<le> 1024 \<Longrightarrow> returns (run_ws_api li n cs)"
proof (induction cs arbitrary: n)
  case (Cons c cs)
  have again: "returns (if stop then stop_stream li
      else let n = (if (result :: exn option) = None then 0 else n) in mseq (sleep_backoff n) (run_ws_api li (Suc n) cs))"
    for stop result using Cons by (auto simp: Let_def intro!: returns returns_stream returns_sleep)
  have told: "returns (case result of None \<Rightarrow> mret () | Some e \<Rightarrow> stream_set_status li ''reconnecting'' (f e))"
    for result f by (auto intro: returns returns_stream split: option.split)
  have step: "returns
      (case result of Some (AuthError message) \<Rightarrow> auth_failed li message
       | _ \<Rightarrow> mseq (case result of None \<Rightarrow> mret ()
               | Some e \<Rightarrow> stream_set_status li ''reconnecting'' (Some (e_exn_text (li_env li) e)))
        (mbind (is_stopped li) (\<lambda>stop.
         if stop then stop_stream li
         else let n = (if result = None then 0 else n) in mseq (sleep_backoff n) (run_ws_api li (Suc n) cs))))"
    for result
    by (intro returns_auth_case returns_stream returns_seq told returns_bind returns_stopped again)
  have "returns (if stop then stop_stream li else
      mbind (mtry (mseq (connect_and_subscribe li c) (mret None)) (\<lambda>e. mret (Some e))) (\<lambda>result.
       case result of Some (AuthError message) \<Rightarrow> auth_failed li message
       | _ \<Rightarrow> mseq (case result of None \<Rightarrow> mret ()
               | Some e \<Rightarrow> stream_set_status li ''reconnecting'' (Some (e_exn_text (li_env li) e)))
        (mbind (is_stopped li) (\<lambda>stop.
         if stop then stop_stream li
         else let n = (if result = None then 0 else n) in mseq (sleep_backoff n) (run_ws_api li (Suc n) cs)))))" for stop
    by (cases stop) (simp_all only: if_True if_False returns_stream, intro returns_bind returns_try returns_ret step)
  then show ?case
    unfolding run_ws_api.simps by (intro returns_bind returns_stopped)
qed (simp add: returns_ret)

text \<open>
  No failure of the exchange, of Redis or of the database ends the spot stream of an account with an
  exception, through 1024 connections in a row; the stream only returns, stopped or refused.
\<close>

theorem stream_survives_failures:
  assumes "length cs \<le> 1024" "li_market_type li = ''spot''"
  shows "\<exists>outcome w'. run_listener li listen_key cs w = (Inr outcome, w')"
  using assms by (auto simp: run_listener_def intro!: returnsD returns_seq returns_stream returns_ws_api)

lemma stream_survives_failures_witness:
  "\<exists>outcome w'. run_listener demo_listener (Inl Timeout)
     [demo_connection 0 500, \<lparr>wc_open = Inl Timeout, wc_ack = Inl Timeout, wc_messages = [], wc_end = None\<rparr>]
     demo_stream = (Inr outcome, w')"
  by (rule stream_survives_failures) (simp_all add: demo_listener_def)

text \<open>
  The power in the backoff overflows at the 1024th attempt, outside the handlers: a connection that never
  ends without an exception is never counted as a success, so the attempts grow until the task dies.
\<close>

definition dead_connection :: ws_connection where
  "dead_connection = \<lparr>wc_open = Inl Timeout, wc_ack = Inl Timeout, wc_messages = [], wc_end = None\<rparr>"

lemma dead_connection_step:
  assumes "\<And>k. \<not> li_stop li k"
  shows "\<exists>w'. run_ws_api li n (dead_connection # cs) w = mseq (sleep_backoff n) (run_ws_api li (Suc n) cs) w'"
proof -
  obtain w1 where s: "stream_set_status li ''reconnecting'' (Some (e_exn_text (li_env li) Timeout))
      (w\<lparr>sl_checks := Suc (sl_checks w)\<rparr>) = (Inr (), w1)"
    using returnsD [OF returns_stream(1)] by fastforce
  show ?thesis
    by (rule exI [of _ "w1\<lparr>sl_checks := Suc (sl_checks w1)\<rparr>"])
      (simp add: mbind_def mseq_def is_stopped_def mget_def mput_def mret_def mtry_def mlift_def assms s
        connect_and_subscribe_def dead_connection_def)
qed

lemma failing_stream_dies:
  assumes "\<And>k. \<not> li_stop li k"
  shows "n \<le> 1024 \<Longrightarrow> fst (run_ws_api li n (replicate (1025 - n) dead_connection) w) = Inl OverflowError"
proof (induction "1024 - n" arbitrary: n w)
  case 0
  then have "n = 1024" by simp
  then show ?case
    using dead_connection_step [OF assms, of 1024 "[]" w]
    by (auto simp: sleep_backoff_def backoff_def mseq_def mbind_def mlift_def)
next
  case (Suc k)
  then have n: "n < 1024" "1025 - n = Suc (1025 - Suc n)" by simp_all
  obtain v where v: "run_ws_api li n (replicate (1025 - n) dead_connection) w =
      mseq (sleep_backoff n) (run_ws_api li (Suc n) (replicate (1025 - Suc n) dead_connection)) v"
    using dead_connection_step [OF assms] unfolding n(2) replicate.simps by blast
  obtain u where "sleep_backoff n v = (Inr (), u)"
    using returnsD [OF returns_sleep [OF n(1)]] by fastforce
  moreover have "fst (run_ws_api li (Suc n) (replicate (1025 - Suc n) dead_connection) u) = Inl OverflowError"
    using Suc n(1) by (intro Suc.hyps) simp_all
  ultimately show ?case using v by (simp add: mseq_def mbind_def)
qed

lemma status_marks:
  "wp (stream_set_status li s e) (\<lambda>r w'. r = Inr () \<and> sl_sent w' = sl_sent w \<and> sl_delays w' = sl_delays w \<and>
     (e_db_down (li_env li) (w_sessions w) \<or>
      list_all (\<lambda>a. ac_id a = li_account li \<longrightarrow> ac_stream_status a = s) (d_accounts (w_db w')))) w"
  unfolding stream_set_status_def
  by (simp add: wp) (auto simp: update_account_def status_columns_def list_all_iff wp
      intro!: wpI split: sum.split)

lemma incident_marks:
  "wp (stream_incident li t m sv) (\<lambda>r w'. r = Inr () \<and> sl_sent w' = sl_sent w \<and> sl_delays w' = sl_delays w \<and>
     d_accounts (w_db w') = d_accounts (w_db w)) w"
  unfolding stream_incident_def log_incident_def
  by (auto simp: wp ebind_def split: sum.split)

lemma refused_connection:
  assumes "wc_open c = Inr ()" "wc_ack c = Inr raw" "json_loads raw = Inr answer"
    and "check_subscribe_response (li_env li) answer (e_uuid4 (li_env li) (w_uuids w)) = Inl (AuthError m)"
  shows "\<exists>q. connect_and_subscribe li c w =
    (Inl (AuthError m), w\<lparr>w_uuids := Suc (w_uuids w), sl_sent := sl_sent w @ [q]\<rparr>)"
  using assms
  by (intro exI [where x = "build_subscribe_request (li_env li) (li_api_key li) (li_api_secret li) (w_now w)
        (e_uuid4 (li_env li) (w_uuids w))"])
    (simp add: connect_and_subscribe_def mseq_def mbind_def mlift_def mget_def mput_def uuid4_def)



section \<open>Balances\<close>

text \<open>The balances of an account as a map, and what a list of entries does to it.\<close>

definition balance_map :: "uuid \<Rightarrow> exec_db \<Rightarrow> string \<Rightarrow> (rat \<times> rat \<times> rat) option" where
  "balance_map a d s =
     map_option (\<lambda>r. (bl_free r, bl_locked r, bl_total r)) (find (is_balance a s) (d_balances d))"

definition told :: "(string \<times> rat \<times> rat \<times> rat) option \<Rightarrow> (string \<Rightarrow> (rat \<times> rat \<times> rat) option) \<Rightarrow> (string \<Rightarrow> (rat \<times> rat \<times> rat) option)" where
  "told u m = (case u of None \<Rightarrow> m | Some (s, v) \<Rightarrow> m(s \<mapsto> v))"

lemma find_map_if:
  assumes "\<And>x. P x \<Longrightarrow> Q (f x) = Q x"
  shows "find Q (map (\<lambda>x. if P x then f x else x) xs) =
    map_option (\<lambda>x. if P x then f x else x) (find Q xs)"
  using assms by (induction xs) auto

lemma find_append: "find Q (xs @ ys) = (case find Q xs of None \<Rightarrow> find Q ys | Some x \<Rightarrow> Some x)"
  by (induction xs) auto

lemma find_list_ex: "list_ex Q xs \<Longrightarrow> \<exists>x. find Q xs = Some x \<and> Q x"
  by (induction xs) auto

lemma put_balance_map:
  assumes "put_balance a s f l t now d = Inr d'"
  shows "balance_map a d' = (balance_map a d)(s \<mapsto> (f, l, t)) \<and> (\<forall>b. b \<noteq> a \<longrightarrow> balance_map b d' = balance_map b d)"
proof (cases "list_ex (is_balance a s) (d_balances d)")
  case True
  let ?u = "\<lambda>r. r\<lparr>bl_free := f, bl_locked := l, bl_total := t, bl_updated_at_ms := now\<rparr>"
  have d': "d' = d\<lparr>d_balances := map (\<lambda>r. if is_balance a s r then ?u r else r) (d_balances d)\<rparr>"
    using True assms by (simp add: put_balance_def)
  have moved: "find (is_balance b y) (d_balances d') =
      map_option (\<lambda>r. if is_balance a s r then ?u r else r) (find (is_balance b y) (d_balances d))" for b y
    unfolding d' by (simp, rule find_map_if) (simp add: is_balance_def)
  have "balance_map b d' y = (if b = a \<and> y = s then Some (f, l, t) else balance_map b d y)" for b y
  proof (cases "find (is_balance b y) (d_balances d)")
    case None
    then show ?thesis
      using find_list_ex [OF True] by (auto simp: balance_map_def moved)
  next
    case (Some r)
    then have "is_balance b y r" by (auto simp: find_Some_iff)
    then show ?thesis by (auto simp: balance_map_def moved Some is_balance_def)
  qed
  then show ?thesis by (auto simp: fun_eq_iff)
next
  case False
  then have "find (is_balance a s) (d_balances d) = None" by (simp add: find_None_iff list_ex_iff)
  then show ?thesis
    using False assms
    by (auto simp: put_balance_def balance_map_def fun_eq_iff find_append is_balance_def split: if_splits option.splits)
qed

lemma mbind_get: "mbind (mget f) g w = g (f w) w"
  by (simp add: mbind_def mget_def)

lemma mbind_returns: "mbind m f w = (Inr y, w') \<Longrightarrow> \<exists>x v. m w = (Inr x, v) \<and> f x v = (Inr y, w')"
  by (auto simp: mbind_def split: prod.splits sum.splits)

lemma session_returns: "session env body w = (Inr x, w') \<Longrightarrow> body (w_db w) = Inr (x, w_db w')"
  by (auto simp: session_def Let_def split: if_splits sum.splits)

lemma upsert_balance_map:
  assumes "upsert_balance env a now e d = Inr d'"
  shows "ebind (balance_entry env e) (\<lambda>u. Inr (told u (balance_map a d))) = Inr (balance_map a d') \<and>
    (\<forall>b. b \<noteq> a \<longrightarrow> balance_map b d' = balance_map b d)"
proof -
  obtain u where u: "balance_entry env e = Inr u"
      "(case u of None \<Rightarrow> Inr d | Some (asset, f, l, t) \<Rightarrow> put_balance a asset f l t now d) = Inr d'"
    using assms by (auto simp: upsert_balance_def ebind_Inr)
  show ?thesis
  proof (cases u)
    case (Some x)
    obtain s f l t where "x = (s, f, l, t)" by (metis surj_pair)
    then show ?thesis using u Some put_balance_map [of a s f l t now d d'] by (simp add: told_def ebind_def)
  qed (use u in \<open>simp add: told_def ebind_def\<close>)
qed

lemma each_balance_map:
  assumes "each_row (upsert_balance env a now) es d = Inr d'"
  shows "each_row (\<lambda>e m. ebind (balance_entry env e) (\<lambda>u. Inr (told u m))) es (balance_map a d) = Inr (balance_map a d') \<and>
    (\<forall>b. b \<noteq> a \<longrightarrow> balance_map b d' = balance_map b d)"
  using assms
proof (induction es arbitrary: d)
  case (Cons e es)
  then obtain f where f: "upsert_balance env a now e d = Inr f" "each_row (upsert_balance env a now) es f = Inr d'"
    by (auto simp: ebind_Inr)
  obtain u where u: "balance_entry env e = Inr u" "told u (balance_map a d) = balance_map a f"
      "\<forall>b. b \<noteq> a \<longrightarrow> balance_map b f = balance_map b d"
    using upsert_balance_map [OF f(1)] by (auto simp: ebind_Inr)
  show ?case using u Cons.IH [OF f(2)] by (simp add: ebind_def)
qed simp

text \<open>
  C19: When the balances of an event are saved, the table read as a map from assets to amounts is the map
  updated by the entries in their order, the last one of an asset winning; the balances of every
  other account are untouched.
\<close>

theorem balances_follow_the_event:
  assumes "upsert_balances ops env a (JArr es) t w = (Inr (), w')"
  shows "each_row (\<lambda>e m. ebind (balance_entry env e) (\<lambda>u. Inr (told u m))) es (balance_map a (w_db w)) =
           Inr (balance_map a (w_db w')) \<and>
    (\<forall>b. b \<noteq> a \<longrightarrow> balance_map b (w_db w') = balance_map b (w_db w))"
proof -
  let ?now = "if t = 0 then w_now w else t"
  obtain v where v: "session env (\<lambda>d. ebind (list_items (JArr es)) (\<lambda>bs.
             ebind (each_row (upsert_balance env a ?now) bs d) (\<lambda>d'. Inr ((), d')))) w = (Inr (), v)"
      "cache_balances ops env a v = (Inr (), w')"
    using mbind_returns [OF assms [unfolded upsert_balances_def stamp_def mbind_get mseq_def]] by auto
  have saved: "each_row (upsert_balance env a ?now) es (w_db w) = Inr (w_db v)"
    using session_returns [OF v(1)] by (simp add: ebind_Inr)
  have "moves same_db (cache_balances ops env a)"
    unfolding cache_balances_def by (intro same_db.rules moves)
  then have "w_db w' = w_db v" using movesD v(2) by (fastforce simp: same_db_def)
  then show ?thesis using each_balance_map [OF saved] by simp
qed

lemma balances_follow_the_event_witness:
  "balance_map demo_account (w_db (snd (upsert_balances mem_ops demo_env demo_account (JArr demo_balances) 5
     demo_stream))) = [''BTC'' \<mapsto> (3, 1, 4), ''USDT'' \<mapsto> (500, 20, 520)]"
proof -
  have ok: "fst (upsert_balances mem_ops demo_env demo_account (JArr demo_balances) 5 demo_stream) = Inr ()"
    by code_simp
  have entries: "map (balance_entry demo_env) demo_balances =
      [Inr (Some (''BTC'', 1, 0, 1)), Inr (Some (''USDT'', 500, 20, 520)), Inr (Some (''BTC'', 3, 1, 4))]"
    by code_simp
  have none: "balance_map demo_account (w_db demo_stream) = Map.empty"
    by (simp add: balance_map_def demo_stream_def demo_db_def empty_exec_db_def fun_eq_iff)
  show ?thesis
    using balances_follow_the_event [of mem_ops demo_env demo_account demo_balances 5 demo_stream
        "snd (upsert_balances mem_ops demo_env demo_account (JArr demo_balances) 5 demo_stream)"] ok entries
    unfolding demo_balances_def list.map list.inject each_row.simps none prod_eq_iff
    by (simp add: ebind_def told_def fun_upd_twist)
qed

section \<open>Redelivered reports\<close>

lemma report_update_facts:
  assumes "report_update env x = Inr f"
  shows "or_id (f r) = or_id r" "or_client_order_id (f r) = or_client_order_id r" "f (f r) = f r"
  using assms by (auto simp: report_update_def ebind_Inr Let_def split: option.split)

lemma report_order_facts:
  assumes "report_order env a i x = Inr r" "report_update env x = Inr f"
  shows "f r = r" "or_id r = i" "JStr (or_client_order_id r) = dict_get ''c'' (JStr []) (xr_event x)"
  using assms
  by (auto simp: report_order_def report_update_def ebind_Inr Let_def str_col_def split: option.split json.splits if_splits)

lemma report_order_update:
  assumes "report_order env a i x = Inr r"
  shows "\<exists>f. report_update env x = Inr f"
  using assms by (auto simp: report_order_def report_update_def ebind_Inr Let_def)

lemma update_order_again:
  assumes "\<And>r. r \<in> set (d_orders d) \<Longrightarrow> or_id r = i \<Longrightarrow> f r = r"
  shows "update_order i f d = d"
  using assms by (simp add: update_order_def map_idI)

lemma save_order_again:
  assumes "save_report_order env a i x d = Inr (oid, d1)"
  shows "d_orders d2 = d_orders d1 \<Longrightarrow> save_report_order env a j x d2 = Inr (oid, d2)"
proof -
  assume same: "d_orders d2 = d_orders d1"
  obtain c where c: "dict_get ''c'' (JStr []) (xr_event x) = JStr c"
    using assms by (cases "dict_get ''c'' (JStr []) (xr_event x)") (simp_all add: save_report_order_def Let_def ebind_def)
  show ?thesis
  proof (cases "order_by_coid c d")
    case (Some r)
    then obtain f where f: "report_update env x = Inr f" "oid = or_id r" "d1 = update_order (or_id r) f d"
      using assms c by (auto simp: save_report_order_def Let_def ebind_Inr)
    have "order_by_coid c d2 = Some (f r)"
      using Some report_update_facts [OF f(1)] find_map_if [of "\<lambda>y. or_id y = or_id r" "\<lambda>y. or_client_order_id y = c" f]
      by (simp add: order_by_coid_def same f(3) update_order_def)
    moreover have "update_order (or_id r) f d2 = d2"
      using report_update_facts [OF f(1)] by (intro update_order_again) (auto simp: same f(3) update_order_def)
    ultimately show ?thesis
      using c f report_update_facts [OF f(1)] by (simp add: save_report_order_def ebind_def)
  next
    case None
    then obtain r where r: "report_order env a i x = Inr r" "insert_order_row r d = Inr d1" "oid = i"
      using assms c by (auto simp: save_report_order_def Let_def ebind_Inr)
    obtain f where f: "report_update env x = Inr f" using report_order_update [OF r(1)] by blast
    note facts = report_order_facts [OF r(1) f]
    have rows: "d_orders d2 = d_orders d @ [r]" "or_id r \<notin> or_id ` set (d_orders d)"
      using insert_order_row_Inr [OF r(2)] by (auto simp: same order_ids_def)
    have "order_by_coid c d2 = Some r"
      using None facts(3) c by (simp add: order_by_coid_def rows(1) find_append)
    moreover have "update_order i f d2 = d2"
      using rows(2) facts by (intro update_order_again) (auto simp: rows(1) image_iff)
    ultimately show ?thesis
      using c f facts r(3) by (simp add: save_report_order_def ebind_def)
  qed
qed

lemma save_fill_again:
  assumes "save_report_fill env a i oid x d = Inr d1"
  shows "save_report_fill env a j oid' x d1 = Inr d1"
proof (cases "dict_get ''x'' (JStr []) (xr_event x) = JStr ''TRADE'' \<and>
    str_field env (xr_event x) ''t'' (JInt (- 1)) \<noteq> ''-1''")
  case True
  then obtain q where q: "xr_quote_qty x = Inr q"
    using assms by (auto simp: save_report_fill_def Let_def ebind_Inr)
  have "fill_by_trade a (str_field env (xr_event x) ''t'' (JInt (- 1))) d1 \<noteq> None"
  proof (cases "fill_by_trade a (str_field env (xr_event x) ''t'' (JInt (- 1))) d")
    case None
    then obtain r where r: "report_fill env a i oid (str_field env (xr_event x) ''t'' (JInt (- 1))) x = Inr r"
        "insert_fill_row r d = Inr d1"
      using assms True by (auto simp: save_report_fill_def Let_def ebind_Inr)
    have "fl_account_id r = a" "fl_exchange_trade_id r = str_field env (xr_event x) ''t'' (JInt (- 1))"
      using r(1) by (auto simp: report_fill_def ebind_Inr Let_def str_col_def split: if_splits)
    then show ?thesis
      using insert_fill_row_Inr [OF r(2)] by (auto simp: fill_by_trade_def find_None_iff)
  qed (use assms True q in \<open>auto simp: save_report_fill_def Let_def ebind_def\<close>)
  then show ?thesis using True q by (simp add: save_report_fill_def ebind_def)
qed (auto simp: save_report_fill_def Let_def)

lemma save_report_fill_orders: "save_report_fill env a i oid x d = Inr d1 \<Longrightarrow> d_orders d1 = d_orders d"
  by (auto simp: save_report_fill_def Let_def ebind_Inr dest!: insert_fill_row_Inr split: if_splits)

lemma save_report_again:
  assumes "save_report env a x w = (Inr (), w1)" "w_db v = w_db w1" "save_report env a x v = (r, v1)"
  shows "w_db v1 = w_db v"
proof -
  obtain i j oid d1 where first: "save_report_order env a i x (w_db w) = Inr (oid, d1)"
      "save_report_fill env a j oid x d1 = Inr (w_db w1)"
    using assms(1)
    by (auto simp: save_report_def uuid4_def session_def Let_def mbind_def ebind_Inr
        split: if_splits sum.splits prod.splits)
  have order: "save_report_order env a k x (w_db v) = Inr (oid, w_db v)" for k
    using save_order_again [OF first(1)] save_report_fill_orders [OF first(2)] assms(2) by simp
  have fill: "save_report_fill env a k oid x (w_db v) = Inr (w_db v)" for k
    using save_fill_again [OF first(2)] assms(2) by simp
  show ?thesis
    using assms(3)
    by (auto simp: save_report_def uuid4_def session_def Let_def mbind_def order fill ebind_def split: if_splits)
qed

text \<open>
  C18: An execution report of the spot stream delivered again, at any later time and with the tables as
  they were left, changes no row, whether the database answers or not: no second order, no second fill.
\<close>

theorem redelivered_report_changes_nothing:
  assumes "map_of evt ''O'' = Some created" "map_of evt ''T'' = Some traded"
    and "upsert_spot_order env a evt w = (Inr (), w1)"
    and "w_db v = w_db w1" "upsert_spot_order env a evt v = (r, v1)"
  shows "w_db v1 = w_db v"
proof (cases "spot_report env (w_now w) evt")
  case (Inl e)
  then show ?thesis using assms(3) by (simp add: upsert_spot_order_def mbind_def mget_def mlift_def)
next
  case (Inr x)
  have "spot_report env (w_now v) evt = Inr x"
    using Inr assms(1, 2) by (simp add: spot_report_def dict_get_def)
  then show ?thesis
    using assms(3, 5) Inr save_report_again [OF _ assms(4)]
    by (auto simp: upsert_spot_order_def mbind_def mget_def mlift_def mret_def split: if_splits)
qed

lemma redelivered_report_changes_nothing_witness:
  "let w1 = snd (upsert_spot_order demo_env demo_account demo_report demo_stream);
       v = w1\<lparr>w_now := 1800000000000\<rparr>;
       v1 = snd (upsert_spot_order demo_env demo_account demo_report v)
   in w_db v1 = w_db v \<and> map or_status (d_orders (w_db v1)) = [''FILLED''] \<and> map fl_qty (d_fills (w_db v1)) = [2]"
proof -
  let ?w1 = "snd (upsert_spot_order demo_env demo_account demo_report demo_stream)"
  have "(\<lambda>(r, w). (r, map or_status (d_orders (w_db w)), map fl_qty (d_fills (w_db w))))
      (upsert_spot_order demo_env demo_account demo_report demo_stream) = (Inr (), [''FILLED''], [2])"
    by code_simp
  then have first: "upsert_spot_order demo_env demo_account demo_report demo_stream = (Inr (), ?w1)"
      "map or_status (d_orders (w_db ?w1)) = [''FILLED'']" "map fl_qty (d_fills (w_db ?w1)) = [2]"
    by (auto simp: prod_eq_iff split: prod.splits)
  have "w_db (snd (upsert_spot_order demo_env demo_account demo_report (?w1\<lparr>w_now := 1800000000000\<rparr>))) =
      w_db (?w1\<lparr>w_now := 1800000000000\<rparr>)"
    by (rule redelivered_report_changes_nothing [OF _ _ first(1) _ prod.collapse [symmetric]])
      (simp_all add: demo_report_def)
  then show ?thesis using first(2, 3) by (simp add: Let_def)
qed

section \<open>Futures events\<close>

text \<open>
  The balances of a futures \<open>ACCOUNT_UPDATE\<close> carry the wallet balance in \<open>wb\<close> and \<open>cw\<close>; read with the
  keys of the spot event they are stored as 0.  A short position, with a negative amount, is stored, but
  the count of open positions the risk checks use looks for positive quantities.
\<close>

lemma futures_balance_is_stored_as_zero:
  "balance_entry demo_env (JObj [(''a'', JStr ''USDT''), (''wb'', JStr ''1000''), (''cw'', JStr ''1000'')]) =
     Inr (Some (''USDT'', 0, 0, 0))"
  by code_simp

lemma short_position_is_not_open:
  "map_sum id (\<lambda>d. (map ps_quantity (d_positions d), open_positions demo_account d))
     (upsert_position demo_env demo_account 0
        (JObj [(''s'', JStr ''BTCUSDT''), (''pa'', JStr ''-2''), (''ps'', JStr ''SHORT'')]) demo_db) = Inr ([- 2], 0)"
  by code_simp

end
