(* ===== verification/Reconciliation.thy ===== *)
theory Reconciliation
  imports ExecutionConsumer
begin

text \<open>
  Reconciliation (\<open>services/execution/reconciliation\<close>): the consumer that matches \<open>USER_ORDER\<close>
  events of the normalized stream with jobs, orders and fills, and the loop that reports stale
  jobs.
\<close>

section \<open>The event consumer\<close>

record 'r recon =
  rc_settings :: exec_settings
  rc_ops :: "'r redis_ops"
  rc_env :: env
  rc_has_repository :: bool
  rc_has_incident_logger :: bool

definition recon_ack :: "'r recon \<Rightarrow> string \<Rightarrow> ('r, unit) xact" where
  "recon_ack rc msg_id = ack (rc_ops rc) NORMALIZED (es_recon_consumer_group (rc_settings rc)) msg_id"

definition count_orphan :: "('r, unit) xact" where
  "count_orphan = mput (\<lambda>w. w\<lparr>x_orphans := Suc (x_orphans w)\<rparr>)"

definition count_fill :: "('r, unit) xact" where
  "count_fill = mput (\<lambda>w. w\<lparr>x_fills := Suc (x_fills w)\<rparr>)"

text \<open>The numbers of an order update.\<close>

record order_update =
  ou_cumulative :: rat
  ou_orig_qty :: rat
  ou_avg_price :: rat
  ou_commission :: rat
  ou_commission_asset :: json
  ou_realized_pnl :: rat
  ou_trade_time_ms :: int

definition order_update_of :: "(string \<times> json) list \<Rightarrow> exn + order_update" where
  "order_update_of data =
     ebind (py_decimal (dict_get ''filled_qty'' (JStr ''0'') data)) (\<lambda>cumulative.
     ebind (py_decimal (dict_get ''orig_qty'' (JStr ''0'') data)) (\<lambda>orig.
     ebind (py_decimal (dict_get ''avg_price'' (JStr ''0'') data)) (\<lambda>avg.
     ebind (py_decimal (dict_get ''commission'' (JStr ''0'') data)) (\<lambda>commission.
     ebind (py_decimal (dict_get ''realized_pnl'' (JStr ''0'') data)) (\<lambda>pnl.
     ebind (py_int (dict_get ''trade_time_ms'' (JInt 0) data)) (\<lambda>t.
       Inr \<lparr>ou_cumulative = cumulative, ou_orig_qty = orig, ou_avg_price = avg,
            ou_commission = commission,
            ou_commission_asset = dict_get ''commission_asset'' (JStr ''USDT'') data,
            ou_realized_pnl = pnl, ou_trade_time_ms = t\<rparr>))))))"

definition handle_cancel ::
  "'r recon \<Rightarrow> job_row \<Rightarrow> json \<Rightarrow> json \<Rightarrow> int \<Rightarrow> ('r, unit) xact" where
  "handle_cancel rc job exchange_order_id order_status trade_time_ms =
     (if \<not> can_transition (jb_status job) ''canceled''
      then publish (rc_ops rc) ''reconciliation_mismatch'' (jb_id job)
             [(''reason'', JStr (''cannot_cancel_from_'' @ jb_status job)), (''exchange_status'', order_status)]
      else mseq (mwhen (rc_has_repository rc)
             (update_job_status (rc_env rc) (jb_id job) ''canceled''
                [(''exchange_order_id'', exchange_order_id), (''exchange_status'', order_status),
                 (''trade_time_ms'', JInt trade_time_ms), (''source'', JStr ''reconciliation'')] None None))
          (publish (rc_ops rc) ''job_canceled'' (jb_id job)
             [(''exchange_order_id'', exchange_order_id), (''exchange_status'', order_status)]))"

definition finalize_fill ::
  "'r recon \<Rightarrow> job_row \<Rightarrow> json \<Rightarrow> rat \<Rightarrow> rat \<Rightarrow> ('r, unit) xact" where
  "finalize_fill rc job exchange_order_id filled_qty avg_price =
     (let qty = JStr (show_dec (rc_env rc) filled_qty);
          price = JStr (show_dec (rc_env rc) avg_price);
          details = [(''exchange_order_id'', exchange_order_id), (''filled_qty'', qty),
                     (''avg_price'', price), (''source'', JStr ''reconciliation'')]
      in if \<not> can_transition (jb_status job) ''filled'' then mret ()
         else mseq (mwhen (rc_has_repository rc)
                (update_job_status (rc_env rc) (jb_id job) ''filled'' details (Some (JObj details)) None))
             (publish (rc_ops rc) ''job_reconciled'' (jb_id job)
                [(''exchange_order_id'', exchange_order_id), (''filled_qty'', qty), (''avg_price'', price)]))"

definition order_missing :: "'r recon \<Rightarrow> job_row \<Rightarrow> string \<Rightarrow> ('r, unit) xact" where
  "order_missing rc job client_order_id =
     publish (rc_ops rc) ''reconciliation_mismatch'' (jb_id job)
       [(''reason'', JStr ''order_record_not_found''), (''client_order_id'', JStr client_order_id)]"

definition leg_trade_id :: "'r recon \<Rightarrow> json \<Rightarrow> order_update \<Rightarrow> string" where
  "leg_trade_id rc exchange_order_id u =
     py_str (e_show (rc_env rc)) exchange_order_id @ '':t'' @ show_int (ou_trade_time_ms u)"

text \<open>A commission asset that is not a string does not fit its column.\<close>

definition insert_leg ::
  "'r recon \<Rightarrow> job_row \<Rightarrow> order_row \<Rightarrow> order_update \<Rightarrow> string \<Rightarrow> rat \<Rightarrow> string \<Rightarrow> ('r, unit) xact" where
  "insert_leg rc job order u trade_id leg_qty symbol =
     mbind (mlift (case ou_commission_asset u of JStr s \<Rightarrow> Inr s | _ \<Rightarrow> Inl (DbError ''commission_asset''))) (\<lambda>asset.
     mseq (discard (insert_fill (rc_env rc) (or_id order) (jb_account_id job) trade_id
                      (if symbol = [] then or_symbol order else symbol) (or_side order)
                      (ou_avg_price u) leg_qty (ou_commission u) asset (ou_trade_time_ms u)
                      (Some (ou_realized_pnl u))))
          count_fill)"

definition handle_partial_fill ::
  "'r recon \<Rightarrow> job_row \<Rightarrow> string \<Rightarrow> json \<Rightarrow> order_update \<Rightarrow> string \<Rightarrow> ('r, unit) xact" where
  "handle_partial_fill rc job client_order_id exchange_order_id u symbol =
     (let env = rc_env rc; cumulative = ou_cumulative u in
      mbind (get_order_by_client_order_id env client_order_id) (\<lambda>found.
      case found of None \<Rightarrow> order_missing rc job client_order_id | Some order \<Rightarrow>
      let leg_qty = dec (cumulative - or_filled_qty order);
          trade_id = leg_trade_id rc exchange_order_id u
      in if leg_qty \<le> 0 then mret () else
      mbind (get_fill_by_exchange_trade_id env (jb_account_id job) trade_id) (\<lambda>existing.
      if existing \<noteq> None then mret () else
      mseq (insert_leg rc job order u trade_id leg_qty symbol)
     (mseq (update_order_filled_qty env (or_id order) cumulative (ou_avg_price u)
              (Some (if ou_orig_qty u \<le> cumulative then ''FILLED'' else ''PARTIALLY_FILLED'')))
     (mseq (mwhen (jb_status job \<noteq> ''partially_filled'' \<and> can_transition (jb_status job) ''partially_filled'')
              (update_job_status env (jb_id job) ''partially_filled''
                 [(''exchange_order_id'', exchange_order_id),
                  (''cumulative_filled_qty'', JStr (show_dec env cumulative)),
                  (''fill_leg_qty'', JStr (show_dec env leg_qty)), (''source'', JStr ''reconciliation'')]
                 None None))
     (mseq (publish (rc_ops rc) ''job_partially_filled'' (jb_id job)
              [(''exchange_order_id'', exchange_order_id),
               (''fill_leg_qty'', JStr (show_dec env leg_qty)),
               (''cumulative_filled_qty'', JStr (show_dec env cumulative)),
               (''orig_qty'', JStr (show_dec env (ou_orig_qty u))),
               (''avg_price'', JStr (show_dec env (ou_avg_price u))),
               (''exchange_trade_id'', JStr trade_id)])
           (mwhen (ou_orig_qty u \<le> cumulative)
              (finalize_fill rc job exchange_order_id cumulative (ou_avg_price u)))))))))"

definition handle_full_fill ::
  "'r recon \<Rightarrow> job_row \<Rightarrow> string \<Rightarrow> json \<Rightarrow> order_update \<Rightarrow> string \<Rightarrow> ('r, unit) xact" where
  "handle_full_fill rc job client_order_id exchange_order_id u symbol =
     (let env = rc_env rc; cumulative = ou_cumulative u in
      mbind (get_order_by_client_order_id env client_order_id) (\<lambda>found.
      case found of None \<Rightarrow> order_missing rc job client_order_id | Some order \<Rightarrow>
      let leg_qty = dec (cumulative - or_filled_qty order);
          trade_id = leg_trade_id rc exchange_order_id u
      in mseq (mwhen (0 < leg_qty)
                (mbind (get_fill_by_exchange_trade_id env (jb_account_id job) trade_id) (\<lambda>existing.
                 mwhen (existing = None) (insert_leg rc job order u trade_id leg_qty symbol))))
        (mseq (update_order_filled_qty env (or_id order) cumulative (ou_avg_price u) (Some ''FILLED''))
              (finalize_fill rc job exchange_order_id cumulative (ou_avg_price u)))))"

definition not_ours :: "'r recon \<Rightarrow> (string \<times> json) list \<Rightarrow> ('r, unit) xact" where
  "not_ours rc details =
     mseq count_orphan (publish (rc_ops rc) ''orphan_exchange_update'' ''unknown'' details)"

definition job_unknown :: "'r recon \<Rightarrow> string \<Rightarrow> json \<Rightarrow> ('r, unit) xact" where
  "job_unknown rc client_order_id order_status =
     mseq (not_ours rc [(''client_order_id'', JStr client_order_id), (''order_status'', order_status),
                        (''reason'', JStr ''job_not_found'')])
          (mwhen (rc_has_incident_logger rc)
             (log_incident (rc_env rc) (incident ''orphan_exchange_update'' ''warning''
                (''Exchange update for unknown client_order_id='' @ client_order_id) None None
                [(''client_order_id'', JStr client_order_id), (''order_status'', order_status)])))"

definition job_terminal :: "'r recon \<Rightarrow> job_row \<Rightarrow> string \<Rightarrow> json \<Rightarrow> ('r, unit) xact" where
  "job_terminal rc job client_order_id order_status =
     mseq count_orphan
       (publish (rc_ops rc) ''orphan_exchange_update'' (jb_id job)
          [(''reason'', JStr ''already_terminal''), (''current_status'', JStr (jb_status job)),
           (''exchange_status'', order_status), (''client_order_id'', JStr client_order_id)])"

definition reconcile_job ::
  "'r recon \<Rightarrow> normalized_event \<Rightarrow> job_row \<Rightarrow> string \<Rightarrow> ('r, unit) xact" where
  "reconcile_job rc event job client_order_id =
     (let data = ne_data event;
          exchange_order_id = dict_get ''exchange_order_id'' (JStr []) data;
          order_status = dict_get ''order_status'' (JStr []) data
      in if is_terminal (jb_status job) then job_terminal rc job client_order_id order_status
         else mbind (mlift (order_update_of data)) (\<lambda>u.
              if order_status \<in> {JStr ''CANCELED'', JStr ''REJECTED'', JStr ''EXPIRED''}
              then handle_cancel rc job exchange_order_id order_status (ou_trade_time_ms u)
              else if order_status = JStr ''PARTIALLY_FILLED''
              then handle_partial_fill rc job client_order_id exchange_order_id u (ne_symbol event)
              else if order_status = JStr ''FILLED''
              then handle_full_fill rc job client_order_id exchange_order_id u (ne_symbol event)
              else mret ()))"

definition handle_user_order :: "'r recon \<Rightarrow> normalized_event \<Rightarrow> ('r, unit) xact" where
  "handle_user_order rc event =
     (let data = ne_data event;
          coid = dict_get ''client_order_id'' (JStr []) data;
          exchange_order_id = dict_get ''exchange_order_id'' (JStr []) data;
          order_status = dict_get ''order_status'' (JStr []) data
      in mbind (mlift (case coid of JStr c \<Rightarrow> Inr c | _ \<Rightarrow> Inl AttributeError)) (\<lambda>c.
         if \<not> startswith ''tp2-'' c
         then not_ours rc [(''client_order_id'', JStr c), (''exchange_order_id'', exchange_order_id),
                           (''order_status'', order_status), (''reason'', JStr ''not_our_order'')]
         else if \<not> rc_has_repository rc then mret ()
         else mbind (get_job_by_client_order_id (rc_env rc) c) (\<lambda>found.
              case found of None \<Rightarrow> job_unknown rc c order_status
              | Some job \<Rightarrow> reconcile_job rc event job c)))"

definition recon_process :: "'r recon \<Rightarrow> string \<Rightarrow> fields \<Rightarrow> ('r, unit) xact" where
  "recon_process rc msg_id fs =
     (case map_of fs ''event'' of
        None \<Rightarrow> recon_ack rc msg_id
      | Some raw \<Rightarrow>
          if \<not> text_truthy (Some raw) then recon_ack rc msg_id
          else case e_parse_event (rc_env rc) raw of
                 Inl _ \<Rightarrow> recon_ack rc msg_id
               | Inr event \<Rightarrow>
                   mseq (mwhen (ne_event_type event = USER_ORDER) (handle_user_order rc event))
                        (recon_ack rc msg_id))"

definition recon_tick :: "'r recon \<Rightarrow> ('r, unit) xact" where
  "recon_tick rc =
     (let s = rc_settings rc in
      mbind (stream_read_group (rc_ops rc) NORMALIZED (es_recon_consumer_group s)
               (es_recon_consumer_name s) (es_batch_size s) (es_block_ms s))
        (\<lambda>entries. mfor entries (\<lambda>(msg_id, fs). recon_process rc msg_id fs)))"

primrec recon_rounds :: "'r recon \<Rightarrow> nat \<Rightarrow> ('r, unit) xact" where
  "recon_rounds rc 0 = mret ()"
| "recon_rounds rc (Suc n) = mseq (mlogged (recon_tick rc)) (recon_rounds rc n)"

section \<open>The stale-job loop\<close>

record scan_stats =
  sc_active_jobs :: nat
  sc_stale_detected :: nat
  sc_partially_filled_pending :: nat

text \<open>Ages are whole milliseconds; \<open>int(age_s)\<close> truncates to seconds.\<close>

definition is_stale :: "exec_settings \<Rightarrow> int \<Rightarrow> job_row \<Rightarrow> bool" where
  "is_stale s now job =
     (jb_status job = ''submitted'' \<and> es_stale_order_timeout_s s * 1000 \<le> now - jb_created_at_ms job)"

definition report_stale :: "'r recon \<Rightarrow> int \<Rightarrow> job_row \<Rightarrow> ('r, unit) xact" where
  "report_stale rc now job =
     (let age_s = trunc (of_int (now - jb_created_at_ms job) / 1000) in
      mseq (mput (\<lambda>w. w\<lparr>x_stale := Suc (x_stale w)\<rparr>))
     (mseq (publish (rc_ops rc) ''stale_order_detected'' (jb_id job)
              [(''status'', JStr (jb_status job)), (''symbol'', JStr (jb_symbol job)), (''age_s'', JInt age_s),
               (''stale_threshold_s'', JInt (es_stale_order_timeout_s (rc_settings rc)))])
           (mwhen (rc_has_incident_logger rc)
              (log_incident (rc_env rc) (incident ''stale_order'' ''warning''
                 (''Job '' @ jb_id job @ '' stuck in submitted state for '' @ show_int age_s @ ''s'')
                 (Some (jb_id job)) None
                 [(''symbol'', JStr (jb_symbol job)), (''age_s'', JInt age_s),
                  (''trading_mode'', JStr (jb_trading_mode job))])))))"

primrec scan_jobs :: "'r recon \<Rightarrow> int \<Rightarrow> job_row list \<Rightarrow> scan_stats \<Rightarrow> ('r, scan_stats) xact" where
  "scan_jobs rc now [] st = mret st"
| "scan_jobs rc now (job # jobs) st =
     (let stale = is_stale (rc_settings rc) now job in
      mseq (mwhen stale (report_stale rc now job))
        (scan_jobs rc now jobs
           (st\<lparr>sc_stale_detected := sc_stale_detected st + (if stale then 1 else 0),
               sc_partially_filled_pending :=
                 sc_partially_filled_pending st + (if jb_status job = ''partially_filled'' then 1 else 0)\<rparr>)))"

definition run_once :: "'r recon \<Rightarrow> ('r, scan_stats) xact" where
  "run_once rc =
     (let st = \<lparr>sc_active_jobs = 0, sc_stale_detected = 0, sc_partially_filled_pending = 0\<rparr> in
      if \<not> rc_has_repository rc then mret st
      else mseq (mput (\<lambda>w. w\<lparr>x_scans := Suc (x_scans w)\<rparr>))
          (mbind (mget w_now) (\<lambda>now.
           mbind (get_active_jobs (rc_env rc)) (\<lambda>jobs.
             scan_jobs rc now jobs (st\<lparr>sc_active_jobs := length jobs\<rparr>)))))"

text \<open>\<open>n\<close> rounds of the loop; a scan that raises is logged.\<close>

primrec scan_rounds :: "'r recon \<Rightarrow> nat \<Rightarrow> ('r, unit) xact" where
  "scan_rounds rc 0 = mret ()"
| "scan_rounds rc (Suc n) = mseq (mlogged (mbind (run_once rc) (\<lambda>_. mret ()))) (scan_rounds rc n)"

end
