(* ===== verification/ReconciliationSafety.thy ===== *)
theory ReconciliationSafety
  imports Reconciliation
begin

text \<open>
  What reconciliation keeps, whatever fails: settled jobs stay as they are, every change of a job's
  status follows the life cycle, a redelivered update changes nothing more, and the fills of an
  order add up to its filled quantity.
\<close>

section \<open>Settled jobs\<close>

definition same_ledger :: "exec_db \<Rightarrow> exec_db \<Rightarrow> bool" where
  "same_ledger d d' = (ledger d' = ledger d)"

interpretation same_ledger: db_frame same_ledger
  by unfold_locales (auto simp: same_ledger_def)

lemma same_ledger_incident: "moves (db_rel same_ledger) (log_incident env i)"
proof (rule movesI)
  fix w w' :: "('a, exec_db, 'b) world_scheme" and r
  assume "log_incident env i w = (r, w')"
  then show "db_rel same_ledger w w'"
    using log_incident_effect [of env i w] by (simp add: wp_def db_rel_def same_ledger_def)
qed

lemma same_db_counts: "moves same_db count_orphan" "moves same_db count_fill"
  by (simp_all add: count_orphan_def count_fill_def same_db_put)

lemmas same_db_quiet = same_db.rules same_db_publish same_db_query same_db_counts

lemma same_db_not_ours: "moves same_db (not_ours rc details)"
  unfolding not_ours_def by (intro same_db_quiet)

lemma same_db_terminal: "moves same_db (job_terminal rc job c st)"
  unfolding job_terminal_def by (intro same_db_quiet)

lemma same_db_missing: "moves same_db (order_missing rc job c)"
  unfolding order_missing_def by (intro same_db_quiet)

lemma same_ledger_unknown: "moves (db_rel same_ledger) (job_unknown rc c st)"
  unfolding job_unknown_def
  by (intro same_ledger.w.rules same_ledger.same [OF same_db_not_ours] same_ledger_incident)

text \<open>
  The client order id of an event, and the job it is about.
\<close>

definition event_coid :: "normalized_event \<Rightarrow> json" where
  "event_coid ev = dict_get ''client_order_id'' (JStr []) (ne_data ev)"

definition settled_job :: "normalized_event \<Rightarrow> exec_db \<Rightarrow> bool" where
  "settled_job ev d =
     (\<forall>c j. event_coid ev = JStr c \<longrightarrow> job_by_coid c d = Some j \<longrightarrow> is_terminal (jb_status j))"

text \<open>Whatever relation a reconciled job keeps between the tables, the whole handler keeps.\<close>

lemma user_order_post:
  assumes same: "\<And>r d. ledger d = ledger (w_db w) \<Longrightarrow> Q r d"
    and job: "\<And>c j v. event_coid ev = JStr c \<Longrightarrow> startswith ''tp2-'' c \<Longrightarrow> rc_has_repository rc \<Longrightarrow>
        job_by_coid c (w_db v) = Some j \<Longrightarrow> w_db v = w_db w \<Longrightarrow>
        wp (reconcile_job rc ev j c) (\<lambda>r w'. Q r (w_db w')) v"
  shows "wp (handle_user_order rc ev) (\<lambda>r w'. Q r (w_db w')) w"
proof -
  have ours: "wp (not_ours rc ds) (\<lambda>r w'. Q r (w_db w')) w" for ds
    by (rule moves_wp [OF same_db_not_ours]) (simp add: same_db_def same)
  have unknown: "w_db v = w_db w \<Longrightarrow> wp (job_unknown rc c st) (\<lambda>r w'. Q r (w_db w')) v" for v c st
    by (rule moves_wp [OF same_ledger_unknown]) (simp add: db_rel_def same_ledger_def same)
  show ?thesis
    unfolding handle_user_order_def Let_def wp_bind wp_lift get_job_by_client_order_id_def
    by (auto simp: wp_raise wp_ret wp_bind same event_coid_def [symmetric] intro!: ours unknown job
        wp_mono [OF query_effect] split: sum.split option.split json.split)
qed

lemma user_order_rel:
  assumes "\<And>d. P d d" "\<And>d d'. ledger d' = ledger d \<Longrightarrow> P d d'"
    and "\<And>c j v. event_coid ev = JStr c \<Longrightarrow> startswith ''tp2-'' c \<Longrightarrow> rc_has_repository rc \<Longrightarrow>
        job_by_coid c (w_db v) = Some j \<Longrightarrow> w_db v = w_db w \<Longrightarrow>
        wp (reconcile_job rc ev j c) (\<lambda>r w'. P (w_db w) (w_db w')) v"
  shows "wp (handle_user_order rc ev) (\<lambda>r w'. P (w_db w) (w_db w')) w"
  using assms(2,3) by (rule user_order_post [of w "\<lambda>r. P (w_db w)"])

lemma settled_keeps_ledger:
  "settled_job ev (w_db w) \<Longrightarrow>
     wp (handle_user_order rc ev) (\<lambda>r w'. same_ledger (w_db w) (w_db w')) w"
  by (rule user_order_rel)
    (auto simp: same_ledger_def settled_job_def reconcile_job_def Let_def same_db_def
      intro!: moves_wp [OF same_db_terminal])

section \<open>Status changes follow the life cycle\<close>

definition same_jobs :: "exec_db \<Rightarrow> exec_db \<Rightarrow> bool" where
  "same_jobs d d' = (d_jobs d' = d_jobs d \<and> d_job_events d' = d_job_events d)"

interpretation same_jobs: db_frame same_jobs
  by unfold_locales (auto simp: same_jobs_def)

definition advances :: "exec_db \<Rightarrow> exec_db \<Rightarrow> bool" where
  "advances d d' = (distinct (job_ids d) \<longrightarrow>
     list_all2 (\<lambda>j j'. jb_id j' = jb_id j \<and> can_transition\<^sup>*\<^sup>* (jb_status j) (jb_status j')) (d_jobs d) (d_jobs d'))"

lemma advances_same: "d_jobs d' = d_jobs d \<Longrightarrow> advances d d'"
  by (simp add: advances_def list.rel_refl)

lemma advances_ids: "distinct (job_ids d) \<Longrightarrow> advances d d' \<Longrightarrow> job_ids d' = job_ids d"
  by (auto simp: advances_def job_ids_def list_all2_conv_all_nth intro: nth_equalityI)

lemma advances_trans: "advances u v \<Longrightarrow> advances v w \<Longrightarrow> advances u w"
  using advances_ids [of u v]
  by (auto simp: advances_def list_all2_conv_all_nth) (metis rtranclp_trans)

definition at_status :: "uuid \<Rightarrow> string \<Rightarrow> exec_db \<Rightarrow> bool" where
  "at_status i s d = (\<exists>j. find_job i d = Some j \<and> jb_status j = s)"

lemma at_status_same: "d_jobs d' = d_jobs d \<Longrightarrow> at_status i s d' = at_status i s d"
  by (simp add: at_status_def find_job_def)

lemma find_unique: "distinct (map g xs) \<Longrightarrow> x \<in> set xs \<Longrightarrow> find (\<lambda>y. g y = g x) xs = Some x"
  by (induction xs) auto

lemma find_map_key: "(\<And>x. g (f x) = g x) \<Longrightarrow> find (\<lambda>x. g x = k) (map f xs) = map_option f (find (\<lambda>x. g x = k) xs)"
  by (induction xs) auto

lemma find_job_status:
  "find_job k (update_job i (set_status s r e) d) =
     map_option (\<lambda>j. if jb_id j = i then set_status s r e j else j) (find_job k d)"
  unfolding find_job_def update_job_def by (simp add: find_map_key)

lemma find_job_event [simp]: "find_job k (insert_event e d) = find_job k d"
  by (simp add: find_job_def insert_event_def)

lemma at_status_set:
  assumes "at_status i s d"
  shows "at_status i t (status_set i t data res err now d)"
proof -
  obtain j where j: "find_job i d = Some j" using assms by (auto simp: at_status_def)
  then have "jb_id j = i" using find_some_in [of _ "d_jobs d" j] by (auto simp: find_job_def)
  with j show ?thesis by (simp add: at_status_def status_set_def find_job_status)
qed

lemma status_set_advances:
  assumes "at_status i s d" "can_transition\<^sup>*\<^sup>* s t"
  shows "advances d (status_set i t data res err now d)"
proof -
  obtain j where j: "find_job i d = Some j" "jb_status j = s"
    using assms(1) by (auto simp: at_status_def)
  have "k = j" if "distinct (job_ids d)" "k \<in> set (d_jobs d)" "jb_id k = i" for k
    using find_unique [of jb_id "d_jobs d" k] that j(1) by (simp add: job_ids_def find_job_def)
  then show ?thesis
    using j assms(2)
    by (auto simp: advances_def status_set_def insert_event_def update_job_def list_all2_conv_all_nth)
      (metis nth_mem)
qed

text \<open>One status update of a job that may make it.\<close>

lemma status_advances:
  assumes "at_status i s (w_db w)" "can_transition\<^sup>*\<^sup>* s t"
  shows "wp (update_job_status env i t data res err)
    (\<lambda>r w'. advances (w_db w) (w_db w') \<and> (case r of Inl _ \<Rightarrow> at_status i s (w_db w') | Inr _ \<Rightarrow> at_status i t (w_db w'))) w"
  by (rule wp_mono [OF status_effect])
    (use assms in \<open>auto simp: effect_on_def advances_same intro: status_set_advances at_status_set
       split: sum.splits\<close>)

text \<open>Steps that leave the jobs as they are.\<close>

lemma same_jobs_insert: "moves (db_rel same_jobs) (insert_fill env oid a t sy sd p q c ca tm pnl)"
proof (rule movesI)
  fix w w' :: "('a, exec_db, 'b) world_scheme" and r
  assume "insert_fill env oid a t sy sd p q c ca tm pnl w = (r, w')"
  then show "db_rel same_jobs w w'"
    using insert_fill_effect [of env oid a t sy sd p q c ca tm pnl w]
    by (auto simp: wp_def db_rel_def same_jobs_def effect_on_def split: sum.splits)
qed

lemma same_jobs_update: "moves (db_rel same_jobs) (update_order_filled_qty env oid fq ap st)"
proof (rule movesI)
  fix w w' :: "('a, exec_db, 'b) world_scheme" and r
  assume "update_order_filled_qty env oid fq ap st w = (r, w')"
  then show "db_rel same_jobs w w'"
    using update_order_effect [of env oid fq ap st w]
    by (auto simp: wp_def db_rel_def same_jobs_def effect_on_def update_order_def split: sum.splits if_splits)
qed

lemma same_jobs_leg: "moves (db_rel same_jobs) (insert_leg rc job order u t q sy)"
  unfolding insert_leg_def discard_def
  by (intro same_jobs.w.rules same_jobs_insert same_jobs.same [OF same_db_counts(2)])

lemma same_jobs_query: "moves (db_rel same_jobs) (query env q)"
  by (rule same_jobs.same [OF same_db_query])

text \<open>
  The assertion that is carried through a handler: the jobs have advanced from the tables \<open>d\<close>, and
  the job \<open>i\<close> has one of the statuses \<open>S\<close>.
\<close>

definition tracked :: "exec_db \<Rightarrow> uuid \<Rightarrow> string set \<Rightarrow> 'r exec_world \<Rightarrow> bool" where
  "tracked d i S w = (advances d (w_db w) \<and> (\<exists>s \<in> S. at_status i s (w_db w)))"

lemma tracked_step: "tracked d i S w \<Longrightarrow> db_rel same_jobs w w' \<Longrightarrow> tracked d i S w'"
  using advances_trans [OF _ advances_same, of d "w_db w" "w_db w'"]
    at_status_same [of "w_db w'" "w_db w"]
  by (simp add: tracked_def db_rel_def same_jobs_def)

lemma tracked_adv: "tracked d i S w \<Longrightarrow> advances d (w_db w)"
  by (simp add: tracked_def)

lemma tracked_bind:
  assumes "moves (db_rel same_jobs) m" "tracked d i S w"
    and "\<And>x v. tracked d i S v \<Longrightarrow> wp (f x) (\<lambda>r w'. advances d (w_db w')) v"
  shows "wp (mbind m f) (\<lambda>r w'. advances d (w_db w')) w"
proof (rule wp_bind_moves [OF assms(1)], goal_cases)
  case (1 e v)
  show ?case by (rule tracked_adv [OF tracked_step [OF assms(2) 1]])
next
  case (2 x v)
  show ?case by (rule assms(3) [OF tracked_step [OF assms(2) 2]])
qed

lemma tracked_seq:
  assumes "moves (db_rel same_jobs) m" "tracked d i S w"
    and "\<And>v. tracked d i S v \<Longrightarrow> wp k (\<lambda>r w'. advances d (w_db w')) v"
  shows "wp (mseq m k) (\<lambda>r w'. advances d (w_db w')) w"
  unfolding mseq_def using assms by (rule tracked_bind)

lemma tracked_last: "moves (db_rel same_jobs) m \<Longrightarrow> tracked d i S w \<Longrightarrow> wp m (\<lambda>r w'. advances d (w_db w')) w"
  by (erule moves_wp) (blast intro: tracked_adv tracked_step)

lemma tracked_status:
  assumes "tracked d i S w" "\<And>s. s \<in> S \<Longrightarrow> can_transition\<^sup>*\<^sup>* s t"
    and "\<And>v. tracked d i {t} v \<Longrightarrow> wp k (\<lambda>r w'. advances d (w_db w')) v"
  shows "wp (mseq (update_job_status env i t data res err) k) (\<lambda>r w'. advances d (w_db w')) w"
proof -
  obtain s where s: "s \<in> S" "at_status i s (w_db w)" "advances d (w_db w)"
    using assms(1) by (auto simp: tracked_def)
  show ?thesis
    unfolding wp_seq
    by (rule wp_mono [OF status_advances [OF s(2) assms(2) [OF s(1)]]])
      (use s(3) in \<open>auto simp: tracked_def intro: advances_trans intro!: assms(3) split: sum.split\<close>)
qed

lemma quiet_publish: "moves (db_rel same_jobs) (publish ops t j x)"
  by (rule same_jobs.same [OF same_db_publish])

lemma finalize_advances:
  assumes "tracked d (jb_id job) S w" "\<And>s. s \<in> S \<Longrightarrow> s = jb_status job \<or> s = ''partially_filled''"
  shows "wp (finalize_fill rc job e q p) (\<lambda>r w'. advances d (w_db w')) w"
proof -
  have to: "can_transition\<^sup>*\<^sup>* s ''filled''" if "can_transition (jb_status job) ''filled''" "s \<in> S" for s
    using assms(2) [OF that(2)] that(1) by (auto simp: can_transition_iff)
  have pub: "tracked d i T v \<Longrightarrow> wp (publish ops t j x) (\<lambda>r w'. advances d (w_db w')) v" for i T v ops t j x
    by (rule tracked_last [OF quiet_publish])
  show ?thesis
    using assms(1) unfolding finalize_fill_def Let_def mwhen_def
    by (auto simp: wp_ret tracked_def [of _ _ S] mseq_def [of "mret ()"] wp_bind to
        intro!: tracked_status [OF assms(1)] pub [OF assms(1)] pub)
qed

lemma cancel_advances:
  assumes "tracked d (jb_id job) {jb_status job} w"
  shows "wp (handle_cancel rc job e st t) (\<lambda>r w'. advances d (w_db w')) w"
proof -
  have pub: "tracked d i T v \<Longrightarrow> wp (publish ops k j x) (\<lambda>r w'. advances d (w_db w')) v" for i T v ops k j x
    by (rule tracked_last [OF quiet_publish])
  show ?thesis
    unfolding handle_cancel_def mwhen_def
    by (auto simp: mseq_def [of "mret ()"] wp_bind wp_ret
        intro!: pub [OF assms] pub tracked_status [OF assms])
qed

lemma partial_advances:
  assumes "tracked d (jb_id job) {jb_status job} w"
  shows "wp (handle_partial_fill rc job c e u sy) (\<lambda>r w'. advances d (w_db w')) w"
proof -
  let ?i = "jb_id job" and ?s = "jb_status job"
  have finish: "wp (mwhen b (finalize_fill rc job e q p)) (\<lambda>r w'. advances d (w_db w')) v"
    if "tracked d ?i {?s} v \<or> tracked d ?i {''partially_filled''} v" for b q p v
    using that by (auto simp: wp_when intro: tracked_adv finalize_advances)
  have tail: "wp (mseq (publish (rc_ops rc) t j x) (mwhen b (finalize_fill rc job e q p)))
      (\<lambda>r w'. advances d (w_db w')) v"
    if "tracked d ?i {?s} v \<or> tracked d ?i {''partially_filled''} v" for t j x b q p v
    using that
  proof
    assume "tracked d ?i {?s} v"
    then show ?thesis by (rule tracked_seq [OF quiet_publish]) (rule finish, simp)
  next
    assume "tracked d ?i {''partially_filled''} v"
    then show ?thesis by (rule tracked_seq [OF quiet_publish]) (rule finish, simp)
  qed
  have mark: "wp (mseq (mwhen (?s \<noteq> ''partially_filled'' \<and> can_transition ?s ''partially_filled'')
        (update_job_status env ?i ''partially_filled'' data None None))
      (mseq (publish (rc_ops rc) t j x) (mwhen b (finalize_fill rc job e q p))))
      (\<lambda>r w'. advances d (w_db w')) v"
    if v: "tracked d ?i {?s} v" for env data t j x b q p v
    using v unfolding mwhen_def [of "_ \<and> _"]
    by (auto simp: mseq_def [of "mret ()"] wp_bind wp_ret
        intro!: tracked_status [OF v] tail)
  show ?thesis
    unfolding handle_partial_fill_def Let_def get_order_by_client_order_id_def
      get_fill_by_exchange_trade_id_def order_missing_def
    apply (rule tracked_bind [OF same_jobs_query assms])
    apply (split option.split, intro conjI allI impI)
     apply (rule tracked_last [OF quiet_publish], assumption)
    apply (auto simp: wp_ret intro: tracked_adv intro!: tracked_bind [OF same_jobs_query]
        tracked_seq [OF same_jobs_leg] tracked_seq [OF same_jobs_update] mark)
    done
qed

lemma full_advances:
  assumes "tracked d (jb_id job) {jb_status job} w"
  shows "wp (handle_full_fill rc job c e u sy) (\<lambda>r w'. advances d (w_db w')) w"
proof -
  have leg: "moves (db_rel same_jobs) (mwhen b (mbind (query env q) (\<lambda>x. mwhen (f x) (insert_leg rc job r u t g s))))"
    for b env q f r t g s and x :: "'c option"
    by (intro same_jobs.w.rules same_jobs_query same_jobs_leg)
  show ?thesis
    unfolding handle_full_fill_def Let_def get_order_by_client_order_id_def
      get_fill_by_exchange_trade_id_def order_missing_def
    apply (rule tracked_bind [OF same_jobs_query assms])
    apply (split option.split, intro conjI allI impI)
     apply (rule tracked_last [OF quiet_publish], assumption)
    apply (rule tracked_seq [OF leg], assumption)
    apply (rule tracked_seq [OF same_jobs_update], assumption)
    apply (erule finalize_advances)
    apply simp
    done
qed

lemma job_tracked:
  assumes "job_by_coid c d = Some j" "distinct (job_ids d)" "w_db w = d"
  shows "tracked d (jb_id j) {jb_status j} w"
proof -
  have "j \<in> set (d_jobs d)" using assms(1) by (auto simp: job_by_coid_def dest: find_some_in)
  then have "find_job (jb_id j) d = Some j"
    using find_unique [of jb_id "d_jobs d" j] assms(2) by (simp add: find_job_def job_ids_def)
  then show ?thesis using assms(3) by (simp add: tracked_def at_status_def advances_same)
qed

lemma ledger_sel:
  assumes "ledger d' = ledger d"
  shows "d_jobs d' = d_jobs d" "d_job_events d' = d_job_events d" "d_fills d' = d_fills d"
    "d_orders d' = d_orders d" "d_balances d' = d_balances d" "d_positions d' = d_positions d"
  using arg_cong [OF assms, of d_jobs] arg_cong [OF assms, of d_job_events]
    arg_cong [OF assms, of d_fills] arg_cong [OF assms, of d_orders]
    arg_cong [OF assms, of d_balances] arg_cong [OF assms, of d_positions]
  by (simp_all add: ledger_def)

lemma user_order_advances:
  fixes rc :: "'r recon"
  shows "wp (handle_user_order rc ev) (\<lambda>r w'. advances (w_db w) (w_db w')) w"
proof (cases "distinct (job_ids (w_db w))")
  case False
  then show ?thesis by (simp add: advances_def wp_def split: prod.split)
next
  case True
  show ?thesis
  proof (rule user_order_rel)
    show "advances d d" for d by (rule advances_same) simp
    show "ledger d' = ledger d \<Longrightarrow> advances d d'" for d d'
      by (rule advances_same) (rule ledger_sel)
    fix c j and v :: "'r exec_world"
    assume "job_by_coid c (w_db v) = Some j" "w_db v = w_db w"
    then have v: "tracked (w_db w) (jb_id j) {jb_status j} v"
      using True job_tracked [of c "w_db w" j v] by simp
    show "wp (reconcile_job rc ev j c) (\<lambda>r w'. advances (w_db w) (w_db w')) v"
      unfolding reconcile_job_def Let_def
      using tracked_adv [OF v]
      by (auto simp: wp_bind wp_lift wp_ret split: sum.split
          intro!: cancel_advances [OF v] partial_advances [OF v] full_advances [OF v]
            tracked_last [OF same_jobs.same [OF same_db_terminal] v])
  qed
qed

section \<open>Integrity\<close>

lemma keeps_ok_counts: "moves (db_rel keeps_ok) count_orphan" "moves (db_rel keeps_ok) count_fill"
  by (rule keeps_ok.same, rule same_db_counts)+

lemmas keeps_ok_rules = keeps_ok.w.rules moves keeps_ok_counts

lemma keeps_ok_leg: "moves (db_rel keeps_ok) (insert_leg rc job order u t q sy)"
  unfolding insert_leg_def discard_def by (intro keeps_ok_rules)

lemma keeps_ok_finalize: "moves (db_rel keeps_ok) (finalize_fill rc job e q p)"
  unfolding finalize_fill_def Let_def by (auto intro!: keeps_ok_rules)

lemma keeps_ok_partial: "moves (db_rel keeps_ok) (handle_partial_fill rc job c e u sy)"
  unfolding handle_partial_fill_def Let_def get_order_by_client_order_id_def
    get_fill_by_exchange_trade_id_def order_missing_def
  by (auto intro!: keeps_ok_rules keeps_ok_leg keeps_ok_finalize split: option.split)

lemma keeps_ok_full: "moves (db_rel keeps_ok) (handle_full_fill rc job c e u sy)"
  unfolding handle_full_fill_def Let_def get_order_by_client_order_id_def
    get_fill_by_exchange_trade_id_def order_missing_def
  by (auto intro!: keeps_ok_rules keeps_ok_leg keeps_ok_finalize split: option.split)

lemma keeps_ok_reconcile: "moves (db_rel keeps_ok) (reconcile_job rc ev job c)"
  unfolding reconcile_job_def Let_def handle_cancel_def job_terminal_def
  by (auto intro!: keeps_ok_rules keeps_ok_partial keeps_ok_full)

lemma keeps_ok_user_order: "moves (db_rel keeps_ok) (handle_user_order rc ev)"
  unfolding handle_user_order_def Let_def not_ours_def job_unknown_def get_job_by_client_order_id_def
  by (auto intro!: keeps_ok_rules keeps_ok_reconcile split: option.split)

lemma keeps_ok_recon: "moves (db_rel keeps_ok) (recon_process rc msg_id fs)"
  unfolding recon_process_def recon_ack_def
  by (auto intro!: keeps_ok_rules keeps_ok_user_order split: option.split sum.split)

text \<open>Processing an entry is handling its order update, if it has one, and an acknowledgement.\<close>

lemma recon_process_post:
  assumes same: "\<And>r d. d = w_db w \<Longrightarrow> Q r d" and failed: "\<And>d e r. Q (Inr ()) d \<Longrightarrow> Q (Inl e) d"
    and handler: "\<And>raw ev. map_of fs ''event'' = Some raw \<Longrightarrow> e_parse_event (rc_env rc) raw = Inr ev \<Longrightarrow>
      text_truthy (Some raw) \<Longrightarrow> ne_event_type ev = USER_ORDER \<Longrightarrow>
      wp (handle_user_order rc ev) (\<lambda>r w'. Q r (w_db w')) w"
  shows "wp (recon_process rc msg_id fs) (\<lambda>r w'. Q r (w_db w')) w"
proof -
  have ack: "Q (Inr ()) (w_db v) \<Longrightarrow> wp (recon_ack rc msg_id) (\<lambda>r w'. Q r (w_db w')) v" for v
    unfolding recon_ack_def
    by (rule moves_wp [OF same_db_ack], case_tac r) (simp_all add: same_db_def failed)
  show ?thesis
    unfolding recon_process_def
    by (auto simp: wp_seq wp_when same intro!: ack wp_mono [OF handler]
        split: option.split sum.split)
qed

lemma recon_process_typed:
  assumes "\<And>d. P d d"
    and "\<And>raw ev. map_of fs ''event'' = Some raw \<Longrightarrow> e_parse_event (rc_env rc) raw = Inr ev \<Longrightarrow>
      text_truthy (Some raw) \<Longrightarrow> ne_event_type ev = USER_ORDER \<Longrightarrow>
      wp (handle_user_order rc ev) (\<lambda>r w'. P (w_db w) (w_db w')) w"
  shows "wp (recon_process rc msg_id fs) (\<lambda>r w'. P (w_db w) (w_db w')) w"
  by (rule recon_process_post [of w "\<lambda>r. P (w_db w)"]) (use assms in auto)

section \<open>Redelivery\<close>

text \<open>The jobs, their events and the fills; the quantity and status of an order may be written again.\<close>

definition same_books :: "exec_db \<Rightarrow> exec_db \<Rightarrow> bool" where
  "same_books d d' = (d_jobs d' = d_jobs d \<and> d_job_events d' = d_job_events d \<and> d_fills d' = d_fills d)"

interpretation same_books: db_frame same_books
  by unfold_locales (auto simp: same_books_def)

lemma same_books_update: "moves (db_rel same_books) (update_order_filled_qty env oid fq ap st)"
proof (rule movesI)
  fix w w' :: "('a, exec_db, 'b) world_scheme" and r
  assume "update_order_filled_qty env oid fq ap st w = (r, w')"
  then show "db_rel same_books w w'"
    using update_order_effect [of env oid fq ap st w]
    by (auto simp: wp_def db_rel_def same_books_def effect_on_def update_order_def split: sum.splits if_splits)
qed

text \<open>
  An update is covered when its order already has the quantity or a fill of the leg; an event is
  inert when handling it can only write the order's quantity again.
\<close>

definition covered :: "string \<Rightarrow> uuid \<Rightarrow> rat \<Rightarrow> string \<Rightarrow> exec_db \<Rightarrow> bool" where
  "covered c account cumulative trade_id d =
     (\<forall>order. order_by_coid c d = Some order \<longrightarrow>
        dec (cumulative - or_filled_qty order) \<le> 0 \<or> (account, trade_id) \<in> set (fill_trades d))"

definition inert_for :: "'r recon \<Rightarrow> normalized_event \<Rightarrow> string \<Rightarrow> order_update \<Rightarrow> job_row \<Rightarrow> exec_db \<Rightarrow> bool" where
  "inert_for rc ev c u j d =
     (let status = dict_get ''order_status'' (JStr []) (ne_data ev);
          trade_id = leg_trade_id rc (dict_get ''exchange_order_id'' (JStr []) (ne_data ev)) u
      in \<not> is_terminal (jb_status j) \<longrightarrow>
         (status \<in> {JStr ''CANCELED'', JStr ''REJECTED'', JStr ''EXPIRED''} \<longrightarrow>
            \<not> can_transition (jb_status j) ''canceled'') \<and>
         (status \<in> {JStr ''PARTIALLY_FILLED'', JStr ''FILLED''} \<longrightarrow>
            covered c (jb_account_id j) (ou_cumulative u) trade_id d) \<and>
         (status = JStr ''FILLED'' \<longrightarrow> order_by_coid c d \<noteq> None \<longrightarrow> \<not> can_transition (jb_status j) ''filled''))"

definition inert :: "'r recon \<Rightarrow> normalized_event \<Rightarrow> exec_db \<Rightarrow> bool" where
  "inert rc ev d =
     (\<forall>c j u. event_coid ev = JStr c \<longrightarrow> startswith ''tp2-'' c \<longrightarrow> rc_has_repository rc \<longrightarrow>
        job_by_coid c d = Some j \<longrightarrow> order_update_of (ne_data ev) = Inr u \<longrightarrow> inert_for rc ev c u j d)"

lemma fill_by_trade_None: "(fill_by_trade a t d = None) = ((a, t) \<notin> set (fill_trades d))"
  by (auto simp: fill_by_trade_def fill_trades_def find_None_iff)

text \<open>Handling an inert event.\<close>

lemma quiet_books: "moves same_db m \<Longrightarrow> w_db v = d \<Longrightarrow> wp m (\<lambda>r w'. same_books d (w_db w')) v"
  by (erule moves_wp) (simp add: same_db_def same_books_def)

lemma partial_again:
  assumes "covered c (jb_account_id j) (ou_cumulative u) (leg_trade_id rc e u) (w_db v)"
  shows "wp (handle_partial_fill rc j c e u sy) (\<lambda>r w'. same_books (w_db v) (w_db w')) v"
proof -
  have *: "wp (mbind (get_fill_by_exchange_trade_id env a t) (\<lambda>x. if x \<noteq> None then mret () else k))
      (\<lambda>r w'. same_books (w_db v) (w_db w')) v1"
    if "(a, t) \<in> set (fill_trades (w_db v))" "w_db v1 = w_db v" for env a t k v1
    unfolding get_fill_by_exchange_trade_id_def wp_bind
    using that fill_by_trade_None [of a t "w_db v"]
    by (intro wp_mono [OF query_effect]) (auto simp: wp_ret same_books_def split: sum.split)
  show ?thesis
    unfolding handle_partial_fill_def Let_def get_order_by_client_order_id_def wp_bind [of "query _ _"]
    using assms
    by (intro wp_mono [OF query_effect])
      (auto simp: wp_ret same_books.refl covered_def simp del: not_None_eq
        intro!: quiet_books [OF same_db_missing] * split: sum.split option.split)
qed

lemma full_again:
  assumes "covered c (jb_account_id j) (ou_cumulative u) (leg_trade_id rc e u) (w_db v)"
    and "order_by_coid c (w_db v) \<noteq> None \<Longrightarrow> \<not> can_transition (jb_status j) ''filled''"
  shows "wp (handle_full_fill rc j c e u sy) (\<lambda>r w'. same_books (w_db v) (w_db w')) v"
proof -
  let ?update = "\<lambda>order. mseq (update_order_filled_qty (rc_env rc) (or_id order) (ou_cumulative u) (ou_avg_price u) (Some ''FILLED''))
      (finalize_fill rc j e (ou_cumulative u) (ou_avg_price u))"
  have up: "wp (?update order) (\<lambda>r w'. same_books (w_db v) (w_db w')) v1"
    if "w_db v1 = w_db v" "order_by_coid c (w_db v) = Some order" for v1 order
    unfolding finalize_fill_def Let_def using assms(2) that
    by (intro wp_seq_moves [OF same_books_update]) (auto simp: db_rel_def wp_ret)
  have leg: "wp (mseq (mwhen (0 < dec (ou_cumulative u - or_filled_qty order))
       (mbind (get_fill_by_exchange_trade_id env (jb_account_id j) (leg_trade_id rc e u)) (\<lambda>x. mwhen (x = None) k)))
       (?update order)) (\<lambda>r w'. same_books (w_db v) (w_db w')) v1"
    if "w_db v1 = w_db v" "order_by_coid c (w_db v) = Some order" for env v1 k order
    unfolding get_fill_by_exchange_trade_id_def wp_seq [of "mwhen _ _"] wp_when [of _ "mbind _ _"] wp_bind
    using assms(1) that up [OF _ that(2)] fill_by_trade_None [of "jb_account_id j" "leg_trade_id rc e u" "w_db v"]
    by (auto simp: covered_def wp_when same_books.refl intro!: wp_mono [OF query_effect] split: sum.split)
  show ?thesis
    unfolding handle_full_fill_def Let_def get_order_by_client_order_id_def wp_bind [of "query _ _"]
    using leg
    by (intro wp_mono [OF query_effect])
      (auto simp: same_books.refl intro!: quiet_books [OF same_db_missing]
        split: sum.split option.split)
qed

lemma inert_run:
  fixes rc :: "'r recon"
  assumes "inert rc ev (w_db w)"
  shows "wp (handle_user_order rc ev) (\<lambda>r w'. same_books (w_db w) (w_db w')) w"
proof (rule user_order_rel)
  show "same_books d d" for d by (rule same_books.refl)
  show "ledger d' = ledger d \<Longrightarrow> same_books d d'" for d d'
    using ledger_sel [of d' d] by (simp add: same_books_def)
  fix c j and v :: "'r exec_world"
  assume v: "event_coid ev = JStr c" "startswith ''tp2-'' c" "rc_has_repository rc"
    "job_by_coid c (w_db v) = Some j" "w_db v = w_db w"
  have cancel: "wp (handle_cancel rc j e st t) (\<lambda>r w'. same_books (w_db v) (w_db w')) v"
    if "\<not> can_transition (jb_status j) ''canceled''" for e st t
    unfolding handle_cancel_def if_P [OF that] by (rule quiet_books [OF same_db_publish HOL.refl])
  have "wp (reconcile_job rc ev j c) (\<lambda>r w'. same_books (w_db v) (w_db w')) v"
  proof (cases "is_terminal (jb_status j)")
    case True
    show ?thesis
      unfolding reconcile_job_def Let_def if_P [OF True]
      by (rule quiet_books [OF same_db_terminal HOL.refl])
  next
    case False
    show ?thesis
    proof (cases "order_update_of (ne_data ev)")
      case (Inl e)
      then show ?thesis
        using False by (simp add: reconcile_job_def Let_def wp_bind wp_lift same_books.refl)
    next
      case (Inr u)
      let ?st = "dict_get ''order_status'' (JStr []) (ne_data ev)"
      have i: "inert_for rc ev c u j (w_db v)"
        using assms v Inr by (simp add: inert_def)
      note facts = mp [OF i [unfolded inert_for_def Let_def] False]
      show ?thesis
        unfolding reconcile_job_def Let_def if_not_P [OF False] wp_bind wp_lift Inr sum.case
        by (simp only: split: if_split)
          (use facts in \<open>intro conjI impI cancel partial_again full_again, simp_all add: wp_ret same_books.refl\<close>)
    qed
  qed
  then show "wp (reconcile_job rc ev j c) (\<lambda>r w'. same_books (w_db w) (w_db w')) v"
    by (simp add: v(5))
qed

text \<open>What a handler that returned leaves behind.\<close>

definition job_keys :: "exec_db \<Rightarrow> (string \<times> uuid) list" where
  "job_keys d = map (\<lambda>j. (jb_client_order_id j, jb_account_id j)) (d_jobs d)"

definition more_books :: "exec_db \<Rightarrow> exec_db \<Rightarrow> bool" where
  "more_books d d' = (job_keys d' = job_keys d \<and> set (fill_trades d) \<subseteq> set (fill_trades d'))"

interpretation more_books: db_frame more_books
  by unfold_locales (auto simp: more_books_def)

lemma job_account_by_coid:
  "map_option jb_account_id (job_by_coid c d) = map_option snd (find (\<lambda>(k, _). k = c) (job_keys d))"
proof -
  have "map_option jb_account_id (find (\<lambda>j. jb_client_order_id j = c) js) =
      map_option snd (find (\<lambda>(k, _). k = c) (map (\<lambda>j. (jb_client_order_id j, jb_account_id j)) js))" for js
    by (induction js) auto
  then show ?thesis by (simp add: job_by_coid_def job_keys_def)
qed

lemma more_books_effect:
  assumes "\<And>w. wp m (\<lambda>r w'. effect_on (Q w) (w_db w) r (w_db w')) w" "\<And>w d d'. Q w d d' \<Longrightarrow> more_books d d'"
  shows "moves (db_rel more_books) m"
proof (rule movesI)
  fix w r w'
  assume "m w = (r, w')"
  then show "db_rel more_books w w'"
    using assms(1) [of w] assms(2) [of w "w_db w" "w_db w'"]
    by (auto simp: wp_def effect_on_def db_rel_def more_books.refl split: sum.splits)
qed

lemma more_books_status: "moves (db_rel more_books) (update_job_status env i s data res err)"
  by (rule more_books_effect [OF status_effect])
    (auto simp: status_set_def more_books_def job_keys_def fill_trades_def update_job_def insert_event_def)

lemma more_books_insert: "moves (db_rel more_books) (insert_fill env oid a t sy sd p q c ca tm pnl)"
  by (rule more_books_effect [OF insert_fill_effect]) (auto simp: more_books_def job_keys_def fill_trades_def)

lemma more_books_update: "moves (db_rel more_books) (update_order_filled_qty env oid fq ap st)"
  by (rule more_books_effect [OF update_order_effect])
    (auto simp: more_books_def job_keys_def fill_trades_def update_order_def split: if_splits)

lemmas more_books_rules =
  more_books.w.rules more_books_status more_books_insert more_books_update
  more_books.same [OF same_db_publish] more_books.same [OF same_db_query] more_books.same [OF same_db_counts(2)]

lemma more_books_finalize: "moves (db_rel more_books) (finalize_fill rc j e q p)"
  unfolding finalize_fill_def Let_def by (auto intro!: more_books_rules)

lemma job_by_coid_status:
  assumes "job_by_coid c d = Some j"
  shows "job_by_coid c (status_set (jb_id j) t data res err now d) = Some (set_status t res err j)"
proof -
  have "j \<in> set (d_jobs d)" using assms by (auto simp: job_by_coid_def dest: find_some_in)
  then have "find_job (jb_id j) d \<noteq> None" by (simp only: find_job_None) (simp add: job_ids_def)
  then show ?thesis
    using assms by (simp add: status_set_def del: not_None_eq) (simp add: job_by_coid_def insert_event_def update_job_def find_map_key)
qed

lemma partial_covers:
  "wp (handle_partial_fill rc j c e u sy)
     (\<lambda>r w'. r = Inr () \<longrightarrow> covered c (jb_account_id j) (ou_cumulative u) (leg_trade_id rc e u) (w_db w')) v"
proof -
  let ?a = "jb_account_id j" and ?t = "leg_trade_id rc e u"
  let ?Q = "\<lambda>r w'. r = Inr () \<longrightarrow> covered c ?a (ou_cumulative u) ?t (w_db w')"
  have missing: "order_by_coid c (w_db v1) = None \<Longrightarrow> wp (order_missing rc j c) ?Q v1" for v1
    by (rule moves_wp [OF same_db_missing]) (simp add: same_db_def covered_def)
  have leg: "wp (insert_leg rc j order u ?t q sy) (\<lambda>r w'. r = Inr () \<longrightarrow> (?a, ?t) \<in> set (fill_trades (w_db w'))) v1"
    for order q v1
    unfolding insert_leg_def discard_def count_fill_def
    by (auto simp: wp_bind wp_lift wp_seq wp_put wp_ret intro!: wp_mono [OF insert_fill_effect]
        split: json.split sum.split) (auto simp: fill_trades_def)
  have last: "wp m ?Q v1" if "moves (db_rel more_books) m" "(?a, ?t) \<in> set (fill_trades (w_db v1))" for m v1
    by (rule moves_wp [OF that(1)]) (use that(2) in \<open>auto simp: covered_def db_rel_def more_books_def\<close>)
  have tail: "wp (mseq (insert_leg rc j order u ?t q sy) m) ?Q v1" if "moves (db_rel more_books) m" for order q m v1
    unfolding wp_seq by (rule wp_mono [OF leg]) (auto intro!: last [OF that] split: sum.split)
  have find: "wp (mbind (query env (fill_by_trade ?a ?t)) (\<lambda>x. if x \<noteq> None then mret ()
      else mseq (insert_leg rc j order u ?t q sy) m)) ?Q v1"
    if "moves (db_rel more_books) m" for env order q m v1
    unfolding wp_bind
  proof (rule wp_mono [OF query_effect], elim conjE, goal_cases)
    case (1 r v2)
    show ?case
    proof (cases r)
      case (Inr found)
      then have found: "(found = None) = ((?a, ?t) \<notin> set (fill_trades (w_db v2)))"
        using 1 fill_by_trade_None [of ?a ?t "w_db v1"] by simp
      show ?thesis
      proof (cases "found = None")
        case True
        then show ?thesis unfolding Inr sum.case by (simp add: tail [OF that])
      next
        case False
        then show ?thesis unfolding Inr sum.case using found by (simp add: wp_ret covered_def del: not_None_eq)
      qed
    qed simp
  qed
  have enough: "dec (ou_cumulative u - or_filled_qty order) \<le> 0 \<Longrightarrow> order_by_coid c (w_db v1) = Some order \<Longrightarrow>
      wp (mret ()) ?Q v1" for order v1
    by (simp add: wp_ret covered_def)
  have rest: "wp (if dec (ou_cumulative u - or_filled_qty order) \<le> 0 then mret () else
      mbind (query env (fill_by_trade ?a ?t)) (\<lambda>x. if x \<noteq> None then mret ()
      else mseq (insert_leg rc j order u ?t q sy) m)) ?Q v1"
    if "moves (db_rel more_books) m" "order_by_coid c (w_db v1) = Some order" for env order q m v1
    using find [OF that(1)] enough [OF _ that(2)] by (simp only: split: if_split) blast
  show ?thesis
    unfolding handle_partial_fill_def Let_def get_order_by_client_order_id_def
      get_fill_by_exchange_trade_id_def wp_bind [of "query _ (order_by_coid c)"]
  proof (rule wp_mono [OF query_effect], elim conjE, goal_cases)
    case (1 r v1)
    show ?case
    proof (cases r)
      case (Inr found)
      then have found: "order_by_coid c (w_db v1) = found" using 1 by simp
      show ?thesis
      proof (cases found)
        case None
        then show ?thesis unfolding Inr using found by (simp add: missing)
      next
        case (Some order)
        show ?thesis
          unfolding Inr Some sum.case option.case
          by (rule rest) (intro more_books_rules more_books_finalize, simp add: found Some)
      qed
    qed simp
  qed
qed

lemma cancel_settles:
  assumes "job_by_coid c (w_db v) = Some j" "rc_has_repository rc"
  shows "wp (handle_cancel rc j e st t) (\<lambda>r w'. r = Inr () \<longrightarrow>
     (\<exists>j'. job_by_coid c (w_db w') = Some j' \<and> \<not> can_transition (jb_status j') ''canceled'')) v"
proof -
  have pub: "job_by_coid c (w_db v1) = Some j' \<Longrightarrow> \<not> can_transition (jb_status j') ''canceled'' \<Longrightarrow>
      wp (publish ops k i x) (\<lambda>r w'. r = Inr () \<longrightarrow>
     (\<exists>j'. job_by_coid c (w_db w') = Some j' \<and> \<not> can_transition (jb_status j') ''canceled'')) v1" for v1 j' ops k i x
    by (rule moves_wp [OF same_db_publish]) (simp add: same_db_def)
  have stuck: "\<not> can_transition ''canceled'' ''canceled''" by (simp add: can_transition_iff)
  show ?thesis
  proof (cases "can_transition (jb_status j) ''canceled''")
    case True
    show ?thesis
      unfolding handle_cancel_def
      by (simp add: True assms(2) wp_seq mwhen_def, intro wp_mono [OF status_effect])
        (auto split: sum.split intro!: pub simp: job_by_coid_status [OF assms(1)] stuck)
  next
    case False
    then show ?thesis
      unfolding handle_cancel_def using pub [OF assms(1)] by simp
  qed
qed

lemma finalize_settles:
  assumes "job_by_coid c (w_db v) = Some j" "rc_has_repository rc"
    and "order_by_coid c (w_db v) = Some order" "or_filled_qty order = cum"
  shows "wp (finalize_fill rc j e q p) (\<lambda>r w'. r = Inr () \<longrightarrow>
     (\<exists>j'. job_by_coid c (w_db w') = Some j' \<and> \<not> can_transition (jb_status j') ''filled'') \<and>
     (\<exists>order. order_by_coid c (w_db w') = Some order \<and> or_filled_qty order = cum)) v"
proof -
  have pub: "job_by_coid c (w_db v1) = Some j' \<Longrightarrow> \<not> can_transition (jb_status j') ''filled'' \<Longrightarrow>
      order_by_coid c (w_db v1) = Some order \<Longrightarrow>
      wp (publish ops k i x) (\<lambda>r w'. r = Inr () \<longrightarrow>
     (\<exists>j'. job_by_coid c (w_db w') = Some j' \<and> \<not> can_transition (jb_status j') ''filled'') \<and>
     (\<exists>order. order_by_coid c (w_db w') = Some order \<and> or_filled_qty order = cum)) v1" for v1 j' ops k i x
    by (rule moves_wp [OF same_db_publish]) (use assms(4) in \<open>simp add: same_db_def\<close>)
  have stuck: "\<not> can_transition ''filled'' ''filled''" by (simp add: can_transition_iff)
  have orders: "order_by_coid c (status_set i s data res err now (w_db v)) = Some order" for i s data res err now
    using assms(3) by (simp add: order_by_coid_def status_set_def update_job_def insert_event_def)
  show ?thesis
  proof (cases "can_transition (jb_status j) ''filled''")
    case True
    show ?thesis
      unfolding finalize_fill_def Let_def
      by (simp add: True assms(2) wp_seq mwhen_def, intro wp_mono [OF status_effect])
        (auto split: sum.split intro!: pub simp: job_by_coid_status [OF assms(1)] stuck orders)
  next
    case False
    then show ?thesis
      unfolding finalize_fill_def using assms by (simp add: wp_ret)
  qed
qed

definition same_orders :: "exec_db \<Rightarrow> exec_db \<Rightarrow> bool" where
  "same_orders d d' = (d_orders d' = d_orders d \<and> d_jobs d' = d_jobs d)"

interpretation same_orders: db_frame same_orders
  by unfold_locales (auto simp: same_orders_def)

lemma same_orders_insert: "moves (db_rel same_orders) (insert_fill env oid a t sy sd p q c ca tm pnl)"
proof (rule movesI)
  fix w w' :: "('a, exec_db, 'b) world_scheme" and r
  assume "insert_fill env oid a t sy sd p q c ca tm pnl w = (r, w')"
  then show "db_rel same_orders w w'"
    using insert_fill_effect [of env oid a t sy sd p q c ca tm pnl w]
    by (auto simp: wp_def db_rel_def same_orders_def effect_on_def split: sum.splits)
qed

lemma same_orders_leg: "moves (db_rel same_orders) (insert_leg rc j order u t q sy)"
  unfolding insert_leg_def discard_def
  by (intro same_orders.w.rules same_orders_insert same_orders.same [OF same_db_counts(2)])

lemma order_by_coid_update:
  assumes "order_by_coid c d = Some order" "\<And>r. or_client_order_id (f r) = or_client_order_id r"
  shows "order_by_coid c (update_order (or_id order) f d) = Some (f order)" "find_order (or_id order) d \<noteq> None"
proof -
  have "order \<in> set (d_orders d)" using assms by (auto simp: order_by_coid_def dest: find_some_in)
  then show "find_order (or_id order) d \<noteq> None" by (simp only: find_order_None) (simp add: order_ids_def)
  show "order_by_coid c (update_order (or_id order) f d) = Some (f order)"
    using assms by (simp add: order_by_coid_def update_order_def find_map_key)
qed

text \<open>After a full fill the order has the quantity and its job is not one that could be filled.\<close>

definition full_done :: "string \<Rightarrow> rat \<Rightarrow> exec_db \<Rightarrow> bool" where
  "full_done c q d =
     ((\<exists>j. job_by_coid c d = Some j \<and> (order_by_coid c d \<noteq> None \<longrightarrow> \<not> can_transition (jb_status j) ''filled'')) \<and>
      (\<forall>order. order_by_coid c d = Some order \<longrightarrow> or_filled_qty order = q))"

lemma update_settles:
  assumes "job_by_coid c (w_db v) = Some j" "order_by_coid c (w_db v) = Some order" "rc_has_repository rc"
    and exact: "\<And>y. e_numeric env 30 12 q = Some y \<Longrightarrow> y = q"
  shows "wp (mseq (update_order_filled_qty env (or_id order) q p st) (finalize_fill rc j e q' p'))
     (\<lambda>r w'. r = Inr () \<longrightarrow> full_done c q (w_db w')) v"
  unfolding wp_seq
proof (rule wp_mono [OF update_order_effect], goal_cases)
  case (1 r v2)
  show ?case
  proof (cases r)
    case (Inr x)
    note found = order_by_coid_update [OF assms(2)]
    obtain fq ap where fq: "num_col env 30 12 q = Inr fq"
      and v2: "w_db v2 = update_order (or_id order) (\<lambda>r. r\<lparr>or_filled_qty := fq, or_avg_fill_price := Some ap,
          or_status := (case st of None \<Rightarrow> or_status r | Some s \<Rightarrow> s), or_updated_at_ms := w_now v\<rparr>) (w_db v)"
      using 1(2) Inr found(2) [of id] by (auto split: if_splits)
    have q: "fq = q" using fq exact by (auto simp: num_col_def split: option.splits)
    have j: "job_by_coid c (w_db v2) = Some j"
      unfolding v2 using assms(1) by (simp add: job_by_coid_def update_order_def)
    have "order_by_coid c (w_db v2) = Some (order\<lparr>or_filled_qty := q, or_avg_fill_price := Some ap,
          or_status := (case st of None \<Rightarrow> or_status order | Some s \<Rightarrow> s), or_updated_at_ms := w_now v\<rparr>)"
      unfolding v2 q by (rule found(1)) simp
    from finalize_settles [OF j assms(3) this] show ?thesis
      unfolding Inr sum.case by (rule wp_mono) (simp, auto simp: full_done_def)
  qed simp
qed

lemma full_settles:
  assumes "job_by_coid c (w_db v) = Some j" "rc_has_repository rc"
    and exact: "\<And>y. e_numeric (rc_env rc) 30 12 (ou_cumulative u) = Some y \<Longrightarrow> y = ou_cumulative u"
  shows "wp (handle_full_fill rc j c e u sy) (\<lambda>r w'. r = Inr () \<longrightarrow> full_done c (ou_cumulative u) (w_db w')) v"
    (is "wp _ ?Q v")
proof -
  have leg: "wp (mseq (mwhen b (mbind (query env f) (\<lambda>x. mwhen (g x) (insert_leg rc j order u t q sy))))
      (mseq (update_order_filled_qty (rc_env rc) (or_id order) (ou_cumulative u) p st) (finalize_fill rc j e q' p))) ?Q v1"
    if v1: "job_by_coid c (w_db v1) = Some j" "order_by_coid c (w_db v1) = Some order" for v1 order p q q' st b env f g t
  proof -
    have leg: "moves (db_rel same_orders) (mwhen b (mbind (query env f) (\<lambda>x. mwhen (g x) (insert_leg rc j order u t q sy))))"
      by (intro same_orders.w.rules same_orders_leg same_orders.same [OF same_db_query])
    show ?thesis
    proof (rule wp_seq_moves [OF leg], simp, goal_cases)
      case (1 v2)
      then have "job_by_coid c (w_db v2) = Some j" "order_by_coid c (w_db v2) = Some order"
        using v1 by (simp_all add: job_by_coid_def order_by_coid_def db_rel_def same_orders_def)
      then show ?case by (rule update_settles [OF _ _ assms(2) exact])
    qed
  qed
  have missing: "job_by_coid c (w_db v1) = Some j \<Longrightarrow> order_by_coid c (w_db v1) = None \<Longrightarrow> wp (order_missing rc j c) ?Q v1" for v1
    by (rule moves_wp [OF same_db_missing]) (simp add: same_db_def full_done_def)
  show ?thesis
    unfolding handle_full_fill_def Let_def get_order_by_client_order_id_def
      get_fill_by_exchange_trade_id_def wp_bind [of "query _ (order_by_coid c)"]
    using assms(1)
    by (intro wp_mono [OF query_effect])
      (auto simp del: not_None_eq split: sum.split option.split intro!: missing leg)
qed

lemma more_books_leg: "moves (db_rel more_books) (insert_leg rc j order u t q sy)"
  unfolding insert_leg_def discard_def by (intro more_books_rules)

lemma more_books_handlers:
  "moves (db_rel more_books) (handle_cancel rc j e st t)"
  "moves (db_rel more_books) (handle_partial_fill rc j c e u sy)"
  "moves (db_rel more_books) (handle_full_fill rc j c e u sy)"
  unfolding handle_cancel_def handle_partial_fill_def handle_full_fill_def Let_def
    get_order_by_client_order_id_def get_fill_by_exchange_trade_id_def order_missing_def
  by (auto intro!: more_books_rules more_books_leg more_books_finalize split: option.split)

lemma account_kept:
  assumes "more_books d d'" "job_by_coid c d = Some j" "job_by_coid c d' = Some j'"
  shows "jb_account_id j' = jb_account_id j"
  using assms job_account_by_coid [of c d] job_account_by_coid [of c d']
  by (simp add: more_books_def) (metis option.inject)

text \<open>The first delivery, when it returns, leaves the event inert.\<close>

lemma reconcile_settles:
  assumes j: "job_by_coid c (w_db v) = Some j" and repo: "rc_has_repository rc"
    and exact: "\<And>u y. order_update_of (ne_data ev) = Inr u \<Longrightarrow>
        e_numeric (rc_env rc) 30 12 (ou_cumulative u) = Some y \<Longrightarrow> y = ou_cumulative u"
  shows "wp (reconcile_job rc ev j c) (\<lambda>r w'. r = Inr () \<longrightarrow>
     (\<forall>j' u. job_by_coid c (w_db w') = Some j' \<longrightarrow> order_update_of (ne_data ev) = Inr u \<longrightarrow>
        inert_for rc ev c u j' (w_db w'))) v"
    (is "wp _ ?Q v")
proof (cases "is_terminal (jb_status j)")
  case True
  show ?thesis
    unfolding reconcile_job_def Let_def if_P [OF True]
    by (rule moves_wp [OF same_db_terminal]) (use j True in \<open>simp add: same_db_def inert_for_def\<close>)
next
  case False
  note running = this
  let ?st = "dict_get ''order_status'' (JStr []) (ne_data ev)"
  let ?e = "dict_get ''exchange_order_id'' (JStr []) (ne_data ev)"
  show ?thesis
  proof (cases "order_update_of (ne_data ev)")
    case (Inl e)
    then show ?thesis using running by (simp add: reconcile_job_def Let_def wp_bind wp_lift)
  next
    case (Inr u)
    have cancel: "wp (handle_cancel rc j ?e ?st t) ?Q v"
      if "?st \<in> {JStr ''CANCELED'', JStr ''REJECTED'', JStr ''EXPIRED''}" for t
      by (rule wp_mono [OF cancel_settles [OF j repo]]) (use that Inr in \<open>auto simp: inert_for_def\<close>)
    have partial: "wp (handle_partial_fill rc j c ?e u sy) ?Q v" if "?st = JStr ''PARTIALLY_FILLED''" for sy
    proof (rule wpI)
      fix r w'
      assume run: "handle_partial_fill rc j c ?e u sy v = (r, w')"
      have "more_books (w_db v) (w_db w')"
        using movesD [OF more_books_handlers(2) run] by (simp add: db_rel_def)
      moreover have "r = Inr () \<longrightarrow> covered c (jb_account_id j) (ou_cumulative u) (leg_trade_id rc ?e u) (w_db w')"
        using partial_covers [of rc j c ?e u sy v] run by (simp add: wp_def)
      ultimately show "?Q r w'"
        using that Inr account_kept [OF _ j] by (auto simp: inert_for_def)
    qed
    have full: "wp (handle_full_fill rc j c ?e u sy) ?Q v" if "?st = JStr ''FILLED''" for sy
      by (rule wp_mono [OF full_settles [OF j repo exact [OF Inr]]])
        (use that Inr in \<open>auto simp: inert_for_def full_done_def covered_def dec.zero\<close>)
    show ?thesis
      unfolding reconcile_job_def Let_def if_not_P [OF running] wp_bind wp_lift Inr sum.case
      using cancel partial full Inr by (simp add: wp_ret j inert_for_def)
  qed
qed

lemma first_run:
  assumes exact: "\<And>u y. order_update_of (ne_data ev) = Inr u \<Longrightarrow>
        e_numeric (rc_env rc) 30 12 (ou_cumulative u) = Some y \<Longrightarrow> y = ou_cumulative u"
  shows "wp (handle_user_order rc ev) (\<lambda>r w'. r = Inr () \<longrightarrow> inert rc ev (w_db w')) w"
    (is "wp _ ?Q w")
proof (cases "event_coid ev")
  case (JStr c)
  show ?thesis
  proof (cases "startswith ''tp2-'' c \<and> rc_has_repository rc")
    case True
    have unknown: "job_by_coid c (w_db v) = None \<Longrightarrow> wp (job_unknown rc c st) ?Q v" for v st
    proof (rule moves_wp [OF same_ledger_unknown])
      fix v' :: "'a exec_world"
      assume "job_by_coid c (w_db v) = None" "db_rel same_ledger v v'"
      then have "job_by_coid c (w_db v') = None"
        using ledger_sel [of "w_db v'" "w_db v"] by (simp add: db_rel_def same_ledger_def job_by_coid_def)
      then show "?Q r v'" for r using JStr by (simp add: inert_def)
    qed
    have known: "job_by_coid c (w_db v) = Some j \<Longrightarrow> wp (reconcile_job rc ev j c) ?Q v" for v j
      using True JStr by (intro wp_mono [OF reconcile_settles [OF _ _ exact]]) (auto simp: inert_def)
    show ?thesis
      unfolding handle_user_order_def Let_def event_coid_def [symmetric] JStr json.case wp_bind wp_lift sum.case
        get_job_by_client_order_id_def
      using True
      by (simp add: wp_bind del: not_None_eq, intro wp_mono [OF query_effect])
        (auto split: sum.split option.split intro!: unknown known)
  next
    case False
    then show ?thesis using JStr by (auto simp: inert_def wp_def split: prod.split)
  qed
qed (simp_all add: inert_def wp_def split: prod.split)

section \<open>Fills add up\<close>

definition fill_total :: "exec_db \<Rightarrow> uuid \<Rightarrow> rat" where
  "fill_total d i = sum_list (map fl_qty (filter (\<lambda>f. fl_order_id f = i) (d_fills d)))"

definition balanced :: "exec_db \<Rightarrow> bool" where
  "balanced d = (\<forall>order \<in> set (d_orders d).
     fill_total d (or_id order) = or_filled_qty order \<and> twelve_places (or_filled_qty order))"

definition same_money :: "exec_db \<Rightarrow> exec_db \<Rightarrow> bool" where
  "same_money d d' = (d_orders d' = d_orders d \<and> d_fills d' = d_fills d)"

interpretation same_money: db_frame same_money
  by unfold_locales (auto simp: same_money_def)

lemma balanced_same: "same_money d d' \<Longrightarrow> balanced d' = balanced d"
  by (simp add: same_money_def balanced_def fill_total_def)

lemma same_money_status: "moves (db_rel same_money) (update_job_status env i s data res err)"
proof (rule movesI)
  fix w w' :: "('a, exec_db, 'b) world_scheme" and r
  assume "update_job_status env i s data res err w = (r, w')"
  then show "db_rel same_money w w'"
    using status_effect [of env i s data res err w]
    by (auto simp: wp_def db_rel_def same_money_def effect_on_def status_set_def insert_event_def update_job_def
        split: sum.splits)
qed

lemmas same_money_rules =
  same_money.w.rules same_money_status same_money.same [OF same_db_publish] same_money.same [OF same_db_query]

lemma same_money_finalize: "moves (db_rel same_money) (finalize_fill rc j e q p)"
  unfolding finalize_fill_def Let_def by (auto intro!: same_money_rules)

text \<open>A column of twelve places keeps a number of twelve places.\<close>

definition exact_column :: "env \<Rightarrow> bool" where
  "exact_column env = (\<forall>n y. e_numeric env 30 12 (of_int n / 10 ^ 12) = Some y \<longrightarrow> y = of_int n / 10 ^ 12)"

lemma exact_num_col: "exact_column env \<Longrightarrow> num_col env 30 12 (of_int n / 10 ^ 12) = Inr y \<Longrightarrow> y = of_int n / 10 ^ 12"
  by (auto simp: num_col_def exact_column_def split: option.splits)

lemma exact_twelve: "exact_column env \<Longrightarrow> twelve_places x \<Longrightarrow> num_col env 30 12 x = Inr y \<Longrightarrow> y = x"
  unfolding twelve_places_def using exact_num_col by blast

lemma exact_twelve_diff:
  assumes "exact_column env" "twelve_places a" "twelve_places b" "num_col env 30 12 (a - b) = Inr y"
  shows "y = a - b"
proof -
  obtain m n where "a = of_int m / 10 ^ 12" "b = of_int n / 10 ^ 12"
    using assms(2,3) by (auto simp: twelve_places_def)
  then have ab: "a - b = of_int (m - n) / 10 ^ 12" by (simp add: diff_divide_distrib)
  show ?thesis using exact_num_col [OF assms(1), of "m - n" y] assms(4) by (simp only: ab)
qed

text \<open>One leg and the new quantity keep the balance.\<close>

lemma leg_balances:
  assumes "balanced d" "distinct (order_ids d)" "order \<in> set (d_orders d)" "twelve_places q"
    and row: "fl_order_id row = or_id order" "fl_qty row = q - or_filled_qty order"
    and f: "\<And>r. or_id (f r) = or_id r" "\<And>r. or_filled_qty (f r) = q"
  shows "balanced (update_order (or_id order) f (d\<lparr>d_fills := d_fills d @ [row]\<rparr>))"
proof -
  have same: "o1 = order" if "o1 \<in> set (d_orders d)" "or_id o1 = or_id order" for o1
    using that assms(2,3) by (auto simp: order_ids_def distinct_map dest: inj_onD)
  let ?d = "update_order (or_id order) f (d\<lparr>d_fills := d_fills d @ [row]\<rparr>)"
  have total: "fill_total ?d i = fill_total d i + (if i = or_id order then fl_qty row else 0)" for i
    using row(1) by (simp add: fill_total_def update_order_def)
  have "fill_total ?d (or_id o2) = or_filled_qty o2 \<and> twelve_places (or_filled_qty o2)"
    if o2: "o2 \<in> set (d_orders ?d)" for o2
  proof -
    obtain o1 where o1: "o1 \<in> set (d_orders d)" "o2 = (if or_id o1 = or_id order then f o1 else o1)"
      using o2 by (auto simp: update_order_def)
    have bal: "fill_total d (or_id o1) = or_filled_qty o1" "twelve_places (or_filled_qty o1)"
      using assms(1) o1(1) by (simp_all add: balanced_def)
    show ?thesis
    proof (cases "or_id o1 = or_id order")
      case True
      then have "o1 = order" by (rule same [OF o1(1)])
      then show ?thesis using bal o1(2) assms(4) row(2) f by (simp add: total)
    next
      case False
      then show ?thesis using bal o1(2) by (simp add: total)
    qed
  qed
  then show ?thesis by (simp only: balanced_def) blast
qed

lemma partial_balances:
  assumes "exact_column (rc_env rc)" "twelve_places (ou_cumulative u)"
    and v: "balanced (w_db v)" "distinct (order_ids (w_db v))"
  shows "wp (handle_partial_fill rc j c e u sy) (\<lambda>r w'. r = Inr () \<longrightarrow> balanced (w_db w')) v"
    (is "wp _ ?Q v")
proof -
  let ?q = "ou_cumulative u"
  have tail: "wp m ?Q v1" if "moves (db_rel same_money) m" "balanced (w_db v1)" for m v1
    by (rule moves_wp [OF that(1)]) (use that(2) in \<open>simp add: db_rel_def balanced_same\<close>)
  have upd: "wp (mseq (update_order_filled_qty (rc_env rc) (or_id order) ?q p st) m) ?Q v1"
    if m: "moves (db_rel same_money) m" and order: "order \<in> set (d_orders (w_db v))"
      and v1: "w_db v1 = w_db v\<lparr>d_fills := d_fills (w_db v) @ [row]\<rparr>"
        "fl_order_id row = or_id order" "fl_qty row = ?q - or_filled_qty order" for m order p st row v1
    unfolding wp_seq
  proof (rule wp_mono [OF update_order_effect], goal_cases)
    case (1 r v2)
    show ?case
    proof (cases r)
      case (Inr x)
      have "find_order (or_id order) (w_db v1) \<noteq> None"
        by (simp only: find_order_None) (use order v1(1) in \<open>simp add: order_ids_def\<close>)
      then obtain fq ap where fq: "num_col (rc_env rc) 30 12 ?q = Inr fq"
        and v2: "w_db v2 = update_order (or_id order) (\<lambda>r. r\<lparr>or_filled_qty := fq, or_avg_fill_price := Some ap,
            or_status := (case st of None \<Rightarrow> or_status r | Some s \<Rightarrow> s), or_updated_at_ms := w_now v1\<rparr>) (w_db v1)"
        using 1(2) Inr by (auto split: if_splits)
      have "fq = ?q" by (rule exact_twelve [OF assms(1,2) fq])
      then have "balanced (w_db v2)"
        unfolding v2 v1(1) by (intro leg_balances) (use v order assms(2) v1 in simp_all)
      then show ?thesis unfolding Inr sum.case by (rule tail [OF m])
    qed simp
  qed
  have leg: "wp (mseq (insert_leg rc j order u t (dec (?q - or_filled_qty order)) sy)
       (mseq (update_order_filled_qty (rc_env rc) (or_id order) ?q p st) m)) ?Q v1"
    if m: "moves (db_rel same_money) m" and order: "order \<in> set (d_orders (w_db v))" and v1: "w_db v1 = w_db v"
    for m order t p st v1
  proof -
    have filled: "twelve_places (or_filled_qty order)" using v(1) order by (simp add: balanced_def)
    note exact = twelve_places_diff [OF assms(2) filled]
    have "wp (insert_leg rc j order u t (dec (?q - or_filled_qty order)) sy) (\<lambda>r v2. r = Inr () \<longrightarrow>
        (\<exists>row. w_db v2 = w_db v\<lparr>d_fills := d_fills (w_db v) @ [row]\<rparr> \<and> fl_order_id row = or_id order \<and>
           fl_qty row = ?q - or_filled_qty order)) v1"
      unfolding insert_leg_def discard_def count_fill_def
      by (auto simp: wp_bind wp_lift wp_seq wp_put wp_ret v1 exact split: json.split sum.split
          intro!: wp_mono [OF insert_fill_effect]) (blast dest: exact_twelve_diff [OF assms(1,2) filled])+
    then show ?thesis
      unfolding wp_seq [of "insert_leg _ _ _ _ _ _ _"]
      by (rule wp_mono) (auto split: sum.split intro!: upd [OF m order])
  qed
  have missing: "w_db v1 = w_db v \<Longrightarrow> wp (order_missing rc j c) ?Q v1" for v1
    by (rule moves_wp [OF same_db_missing]) (use v(1) in \<open>simp add: same_db_def\<close>)
  have known: "wp (if dec (?q - or_filled_qty order) \<le> 0 then mret () else
      mbind (query env (fill_by_trade a t)) (\<lambda>x. if x \<noteq> None then mret ()
      else mseq (insert_leg rc j order u t (dec (?q - or_filled_qty order)) sy)
       (mseq (update_order_filled_qty (rc_env rc) (or_id order) ?q p st) m))) ?Q v1"
    if "moves (db_rel same_money) m" "order \<in> set (d_orders (w_db v))" "w_db v1 = w_db v" for env a m order t p st v1
    using v(1) that(3)
    by (auto simp: wp_ret wp_bind intro!: wp_mono [OF query_effect] leg [OF that(1,2)] split: sum.split)
  show ?thesis
    unfolding handle_partial_fill_def Let_def get_order_by_client_order_id_def
      get_fill_by_exchange_trade_id_def wp_bind [of "query _ (order_by_coid c)"]
  proof (rule wp_mono [OF query_effect], elim conjE, goal_cases)
    case (1 r v1)
    show ?case
    proof (cases r)
      case (Inr found)
      then have found: "order_by_coid c (w_db v) = found" using 1 by simp
      show ?thesis
      proof (cases found)
        case None
        show ?thesis unfolding Inr None sum.case option.case using 1(2) by (rule missing)
      next
        case (Some order)
        have "order \<in> set (d_orders (w_db v))"
          using found Some by (auto simp: order_by_coid_def dest: find_some_in)
        then show ?thesis
          unfolding Inr Some sum.case option.case using 1(2)
          by (intro known) (intro same_money_rules same_money_finalize)
      qed
    qed simp
  qed
qed

lemma user_order_balances:
  fixes rc :: "'r recon"
  assumes "exact_column (rc_env rc)" "balanced (w_db w)" "distinct (order_ids (w_db w))"
    and full: "dict_get ''order_status'' (JStr []) (ne_data ev) \<noteq> JStr ''FILLED''"
    and places: "\<And>u. order_update_of (ne_data ev) = Inr u \<Longrightarrow> twelve_places (ou_cumulative u)"
  shows "wp (handle_user_order rc ev) (\<lambda>r w'. r = Inr () \<longrightarrow> balanced (w_db w')) w"
proof (rule user_order_post)
  show "ledger d = ledger (w_db w) \<Longrightarrow> r = Inr () \<longrightarrow> balanced d" for r :: "exn + unit" and d
    using assms(2) balanced_same [of "w_db w" d] ledger_sel [of d "w_db w"] by (simp add: same_money_def)
  fix c j and v :: "'r exec_world"
  assume "w_db v = w_db w"
  then have v: "balanced (w_db v)" "distinct (order_ids (w_db v))" using assms(2,3) by simp_all
  have money: "moves (db_rel same_money) m \<Longrightarrow> wp m (\<lambda>r w'. r = Inr () \<longrightarrow> balanced (w_db w')) v" for m :: "('r, unit) xact"
    by (erule moves_wp) (use v(1) in \<open>simp add: db_rel_def balanced_same\<close>)
  have "moves (db_rel same_money) (handle_cancel rc j e st t)" "moves (db_rel same_money) (job_terminal rc j c st)" for e st t
    unfolding handle_cancel_def job_terminal_def
    by (auto intro!: same_money_rules same_money.same [OF same_db_counts(1)])
  note quiet = this [THEN money]
  show "wp (reconcile_job rc ev j c) (\<lambda>r w'. r = Inr () \<longrightarrow> balanced (w_db w')) v"
    unfolding reconcile_job_def Let_def
    using full v by (auto simp: wp_bind wp_lift wp_ret split: sum.split
        intro!: quiet partial_balances [OF assms(1) places])
qed

end
