(* ===== verification/ReconciliationProperties.thy ===== *)
theory ReconciliationProperties
  imports ReconciliationSafety Demo
begin

text \<open>
  The properties of reconciliation, each at a concrete job and order: settled jobs, valid status
  changes, redelivery, and the balance of fills and filled quantities.
\<close>

section \<open>A job with an open order\<close>

definition demo_recon :: "mem_redis recon" where
  "demo_recon =
     \<lparr>rc_settings = demo_settings, rc_ops = mem_ops, rc_env = demo_env, rc_has_repository = True,
      rc_has_incident_logger = True\<rparr>"

definition demo_job :: "string \<Rightarrow> job_row" where
  "demo_job status =
     \<lparr>jb_id = demo_uuid 1, jb_account_id = demo_account, jb_trade_intent_id = demo_uuid 3,
      jb_strategy_id = None, jb_trading_mode = ''live'', jb_status = status,
      jb_client_order_id = ''tp2-1'', jb_symbol = ''BTCUSDT'', jb_market_type = ''futures'',
      jb_side = ''BUY'', jb_intent_json = JNull, jb_result_json = None, jb_error = None,
      jb_created_at_ms = 0\<rparr>"

definition demo_order :: order_row where
  "demo_order =
     \<lparr>or_id = demo_uuid 2, or_account_id = demo_account, or_job_id = Some (demo_uuid 1),
      or_exchange_order_id = Some ''77'', or_client_order_id = ''tp2-1'', or_symbol = ''BTCUSDT'',
      or_market_type = ''futures'', or_side = ''BUY'', or_order_type = ''LIMIT'', or_status = ''NEW'',
      or_quantity = 1, or_filled_qty = 0, or_price = Some 100, or_avg_fill_price = None,
      or_reduce_only = False, or_time_in_force = ''GTC'', or_created_at_ms = 0, or_updated_at_ms = 0\<rparr>"

definition demo_open_db :: "string \<Rightarrow> exec_db" where
  "demo_open_db status = demo_db\<lparr>d_jobs := [demo_job status], d_orders := [demo_order]\<rparr>"

definition demo_open :: "string \<Rightarrow> mem_redis exec_world" where
  "demo_open status = demo_world\<lparr>w_db := demo_open_db status\<rparr>"

definition demo_update :: "string \<Rightarrow> string \<Rightarrow> int \<Rightarrow> (string \<times> json) list" where
  "demo_update status filled t =
     [(''client_order_id'', JStr ''tp2-1''), (''exchange_order_id'', JStr ''77''),
      (''order_status'', JStr status), (''orig_qty'', JStr ''1''), (''filled_qty'', JStr filled),
      (''avg_price'', JStr ''100''), (''commission'', JStr ''0.01''), (''realized_pnl'', JStr ''0''),
      (''trade_time_ms'', JInt t)]"

definition demo_update_entry :: "string \<Rightarrow> string \<Rightarrow> int \<Rightarrow> fields" where
  "demo_update_entry status filled t = [(''event'', Json (JObj (demo_update status filled t)))]"

lemma demo_recon_sel [simp]:
  "rc_env demo_recon = demo_env" "rc_ops demo_recon = mem_ops" "w_db (demo_open s) = demo_open_db s"
  "e_parse_event demo_env (Json (JObj d)) = Inr (demo_event d)" "ne_data (demo_event d) = d"
  by (simp_all add: demo_recon_def demo_open_def demo_env_def demo_event_def)

text \<open>What an open order comes to when it is filled in two legs.\<close>

lemma demo_recon_run:
  "let (r1, w1) = recon_process demo_recon ''1'' (demo_update_entry ''PARTIALLY_FILLED'' ''0.4'' 5) (demo_open ''acknowledged'');
       (r2, w2) = recon_process demo_recon ''2'' (demo_update_entry ''FILLED'' ''1'' 6) w1
   in r1 = Inr () \<and> r2 = Inr () \<and>
      map jb_status (d_jobs (w_db w1)) = [''partially_filled''] \<and>
      map fl_qty (d_fills (w_db w1)) = [4 / 10] \<and>
      map jb_status (d_jobs (w_db w2)) = [''filled''] \<and>
      map fl_qty (d_fills (w_db w2)) = [4 / 10, 6 / 10]"
  by code_simp

text \<open>
  The trade id of a leg is built from the order and the millisecond of the trade: the second of two
  legs in one millisecond has no fill, and the fills do not add up to the filled quantity.
\<close>

lemma same_millisecond_leg_is_lost:
  "let (r1, w1) = recon_process demo_recon ''1'' (demo_update_entry ''PARTIALLY_FILLED'' ''0.4'' 5) (demo_open ''acknowledged'');
       (r2, w2) = recon_process demo_recon ''2'' (demo_update_entry ''FILLED'' ''1'' 5) w1
   in r2 = Inr () \<and> map or_filled_qty (d_orders (w_db w2)) = [1] \<and> map fl_qty (d_fills (w_db w2)) = [4 / 10]"
  by code_simp

section \<open>Settled jobs\<close>

text \<open>
  C9: An update for a job that is already blocked, filled, canceled or rolled back, or for an order
  id no job has, changes no job, event, order, fill, balance or position, whatever it says and
  whatever fails.
\<close>

theorem settled_jobs_stay:
  assumes "recon_process rc msg_id fs w = (r, w')"
    and "\<And>raw ev c j. map_of fs ''event'' = Some raw \<Longrightarrow> e_parse_event (rc_env rc) raw = Inr ev \<Longrightarrow>
      dict_get ''client_order_id'' (JStr []) (ne_data ev) = JStr c \<Longrightarrow> job_by_coid c (w_db w) = Some j \<Longrightarrow>
      is_terminal (jb_status j)"
  shows "ledger (w_db w') = ledger (w_db w)"
proof -
  have "wp (recon_process rc msg_id fs) (\<lambda>r w'. same_ledger (w_db w) (w_db w')) w"
    by (rule recon_process_typed [OF same_ledger.refl])
      (use assms(2) in \<open>auto intro!: settled_keeps_ledger simp: settled_job_def event_coid_def\<close>)
  then show ?thesis using assms(1) by (simp add: wp_def same_ledger_def)
qed

theorem settled_jobs_stay_witness:
  "ledger (w_db (snd (recon_process demo_recon ''1'' (demo_update_entry ''FILLED'' ''1'' 5) (demo_open ''filled'')))) =
   ledger (demo_open_db ''filled'')"
proof -
  have "is_terminal (jb_status j)" if "job_by_coid c (w_db (demo_open ''filled'')) = Some j" for c j
    using that by (auto simp: demo_open_db_def job_by_coid_def demo_job_def is_terminal_def terminal_states
        split: if_splits)
  then show ?thesis
    using settled_jobs_stay [OF surjective_pairing,
        where rc = demo_recon and fs = "demo_update_entry ''FILLED'' ''1'' 5"
          and w = "demo_open ''filled''" and msg_id = "''1''"] by simp
qed

section \<open>Status changes\<close>

text \<open>
  C7: Processing an entry keeps the tables consistent (unique keys, no dangling references) and moves
  the status of every job along valid transitions of the life cycle only, even when a database
  session fails in the middle.
\<close>

theorem reconciliation_follows_lifecycle:
  assumes "db_ok (w_db w)" and "recon_process rc msg_id fs w = (r, w')"
  shows "db_ok (w_db w') \<and>
    list_all2 (\<lambda>j j'. jb_id j' = jb_id j \<and> can_transition\<^sup>*\<^sup>* (jb_status j) (jb_status j'))
      (d_jobs (w_db w)) (d_jobs (w_db w'))"
proof -
  have "wp (recon_process rc msg_id fs) (\<lambda>r w'. advances (w_db w) (w_db w')) w"
    by (rule recon_process_typed) (simp_all add: advances_same user_order_advances)
  moreover have "keeps_ok (w_db w) (w_db w')"
    using movesD [OF keeps_ok_recon assms(2)] by (simp add: db_rel_def)
  ultimately show ?thesis
    using assms by (simp add: wp_def advances_def keeps_ok_def db_ok_def)
qed

lemma demo_open_ok: "db_ok (demo_open_db ''acknowledged'')"
  by (simp add: db_ok_def db_columns demo_open_db_def demo_db_def empty_exec_db_def demo_job_def demo_order_def)

theorem reconciliation_follows_lifecycle_witness:
  "db_ok (w_db (snd (recon_process demo_recon ''1'' (demo_update_entry ''PARTIALLY_FILLED'' ''0.4'' 5) (demo_open ''acknowledged''))))
   \<and> can_transition\<^sup>*\<^sup>* ''acknowledged'' (jb_status (hd (d_jobs (w_db (snd
        (recon_process demo_recon ''1'' (demo_update_entry ''PARTIALLY_FILLED'' ''0.4'' 5) (demo_open ''acknowledged'')))))))"
  using reconciliation_follows_lifecycle [of "demo_open ''acknowledged''" demo_recon "''1''"
      "demo_update_entry ''PARTIALLY_FILLED'' ''0.4'' 5", OF _ surjective_pairing] demo_open_ok
  by (auto simp: demo_open_db_def demo_job_def list_all2_Cons1)

section \<open>Redelivery\<close>

text \<open>
  C10: An update that has been handled and comes again, in whatever state the rest of the service then
  is, changes no job, no job event and no fill, whether or not handling it fails this time.  The
  filled quantity has to fit its column exactly.
\<close>

theorem redelivery_is_harmless:
  assumes "recon_process rc m1 fs w = (Inr (), w1)" "w_db w2 = w_db w1"
    and "recon_process rc m2 fs w2 = (r, w3)"
    and exact: "\<And>raw ev u q. map_of fs ''event'' = Some raw \<Longrightarrow> e_parse_event (rc_env rc) raw = Inr ev \<Longrightarrow>
      order_update_of (ne_data ev) = Inr u \<Longrightarrow> e_numeric (rc_env rc) 30 12 (ou_cumulative u) = Some q \<Longrightarrow>
      q = ou_cumulative u"
  shows "d_jobs (w_db w3) = d_jobs (w_db w1) \<and> d_job_events (w_db w3) = d_job_events (w_db w1) \<and>
    d_fills (w_db w3) = d_fills (w_db w1)"
proof -
  have "inert rc ev (w_db w1)"
    if ev: "map_of fs ''event'' = Some raw" "text_truthy (Some raw)" "e_parse_event (rc_env rc) raw = Inr ev"
      "ne_event_type ev = USER_ORDER" for raw ev
  proof -
    have "wp (handle_user_order rc ev) (\<lambda>r w'. r = Inr () \<longrightarrow> inert rc ev (w_db w')) w"
      using exact [OF ev(1,3)] by (rule first_run)
    then have "wp (recon_process rc m1 fs) (\<lambda>r w'. r = Inr () \<longrightarrow> inert rc ev (w_db w')) w"
      unfolding recon_process_def recon_ack_def
      by (auto simp: ev wp_seq wp_when same_db_def intro!: wp_mono [OF \<open>wp (handle_user_order rc ev) _ w\<close>]
          moves_wp [OF same_db_ack] split: sum.split)
    then show ?thesis using assms(1) by (simp add: wp_def)
  qed
  then have "wp (recon_process rc m2 fs) (\<lambda>r w'. same_books (w_db w2) (w_db w')) w2"
    by (intro recon_process_typed same_books.refl inert_run) (simp add: assms(2))
  then show ?thesis using assms(2,3) by (simp add: wp_def same_books_def)
qed

theorem redelivery_is_harmless_witness:
  "let fs = demo_update_entry ''PARTIALLY_FILLED'' ''0.4'' 5;
       w1 = snd (recon_process demo_recon ''1'' fs (demo_open ''acknowledged''));
       w3 = snd (recon_process demo_recon ''2'' fs (w1\<lparr>w_now := 99\<rparr>))
   in d_jobs (w_db w3) = d_jobs (w_db w1) \<and> d_fills (w_db w3) = d_fills (w_db w1)"
  using redelivery_is_harmless [of demo_recon "''1''" "demo_update_entry ''PARTIALLY_FILLED'' ''0.4'' 5"
      "demo_open ''acknowledged''" _ _ "''2''", OF _ _ surjective_pairing]
    demo_recon_run
  by (auto simp: Let_def demo_env_def split_beta prod_eq_iff)

section \<open>Fills and filled quantities\<close>

text \<open>
  C2: When the fills of every order add up to its filled quantity and an update that is not a final
  \<open>FILLED\<close> has been processed, they still do: a partial fill inserts exactly the quantity the
  order did not have yet.  Quantities have at most twelve decimal places, which the columns keep.
\<close>

theorem partial_fills_balance:
  assumes "exact_column (rc_env rc)" "db_ok (w_db w)" "balanced (w_db w)"
    and "recon_process rc msg_id fs w = (Inr (), w')"
    and "\<And>raw ev. map_of fs ''event'' = Some raw \<Longrightarrow> e_parse_event (rc_env rc) raw = Inr ev \<Longrightarrow>
      dict_get ''order_status'' (JStr []) (ne_data ev) \<noteq> JStr ''FILLED'' \<and>
      (\<forall>u. order_update_of (ne_data ev) = Inr u \<longrightarrow> twelve_places (ou_cumulative u))"
  shows "balanced (w_db w')"
proof -
  have "wp (recon_process rc msg_id fs) (\<lambda>r w'. r = Inr () \<longrightarrow> balanced (w_db w')) w"
    by (rule recon_process_post)
      (use assms in \<open>auto simp: db_ok_def intro!: user_order_balances\<close>)
  then show ?thesis using assms(4) by (simp add: wp_def)
qed

lemma demo_cumulative: "map_option ou_cumulative (the_ok (order_update_of (demo_update ''PARTIALLY_FILLED'' ''0.4'' 5))) = Some (4 / 10)"
  by code_simp

theorem partial_fills_balance_witness:
  "balanced (w_db (snd (recon_process demo_recon ''1'' (demo_update_entry ''PARTIALLY_FILLED'' ''0.4'' 5) (demo_open ''acknowledged''))))"
proof -
  have run: "recon_process demo_recon ''1'' (demo_update_entry ''PARTIALLY_FILLED'' ''0.4'' 5) (demo_open ''acknowledged'') =
      (Inr (), snd (recon_process demo_recon ''1'' (demo_update_entry ''PARTIALLY_FILLED'' ''0.4'' 5) (demo_open ''acknowledged'')))"
    using demo_recon_run by (simp add: Let_def split_beta prod_eq_iff)
  have "twelve_places 0" "twelve_places (4 / 10)"
    unfolding twelve_places_def by (rule exI [of _ 0], simp, rule exI [of _ 400000000000], simp)
  moreover have "balanced (demo_open_db ''acknowledged'')"
    using \<open>twelve_places 0\<close>
    by (simp add: balanced_def fill_total_def demo_open_db_def demo_db_def empty_exec_db_def demo_order_def)
  moreover have "exact_column demo_env" by (simp add: exact_column_def demo_env_def)
  moreover have "twelve_places (ou_cumulative u)"
    if "order_update_of (demo_update ''PARTIALLY_FILLED'' ''0.4'' 5) = Inr u" for u
  proof -
    have "ou_cumulative u = 4 / 10" using demo_cumulative that by simp
    then show ?thesis using \<open>twelve_places (4 / 10)\<close> by (simp only:)
  qed
  moreover have "dict_get ''order_status'' (JStr []) (demo_update ''PARTIALLY_FILLED'' ''0.4'' 5) \<noteq> JStr ''FILLED''"
    by (simp add: demo_update_def dict_get_def)
  ultimately show ?thesis
    using demo_open_ok
    by (intro partial_fills_balance [OF _ _ _ run]) (auto simp: demo_update_entry_def)
qed

section \<open>The stale-job scan\<close>

text \<open>A step that leaves the ledger and the counter of reports.\<close>

definition unreported :: "'r exec_world \<Rightarrow> 'r exec_world \<Rightarrow> bool" where
  "unreported w w' = (ledger (w_db w') = ledger (w_db w) \<and> x_stale w' = x_stale w)"

interpretation unreported: frame unreported
  by unfold_locales (auto simp: unreported_def)

lemma unreported_publish: "moves unreported (publish ops t j d)"
  unfolding publish_def stream_publish_def
  by (intro unreported.rules)
    (auto simp: moves_def unreported_def on_redis_def record_effect_def mput_def split: prod.split)

lemma same_stale: "world.more w' = world.more w \<Longrightarrow> x_stale w' = x_stale w"
  by (cases w; cases w') simp

lemma unreported_incident: "moves unreported (log_incident env i)"
proof (rule movesI)
  fix w w' :: "'a exec_world" and r
  assume run: "log_incident env i w = (r, w')"
  have "moves db_only (log_incident env i)" by (rule moves)
  from movesD [OF this run] show "unreported w w'"
    using log_incident_effect [of env i w] run db_only_sel(4) [of w w'] same_stale [of w' w]
    by (simp add: wp_def unreported_def)
qed

lemma reported_stale:
  "wp (report_stale rc now job) (\<lambda>r w'. ledger (w_db w') = ledger (w_db w) \<and> x_stale w' = Suc (x_stale w)) w"
proof -
  have "moves unreported (mseq (publish (rc_ops rc) t j d) (mwhen b (log_incident (rc_env rc) i)))" for t j d b i
    by (intro unreported.rules unreported_publish unreported_incident)
  then show ?thesis
    unfolding report_stale_def Let_def wp_seq [of "mput _"] wp_put sum.case
    by (rule moves_wp) (simp add: unreported_def)
qed

text \<open>What a scan of \<open>jobs\<close> adds to the statistics.\<close>

definition scan_total :: "exec_settings \<Rightarrow> int \<Rightarrow> job_row list \<Rightarrow> scan_stats \<Rightarrow> scan_stats" where
  "scan_total s now jobs st =
     st\<lparr>sc_stale_detected := sc_stale_detected st + length (filter (is_stale s now) jobs),
        sc_partially_filled_pending := sc_partially_filled_pending st +
          length (filter (\<lambda>j. jb_status j = ''partially_filled'') jobs)\<rparr>"

definition scan_post :: "exec_settings \<Rightarrow> int \<Rightarrow> job_row list \<Rightarrow> scan_stats \<Rightarrow> 'r exec_world \<Rightarrow> exn + scan_stats \<Rightarrow> 'r exec_world \<Rightarrow> bool" where
  "scan_post s now jobs st w r w' =
     (ledger (w_db w') = ledger (w_db w) \<and>
      (case r of Inl _ \<Rightarrow> True | Inr st' \<Rightarrow>
         st' = scan_total s now jobs st \<and> x_stale w' = x_stale w + length (filter (is_stale s now) jobs)))"

lemma scan_result: "wp (scan_jobs rc now jobs st) (scan_post (rc_settings rc) now jobs st w) w"
proof (induction jobs arbitrary: st w)
  case Nil
  then show ?case by (simp add: wp_ret scan_post_def scan_total_def)
next
  case (Cons job jobs)
  let ?s = "rc_settings rc"
  let ?n = "if is_stale ?s now job then 1 else 0 :: nat"
  let ?st = "st\<lparr>sc_stale_detected := sc_stale_detected st + ?n,
               sc_partially_filled_pending :=
                 sc_partially_filled_pending st + (if jb_status job = ''partially_filled'' then 1 else 0)\<rparr>"
  have total: "scan_total ?s now (job # jobs) st = scan_total ?s now jobs ?st"
    by (simp add: scan_total_def)
  have first: "wp (mwhen (is_stale ?s now job) (report_stale rc now job))
      (\<lambda>r v. ledger (w_db v) = ledger (w_db w) \<and> x_stale v = x_stale w + ?n) w"
  proof (cases "is_stale ?s now job")
    case True
    then show ?thesis unfolding mwhen_def if_P [OF True] by (rule_tac wp_mono [OF reported_stale]) simp
  qed (simp add: mwhen_def wp_ret)
  show ?case
    unfolding scan_jobs.simps Let_def wp_seq
  proof (rule wp_mono [OF first], goal_cases)
    case (1 r v)
    show ?case
    proof (cases r)
      case (Inl e)
      then show ?thesis using 1(2) by (simp add: scan_post_def)
    next
      case (Inr x)
      have "scan_post ?s now (job # jobs) st w r' w'" if "scan_post ?s now jobs ?st v r' w'" for r' w'
        using that 1(2) unfolding scan_post_def total by (auto split: sum.splits)
      with Cons.IH [of ?st v] show ?thesis
        unfolding Inr sum.case by (rule wp_mono)
    qed
  qed
qed

text \<open>
  A reconciliation scan counts exactly the active jobs, those that were submitted longer ago than
  the timeout and those still partially filled; it reports each stale one once and changes no job,
  order or fill.
\<close>

theorem scan_reports_stale_jobs:
  assumes "rc_has_repository rc" "run_once rc w = (r, w')"
  shows "ledger (w_db w') = ledger (w_db w) \<and>
    (\<forall>st. r = Inr st \<longrightarrow>
       sc_active_jobs st = length (active_jobs (w_db w)) \<and>
       sc_stale_detected st = length (filter (is_stale (rc_settings rc) (w_now w)) (active_jobs (w_db w))) \<and>
       sc_partially_filled_pending st = length (filter (\<lambda>j. jb_status j = ''partially_filled'') (active_jobs (w_db w))) \<and>
       x_stale w' = x_stale w + sc_stale_detected st)"
proof -
  let ?s = "rc_settings rc" and ?jobs = "active_jobs (w_db w)"
  let ?st = "\<lparr>sc_active_jobs = length ?jobs, sc_stale_detected = 0, sc_partially_filled_pending = 0\<rparr>"
  let ?w = "w\<lparr>x_scans := Suc (x_scans w)\<rparr>"
  obtain a v where get: "get_active_jobs (rc_env rc) ?w = (a, v)" by fastforce
  then have v: "w_db v = w_db w" "x_stale v = x_stale w" "\<And>jobs. a = Inr jobs \<Longrightarrow> jobs = ?jobs"
    by (auto simp: get_active_jobs_def query_def session_def Let_def split: if_splits)
  show ?thesis
  proof (cases a)
    case (Inl e)
    then show ?thesis
      using assms get v(1) by (auto simp: run_once_def Let_def mseq_def mbind_def mget_def mput_def)
  next
    case (Inr jobs)
    then have run: "scan_jobs rc (w_now w) ?jobs ?st v = (r, w')"
      using assms get v(3) by (simp add: run_once_def Let_def mseq_def mbind_def mget_def mput_def)
    have "scan_post ?s (w_now w) ?jobs ?st v r w'"
      using scan_result [of rc "w_now w" ?jobs ?st v] run by (simp add: wp_def)
    then show ?thesis
      unfolding scan_post_def scan_total_def using v(1,2) by (cases r) auto
  qed
qed

theorem scan_reports_stale_jobs_witness:
  "map_option sc_stale_detected (the_ok (fst (run_once demo_recon (demo_open ''submitted'')))) = Some 1"
proof -
  let ?r = "run_once demo_recon (demo_open ''submitted'')"
  have "the_ok (fst ?r) \<noteq> None" by code_simp
  then obtain st where st: "fst ?r = Inr st" by (metis the_ok_simps(1) sum.exhaust)
  have "rc_has_repository demo_recon" by (simp add: demo_recon_def)
  from scan_reports_stale_jobs [OF this prod.collapse [symmetric], of "demo_open ''submitted''"] st show ?thesis
    by (simp add: active_jobs_def demo_open_db_def demo_job_def is_stale_def demo_recon_def demo_settings_def
        default_settings_def demo_open_def demo_world_def)
qed

end
