(* ===== verification/Normalizer.thy ===== *)
theory Normalizer
  imports World "HOL-Library.Multiset"
begin

text \<open>
  The normalizer (\<open>services/normalizer\<close>): symbols, the router, one handler per kind of exchange
  message, and the consumer that publishes what they return and writes it to the hot state.  A
  handler is a pure function of the raw event to an event and the keys to write, or an exception.
\<close>

section \<open>Python helpers\<close>

text \<open>\<open>x[n]\<close> and iteration on an object that came from JSON.\<close>

fun index_json :: "json \<Rightarrow> nat \<Rightarrow> exn + json" where
  "index_json (JArr xs) n = (if n < length xs then Inr (xs ! n) else Inl IndexError)"
| "index_json (JStr s) n = (if n < length s then Inr (JStr [s ! n]) else Inl IndexError)"
| "index_json (JObj d) n = Inl KeyError"
| "index_json _ n = Inl TypeError"

definition endswith :: "string \<Rightarrow> string \<Rightarrow> bool" where
  "endswith p s = (length p \<le> length s \<and> drop (length s - length p) s = p)"

text \<open>What follows the first occurrence of \<open>p\<close>.\<close>

fun after_first :: "string \<Rightarrow> string \<Rightarrow> string option" where
  "after_first p [] = (if p = [] then Some [] else None)"
| "after_first p (c # s) =
     (if startswith p (c # s) then Some (drop (length p) (c # s)) else after_first p s)"

section \<open>Symbols\<close>

definition normalize_symbol :: "string \<Rightarrow> string" where
  "normalize_symbol raw =
     (let s = strip (upper raw)
      in if endswith ''.P'' s then take (length s - 2) s else s)"

definition symbol_from_stream :: "string \<Rightarrow> string option" where
  "symbol_from_stream source_stream =
     (let prefix = takeWhile (\<lambda>c. c \<noteq> CHR ''@'') source_stream
      in if prefix = [] \<or> prefix = source_stream then None else Some (normalize_symbol prefix))"

fun symbol_of :: "json \<Rightarrow> exn + string" where
  "symbol_of (JStr s) = Inr (normalize_symbol s)"
| "symbol_of _ = Inl AttributeError"

definition stream_symbol :: "string \<Rightarrow> exn + string" where
  "stream_symbol source_stream =
     (case symbol_from_stream source_stream of
        Some (c # cs) \<Rightarrow> Inr (c # cs)
      | _ \<Rightarrow> Inl NormalizeError)"

definition resolve_symbol :: "json \<Rightarrow> string \<Rightarrow> exn + string" where
  "resolve_symbol s source_stream =
     ebind (symbol_of s) (\<lambda>sym. if sym \<noteq> [] then Inr sym else stream_symbol source_stream)"

section \<open>Results\<close>

record hot_write =
  hw_key :: string
  hw_value :: json
  hw_ttl_s :: int

record handler_result =
  hr_event :: normalized_event
  hr_hot_writes :: "hot_write list"

definition hot_write :: "string \<Rightarrow> (string \<times> json) list \<Rightarrow> int \<Rightarrow> hot_write" where
  "hot_write k v ttl = \<lparr>hw_key = k, hw_value = JObj v, hw_ttl_s = ttl\<rparr>"

definition normalized :: "event_type \<Rightarrow> raw_event \<Rightarrow> string \<Rightarrow> int \<Rightarrow> (string \<times> json) list \<Rightarrow> normalized_event" where
  "normalized t ev symbol timestamp_ms data =
     \<lparr>ne_event_type = t, ne_market_type = rw_market_type ev, ne_symbol = symbol,
      ne_timestamp_ms = timestamp_ms, ne_received_ms = rw_received_ms ev,
      ne_source_stream = Some (rw_source_stream ev), ne_data = data\<rparr>"

definition result :: "normalized_event \<Rightarrow> hot_write list \<Rightarrow> handler_result" where
  "result e hot = \<lparr>hr_event = e, hr_hot_writes = hot\<rparr>"

definition mtype :: "raw_event \<Rightarrow> string" where
  "mtype ev = market_type_value (rw_market_type ev)"

section \<open>Trades and tickers\<close>

definition PRICE_TTL_S :: int where "PRICE_TTL_S = 60"

definition price_write :: "raw_event \<Rightarrow> string \<Rightarrow> json \<Rightarrow> int \<Rightarrow> hot_write" where
  "price_write ev symbol price t =
     hot_write (market_price_key (mtype ev) symbol) [(''price'', price), (''ts'', JInt t)] PRICE_TTL_S"

definition handle_trade :: "raw_event \<Rightarrow> exn + handler_result" where
  "handle_trade ev =
     (let d = rw_payload ev; price = dict_get ''p'' (JStr ''0'') d in
      ebind (resolve_symbol (dict_get ''s'' (JStr []) d) (rw_source_stream ev)) (\<lambda>symbol.
      ebind (py_int (dict_get ''T'' (JInt (rw_received_ms ev)) d)) (\<lambda>t.
        Inr (result
          (normalized TRADE ev symbol t
             [(''trade_id'', dict_get ''t'' JNull d), (''price'', price),
              (''qty'', dict_get ''q'' (JStr ''0'') d),
              (''is_buyer_maker'', JBool (truthy (dict_get ''m'' (JBool False) d))),
              (''trade_time_ms'', JInt t)])
          [price_write ev symbol price t]))))"

definition handle_agg_trade :: "raw_event \<Rightarrow> exn + handler_result" where
  "handle_agg_trade ev =
     (let d = rw_payload ev; price = dict_get ''p'' (JStr ''0'') d in
      ebind (resolve_symbol (dict_get ''s'' (JStr []) d) (rw_source_stream ev)) (\<lambda>symbol.
      ebind (py_int (dict_get ''T'' (JInt (rw_received_ms ev)) d)) (\<lambda>t.
        Inr (result
          (normalized AGG_TRADE ev symbol t
             [(''agg_trade_id'', dict_get ''a'' JNull d), (''price'', price),
              (''qty'', dict_get ''q'' (JStr ''0'') d),
              (''first_trade_id'', dict_get ''f'' JNull d), (''last_trade_id'', dict_get ''l'' JNull d),
              (''trade_time_ms'', JInt t),
              (''is_buyer_maker'', JBool (truthy (dict_get ''m'' (JBool False) d)))])
          [price_write ev symbol price t]))))"

definition BOOK_TICKER_TTL_S :: int where "BOOK_TICKER_TTL_S = 10"

definition handle_book_ticker :: "raw_event \<Rightarrow> exn + handler_result" where
  "handle_book_ticker ev =
     (let d = rw_payload ev;
          fields = [(''bid_price'', dict_get ''b'' (JStr ''0'') d), (''bid_qty'', dict_get ''B'' (JStr ''0'') d),
                    (''ask_price'', dict_get ''a'' (JStr ''0'') d), (''ask_qty'', dict_get ''A'' (JStr ''0'') d),
                    (''update_id'', dict_get ''u'' JNull d)] in
      ebind (resolve_symbol (dict_get ''s'' (JStr []) d) (rw_source_stream ev)) (\<lambda>symbol.
        Inr (result (normalized BOOK_TICKER ev symbol (rw_received_ms ev) fields)
          [hot_write (market_book_ticker_key (mtype ev) symbol)
             (fields @ [(''ts'', JInt (rw_received_ms ev))]) BOOK_TICKER_TTL_S])))"

definition MARK_TTL_S :: int where "MARK_TTL_S = 60"

definition FUNDING_TTL_S :: int where "FUNDING_TTL_S = 3600"

definition handle_mark_price :: "raw_event \<Rightarrow> exn + handler_result" where
  "handle_mark_price ev =
     (let d = rw_payload ev;
          mark_price = dict_get ''p'' (JStr ''0'') d;
          index_price = dict_get ''i'' (JStr ''0'') d;
          estimated_settle = dict_get ''P'' (JStr ''0'') d;
          funding_rate = dict_get ''r'' (JStr ''0'') d in
      ebind (resolve_symbol (dict_get ''s'' (JStr []) d) (rw_source_stream ev)) (\<lambda>symbol.
      ebind (py_int (dict_get ''T'' (JInt 0) d)) (\<lambda>next_funding_ms.
      ebind (py_int (dict_get ''E'' (JInt (rw_received_ms ev)) d)) (\<lambda>event_ms.
        Inr (result
          (normalized MARK_PRICE ev symbol event_ms
             [(''mark_price'', mark_price), (''index_price'', index_price),
              (''estimated_settle_price'', estimated_settle), (''funding_rate'', funding_rate),
              (''next_funding_time_ms'', JInt next_funding_ms)])
          [hot_write (market_mark_key (mtype ev) symbol)
             [(''mark_price'', mark_price), (''index_price'', index_price),
              (''estimated_settle_price'', estimated_settle), (''ts'', JInt event_ms)] MARK_TTL_S,
           hot_write (market_funding_key (mtype ev) symbol)
             [(''funding_rate'', funding_rate), (''next_funding_time_ms'', JInt next_funding_ms),
              (''ts'', JInt event_ms)] FUNDING_TTL_S])))))"

section \<open>Candles\<close>

definition INTERVAL_TTL :: "(string \<times> int) list" where
  "INTERVAL_TTL =
     [(''1s'', 4), (''1m'', 120), (''3m'', 360), (''5m'', 600), (''15m'', 1800), (''30m'', 3600),
      (''1h'', 7200), (''2h'', 14400), (''4h'', 28800), (''6h'', 43200), (''8h'', 57600),
      (''12h'', 86400), (''1d'', 172800), (''3d'', 518400), (''1w'', 1209600), (''1M'', 5184000)]"

definition DEFAULT_TTL_S :: int where "DEFAULT_TTL_S = 300"

definition interval_from_stream :: "string \<Rightarrow> string" where
  "interval_from_stream source_stream =
     (case after_first ''@kline_'' source_stream of Some s \<Rightarrow> s | None \<Rightarrow> [])"

definition interval_ttl :: "json \<Rightarrow> exn + int" where
  "interval_ttl interval =
     (case interval of
        JStr s \<Rightarrow> Inr (case map_of INTERVAL_TTL s of Some t \<Rightarrow> t | None \<Rightarrow> DEFAULT_TTL_S)
      | JArr _ \<Rightarrow> Inl TypeError | JObj _ \<Rightarrow> Inl TypeError | _ \<Rightarrow> Inr DEFAULT_TTL_S)"

definition handle_kline :: "env \<Rightarrow> raw_event \<Rightarrow> exn + handler_result" where
  "handle_kline env ev =
     (let d = rw_payload ev; k = dict_get ''k'' (JObj []) d in
      ebind (obj_get k ''s'' (JStr [])) (\<lambda>ks.
      ebind (resolve_symbol (py_or ks (dict_get ''s'' (JStr []) d)) (rw_source_stream ev)) (\<lambda>symbol.
      case k of JObj kd \<Rightarrow>
        let interval = py_or (dict_get ''i'' (JStr []) kd) (JStr (interval_from_stream (rw_source_stream ev)));
            is_closed = JBool (truthy (dict_get ''x'' (JBool False) kd));
            candle = [(''open'', dict_get ''o'' (JStr ''0'') kd), (''high'', dict_get ''h'' (JStr ''0'') kd),
                      (''low'', dict_get ''l'' (JStr ''0'') kd), (''close'', dict_get ''c'' (JStr ''0'') kd),
                      (''volume'', dict_get ''v'' (JStr ''0'') kd)] in
        ebind (py_int (dict_get ''t'' (JInt (rw_received_ms ev)) kd)) (\<lambda>open_time_ms.
        ebind (py_int (dict_get ''T'' (JInt open_time_ms) kd)) (\<lambda>close_time_ms.
        ebind (py_int (dict_get ''n'' (JInt 0) kd)) (\<lambda>trades.
        ebind (interval_ttl interval) (\<lambda>ttl.
          let times = [(''interval'', interval), (''open_time_ms'', JInt open_time_ms),
                       (''close_time_ms'', JInt close_time_ms)] in
          Inr (result
            (normalized KLINE ev symbol open_time_ms
               (times @ candle @
                [(''quote_volume'', dict_get ''q'' (JStr ''0'') kd), (''trades'', JInt trades),
                 (''taker_buy_volume'', dict_get ''V'' (JStr ''0'') kd),
                 (''taker_buy_quote_volume'', dict_get ''Q'' (JStr ''0'') kd), (''is_closed'', is_closed)]))
            [hot_write (market_klines_key (mtype ev) symbol (py_str (e_show env) interval))
               (times @ candle @ [(''is_closed'', is_closed), (''ts'', JInt (rw_received_ms ev))]) ttl])))))
      | _ \<Rightarrow> Inl AttributeError)))"

section \<open>Liquidations\<close>

text \<open>The order in a message: the field \<open>o\<close>, or the payload itself.\<close>

definition wrapped_order :: "(string \<times> json) list \<Rightarrow> exn + (string \<times> json) list" where
  "wrapped_order d = (case dict_get ''o'' (JObj d) d of JObj ord \<Rightarrow> Inr ord | _ \<Rightarrow> Inl AttributeError)"

definition handle_liquidation :: "raw_event \<Rightarrow> exn + handler_result" where
  "handle_liquidation ev =
     ebind (wrapped_order (rw_payload ev)) (\<lambda>ord.
     ebind (resolve_symbol (dict_get ''s'' (JStr []) ord) (rw_source_stream ev)) (\<lambda>symbol.
     ebind (py_int (dict_get ''T'' (JInt (rw_received_ms ev)) ord)) (\<lambda>t.
       Inr (result
         (normalized LIQUIDATION ev symbol t
            [(''side'', dict_get ''S'' (JStr []) ord), (''order_type'', dict_get ''o'' (JStr []) ord),
             (''time_in_force'', dict_get ''f'' (JStr []) ord), (''orig_qty'', dict_get ''q'' (JStr ''0'') ord),
             (''price'', dict_get ''p'' (JStr ''0'') ord), (''avg_price'', dict_get ''ap'' (JStr ''0'') ord),
             (''last_fill_qty'', dict_get ''l'' (JStr ''0'') ord), (''status'', dict_get ''X'' (JStr []) ord),
             (''order_time_ms'', JInt t)]) []))))"

section \<open>Order books\<close>

definition BOOK_TTL_S :: int where "BOOK_TTL_S = 30"

definition is_depth_delta_stream :: "string \<Rightarrow> bool" where
  "is_depth_delta_stream source_stream =
     (contains ''@depth'' source_stream \<and> \<not> contains ''snapshot'' source_stream)"

type_synonym level = "json \<times> json"

definition parse_level :: "json \<Rightarrow> exn + level" where
  "parse_level lvl = ebind (index_json lvl 0) (\<lambda>p. ebind (index_json lvl 1) (\<lambda>q. Inr (p, q)))"

definition parse_levels :: "json \<Rightarrow> exn + level list" where
  "parse_levels levels = ebind (list_items levels) (emap parse_level)"

definition level_json :: "level \<Rightarrow> json" where
  "level_json l = JArr [fst l, snd l]"

definition levels_json :: "level list \<Rightarrow> json" where
  "levels_json ls = JArr (map level_json ls)"

text \<open>
  The dict of one side of a book.  Its keys are JSON values, compared as such; a list or an object is
  not hashable.
\<close>

fun hashable :: "json \<Rightarrow> bool" where
  "hashable (JArr _) = False"
| "hashable (JObj _) = False"
| "hashable _ = True"

fun side_dict :: "level list \<Rightarrow> level list \<Rightarrow> exn + level list" where
  "side_dict acc [] = Inr acc"
| "side_dict acc ((p, q) # ls) =
     (if hashable p then side_dict (dict_set p q acc) ls else Inl TypeError)"

fun apply_levels :: "level list \<Rightarrow> level list \<Rightarrow> exn + level list" where
  "apply_levels [] side = Inr side"
| "apply_levels ((p, q) # deltas) side =
     ebind (py_float q) (\<lambda>x.
       if \<not> hashable p then Inl TypeError
       else apply_levels deltas (if x = 0 then dict_del p side else dict_set p q side))"

definition priced :: "level \<Rightarrow> exn + rat \<times> level" where
  "priced l = ebind (py_float (fst l)) (\<lambda>x. Inr (x, l))"

definition sort_levels :: "(rat \<Rightarrow> rat) \<Rightarrow> level list \<Rightarrow> exn + level list" where
  "sort_levels key side = ebind (emap priced side) (\<lambda>ps. Inr (map snd (sort_key (key \<circ> fst) ps)))"

definition merge_side :: "(rat \<Rightarrow> rat) \<Rightarrow> json \<Rightarrow> level list \<Rightarrow> exn + level list" where
  "merge_side key current deltas =
     ebind (parse_levels current) (\<lambda>ls.
     ebind (side_dict [] ls) (\<lambda>side.
     ebind (apply_levels deltas side) (sort_levels key)))"

definition apply_delta ::
  "json \<Rightarrow> level list \<Rightarrow> level list \<Rightarrow> int \<Rightarrow> int \<Rightarrow> exn + (string \<times> json) list" where
  "apply_delta book bid_deltas ask_deltas last_update_id ts =
     ebind (obj_get book ''bids'' (JArr [])) (\<lambda>bids.
     ebind (obj_get book ''asks'' (JArr [])) (\<lambda>asks.
     ebind (merge_side uminus bids bid_deltas) (\<lambda>sorted_bids.
     ebind (merge_side id asks ask_deltas) (\<lambda>sorted_asks.
       Inr [(''last_update_id'', JInt last_update_id), (''bids'', levels_json sorted_bids),
            (''asks'', levels_json sorted_asks), (''ts'', JInt ts)]))))"

definition handle_orderbook_snapshot :: "raw_event \<Rightarrow> exn + handler_result" where
  "handle_orderbook_snapshot ev =
     (let d = rw_payload ev in
      ebind (stream_symbol (rw_source_stream ev)) (\<lambda>symbol.
      ebind (py_int (dict_get ''lastUpdateId'' (JInt 0) d)) (\<lambda>last_update_id.
      ebind (parse_levels (dict_get ''bids'' (JArr []) d)) (\<lambda>bids.
      ebind (parse_levels (dict_get ''asks'' (JArr []) d)) (\<lambda>asks.
        let book = [(''last_update_id'', JInt last_update_id), (''bids'', levels_json bids),
                    (''asks'', levels_json asks)] in
        Inr (result (normalized ORDERBOOK_SNAPSHOT ev symbol (rw_received_ms ev) book)
          [hot_write (market_book_key (mtype ev) symbol)
             (book @ [(''ts'', JInt (rw_received_ms ev))]) BOOK_TTL_S]))))))"

definition handle_orderbook_delta :: "raw_event \<Rightarrow> json option \<Rightarrow> exn + handler_result" where
  "handle_orderbook_delta ev current_book =
     (let d = rw_payload ev in
      ebind (stream_symbol (rw_source_stream ev)) (\<lambda>symbol.
      ebind (py_int (dict_get ''U'' (JInt 0) d)) (\<lambda>first_update_id.
      ebind (py_int (dict_get ''u'' (JInt 0) d)) (\<lambda>last_update_id.
      ebind (parse_levels (dict_get ''b'' (JArr []) d)) (\<lambda>bids.
      ebind (parse_levels (dict_get ''a'' (JArr []) d)) (\<lambda>asks.
      ebind (py_int (dict_get ''E'' (JInt (rw_received_ms ev)) d)) (\<lambda>event_ms.
        let e = normalized ORDERBOOK_DELTA ev symbol event_ms
                  [(''first_update_id'', JInt first_update_id), (''last_update_id'', JInt last_update_id),
                   (''bids'', levels_json bids), (''asks'', levels_json asks)]
        in case current_book of
             None \<Rightarrow> Inr (result e [])
           | Some book \<Rightarrow>
               ebind (apply_delta book bids asks last_update_id (rw_received_ms ev)) (\<lambda>merged.
                 Inr (result e [hot_write (market_book_key (mtype ev) symbol) merged BOOK_TTL_S])))))))))"

section \<open>Account events\<close>

definition ACCOUNT_TTL_S :: int where "ACCOUNT_TTL_S = 300"

definition account_balances_key :: "string \<Rightarrow> string" where
  "account_balances_key user_id = ''account:'' @ user_id @ '':balances''"

definition account_positions_key :: "string \<Rightarrow> string" where
  "account_positions_key user_id = ''account:'' @ user_id @ '':positions''"

definition account_open_orders_key :: "string \<Rightarrow> string" where
  "account_open_orders_key user_id = ''account:'' @ user_id @ '':open_orders''"

text \<open>\<open>{name: x.get(key, default), ...}\<close>.\<close>

definition pick :: "(string \<times> string \<times> json) list \<Rightarrow> json \<Rightarrow> exn + json" where
  "pick columns x =
     ebind (emap (\<lambda>(name, k, dflt). ebind (obj_get x k dflt) (\<lambda>v. Inr (name, v))) columns)
       (\<lambda>d. Inr (JObj d))"

definition balance_columns :: "(string \<times> string \<times> json) list" where
  "balance_columns =
     [(''asset'', ''a'', JStr []), (''wallet_balance'', ''wb'', JStr ''0''),
      (''cross_wallet_balance'', ''cw'', JStr ''0''), (''balance_change'', ''bc'', JStr ''0'')]"

definition position_columns :: "(string \<times> string \<times> json) list" where
  "position_columns =
     [(''symbol'', ''s'', JStr []), (''position_side'', ''ps'', JStr ''BOTH''),
      (''position_amt'', ''pa'', JStr ''0''), (''entry_price'', ''ep'', JStr ''0''),
      (''unrealized_pnl'', ''up'', JStr ''0''), (''accumulated_realized'', ''cr'', JStr ''0''),
      (''margin_type'', ''mt'', JStr []), (''isolated_wallet'', ''iw'', JStr ''0'')]"

definition handle_account_update :: "raw_event \<Rightarrow> string \<Rightarrow> exn + handler_result" where
  "handle_account_update ev user_id =
     (let d = rw_payload ev; a = dict_get ''a'' (JObj []) d in
      ebind (py_int (dict_get ''E'' (JInt (rw_received_ms ev)) d)) (\<lambda>event_ms.
      ebind (obj_get a ''m'' (JStr [])) (\<lambda>reason.
      ebind (obj_get a ''B'' (JArr [])) (\<lambda>raw_balances.
      ebind (obj_get a ''P'' (JArr [])) (\<lambda>raw_positions.
      ebind (ebind (list_items raw_balances) (emap (pick balance_columns))) (\<lambda>balances.
      ebind (ebind (list_items raw_positions) (emap (pick position_columns))) (\<lambda>positions.
        Inr (result
          (normalized ACCOUNT_UPDATE ev [] event_ms
             [(''reason'', reason), (''balances'', JArr balances), (''positions'', JArr positions)])
          (if user_id = [] then []
           else [hot_write (account_balances_key user_id)
                   [(''balances'', JArr balances), (''ts'', JInt event_ms)] ACCOUNT_TTL_S,
                 hot_write (account_positions_key user_id)
                   [(''positions'', JArr positions), (''ts'', JInt event_ms)] ACCOUNT_TTL_S])))))))))"

definition user_order_data :: "env \<Rightarrow> (string \<times> json) list \<Rightarrow> int \<Rightarrow> (string \<times> json) list" where
  "user_order_data env ord t =
     (let field = (\<lambda>k dflt. dict_get k dflt ord) in
      [(''client_order_id'', field ''c'' (JStr [])),
       (''exchange_order_id'', JStr (py_str (e_show env) (field ''i'' (JStr [])))),
       (''side'', field ''S'' (JStr [])), (''order_type'', field ''o'' (JStr [])),
       (''order_status'', field ''X'' (JStr [])), (''price'', field ''p'' (JStr ''0'')),
       (''orig_qty'', field ''q'' (JStr ''0'')), (''filled_qty'', field ''z'' (JStr ''0'')),
       (''avg_price'', field ''ap'' (JStr ''0'')),
       (''reduce_only'', JBool (truthy (field ''R'' (JBool False)))),
       (''position_side'', field ''ps'' (JStr ''BOTH'')), (''stop_price'', field ''sp'' (JStr ''0'')),
       (''time_in_force'', field ''f'' (JStr ''GTC'')), (''trade_time_ms'', JInt t),
       (''commission'', field ''n'' (JStr ''0'')), (''commission_asset'', field ''N'' (JStr [])),
       (''realized_pnl'', field ''rp'' (JStr ''0'')),
       (''is_maker'', JBool (truthy (field ''m'' (JBool False))))])"

definition open_order_write :: "env \<Rightarrow> string \<Rightarrow> string \<Rightarrow> (string \<times> json) list \<Rightarrow> int \<Rightarrow> hot_write" where
  "open_order_write env user_id symbol ord t =
     (let field = (\<lambda>k dflt. dict_get k dflt ord) in
      hot_write (account_open_orders_key user_id)
        [(''symbol'', JStr symbol), (''client_order_id'', field ''c'' (JStr [])),
         (''exchange_order_id'', JStr (py_str (e_show env) (field ''i'' (JStr [])))),
         (''side'', field ''S'' (JStr [])), (''status'', field ''X'' (JStr [])),
         (''price'', field ''p'' (JStr ''0'')), (''orig_qty'', field ''q'' (JStr ''0'')),
         (''filled_qty'', field ''z'' (JStr ''0'')), (''ts'', JInt t)] ACCOUNT_TTL_S)"

definition open_order_writes ::
  "env \<Rightarrow> string \<Rightarrow> string \<Rightarrow> (string \<times> json) list \<Rightarrow> int \<Rightarrow> exn + hot_write list" where
  "open_order_writes env user_id symbol ord t =
     (let status = dict_get ''X'' (JStr []) ord in
      if user_id = [] then Inr []
      else if \<not> hashable status then Inl TypeError
      else if status \<in> {JStr ''NEW'', JStr ''PARTIALLY_FILLED''}
      then Inr [open_order_write env user_id symbol ord t] else Inr [])"

definition handle_user_order_update :: "env \<Rightarrow> raw_event \<Rightarrow> string \<Rightarrow> exn + handler_result" where
  "handle_user_order_update env ev user_id =
     ebind (wrapped_order (rw_payload ev)) (\<lambda>ord.
     let symbol_raw = dict_get ''s'' (JStr []) ord in
     ebind (if truthy symbol_raw then symbol_of symbol_raw else Inr []) (\<lambda>symbol.
     if symbol = [] then Inl NormalizeError else
     ebind (py_int (dict_get ''T'' (JInt (rw_received_ms ev)) ord)) (\<lambda>t.
     ebind (open_order_writes env user_id symbol ord t) (\<lambda>hot.
       Inr (result (normalized USER_ORDER ev symbol t (user_order_data env ord t)) hot)))))"

section \<open>The router\<close>

text \<open>\<open>re.search(r"@depth\d", s)\<close>.\<close>

fun partial_depth :: "string \<Rightarrow> bool" where
  "partial_depth [] = False"
| "partial_depth (c # s) =
     (startswith ''@depth'' (c # s) \<and> (case drop 6 (c # s) of [] \<Rightarrow> False | d # _ \<Rightarrow> is_digit d) \<or>
      partial_depth s)"

definition route :: "env \<Rightarrow> raw_event \<Rightarrow> string \<Rightarrow> json option \<Rightarrow> (exn + handler_result) option" where
  "route env ev user_id current_book =
     (let sl = lower (rw_source_stream ev) in
      if sl = ''user_data.account_update'' then Some (handle_account_update ev user_id)
      else if sl = ''user_data.order_trade_update'' then Some (handle_user_order_update env ev user_id)
      else if contains ''@depth'' sl then
        (if contains ''snapshot'' sl \<or> partial_depth sl then Some (handle_orderbook_snapshot ev)
         else Some (handle_orderbook_delta ev current_book))
      else if contains ''@kline_'' sl then Some (handle_kline env ev)
      else if endswith ''@trade'' sl then Some (handle_trade ev)
      else if endswith ''@aggtrade'' sl then Some (handle_agg_trade ev)
      else if endswith ''@bookticker'' sl then Some (handle_book_ticker ev)
      else if endswith ''@markprice'' sl then Some (handle_mark_price ev)
      else if endswith ''@forceorder'' sl then Some (handle_liquidation ev)
      else None)"

section \<open>The consumer\<close>

record normalizer_settings =
  ns_consumer_group :: string
  ns_consumer_name :: string
  ns_batch_size :: int
  ns_block_ms :: int
  ns_default_account_id :: string

definition default_normalizer_settings :: normalizer_settings where
  "default_normalizer_settings =
     \<lparr>ns_consumer_group = ''normalizer'', ns_consumer_name = ''normalizer-1'', ns_batch_size = 100,
      ns_block_ms = 1000, ns_default_account_id = []\<rparr>"

record 'r norm_world = "('r, unit) world" +
  nm_processed :: nat
  nm_skipped :: nat
  nm_errors :: nat

type_synonym ('r, 'a) nact = "('r norm_world, 'a) prog"

record 'r normalizer =
  nz_settings :: normalizer_settings
  nz_ops :: "'r redis_ops"
  nz_env :: env

definition publish_normalized :: "'r normalizer \<Rightarrow> normalized_event \<Rightarrow> ('r, unit) nact" where
  "publish_normalized nz e = stream_publish (nz_ops nz) NORMALIZED [(''event'', Json (dump_event e))]"

definition write_all :: "'r redis_ops \<Rightarrow> hot_write list \<Rightarrow> ('r, unit) nact" where
  "write_all ops writes =
     mwhen (writes \<noteq> [])
       (on_redis (r_set_all ops (map (\<lambda>h. (hw_key h, Json (hw_value h), hw_ttl_s h)) writes)))"

definition norm_ack :: "'r normalizer \<Rightarrow> string \<Rightarrow> ('r, unit) nact" where
  "norm_ack nz msg_id =
     mseq (record_effect (Acked RAW_STREAM (ns_consumer_group (nz_settings nz)) msg_id))
          (on_redis (r_xack (nz_ops nz) RAW_STREAM (ns_consumer_group (nz_settings nz)) msg_id))"

text \<open>The book a delta is merged into: \<open>None\<close> without one, and when the stored text is \<open>null\<close>.\<close>

definition fetch_book :: "'r normalizer \<Rightarrow> raw_event \<Rightarrow> ('r, json option) nact" where
  "fetch_book nz ev =
     (if \<not> is_depth_delta_stream (rw_source_stream ev) then mret None
      else case symbol_from_stream (rw_source_stream ev) of
             None \<Rightarrow> mret None
           | Some symbol \<Rightarrow>
               if symbol = [] then mret None
               else mbind (on_redis (r_get (nz_ops nz) (market_book_key (mtype ev) symbol))) (\<lambda>book_json.
                    if text_truthy book_json
                    then mbind (mlift (json_loads (the book_json))) (\<lambda>j.
                           mret (if j = JNull then None else Some j))
                    else mret None))"

definition norm_process :: "'r normalizer \<Rightarrow> string \<Rightarrow> fields \<Rightarrow> ('r, unit) nact" where
  "norm_process nz msg_id fs =
     (if \<not> text_truthy (map_of fs ''event'') then norm_ack nz msg_id
      else
        mbind (mlift (e_parse_raw (nz_env nz) (the (map_of fs ''event'')))) (\<lambda>ev.
        mbind (fetch_book nz ev) (\<lambda>current_book.
        mseq (case route (nz_env nz) ev (ns_default_account_id (nz_settings nz)) current_book of
                None \<Rightarrow> mput (\<lambda>w. w\<lparr>nm_skipped := Suc (nm_skipped w)\<rparr>)
              | Some r \<Rightarrow>
                  mbind (mlift r) (\<lambda>res.
                  mseq (publish_normalized nz (hr_event res))
                 (mseq (write_all (nz_ops nz) (hr_hot_writes res))
                       (mput (\<lambda>w. w\<lparr>nm_processed := Suc (nm_processed w)\<rparr>)))))
             (norm_ack nz msg_id))))"

definition norm_message :: "'r normalizer \<Rightarrow> string \<Rightarrow> fields \<Rightarrow> ('r, unit) nact" where
  "norm_message nz msg_id fs =
     mtry (norm_process nz msg_id fs)
       (\<lambda>_. mseq (mput (\<lambda>w. w\<lparr>nm_errors := Suc (nm_errors w)\<rparr>)) (norm_ack nz msg_id))"

definition norm_poll_once :: "'r normalizer \<Rightarrow> ('r, unit) nact" where
  "norm_poll_once nz =
     (let s = nz_settings nz in
      mbind (stream_read_group (nz_ops nz) RAW_STREAM (ns_consumer_group s) (ns_consumer_name s)
               (ns_batch_size s) (ns_block_ms s))
        (\<lambda>entries. mfor entries (\<lambda>(msg_id, fs). norm_message nz msg_id fs)))"

primrec norm_run :: "'r normalizer \<Rightarrow> nat \<Rightarrow> ('r, unit) nact" where
  "norm_run nz 0 = mret ()"
| "norm_run nz (Suc n) =
     mseq (mtry (norm_poll_once nz) (\<lambda>_. mput (\<lambda>w. w\<lparr>nm_errors := Suc (nm_errors w)\<rparr>))) (norm_run nz n)"

end
