(* ===== verification/OrderBooks.thy ===== *)
theory OrderBooks
  imports Normalizer
begin

text \<open>
  Order books: the merge of a depth update refines the update of two maps from prices to quantities,
  and its levels are sorted; the integrity tracker (\<open>services/analytics/engines/book_integrity.py\<close>)
  accepts only updates that leave no gap.
\<close>

section \<open>The map a side of a book stands for\<close>

definition levels_map :: "level list \<Rightarrow> (json \<Rightarrow> json option) \<Rightarrow> (json \<Rightarrow> json option)" where
  "levels_map ls m = fold (\<lambda>(p, q) f. f(p \<mapsto> q)) ls m"

text \<open>A depth update: a quantity of zero removes its price.\<close>

definition levels_update :: "level list \<Rightarrow> (json \<Rightarrow> json option) \<Rightarrow> (json \<Rightarrow> json option)" where
  "levels_update ls m =
     fold (\<lambda>(p, q) f. if py_float q = Inr 0 then f(p := None) else f(p \<mapsto> q)) ls m"

definition side_map :: "json \<Rightarrow> (json \<Rightarrow> json option)" where
  "side_map side = (case parse_levels side of Inr ls \<Rightarrow> levels_map ls Map.empty | Inl _ \<Rightarrow> Map.empty)"

definition book_side :: "string \<Rightarrow> json \<Rightarrow> (json \<Rightarrow> json option)" where
  "book_side name book = (case obj_get book name (JArr []) of Inr s \<Rightarrow> side_map s | Inl _ \<Rightarrow> Map.empty)"

definition price_of :: "level \<Rightarrow> rat" where
  "price_of l = (case py_float (fst l) of Inr x \<Rightarrow> x | Inl _ \<Rightarrow> 0)"

section \<open>Merging\<close>

lemma parse_level_json [simp]: "parse_level (level_json l) = Inr l"
  by (simp add: parse_level_def level_json_def)

lemma emap_level_json: "emap parse_level (map level_json ls) = Inr ls"
  by (induction ls) simp_all

lemma parse_levels_json [simp]: "parse_levels (levels_json ls) = Inr ls"
  by (simp add: parse_levels_def levels_json_def emap_level_json)

text \<open>Later levels of a price win; without repeated prices the map is the association list's.\<close>

lemma levels_map_rev: "levels_map ls m = m ++ map_of (rev ls)"
  by (induction ls arbitrary: m) (auto simp: levels_map_def map_add_def fun_eq_iff split: option.splits)

lemma levels_map_of: "distinct (map fst ls) \<Longrightarrow> levels_map ls Map.empty = map_of ls"
  using map_of_inject_set [of "rev ls" ls] by (simp add: levels_map_rev rev_map [symmetric])

lemma side_dict_map: "side_dict acc ls = Inr d \<Longrightarrow> map_of d = levels_map ls (map_of acc)"
  by (induction acc ls arbitrary: d rule: side_dict.induct)
    (auto simp: levels_map_def split: if_splits)

lemma side_dict_distinct: "side_dict acc ls = Inr d \<Longrightarrow> distinct (map fst acc) \<Longrightarrow> distinct (map fst d)"
  by (induction acc ls arbitrary: d rule: side_dict.induct) (auto split: if_splits)

lemma apply_levels_map: "apply_levels ls side = Inr d \<Longrightarrow> map_of d = levels_update ls (map_of side)"
  by (induction ls side arbitrary: d rule: apply_levels.induct)
    (auto simp: levels_update_def ebind_def split: sum.splits if_splits)

lemma apply_levels_distinct:
  "apply_levels ls side = Inr d \<Longrightarrow> distinct (map fst side) \<Longrightarrow> distinct (map fst d)"
  by (induction ls side arbitrary: d rule: apply_levels.induct)
    (auto simp: ebind_def split: sum.splits if_splits)

lemma priced_Inr: "priced l = Inr p \<Longrightarrow> p = (price_of l, l)"
  by (auto simp: priced_def price_of_def ebind_def split: sum.splits)

lemma priced_all: "emap priced side = Inr ps \<Longrightarrow> map snd ps = side \<and> list_all (\<lambda>p. fst p = price_of (snd p)) ps"
  by (induction side arbitrary: ps) (auto simp: ebind_def dest!: priced_Inr split: sum.splits)

lemma sort_levels_sorts:
  assumes "sort_levels key side = Inr out"
  shows "mset out = mset side" "sorted (map (key \<circ> price_of) out)"
proof -
  obtain ps where ps: "emap priced side = Inr ps" "out = map snd (sort_key (key \<circ> fst) ps)"
    using assms by (auto simp: sort_levels_def ebind_def split: sum.splits)
  have all: "map snd ps = side" "list_all (\<lambda>p. fst p = price_of (snd p)) ps"
    using priced_all [OF ps(1)] by simp_all
  show "mset out = mset side"
    unfolding ps(2) all(1) [symmetric] by (simp only: mset_map mset_sort)
  have "map (key \<circ> price_of) out = map (key \<circ> fst) (sort_key (key \<circ> fst) ps)"
    using all(2) by (simp add: ps(2) list_all_iff)
  then show "sorted (map (key \<circ> price_of) out)" by (simp only: sorted_sort_key)
qed

lemma merge_side_refines:
  assumes "merge_side key current deltas = Inr out"
  shows "levels_map out Map.empty = levels_update deltas (side_map current)"
    "distinct (map fst out)" "sorted (map (key \<circ> price_of) out)"
proof -
  obtain ls side merged where steps: "parse_levels current = Inr ls" "side_dict [] ls = Inr side"
    "apply_levels deltas side = Inr merged" "sort_levels key merged = Inr out"
    using assms by (auto simp: merge_side_def ebind_def split: sum.splits)
  note sorts = sort_levels_sorts [OF steps(4)]
  have d: "distinct (map fst merged)"
    using apply_levels_distinct [OF steps(3)] side_dict_distinct [OF steps(2)] by simp
  have "mset (map fst out) = mset (map fst merged)" by (simp only: mset_map sorts(1))
  then show d': "distinct (map fst out)" using d by (metis mset_eq_imp_distinct_iff)
  show "sorted (map (key \<circ> price_of) out)" by (rule sorts(2))
  have "set out = set merged" using sorts(1) by (metis set_mset_mset)
  then have "map_of out = map_of merged" using d d' by (simp add: map_of_inject_set)
  also have "\<dots> = levels_update deltas (levels_map ls Map.empty)"
    using apply_levels_map [OF steps(3)] side_dict_map [OF steps(2)] by simp
  also have "levels_map ls Map.empty = side_map current" by (simp add: side_map_def steps(1))
  finally have "map_of out = levels_update deltas (side_map current)" .
  moreover have "levels_map out Map.empty = map_of out"
    using levels_map_of [OF d'] .
  ultimately show "levels_map out Map.empty = levels_update deltas (side_map current)" by simp
qed

text \<open>
  C3: Merging a depth update into a book refines updating two maps from prices to quantities: what the
  written book reads back as is the old book's map with every update applied in order and the zero
  quantities removed; its bids are sorted by falling and its asks by rising price, no price twice.
\<close>

theorem delta_merge_refines_map_update:
  assumes "apply_delta book bids asks n ts = Inr merged"
  shows "book_side ''bids'' (JObj merged) = levels_update bids (book_side ''bids'' book) \<and>
    book_side ''asks'' (JObj merged) = levels_update asks (book_side ''asks'' book) \<and>
    (\<exists>bs as. dict_get ''bids'' JNull merged = levels_json bs \<and> dict_get ''asks'' JNull merged = levels_json as \<and>
       sorted_wrt (\<lambda>l m. price_of m \<le> price_of l) bs \<and> sorted_wrt (\<lambda>l m. price_of l \<le> price_of m) as \<and>
       distinct (map fst bs) \<and> distinct (map fst as))"
proof -
  obtain b a bs as where steps: "obj_get book ''bids'' (JArr []) = Inr b" "obj_get book ''asks'' (JArr []) = Inr a"
    "merge_side uminus b bids = Inr bs" "merge_side id a asks = Inr as"
    "merged = [(''last_update_id'', JInt n), (''bids'', levels_json bs), (''asks'', levels_json as), (''ts'', JInt ts)]"
    using assms by (auto simp: apply_delta_def ebind_def split: sum.splits)
  note bids = merge_side_refines [OF steps(3)] and asks = merge_side_refines [OF steps(4)]
  have "book_side ''bids'' (JObj merged) = levels_map bs Map.empty" "book_side ''asks'' (JObj merged) = levels_map as Map.empty"
    by (simp_all add: steps(5) book_side_def side_map_def dict_get_def)
  moreover have "book_side ''bids'' book = side_map b" "book_side ''asks'' book = side_map a"
    by (simp_all add: book_side_def steps(1,2))
  moreover have "sorted_wrt (\<lambda>l m. price_of m \<le> price_of l) bs" "sorted_wrt (\<lambda>l m. price_of l \<le> price_of m) as"
    using bids(3) asks(3) by (simp_all add: sorted_map)
  ultimately show ?thesis
    using bids asks by (auto simp: steps(5) dict_get_def)
qed

definition demo_book :: json where
  "demo_book = JObj [(''bids'', levels_json [(JStr ''10'', JStr ''1''), (JStr ''9'', JStr ''2'')]),
                     (''asks'', levels_json [(JStr ''11'', JStr ''3'')])]"

lemma demo_merge:
  "apply_delta demo_book [(JStr ''10'', JStr ''0''), (JStr ''9.5'', JStr ''4'')] [(JStr ''10.5'', JStr ''1'')] 7 8 =
     Inr [(''last_update_id'', JInt 7),
          (''bids'', levels_json [(JStr ''9.5'', JStr ''4''), (JStr ''9'', JStr ''2'')]),
          (''asks'', levels_json [(JStr ''10.5'', JStr ''1''), (JStr ''11'', JStr ''3'')]), (''ts'', JInt 8)]"
  by code_simp

theorem delta_merge_refines_map_update_witness:
  "book_side ''bids'' (JObj [(''last_update_id'', JInt 7),
          (''bids'', levels_json [(JStr ''9.5'', JStr ''4''), (JStr ''9'', JStr ''2'')]),
          (''asks'', levels_json [(JStr ''10.5'', JStr ''1''), (JStr ''11'', JStr ''3'')]), (''ts'', JInt 8)]) =
     levels_update [(JStr ''10'', JStr ''0''), (JStr ''9.5'', JStr ''4'')] (book_side ''bids'' demo_book)"
  using delta_merge_refines_map_update [OF demo_merge] by blast

section \<open>Continuity of the updates\<close>

record book_integrity =
  bi_has_snapshot :: bool
  bi_last_update_id :: int
  bi_is_valid :: bool
  bi_gap_detected_at_ms :: "int option"
  bi_invalidated_reason :: "string option"
  bi_snapshot_received_at_ms :: int
  bi_deltas_applied :: nat
  bi_deltas_skipped :: nat

definition new_integrity :: book_integrity where
  "new_integrity =
     \<lparr>bi_has_snapshot = False, bi_last_update_id = 0, bi_is_valid = False, bi_gap_detected_at_ms = None,
      bi_invalidated_reason = None, bi_snapshot_received_at_ms = 0, bi_deltas_applied = 0,
      bi_deltas_skipped = 0\<rparr>"

definition on_snapshot :: "int \<Rightarrow> int \<Rightarrow> book_integrity \<Rightarrow> book_integrity" where
  "on_snapshot last_update_id received_ms s =
     s\<lparr>bi_has_snapshot := True, bi_last_update_id := last_update_id, bi_is_valid := True,
       bi_gap_detected_at_ms := None, bi_invalidated_reason := None,
       bi_snapshot_received_at_ms := received_ms, bi_deltas_applied := 0, bi_deltas_skipped := 0\<rparr>"

definition skip_delta :: "book_integrity \<Rightarrow> book_integrity" where
  "skip_delta s = s\<lparr>bi_deltas_skipped := Suc (bi_deltas_skipped s)\<rparr>"

definition gap_text :: "int \<Rightarrow> int \<Rightarrow> string" where
  "gap_text expected_next first_update_id =
     ''sequence gap: expected first_update_id<='' @ show_int expected_next @ '', got '' @
     show_int first_update_id @ '' (gap='' @ show_int (first_update_id - expected_next) @ '')''"

definition on_delta :: "int \<Rightarrow> int \<Rightarrow> int \<Rightarrow> book_integrity \<Rightarrow> bool \<times> book_integrity" where
  "on_delta first_update_id last_update_id received_ms s =
     (let expected_next = bi_last_update_id s + 1 in
      if \<not> bi_has_snapshot s then (False, skip_delta s)
      else if last_update_id \<le> bi_last_update_id s then (False, skip_delta s)
      else if expected_next < first_update_id
      then (False, skip_delta (s\<lparr>bi_is_valid := False, bi_gap_detected_at_ms := Some received_ms,
                     bi_invalidated_reason := Some (gap_text expected_next first_update_id)\<rparr>))
      else (True, s\<lparr>bi_last_update_id := last_update_id, bi_deltas_applied := Suc (bi_deltas_applied s)\<rparr>))"

definition invalidate :: "string \<Rightarrow> int \<Rightarrow> book_integrity \<Rightarrow> book_integrity" where
  "invalidate reason received_ms s =
     s\<lparr>bi_is_valid := False, bi_gap_detected_at_ms := Some received_ms, bi_invalidated_reason := Some reason\<rparr>"

definition integrity_dict :: "book_integrity \<Rightarrow> (string \<times> json) list" where
  "integrity_dict s =
     [(''has_snapshot'', JBool (bi_has_snapshot s)), (''is_valid'', JBool (bi_is_valid s)),
      (''last_update_id'', JInt (bi_last_update_id s)),
      (''gap_detected_at_ms'', opt_json JInt (bi_gap_detected_at_ms s)),
      (''invalidated_reason'', opt_json JStr (bi_invalidated_reason s)),
      (''deltas_applied'', JInt (int (bi_deltas_applied s))),
      (''deltas_skipped'', JInt (int (bi_deltas_skipped s)))]"

text \<open>A sequence of updates, with those that were accepted.\<close>

fun run_deltas :: "(int \<times> int \<times> int) list \<Rightarrow> book_integrity \<Rightarrow> (int \<times> int) list \<times> book_integrity" where
  "run_deltas [] s = ([], s)"
| "run_deltas ((U, u, t) # ds) s =
     (case on_delta U u t s of (ok, s1) \<Rightarrow>
        case run_deltas ds s1 of (acc, s2) \<Rightarrow> (if ok then (U, u) # acc else acc, s2))"

lemma run_deltas_covers:
  assumes "run_deltas ds s = (acc, s')" "bi_has_snapshot s"
  shows "bi_last_update_id s \<le> bi_last_update_id s' \<and>
    (\<forall>i. bi_last_update_id s < i \<and> i \<le> bi_last_update_id s' \<longrightarrow> (\<exists>(U, u) \<in> set acc. U \<le> i \<and> i \<le> u)) \<and>
    bi_deltas_applied s' = bi_deltas_applied s + length acc \<and>
    bi_deltas_applied s' + bi_deltas_skipped s' = bi_deltas_applied s + bi_deltas_skipped s + length ds \<and>
    (bi_is_valid s' \<longrightarrow> bi_is_valid s)"
  using assms
proof (induction ds arbitrary: s acc)
  case (Cons d ds)
  obtain U u t where d: "d = (U, u, t)" by (cases d)
  obtain ok s1 where s1: "on_delta U u t s = (ok, s1)" by fastforce
  obtain acc1 where acc1: "run_deltas ds s1 = (acc1, s')" "acc = (if ok then (U, u) # acc1 else acc1)"
    using Cons.prems(1) by (auto simp: d s1 split: prod.splits)
  have "bi_has_snapshot s1"
    using s1 Cons.prems(2) by (auto simp: on_delta_def Let_def skip_delta_def split: if_splits)
  note IH = Cons.IH [OF acc1(1) this]
  show ?case
  proof (cases ok)
    case True
    then have "U \<le> bi_last_update_id s + 1" "bi_last_update_id s < u" "bi_last_update_id s1 = u"
      "bi_deltas_applied s1 = Suc (bi_deltas_applied s)" "bi_deltas_skipped s1 = bi_deltas_skipped s"
      "bi_is_valid s1 = bi_is_valid s"
      using s1 by (auto simp: on_delta_def Let_def split: if_splits)
    then show ?thesis using IH True by (auto simp: acc1(2)) (metis linorder_not_le)+
  next
    case False
    then have "bi_last_update_id s1 = bi_last_update_id s" "bi_deltas_applied s1 = bi_deltas_applied s"
      "bi_deltas_skipped s1 = Suc (bi_deltas_skipped s)" "bi_is_valid s1 \<longrightarrow> bi_is_valid s"
      using s1 by (auto simp: on_delta_def Let_def skip_delta_def split: if_splits)
    then show ?thesis using IH False by (simp add: acc1(2))
  qed
qed simp

text \<open>
  C15: After a snapshot, whatever updates arrive, every update id between the snapshot's and the
  tracker's current one lies in an accepted update, so the tracker never steps over a gap; each
  update is counted once as applied or as skipped.
\<close>

theorem book_updates_leave_no_gap:
  assumes "run_deltas ds (on_snapshot n t s) = (acc, s')"
  shows "n \<le> bi_last_update_id s' \<and>
    (\<forall>i. n < i \<and> i \<le> bi_last_update_id s' \<longrightarrow> (\<exists>(U, u) \<in> set acc. U \<le> i \<and> i \<le> u)) \<and>
    bi_deltas_applied s' = length acc \<and> bi_deltas_applied s' + bi_deltas_skipped s' = length ds"
  using run_deltas_covers [OF assms] by (simp add: on_snapshot_def)

theorem book_updates_leave_no_gap_witness:
  "bi_last_update_id (snd (run_deltas [(9, 12, 0), (15, 16, 1), (13, 14, 2)] (on_snapshot 10 0 new_integrity))) = 14 \<and>
   (\<exists>(U, u) \<in> set (fst (run_deltas [(9, 12, 0), (15, 16, 1), (13, 14, 2)] (on_snapshot 10 0 new_integrity))). U \<le> 13 \<and> 13 \<le> u)"
proof -
  let ?r = "run_deltas [(9, 12, 0), (15, 16, 1), (13, 14, 2)] (on_snapshot 10 0 new_integrity)"
  have last: "bi_last_update_id (snd ?r) = 14" by code_simp
  show ?thesis
    using last book_updates_leave_no_gap [of "[(9, 12, 0), (15, 16, 1), (13, 14, 2)]" 10 0 new_integrity, OF surjective_pairing]
    by simp
qed

end
