(* ===== verification/NormalizerProperties.thy ===== *)
theory NormalizerProperties
  imports Normalizer Adapters Demo
begin

text \<open>
  What the normalizer promises the rest of the platform: every message is acknowledged, only market
  and account keys are written, and the price of a trade is the price at which the paper adapter
  fills the next market order.
\<close>

section \<open>The keys a handler writes\<close>

definition hot_key :: "string \<Rightarrow> bool" where
  "hot_key k = (startswith ''market:'' k \<or> startswith ''account:'' k)"

definition hot_result :: "handler_result \<Rightarrow> bool" where
  "hot_result res = list_all (\<lambda>h. hot_key (hw_key h) \<and> 0 < hw_ttl_s h) (hr_hot_writes res)"

lemma hot_key_simps [simp]:
  "hot_key (market_price_key m s)" "hot_key (market_book_ticker_key m s)" "hot_key (market_mark_key m s)"
  "hot_key (market_funding_key m s)" "hot_key (market_klines_key m s i)" "hot_key (market_book_key m s)"
  "hot_key (account_balances_key u)" "hot_key (account_positions_key u)" "hot_key (account_open_orders_key u)"
  by (simp_all add: hot_key_def startswith_def market_price_key_def market_book_ticker_key_def
      market_mark_key_def market_funding_key_def market_klines_key_def market_book_key_def key2_def
      account_balances_key_def account_positions_key_def account_open_orders_key_def)

lemma not_hot_simps [simp]:
  "\<not> hot_key (kill_switch_key a)" "\<not> hot_key (user_pause_key a)" "\<not> hot_key (symbol_pause_key a s)"
  "\<not> hot_key (circuit_breaker_key a)" "\<not> hot_key (symbol_cooldown_key a s)" "\<not> hot_key (job_lock_key c)"
  by (simp_all add: hot_key_def startswith_def key_defs)

lemmas ttl_defs =
  PRICE_TTL_S_def BOOK_TICKER_TTL_S_def MARK_TTL_S_def FUNDING_TTL_S_def DEFAULT_TTL_S_def BOOK_TTL_S_def
  ACCOUNT_TTL_S_def

lemma interval_ttl_pos: "interval_ttl i = Inr t \<Longrightarrow> 0 < t"
proof -
  have "\<forall>(s, t) \<in> set INTERVAL_TTL. 0 < t" by (simp add: INTERVAL_TTL_def)
  then show "interval_ttl i = Inr t \<Longrightarrow> 0 < t"
    by (auto simp: interval_ttl_def DEFAULT_TTL_S_def split: json.splits option.splits dest!: map_of_SomeD)
qed

lemma hot_result_simps [simp]:
  "hot_result (result e []) " "hot_result (result e (h # hs)) = (hot_key (hw_key h) \<and> 0 < hw_ttl_s h \<and> hot_result (result e hs))"
  "hw_key (hot_write k v t) = k" "hw_ttl_s (hot_write k v t) = t" "hw_value (hot_write k v t) = JObj v"
  by (simp_all add: hot_result_def result_def hot_write_def)

lemma handlers_hot:
  "handle_trade ev = Inr res \<Longrightarrow> hot_result res" "handle_agg_trade ev = Inr res \<Longrightarrow> hot_result res"
  "handle_book_ticker ev = Inr res \<Longrightarrow> hot_result res" "handle_mark_price ev = Inr res \<Longrightarrow> hot_result res"
  "handle_orderbook_snapshot ev = Inr res \<Longrightarrow> hot_result res"
  "handle_account_update ev uid = Inr res \<Longrightarrow> hot_result res"
  by (auto simp: handle_trade_def handle_agg_trade_def handle_book_ticker_def handle_mark_price_def
      handle_orderbook_snapshot_def handle_account_update_def ebind_Inr Let_def price_write_def ttl_defs)

lemma liquidation_hot: "handle_liquidation ev = Inr res \<Longrightarrow> hot_result res"
  by (auto simp: handle_liquidation_def ebind_Inr)

lemma kline_hot: "handle_kline env ev = Inr res \<Longrightarrow> hot_result res"
  by (cases "dict_get ''k'' (JObj []) (rw_payload ev)")
    (auto simp: handle_kline_def ebind_Inr Let_def interval_ttl_pos)

lemma delta_hot: "handle_orderbook_delta ev cb = Inr res \<Longrightarrow> hot_result res"
  by (auto simp: handle_orderbook_delta_def ebind_Inr Let_def ttl_defs split: option.splits)

lemma open_order_writes_hot: "open_order_writes env uid sy ord t = Inr hot \<Longrightarrow> hot_result (result e hot)"
  by (auto simp: open_order_writes_def open_order_write_def Let_def ttl_defs split: if_splits)

lemma user_order_hot: "handle_user_order_update env ev uid = Inr res \<Longrightarrow> hot_result res"
  by (auto simp: handle_user_order_update_def Let_def ebind_Inr intro: open_order_writes_hot split: if_splits)

lemma route_hot: "route env ev uid cb = Some (Inr res) \<Longrightarrow> hot_result res"
  by (auto simp: route_def Let_def handlers_hot liquidation_hot kline_hot delta_hot user_order_hot
      split: if_splits)

section \<open>What a message changes\<close>

definition only_hot ::
  "('r \<Rightarrow> string \<Rightarrow> rtext option) \<Rightarrow> ('r, 'd, 'm) world_scheme \<Rightarrow> ('r, 'd, 'm) world_scheme \<Rightarrow> bool" where
  "only_hot live w w' = (\<forall>k. \<not> hot_key k \<longrightarrow> live (w_redis w') k = live (w_redis w) k)"

interpretation only_hot: frame "only_hot live" for live :: "'r \<Rightarrow> string \<Rightarrow> rtext option"
  by unfold_locales (auto simp: only_hot_def)

lemma only_hot_put: "(\<And>w. w_redis (f w) = w_redis w) \<Longrightarrow> moves (only_hot live) (mput f)"
  by (simp add: moves_def only_hot_def mput_def)

lemma only_hot_redis:
  assumes "\<And>s. wp m (\<lambda>r s'. \<forall>k. \<not> hot_key k \<longrightarrow> live s' k = live s k) s"
  shows "moves (only_hot live) (on_redis m)"
proof (rule movesI)
  fix w w' :: "('a, 'c, 'd) world_scheme" and r
  assume "on_redis m w = (r, w')"
  then show "only_hot live w w'"
    using assms [of "w_redis w"] by (auto simp: only_hot_def on_redis_def wp_def split: prod.splits)
qed

lemma only_hot_lift: "(\<And>x. r = Inr x \<Longrightarrow> moves (only_hot live) (f x)) \<Longrightarrow> moves (only_hot live) (mbind (mlift r) f)"
  by (cases r) (simp_all add: moves_def mbind_def mlift_def only_hot.refl)

locale normalizer_service = redis "nz_ops nz" live
  for nz :: "'r normalizer" and live :: "'r \<Rightarrow> string \<Rightarrow> rtext option"
begin

lemma hot_writes:
  assumes "list_all (\<lambda>h. hot_key (hw_key h) \<and> 0 < hw_ttl_s h) hs"
  shows "moves (only_hot live) (write_all (nz_ops nz) hs)"
proof -
  have "live s' k = live s k"
    if "r_set_all (nz_ops nz) (map (\<lambda>h. (hw_key h, Json (hw_value h), hw_ttl_s h)) hs) s = (r, s')" "\<not> hot_key k" for r s s' k
  proof -
    have "k \<notin> fst ` set (map (\<lambda>h. (hw_key h, Json (hw_value h), hw_ttl_s h)) hs)"
      using assms that(2) by (auto simp: list_all_iff)
    then show ?thesis using set_all_live [OF that(1)] by blast
  qed
  then show ?thesis
    unfolding write_all_def by (intro only_hot.whens only_hot_redis wpI) blast
qed

lemma hot_ack: "moves (only_hot live) (norm_ack nz m)"
  unfolding norm_ack_def record_effect_def
  by (intro only_hot.rules only_hot_redis wpI only_hot_put) (auto dest: xack_live)

lemma hot_publish: "moves (only_hot live) (publish_normalized nz e)"
  unfolding publish_normalized_def stream_publish_def record_effect_def
  by (intro only_hot.rules only_hot_redis wpI only_hot_put) (auto dest: xadd_live)

lemma hot_fetch: "moves (only_hot live) (fetch_book nz ev)"
  unfolding fetch_book_def
  by (auto intro!: only_hot.rules only_hot_redis wpI dest: get_live split: option.split)

lemma hot_message: "moves (only_hot live) (norm_message nz m fs)"
  unfolding norm_message_def norm_process_def
  by (auto intro!: only_hot_lift hot_fetch hot_ack hot_publish hot_writes only_hot_put only_hot.rules
      split: option.split dest!: route_hot simp: hot_result_def)

end

text \<open>
  Whatever message arrives and whatever Redis does within its laws, the normalizer leaves every
  kill switch, pause, circuit breaker, cooldown and job lock as it is.
\<close>

theorem normalizer_keeps_controls:
  assumes "redis (nz_ops nz) live" and "norm_message nz msg_id fs w = (r, w')"
  shows "live (w_redis w') (kill_switch_key a) = live (w_redis w) (kill_switch_key a) \<and>
    live (w_redis w') (user_pause_key a) = live (w_redis w) (user_pause_key a) \<and>
    live (w_redis w') (symbol_pause_key a s) = live (w_redis w) (symbol_pause_key a s) \<and>
    live (w_redis w') (circuit_breaker_key a) = live (w_redis w) (circuit_breaker_key a) \<and>
    live (w_redis w') (symbol_cooldown_key a s) = live (w_redis w) (symbol_cooldown_key a s) \<and>
    live (w_redis w') (job_lock_key c) = live (w_redis w) (job_lock_key c)"
proof -
  have "normalizer_service nz live" using assms(1) by (simp add: normalizer_service_def)
  from movesD [OF normalizer_service.hot_message [OF this] assms(2)] show ?thesis
    by (simp add: only_hot_def)
qed

section \<open>Acknowledgement\<close>

lemma ack_acks:
  "wp (norm_ack nz m) (\<lambda>r w'. acks (Acked RAW_STREAM (ns_consumer_group (nz_settings nz)) m) w w') w"
  by (auto simp: norm_ack_def wp_seq wp_record wp_on_redis acks_def intro!: wpI)

text \<open>An outcome in which the message was acknowledged, or an exception was raised.\<close>

definition acked_or_raised :: "effect \<Rightarrow> ('r, 'd, 'm) world_scheme \<Rightarrow> exn + unit \<Rightarrow> ('r, 'd, 'm) world_scheme \<Rightarrow> bool" where
  "acked_or_raised e w r w' = (more_trace (\<lambda>_. True) w w' \<and> (r = Inr () \<longrightarrow> acks e w w'))"

lemma acked_or_raised_trans: "more_trace (\<lambda>_. True) u v \<Longrightarrow> acked_or_raised e v r w \<Longrightarrow> acked_or_raised e u r w"
  by (auto simp: acked_or_raised_def intro: more_trace.trans more_then_acks)

lemma process_acks:
  "wp (norm_process nz m fs) (acked_or_raised (Acked RAW_STREAM (ns_consumer_group (nz_settings nz)) m) w) w"
proof -
  let ?Q = "acked_or_raised (Acked RAW_STREAM (ns_consumer_group (nz_settings nz)) m) w"
  have ack: "wp (norm_ack nz m) ?Q v" if "more_trace (\<lambda>_. True) w v" for v
    by (rule wp_mono [OF ack_acks], rule acked_or_raised_trans [OF that])
      (auto simp: acked_or_raised_def acks_more)
  have raised: "more_trace (\<lambda>_. True) w v \<Longrightarrow> ?Q (Inl e) v" for v e
    by (simp add: acked_or_raised_def)
  have body: "moves (more_trace (\<lambda>_. True)) (case x of None \<Rightarrow> mput (\<lambda>w. w\<lparr>nm_skipped := Suc (nm_skipped w)\<rparr>)
      | Some r \<Rightarrow> mbind (mlift r) (\<lambda>res. mseq (publish_normalized nz (hr_event res))
          (mseq (write_all (nz_ops nz) (hr_hot_writes res)) (mput (\<lambda>w. w\<lparr>nm_processed := Suc (nm_processed w)\<rparr>)))))" for x
    unfolding publish_normalized_def stream_publish_def write_all_def
    by (auto intro!: more_trace.rules more_trace_redis more_trace_record more_trace_put split: option.split)
  have fetch: "moves (more_trace (\<lambda>_. True)) (fetch_book nz ev)" for ev
    unfolding fetch_book_def by (auto intro!: more_trace.rules more_trace_redis split: option.split)
  show ?thesis
  proof (cases "text_truthy (map_of fs ''event'')")
    case False
    then show ?thesis by (simp add: norm_process_def ack more_trace.refl)
  next
    case True
    show ?thesis
    proof (cases "e_parse_raw (nz_env nz) (the (map_of fs ''event''))")
      case (Inl e)
      then show ?thesis using True by (simp add: norm_process_def wp_bind wp_lift raised more_trace.refl)
    next
      case (Inr ev)
      have "wp (mbind (fetch_book nz ev) (\<lambda>b. mseq (case route (nz_env nz) ev (ns_default_account_id (nz_settings nz)) b of
            None \<Rightarrow> mput (\<lambda>w. w\<lparr>nm_skipped := Suc (nm_skipped w)\<rparr>)
          | Some r \<Rightarrow> mbind (mlift r) (\<lambda>res. mseq (publish_normalized nz (hr_event res))
             (mseq (write_all (nz_ops nz) (hr_hot_writes res)) (mput (\<lambda>w. w\<lparr>nm_processed := Suc (nm_processed w)\<rparr>)))))
          (norm_ack nz m))) ?Q w"
      proof (rule wp_bind_moves [OF fetch], goal_cases)
        case (1 e v)
        then show ?case by (rule raised)
      next
        case (2 b v)
        show ?case
          by (rule wp_seq_moves [OF body]) (rule raised ack, erule more_trace.trans [OF 2])+
      qed
      then show ?thesis
        unfolding norm_process_def using True by (simp add: wp_bind [of "mlift _"] wp_lift Inr)
    qed
  qed
qed

text \<open>
  Every message the normalizer takes from the stream is acknowledged, whatever it holds and
  whatever fails on the way: a poison message is never processed again.
\<close>

theorem normalizer_acknowledges_every_message:
  assumes "norm_message nz msg_id fs w = (r, w')"
  shows "\<exists>es. w_trace w' = w_trace w @ es \<and>
    Acked RAW_STREAM (ns_consumer_group (nz_settings nz)) msg_id \<in> set es"
proof -
  let ?a = "Acked RAW_STREAM (ns_consumer_group (nz_settings nz)) msg_id"
  have handler: "wp (mseq (mput (\<lambda>w. w\<lparr>nm_errors := Suc (nm_errors w)\<rparr>)) (norm_ack nz msg_id))
      (\<lambda>r w'. acks ?a w w') v" if "more_trace (\<lambda>_. True) w v" for v
    unfolding wp_seq wp_put sum.case
    by (rule wp_mono [OF ack_acks], rule more_then_acks [OF that]) (simp add: acks_def)
  have "wp (norm_message nz msg_id fs) (\<lambda>r w'. acks ?a w w') w"
    unfolding norm_message_def wp_try
    by (rule wp_mono [OF process_acks]) (auto simp: acked_or_raised_def handler split: sum.split)
  then show ?thesis using assms by (simp add: wp_def acks_def)
qed

section \<open>From a trade to a paper fill\<close>

definition price_text :: "string \<Rightarrow> int \<Rightarrow> rtext" where
  "price_text p t = Json (JObj [(''price'', JStr p), (''ts'', JInt t)])"

definition same_live ::
  "('r \<Rightarrow> string \<Rightarrow> rtext option) \<Rightarrow> ('r, 'd, 'm) world_scheme \<Rightarrow> ('r, 'd, 'm) world_scheme \<Rightarrow> bool" where
  "same_live live w w' = (live (w_redis w') = live (w_redis w))"

interpretation same_live: frame "same_live live" for live :: "'r \<Rightarrow> string \<Rightarrow> rtext option"
  by unfold_locales (auto simp: same_live_def)

lemma same_live_record: "moves (same_live live) (record_effect e)"
  by (simp add: moves_def same_live_def record_effect_def mput_def)

lemma mbind_lift: "mbind (mlift (Inr x)) f = f x"
  by (rule ext) (simp add: mbind_def mlift_def)

context normalizer_service
begin

lemma quiet_redis: "(\<And>s r s'. m s = (r, s') \<Longrightarrow> live s' = live s) \<Longrightarrow> moves (same_live live) (on_redis m)"
  by (auto simp: moves_def same_live_def on_redis_def split: prod.splits)

lemma publish_quiet: "moves (same_live live) (publish_normalized nz e)"
  unfolding publish_normalized_def stream_publish_def
  by (intro same_live.rules same_live_record quiet_redis) (erule xadd_live)

lemma ack_quiet: "moves (same_live live) (norm_ack nz m)"
  unfolding norm_ack_def
  by (intro same_live.rules same_live_record quiet_redis) (erule xack_live)

lemma one_write:
  "wp (write_all (nz_ops nz) [hot_write k v ttl])
     (\<lambda>r w'. r = Inr () \<longrightarrow> live (w_redis w') = (live (w_redis w))(k \<mapsto> Json (JObj v))) w"
  unfolding write_all_def
  by (auto simp: wp_when wp_on_redis hot_write_def live_after_def intro!: wpI dest!: set_all_live)

lemma trade_written:
  assumes ev: "text_truthy (map_of fs ''event'')" "e_parse_raw (nz_env nz) (the (map_of fs ''event'')) = Inr ev"
    and route: "\<not> is_depth_delta_stream (rw_source_stream ev)"
      "route (nz_env nz) ev (ns_default_account_id (nz_settings nz)) None = Some (Inr res)"
    and hot: "hr_hot_writes res = [hot_write k v ttl]"
  shows "wp (norm_process nz m fs) (\<lambda>r w'. r = Inr () \<longrightarrow> live (w_redis w') = (live (w_redis w))(k \<mapsto> Json (JObj v))) w"
    (is "wp _ ?Q w")
proof -
  have ack: "wp (norm_ack nz m) ?Q v1" if "live (w_redis v1) = (live (w_redis w))(k \<mapsto> Json (JObj v))" for v1
    by (rule moves_wp [OF ack_quiet]) (use that in \<open>simp add: same_live_def\<close>)
  have wr: "wp (mseq (write_all (nz_ops nz) [hot_write k v ttl])
        (mput (\<lambda>w. w\<lparr>nm_processed := Suc (nm_processed w)\<rparr>)))
      (\<lambda>r w'. r = Inr () \<longrightarrow> live (w_redis w') = (live (w_redis w))(k \<mapsto> Json (JObj v))) v1"
    if "live (w_redis v1) = live (w_redis w)" for v1
    unfolding wp_seq wp_put by (rule wp_mono [OF one_write]) (use that in \<open>auto split: sum.split\<close>)
  have "wp (mseq (mseq (publish_normalized nz (hr_event res)) (mseq (write_all (nz_ops nz) [hot_write k v ttl])
        (mput (\<lambda>w. w\<lparr>nm_processed := Suc (nm_processed w)\<rparr>)))) (norm_ack nz m)) ?Q w"
    unfolding wp_seq [of _ "norm_ack nz m"]
  proof (rule wp_seq_moves [OF publish_quiet], goal_cases)
    case (2 v1)
    then have "live (w_redis v1) = live (w_redis w)" by (simp add: same_live_def)
    from wr [OF this] show ?case by (rule wp_mono) (auto intro: ack split: sum.split)
  qed simp
  then show ?thesis
    using ev route hot
    by (simp add: norm_process_def fetch_book_def wp_bind [of "mlift _"] wp_bind [of "mret _"] wp_lift wp_ret mbind_lift)
qed

lemma stored_price:
  assumes "live s (analytics_snapshot_key mt sy) = None" "live s (market_price_key mt sy) = Some raw"
    and "text_truthy (Some raw)" "market_price env raw = Some x"
  shows "wp (redis_price (nz_ops nz) env mt sy) (\<lambda>r s'. \<forall>p. r = Inr p \<longrightarrow> p = Some x) s"
  unfolding redis_price_def using assms
  by (auto simp: wp source_price_def text_truthy_def intro!: sees_get split: sum.split option.split)

lemma filled_at_stored_price:
  assumes "live s (analytics_snapshot_key (market_type_value (ti_market_type i)) (ti_symbol i)) = None"
    and "live s (market_price_key (market_type_value (ti_market_type i)) (ti_symbol i)) = Some raw"
    and "text_truthy (Some raw)" "market_price env raw = Some x"
    and "ti_limit_price i = None" "quantize 2 x = Inr y"
  shows "wp (resolve_fill_price (Some (nz_ops nz)) env i) (\<lambda>r s'. \<forall>p. r = Inr p \<longrightarrow> p = Some y) s"
proof -
  have cont: "wp (case price of
        Some p \<Rightarrow> mbind (mlift (quantize 2 p)) (\<lambda>x. mret (Some x)) | None \<Rightarrow> k)
      (\<lambda>r s'. \<forall>p. r = Inr p \<longrightarrow> p = Some y) v" if "price = Some x" for price k v
    by (simp add: that wp_bind wp_lift wp_ret assms(6))
  show ?thesis
    unfolding resolve_fill_price_def Let_def assms(5) option.case wp_bind
    by (rule wp_mono [OF stored_price [OF assms(1-4)]]) (simp add: cont split: sum.split)
qed

end

section \<open>The property of the price\<close>

lemma contains_lower: "contains p s \<Longrightarrow> contains (lower p) (lower s)"
proof (induction s)
  case Nil
  then show ?case by (simp add: lower_def)
next
  case (Cons c s)
  have "startswith p (c # s) \<Longrightarrow> startswith (lower p) (lower (c # s))"
    unfolding startswith_def lower_def length_map take_map by simp
  with Cons show ?case by (auto simp: lower_def)
qed

lemma trade_stream:
  assumes "endswith ''@trade'' (lower st)" "\<not> contains ''@depth'' (lower st)"
  shows "\<not> is_depth_delta_stream st"
  using contains_lower [of "''@depth''" st] assms
  by (auto simp: is_depth_delta_stream_def lower_def lower_char_def)

lemma trade_routed:
  assumes "endswith ''@trade'' (lower (rw_source_stream ev))" "\<not> contains ''@depth'' (lower (rw_source_stream ev))"
    "\<not> contains ''@kline_'' (lower (rw_source_stream ev))"
  shows "route env ev uid cb = Some (handle_trade ev)"
proof -
  have "lower (rw_source_stream ev) \<noteq> ''user_data.account_update''"
    "lower (rw_source_stream ev) \<noteq> ''user_data.order_trade_update''"
    using assms(1) by (auto simp: endswith_def)
  then show ?thesis using assms by (simp add: route_def Let_def)
qed

lemma market_price_text:
  assumes "dec_literal p = Inr x" "0 < x"
  shows "market_price env (price_text p t) = Some x"
proof -
  have "dec_literal [] = Inl InvalidOperation" "dec_literal ''0'' = Inr 0" by code_simp+
  then have "p \<noteq> []" "p \<noteq> ''0''" using assms by auto
  then show ?thesis
    using assms by (simp add: market_price_def price_text_def dec_of_str_def str_of_def str_not_in_def dict_get_def)
qed

text \<open>
  C4: A trade at price \<open>p\<close> that the normalizer has processed is the price at which the paper
  adapter fills the next market order on that symbol, to the cent, when no analytics snapshot is
  present.
\<close>

theorem trade_price_reaches_paper_fill:
  assumes "redis (nz_ops nz) live"
    and "text_truthy (map_of fs ''event'')" "e_parse_raw (nz_env nz) (the (map_of fs ''event'')) = Inr ev"
    and "endswith ''@trade'' (lower (rw_source_stream ev))" "\<not> contains ''@depth'' (lower (rw_source_stream ev))"
      "\<not> contains ''@kline_'' (lower (rw_source_stream ev))"
    and "dict_get ''p'' (JStr ''0'') (rw_payload ev) = JStr p" "dec_literal p = Inr x" "0 < x"
    and "resolve_symbol (dict_get ''s'' (JStr []) (rw_payload ev)) (rw_source_stream ev) = Inr (ti_symbol i)"
    and "ti_market_type i = rw_market_type ev" "ti_limit_price i = None"
    and "live (w_redis w) (analytics_snapshot_key (mtype ev) (ti_symbol i)) = None"
    and "norm_process nz msg_id fs w = (Inr (), w')"
    and "resolve_fill_price (Some (nz_ops nz)) env i (w_redis w') = (Inr q, s)"
    and "quantize 2 x = Inr y"
  shows "q = Some y"
proof -
  have svc: "normalizer_service nz live" using assms(1) by (simp add: normalizer_service_def)
  show ?thesis
  proof (cases "py_int (dict_get ''T'' (JInt (rw_received_ms ev)) (rw_payload ev))")
    case (Inl e)
    then have "handle_trade ev = Inl e" by (simp add: handle_trade_def assms(10))
    then show ?thesis
      using assms(2,3,14) trade_routed [OF assms(4-6)] trade_stream [OF assms(4,5)]
      by (simp add: norm_process_def fetch_book_def mbind_def mseq_def mlift_def mret_def)
  next
    case (Inr t)
    let ?k = "market_price_key (mtype ev) (ti_symbol i)"
    obtain e where res: "handle_trade ev = Inr (result e [hot_write ?k [(''price'', JStr p), (''ts'', JInt t)] PRICE_TTL_S])"
      using Inr by (simp add: handle_trade_def assms(7,10) price_write_def Let_def)
    have k: "live (w_redis w') = (live (w_redis w))(?k \<mapsto> price_text p t)"
      using normalizer_service.trade_written [OF svc assms(2,3) trade_stream [OF assms(4,5)], of _ ?k _ PRICE_TTL_S msg_id w]
        trade_routed [OF assms(4-6)] res assms(14)
      by (simp add: result_def wp_def price_text_def)
    have "analytics_snapshot_key (mtype ev) (ti_symbol i) \<noteq> ?k"
      by (simp add: analytics_snapshot_key_def market_price_key_def key2_def)
    then show ?thesis
      using normalizer_service.filled_at_stored_price [OF svc, of "w_redis w'" i "price_text p t" env x y]
        k market_price_text [OF assms(8,9)] assms(11-13,15,16)
      by (simp add: wp_def mtype_def price_text_def text_truthy_def)
  qed
qed

section \<open>A concrete normalizer\<close>

definition demo_normalizer :: "mem_redis normalizer" where
  "demo_normalizer = \<lparr>nz_settings = default_normalizer_settings, nz_ops = mem_ops, nz_env = demo_env\<rparr>"

definition demo_norm_world :: "mem_redis norm_world" where
  "demo_norm_world =
     \<lparr>w_redis = mem_put (kill_switch_key demo_account) (Raw ''1'') None empty_mem, w_db = (), w_sessions = 0,
      w_uuids = 0, w_now = 0, w_trace = [], nm_processed = 0, nm_skipped = 0, nm_errors = 0\<rparr>"

definition demo_trade :: "(string \<times> json) list" where
  "demo_trade = [(''stream'', JStr ''btcusdt@trade''), (''s'', JStr ''BTCUSDT''), (''p'', JStr ''50000.129''),
     (''q'', JStr ''0.5''), (''T'', JInt 7)]"

definition demo_trade_fields :: fields where
  "demo_trade_fields = [(''event'', Json (JObj demo_trade))]"

definition demo_market_intent :: trade_intent where
  "demo_market_intent = demo_intent\<lparr>ti_market_type := FUTURES, ti_order_type := MARKET, ti_limit_price := None\<rparr>"

lemma demo_norm_sel [simp]: "nz_ops demo_normalizer = mem_ops" "nz_env demo_normalizer = demo_env"
  "nz_settings demo_normalizer = default_normalizer_settings"
  by (simp_all add: demo_normalizer_def)

interpretation demo_norm: normalizer_service demo_normalizer mem_live
  unfolding normalizer_service_def by (simp add: mem.redis_axioms)

lemma normalizer_keeps_controls_witness:
  "mem_live (w_redis (snd (norm_message demo_normalizer ''1-0'' demo_trade_fields demo_norm_world)))
     (kill_switch_key demo_account) = Some (Raw ''1'')"
proof -
  have "redis (nz_ops demo_normalizer) mem_live" by (simp add: mem.redis_axioms)
  from normalizer_keeps_controls [OF this prod.collapse [symmetric],
      where msg_id = "''1-0''" and fs = demo_trade_fields and w = demo_norm_world and a = demo_account]
  show ?thesis by (simp add: demo_norm_world_def mem_live_def mem_put_def)
qed

lemma normalizer_acknowledges_every_message_witness:
  "\<exists>es. w_trace (snd (norm_message demo_normalizer ''1-0'' demo_trade_fields demo_norm_world)) = es \<and>
     Acked RAW_STREAM ''normalizer'' ''1-0'' \<in> set es"
  using normalizer_acknowledges_every_message [OF prod.collapse [symmetric],
      of demo_normalizer "''1-0''" demo_trade_fields demo_norm_world]
  by (simp add: demo_norm_world_def default_normalizer_settings_def)

lemma trade_price_reaches_paper_fill_witness:
  "fst (resolve_fill_price (Some mem_ops) demo_env demo_market_intent
     (w_redis (snd (norm_process demo_normalizer ''1-0'' demo_trade_fields demo_norm_world)))) =
   Inr (Some (5000013 / 100))"
proof -
  let ?w = "snd (norm_process demo_normalizer ''1-0'' demo_trade_fields demo_norm_world)"
  let ?f = "resolve_fill_price (Some mem_ops) demo_env demo_market_intent (w_redis ?w)"
  have run: "fst (norm_process demo_normalizer ''1-0'' demo_trade_fields demo_norm_world) = Inr ()"
    by code_simp
  have fill: "the_ok (fst ?f) \<noteq> None" by code_simp
  then obtain q where q: "?f = (Inr q, snd ?f)" by (metis prod.collapse the_ok_simps(1) sum.exhaust)
  have x: "dec_literal ''50000.129'' = Inr (50000129 / 1000)" by code_simp
  have y: "quantize 2 (50000129 / 1000) = Inr (5000013 / 100)" by code_simp
  have strings: "endswith ''@trade'' (lower ''btcusdt@trade'')" "\<not> contains ''@depth'' (lower ''btcusdt@trade'')"
    "\<not> contains ''@kline_'' (lower ''btcusdt@trade'')" by code_simp+
  have sym: "resolve_symbol (JStr ''BTCUSDT'') ''btcusdt@trade'' = Inr ''BTCUSDT''" by code_simp
  have "q = Some (5000013 / 100)"
    using trade_price_reaches_paper_fill [of demo_normalizer mem_live demo_trade_fields "demo_raw demo_trade"
        "''50000.129''" "50000129 / 1000" demo_market_intent demo_norm_world "''1-0''" ?w demo_env q "snd ?f" "5000013 / 100"]
      run q x y strings sym mem.redis_axioms
    by (simp add: demo_trade_fields_def demo_env_def demo_raw_def demo_trade_def dict_get_def text_truthy_def
        demo_market_intent_def demo_intent_def demo_norm_world_def mem_live_def mem_put_def empty_mem_def
        analytics_snapshot_key_def kill_switch_key_def key2_def prod_eq_iff)
  then show ?thesis using q by (metis fst_conv)
qed

section \<open>Every handler writes its own keys\<close>

text \<open>The keys that belong to a symbol of a market and to an account.\<close>

definition own_key :: "string \<Rightarrow> string \<Rightarrow> string \<Rightarrow> string \<Rightarrow> bool" where
  "own_key mt symbol user_id k =
     (k \<in> {market_price_key mt symbol, market_book_ticker_key mt symbol, market_mark_key mt symbol,
          market_funding_key mt symbol, market_book_key mt symbol, account_balances_key user_id,
          account_positions_key user_id, account_open_orders_key user_id} \<or>
      (\<exists>i. k = market_klines_key mt symbol i))"

definition own_writes :: "raw_event \<Rightarrow> string \<Rightarrow> handler_result \<Rightarrow> bool" where
  "own_writes ev user_id res =
     (ne_market_type (hr_event res) = rw_market_type ev \<and>
      list_all (\<lambda>h. own_key (mtype ev) (ne_symbol (hr_event res)) user_id (hw_key h) \<and> 0 < hw_ttl_s h) (hr_hot_writes res))"

lemma own_writes_result [simp]:
  "own_writes ev uid (result (normalized t ev sy ts d) hs) =
     list_all (\<lambda>h. own_key (mtype ev) sy uid (hw_key h) \<and> 0 < hw_ttl_s h) hs"
  by (simp add: own_writes_def result_def normalized_def)

lemma own_key_simps [simp]:
  "own_key mt sy uid (market_price_key mt sy)" "own_key mt sy uid (market_book_ticker_key mt sy)"
  "own_key mt sy uid (market_mark_key mt sy)" "own_key mt sy uid (market_funding_key mt sy)"
  "own_key mt sy uid (market_book_key mt sy)" "own_key mt sy uid (account_balances_key uid)"
  "own_key mt sy uid (account_positions_key uid)" "own_key mt sy uid (account_open_orders_key uid)"
  "own_key mt sy uid (market_klines_key mt sy i)"
  by (auto simp: own_key_def)

lemma handlers_own:
  "handle_trade ev = Inr res \<Longrightarrow> own_writes ev uid res" "handle_agg_trade ev = Inr res \<Longrightarrow> own_writes ev uid res"
  "handle_book_ticker ev = Inr res \<Longrightarrow> own_writes ev uid res" "handle_mark_price ev = Inr res \<Longrightarrow> own_writes ev uid res"
  "handle_orderbook_snapshot ev = Inr res \<Longrightarrow> own_writes ev uid res"
  "handle_account_update ev uid = Inr res \<Longrightarrow> own_writes ev uid res"
  "handle_liquidation ev = Inr res \<Longrightarrow> own_writes ev uid res"
  "handle_orderbook_delta ev cb = Inr res \<Longrightarrow> own_writes ev uid res"
  by (auto simp: handle_trade_def handle_agg_trade_def handle_book_ticker_def handle_mark_price_def handle_liquidation_def
      handle_orderbook_snapshot_def handle_orderbook_delta_def handle_account_update_def ebind_Inr Let_def
      price_write_def ttl_defs split: option.splits)

lemma kline_own: "handle_kline env ev = Inr res \<Longrightarrow> own_writes ev uid res"
  by (cases "dict_get ''k'' (JObj []) (rw_payload ev)")
    (auto simp: handle_kline_def ebind_Inr Let_def interval_ttl_pos)

lemma user_order_own: "handle_user_order_update env ev uid = Inr res \<Longrightarrow> own_writes ev uid res"
  by (auto simp: handle_user_order_update_def Let_def ebind_Inr open_order_writes_def open_order_write_def ttl_defs
      split: if_splits)

text \<open>
  Whatever event is routed, its handler writes, with a positive lifetime, only keys of the event's
  own market and of the symbol it publishes, or of the account it was called for: no event overwrites
  the price, the book or the candles of another symbol or market.
\<close>

theorem routed_event_writes_own_keys:
  assumes "route env ev user_id current_book = Some (Inr res)" "h \<in> set (hr_hot_writes res)"
  shows "own_key (mtype ev) (ne_symbol (hr_event res)) user_id (hw_key h) \<and> 0 < hw_ttl_s h \<and>
    ne_market_type (hr_event res) = rw_market_type ev"
proof -
  have "own_writes ev user_id res"
    using assms(1) by (auto simp: route_def Let_def handlers_own kline_own user_order_own split: if_splits)
  then show ?thesis using assms(2) by (auto simp: own_writes_def list_all_iff)
qed

theorem routed_event_writes_own_keys_witness:
  "\<exists>res h. route demo_env (demo_raw demo_trade) [] None = Some (Inr res) \<and> set (hr_hot_writes res) = {h} \<and>
     own_key ''futures'' ''BTCUSDT'' [] (hw_key h)"
proof -
  have "map_option (\<lambda>r. map_option (\<lambda>x. (ne_symbol (hr_event x), length (hr_hot_writes x))) (the_ok r))
      (route demo_env (demo_raw demo_trade) [] None) = Some (Some (''BTCUSDT'', 1))"
    by code_simp
  then obtain res h where res: "route demo_env (demo_raw demo_trade) [] None = Some (Inr res)"
    "ne_symbol (hr_event res) = ''BTCUSDT''" "hr_hot_writes res = [h]"
    by (cases "the (route demo_env (demo_raw demo_trade) [] None)") (auto simp: length_Suc_conv)
  from routed_event_writes_own_keys [OF this(1), of h] show ?thesis
    using res by (auto simp: mtype_def demo_raw_def)
qed

end
