(* ===== verification/JsonText.thy ===== *)
theory JsonText
  imports PyVal
begin

text \<open>
  Texts that leave the process as bytes: unpadded URL-safe base64 and JSON, as the login cookie uses
  them (\<open>base64.urlsafe_b64encode(...).rstrip(b"=")\<close>, \<open>base64.urlsafe_b64decode\<close>, \<open>json.dumps\<close>,
  \<open>json.loads\<close>).  The decoders follow CPython: the base64 one skips characters outside the alphabet and
  stops at the padding.  Characters are bytes; a JSON text with characters beyond ASCII, \<open>NaN\<close> or an
  infinity is not read.
\<close>

section \<open>Base64\<close>

definition byte :: "char \<Rightarrow> nat" where
  "byte c = of_char c"

text \<open>The alphabet \<open>A..Z a..z 0..9 - _\<close>.\<close>

definition b64_digit :: "nat \<Rightarrow> char" where
  "b64_digit n =
     (if n < 26 then char_of (n + 65) else if n < 52 then char_of (n + 71) else if n < 62 then char_of (n - 4)
      else if n = 62 then CHR ''-'' else CHR ''_'')"

fun b64_bytes :: "nat list \<Rightarrow> string" where
  "b64_bytes (a # b # c # r) =
     b64_digit (a div 4) # b64_digit (a mod 4 * 16 + b div 16) # b64_digit (b mod 16 * 4 + c div 64) #
     b64_digit (c mod 64) # b64_bytes r"
| "b64_bytes [a, b] = [b64_digit (a div 4), b64_digit (a mod 4 * 16 + b div 16), b64_digit (b mod 16 * 4)]"
| "b64_bytes [a] = [b64_digit (a div 4), b64_digit (a mod 4 * 16)]"
| "b64_bytes [] = []"

definition b64 :: "string \<Rightarrow> string" where
  "b64 s = b64_bytes (map byte s)"

text \<open>The value of a character; the standard alphabet is accepted too.\<close>

definition b64_value :: "char \<Rightarrow> nat option" where
  "b64_value c =
     (let n = byte c in
      if 65 \<le> n \<and> n \<le> 90 then Some (n - 65)
      else if 97 \<le> n \<and> n \<le> 122 then Some (n - 71)
      else if 48 \<le> n \<and> n \<le> 57 then Some (n + 4)
      else if c = CHR ''-'' \<or> c = CHR ''+'' then Some 62
      else if c = CHR ''_'' \<or> c = CHR ''/'' then Some 63
      else None)"

text \<open>\<open>binascii.a2b_base64\<close>: the position in the group of four, the bits left over, the padding seen.\<close>

fun a2b :: "nat \<Rightarrow> nat \<Rightarrow> nat \<Rightarrow> string \<Rightarrow> nat list option" where
  "a2b q left pads [] = (if q = 0 then Some [] else None)"
| "a2b q left pads (c # cs) =
     (if c = CHR ''=''
      then if 2 \<le> q \<and> 4 \<le> q + Suc pads then Some []
           else a2b q left (if 2 \<le> q then Suc pads else pads) cs
      else case b64_value c of
             None \<Rightarrow> a2b q left pads cs
           | Some v \<Rightarrow>
               if q = 0 then a2b 1 v 0 cs
               else if q = 1 then map_option (Cons (left * 4 + v div 16)) (a2b 2 (v mod 16) 0 cs)
               else if q = 2 then map_option (Cons (left * 16 + v div 4)) (a2b 3 (v mod 4) 0 cs)
               else map_option (Cons (left * 64 + v)) (a2b 0 0 0 cs))"

definition unb64 :: "string \<Rightarrow> string option" where
  "unb64 s =
     (if list_all (\<lambda>c. byte c < 128) s
      then case a2b 0 0 0 (s @ replicate ((4 - length s mod 4) mod 4) CHR ''='') of
             None \<Rightarrow> None
           | Some ns \<Rightarrow> if list_all (\<lambda>n. n < 128) ns then Some (map char_of ns) else None
      else None)"

lemma byte_char_of [simp]: "n < 256 \<Longrightarrow> byte (char_of n) = n"
  by (simp add: byte_def)

lemma char_of_eq: "n < 256 \<Longrightarrow> (char_of n = c) = (n = byte c)"
  by (auto simp: byte_def)

lemma byte_special: "byte CHR ''-'' = 45" "byte CHR ''+'' = 43" "byte CHR ''_'' = 95" "byte CHR ''/'' = 47" "byte CHR ''='' = 61"
  by (simp_all add: byte_def)

lemma b64_value_digit:
  assumes "n < 64"
  shows "b64_value (b64_digit n) = Some n" "b64_digit n \<noteq> CHR ''=''" "byte (b64_digit n) < 128"
  using assms by (auto simp: b64_value_def b64_digit_def Let_def char_of_eq byte_special)

lemma a2b_digit:
  assumes "n < 64"
  shows "a2b q left pads (b64_digit n # cs) =
     (if q = 0 then a2b 1 n 0 cs
      else if q = 1 then map_option (Cons (left * 4 + n div 16)) (a2b 2 (n mod 16) 0 cs)
      else if q = 2 then map_option (Cons (left * 16 + n div 4)) (a2b 3 (n mod 4) 0 cs)
      else map_option (Cons (left * 64 + n)) (a2b 0 0 0 cs))"
  using b64_value_digit [OF assms] by simp

lemma a2b_pads: "a2b 2 left 0 ''=='' = Some []" "a2b 3 left 0 ''='' = Some []"
  by simp_all

lemma byte_parts: "b < 256 \<Longrightarrow> b div 4 < 64" "b < 256 \<Longrightarrow> b div 16 < 16" "b < 256 \<Longrightarrow> b div 64 < 4" for b :: nat
  by (simp_all add: less_mult_imp_div_less)

lemma sextets:
  "a < 256 \<Longrightarrow> a div 4 < 64" "b < 256 \<Longrightarrow> a mod 4 * 16 + b div 16 < 64"
  "c < 256 \<Longrightarrow> b mod 16 * 4 + c div 64 < 64" "c mod 64 < 64"
  "a mod 4 * 16 < 64" "b mod 16 * 4 < 64" for a b c :: nat
  using byte_parts [of a] byte_parts [of b] byte_parts [of c] mod_less_divisor [of 4 a] mod_less_divisor [of 16 b]
  by linarith+

definition b64_pad :: "nat \<Rightarrow> string" where
  "b64_pad n = (if n mod 3 = 0 then [] else if n mod 3 = 1 then ''=='' else ''='')"

lemma a2b_b64_bytes:
  "list_all (\<lambda>n. n < 256) ns \<Longrightarrow> a2b 0 left pads (b64_bytes ns @ b64_pad (length ns)) = Some ns"
proof (induction ns arbitrary: left pads rule: b64_bytes.induct)
  case (1 a b c r)
  have "a2b 0 0 0 (b64_bytes r @ b64_pad (length (a # b # c # r))) = Some r"
    using "1.IH" [of 0 0] "1.prems" by (simp add: b64_pad_def split: if_splits)
  moreover have "a div 4 < 64" "a mod 4 * 16 + b div 16 < 64" "b mod 16 * 4 + c div 64 < 64" "c mod 64 < 64"
    using "1.prems" by (simp_all add: sextets)
  moreover have "(a mod 4 * 16 + b div 16) div 16 = a mod 4" "(a mod 4 * 16 + b div 16) mod 16 = b div 16"
      "(b mod 16 * 4 + c div 64) div 4 = b mod 16" "(b mod 16 * 4 + c div 64) mod 4 = c div 64"
    using "1.prems" by (simp_all add: byte_parts)
  ultimately show ?case by (simp add: a2b_digit del: a2b.simps(2))
next
  case (2 a b)
  then have "a div 4 < 64" "a mod 4 * 16 + b div 16 < 64" "b mod 16 * 4 < 64" by (simp_all add: sextets)
  moreover have "(a mod 4 * 16 + b div 16) div 16 = a mod 4" "(a mod 4 * 16 + b div 16) mod 16 = b div 16"
    using 2 by (simp_all add: byte_parts)
  ultimately show ?case by (simp add: a2b_digit a2b_pads b64_pad_def del: a2b.simps(2))
next
  case (3 a)
  then have "a div 4 < 64" "a mod 4 * 16 < 64" by (simp_all add: sextets)
  then show ?case by (simp add: a2b_digit a2b_pads b64_pad_def del: a2b.simps(2))
qed (simp add: b64_pad_def)

lemma b64_bytes_length:
  "length (b64_bytes ns) mod 4 = (if length ns mod 3 = 0 then 0 else if length ns mod 3 = 1 then 2 else 3)"
proof (induction ns rule: b64_bytes.induct)
  case (1 a b c r)
  have "length (b64_bytes (a # b # c # r)) = length (b64_bytes r) + 4" "length (a # b # c # r) = length r + 3"
    by simp_all
  then show ?case using 1 by (simp only: mod_add_self2)
qed simp_all

lemma b64_bytes_ascii: "list_all (\<lambda>n. n < 256) ns \<Longrightarrow> list_all (\<lambda>c. byte c < 128) (b64_bytes ns)"
proof (induction ns rule: b64_bytes.induct)
  case (1 a b c r)
  then have "a div 4 < 64" "a mod 4 * 16 + b div 16 < 64" "b mod 16 * 4 + c div 64 < 64" "c mod 64 < 64"
    by (simp_all add: sextets)
  then show ?case using 1 by (simp add: b64_value_digit(3))
next
  case (2 a b)
  then have "a div 4 < 64" "a mod 4 * 16 + b div 16 < 64" "b mod 16 * 4 < 64" by (simp_all add: sextets)
  then show ?case by (simp add: b64_value_digit(3))
next
  case (3 a)
  then have "a div 4 < 64" "a mod 4 * 16 < 64" by (simp_all add: sextets)
  then show ?case by (simp add: b64_value_digit(3))
qed simp

definition ascii :: "string \<Rightarrow> bool" where
  "ascii s = list_all (\<lambda>c. byte c < 128) s"

lemma unb64_b64: "ascii s \<Longrightarrow> unb64 (b64 s) = Some s"
proof -
  assume s: "ascii s"
  then have bytes: "list_all (\<lambda>n. n < 128) (map byte s)" "list_all (\<lambda>n. n < 256) (map byte s)"
    by (auto simp: ascii_def list_all_iff)
  have pad: "replicate ((4 - length (b64 s) mod 4) mod 4) CHR ''='' = b64_pad (length (map byte s))"
    using b64_bytes_length [of "map byte s"] by (auto simp: b64_def b64_pad_def numeral_2_eq_2)
  have "map (\<lambda>c. char_of (byte c)) s = s" by (simp add: byte_def)
  then show ?thesis
    using a2b_b64_bytes [OF bytes(2), of 0 0] b64_bytes_ascii [OF bytes(2)] bytes(1)
    unfolding unb64_def pad by (simp add: b64_def comp_def list_all_iff)
qed

section \<open>JSON\<close>

definition hex_digit :: "nat \<Rightarrow> char" where
  "hex_digit n = char_of (if n < 10 then n + 48 else n + 87)"

definition hex_value :: "char \<Rightarrow> nat option" where
  "hex_value c =
     (let n = byte c in
      if 48 \<le> n \<and> n \<le> 57 then Some (n - 48) else if 97 \<le> n \<and> n \<le> 102 then Some (n - 87)
      else if 65 \<le> n \<and> n \<le> 70 then Some (n - 55) else None)"

text \<open>A string literal, with \<open>ensure_ascii\<close>.\<close>

definition json_char :: "char \<Rightarrow> string" where
  "json_char c =
     (let n = byte c in
      if n = 34 \<or> n = 92 then [CHR 0x5C, c]
      else if n = 10 then CHR 0x5C # ''n'' else if n = 13 then CHR 0x5C # ''r''
      else if n = 9 then CHR 0x5C # ''t'' else if n = 12 then CHR 0x5C # ''f''
      else if n = 8 then CHR 0x5C # ''b''
      else if 32 \<le> n \<and> n \<le> 126 then [c]
      else CHR 0x5C # ''u00'' @ [hex_digit (n div 16), hex_digit (n mod 16)])"

definition json_str :: "string \<Rightarrow> string" where
  "json_str s = CHR 0x22 # concat (map json_char s) @ [CHR 0x22]"

definition unescape :: "char \<Rightarrow> char option" where
  "unescape c =
     (let n = byte c in
      if n = 34 \<or> n = 92 \<or> n = 47 then Some c
      else if c = CHR ''n'' then Some (CHR 0x0A) else if c = CHR ''r'' then Some (CHR 0x0D)
      else if c = CHR ''t'' then Some (CHR 0x09) else if c = CHR ''f'' then Some (CHR 0x0C)
      else if c = CHR ''b'' then Some (CHR 0x08) else None)"

text \<open>The four digits after \<open>\u\<close>.\<close>

definition hex4 :: "char \<Rightarrow> char \<Rightarrow> char \<Rightarrow> char \<Rightarrow> char option" where
  "hex4 a b c d =
     (case (hex_value a, hex_value b, hex_value c, hex_value d) of
        (Some w, Some x, Some y, Some z) \<Rightarrow>
          (let n = ((w * 16 + x) * 16 + y) * 16 + z in if n < 128 then Some (char_of n) else None)
      | _ \<Rightarrow> None)"

text \<open>A string after its opening quote, and what follows it.\<close>

fun read_str :: "nat \<Rightarrow> string \<Rightarrow> (string \<times> string) option" where
  "read_str 0 s = None"
| "read_str (Suc k) s =
     (case s of
        [] \<Rightarrow> None
      | c # r \<Rightarrow>
          if byte c = 34 then Some ([], r)
          else if byte c = 92 then
            (case r of
               u # a # b # c # d # r' \<Rightarrow>
                 if u = CHR ''u''
                 then (case hex4 a b c d of None \<Rightarrow> None | Some x \<Rightarrow> map_option (map_prod (Cons x) id) (read_str k r'))
                 else (case unescape u of None \<Rightarrow> None
                       | Some x \<Rightarrow> map_option (map_prod (Cons x) id) (read_str k (a # b # c # d # r')))
             | u # r' \<Rightarrow>
                 (case unescape u of None \<Rightarrow> None | Some x \<Rightarrow> map_option (map_prod (Cons x) id) (read_str k r'))
             | [] \<Rightarrow> None)
          else if byte c < 32 \<or> 128 \<le> byte c then None
          else map_option (map_prod (Cons c) id) (read_str k r))"

text \<open>
  A number: an integer part without leading zeros, then a fraction and an exponent when they are
  complete; an integer without them, a float otherwise.
\<close>

definition read_fraction :: "string \<Rightarrow> string \<times> string" where
  "read_fraction s =
     (case s of
        c # r \<Rightarrow> if c = CHR ''.'' \<and> takeWhile is_digit r \<noteq> []
                then (c # takeWhile is_digit r, dropWhile is_digit r) else ([], s)
      | [] \<Rightarrow> ([], s))"

definition read_exponent :: "string \<Rightarrow> string \<times> string" where
  "read_exponent s =
     (case s of
        c # r \<Rightarrow>
          if c = CHR ''e'' \<or> c = CHR ''E'' then
            (let (sg, r') = (case r of x # r' \<Rightarrow> if x = CHR ''-'' \<or> x = CHR ''+'' then ([x], r') else ([], r) | [] \<Rightarrow> ([], r))
             in if takeWhile is_digit r' \<noteq> [] then (c # sg @ takeWhile is_digit r', dropWhile is_digit r') else ([], s))
          else ([], s)
      | [] \<Rightarrow> ([], s))"

definition read_number :: "string \<Rightarrow> (json \<times> string) option" where
  "read_number s =
     (let (sg, r) = (case s of c # r \<Rightarrow> if c = CHR ''-'' then ([c], r) else ([], s) | [] \<Rightarrow> ([], s));
          ip = (case r of c # _ \<Rightarrow> if c = CHR ''0'' then [c] else takeWhile is_digit r | [] \<Rightarrow> []);
          (fp, r1) = read_fraction (drop (length ip) r);
          (ep, r2) = read_exponent r1
      in if ip = [] then None
         else if fp = [] \<and> ep = [] then map_option (\<lambda>n. (JInt n, r2)) (parse_int (sg @ ip))
         else map_option (\<lambda>x. (JNum (fl x), r2)) (parse_number (sg @ ip @ fp @ ep)))"

definition json_space :: "char \<Rightarrow> bool" where
  "json_space c = (byte c = 32 \<or> byte c = 9 \<or> byte c = 10 \<or> byte c = 13)"

definition skip :: "string \<Rightarrow> string" where
  "skip s = dropWhile json_space s"

definition read_word :: "string \<Rightarrow> json \<Rightarrow> string \<Rightarrow> (json \<times> string) option" where
  "read_word w v s = (if startswith w s then Some (v, drop (length w) s) else None)"

text \<open>
  Values, the elements of an array and the members of an object, with fuel: every call but the one
  that closes consumes a character, so the length of the text is enough.
\<close>

fun read_value :: "nat \<Rightarrow> string \<Rightarrow> (json \<times> string) option"
  and read_elements :: "nat \<Rightarrow> string \<Rightarrow> (json list \<times> string) option"
  and read_members :: "nat \<Rightarrow> (string \<times> json) list \<Rightarrow> string \<Rightarrow> ((string \<times> json) list \<times> string) option" where
  "read_value 0 s = None"
| "read_value (Suc k) s =
     (case s of
        [] \<Rightarrow> None
      | c # r \<Rightarrow>
          if byte c = 34 then map_option (map_prod JStr id) (read_str (length r) r)
          else if c = CHR ''{'' then
            (case skip r of
               [] \<Rightarrow> None
             | x # r' \<Rightarrow> if x = CHR ''}'' then Some (JObj [], r')
                        else map_option (map_prod JObj id) (read_members k [] (x # r')))
          else if c = CHR ''['' then
            (case skip r of
               [] \<Rightarrow> None
             | x # r' \<Rightarrow> if x = CHR '']'' then Some (JArr [], r')
                        else map_option (map_prod JArr id) (read_elements k (x # r')))
          else if c = CHR ''n'' then read_word ''null'' JNull s
          else if c = CHR ''t'' then read_word ''true'' (JBool True) s
          else if c = CHR ''f'' then read_word ''false'' (JBool False) s
          else read_number s)"
| "read_elements 0 s = None"
| "read_elements (Suc k) s =
     (case read_value k s of
        None \<Rightarrow> None
      | Some (v, r) \<Rightarrow>
          (case skip r of
             [] \<Rightarrow> None
           | c # r' \<Rightarrow>
               if c = CHR '','' then map_option (map_prod (Cons v) id) (read_elements k (skip r'))
               else if c = CHR '']'' then Some ([v], r') else None))"
| "read_members 0 d s = None"
| "read_members (Suc k) d s =
     (case s of
        [] \<Rightarrow> None
      | q # r \<Rightarrow>
          if byte q \<noteq> 34 then None else
          case read_str (length r) r of
            None \<Rightarrow> None
          | Some (key, r1) \<Rightarrow>
              (case skip r1 of
                 [] \<Rightarrow> None
               | c # r2 \<Rightarrow>
                   if c \<noteq> CHR '':'' then None else
                   case read_value k (skip r2) of
                     None \<Rightarrow> None
                   | Some (v, r3) \<Rightarrow>
                       (case skip r3 of
                          [] \<Rightarrow> None
                        | e # r4 \<Rightarrow>
                            if e = CHR '','' then read_members k (dict_set key v d) (skip r4)
                            else if e = CHR ''}'' then Some (dict_set key v d, r4) else None)))"

definition json_read :: "string \<Rightarrow> exn + json" where
  "json_read s =
     (case read_value (length s) (skip s) of
        Some (v, r) \<Rightarrow> if skip r = [] then Inr v else Inl JSONDecodeError
      | None \<Rightarrow> Inl JSONDecodeError)"

text \<open>\<open>json.dumps(v, default=str)\<close>: a \<open>Decimal\<close> is written as the string of its digits.\<close>

fun json_text :: "(json \<Rightarrow> string) \<Rightarrow> json \<Rightarrow> string" where
  "json_text sh JNull = ''null''"
| "json_text sh (JBool b) = (if b then ''true'' else ''false'')"
| "json_text sh (JInt n) = show_int n"
| "json_text sh (JNum x) = sh (JNum x)"
| "json_text sh (JDec x) = json_str (sh (JDec x))"
| "json_text sh (JStr s) = json_str s"
| "json_text sh (JArr xs) = CHR ''['' # join '', '' (map (json_text sh) xs) @ '']''"
| "json_text sh (JObj d) = CHR ''{'' # join '', '' (map (\<lambda>(k, v). json_str k @ '': '' @ json_text sh v) d) @ ''}''"

section \<open>Round trips\<close>

lemma hex_digit_value: "n < 16 \<Longrightarrow> hex_value (hex_digit n) = Some n"
  by (auto simp: hex_value_def hex_digit_def Let_def)

lemma byte_inject: "(byte c = byte d) = (c = d)"
  by (auto simp: byte_def)

text \<open>A backslash and a letter read as the letter's character, however the text goes on.\<close>

lemma read_escape:
  assumes "unescape u = Some x" "u \<noteq> CHR ''u''"
  shows "read_str (Suc k) (CHR 0x5C # u # t) = map_option (map_prod (Cons x) id) (read_str k t)"
  using assms by (auto simp: byte_def split: list.splits)

lemma read_json_char:
  assumes "byte c < 128"
  shows "read_str (Suc k) (json_char c @ t) = map_option (map_prod (Cons c) id) (read_str k t)"
proof -
  have esc: "unescape CHR ''n'' = Some CHR 0x0A" "unescape CHR ''r'' = Some CHR 0x0D" "unescape CHR ''t'' = Some CHR 0x09"
      "unescape CHR ''f'' = Some CHR 0x0C" "unescape CHR ''b'' = Some CHR 0x08"
    by (simp_all add: unescape_def byte_def)
  have bytes: "byte CHR 0x0A = 10" "byte CHR 0x0D = 13" "byte CHR 0x09 = 9" "byte CHR 0x0C = 12" "byte CHR 0x08 = 8"
      "byte CHR 0x22 = 34" "byte CHR 0x5C = 92" "byte CHR ''u'' = 117"
    by (simp_all add: byte_def)
  have named: "c = CHR 0x0A \<or> c = CHR 0x0D \<or> c = CHR 0x09 \<or> c = CHR 0x0C \<or> c = CHR 0x08 \<Longrightarrow> ?thesis"
    using esc by (elim disjE) (simp_all add: json_char_def bytes Let_def read_escape del: read_str.simps)
  have quoted: "byte c = 34 \<or> byte c = 92 \<Longrightarrow> ?thesis"
  proof -
    assume c: "byte c = 34 \<or> byte c = 92"
    then have "unescape c = Some c" "c \<noteq> CHR ''u''" by (auto simp: unescape_def byte_def)
    then show ?thesis using c read_escape [of c c k t] by (simp add: json_char_def Let_def del: read_str.simps)
  qed
  have hex: "hex4 CHR ''0'' CHR ''0'' (hex_digit (byte c div 16)) (hex_digit (byte c mod 16)) = Some c"
  proof -
    have "hex_value CHR ''0'' = Some 0" by (simp add: hex_value_def byte_def)
    moreover have "byte c div 16 < 16" using assms by (simp add: less_mult_imp_div_less)
    moreover have "char_of (byte c) = c" by (simp add: byte_def)
    ultimately show ?thesis using assms by (simp add: hex4_def hex_digit_value)
  qed
  show ?thesis
  proof (cases "c = CHR 0x0A \<or> c = CHR 0x0D \<or> c = CHR 0x09 \<or> c = CHR 0x0C \<or> c = CHR 0x08 \<or> byte c = 34 \<or> byte c = 92")
    case True
    then show ?thesis using named quoted by blast
  next
    case False
    then have "byte c \<noteq> 10" "byte c \<noteq> 13" "byte c \<noteq> 9" "byte c \<noteq> 12" "byte c \<noteq> 8" "byte c \<noteq> 34" "byte c \<noteq> 92"
      using byte_inject [of c] bytes by metis+
    then show ?thesis using hex assms by (auto simp: json_char_def Let_def bytes)
  qed
qed

lemma read_json_str:
  "ascii s \<Longrightarrow> length s < k \<Longrightarrow> read_str k (concat (map json_char s) @ CHR 0x22 # r) = Some (s, r)"
proof (induction s arbitrary: k)
  case Nil
  then obtain j where "k = Suc j" by (cases k) auto
  then show ?case by (simp add: byte_def)
next
  case (Cons c s)
  then obtain j where j: "k = Suc j" by (cases k) auto
  then show ?case
    using Cons by (simp add: ascii_def read_json_char del: read_str.simps)
qed

lemma json_char_length: "0 < length (json_char c)"
  by (simp add: json_char_def Let_def)

lemma json_str_length: "length s \<le> length (concat (map json_char s))"
proof (induction s)
  case (Cons c s)
  then show ?case using json_char_length [of c] by (simp del: length_greater_0_conv)
qed simp

lemma read_value_str:
  assumes "ascii s" "0 < k"
  shows "read_value k (json_str s @ r) = Some (JStr s, r)"
proof -
  obtain j where "k = Suc j" using assms(2) by (cases k) auto
  then show ?thesis
    using read_json_str [OF assms(1), of "length (concat (map json_char s) @ CHR 0x22 # r)" r] json_str_length [of s]
    by (simp add: json_str_def byte_def)
qed

lemma digit_char_zero: "0 < d \<Longrightarrow> d < 10 \<Longrightarrow> digit_char d \<noteq> CHR ''0''"
proof
  assume "0 < d" "d < 10" "digit_char d = CHR ''0''"
  then show False using digit_val_digit_char [of d] by (simp add: digit_val_def)
qed

lemma show_pos_head: "0 < n \<Longrightarrow> hd (show_pos n) \<noteq> CHR ''0''"
proof (induction n rule: show_pos.induct)
  case (1 n)
  then show ?case
    by (cases "n < 10") (subst show_pos.simps, simp add: digit_char_zero)+
qed

lemma show_pos_zero: "show_pos 0 = ''0''"
  by (subst show_pos.simps) (simp add: digit_char_def char_of_eq byte_def)

lemma takeWhile_digits:
  assumes "list_all is_digit ds" "r = [] \<or> \<not> is_digit (hd r)"
  shows "takeWhile is_digit (ds @ r) = ds" "dropWhile is_digit (ds @ r) = r"
proof -
  have "takeWhile is_digit r = []" "dropWhile is_digit r = r" using assms(2) by (cases r; simp)+
  then show "takeWhile is_digit (ds @ r) = ds" "dropWhile is_digit (ds @ r) = r"
    using assms(1) by (simp_all add: takeWhile_append2 dropWhile_append2 list_all_iff)
qed

lemma read_number_int:
  assumes "0 \<le> n" "r \<noteq> []" "\<not> is_digit (hd r)" "hd r \<notin> {CHR ''.'', CHR ''e'', CHR ''E''}"
  shows "read_number (show_int n @ r) = Some (JInt n, r)"
proof -
  obtain c ds where d: "show_pos n = c # ds" by (cases "show_pos n") auto
  then have digit: "is_digit c" "list_all is_digit (show_pos n)" using show_pos_digits [OF assms(1)] by simp_all
  have zero: "c = CHR ''0'' \<Longrightarrow> ds = []"
    using show_pos_head [of n] d show_pos_zero assms(1) by (cases "n = 0") auto
  have "takeWhile is_digit (show_pos n @ r) = show_pos n"
    using takeWhile_digits [OF digit(2)] assms(3) by simp
  moreover have "read_fraction r = ([], r)" "read_exponent r = ([], r)"
    using assms(2-4) by (auto simp: read_fraction_def read_exponent_def split: list.split)
  moreover have "parse_int (show_pos n) = Some n"
    using parse_int_show_int [of n] assms(1) by (simp add: show_int_def)
  ultimately show ?thesis
    using digit_not_space [OF digit(1)] d zero assms(1) by (auto simp: read_number_def Let_def show_int_def)
qed

end
