(* ===== verification/McpAuth.thy ===== *)
theory McpAuth
  imports World JsonText
begin

text \<open>
  Signing in to the MCP server: the signed login cookie (\<open>services/mcp_server/session_cookie.py\<close>), the
  login form (\<open>login.py\<close>), the OAuth authorization-code flow with PKCE (\<open>oauth/store.py\<close>,
  \<open>oauth/handlers.py\<close>) and the credentials of a call (\<open>auth.py\<close>).
\<close>

section \<open>Settings and state\<close>

record mcp_settings =
  ms_api_key :: string
  ms_secret_key :: string
  ms_environment :: string
  ms_server_name :: string
  ms_server_version :: string
  ms_session_timeout_s :: int
  ms_auth_code_ttl_s :: int
  ms_access_token_ttl_s :: int
  ms_login_username :: string
  ms_login_password :: string
  ms_allowed_client_ids :: string
  ms_oauth_demo_mode :: bool

text \<open>The defaults; the secret key and the environment are those of \<open>BaseServiceSettings\<close>.\<close>

definition default_mcp_settings :: "string \<Rightarrow> string \<Rightarrow> mcp_settings" where
  "default_mcp_settings secret environment =
     \<lparr>ms_api_key = ''change-me-mcp-key'', ms_secret_key = secret, ms_environment = environment,
      ms_server_name = ''trading-platform-mcp'', ms_server_version = ''0.1.0'', ms_session_timeout_s = 300,
      ms_auth_code_ttl_s = 120, ms_access_token_ttl_s = 3600, ms_login_username = ''mcp-admin'',
      ms_login_password = [], ms_allowed_client_ids = [], ms_oauth_demo_mode = False\<rparr>"

text \<open>
  \<open>mc_random n\<close> is the \<open>n\<close>-th answer of \<open>secrets.token_urlsafe\<close>; the world counts them and holds the
  queues of the event streams and the registered sessions.
\<close>

record 'r mcp_server =
  mc_settings :: mcp_settings
  mc_ops :: "'r redis_ops"
  mc_env :: env
  mc_random :: "nat \<Rightarrow> string"

record ('r, 'd) mcp_world = "('r, 'd) world" +
  mw_tokens :: nat
  mw_queues :: "(string \<times> string list) list"
  mw_local :: "string list"

type_synonym ('r, 'd, 'a) mact = "(('r, 'd) mcp_world, 'a) prog"

definition token_urlsafe :: "'r mcp_server \<Rightarrow> ('r, 'd, string) mact" where
  "token_urlsafe sv w = (Inr (mc_random sv (mw_tokens w)), w\<lparr>mw_tokens := Suc (mw_tokens w)\<rparr>)"

text \<open>\<open>int(time.time())\<close>.\<close>

definition seconds :: "int \<Rightarrow> int" where
  "seconds now_ms = now_ms div 1000"

section \<open>The login cookie\<close>

definition COOKIE_MAX_AGE_S :: int where "COOKIE_MAX_AGE_S = 86400"

definition cookie_sign :: "env \<Rightarrow> string \<Rightarrow> string \<Rightarrow> string" where
  "cookie_sign env payload secret = e_hmac env secret payload"

definition cookie_payload :: "string \<Rightarrow> int \<Rightarrow> string" where
  "cookie_payload user_id ts =
     CHR ''{'' # json_str ''user_id'' @ CHR '':'' # json_str user_id @ CHR '','' # json_str ''ts'' @ CHR '':'' #
     show_int ts @ ''}''"

definition create_session_cookie :: "env \<Rightarrow> string \<Rightarrow> string \<Rightarrow> int \<Rightarrow> string" where
  "create_session_cookie env user_id secret now =
     (let p = b64 (cookie_payload user_id now) in p @ CHR ''.'' # cookie_sign env p secret)"

text \<open>\<open>s.rsplit(".", 1)\<close> into two parts.\<close>

definition rsplit_dot :: "string \<Rightarrow> (string \<times> string) option" where
  "rsplit_dot s =
     (if CHR ''.'' \<in> set s
      then Some (rev (tl (dropWhile (\<lambda>c. c \<noteq> CHR ''.'') (rev s))), rev (takeWhile (\<lambda>c. c \<noteq> CHR ''.'') (rev s)))
      else None)"

text \<open>\<open>int(time.time()) - payload.get("ts", 0) > max_age_s\<close>.\<close>

definition cookie_too_old :: "int \<Rightarrow> int \<Rightarrow> json \<Rightarrow> exn + bool" where
  "cookie_too_old now max_age ts =
     (case ts of
        JInt n \<Rightarrow> Inr (max_age < now - n)
      | JBool b \<Rightarrow> Inr (max_age < now - (if b then 1 else 0))
      | JNum x \<Rightarrow> Inr (of_int max_age < fl (of_int now - x))
      | _ \<Rightarrow> Inl TypeError)"

definition read_cookie :: "string \<Rightarrow> int \<Rightarrow> int \<Rightarrow> exn + json option" where
  "read_cookie p max_age now =
     (case unb64 p of
        None \<Rightarrow> Inl ValueError
      | Some text \<Rightarrow>
          ebind (json_read text) (\<lambda>payload.
          ebind (obj_get payload ''ts'' (JInt 0)) (\<lambda>ts.
          ebind (cookie_too_old now max_age ts) (\<lambda>old.
          if old then Inr None else
          ebind (obj_get payload ''user_id'' (JStr [])) (\<lambda>uid.
          Inr (if truthy uid then Some uid else None))))))"

text \<open>Every exception is a refusal.\<close>

definition verify_session_cookie :: "env \<Rightarrow> string \<Rightarrow> string \<Rightarrow> int \<Rightarrow> int \<Rightarrow> json option" where
  "verify_session_cookie env cookie secret max_age now =
     (case rsplit_dot cookie of
        None \<Rightarrow> None
      | Some (p, sig) \<Rightarrow>
          if sig \<noteq> cookie_sign env p secret then None
          else case read_cookie p max_age now of Inl e \<Rightarrow> None | Inr u \<Rightarrow> u)"

section \<open>Signing in\<close>

definition DEFAULT_NEXT :: string where "DEFAULT_NEXT = ''/oauth/authorize''"

text \<open>
  Scheme and network location as \<open>urllib.parse.urlparse\<close> finds them: leading control characters and
  spaces and all tabs and line breaks are dropped; brackets that do not match raise.
\<close>

definition scheme_char :: "char \<Rightarrow> bool" where
  "scheme_char c = (let n = byte c in 65 \<le> n \<and> n \<le> 90 \<or> 97 \<le> n \<and> n \<le> 122 \<or> 48 \<le> n \<and> n \<le> 57 \<or> c \<in> set ''+-.'')"

definition alpha_char :: "char \<Rightarrow> bool" where
  "alpha_char c = (let n = byte c in 65 \<le> n \<and> n \<le> 90 \<or> 97 \<le> n \<and> n \<le> 122)"

definition split_scheme :: "string \<Rightarrow> string \<times> string" where
  "split_scheme url =
     (let s = takeWhile (\<lambda>c. c \<noteq> CHR '':'') url; r = dropWhile (\<lambda>c. c \<noteq> CHR '':'') url
      in if s \<noteq> [] \<and> r \<noteq> [] \<and> alpha_char (hd s) \<and> list_all scheme_char s then (lower s, tl r) else ([], url))"

definition url_scheme_netloc :: "string \<Rightarrow> exn + string \<times> string" where
  "url_scheme_netloc raw =
     (let url = filter (\<lambda>c. c \<noteq> CHR 0x09 \<and> c \<noteq> CHR 0x0D \<and> c \<noteq> CHR 0x0A) (dropWhile (\<lambda>c. byte c \<le> 32) raw);
          (scheme, rest) = split_scheme url
      in if startswith ''//'' rest
         then let netloc = takeWhile (\<lambda>c. c \<notin> set ''/?#'') (drop 2 rest)
              in if (CHR ''['' \<in> set netloc) \<noteq> (CHR '']'' \<in> set netloc) then Inl ValueError else Inr (scheme, netloc)
         else Inr (scheme, []))"

definition safe_next :: "string \<Rightarrow> exn + string" where
  "safe_next raw =
     (if raw = [] then Inr DEFAULT_NEXT
      else ebind (url_scheme_netloc raw) (\<lambda>(scheme, netloc).
           Inr (if scheme \<noteq> [] \<or> netloc \<noteq> [] then DEFAULT_NEXT else raw)))"

datatype login_answer =
    LoginForm string string
  | LoginRedirect string string

definition login_form :: "string \<Rightarrow> string \<Rightarrow> exn + login_answer" where
  "login_form next_url err = ebind (safe_next next_url) (\<lambda>u. Inr (LoginForm u err))"

definition credentials_valid :: "mcp_settings \<Rightarrow> string \<Rightarrow> string \<Rightarrow> bool" where
  "credentials_valid st username password =
     (ms_login_password st \<noteq> [] \<and> username = ms_login_username st \<and> password = ms_login_password st)"

text \<open>The redirect carries the cookie.\<close>

definition login_post :: "'r mcp_server \<Rightarrow> string \<Rightarrow> string \<Rightarrow> string \<Rightarrow> ('r, 'd, login_answer) mact" where
  "login_post sv username password next_url =
     (if \<not> credentials_valid (mc_settings sv) username password
      then mlift (login_form next_url ''Invalid username or password.'')
      else mbind (mlift (safe_next next_url)) (\<lambda>url.
           mbind (mget w_now) (\<lambda>now.
             mret (LoginRedirect url (create_session_cookie (mc_env sv) username (ms_secret_key (mc_settings sv))
                                        (seconds now))))))"

section \<open>Codes and tokens\<close>

definition mcp_oauth_code_key :: "string \<Rightarrow> string" where
  "mcp_oauth_code_key code = ''mcp:oauth:code:'' @ code"

definition mcp_oauth_token_key :: "string \<Rightarrow> string" where
  "mcp_oauth_token_key token = ''mcp:oauth:token:'' @ token"

fun unhex :: "string \<Rightarrow> nat list" where
  "unhex (a # b # r) = (case (hex_value a, hex_value b) of (Some x, Some y) \<Rightarrow> (x * 16 + y) # unhex r | _ \<Rightarrow> [])"
| "unhex _ = []"

definition pkce_challenge :: "env \<Rightarrow> string \<Rightarrow> string" where
  "pkce_challenge env verifier = b64_bytes (unhex (e_sha256 env verifier))"

definition verify_pkce_s256 :: "env \<Rightarrow> string \<Rightarrow> json \<Rightarrow> exn + bool" where
  "verify_pkce_s256 env verifier challenge =
     (if \<not> ascii verifier then Inl ValueError
      else case challenge of
             JStr c \<Rightarrow> if ascii c then Inr (pkce_challenge env verifier = c) else Inl TypeError
           | _ \<Rightarrow> Inl TypeError)"

definition store_auth_code ::
  "'r mcp_server \<Rightarrow> string \<Rightarrow> string \<Rightarrow> string \<Rightarrow> string \<Rightarrow> json \<Rightarrow> string \<Rightarrow> ('r, 'd, unit) mact" where
  "store_auth_code sv code challenge redirect_uri client_id user_id state =
     mbind (mget w_now) (\<lambda>now.
     mbind (on_redis (r_set (mc_ops sv) (mcp_oauth_code_key code)
        (Json (JObj [(''code_challenge'', JStr challenge), (''redirect_uri'', JStr redirect_uri),
                     (''client_id'', JStr client_id), (''user_id'', user_id), (''state'', JStr state),
                     (''created_at'', JInt (seconds now))]))
        False (Some (ms_auth_code_ttl_s (mc_settings sv))))) (\<lambda>_. mret ()))"

text \<open>\<open>GET\<close> and \<open>DEL\<close> in one transaction.\<close>

definition parse_stored :: "rtext option \<Rightarrow> exn + json option" where
  "parse_stored raw =
     (case raw of None \<Rightarrow> Inr None | Some (Raw []) \<Rightarrow> Inr None
      | Some t \<Rightarrow> ebind (json_loads t) (\<lambda>j. Inr (Some j)))"

definition consume_auth_code :: "'r mcp_server \<Rightarrow> string \<Rightarrow> ('r, 'd, json option) mact" where
  "consume_auth_code sv code =
     mbind (on_redis (r_getdel (mc_ops sv) (mcp_oauth_code_key code))) (\<lambda>raw. mlift (parse_stored raw))"

definition store_bearer_token ::
  "'r mcp_server \<Rightarrow> string \<Rightarrow> json \<Rightarrow> json \<Rightarrow> string \<Rightarrow> ('r, 'd, unit) mact" where
  "store_bearer_token sv token user_id client_id scope =
     (let ttl = ms_access_token_ttl_s (mc_settings sv) in
      mbind (mget w_now) (\<lambda>now.
      mbind (on_redis (r_set (mc_ops sv) (mcp_oauth_token_key token)
        (Json (JObj [(''user_id'', user_id), (''client_id'', client_id), (''scope'', JStr scope),
                     (''created_at'', JInt (seconds now)), (''expires_at'', JInt (seconds now + ttl))]))
        False (Some ttl))) (\<lambda>_. mret ())))"

definition lookup_bearer_token :: "'r mcp_server \<Rightarrow> string \<Rightarrow> ('r, 'd, json option) mact" where
  "lookup_bearer_token sv token =
     mbind (on_redis (r_get (mc_ops sv) (mcp_oauth_token_key token))) (\<lambda>raw. mlift (parse_stored raw))"

section \<open>The authorization endpoint\<close>

record authorize_request =
  aq_response_type :: string
  aq_client_id :: string
  aq_redirect_uri :: string
  aq_code_challenge :: string
  aq_code_challenge_method :: string
  aq_state :: string
  aq_cookie :: "string option"
  aq_query_user :: "string option"
  aq_path :: string
  aq_query :: string

definition allowed_clients :: "mcp_settings \<Rightarrow> string list" where
  "allowed_clients st = filter (\<lambda>c. c \<noteq> []) (map strip (split_on CHR '','' (ms_allowed_client_ids st)))"

definition resolve_user :: "'r mcp_server \<Rightarrow> authorize_request \<Rightarrow> int \<Rightarrow> json option" where
  "resolve_user sv q now =
     (let st = mc_settings sv;
          signed = (case aq_cookie q of
             Some c \<Rightarrow> if c = [] then None
                       else verify_session_cookie (mc_env sv) c (ms_secret_key st) COOKIE_MAX_AGE_S (seconds now)
           | None \<Rightarrow> None)
      in case signed of
           Some u \<Rightarrow> Some u
         | None \<Rightarrow> if ms_oauth_demo_mode st
                   then Some (JStr (case aq_query_user q of Some (c # cs) \<Rightarrow> c # cs | _ \<Rightarrow> ''demo-user''))
                   else None)"

text \<open>\<open>urllib.parse.quote(s, safe="")\<close>.\<close>

definition quote_char :: "char \<Rightarrow> string" where
  "quote_char c =
     (let n = byte c; hex = (\<lambda>k. char_of (if k < 10 then k + 48 else k + 55 :: nat)) in
      if alpha_char c \<or> 48 \<le> n \<and> n \<le> 57 \<or> c \<in> set ''_.-~'' then [c] else [CHR ''%'', hex (n div 16), hex (n mod 16)])"

definition quote_url :: "string \<Rightarrow> string" where
  "quote_url s = concat (map quote_char s)"

definition check_authorize :: "mcp_settings \<Rightarrow> authorize_request \<Rightarrow> exn + unit" where
  "check_authorize st q =
     (if aq_response_type q \<noteq> ''code'' then Inl (HttpError 400 ''only response_type=code is supported'')
      else if aq_client_id q = [] then Inl (HttpError 400 ''client_id is required'')
      else if aq_redirect_uri q = [] then Inl (HttpError 400 ''redirect_uri is required'')
      else if aq_code_challenge q = [] then Inl (HttpError 400 ''code_challenge is required (PKCE)'')
      else if upper (aq_code_challenge_method q) \<noteq> ''S256''
      then Inl (HttpError 400 ''only code_challenge_method=S256 is supported'')
      else if allowed_clients st \<noteq> [] \<and> aq_client_id q \<notin> set (allowed_clients st)
      then Inl (HttpError 403 (''client_id '' @ [CHR 0x27] @ aq_client_id q @ [CHR 0x27] @ '' is not permitted''))
      else Inr ())"

text \<open>The URL redirected to.\<close>

definition authorize :: "'r mcp_server \<Rightarrow> authorize_request \<Rightarrow> ('r, 'd, string) mact" where
  "authorize sv q =
     mseq (mlift (check_authorize (mc_settings sv) q))
    (mbind (mget w_now) (\<lambda>now.
     case resolve_user sv q now of
       None \<Rightarrow> mret (''/login?next='' @ quote_url (aq_path q @ (if aq_query q = [] then [] else CHR ''?'' # aq_query q)))
     | Some user \<Rightarrow>
         mbind (token_urlsafe sv) (\<lambda>code.
         mseq (store_auth_code sv code (aq_code_challenge q) (aq_redirect_uri q) (aq_client_id q) user (aq_state q))
              (mret (aq_redirect_uri q @ ''?code='' @ code @
                     (if aq_state q = [] then [] else ''&state='' @ aq_state q))))))"

section \<open>The token endpoint\<close>

record token_request =
  tq_grant_type :: string
  tq_code :: string
  tq_code_verifier :: string
  tq_redirect_uri :: string
  tq_client_id :: string

record token_answer =
  ta_access_token :: string
  ta_token_type :: string
  ta_expires_in :: int

text \<open>\<open>code_data[k]\<close>.\<close>

definition item :: "json \<Rightarrow> string \<Rightarrow> exn + json" where
  "item j k = (case j of JObj d \<Rightarrow> (case map_of d k of None \<Rightarrow> Inl KeyError | Some v \<Rightarrow> Inr v) | _ \<Rightarrow> Inl TypeError)"

definition check_code :: "env \<Rightarrow> token_request \<Rightarrow> json \<Rightarrow> exn + unit" where
  "check_code env q data =
     ebind (item data ''code_challenge'') (\<lambda>challenge.
     ebind (verify_pkce_s256 env (tq_code_verifier q) challenge) (\<lambda>ok.
     if \<not> ok then Inl (HttpError 400 ''invalid_grant: PKCE verification failed'')
     else if tq_redirect_uri q = [] then Inr ()
     else ebind (item data ''redirect_uri'') (\<lambda>uri.
          if JStr (tq_redirect_uri q) \<noteq> uri then Inl (HttpError 400 ''invalid_grant: redirect_uri mismatch'') else Inr ())))"

definition oauth_token :: "'r mcp_server \<Rightarrow> token_request \<Rightarrow> ('r, 'd, token_answer) mact" where
  "oauth_token sv q =
     (if tq_grant_type q \<noteq> ''authorization_code''
      then mraise (HttpError 400 ''only grant_type=authorization_code is supported'')
      else if tq_code q = [] then mraise (HttpError 400 ''code is required'')
      else if tq_code_verifier q = [] then mraise (HttpError 400 ''code_verifier is required'')
      else mbind (consume_auth_code sv (tq_code q)) (\<lambda>found.
           case found of
             None \<Rightarrow> mraise (HttpError 400 ''invalid_grant: code not found or expired'')
           | Some data \<Rightarrow>
               mseq (mlift (check_code (mc_env sv) q data))
              (mbind (token_urlsafe sv) (\<lambda>bearer.
               mbind (mlift (item data ''user_id'')) (\<lambda>user.
               mbind (mlift (item data ''client_id'')) (\<lambda>client.
               mseq (store_bearer_token sv bearer user client ''mcp'')
                    (mret \<lparr>ta_access_token = bearer, ta_token_type = ''bearer'',
                           ta_expires_in = ms_access_token_ttl_s (mc_settings sv)\<rparr>)))))))"

section \<open>Credentials of a call\<close>

record mcp_identity =
  mi_user_id :: json
  mi_client_id :: json
  mi_auth_method :: string
  mi_scope :: json

definition verify_mcp_auth :: "'r mcp_server \<Rightarrow> string \<Rightarrow> string \<Rightarrow> ('r, 'd, mcp_identity) mact" where
  "verify_mcp_auth sv authorization api_key =
     (if startswith ''Bearer '' authorization
      then mbind (lookup_bearer_token sv (strip (drop 7 authorization))) (\<lambda>found.
           case found of
             None \<Rightarrow> mraise (HttpError 401 ''Bearer token invalid or expired'')
           | Some data \<Rightarrow>
               mbind (mlift (item data ''user_id'')) (\<lambda>user.
               mbind (mlift (item data ''client_id'')) (\<lambda>client.
               mbind (mlift (obj_get data ''scope'' (JStr []))) (\<lambda>scope.
                 mret \<lparr>mi_user_id = user, mi_client_id = client, mi_auth_method = ''oauth'', mi_scope = scope\<rparr>))))
      else if api_key \<noteq> [] \<and> api_key = ms_api_key (mc_settings sv)
      then mret \<lparr>mi_user_id = JStr ''api-key-user'', mi_client_id = JStr ''mcp-api-key'',
                 mi_auth_method = ''api_key'', mi_scope = JStr []\<rparr>
      else mraise (HttpError 401 ''Invalid or missing credentials''))"

end
