(* ===== verification/McpAuthProperties.thy ===== *)
theory McpAuthProperties
  imports McpAuth Demo
begin

text \<open>
  What signing in promises: a login cookie reads back as the user it was made for and nothing else is
  accepted, every access token descends from a login and from the holder of the code verifier, and a
  code is exchanged once.
\<close>

section \<open>The login cookie\<close>

lemma rsplit_dot_append:
  assumes "CHR ''.'' \<notin> set sig"
  shows "rsplit_dot (p @ CHR ''.'' # sig) = Some (p, sig)"
proof -
  have "takeWhile (\<lambda>c. c \<noteq> CHR ''.'') (rev sig @ CHR ''.'' # rev p) = rev sig"
      "dropWhile (\<lambda>c. c \<noteq> CHR ''.'') (rev sig @ CHR ''.'' # rev p) = CHR ''.'' # rev p"
    using assms by (subst takeWhile_append2 dropWhile_append2; auto)+
  then show ?thesis by (simp add: rsplit_dot_def)
qed

lemma ascii_append [simp]: "ascii (s @ t) = (ascii s \<and> ascii t)" "ascii (c # s) = (byte c < 128 \<and> ascii s)" "ascii []"
  by (simp_all add: ascii_def)

lemma ascii_json_char: "byte c < 128 \<Longrightarrow> ascii (json_char c)"
  by (auto simp: json_char_def Let_def byte_def ascii_def hex_digit_def)

lemma ascii_json_str: "ascii s \<Longrightarrow> ascii (json_str s)"
proof -
  assume "ascii s"
  then have "ascii (concat (map json_char s))" by (induction s) (simp_all add: ascii_json_char)
  then show "ascii (json_str s)" by (simp add: json_str_def byte_def)
qed

lemma is_digit_byte: "is_digit c = (48 \<le> byte c \<and> byte c \<le> 57)"
  by (simp add: is_digit_def digit_val_def byte_def Let_def)

lemma ascii_show_int: "0 \<le> n \<Longrightarrow> ascii (show_int n)"
  using show_pos_digits [of n] by (auto simp: show_int_def ascii_def list_all_iff is_digit_byte)

lemma skip_simps [simp]: "\<not> json_space c \<Longrightarrow> skip (c # s) = c # s" "skip [] = []"
  by (simp_all add: skip_def)

lemma ascii_payload: "ascii uid \<Longrightarrow> 0 \<le> ts \<Longrightarrow> ascii (cookie_payload uid ts)"
  by (simp add: cookie_payload_def ascii_json_str ascii_show_int byte_def)

lemma json_str_cons: "json_str s @ r = CHR 0x22 # concat (map json_char s) @ CHR 0x22 # r"
  by (simp add: json_str_def)

text \<open>A member of an object whose key is a literal.\<close>

lemma read_members_key:
  assumes "ascii key"
  shows "read_members (Suc k) d (json_str key @ CHR '':'' # r) =
    (case read_value k (skip r) of
       None \<Rightarrow> None
     | Some (v, r3) \<Rightarrow>
         (case skip r3 of
            [] \<Rightarrow> None
          | e # r4 \<Rightarrow>
              if e = CHR '','' then read_members k (dict_set key v d) (skip r4)
              else if e = CHR ''}'' then Some (dict_set key v d, r4) else None))"
proof -
  have "read_str (length (concat (map json_char key) @ CHR 0x22 # CHR '':'' # r))
      (concat (map json_char key) @ CHR 0x22 # CHR '':'' # r) = Some (key, CHR '':'' # r)"
    using json_str_length [of key] by (intro read_json_str [OF assms]) (simp add: le_imp_less_Suc)
  then show ?thesis
    unfolding json_str_cons by (simp add: byte_def json_space_def)
qed

lemma read_value_int:
  assumes "0 \<le> n" "r \<noteq> []" "\<not> is_digit (hd r)" "hd r \<notin> {CHR ''.'', CHR ''e'', CHR ''E''}"
  shows "read_value (Suc k) (show_int n @ r) = Some (JInt n, r)"
proof -
  obtain c ds where d: "show_pos n = c # ds" by (cases "show_pos n") auto
  then have "48 \<le> byte c \<and> byte c \<le> 57" using show_pos_digits [OF assms(1)] by (simp add: is_digit_byte)
  then have "byte c \<noteq> 34" "c \<noteq> CHR ''{''" "c \<noteq> CHR ''[''" "c \<noteq> CHR ''n''" "c \<noteq> CHR ''t''" "c \<noteq> CHR ''f''"
    by (auto simp: byte_def)
  then show ?thesis
    using read_number_int [OF assms] d assms(1) by (simp add: show_int_def)
qed

lemma read_payload:
  assumes "ascii uid" "0 \<le> ts"
  shows "json_read (cookie_payload uid ts) = Inr (JObj [(''user_id'', JStr uid), (''ts'', JInt ts)])"
proof -
  obtain k where k: "length (cookie_payload uid ts) = Suc (Suc (Suc (Suc k)))"
    by (rule that [of "length (cookie_payload uid ts) - 4"]) (simp add: cookie_payload_def json_str_def json_char_def byte_def)
  have key: "ascii ''user_id''" "ascii ''ts''" by (simp_all add: byte_def)
  obtain c ds where d: "show_int ts = c # ds" "48 \<le> byte c" "byte c \<le> 57"
    using show_pos_digits [OF assms(2)] assms(2)
    by (cases "show_pos ts") (simp_all add: show_int_def is_digit_byte)
  have space: "\<not> json_space c" using d(2, 3) by (auto simp: json_space_def)
  have marks: "\<not> json_space CHR ''{''" "\<not> json_space CHR ''}''" "\<not> json_space CHR '',''" "\<not> json_space CHR 0x22"
    by (simp_all add: json_space_def byte_def)
  have quoted: "skip (json_str s @ r) = json_str s @ r" for s r
    using marks by (simp add: json_str_cons)
  have num: "read_value (Suc k) (show_int ts @ ''}'') = Some (JInt ts, ''}'')"
    by (rule read_value_int [OF assms(2)]) (simp_all add: is_digit_byte byte_def)
  have inner: "read_members (Suc (Suc (Suc k))) [] (json_str ''user_id'' @ CHR '':'' # json_str uid @ CHR '','' #
      json_str ''ts'' @ CHR '':'' # show_int ts @ ''}'') = Some ([(''user_id'', JStr uid), (''ts'', JInt ts)], [])"
    unfolding read_members_key [OF key(1)] quoted read_value_str [OF assms(1) zero_less_Suc] option.case prod.case
    using marks num d space by (simp add: quoted read_members_key [OF key(2)] del: read_members.simps read_value.simps)
  have "skip (json_str ''user_id'' @ r) = CHR 0x22 # concat (map json_char ''user_id'') @ CHR 0x22 # r" for r
    using quoted [of "''user_id''" r] by (simp only: json_str_cons)
  then have "read_value (Suc (Suc (Suc (Suc k)))) (cookie_payload uid ts) =
      Some (JObj [(''user_id'', JStr uid), (''ts'', JInt ts)], [])"
    using inner [unfolded json_str_cons [of "''user_id''"]]
    by (simp add: cookie_payload_def byte_def del: read_members.simps)
  moreover have "skip (cookie_payload uid ts) = cookie_payload uid ts"
    using marks by (simp add: cookie_payload_def)
  ultimately show ?thesis unfolding json_read_def k by simp
qed

lemma cookie_reads_back:
  assumes "ascii uid" "uid \<noteq> []" "0 \<le> ts" "\<And>p. CHR ''.'' \<notin> set (e_hmac env secret p)"
  shows "verify_session_cookie env (create_session_cookie env uid secret ts) secret max_age now =
    (if now - ts \<le> max_age then Some (JStr uid) else None)"
proof -
  let ?p = "b64 (cookie_payload uid ts)"
  have "rsplit_dot (create_session_cookie env uid secret ts) = Some (?p, cookie_sign env ?p secret)"
    using assms(4) by (simp add: create_session_cookie_def Let_def cookie_sign_def rsplit_dot_append)
  moreover have "read_cookie ?p max_age now = Inr (if now - ts \<le> max_age then Some (JStr uid) else None)"
    using assms(2) unb64_b64 [OF ascii_payload [OF assms(1, 3)]]
    by (auto simp: read_cookie_def read_payload [OF assms(1, 3)] ebind_def dict_get_def cookie_too_old_def)
  ultimately show ?thesis by (simp add: verify_session_cookie_def)
qed

text \<open>
  A login cookie reads back as its user while it is fresh, and as nobody once it is older than the
  maximal age; the user is any non-empty ASCII name, quotes and control characters included.
\<close>

theorem login_cookie_round_trip:
  assumes "ascii uid" "uid \<noteq> []" "0 \<le> ts" "\<And>p. CHR ''.'' \<notin> set (e_hmac env secret p)"
  shows "verify_session_cookie env (create_session_cookie env uid secret ts) secret max_age now =
    (if now - ts \<le> max_age then Some (JStr uid) else None)"
  using assms by (rule cookie_reads_back)

definition auth_env :: env where
  "auth_env = demo_env\<lparr>e_hmac := (\<lambda>k s. filter (\<lambda>c. c \<noteq> CHR ''.'') k)\<rparr>"

lemma login_cookie_round_trip_witness:
  "verify_session_cookie auth_env (create_session_cookie auth_env ''mcp-admin'' ''k'' 1000) ''k'' 60 1030 =
     Some (JStr ''mcp-admin'')"
  by (subst login_cookie_round_trip) (simp_all add: byte_def auth_env_def)

section \<open>Keys of the store\<close>

definition oauth_key :: "string \<Rightarrow> bool" where
  "oauth_key k = startswith ''mcp:oauth:'' k"

lemma oauth_keys [simp]:
  "oauth_key (mcp_oauth_code_key c)" "oauth_key (mcp_oauth_token_key t)"
  "mcp_oauth_code_key c \<noteq> mcp_oauth_token_key t" "mcp_oauth_token_key t \<noteq> mcp_oauth_code_key c"
  "(mcp_oauth_code_key c = mcp_oauth_code_key c') = (c = c')"
  "(mcp_oauth_token_key t = mcp_oauth_token_key t') = (t = t')"
  by (simp_all add: oauth_key_def startswith_def mcp_oauth_code_key_def mcp_oauth_token_key_def)

text \<open>What the endpoints store.\<close>

definition code_text :: "authorize_request \<Rightarrow> json \<Rightarrow> int \<Rightarrow> rtext" where
  "code_text q user now =
     Json (JObj [(''code_challenge'', JStr (aq_code_challenge q)), (''redirect_uri'', JStr (aq_redirect_uri q)),
                 (''client_id'', JStr (aq_client_id q)), (''user_id'', user), (''state'', JStr (aq_state q)),
                 (''created_at'', JInt (seconds now))])"

definition token_text :: "json \<Rightarrow> json \<Rightarrow> int \<Rightarrow> int \<Rightarrow> rtext" where
  "token_text user client now ttl =
     Json (JObj [(''user_id'', user), (''client_id'', client), (''scope'', JStr ''mcp''),
                 (''created_at'', JInt (seconds now)), (''expires_at'', JInt (seconds now + ttl))])"

text \<open>An authorization the endpoint grants: to a user with a valid cookie, or in demo mode.\<close>

definition granted :: "'r mcp_server \<Rightarrow> authorize_request \<Rightarrow> int \<Rightarrow> (authorize_request \<times> json) list" where
  "granted sv q now =
     (case (check_authorize (mc_settings sv) q, resolve_user sv q now) of
        (Inr _, Some u) \<Rightarrow> [(q, u)] | _ \<Rightarrow> [])"

text \<open>What an exchange does to the store: nothing, dropping the code, or dropping it for a token.\<close>

definition exchanged :: "'r mcp_server \<Rightarrow> token_request \<Rightarrow> int \<Rightarrow> string \<Rightarrow> (string \<Rightarrow> rtext option) \<Rightarrow>
    (string \<Rightarrow> rtext option) \<Rightarrow> bool" where
  "exchanged sv q now t m m' =
     (\<exists>x data user client. m (mcp_oauth_code_key (tq_code q)) = Some x \<and> json_loads x = Inr data \<and>
        check_code (mc_env sv) q data = Inr () \<and> item data ''user_id'' = Inr user \<and>
        item data ''client_id'' = Inr client \<and>
        m' = m(mcp_oauth_code_key (tq_code q) := None,
               mcp_oauth_token_key t \<mapsto> token_text user client now (ms_access_token_ttl_s (mc_settings sv))))"

definition wrong_verifier :: exn where
  "wrong_verifier = HttpError 400 ''invalid_grant: PKCE verification failed''"

section \<open>The endpoints on the store\<close>

context redis
begin

lemma authorize_live:
  assumes "authorize sv q w = (r, w')" "mc_ops sv = ops"
  shows "live (w_redis w') = live (w_redis w) \<or>
    (\<exists>c u. (q, u) \<in> set (granted sv q (w_now w)) \<and> c = mc_random sv (mw_tokens w) \<and>
       live (w_redis w') = (live (w_redis w))(mcp_oauth_code_key c \<mapsto> code_text q u (w_now w)))"
proof (cases "check_authorize (mc_settings sv) q")
  case (Inl e)
  then show ?thesis using assms by (simp add: authorize_def mseq_def mbind_def mlift_def)
next
  case (Inr x)
  show ?thesis
  proof (cases "resolve_user sv q (w_now w)")
    case None
    then show ?thesis using assms Inr by (simp add: authorize_def mseq_def mbind_def mlift_def mget_def mret_def)
  next
    case (Some u)
    let ?c = "mc_random sv (mw_tokens w)"
    obtain rb s where set: "r_set ops (mcp_oauth_code_key ?c) (code_text q u (w_now w)) False
        (Some (ms_auth_code_ttl_s (mc_settings sv))) (w_redis w) = (rb, s)" by fastforce
    have "w_redis w' = s"
      using assms Inr Some set
      by (auto simp: authorize_def mseq_def mbind_def mlift_def mget_def mret_def token_urlsafe_def store_auth_code_def
          on_redis_def code_text_def split: sum.splits)
    then show ?thesis
      using set_live [OF set] Inr Some by (auto simp: granted_def)
  qed
qed

lemma lookup_live:
  assumes "lookup_bearer_token sv t w = (r, w')" "mc_ops sv = ops"
  shows "live (w_redis w') = live (w_redis w)"
    and "r = Inr (Some j) \<Longrightarrow> \<exists>x. live (w_redis w) (mcp_oauth_token_key t) = Some x \<and> json_loads x = Inr j"
proof -
  obtain ro s where get: "r_get ops (mcp_oauth_token_key t) (w_redis w) = (ro, s)" by fastforce
  then have s: "w_redis w' = s" "r = (case ro of Inl e \<Rightarrow> Inl e | Inr raw \<Rightarrow> parse_stored raw)"
    using assms by (auto simp: lookup_bearer_token_def mbind_def on_redis_def mlift_def split: sum.splits)
  then show "live (w_redis w') = live (w_redis w)" using get_live [OF get] by simp
  show "r = Inr (Some j) \<Longrightarrow> \<exists>x. live (w_redis w) (mcp_oauth_token_key t) = Some x \<and> json_loads x = Inr j"
    using s(2) get_live [OF get]
    by (auto simp: parse_stored_def ebind_Inr split: sum.splits option.splits rtext.splits list.splits)
qed

lemma token_live:
  assumes "oauth_token sv q w = (r, w')" "mc_ops sv = ops"
  shows "live (w_redis w') = live (w_redis w) \<and> (\<forall>a. r \<noteq> Inr a) \<and>
      (r \<noteq> Inl wrong_verifier \<or> fst (r_getdel ops (mcp_oauth_code_key (tq_code q)) (w_redis w)) = Inl wrong_verifier) \<or>
    live (w_redis w') = (live (w_redis w))(mcp_oauth_code_key (tq_code q) := None) \<and> (\<forall>a. r \<noteq> Inr a) \<or>
    exchanged sv q (w_now w) (mc_random sv (mw_tokens w)) (live (w_redis w)) (live (w_redis w')) \<and>
      (\<forall>a. r = Inr a \<longrightarrow> ta_access_token a = mc_random sv (mw_tokens w))"
proof (cases "tq_grant_type q \<noteq> ''authorization_code'' \<or> tq_code q = [] \<or> tq_code_verifier q = []")
  case True
  then show ?thesis using assms by (auto simp: oauth_token_def mraise_def wrong_verifier_def split: if_splits)
next
  case False
  let ?K = "mcp_oauth_code_key (tq_code q)" and ?t = "mc_random sv (mw_tokens w)"
  obtain ro s where gd: "r_getdel ops ?K (w_redis w) = (ro, s)" by fastforce
  note law = getdel_live [OF gd]
  show ?thesis
  proof (cases ro)
    case (Inl e)
    then have "w_redis w' = s" "\<forall>a. r \<noteq> Inr a" "r = Inl e"
      using assms False gd by (auto simp: oauth_token_def consume_auth_code_def mbind_def on_redis_def)
    then show ?thesis using law gd Inl by auto
  next
    case (Inr raw)
    then have raw: "raw = live (w_redis w) ?K" "live s = (live (w_redis w))(?K := None)"
      using law by auto
    let ?v = "w\<lparr>w_redis := s\<rparr>"
    show ?thesis
    proof (cases "parse_stored raw")
      case (Inl e)
      then have "w_redis w' = s \<and> (\<forall>a. r \<noteq> Inr a)"
        using assms False gd Inr by (auto simp: oauth_token_def consume_auth_code_def mbind_def on_redis_def mlift_def)
      then show ?thesis using raw by auto
    next
      case parsed: (Inr found)
      show ?thesis
      proof (cases found)
        case None
        then have "w_redis w' = s \<and> (\<forall>a. r \<noteq> Inr a)"
          using assms False gd Inr parsed
          by (auto simp: oauth_token_def consume_auth_code_def mbind_def on_redis_def mlift_def mraise_def)
        then show ?thesis using raw by auto
      next
        case (Some data)
        then obtain x where x: "live (w_redis w) ?K = Some x" "json_loads x = Inr data"
          using parsed raw(1) by (auto simp: parse_stored_def ebind_Inr split: option.splits rtext.splits list.splits)
        have rest: "mseq (mlift (check_code (mc_env sv) q data))
              (mbind (token_urlsafe sv) (\<lambda>bearer.
               mbind (mlift (item data ''user_id'')) (\<lambda>user.
               mbind (mlift (item data ''client_id'')) (\<lambda>client.
               mseq (store_bearer_token sv bearer user client ''mcp'')
                    (mret \<lparr>ta_access_token = bearer, ta_token_type = ''bearer'',
                           ta_expires_in = ms_access_token_ttl_s (mc_settings sv)\<rparr>))))) ?v = (r, w')"
          using assms False gd Inr parsed Some
          by (simp add: oauth_token_def consume_auth_code_def mbind_def on_redis_def mlift_def)
        show ?thesis
        proof (cases "\<exists>user client. check_code (mc_env sv) q data = Inr () \<and> item data ''user_id'' = Inr user \<and>
            item data ''client_id'' = Inr client")
          case False
          then have "w_redis w' = s \<and> (\<forall>a. r \<noteq> Inr a)"
            using rest by (auto simp: mseq_def mbind_def mlift_def token_urlsafe_def split: sum.splits)
          then show ?thesis using raw by auto
        next
          case True
          then obtain user client where ok: "check_code (mc_env sv) q data = Inr ()"
              "item data ''user_id'' = Inr user" "item data ''client_id'' = Inr client" by blast
          obtain rb s2 where set: "r_set ops (mcp_oauth_token_key ?t)
              (token_text user client (w_now w) (ms_access_token_ttl_s (mc_settings sv))) False
              (Some (ms_access_token_ttl_s (mc_settings sv))) s = (rb, s2)" by fastforce
          have "w_redis w' = s2 \<and> (\<forall>a. r = Inr a \<longrightarrow> ta_access_token a = ?t \<and> (\<exists>b. rb = Inr b))"
            using rest ok set assms(2)
            by (auto simp: mseq_def mbind_def mlift_def mget_def mret_def token_urlsafe_def store_bearer_token_def
                Let_def on_redis_def token_text_def split: sum.splits)
          then show ?thesis
            using set_live [OF set] raw x ok by (cases rb) (auto simp: exchanged_def)
        qed
      qed
    qed
  qed
qed

end

section \<open>Histories\<close>

text \<open>
  A history of the store: requests to the endpoints, with the authorizations granted and the exchanges
  asked for, and anything else that does not add to the keys of OAuth, as time passing.
\<close>

inductive auth_history ::
  "'r mcp_server \<Rightarrow> ('r \<Rightarrow> string \<Rightarrow> rtext option) \<Rightarrow> (authorize_request \<times> json) list \<Rightarrow> token_request list \<Rightarrow>
   ('r, 'd) mcp_world \<Rightarrow> bool"
  for sv live where
  start: "(\<forall>k. oauth_key k \<longrightarrow> live (w_redis w) k = None) \<Longrightarrow> auth_history sv live [] [] w"
| authorized: "auth_history sv live gs xs w \<Longrightarrow> authorize sv q w = (r, w') \<Longrightarrow>
    auth_history sv live (granted sv q (w_now w) @ gs) xs w'"
| exchange: "auth_history sv live gs xs w \<Longrightarrow> oauth_token sv q w = (ra, w') \<Longrightarrow> auth_history sv live gs (q # xs) w'"
| other: "auth_history sv live gs xs w \<Longrightarrow>
    (\<forall>k. oauth_key k \<longrightarrow> live (w_redis w') k \<in> {None, live (w_redis w) k}) \<Longrightarrow> auth_history sv live gs xs w'"

definition codes_granted :: "(authorize_request \<times> json) list \<Rightarrow> (string \<Rightarrow> rtext option) \<Rightarrow> bool" where
  "codes_granted gs m =
     (\<forall>c x. m (mcp_oauth_code_key c) = Some x \<longrightarrow> (\<exists>q u n. (q, u) \<in> set gs \<and> x = code_text q u n))"

definition tokens_granted ::
  "env \<Rightarrow> (authorize_request \<times> json) list \<Rightarrow> token_request list \<Rightarrow> (string \<Rightarrow> rtext option) \<Rightarrow> bool" where
  "tokens_granted env gs xs m =
     (\<forall>t x. m (mcp_oauth_token_key t) = Some x \<longrightarrow> (\<exists>q u y n ttl. (q, u) \<in> set gs \<and> y \<in> set xs \<and>
        pkce_challenge env (tq_code_verifier y) = aq_code_challenge q \<and>
        x = token_text u (JStr (aq_client_id q)) n ttl))"

lemma granted_mono:
  "codes_granted gs m \<Longrightarrow> set gs \<subseteq> set gs' \<Longrightarrow> codes_granted gs' m"
  "tokens_granted env gs xs m \<Longrightarrow> set gs \<subseteq> set gs' \<Longrightarrow> set xs \<subseteq> set xs' \<Longrightarrow> tokens_granted env gs' xs' m"
  by (simp_all add: codes_granted_def tokens_granted_def) (meson subsetD)+

lemma granted_fewer:
  assumes "\<forall>k. oauth_key k \<longrightarrow> m' k \<in> {None, m k}"
  shows "codes_granted gs m \<Longrightarrow> codes_granted gs m'" "tokens_granted env gs xs m \<Longrightarrow> tokens_granted env gs xs m'"
proof -
  have key: "m' k = Some x \<Longrightarrow> oauth_key k \<Longrightarrow> m k = Some x" for k x
    using assms by (metis insertE option.distinct(1) singletonD)
  show "codes_granted gs m \<Longrightarrow> codes_granted gs m'"
    unfolding codes_granted_def using key oauth_keys(1) by blast
  show "tokens_granted env gs xs m \<Longrightarrow> tokens_granted env gs xs m'"
    unfolding tokens_granted_def using key oauth_keys(2) by blast
qed

lemma code_item:
  "json_loads (code_text q u n) = Inr data \<Longrightarrow> item data ''user_id'' = Inr u"
  "json_loads (code_text q u n) = Inr data \<Longrightarrow> item data ''client_id'' = Inr (JStr (aq_client_id q))"
  "json_loads (code_text q u n) = Inr data \<Longrightarrow> item data ''code_challenge'' = Inr (JStr (aq_code_challenge q))"
  by (auto simp: code_text_def item_def)

lemma checked_code:
  assumes "json_loads (code_text q u n) = Inr data" "check_code env y data = Inr ()"
  shows "pkce_challenge env (tq_code_verifier y) = aq_code_challenge q"
  using assms(2) code_item(3) [OF assms(1)]
  by (auto simp: check_code_def ebind_Inr verify_pkce_s256_def split: if_splits)

lemma auth_history_granted:
  assumes "auth_history sv live gs xs w" "redis (mc_ops sv) live"
  shows "codes_granted gs (live (w_redis w)) \<and> tokens_granted (mc_env sv) gs xs (live (w_redis w))"
  using assms(1)
proof induction
  case (start w)
  then show ?case by (simp add: codes_granted_def tokens_granted_def)
next
  case (authorized gs xs w q r w')
  let ?gs = "granted sv q (w_now w) @ gs"
  have keep: "codes_granted ?gs (live (w_redis w))" "tokens_granted (mc_env sv) ?gs xs (live (w_redis w))"
    by (rule granted_mono(1) [where gs = gs], use authorized.IH in simp_all)
      (rule granted_mono(2) [where gs = gs and xs = xs], use authorized.IH in simp_all)
  from redis.authorize_live [OF assms(2) authorized.hyps(2) refl]
  consider "live (w_redis w') = live (w_redis w)"
    | c u where "(q, u) \<in> set ?gs"
        "live (w_redis w') = (live (w_redis w))(mcp_oauth_code_key c \<mapsto> code_text q u (w_now w))" by auto
  then show ?case
  proof cases
    case 2
    then have "codes_granted ?gs (live (w_redis w'))"
      using keep(1) unfolding codes_granted_def 2(2) by (auto split: if_splits)
    moreover have "tokens_granted (mc_env sv) ?gs xs (live (w_redis w'))"
      using keep(2) unfolding tokens_granted_def 2(2) by simp
    ultimately show ?thesis ..
  qed (use keep in simp)
next
  case (exchange gs xs w q ra w')
  let ?m = "live (w_redis w)" and ?m' = "live (w_redis w')"
  have keep: "codes_granted gs ?m" "tokens_granted (mc_env sv) gs (q # xs) ?m"
    by (use exchange.IH in simp) (rule granted_mono(2) [where gs = gs and xs = xs], use exchange.IH in auto)
  have fewer: "codes_granted gs (?m(k := None))" "tokens_granted (mc_env sv) gs (q # xs) (?m(k := None))" for k
    by (rule granted_fewer(1) [OF _ keep(1)], simp, rule granted_fewer(2) [OF _ keep(2)], simp)
  from redis.token_live [OF assms(2) exchange.hyps(2) refl]
  consider "?m' = ?m" | "?m' = ?m(mcp_oauth_code_key (tq_code q) := None)"
    | "exchanged sv q (w_now w) (mc_random sv (mw_tokens w)) ?m ?m'" by blast
  then show ?case
  proof cases
    case 3
    then obtain x data user client where x: "?m (mcp_oauth_code_key (tq_code q)) = Some x" "json_loads x = Inr data"
        "check_code (mc_env sv) q data = Inr ()" "item data ''user_id'' = Inr user" "item data ''client_id'' = Inr client"
        "?m' = ?m(mcp_oauth_code_key (tq_code q) := None, mcp_oauth_token_key (mc_random sv (mw_tokens w)) \<mapsto>
           token_text user client (w_now w) (ms_access_token_ttl_s (mc_settings sv)))"
      by (auto simp: exchanged_def)
    then obtain p u n where p: "(p, u) \<in> set gs" "x = code_text p u n"
      using keep(1) unfolding codes_granted_def by blast
    have "user = u" "client = JStr (aq_client_id p)"
      "pkce_challenge (mc_env sv) (tq_code_verifier q) = aq_code_challenge p"
      using x(3-5) code_item [OF x(2) [unfolded p(2)]] checked_code [OF x(2) [unfolded p(2)]] by simp_all
    note facts = this
    have "codes_granted gs ?m'"
      using fewer(1) [of "mcp_oauth_code_key (tq_code q)"] unfolding codes_granted_def x(6) by simp
    moreover have "tokens_granted (mc_env sv) gs (q # xs) ?m'"
      unfolding tokens_granted_def x(6)
    proof (intro allI impI)
      fix t y
      assume y: "(?m(mcp_oauth_code_key (tq_code q) := None, mcp_oauth_token_key (mc_random sv (mw_tokens w)) \<mapsto>
          token_text user client (w_now w) (ms_access_token_ttl_s (mc_settings sv)))) (mcp_oauth_token_key t) = Some y"
      show "\<exists>q' u' z n ttl. (q', u') \<in> set gs \<and> z \<in> set (q # xs) \<and>
          pkce_challenge (mc_env sv) (tq_code_verifier z) = aq_code_challenge q' \<and>
          y = token_text u' (JStr (aq_client_id q')) n ttl"
      proof (cases "t = mc_random sv (mw_tokens w)")
        case True
        then have "y = token_text u (JStr (aq_client_id p)) (w_now w) (ms_access_token_ttl_s (mc_settings sv))"
          using y facts(1, 2) by simp
        then show ?thesis using p(1) facts(3) by (metis list.set_intros(1))
      next
        case False
        then show ?thesis using y keep(2) by (simp add: tokens_granted_def)
      qed
    qed
    ultimately show ?thesis ..
  qed (simp_all only: keep fewer simp_thms)
next
  case (other gs xs w w')
  then show ?case using granted_fewer by blast
qed


section \<open>One exchange per code\<close>

text \<open>
  C23: A code is good for one exchange.  Once a request has exchanged it, or has shown a wrong verifier for
  it, no request for the same code gets a token, unless a new authorization has drawn the same code.
  (The store itself does not raise HTTP errors.)
\<close>

theorem code_is_exchanged_once:
  assumes "redis (mc_ops sv) live" "\<And>k s. fst (r_getdel (mc_ops sv) k s) \<noteq> Inl wrong_verifier"
    and "oauth_token sv q w = (r, w1)" "r = Inr a \<or> r = Inl wrong_verifier"
    and "tq_code q' = tq_code q" "live (w_redis v) (mcp_oauth_code_key (tq_code q)) \<in> {None, live (w_redis w1) (mcp_oauth_code_key (tq_code q))}"
    and "oauth_token sv q' v = (r', v')"
  shows "r' \<noteq> Inr b"
proof
  assume got: "r' = Inr b"
  have "live (w_redis w1) (mcp_oauth_code_key (tq_code q)) = None"
    using redis.token_live [OF assms(1, 3) refl] assms(2, 4) by (auto simp: exchanged_def)
  then have "live (w_redis v) (mcp_oauth_code_key (tq_code q')) = None" using assms(5, 6) by auto
  then show False
    using redis.token_live [OF assms(1, 7) refl] got by (auto simp: exchanged_def)
qed

section \<open>A login reaches the caller's identity\<close>

lemma login_cookie:
  assumes "login_post sv username password next_url w = (Inr (LoginRedirect url cookie), w')"
  shows "username = ms_login_username (mc_settings sv)"
    "cookie = create_session_cookie (mc_env sv) username (ms_secret_key (mc_settings sv)) (seconds (w_now w))"
  using assms
  by (auto simp: login_post_def credentials_valid_def login_form_def mbind_def mlift_def mget_def mret_def ebind_def
      split: if_splits sum.splits)

lemma verify_stored_token:
  assumes "redis (mc_ops sv) live" "strip t = t"
    and "live (w_redis w) (mcp_oauth_token_key t) = Some (token_text user client n ttl)"
    and "verify_mcp_auth sv (''Bearer '' @ t) api_key w = (Inr caller, w')"
  shows "caller = \<lparr>mi_user_id = user, mi_client_id = client, mi_auth_method = ''oauth'', mi_scope = JStr ''mcp''\<rparr>"
proof -
  obtain found v where found: "lookup_bearer_token sv t w = (Inr (Some found), v)"
      "item found ''user_id'' = Inr (mi_user_id caller)" "item found ''client_id'' = Inr (mi_client_id caller)"
      "obj_get found ''scope'' (JStr []) = Inr (mi_scope caller)" "mi_auth_method caller = ''oauth''"
    using assms(2, 4)
    by (auto simp: verify_mcp_auth_def mbind_def mlift_def mret_def mraise_def startswith_def
        split: prod.splits sum.splits option.splits)
  have "json_loads (token_text user client n ttl) = Inr found"
    using redis.lookup_live(2) [OF assms(1) found(1) refl refl] assms(3) by auto
  then show ?thesis
    using found(2-5) by (auto simp: token_text_def item_def dict_get_def intro!: mcp_identity.equality)
qed

text \<open>
  C24: The whole sign-in works: when the configured user has logged in, the cookie authorizes a client in
  time, the code is exchanged and the token is used, each while its entry is still in the store, the call
  is made in the name of that user and that client, with the scope \<open>mcp\<close>.
\<close>

theorem login_reaches_identity:
  assumes "redis (mc_ops sv) live" "\<And>p. CHR ''.'' \<notin> set (e_hmac (mc_env sv) (ms_secret_key (mc_settings sv)) p)"
    and "ascii (ms_login_username (mc_settings sv))" "ms_login_username (mc_settings sv) \<noteq> []"
    and "login_post sv username password next_url w0 = (Inr (LoginRedirect url cookie), w0')" "0 \<le> w_now w0"
    and "aq_cookie q = Some cookie" "seconds (w_now w) - seconds (w_now w0) \<le> COOKIE_MAX_AGE_S"
    and "authorize sv q w = (Inr target, w1)" "tq_code tq = mc_random sv (mw_tokens w)"
    and "live (w_redis v) (mcp_oauth_code_key (tq_code tq)) = live (w_redis w1) (mcp_oauth_code_key (tq_code tq))"
    and "oauth_token sv tq v = (Inr answer, w2)" "strip (ta_access_token answer) = ta_access_token answer"
    and "live (w_redis u) (mcp_oauth_token_key (ta_access_token answer)) = live (w_redis w2) (mcp_oauth_token_key (ta_access_token answer))"
    and "verify_mcp_auth sv (''Bearer '' @ ta_access_token answer) api_key u = (Inr caller, u')"
  shows "caller = \<lparr>mi_user_id = JStr username, mi_client_id = JStr (aq_client_id q), mi_auth_method = ''oauth'',
    mi_scope = JStr ''mcp''\<rparr>"
proof -
  note login = login_cookie [OF assms(5)]
  have "verify_session_cookie (mc_env sv) cookie (ms_secret_key (mc_settings sv)) COOKIE_MAX_AGE_S (seconds (w_now w)) =
      Some (JStr username)"
    unfolding login(2) using assms(2-4, 6, 8) login(1)
    by (subst cookie_reads_back) (simp_all add: seconds_def)
  moreover have "cookie \<noteq> []" by (simp add: login(2) create_session_cookie_def Let_def)
  ultimately have user: "resolve_user sv q (w_now w) = Some (JStr username)"
    by (simp add: resolve_user_def assms(7) Let_def)
  have code: "live (w_redis w1) (mcp_oauth_code_key (tq_code tq)) = Some (code_text q (JStr username) (w_now w))"
  proof -
    obtain s b where "r_set (mc_ops sv) (mcp_oauth_code_key (tq_code tq)) (code_text q (JStr username) (w_now w)) False
        (Some (ms_auth_code_ttl_s (mc_settings sv))) (w_redis w) = (Inr b, s)" "w_redis w1 = s"
      using assms(9, 10) user
      by (auto simp: authorize_def mseq_def mbind_def mlift_def mget_def mret_def token_urlsafe_def store_auth_code_def
          on_redis_def code_text_def split: sum.splits prod.splits)
    then show ?thesis using redis.set_live [OF assms(1)] by (cases b) fastforce+
  qed
  have "exchanged sv tq (w_now v) (ta_access_token answer) (live (w_redis v)) (live (w_redis w2))"
    using redis.token_live [OF assms(1, 12) refl] by auto
  then obtain data user client n ttl where data: "json_loads (code_text q (JStr username) (w_now w)) = Inr data"
      "item data ''user_id'' = Inr user" "item data ''client_id'' = Inr client"
      "live (w_redis w2) (mcp_oauth_token_key (ta_access_token answer)) = Some (token_text user client n ttl)"
    unfolding exchanged_def assms(11) code by fastforce
  then have "user = JStr username" "client = JStr (aq_client_id q)" using code_item [OF data(1)] by simp_all
  then show ?thesis
    using verify_stored_token [OF assms(1, 13) _ assms(15)] data(4) assms(14) by simp
qed

section \<open>A concrete sign-in\<close>

definition auth_server :: "mem_redis mcp_server" where
  "auth_server =
     \<lparr>mc_settings = (default_mcp_settings ''k'' ''dev'')\<lparr>ms_login_password := ''secret''\<rparr>, mc_ops = mem_ops,
      mc_env = auth_env, mc_random = (\<lambda>n. ''random'' @ show_int (int n))\<rparr>"

definition auth_start :: "(mem_redis, unit) mcp_world" where
  "auth_start =
     \<lparr>w_redis = empty_mem, w_db = (), w_sessions = 0, w_uuids = 0, w_now = 1700000000000, w_trace = [],
      mw_tokens = 0, mw_queues = [], mw_local = []\<rparr>"

definition auth_request :: authorize_request where
  "auth_request =
     \<lparr>aq_response_type = ''code'', aq_client_id = ''claude'', aq_redirect_uri = ''https://claude.ai/cb'',
      aq_code_challenge = pkce_challenge auth_env ''verifier'', aq_code_challenge_method = ''s256'',
      aq_state = ''xyz'', aq_cookie = Some (create_session_cookie auth_env ''mcp-admin'' ''k'' 1700000000),
      aq_query_user = None, aq_path = ''/oauth/authorize'', aq_query = []\<rparr>"

definition auth_exchange :: token_request where
  "auth_exchange =
     \<lparr>tq_grant_type = ''authorization_code'', tq_code = ''random0'', tq_code_verifier = ''verifier'',
      tq_redirect_uri = [], tq_client_id = ''claude''\<rparr>"

lemma auth_login:
  "login_post auth_server ''mcp-admin'' ''secret'' [] auth_start =
     (Inr (LoginRedirect ''/oauth/authorize'' (create_session_cookie auth_env ''mcp-admin'' ''k'' 1700000000)), auth_start)"
  by (simp add: login_post_def credentials_valid_def auth_server_def default_mcp_settings_def safe_next_def
      DEFAULT_NEXT_def mbind_def mlift_def mget_def mret_def auth_start_def seconds_def ebind_def)

lemma cookie_not_Nil [simp]: "create_session_cookie env u k t \<noteq> []"
  by (simp add: create_session_cookie_def Let_def)

lemma auth_user: "resolve_user auth_server auth_request 1700000000000 = Some (JStr ''mcp-admin'')"
proof -
  have "verify_session_cookie auth_env (create_session_cookie auth_env ''mcp-admin'' ''k'' 1700000000) ''k''
      COOKIE_MAX_AGE_S 1700000000 = Some (JStr ''mcp-admin'')"
    by (subst cookie_reads_back) (simp_all add: byte_def auth_env_def COOKIE_MAX_AGE_S_def)
  then show ?thesis
    by (simp add: resolve_user_def auth_request_def auth_server_def default_mcp_settings_def seconds_def)
qed

lemma auth_challenge: "pkce_challenge auth_env ''verifier'' = ''AAAAAAAAAAAREREREREREaqqqqqqqqqqu7u7u7u7u7s''"
  by code_simp

lemma auth_checked: "check_authorize (mc_settings auth_server) auth_request = Inr ()"
proof -
  have "upper ''s256'' = ''S256''" "strip [] = []" by code_simp+
  then show ?thesis
    by (simp add: check_authorize_def auth_request_def auth_server_def default_mcp_settings_def auth_challenge
        allowed_clients_def)
qed

definition auth_step1 :: "(mem_redis, unit) mcp_world" where
  "auth_step1 = auth_start\<lparr>mw_tokens := 1, w_redis :=
     mem_put (mcp_oauth_code_key ''random0'') (code_text auth_request (JStr ''mcp-admin'') 1700000000000) (Some 120) empty_mem\<rparr>"

lemma auth_authorized:
  "authorize auth_server auth_request auth_start = (Inr ''https://claude.ai/cb?code=random0&state=xyz'', auth_step1)"
proof -
  have "show_int 0 = ''0''" by code_simp
  then show ?thesis
    using auth_user auth_checked
    by (simp add: authorize_def mseq_def mbind_def mlift_def mget_def mret_def token_urlsafe_def store_auth_code_def
        on_redis_def auth_start_def auth_step1_def code_text_def auth_server_def default_mcp_settings_def mem_ops_def
        mem_cmd_def empty_mem_def mem_put_def)
      (simp add: auth_request_def)
qed

definition auth_step2 :: "(mem_redis, unit) mcp_world" where
  "auth_step2 = auth_start\<lparr>mw_tokens := 2, w_redis :=
     mem_put (mcp_oauth_token_key ''random1'') (token_text (JStr ''mcp-admin'') (JStr ''claude'') 1700000000000 3600) (Some 3600)
       (mem_del (mcp_oauth_code_key ''random0'') (w_redis auth_step1))\<rparr>"

lemma auth_exchanged:
  "oauth_token auth_server auth_exchange auth_step1 =
     (Inr \<lparr>ta_access_token = ''random1'', ta_token_type = ''bearer'', ta_expires_in = 3600\<rparr>, auth_step2)"
proof -
  have "show_int 1 = ''1''" by code_simp
  moreover have "verify_pkce_s256 auth_env ''verifier'' (JStr ''AAAAAAAAAAAREREREREREaqqqqqqqqqqu7u7u7u7u7s'') = Inr True"
    using auth_challenge by (simp add: verify_pkce_s256_def byte_def)
  ultimately show ?thesis
    by (simp add: oauth_token_def consume_auth_code_def store_bearer_token_def mseq_def mbind_def mlift_def mget_def
        mret_def token_urlsafe_def on_redis_def auth_start_def auth_step1_def auth_step2_def auth_exchange_def
        code_text_def token_text_def auth_server_def default_mcp_settings_def mem_ops_def mem_cmd_def empty_mem_def
        mem_put_def mem_del_def mem_live_def parse_stored_def check_code_def item_def ebind_def Let_def auth_request_def
        auth_challenge)
qed

lemma auth_called:
  "verify_mcp_auth auth_server ''Bearer random1'' [] auth_step2 =
     (Inr \<lparr>mi_user_id = JStr ''mcp-admin'', mi_client_id = JStr ''claude'', mi_auth_method = ''oauth'',
           mi_scope = JStr ''mcp''\<rparr>, auth_step2)"
proof -
  have "strip ''random1'' = ''random1''" by code_simp
  then show ?thesis
    by (simp add: verify_mcp_auth_def startswith_def lookup_bearer_token_def mbind_def mlift_def mret_def on_redis_def
        auth_server_def auth_step2_def token_text_def mem_ops_def mem_cmd_def auth_step1_def auth_start_def empty_mem_def
        mem_put_def mem_del_def mem_live_def parse_stored_def item_def dict_get_def ebind_def)
qed


lemma code_is_exchanged_once_witness:
  "fst (oauth_token auth_server auth_exchange auth_step2) \<noteq> Inr \<lparr>ta_access_token = ''random2'', ta_token_type = ''bearer'', ta_expires_in = 3600\<rparr>"
proof -
  have "fst (r_getdel mem_ops k s) \<noteq> Inl wrong_verifier" for k s
    by (auto simp: mem_ops_def mem_cmd_def wrong_verifier_def split: list.splits)
  then show ?thesis
    by (intro code_is_exchanged_once [where live = mem_live, OF _ _ auth_exchanged _ refl _ prod.collapse [symmetric]])
      (simp_all add: auth_server_def mem.redis_axioms)
qed

lemma login_reaches_identity_witness:
  "\<lparr>mi_user_id = JStr ''mcp-admin'', mi_client_id = JStr ''claude'', mi_auth_method = ''oauth'', mi_scope = JStr ''mcp''\<rparr> =
   \<lparr>mi_user_id = JStr ''mcp-admin'', mi_client_id = JStr (aq_client_id auth_request), mi_auth_method = ''oauth'',
    mi_scope = JStr ''mcp''\<rparr>"
proof (rule login_reaches_identity [where live = mem_live, OF _ _ _ _ auth_login _ _ _ auth_authorized _ refl auth_exchanged _ refl])
  show "verify_mcp_auth auth_server
      (''Bearer '' @ ta_access_token \<lparr>ta_access_token = ''random1'', ta_token_type = ''bearer'', ta_expires_in = 3600\<rparr>) []
      auth_step2 = (Inr \<lparr>mi_user_id = JStr ''mcp-admin'', mi_client_id = JStr ''claude'', mi_auth_method = ''oauth'',
           mi_scope = JStr ''mcp''\<rparr>, auth_step2)"
    using auth_called by simp
  have "strip ''random1'' = ''random1''" "show_int 0 = ''0''" by code_simp+
  then show "strip (ta_access_token \<lparr>ta_access_token = ''random1'', ta_token_type = ''bearer'', ta_expires_in = 3600\<rparr>) =
      ta_access_token \<lparr>ta_access_token = ''random1'', ta_token_type = ''bearer'', ta_expires_in = 3600\<rparr>"
    "tq_code auth_exchange = mc_random auth_server (mw_tokens auth_start)"
    by (simp_all add: auth_exchange_def auth_server_def auth_start_def)
qed (simp_all add: auth_server_def mem.redis_axioms auth_env_def default_mcp_settings_def byte_def auth_start_def
      auth_request_def COOKIE_MAX_AGE_S_def)

end
