(* ===== verification/Gateway.thy ===== *)
theory Gateway
  imports World JsonText
begin

text \<open>
  The public MCP gateway (\<open>services/mcp_web_gateway\<close>): bearer tokens and their claims (\<open>auth.py\<close>), the
  tools and scopes it lets through (\<open>policy.py\<close>), client sessions (\<open>session.py\<close>), the audit log (\<open>audit.py\<close>),
  the proxy to the internal server (\<open>proxy.py\<close>) and the message endpoint (\<open>main.py\<close>).  The authorization
  server, the JWT library and the internal server are parameters.
\<close>

section \<open>Policy\<close>

definition ALLOWED_TOOLS :: "string list" where
  "ALLOWED_TOOLS =
     [''get_account_connection_status'', ''get_stream_health'', ''get_account_balances'', ''get_account_positions'',
      ''get_recent_fills'', ''get_incidents'', ''check_live_trade_policy'', ''get_symbol_snapshot'', ''list_strategies'',
      ''get_strategy_details'', ''get_recent_executions'', ''get_open_orders'']"

definition BLOCKED_TOOLS :: "string list" where
  "BLOCKED_TOOLS =
     [''request_paper_trade'', ''update_strategy_state'', ''simulate_strategy_on_snapshot'', ''simulate_strategy_on_range'']"

definition TOOL_SCOPE_MAP :: "(string \<times> string) list" where
  "TOOL_SCOPE_MAP =
     [(''get_account_connection_status'', ''mcp:account:read''), (''get_stream_health'', ''mcp:account:read''),
      (''get_account_balances'', ''mcp:account:read''), (''get_account_positions'', ''mcp:account:read''),
      (''get_recent_fills'', ''mcp:account:read''), (''get_open_orders'', ''mcp:account:read''),
      (''check_live_trade_policy'', ''mcp:account:read''), (''get_incidents'', ''mcp:tools:read''),
      (''get_symbol_snapshot'', ''mcp:tools:read''), (''list_strategies'', ''mcp:strategy:read''),
      (''get_strategy_details'', ''mcp:strategy:read''), (''get_recent_executions'', ''mcp:strategy:read'')]"

text \<open>The dash of the messages, as its three bytes.\<close>

definition em_dash :: string where "em_dash = [CHR 0xE2, CHR 0x80, CHR 0x94]"

text \<open>The reason of a refusal, or nothing.\<close>

definition check_tool_call :: "string \<Rightarrow> string list \<Rightarrow> string + unit" where
  "check_tool_call tool scopes =
     (if tool \<in> set BLOCKED_TOOLS
      then Inl (''tool '' @ quoted tool @ '' is not exposed by this gateway (write/simulation tools are blocked)'')
      else if tool \<notin> set ALLOWED_TOOLS
      then Inl (''tool '' @ quoted tool @ '' is not available through this gateway'')
      else case map_of TOOL_SCOPE_MAP tool of
             Some scope \<Rightarrow> if scope \<noteq> [] \<and> scope \<notin> set scopes
                          then Inl (''token missing required scope '' @ quoted scope @ '' for tool '' @ quoted tool)
                          else Inr ()
           | None \<Rightarrow> Inr ())"

section \<open>Claims\<close>

record token_claims =
  tc_sub :: string
  tc_client_id :: string
  tc_scope :: json
  tc_granted :: "string list"

text \<open>\<open>s.split()\<close>: the words between runs of white space.\<close>

fun words_from :: "string \<Rightarrow> string \<Rightarrow> string list" where
  "words_from acc [] = (if acc = [] then [] else [rev acc])"
| "words_from acc (c # s) =
     (if is_space c then (if acc = [] then words_from [] s else rev acc # words_from [] s)
      else words_from (c # acc) s)"

definition claims_from_payload :: "env \<Rightarrow> json \<Rightarrow> exn + token_claims" where
  "claims_from_payload env payload =
     (case payload of
        JObj d \<Rightarrow>
          (let client = py_or (dict_get ''azp'' JNull d) (py_or (dict_get ''client_id'' JNull d) (dict_get ''aud'' (JStr []) d));
               client = (case client of JArr xs \<Rightarrow> (case xs of [] \<Rightarrow> JStr [] | x # _ \<Rightarrow> x) | c \<Rightarrow> c);
               scope = dict_get ''scope'' (JStr []) d
           in ebind (if \<not> truthy scope then Inr []
                     else case scope of JStr s \<Rightarrow> Inr (words_from [] s) | _ \<Rightarrow> Inl AttributeError) (\<lambda>granted.
              Inr \<lparr>tc_sub = str_of env (dict_get ''sub'' (JStr []) d), tc_client_id = str_of env client,
                   tc_scope = scope, tc_granted = granted\<rparr>))
      | _ \<Rightarrow> Inl AttributeError)"

section \<open>The gateway and its world\<close>

record gateway_settings =
  gs_oauth_issuer_url :: string
  gs_oauth_audience :: string
  gs_oauth_jwks_url :: string
  gs_oauth_jwt_secret :: string
  gs_mcp_internal_url :: string
  gs_mcp_internal_api_key :: string
  gs_mcp_resource_url :: string
  gs_mcp_authorization_servers :: string
  gs_session_timeout_s :: int
  gs_max_sessions :: nat

definition default_gateway_settings :: gateway_settings where
  "default_gateway_settings =
     \<lparr>gs_oauth_issuer_url = [], gs_oauth_audience = ''mcp-web-gateway'', gs_oauth_jwks_url = [],
      gs_oauth_jwt_secret = [], gs_mcp_internal_url = ''http://mcp-server:8006'', gs_mcp_internal_api_key = [],
      gs_mcp_resource_url = ''http://localhost:8007'', gs_mcp_authorization_servers = [],
      gs_session_timeout_s = 300, gs_max_sessions = 50\<rparr>"

text \<open>
  \<open>jwt.decode\<close> with the keys of a key set or with the shared secret, its algorithms, audience and issuer.
\<close>

datatype jwt_key = KeySet "json" | SharedSecret string

record gateway =
  gw_settings :: gateway_settings
  gw_env :: env
  gw_random :: "nat \<Rightarrow> string"
  gw_jwt :: "string \<Rightarrow> jwt_key \<Rightarrow> string list \<Rightarrow> string option \<Rightarrow> string option \<Rightarrow> (exn + json)"
  gw_fetch :: "nat \<Rightarrow> string \<Rightarrow> exn + json"
  gw_open :: "nat \<Rightarrow> exn + string list"
  gw_post :: "nat \<Rightarrow> json \<Rightarrow> exn + string list"

record gateway_session =
  se_claims :: token_claims
  se_queue :: "json list"
  se_initialized :: bool

record audit_line =
  al_subject :: string
  al_client_id :: string
  al_tool_name :: json
  al_scope_granted :: string
  al_outcome :: string
  al_detail :: string

text \<open>
  The monotonic clock in seconds, the key cache, the sessions, the audit lines, what was posted to the
  internal server and counters for the calls to the parameters.
\<close>

record gateway_world =
  gv_clock :: rat
  gv_jwks :: "(string \<times> rat \<times> json) list"
  gv_sessions :: "(string \<times> gateway_session) list"
  gv_audit :: "audit_line list"
  gv_posted :: "json list"
  gv_fetches :: nat
  gv_opens :: nat
  gv_posts :: nat
  gv_drawn :: nat

type_synonym 'a gact = "(gateway_world, 'a) prog"

section \<open>Bearer tokens\<close>

definition JWKS_CACHE_TTL :: rat where "JWKS_CACHE_TTL = 3600"

text \<open>A refused or failed request for the keys is answered 503; an answer that is not JSON raises.\<close>

definition jwks_error :: "exn \<Rightarrow> exn" where
  "jwks_error e =
     (case e of
        HttpError n m \<Rightarrow> HttpError 503 ''Authorization server JWKS endpoint unavailable''
      | ConnectionClosed m \<Rightarrow> HttpError 503 ''Unable to reach authorization server JWKS endpoint''
      | Timeout \<Rightarrow> HttpError 503 ''Unable to reach authorization server JWKS endpoint''
      | _ \<Rightarrow> e)"

definition request_jwks :: "gateway \<Rightarrow> string \<Rightarrow> json gact" where
  "request_jwks gw url =
     mbind (mget gv_fetches) (\<lambda>n.
     mseq (mput (\<lambda>w. w\<lparr>gv_fetches := Suc n\<rparr>))
    (mbind (mtry (mlift (gw_fetch gw n url)) (\<lambda>e. mraise (jwks_error e))) (\<lambda>body.
     mbind (mlift (obj_get body ''keys'' (JArr []))) (\<lambda>keys.
     mseq (mput (\<lambda>w. w\<lparr>gv_jwks := dict_set url (gv_clock w, keys) (gv_jwks w)\<rparr>)) (mret keys)))))"

definition fetch_jwks :: "gateway \<Rightarrow> string \<Rightarrow> json gact" where
  "fetch_jwks gw url =
     mbind (mget (\<lambda>w. (gv_clock w, map_of (gv_jwks w) url))) (\<lambda>(now, cached).
     case cached of
       Some (fetched_at, keys) \<Rightarrow> if now - fetched_at < JWKS_CACHE_TTL then mret keys else request_jwks gw url
     | None \<Rightarrow> request_jwks gw url)"

definition rstrip_slash :: "string \<Rightarrow> string" where
  "rstrip_slash s = rev (dropWhile (\<lambda>c. c = CHR ''/'') (rev s))"

definition nonempty :: "string \<Rightarrow> string option" where
  "nonempty s = (if s = [] then None else Some s)"

text \<open>A \<open>JWTError\<close> of the library is an \<open>AuthError\<close>; whatever else it raises passes through.\<close>

definition unauthorized :: "exn \<Rightarrow> 'a gact" where
  "unauthorized e = mraise (case e of AuthError m \<Rightarrow> HttpError 401 ''Token validation failed'' | _ \<Rightarrow> e)"

text \<open>A key set wins over the shared secret; the issuer is checked with key sets only.\<close>

definition decode_jwt :: "gateway \<Rightarrow> string \<Rightarrow> json gact" where
  "decode_jwt gw token =
     (let st = gw_settings gw; audience = nonempty (gs_oauth_audience st);
          issuer = (if gs_oauth_issuer_url st = [] then None else Some (rstrip_slash (gs_oauth_issuer_url st)))
      in if gs_oauth_jwks_url st \<noteq> [] \<or> gs_oauth_issuer_url st \<noteq> []
         then mbind (fetch_jwks gw (if gs_oauth_jwks_url st \<noteq> [] then gs_oauth_jwks_url st
                       else rstrip_slash (gs_oauth_issuer_url st) @ ''/.well-known/jwks.json'')) (\<lambda>keys.
              case gw_jwt gw token (KeySet keys) [''RS256'', ''ES256'', ''RS384'', ''ES384''] audience issuer of
                Inl e \<Rightarrow> unauthorized e | Inr payload \<Rightarrow> mret payload)
         else if gs_oauth_jwt_secret st \<noteq> []
         then (case gw_jwt gw token (SharedSecret (gs_oauth_jwt_secret st)) [''HS256''] audience None of
                 Inl e \<Rightarrow> unauthorized e | Inr payload \<Rightarrow> mret payload)
         else mraise (HttpError 503 ''Gateway OAuth validator not configured (set OAUTH_JWKS_URL or OAUTH_JWT_SECRET)''))"

definition require_token :: "gateway \<Rightarrow> string \<Rightarrow> token_claims gact" where
  "require_token gw authorization =
     (if \<not> startswith ''Bearer '' authorization
      then mraise (HttpError 401 (''Missing or malformed Authorization header '' @ em_dash @ '' expected '' @ quoted ''Bearer <token>''))
      else mbind (decode_jwt gw (strip (drop 7 authorization))) (\<lambda>payload.
             mlift (claims_from_payload (gw_env gw) payload)))"

section \<open>Sessions\<close>

definition create_session :: "gateway \<Rightarrow> token_claims \<Rightarrow> string gact" where
  "create_session gw claims =
     mbind (mget gv_drawn) (\<lambda>n.
     mseq (mput (\<lambda>w. w\<lparr>gv_drawn := Suc n,
             gv_sessions := dict_set (gw_random gw n) \<lparr>se_claims = claims, se_queue = [], se_initialized = False\<rparr>
               (gv_sessions w)\<rparr>))
          (mret (gw_random gw n)))"

definition get_session :: "string \<Rightarrow> gateway_session option gact" where
  "get_session sid = mget (\<lambda>w. map_of (gv_sessions w) sid)"

definition remove_session :: "string \<Rightarrow> unit gact" where
  "remove_session sid = mput (\<lambda>w. w\<lparr>gv_sessions := dict_del sid (gv_sessions w)\<rparr>)"

text \<open>A change of a session that is open.\<close>

definition change_session :: "string \<Rightarrow> (gateway_session \<Rightarrow> gateway_session) \<Rightarrow> unit gact" where
  "change_session sid f =
     mput (\<lambda>w. w\<lparr>gv_sessions := map (\<lambda>(k, s). (k, if k = sid then f s else s)) (gv_sessions w)\<rparr>)"

definition put_message :: "string \<Rightarrow> json \<Rightarrow> unit gact" where
  "put_message sid msg = change_session sid (\<lambda>s. s\<lparr>se_queue := se_queue s @ [msg]\<rparr>)"

definition enqueue :: "string \<Rightarrow> json \<Rightarrow> bool gact" where
  "enqueue sid msg =
     mbind (get_session sid) (\<lambda>s. case s of None \<Rightarrow> mret False | Some _ \<Rightarrow> mseq (put_message sid msg) (mret True))"

definition open_sse :: "gateway \<Rightarrow> string \<Rightarrow> string gact" where
  "open_sse gw authorization =
     mbind (require_token gw authorization) (\<lambda>claims.
     mbind (mget (\<lambda>w. length (gv_sessions w))) (\<lambda>n.
     if gs_max_sessions (gw_settings gw) \<le> n
     then mraise (HttpError 503 (''Gateway at session capacity '' @ em_dash @ '' try again later''))
     else create_session gw claims))"

section \<open>The proxy\<close>

definition PROTOCOL_VERSION :: string where "PROTOCOL_VERSION = ''2024-11-05''"

text \<open>
  The reader of the event stream: the event type of the lines since the last data line, the session path,
  the identifiers waited for and the answers that came.  A line that is no JSON object is passed over.
\<close>

record sse_reader =
  sr_event :: "string option"
  sr_path :: "string option"
  sr_pending :: "int list"
  sr_done :: "(int \<times> (string \<times> json) list) list"

definition same_id :: "json \<Rightarrow> int \<Rightarrow> bool" where
  "same_id v n = (v = JInt n \<or> v = JNum (of_int n) \<or> v = JBool (n = 1) \<and> (n = 0 \<or> n = 1))"

definition take_answer :: "(string \<times> json) list \<Rightarrow> sse_reader \<Rightarrow> sse_reader" where
  "take_answer msg rd =
     (case find (same_id (dict_get ''id'' JNull msg)) (sr_pending rd) of
        Some n \<Rightarrow> if map_of (sr_done rd) n = None then rd\<lparr>sr_done := (n, msg) # sr_done rd\<rparr> else rd
      | None \<Rightarrow> rd)"

definition rstrip :: "string \<Rightarrow> string" where
  "rstrip s = rev (dropWhile is_space (rev s))"

definition read_line :: "string \<Rightarrow> sse_reader \<Rightarrow> sse_reader" where
  "read_line raw rd =
     (let line = rstrip raw in
      if startswith ''event:'' line then rd\<lparr>sr_event := Some (strip (drop 6 line))\<rparr>
      else if startswith ''data:'' line then
        (let data = strip (drop 5 line) in
         (if sr_path rd = None \<and> startswith ''/'' data then rd\<lparr>sr_path := Some data\<rparr>
          else if sr_event rd = Some ''message'' \<and> data \<noteq> [] then
            (case json_read data of Inr (JObj msg) \<Rightarrow> take_answer msg rd | _ \<Rightarrow> rd)
          else rd)\<lparr>sr_event := None\<rparr>)
      else rd)"

definition read_lines :: "string list \<Rightarrow> sse_reader \<Rightarrow> sse_reader" where
  "read_lines = fold read_line"

text \<open>
  A call over the stream returns the answer or an \<open>UpstreamError\<close>, a message and a code; failing to open
  the stream raises.  Each wait looks at what the reader has seen by then.
\<close>

type_synonym upstream = "(string \<times> json) + (string \<times> json) list"

definition no_answer :: upstream where
  "no_answer = Inl (''Timeout waiting for internal MCP server response'', JInt (- 32000))"

definition communication_error :: "gateway \<Rightarrow> exn \<Rightarrow> upstream" where
  "communication_error gw e = Inl (''Internal MCP communication error: '' @ e_exn_text (gw_env gw) e, JInt (- 32000))"

definition open_stream :: "gateway \<Rightarrow> sse_reader gact" where
  "open_stream gw =
     mbind (mget gv_opens) (\<lambda>n.
     mseq (mput (\<lambda>w. w\<lparr>gv_opens := Suc n\<rparr>))
          (mbind (mlift (gw_open gw n)) (\<lambda>lines.
             mret (read_lines lines \<lparr>sr_event = None, sr_path = None, sr_pending = [], sr_done = []\<rparr>))))"

definition post_message :: "gateway \<Rightarrow> json \<Rightarrow> sse_reader \<Rightarrow> sse_reader gact" where
  "post_message gw body rd =
     mbind (mget gv_posts) (\<lambda>n.
     mseq (mput (\<lambda>w. w\<lparr>gv_posts := Suc n, gv_posted := gv_posted w @ [body]\<rparr>))
          (mbind (mlift (gw_post gw n body)) (\<lambda>lines. mret (read_lines lines rd))))"

definition initialize_body :: json where
  "initialize_body =
     JObj [(''jsonrpc'', JStr ''2.0''), (''id'', JInt 1), (''method'', JStr ''initialize''),
           (''params'', JObj [(''protocolVersion'', JStr PROTOCOL_VERSION), (''capabilities'', JObj []),
              (''clientInfo'', JObj [(''name'', JStr ''mcp-web-gateway''), (''version'', JStr ''1.0'')])])]"

definition initialized_body :: json where
  "initialized_body =
     JObj [(''jsonrpc'', JStr ''2.0''), (''method'', JStr ''notifications/initialized''), (''params'', JObj [])]"

definition rpc_body :: "int \<Rightarrow> string \<Rightarrow> json \<Rightarrow> json" where
  "rpc_body msg_id call params =
     JObj [(''jsonrpc'', JStr ''2.0''), (''id'', JInt msg_id), (''method'', JStr call), (''params'', params)]"

definition read_response :: "gateway \<Rightarrow> (string \<times> json) list \<Rightarrow> upstream" where
  "read_response gw response =
     (case map_of response ''error'' of
        None \<Rightarrow> Inr response
      | Some (JObj err) \<Rightarrow>
          Inl (str_of (gw_env gw) (dict_get ''message'' (JStr ''upstream MCP error'') err), dict_get ''code'' (JInt (- 32000)) err)
      | Some _ \<Rightarrow> communication_error gw AttributeError)"

definition exchange_messages :: "gateway \<Rightarrow> string \<Rightarrow> json \<Rightarrow> int \<Rightarrow> sse_reader \<Rightarrow> upstream gact" where
  "exchange_messages gw call params msg_id rd =
     mbind (post_message gw initialize_body (rd\<lparr>sr_pending := [1]\<rparr>)) (\<lambda>rd.
     if map_of (sr_done rd) 1 = None then mret no_answer else
     mbind (post_message gw initialized_body rd) (\<lambda>rd.
     mbind (post_message gw (rpc_body msg_id call params) (rd\<lparr>sr_pending := [1, msg_id]\<rparr>)) (\<lambda>rd.
     mret (case map_of (sr_done rd) msg_id of None \<Rightarrow> no_answer | Some response \<Rightarrow> read_response gw response))))"

definition one_shot_rpc :: "gateway \<Rightarrow> string \<Rightarrow> json \<Rightarrow> int \<Rightarrow> upstream gact" where
  "one_shot_rpc gw call params msg_id =
     mbind (open_stream gw) (\<lambda>rd.
     if sr_path rd = None then mret no_answer
     else mtry (exchange_messages gw call params msg_id rd) (\<lambda>e. mret (communication_error gw e)))"

definition call_tool :: "gateway \<Rightarrow> json \<Rightarrow> json \<Rightarrow> upstream gact" where
  "call_tool gw name arguments =
     one_shot_rpc gw ''tools/call'' (JObj [(''name'', name), (''arguments'', arguments)]) 2"

text \<open>The tools of the internal server that are allowed; an entry that is no object raises.\<close>

definition hashable :: "json \<Rightarrow> bool" where
  "hashable v = (case v of JArr _ \<Rightarrow> False | JObj _ \<Rightarrow> False | _ \<Rightarrow> True)"

definition tool_allowed :: "json \<Rightarrow> exn + bool" where
  "tool_allowed t =
     ebind (obj_get t ''name'' JNull) (\<lambda>name.
     if \<not> hashable name then Inl TypeError
     else Inr (case name of JStr s \<Rightarrow> s \<in> set ALLOWED_TOOLS | _ \<Rightarrow> False))"

fun filter_tools :: "json list \<Rightarrow> exn + json list" where
  "filter_tools [] = Inr []"
| "filter_tools (t # ts) =
     ebind (tool_allowed t) (\<lambda>keep. ebind (filter_tools ts) (\<lambda>rest. Inr (if keep then t # rest else rest)))"

definition tools_of :: "(string \<times> json) list \<Rightarrow> exn + json list" where
  "tools_of response =
     ebind (obj_get (dict_get ''result'' (JObj []) response) ''tools'' (JArr [])) (\<lambda>tools.
     case tools of
       JArr ts \<Rightarrow> filter_tools ts
     | JObj d \<Rightarrow> if d = [] then Inr [] else Inl AttributeError
     | JStr s \<Rightarrow> if s = [] then Inr [] else Inl AttributeError
     | _ \<Rightarrow> Inl TypeError)"

definition get_filtered_tools :: "gateway \<Rightarrow> ((string \<times> json) + json list) gact" where
  "get_filtered_tools gw =
     mbind (one_shot_rpc gw ''tools/list'' (JObj []) 2) (\<lambda>answer.
     case answer of Inl e \<Rightarrow> mret (Inl e) | Inr response \<Rightarrow> mbind (mlift (tools_of response)) (\<lambda>ts. mret (Inr ts)))"

section \<open>The message endpoint\<close>

definition error_response :: "json \<Rightarrow> json \<Rightarrow> string \<Rightarrow> json" where
  "error_response msg_id code message =
     JObj [(''jsonrpc'', JStr ''2.0''), (''id'', msg_id),
           (''error'', JObj [(''code'', code), (''message'', JStr message)])]"

definition result_response :: "json \<Rightarrow> json \<Rightarrow> json" where
  "result_response msg_id v = JObj [(''jsonrpc'', JStr ''2.0''), (''id'', msg_id), (''result'', v)]"

definition initialize_answer :: json where
  "initialize_answer =
     JObj [(''protocolVersion'', JStr ''2024-11-05''), (''capabilities'', JObj [(''tools'', JObj [])]),
           (''serverInfo'', JObj [(''name'', JStr ''mcp-web-gateway''), (''version'', JStr ''1.0.0'')])]"

definition handle_tools_list :: "gateway \<Rightarrow> string \<Rightarrow> json \<Rightarrow> unit gact" where
  "handle_tools_list gw sid msg_id =
     mbind (get_filtered_tools gw) (\<lambda>answer.
     case answer of
       Inl (message, code) \<Rightarrow> put_message sid (error_response msg_id (JInt (- 32000)) message)
     | Inr ts \<Rightarrow> put_message sid (result_response msg_id (JObj [(''tools'', JArr ts)])))"

definition OUTCOME_ALLOWED :: string where "OUTCOME_ALLOWED = ''allowed''"

definition OUTCOME_DENIED :: string where "OUTCOME_DENIED = ''denied''"

definition OUTCOME_UPSTREAM_ERROR :: string where "OUTCOME_UPSTREAM_ERROR = ''upstream_error''"

definition OUTCOME_ERROR :: string where "OUTCOME_ERROR = ''error''"

definition log_tool_call :: "audit_line \<Rightarrow> unit gact" where
  "log_tool_call line = mput (\<lambda>w. w\<lparr>gv_audit := gv_audit w @ [line]\<rparr>)"

text \<open>The body of \<open>audit_context\<close> says its outcome and detail; an exception is logged as an error and raised.\<close>

definition audit_context ::
  "token_claims \<Rightarrow> json \<Rightarrow> string \<Rightarrow> (string \<times> string) gact \<Rightarrow> unit gact" where
  "audit_context claims tool scope body =
     (let line = (\<lambda>(outcome, detail). \<lparr>al_subject = tc_sub claims, al_client_id = tc_client_id claims,
            al_tool_name = tool, al_scope_granted = scope, al_outcome = outcome, al_detail = detail\<rparr>)
      in mbind (mtry (mbind body (\<lambda>r. mret (Inr r))) (\<lambda>e. mret (Inl e))) (\<lambda>res.
         case res of
           Inr r \<Rightarrow> log_tool_call (line r)
         | Inl e \<Rightarrow> mseq (log_tool_call (line (OUTCOME_ERROR, []))) (mraise e)))"

definition check_tool_name :: "env \<Rightarrow> json \<Rightarrow> string list \<Rightarrow> string + unit" where
  "check_tool_name env tool scopes =
     (case tool of
        JStr s \<Rightarrow> check_tool_call s scopes
      | _ \<Rightarrow> Inl (''tool '' @ quoted (str_of env tool) @ '' is not available through this gateway''))"

definition proxied_call :: "gateway \<Rightarrow> string \<Rightarrow> token_claims \<Rightarrow> json \<Rightarrow> json \<Rightarrow> json \<Rightarrow> (string \<times> string) gact" where
  "proxied_call gw sid claims tool arguments msg_id =
     (case check_tool_name (gw_env gw) tool (tc_granted claims) of
        Inl reason \<Rightarrow>
          mseq (put_message sid (error_response msg_id (JInt (- 32603)) (''Policy denied: '' @ reason)))
               (mret (OUTCOME_DENIED, reason))
      | Inr _ \<Rightarrow>
          mbind (call_tool gw tool arguments) (\<lambda>answer.
          case answer of
            Inr response \<Rightarrow>
              mseq (put_message sid (result_response msg_id (dict_get ''result'' (JObj []) response)))
                   (mret (OUTCOME_ALLOWED, []))
          | Inl (message, code) \<Rightarrow>
              mseq (put_message sid (error_response msg_id code message))
                   (mret (OUTCOME_UPSTREAM_ERROR, message))))"

definition handle_tools_call ::
  "gateway \<Rightarrow> string \<Rightarrow> token_claims \<Rightarrow> (string \<times> json) list \<Rightarrow> json \<Rightarrow> unit gact" where
  "handle_tools_call gw sid claims body msg_id =
     (let params = dict_get ''params'' (JObj []) body in
      mbind (mlift (obj_get params ''name'' (JStr []))) (\<lambda>tool.
      mbind (mlift (obj_get params ''arguments'' (JObj []))) (\<lambda>arguments.
      if \<not> hashable tool then mraise TypeError
      else audit_context claims tool
             (case tool of JStr s \<Rightarrow> (case map_of TOOL_SCOPE_MAP s of Some scope \<Rightarrow> scope | None \<Rightarrow> []) | _ \<Rightarrow> [])
             (proxied_call gw sid claims tool arguments msg_id))))"

definition dispatch_message :: "gateway \<Rightarrow> string \<Rightarrow> gateway_session \<Rightarrow> (string \<times> json) list \<Rightarrow> unit gact" where
  "dispatch_message gw sid opened body =
     (let call = dict_get ''method'' (JStr []) body; msg_id = dict_get ''id'' JNull body in
      if call = JStr ''initialize'' then put_message sid (result_response msg_id initialize_answer)
      else if call = JStr ''notifications/initialized'' then change_session sid (\<lambda>s. s\<lparr>se_initialized := True\<rparr>)
      else if call = JStr ''tools/list'' then handle_tools_list gw sid msg_id
      else if call = JStr ''tools/call'' then handle_tools_call gw sid (se_claims opened) body msg_id
      else case call of
             JStr s \<Rightarrow>
               if startswith ''notifications/'' s then mret ()
               else if s = ''ping'' then put_message sid (result_response msg_id (JObj []))
               else put_message sid (error_response msg_id (JInt (- 32601)) (''Method not found: '' @ s))
           | _ \<Rightarrow> mraise AttributeError)"

definition messages_endpoint :: "gateway \<Rightarrow> string \<Rightarrow> rtext \<Rightarrow> unit gact" where
  "messages_endpoint gw sid text =
     mbind (get_session sid) (\<lambda>found.
     case found of
       None \<Rightarrow> mraise (HttpError 404 ''Session not found or expired'')
     | Some opened \<Rightarrow>
         (case json_loads text of
            Inl _ \<Rightarrow> mraise (HttpError 400 ''Invalid JSON body'')
          | Inr (JObj body) \<Rightarrow> dispatch_message gw sid opened body
          | Inr _ \<Rightarrow> mraise AttributeError))"

section \<open>The event stream\<close>

definition sse_frame :: "string \<Rightarrow> string \<Rightarrow> string" where
  "sse_frame name data = ''event: '' @ name @ [CHR 0x0A] @ ''data: '' @ data @ [CHR 0x0A, CHR 0x0A]"

text \<open>The next message of the queue, or, when none has come for fifteen seconds, a comment.\<close>

definition next_frame :: "gateway \<Rightarrow> string \<Rightarrow> string gact" where
  "next_frame gw sid =
     mbind (get_session sid) (\<lambda>s.
     case (case s of None \<Rightarrow> [] | Some s \<Rightarrow> se_queue s) of
       m # ms \<Rightarrow> mseq (change_session sid (\<lambda>s. s\<lparr>se_queue := ms\<rparr>)) (mret (sse_frame ''message'' (json_text (e_show (gw_env gw)) m)))
     | [] \<Rightarrow> mret ('': keepalive'' @ [CHR 0x0A, CHR 0x0A]))"

text \<open>The rounds until the deadline; each takes the given time.\<close>

primrec frame_rounds :: "gateway \<Rightarrow> string \<Rightarrow> rat \<Rightarrow> rat list \<Rightarrow> string list gact" where
  "frame_rounds gw sid deadline [] = mret []"
| "frame_rounds gw sid deadline (dt # dts) =
     mbind (mget gv_clock) (\<lambda>now.
     if deadline \<le> now then mret []
     else mbind (next_frame gw sid) (\<lambda>f.
          mseq (mput (\<lambda>w. w\<lparr>gv_clock := gv_clock w + dt\<rparr>))
            (mbind (frame_rounds gw sid deadline dts) (\<lambda>fs. mret (f # fs)))))"

definition gateway_event_stream :: "gateway \<Rightarrow> string \<Rightarrow> rat list \<Rightarrow> string list gact" where
  "gateway_event_stream gw sid dts =
     mbind (mget gv_clock) (\<lambda>now.
     mbind (frame_rounds gw sid (now + of_int (gs_session_timeout_s (gw_settings gw))) dts) (\<lambda>fs.
     mseq (remove_session sid) (mret (sse_frame ''endpoint'' (''/messages?session_id='' @ sid) # fs))))"

end
