(* ===== verification/GatewayProperties.thy ===== *)
theory GatewayProperties
  imports Gateway Demo
begin

text \<open>
  What the gateway promises: only permitted tools reach the internal server and every attempt leaves one
  audit line, and whatever is queued for a client is a JSON-RPC response to the message it answers.
\<close>

section \<open>What is posted\<close>

text \<open>A message to the internal server that the claims allow.\<close>

definition permitted :: "token_claims \<Rightarrow> json \<Rightarrow> bool" where
  "permitted claims body =
     (body = initialize_body \<or> body = initialized_body \<or> body = rpc_body 2 ''tools/list'' (JObj []) \<or>
      (\<exists>tool args scope. body = rpc_body 2 ''tools/call'' (JObj [(''name'', JStr tool), (''arguments'', args)]) \<and>
         tool \<in> set ALLOWED_TOOLS \<and> tool \<notin> set BLOCKED_TOOLS \<and> map_of TOOL_SCOPE_MAP tool = Some scope \<and>
         scope \<in> set (tc_granted claims)))"

definition posts :: "(json \<Rightarrow> bool) \<Rightarrow> gateway_world \<Rightarrow> gateway_world \<Rightarrow> bool" where
  "posts P w w' = (\<exists>ps. gv_posted w' = gv_posted w @ ps \<and> list_all P ps)"

interpretation posts: frame "posts P" for P
proof
  fix u v w
  show "posts P w w" by (simp add: posts_def)
  show "posts P u v \<Longrightarrow> posts P v w \<Longrightarrow> posts P u w" by (auto simp: posts_def)
qed

lemma posts_put: "(\<And>w. gv_posted (f w) = gv_posted w) \<Longrightarrow> moves (posts P) (mput f)"
  by (simp add: moves_def posts_def mput_def)

lemma posts_open: "moves (posts P) (open_stream gw)"
  unfolding open_stream_def by (intro posts.rules posts_put) simp

lemma posts_post: "P body \<Longrightarrow> moves (posts P) (post_message gw body rd)"
proof -
  assume "P body"
  then have "moves (posts P) (mput (\<lambda>w. w\<lparr>gv_posts := n, gv_posted := gv_posted w @ [body]\<rparr>))" for n
    by (simp add: moves_def posts_def mput_def)
  then show "moves (posts P) (post_message gw body rd)"
    unfolding post_message_def by (intro posts.rules)
qed

lemma posts_one_shot:
  assumes "P initialize_body" "P initialized_body" "P (rpc_body 2 call params)"
  shows "moves (posts P) (one_shot_rpc gw call params 2)"
proof -
  have "moves (posts P) (exchange_messages gw call params 2 rd)" for rd
    unfolding exchange_messages_def using assms by (auto intro!: posts.rules posts_post)
  then show ?thesis unfolding one_shot_rpc_def by (auto intro!: posts.rules posts_open)
qed

lemma posts_message: "moves (posts P) (put_message sid m)" "moves (posts P) (change_session sid f)"
    "moves (posts P) (log_tool_call l)"
  unfolding put_message_def change_session_def log_tool_call_def by (rule posts_put; simp)+

text \<open>Every allowed tool has a scope, so a tool that passes the policy has one that was granted.\<close>

lemma checked_tool:
  assumes "check_tool_call tool scopes = Inr u"
  shows "tool \<in> set ALLOWED_TOOLS \<and> tool \<notin> set BLOCKED_TOOLS \<and>
    (\<exists>scope. map_of TOOL_SCOPE_MAP tool = Some scope \<and> scope \<in> set scopes)"
proof -
  have "list_all (\<lambda>t. case map_of TOOL_SCOPE_MAP t of Some s \<Rightarrow> s \<noteq> [] | None \<Rightarrow> False) ALLOWED_TOOLS"
    by (simp add: TOOL_SCOPE_MAP_def ALLOWED_TOOLS_def)
  then show ?thesis
    using assms by (auto simp: check_tool_call_def list_all_iff split: if_splits option.splits)
qed

lemma posts_tools_list: "moves (posts (permitted claims)) (handle_tools_list gw sid i)"
  unfolding handle_tools_list_def get_filtered_tools_def
  by (auto intro!: posts.rules posts_one_shot posts_message split: sum.split simp: permitted_def)

lemma posts_proxied: "moves (posts (permitted claims)) (proxied_call gw sid claims tool args i)"
proof (cases "check_tool_name (gw_env gw) tool (tc_granted claims)")
  case (Inl e)
  then show ?thesis by (auto simp: proxied_call_def intro!: posts.rules posts_message)
next
  case (Inr u)
  then obtain s where s: "tool = JStr s" "check_tool_call s (tc_granted claims) = Inr u"
    by (cases tool) (simp_all add: check_tool_name_def)
  then have "permitted claims (rpc_body 2 ''tools/call'' (JObj [(''name'', tool), (''arguments'', args)]))"
    using checked_tool [OF s(2)] by (auto simp: permitted_def)
  then have "moves (posts (permitted claims)) (call_tool gw tool args)"
    unfolding call_tool_def by (intro posts_one_shot) (simp_all add: permitted_def)
  then show ?thesis
    using Inr by (auto simp: proxied_call_def intro!: posts.rules posts_message split: sum.split)
qed

lemma posts_audit: "moves (posts P) body \<Longrightarrow> moves (posts P) (audit_context claims tool scope body)"
  unfolding audit_context_def by (auto intro!: posts.rules posts_message split: sum.split)

lemma moves_if: "(b \<Longrightarrow> moves R m) \<Longrightarrow> (\<not> b \<Longrightarrow> moves R k) \<Longrightarrow> moves R (if b then m else k)"
  by simp

lemma posts_tools_call: "moves (posts (permitted claims)) (handle_tools_call gw sid claims body i)"
  unfolding handle_tools_call_def Let_def by (intro posts.rules moves_if posts_audit posts_proxied)

lemma posts_dispatch: "moves (posts (permitted (se_claims se))) (dispatch_message gw sid se body)"
proof -
  have "moves (posts (permitted (se_claims se))) (case call of
             JStr s \<Rightarrow>
               if startswith ''notifications/'' s then mret ()
               else if s = ''ping'' then put_message sid (result_response i (JObj []))
               else put_message sid (error_response i (JInt (- 32601)) (''Method not found: '' @ s))
           | _ \<Rightarrow> mraise AttributeError)" for call i
    by (cases call) (auto intro: posts.rules posts_message)
  then show ?thesis
    unfolding dispatch_message_def Let_def by (intro moves_if posts_message posts_tools_list posts_tools_call)
qed

text \<open>What a \<open>tools/call\<close> writes to the audit log.\<close>

definition audits :: "nat \<Rightarrow> gateway_world \<Rightarrow> gateway_world \<Rightarrow> bool" where
  "audits n w w' = (\<exists>ls. gv_audit w' = gv_audit w @ ls \<and> length ls = n)"

definition unaudited :: "gateway_world \<Rightarrow> gateway_world \<Rightarrow> bool" where
  "unaudited w w' = (gv_audit w' = gv_audit w)"

interpretation unaudited: frame unaudited
  by unfold_locales (auto simp: unaudited_def)

lemma unaudited_put: "(\<And>w. gv_audit (f w) = gv_audit w) \<Longrightarrow> moves unaudited (mput f)"
  by (simp add: moves_def unaudited_def mput_def)

lemma unaudited_steps:
  "moves unaudited (open_stream gw)" "moves unaudited (post_message gw body rd)"
  "moves unaudited (put_message sid m)" "moves unaudited (change_session sid f)"
  unfolding open_stream_def post_message_def put_message_def change_session_def
  by (intro unaudited.rules unaudited_put; simp)+

lemma unaudited_one_shot: "moves unaudited (one_shot_rpc gw call params i)"
  unfolding one_shot_rpc_def exchange_messages_def
  by (intro unaudited.rules unaudited_steps moves_if)

lemma unaudited_proxied: "moves unaudited (proxied_call gw sid claims tool args i)"
  unfolding proxied_call_def call_tool_def
  by (auto intro!: unaudited.rules unaudited_steps unaudited_one_shot split: sum.split)

lemma audited_once:
  assumes "moves unaudited body"
  shows "audits 1 w (snd (audit_context claims tool scope body w))"
proof -
  obtain r v where body: "body w = (r, v)" by fastforce
  then have "gv_audit v = gv_audit w" using movesD [OF assms body] by (simp add: unaudited_def)
  then show ?thesis
    using body
    by (cases r) (auto simp: audits_def audit_context_def mbind_def mtry_def mseq_def mret_def mraise_def
        log_tool_call_def mput_def Let_def)
qed

lemma unaudited_tools_list: "moves unaudited (handle_tools_list gw sid i)"
  unfolding handle_tools_list_def get_filtered_tools_def
  by (auto intro!: unaudited.rules unaudited_steps unaudited_one_shot split: sum.split)


section \<open>Answers\<close>

text \<open>The sessions stay as they are.\<close>

definition same_sessions :: "gateway_world \<Rightarrow> gateway_world \<Rightarrow> bool" where
  "same_sessions w w' = (gv_sessions w' = gv_sessions w)"

interpretation same_sessions: frame same_sessions
  by unfold_locales (auto simp: same_sessions_def)

lemma same_sessions_put: "(\<And>w. gv_sessions (f w) = gv_sessions w) \<Longrightarrow> moves same_sessions (mput f)"
  by (simp add: moves_def same_sessions_def mput_def)

lemma same_sessions_steps: "moves same_sessions (open_stream gw)" "moves same_sessions (post_message gw body rd)"
  unfolding open_stream_def post_message_def by (intro same_sessions.rules same_sessions_put; simp)+

lemma same_sessions_one_shot: "moves same_sessions (one_shot_rpc gw call params i)"
  unfolding one_shot_rpc_def exchange_messages_def
  by (intro same_sessions.rules same_sessions_steps moves_if)

text \<open>A JSON-RPC response to the message with the identifier \<open>i\<close>: it has a result or an error.\<close>

definition is_response :: "json \<Rightarrow> json \<Rightarrow> bool" where
  "is_response i msg =
     (\<exists>k v. k \<in> {''result'', ''error''} \<and> msg = JObj [(''jsonrpc'', JStr ''2.0''), (''id'', i), (k, v)])"

lemma is_response_simps [simp]: "is_response i (result_response i v)" "is_response i (error_response i c m)"
  by (simp_all add: is_response_def result_response_def error_response_def)

text \<open>
  A step answers \<open>i\<close>: when it returns the session has one more message, a response to \<open>i\<close>; when it raises it
  has none.
\<close>

definition answered :: "string \<Rightarrow> json \<Rightarrow> gateway_session \<Rightarrow> (exn + 'a) \<Rightarrow> gateway_world \<Rightarrow> bool" where
  "answered sid i se r w' =
     (\<exists>ms. map_of (gv_sessions w') sid = Some (se\<lparr>se_queue := se_queue se @ ms\<rparr>) \<and> list_all (is_response i) ms \<and>
        length ms = (case r of Inl e \<Rightarrow> 0 | Inr x \<Rightarrow> 1))"

definition answering :: "string \<Rightarrow> json \<Rightarrow> 'a gact \<Rightarrow> bool" where
  "answering sid i m =
     (\<forall>w se r w'. map_of (gv_sessions w) sid = Some se \<longrightarrow> m w = (r, w') \<longrightarrow> answered sid i se r w')"

lemma answeringD: "answering sid i m \<Longrightarrow> map_of (gv_sessions w) sid = Some se \<Longrightarrow> m w = (r, w') \<Longrightarrow> answered sid i se r w'"
  by (simp add: answering_def)

lemma answering_bind:
  assumes "moves same_sessions m" "\<And>x. answering sid i (f x)"
  shows "answering sid i (mbind m f)"
  unfolding answering_def
proof (intro allI impI)
  fix w se r w'
  assume open_session: "map_of (gv_sessions w) sid = Some se" and run: "mbind m f w = (r, w')"
  obtain x v where m: "m w = (x, v)" by fastforce
  then have v: "map_of (gv_sessions v) sid = Some se"
    using movesD [OF assms(1) m] open_session by (simp add: same_sessions_def)
  show "answered sid i se r w'"
  proof (cases x)
    case (Inl e)
    then have "answered sid i se (Inl e :: exn + 'b) v" using v by (auto simp: answered_def)
    then show ?thesis using m run Inl by (auto simp: mbind_def)
  next
    case (Inr y)
    then show ?thesis using answeringD [OF assms(2) v] m run by (auto simp: mbind_def)
  qed
qed

lemma map_of_change:
  "map_of (map (\<lambda>(k, s). (k, if k = sid then f s else s)) d) sid = map_option f (map_of d sid)"
  by (induction d) auto

lemma answering_put: "is_response i msg \<Longrightarrow> answering sid i (mseq (put_message sid msg) (mret x))"
    "is_response i msg \<Longrightarrow> answering sid i (put_message sid msg)"
  by (auto simp: answering_def answered_def mseq_def mbind_def mret_def put_message_def change_session_def mput_def
      map_of_change intro!: exI [of _ "[msg]"])

lemma answering_raise: "answering sid i (mraise e)"
  by (auto simp: answering_def answered_def mraise_def)

lemma answering_proxied: "answering sid i (proxied_call gw sid claims tool args i)"
  unfolding proxied_call_def call_tool_def
  by (auto split: sum.split intro!: answering_bind answering_put same_sessions_one_shot)

lemma answering_audit:
  assumes "answering sid i body"
  shows "answering sid i (audit_context claims tool scope body)"
  unfolding answering_def
proof (intro allI impI)
  fix w se r w'
  assume open_session: "map_of (gv_sessions w) sid = Some se" and run: "audit_context claims tool scope body w = (r, w')"
  obtain x v where m: "body w = (x, v)" by fastforce
  show "answered sid i se r w'"
    using answeringD [OF assms open_session m] m run
    by (cases x) (auto simp: answered_def audit_context_def mbind_def mtry_def mseq_def mret_def mraise_def
        log_tool_call_def mput_def Let_def)
qed

lemma answering_if: "(b \<Longrightarrow> answering sid i m) \<Longrightarrow> (\<not> b \<Longrightarrow> answering sid i k) \<Longrightarrow> answering sid i (if b then m else k)"
  by simp

lemma answering_tools_call: "answering sid i (handle_tools_call gw sid claims body i)"
  unfolding handle_tools_call_def Let_def
  by (intro answering_bind answering_if answering_raise answering_audit answering_proxied same_sessions.lift)

lemma answering_tools_list: "answering sid i (handle_tools_list gw sid i)"
  unfolding handle_tools_list_def get_filtered_tools_def
  by (auto intro!: answering_bind answering_put same_sessions.rules same_sessions_one_shot split: sum.split)

text \<open>
  C25: A message that asks for an answer gets exactly one when the endpoint accepts it, a JSON-RPC response
  with the identifier of the message and a result or an error; a notification gets none, and neither does
  a message the endpoint raises on.  The session keeps the claims it was opened with.
\<close>

theorem every_request_is_answered_once:
  assumes "map_of (gv_sessions w) sid = Some se" "json_loads text = Inr (JObj body)"
    and "messages_endpoint gw sid text w = (r, w')"
  shows "case dict_get ''method'' (JStr []) body of
     JStr s \<Rightarrow>
       if startswith ''notifications/'' s
       then \<exists>b. map_of (gv_sessions w') sid = Some (se\<lparr>se_initialized := b\<rparr>)
       else answered sid (dict_get ''id'' JNull body) se r w'
   | _ \<Rightarrow> answered sid (dict_get ''id'' JNull body) se r w'"
proof -
  let ?i = "dict_get ''id'' JNull body"
  have run: "dispatch_message gw sid se body w = (r, w')"
    using assms by (simp add: messages_endpoint_def get_session_def mbind_def mget_def)
  show ?thesis
  proof (cases "dict_get ''method'' (JStr []) body")
    case (JStr s)
    show ?thesis
    proof (cases "startswith ''notifications/'' s")
      case True
      then have "s \<notin> {''initialize'', ''tools/list'', ''tools/call''}" by (auto simp: startswith_def)
      then have "\<exists>b. map_of (gv_sessions w') sid = Some (se\<lparr>se_initialized := b\<rparr>)"
        using run JStr True assms(1)
        by (auto simp: dispatch_message_def Let_def change_session_def mput_def mret_def map_of_change split: if_splits
            intro: exI [of _ "se_initialized se"])
      then show ?thesis using JStr True by simp
    next
      case False
      have "answering sid ?i (dispatch_message gw sid se body)"
        unfolding dispatch_message_def Let_def JStr json.case json.inject
        using False by (intro answering_if answering_put answering_tools_list answering_tools_call)
          (simp_all add: startswith_def)
      then show ?thesis using answeringD [where m = "dispatch_message gw sid se body", OF _ assms(1) run] JStr False by simp
    qed
  qed (use run assms(1) in \<open>simp_all add: dispatch_message_def Let_def mraise_def answered_def,
      auto intro!: exI [of _ "[]"]\<close>)
qed

section \<open>A concrete gateway\<close>

text \<open>An internal server that answers the handshake and each call, on the stream it opens.\<close>

definition demo_gateway :: gateway where
  "demo_gateway =
     \<lparr>gw_settings = default_gateway_settings\<lparr>gs_oauth_jwt_secret := ''dev''\<rparr>, gw_env = demo_env,
      gw_random = (\<lambda>n. ''s'' @ show_int (int n)),
      gw_jwt = (\<lambda>token key algs aud iss. if token = ''good''
        then Inr (JObj [(''sub'', JStr ''alice''), (''azp'', JStr ''claude''), (''scope'', JStr ''mcp:tools:read mcp:strategy:read'')])
        else Inl (AuthError ''signature'')),
      gw_fetch = (\<lambda>n url. Inl Timeout),
      gw_open = (\<lambda>n. Inr [''event: endpoint'', ''data: /messages?session_id=1'', []]),
      gw_post = (\<lambda>n body. Inr (case body of
         JObj d \<Rightarrow> (case dict_get ''id'' JNull d of
             JInt i \<Rightarrow> [''event: message'', ''data: {'' @ json_str ''id'' @ '':'' @ show_int i @ '','' @ json_str ''result'' @ '':{}}'']
           | _ \<Rightarrow> [])
       | _ \<Rightarrow> []))\<rparr>"

definition demo_claims :: token_claims where
  "demo_claims =
     \<lparr>tc_sub = ''alice'', tc_client_id = ''claude'', tc_scope = JStr ''mcp:tools:read mcp:strategy:read'',
      tc_granted = [''mcp:tools:read'', ''mcp:strategy:read'']\<rparr>"

definition demo_session :: gateway_session where
  "demo_session = \<lparr>se_claims = demo_claims, se_queue = [], se_initialized = False\<rparr>"

definition demo_open :: gateway_world where
  "demo_open =
     \<lparr>gv_clock = 0, gv_jwks = [], gv_sessions = [(''s0'', demo_session)], gv_audit = [], gv_posted = [],
      gv_fetches = 0, gv_opens = 0, gv_posts = 0, gv_drawn = 1\<rparr>"

definition demo_call :: "string \<Rightarrow> (string \<times> json) list" where
  "demo_call tool =
     [(''jsonrpc'', JStr ''2.0''), (''id'', JInt 7), (''method'', JStr ''tools/call''),
      (''params'', JObj [(''name'', JStr tool), (''arguments'', JObj [])])]"

lemma demo_claims_read: "fst (require_token demo_gateway ''Bearer good'' demo_open) = Inr demo_claims"
  by code_simp

lemma demo_runs:
  "map_prod id (\<lambda>w. (length (gv_posted w), map al_outcome (gv_audit w)))
     (messages_endpoint demo_gateway ''s0'' (Json (JObj (demo_call ''list_strategies''))) demo_open) =
     (Inr (), 3, [''allowed''])"
  "map_prod id (\<lambda>w. (length (gv_posted w), map al_outcome (gv_audit w)))
     (messages_endpoint demo_gateway ''s0'' (Json (JObj (demo_call ''request_paper_trade''))) demo_open) =
     (Inr (), 0, [''denied''])"
  by code_simp+


lemma every_request_is_answered_once_witness:
  "answered ''s0'' (JInt 7) demo_session
     (fst (messages_endpoint demo_gateway ''s0'' (Json (JObj (demo_call ''list_strategies''))) demo_open))
     (snd (messages_endpoint demo_gateway ''s0'' (Json (JObj (demo_call ''list_strategies''))) demo_open))"
proof -
  obtain r w' where run: "messages_endpoint demo_gateway ''s0'' (Json (JObj (demo_call ''list_strategies''))) demo_open = (r, w')"
    by fastforce
  have "answered ''s0'' (JInt 7) demo_session r w'"
    using every_request_is_answered_once [OF _ _ run, of demo_session "demo_call ''list_strategies''"]
    by (simp add: demo_open_def demo_call_def dict_get_def startswith_def)
  then show ?thesis using run by simp
qed

text \<open>
  The stream that cannot be opened: the error leaves the proxy as it is and not as an \<open>UpstreamError\<close>, so the
  endpoint raises, the audit line says \<open>error\<close> and the client is never answered.
\<close>

definition demo_down :: gateway where
  "demo_down = demo_gateway\<lparr>gw_open := (\<lambda>n. Inl Timeout)\<rparr>"

lemma unreachable_server_leaves_client_waiting:
  "map_prod id (\<lambda>w. (map al_outcome (gv_audit w), map_option se_queue (map_of (gv_sessions w) ''s0'')))
     (messages_endpoint demo_down ''s0'' (Json (JObj (demo_call ''list_strategies''))) demo_open) =
     (Inl Timeout, [''error''], Some [])"
  by code_simp

text \<open>\<open>tools/call\<close> with \<open>params: null\<close> raises before the audit line is opened.\<close>

lemma null_params_are_not_audited:
  "map_prod id gv_audit
     (messages_endpoint demo_gateway ''s0''
       (Json (JObj [(''id'', JInt 7), (''method'', JStr ''tools/call''), (''params'', JNull)])) demo_open) =
     (Inl AttributeError, [])"
  by code_simp

end
