(* ===== verification/Policies.thy ===== *)
theory Policies
  imports Schemas
begin

text \<open>
  Approval levels and symbol policies (\<open>shared/policies\<close>): the order of the levels, the level a
  strategy state needs, and the shell patterns (\<open>fnmatch\<close>) of the symbol allow and deny lists.
\<close>

section \<open>Approval levels\<close>

definition level_rank :: "approval_level \<Rightarrow> nat" where
  "level_rank l = length (takeWhile (\<lambda>x. x \<noteq> l) approval_levels)"

definition check_approval_level :: "approval_level \<Rightarrow> approval_level \<Rightarrow> bool" where
  "check_approval_level user_level required_level = (level_rank required_level \<le> level_rank user_level)"

definition can_execute_live :: "approval_level \<Rightarrow> bool" where
  "can_execute_live user_level = check_approval_level user_level L3_ASSISTED_LIVE"

definition state_requirements :: "(strategy_state \<times> approval_level) list" where
  "state_requirements =
     [(SIMULATION, L1_SIMULATION), (PAPER_ACTIVE, L2_PAPER), (ASSISTED_LIVE, L3_ASSISTED_LIVE),
      (BOUNDED_AUTO_LIVE, L4_BOUNDED_AUTO)]"

definition can_activate_strategy :: "approval_level \<Rightarrow> strategy_state \<Rightarrow> bool" where
  "can_activate_strategy user_level target_state =
     check_approval_level user_level
       (case map_of state_requirements target_state of None \<Rightarrow> L4_BOUNDED_AUTO | Some r \<Rightarrow> r)"

lemma level_rank_simps [simp]:
  "level_rank L0_READONLY = 0" "level_rank L1_SIMULATION = 1" "level_rank L2_PAPER = 2"
  "level_rank L3_ASSISTED_LIVE = 3" "level_rank L4_BOUNDED_AUTO = 4"
  by (simp_all add: level_rank_def approval_levels_def)

lemma level_rank_inj [simp]: "(level_rank a = level_rank b) = (a = b)"
  by (cases a; cases b; simp)

text \<open>The rank makes the levels a linear order, in which the check is comparison.\<close>

instantiation approval_level :: linorder
begin

definition less_eq_approval_level :: "approval_level \<Rightarrow> approval_level \<Rightarrow> bool" where
  "less_eq_approval_level a b = (level_rank a \<le> level_rank b)"

definition less_approval_level :: "approval_level \<Rightarrow> approval_level \<Rightarrow> bool" where
  "less_approval_level a b = (level_rank a < level_rank b)"

instance
  by standard (auto simp: less_eq_approval_level_def less_approval_level_def)

end

lemma check_approval_level_le: "check_approval_level u r = (r \<le> u)"
  by (simp add: check_approval_level_def less_eq_approval_level_def)

lemma can_activate_mono: "can_activate_strategy u s \<Longrightarrow> u \<le> v \<Longrightarrow> can_activate_strategy v s"
  unfolding can_activate_strategy_def check_approval_level_le by (rule order.trans)

section \<open>Shell patterns\<close>

text \<open>
  A pattern is a list of items: \<open>*\<close>, \<open>?\<close>, a character, or a set of character ranges, possibly
  negated.  A \<open>[\<close> without a closing bracket stands for itself.
\<close>

datatype pat_item = PStar | PAny | PChar char | PSet bool "(char \<times> char) list"

fun set_ranges :: "string \<Rightarrow> (char \<times> char) list" where
  "set_ranges (a # b # c # s) =
     (if b = CHR ''-'' then (a, c) # set_ranges s else (a, a) # set_ranges (b # c # s))"
| "set_ranges (a # s) = (a, a) # set_ranges s"
| "set_ranges [] = []"

text \<open>The body of a bracket and what follows its closing bracket, which may not come first.\<close>

definition bracket :: "string \<Rightarrow> (string \<times> string) option" where
  "bracket s =
     (let neg = (case s of c # _ \<Rightarrow> c = CHR ''!'' | [] \<Rightarrow> False);
          s1 = (if neg then tl s else s);
          close = (case s1 of c # _ \<Rightarrow> c = CHR '']'' | [] \<Rightarrow> False);
          n = (if neg then 1 else 0) + (if close then 1 else 0);
          r = drop n s
      in case dropWhile (\<lambda>c. c \<noteq> CHR '']'') r of [] \<Rightarrow> None
         | _ # rest \<Rightarrow> Some (take n s @ takeWhile (\<lambda>c. c \<noteq> CHR '']'') r, rest))"

lemma bracket_shorter:
  assumes "bracket s = Some (b, rest)"
  shows "length rest < Suc (length s)"
proof -
  obtain n x where "dropWhile (\<lambda>c. c \<noteq> CHR '']'') (drop n s) = x # rest"
    using assms unfolding bracket_def Let_def by (split list.split_asm) auto
  then show ?thesis
    using length_dropWhile_le [of "\<lambda>c. c \<noteq> CHR '']''" "drop n s"] by simp
qed

function pat_items :: "string \<Rightarrow> pat_item list" where
  "pat_items [] = []"
| "pat_items (c # s) =
     (if c = CHR ''*'' then PStar # pat_items s
      else if c = CHR ''?'' then PAny # pat_items s
      else if c = CHR ''['' then
        (case bracket s of None \<Rightarrow> PChar c # pat_items s
         | Some (b, rest) \<Rightarrow>
             (case b of d # b' \<Rightarrow> if d = CHR ''!'' then PSet True (set_ranges b')
                                 else PSet False (set_ranges b)
              | [] \<Rightarrow> PSet False []) # pat_items rest)
      else PChar c # pat_items s)"
  by pat_completeness auto
termination
  by (relation "measure length") (auto dest: bracket_shorter)

definition item_matches :: "pat_item \<Rightarrow> char \<Rightarrow> bool" where
  "item_matches p c =
     (case p of PStar \<Rightarrow> True | PAny \<Rightarrow> True | PChar d \<Rightarrow> c = d
      | PSet neg rs \<Rightarrow> neg \<noteq> list_ex (\<lambda>(a, b). (of_char a :: nat) \<le> of_char c \<and> (of_char c :: nat) \<le> of_char b) rs)"

fun matches :: "pat_item list \<Rightarrow> string \<Rightarrow> bool" where
  "matches [] s = (s = [])"
| "matches (PStar # ps) [] = matches ps []"
| "matches (PStar # ps) (c # s) = (matches ps (c # s) \<or> matches (PStar # ps) s)"
| "matches (p # ps) [] = False"
| "matches (p # ps) (c # s) = (item_matches p c \<and> matches ps s)"

definition fnmatch :: "string \<Rightarrow> string \<Rightarrow> bool" where
  "fnmatch name pat = matches (pat_items pat) name"

text \<open>A pattern without \<open>*\<close>, \<open>?\<close> or \<open>[\<close> matches exactly itself.\<close>

definition plain :: "string \<Rightarrow> bool" where
  "plain s = list_all (\<lambda>c. c \<noteq> CHR ''*'' \<and> c \<noteq> CHR ''?'' \<and> c \<noteq> CHR ''['') s"

lemma fnmatch_plain: "plain p \<Longrightarrow> fnmatch s p = (s = p)"
proof -
  have "plain p \<Longrightarrow> matches (pat_items p) s = (s = p)"
    by (induction p arbitrary: s) (case_tac s; simp add: plain_def item_matches_def)+
  then show "plain p \<Longrightarrow> fnmatch s p = (s = p)" by (simp add: fnmatch_def)
qed

lemma matches_star: "matches (PStar # ps) s = (\<exists>u v. s = u @ v \<and> matches ps v)"
proof (induction s)
  case (Cons c s)
  have "(\<exists>u v. c # s = u @ v \<and> matches ps v) =
        (matches ps (c # s) \<or> (\<exists>u v. s = u @ v \<and> matches ps v))"
    by (auto simp: Cons_eq_append_conv)
  then show ?case by (simp add: Cons.IH)
qed simp

section \<open>Symbol policies\<close>

record symbol_policy =
  sp_allowed :: "string list option"
  sp_denied :: "string list"

definition is_allowed :: "symbol_policy \<Rightarrow> string \<Rightarrow> bool" where
  "is_allowed p symbol =
     (if symbol \<in> set (sp_denied p) then False
      else if list_ex (fnmatch symbol) (sp_denied p) then False
      else case sp_allowed p of None \<Rightarrow> True
           | Some allowed \<Rightarrow> list_ex (\<lambda>pat. symbol = pat \<or> fnmatch symbol pat) allowed)"

definition check_symbol_allowed :: "string \<Rightarrow> string list option \<Rightarrow> string list \<Rightarrow> bool" where
  "check_symbol_allowed symbol allowed denied =
     is_allowed \<lparr>sp_allowed = allowed, sp_denied = denied\<rparr> symbol"

lemma denied_wins:
  "pat \<in> set (sp_denied p) \<Longrightarrow> symbol = pat \<or> fnmatch symbol pat \<Longrightarrow> \<not> is_allowed p symbol"
  by (auto simp: is_allowed_def list_ex_iff)

section \<open>What a policy admits\<close>

text \<open>The strings of a pattern, as a language: the reference for the matcher.\<close>

fun pattern_language :: "pat_item list \<Rightarrow> string set" where
  "pattern_language [] = {[]}"
| "pattern_language (PStar # ps) = {u @ v | u v. v \<in> pattern_language ps}"
| "pattern_language (p # ps) = {c # v | c v. item_matches p c \<and> v \<in> pattern_language ps}"

lemma matches_language: "matches ps s = (s \<in> pattern_language ps)"
proof (induction ps arbitrary: s)
  case (Cons p ps)
  show ?case
  proof (cases "p = PStar")
    case True
    then show ?thesis by (simp add: matches_star Cons.IH)
  next
    case False
    then show ?thesis by (cases p; cases s) (auto simp: Cons.IH)
  qed
qed simp

text \<open>
  A symbol policy admits a symbol exactly when no deny pattern has it in its language and, if
  there is an allow list, some pattern of it names the symbol or has it in its language; denying
  wins.
\<close>

theorem symbol_policy_decides_languages:
  "check_symbol_allowed symbol allowed denied =
     ((\<forall>pat \<in> set denied. symbol \<noteq> pat \<and> symbol \<notin> pattern_language (pat_items pat)) \<and>
      (\<forall>pats. allowed = Some pats \<longrightarrow>
         (\<exists>pat \<in> set pats. symbol = pat \<or> symbol \<in> pattern_language (pat_items pat))))"
  by (auto simp: check_symbol_allowed_def is_allowed_def fnmatch_def matches_language list_ex_iff
      split: option.split)

theorem symbol_policy_decides_languages_witness:
  "check_symbol_allowed ''BTCUSDT'' (Some [''BTC*'']) [''ETH?SDT''] \<and> \<not> check_symbol_allowed ''ETHUSDT'' None [''ETH?SDT'']"
proof -
  have "''BTCUSDT'' \<in> pattern_language (pat_items ''BTC*'')" "''BTCUSDT'' \<notin> pattern_language (pat_items ''ETH?SDT'')"
    "''ETHUSDT'' \<in> pattern_language (pat_items ''ETH?SDT'')"
    unfolding matches_language [symmetric] by code_simp+
  then show ?thesis by (auto simp: symbol_policy_decides_languages)
qed

text \<open>
  Approval is monotone: a user who may activate a state may with every higher level, and each
  state that trades needs a level of its own, paper less than live.
\<close>

theorem approval_is_monotone:
  "can_activate_strategy u s \<Longrightarrow> u \<le> v \<Longrightarrow> can_activate_strategy v s \<and>
   (can_execute_live u \<longrightarrow> can_activate_strategy v PAPER_ACTIVE)"
  using can_activate_mono [of u s v]
  by (cases u; cases v)
    (auto simp: can_execute_live_def can_activate_strategy_def state_requirements_def check_approval_level_def
      less_eq_approval_level_def)

theorem approval_is_monotone_witness: "can_activate_strategy L4_BOUNDED_AUTO ASSISTED_LIVE"
  using approval_is_monotone [of L3_ASSISTED_LIVE ASSISTED_LIVE L4_BOUNDED_AUTO]
  by (simp add: can_activate_strategy_def state_requirements_def check_approval_level_def less_eq_approval_level_def)

end
