(* ===== verification/StrategyLifecycle.thy ===== *)
theory StrategyLifecycle
  imports Policies
begin

text \<open>
  The state machine of a strategy (\<open>services/strategy_service/lifecycle/transitions.py\<close>): the
  allowed transitions, the approval a target state needs, and the states that may evaluate a
  strategy and emit its intents.
\<close>

definition VALID_TRANSITIONS :: "(strategy_state \<times> strategy_state list) list" where
  "VALID_TRANSITIONS =
     [(DRAFT, [SIMULATION, ARCHIVED]),
      (SIMULATION, [PAPER_ACTIVE, DRAFT, ARCHIVED]),
      (PAPER_ACTIVE, [ASSISTED_LIVE, PAUSED, ARCHIVED]),
      (ASSISTED_LIVE, [BOUNDED_AUTO_LIVE, PAUSED, ROLLED_BACK, ARCHIVED]),
      (BOUNDED_AUTO_LIVE, [ASSISTED_LIVE, PAUSED, ROLLED_BACK, ARCHIVED]),
      (PAUSED, [SIMULATION, PAPER_ACTIVE, ARCHIVED]),
      (ROLLED_BACK, [SIMULATION, ARCHIVED]),
      (ARCHIVED, [])]"

definition EMIT_STATES :: "strategy_state list" where
  "EMIT_STATES = [PAPER_ACTIVE, ASSISTED_LIVE, BOUNDED_AUTO_LIVE]"

definition SIMULATE_STATES :: "strategy_state list" where
  "SIMULATE_STATES = [DRAFT, SIMULATION, PAUSED]"

definition st_can_transition :: "strategy_state \<Rightarrow> strategy_state \<Rightarrow> bool" where
  "st_can_transition from_state to_state =
     (to_state \<in> set (case map_of VALID_TRANSITIONS from_state of None \<Rightarrow> [] | Some ns \<Rightarrow> ns))"

definition st_transition ::
  "strategy_state \<Rightarrow> strategy_state \<Rightarrow> approval_level option \<Rightarrow> exn + strategy_state" where
  "st_transition from_state to_state user_approval_level =
     (if \<not> st_can_transition from_state to_state then Inl (StrategyLifecycleError
        (''Invalid transition: '' @ strategy_state_value from_state @ [CHR 0x20, CHR 0xE2, CHR 0x86, CHR 0x92, CHR 0x20] @
         strategy_state_value to_state))
      else case user_approval_level of
             None \<Rightarrow> Inr to_state
           | Some l \<Rightarrow> if \<not> can_activate_strategy l to_state then Inl (StrategyLifecycleError
                        (''Approval level '' @ quoted (approval_level_value l) @ '' insufficient for target state '' @
                         quoted (strategy_state_value to_state)))
                      else Inr to_state)"

definition can_emit_intents :: "strategy_state \<Rightarrow> bool" where
  "can_emit_intents s = (s \<in> set EMIT_STATES)"

definition can_simulate :: "strategy_state \<Rightarrow> bool" where
  "can_simulate s = (s \<in> set SIMULATE_STATES \<or> s \<in> set EMIT_STATES)"

definition st_is_terminal :: "strategy_state \<Rightarrow> bool" where
  "st_is_terminal s = (s = ARCHIVED)"

lemmas st_graph = st_can_transition_def VALID_TRANSITIONS_def

lemma st_can_transition_iff:
  "st_can_transition s t =
     (case s of DRAFT \<Rightarrow> t \<in> {SIMULATION, ARCHIVED}
      | SIMULATION \<Rightarrow> t \<in> {PAPER_ACTIVE, DRAFT, ARCHIVED}
      | PAPER_ACTIVE \<Rightarrow> t \<in> {ASSISTED_LIVE, PAUSED, ARCHIVED}
      | ASSISTED_LIVE \<Rightarrow> t \<in> {BOUNDED_AUTO_LIVE, PAUSED, ROLLED_BACK, ARCHIVED}
      | BOUNDED_AUTO_LIVE \<Rightarrow> t \<in> {ASSISTED_LIVE, PAUSED, ROLLED_BACK, ARCHIVED}
      | PAUSED \<Rightarrow> t \<in> {SIMULATION, PAPER_ACTIVE, ARCHIVED}
      | ROLLED_BACK \<Rightarrow> t \<in> {SIMULATION, ARCHIVED}
      | ARCHIVED \<Rightarrow> False)"
  by (cases s) (simp_all add: st_graph)

section \<open>Lives of a strategy\<close>

text \<open>
  A user with an approval level takes a strategy along the machine; \<open>strategy_run u s h\<close> is a life
  that starts in \<open>s\<close> and visits the states of \<open>h\<close>.
\<close>

inductive strategy_run :: "approval_level \<Rightarrow> strategy_state \<Rightarrow> strategy_state list \<Rightarrow> bool" for u where
  stop: "strategy_run u s []"
| step: "st_transition s t (Some u) = Inr t' \<Longrightarrow> strategy_run u t' h \<Longrightarrow> strategy_run u s (t' # h)"

inductive_simps strategy_run_simps: "strategy_run u s []" "strategy_run u s (t # h)"

lemma st_transition_Inr:
  "(st_transition s t (Some u) = Inr t') = (t' = t \<and> st_can_transition s t \<and> can_activate_strategy u t)"
  by (auto simp: st_transition_def)

lemma strategy_run_approved: "strategy_run u s h \<Longrightarrow> t \<in> set h \<Longrightarrow> can_activate_strategy u t"
  by (induction rule: strategy_run.induct) (auto simp: st_transition_Inr)

text \<open>A strategy that emits live intents has passed through the paper state.\<close>

definition live_state :: "strategy_state \<Rightarrow> bool" where
  "live_state s = (s = ASSISTED_LIVE \<or> s = BOUNDED_AUTO_LIVE)"

lemma live_after_paper:
  "strategy_run u s h \<Longrightarrow> \<not> live_state s \<Longrightarrow> s \<noteq> PAPER_ACTIVE \<Longrightarrow>
     h = h1 @ t # h2 \<Longrightarrow> live_state t \<Longrightarrow> PAPER_ACTIVE \<in> set h1"
proof (induction arbitrary: h1 rule: strategy_run.induct)
  case (step s t' t'' h)
  then have tr: "st_can_transition s t''" by (simp add: st_transition_Inr)
  have "\<not> live_state t''"
    using tr step.prems by (cases s; auto simp: st_can_transition_iff live_state_def)
  with step.prems obtain h1' where h1: "h1 = t'' # h1'" "h = h1' @ t # h2"
    by (cases h1) auto
  show ?case
    using step.IH [of h1'] step.prems h1 \<open>\<not> live_state t''\<close> by (cases "t'' = PAPER_ACTIVE") auto
qed simp



end
