(* ===== verification/Snapshot.thy ===== *)
theory Snapshot
  imports World
begin

text \<open>
  The decision snapshot that strategies evaluate (\<open>shared/schemas/analytics.py\<close>) and the reading of a
  field by its path (\<open>services/strategy_service/framework/rule_adapter.py\<close>).
\<close>

section \<open>The sections of a snapshot\<close>

record price_level =
  pl_price :: rat
  pl_size :: rat
  pl_notional_usd :: "rat option"

record wall_level = price_level +
  wl_is_spoofing_candidate :: bool
  wl_detected_at_ms :: "int option"

record market_state =
  ma_price :: "rat option"
  ma_bid :: "rat option"
  ma_ask :: "rat option"
  ma_bid_size :: "rat option"
  ma_ask_size :: "rat option"
  ma_spread :: "rat option"
  ma_spread_bps :: "rat option"
  ma_high_24h :: "rat option"
  ma_low_24h :: "rat option"
  ma_volume_24h :: "rat option"
  ma_quote_volume_24h :: "rat option"
  ma_price_change_pct_24h :: "rat option"
  ma_trades_24h :: "int option"

record book_state =
  bo_imbalance_ratio :: "rat option"
  bo_bid_depth_usd :: "rat option"
  bo_ask_depth_usd :: "rat option"
  bo_top_bid_walls :: "wall_level list"
  bo_top_ask_walls :: "wall_level list"
  bo_spoofing_alert :: bool

record flow_state =
  fw_delta :: "rat option"
  fw_cvd :: "rat option"
  fw_cvd_slope :: "rat option"
  fw_tape_speed_trades_per_min :: "rat option"
  fw_aggression_ratio :: "rat option"
  fw_rvol :: "rat option"
  fw_buy_volume :: "rat option"
  fw_sell_volume :: "rat option"
  fw_large_trade_threshold_usd :: "rat option"
  fw_large_buy_count :: "int option"
  fw_large_sell_count :: "int option"

record futures_state =
  fu_mark_price :: "rat option"
  fu_index_price :: "rat option"
  fu_funding_rate :: "rat option"
  fu_next_funding_time_ms :: "int option"
  fu_open_interest :: "rat option"
  fu_open_interest_value_usd :: "rat option"
  fu_oi_price_divergence :: "rat option"
  fu_funding_pressure_score :: "rat option"
  fu_liquidation_cluster_long_usd :: "rat option"
  fu_liquidation_cluster_short_usd :: "rat option"

record indicator_values =
  iv_ema_9 :: "rat option"
  iv_ema_21 :: "rat option"
  iv_ema_50 :: "rat option"
  iv_ema_200 :: "rat option"
  iv_rsi_14 :: "rat option"
  iv_vwap :: "rat option"
  iv_bb_upper :: "rat option"
  iv_bb_middle :: "rat option"
  iv_bb_lower :: "rat option"
  iv_bb_width :: "rat option"
  iv_atr_14 :: "rat option"

record balance_snapshot =
  bs_asset :: string
  bs_free :: rat
  bs_locked :: rat
  bs_total :: rat
  bs_wallet_balance :: "rat option"
  bs_unrealized_pnl :: "rat option"

record position_snapshot =
  po_symbol :: string
  po_market_type :: market_type
  po_side :: string
  po_quantity :: rat
  po_entry_price :: rat
  po_mark_price :: "rat option"
  po_unrealized_pnl :: "rat option"
  po_leverage :: "rat option"
  po_margin :: "rat option"
  po_liquidation_price :: "rat option"

record account_state =
  aa_total_equity_usd :: "rat option"
  aa_available_margin_usd :: "rat option"
  aa_used_margin_usd :: "rat option"
  aa_unrealized_pnl_usd :: "rat option"
  aa_balances :: "balance_snapshot list"
  aa_positions :: "position_snapshot list"
  aa_open_orders_count :: int
  aa_trading_mode :: "string option"

record risk_state =
  rs_daily_pnl_usd :: "rat option"
  rs_daily_loss_limit_pct_used :: "rat option"
  rs_open_positions_count :: int
  rs_max_concurrent_positions :: "int option"
  rs_kill_switch_active :: bool
  rs_circuit_breaker_active :: bool
  rs_user_paused :: bool
  rs_symbol_paused :: bool
  rs_daily_trades :: int

record strategy_signal =
  ss_strategy_id :: string
  ss_version :: int
  ss_signal :: bool
  ss_direction :: "string option"
  ss_confidence :: "rat option"

record strategy_state_snapshot =
  sx_active_strategy_ids :: "string list"
  sx_last_signals :: "strategy_signal list"
  sx_pending_intents :: int

record recent_fill =
  rf_job_id :: string
  rf_symbol :: string
  rf_side :: string
  rf_qty :: rat
  rf_price :: rat
  rf_timestamp_ms :: int

record execution_state_snapshot =
  ex_pending_jobs :: int
  ex_recent_fills :: "recent_fill list"
  ex_last_error :: "string option"

record snapshot_meta =
  me_snapshot_timestamp_ms :: int
  me_symbol :: string
  me_market_type :: market_type
  me_account_id :: "string option"
  me_sources :: "string list"
  me_staleness_ms :: "(string \<times> int) list"

text \<open>\<open>IndicatorState\<close> is its only field, the dict of the intervals.\<close>

record snapshot =
  sn_market_state :: market_state
  sn_book_state :: book_state
  sn_flow_state :: flow_state
  sn_futures_state :: futures_state
  sn_by_interval :: "(string \<times> indicator_values) list"
  sn_account_state :: account_state
  sn_risk_state :: risk_state
  sn_strategy_state :: strategy_state_snapshot
  sn_execution_state :: execution_state_snapshot
  sn_meta :: snapshot_meta

section \<open>The default sections\<close>

definition default_market_state :: market_state where
  "default_market_state =
     \<lparr>ma_price = None, ma_bid = None, ma_ask = None, ma_bid_size = None, ma_ask_size = None, ma_spread = None,
      ma_spread_bps = None, ma_high_24h = None, ma_low_24h = None, ma_volume_24h = None,
      ma_quote_volume_24h = None, ma_price_change_pct_24h = None, ma_trades_24h = None\<rparr>"

definition default_book_state :: book_state where
  "default_book_state =
     \<lparr>bo_imbalance_ratio = None, bo_bid_depth_usd = None, bo_ask_depth_usd = None, bo_top_bid_walls = [],
      bo_top_ask_walls = [], bo_spoofing_alert = False\<rparr>"

definition default_flow_state :: flow_state where
  "default_flow_state =
     \<lparr>fw_delta = None, fw_cvd = None, fw_cvd_slope = None, fw_tape_speed_trades_per_min = None,
      fw_aggression_ratio = None, fw_rvol = None, fw_buy_volume = None, fw_sell_volume = None,
      fw_large_trade_threshold_usd = None, fw_large_buy_count = None, fw_large_sell_count = None\<rparr>"

definition default_futures_state :: futures_state where
  "default_futures_state =
     \<lparr>fu_mark_price = None, fu_index_price = None, fu_funding_rate = None, fu_next_funding_time_ms = None,
      fu_open_interest = None, fu_open_interest_value_usd = None, fu_oi_price_divergence = None,
      fu_funding_pressure_score = None, fu_liquidation_cluster_long_usd = None,
      fu_liquidation_cluster_short_usd = None\<rparr>"

definition default_account_state :: account_state where
  "default_account_state =
     \<lparr>aa_total_equity_usd = None, aa_available_margin_usd = None, aa_used_margin_usd = None,
      aa_unrealized_pnl_usd = None, aa_balances = [], aa_positions = [], aa_open_orders_count = 0,
      aa_trading_mode = None\<rparr>"

definition default_risk_state :: risk_state where
  "default_risk_state =
     \<lparr>rs_daily_pnl_usd = None, rs_daily_loss_limit_pct_used = None, rs_open_positions_count = 0,
      rs_max_concurrent_positions = None, rs_kill_switch_active = False, rs_circuit_breaker_active = False,
      rs_user_paused = False, rs_symbol_paused = False, rs_daily_trades = 0\<rparr>"

definition default_snapshot :: "snapshot_meta \<Rightarrow> snapshot" where
  "default_snapshot meta =
     \<lparr>sn_market_state = default_market_state, sn_book_state = default_book_state,
      sn_flow_state = default_flow_state, sn_futures_state = default_futures_state, sn_by_interval = [],
      sn_account_state = default_account_state, sn_risk_state = default_risk_state,
      sn_strategy_state = \<lparr>sx_active_strategy_ids = [], sx_last_signals = [], sx_pending_intents = 0\<rparr>,
      sn_execution_state = \<lparr>ex_pending_jobs = 0, ex_recent_fills = [], ex_last_error = None\<rparr>,
      sn_meta = meta\<rparr>"

section \<open>Fields by path\<close>

text \<open>
  What \<open>getattr\<close> and \<open>get\<close> find: a model and a dict give their fields; a list, a text, a number and
  \<open>None\<close> have none.  The paths of rules name fields, so Python's own attributes (methods, the parts of a
  number) are not in the tree.
\<close>

datatype attr =
    ANone | ABool bool | AInt int | ADec rat | AStr string | AList
  | AModel "(string \<times> attr) list"
  | ADict "(string \<times> attr) list"

definition opt_dec :: "rat option \<Rightarrow> attr" where
  "opt_dec x = (case x of None \<Rightarrow> ANone | Some v \<Rightarrow> ADec v)"

definition opt_int :: "int option \<Rightarrow> attr" where
  "opt_int x = (case x of None \<Rightarrow> ANone | Some v \<Rightarrow> AInt v)"

definition opt_str :: "string option \<Rightarrow> attr" where
  "opt_str x = (case x of None \<Rightarrow> ANone | Some v \<Rightarrow> AStr v)"

definition market_attr :: "market_state \<Rightarrow> attr" where
  "market_attr m = AModel
     [(''price'', opt_dec (ma_price m)), (''bid'', opt_dec (ma_bid m)), (''ask'', opt_dec (ma_ask m)),
      (''bid_size'', opt_dec (ma_bid_size m)), (''ask_size'', opt_dec (ma_ask_size m)),
      (''spread'', opt_dec (ma_spread m)), (''spread_bps'', opt_dec (ma_spread_bps m)),
      (''high_24h'', opt_dec (ma_high_24h m)), (''low_24h'', opt_dec (ma_low_24h m)),
      (''volume_24h'', opt_dec (ma_volume_24h m)), (''quote_volume_24h'', opt_dec (ma_quote_volume_24h m)),
      (''price_change_pct_24h'', opt_dec (ma_price_change_pct_24h m)), (''trades_24h'', opt_int (ma_trades_24h m))]"

definition book_attr :: "book_state \<Rightarrow> attr" where
  "book_attr b = AModel
     [(''imbalance_ratio'', opt_dec (bo_imbalance_ratio b)), (''bid_depth_usd'', opt_dec (bo_bid_depth_usd b)),
      (''ask_depth_usd'', opt_dec (bo_ask_depth_usd b)), (''top_bid_walls'', AList), (''top_ask_walls'', AList),
      (''spoofing_alert'', ABool (bo_spoofing_alert b))]"

definition flow_attr :: "flow_state \<Rightarrow> attr" where
  "flow_attr f = AModel
     [(''delta'', opt_dec (fw_delta f)), (''cvd'', opt_dec (fw_cvd f)), (''cvd_slope'', opt_dec (fw_cvd_slope f)),
      (''tape_speed_trades_per_min'', opt_dec (fw_tape_speed_trades_per_min f)),
      (''aggression_ratio'', opt_dec (fw_aggression_ratio f)), (''rvol'', opt_dec (fw_rvol f)),
      (''buy_volume'', opt_dec (fw_buy_volume f)), (''sell_volume'', opt_dec (fw_sell_volume f)),
      (''large_trade_threshold_usd'', opt_dec (fw_large_trade_threshold_usd f)),
      (''large_buy_count'', opt_int (fw_large_buy_count f)), (''large_sell_count'', opt_int (fw_large_sell_count f))]"

definition futures_attr :: "futures_state \<Rightarrow> attr" where
  "futures_attr f = AModel
     [(''mark_price'', opt_dec (fu_mark_price f)), (''index_price'', opt_dec (fu_index_price f)),
      (''funding_rate'', opt_dec (fu_funding_rate f)), (''next_funding_time_ms'', opt_int (fu_next_funding_time_ms f)),
      (''open_interest'', opt_dec (fu_open_interest f)),
      (''open_interest_value_usd'', opt_dec (fu_open_interest_value_usd f)),
      (''oi_price_divergence'', opt_dec (fu_oi_price_divergence f)),
      (''funding_pressure_score'', opt_dec (fu_funding_pressure_score f)),
      (''liquidation_cluster_long_usd'', opt_dec (fu_liquidation_cluster_long_usd f)),
      (''liquidation_cluster_short_usd'', opt_dec (fu_liquidation_cluster_short_usd f))]"

definition indicator_attr :: "indicator_values \<Rightarrow> attr" where
  "indicator_attr v = AModel
     [(''ema_9'', opt_dec (iv_ema_9 v)), (''ema_21'', opt_dec (iv_ema_21 v)), (''ema_50'', opt_dec (iv_ema_50 v)),
      (''ema_200'', opt_dec (iv_ema_200 v)), (''rsi_14'', opt_dec (iv_rsi_14 v)), (''vwap'', opt_dec (iv_vwap v)),
      (''bb_upper'', opt_dec (iv_bb_upper v)), (''bb_middle'', opt_dec (iv_bb_middle v)),
      (''bb_lower'', opt_dec (iv_bb_lower v)), (''bb_width'', opt_dec (iv_bb_width v)), (''atr_14'', opt_dec (iv_atr_14 v))]"

definition account_attr :: "account_state \<Rightarrow> attr" where
  "account_attr a = AModel
     [(''total_equity_usd'', opt_dec (aa_total_equity_usd a)),
      (''available_margin_usd'', opt_dec (aa_available_margin_usd a)),
      (''used_margin_usd'', opt_dec (aa_used_margin_usd a)),
      (''unrealized_pnl_usd'', opt_dec (aa_unrealized_pnl_usd a)), (''balances'', AList), (''positions'', AList),
      (''open_orders_count'', AInt (aa_open_orders_count a)), (''trading_mode'', opt_str (aa_trading_mode a))]"

definition risk_attr :: "risk_state \<Rightarrow> attr" where
  "risk_attr r = AModel
     [(''daily_pnl_usd'', opt_dec (rs_daily_pnl_usd r)),
      (''daily_loss_limit_pct_used'', opt_dec (rs_daily_loss_limit_pct_used r)),
      (''open_positions_count'', AInt (rs_open_positions_count r)),
      (''max_concurrent_positions'', opt_int (rs_max_concurrent_positions r)),
      (''kill_switch_active'', ABool (rs_kill_switch_active r)),
      (''circuit_breaker_active'', ABool (rs_circuit_breaker_active r)),
      (''user_paused'', ABool (rs_user_paused r)), (''symbol_paused'', ABool (rs_symbol_paused r)),
      (''daily_trades'', AInt (rs_daily_trades r))]"

definition meta_attr :: "snapshot_meta \<Rightarrow> attr" where
  "meta_attr m = AModel
     [(''snapshot_timestamp_ms'', AInt (me_snapshot_timestamp_ms m)), (''symbol'', AStr (me_symbol m)),
      (''market_type'', AStr (market_type_value (me_market_type m))), (''account_id'', opt_str (me_account_id m)),
      (''sources'', AList), (''staleness_ms'', ADict (map (\<lambda>(k, n). (k, AInt n)) (me_staleness_ms m)))]"

definition snapshot_attr :: "snapshot \<Rightarrow> attr" where
  "snapshot_attr s = AModel
     [(''market_state'', market_attr (sn_market_state s)), (''book_state'', book_attr (sn_book_state s)),
      (''flow_state'', flow_attr (sn_flow_state s)), (''futures_state'', futures_attr (sn_futures_state s)),
      (''indicator_state'', AModel
        [(''by_interval'', ADict (map (\<lambda>(k, v). (k, indicator_attr v)) (sn_by_interval s)))]),
      (''account_state'', account_attr (sn_account_state s)), (''risk_state'', risk_attr (sn_risk_state s)),
      (''strategy_state'', AModel
        [(''active_strategy_ids'', AList), (''last_signals'', AList),
         (''pending_intents'', AInt (sx_pending_intents (sn_strategy_state s)))]),
      (''execution_state'', AModel
        [(''pending_jobs'', AInt (ex_pending_jobs (sn_execution_state s))), (''recent_fills'', AList),
         (''last_error'', opt_str (ex_last_error (sn_execution_state s)))]),
      (''meta'', meta_attr (sn_meta s))]"

fun child :: "attr \<Rightarrow> string \<Rightarrow> attr" where
  "child (AModel d) p = (case map_of d p of None \<Rightarrow> ANone | Some v \<Rightarrow> v)"
| "child (ADict d) p = (case map_of d p of None \<Rightarrow> ANone | Some v \<Rightarrow> v)"
| "child _ p = ANone"

fun walk :: "attr \<Rightarrow> string list \<Rightarrow> attr" where
  "walk v [] = v"
| "walk v (p # ps) = (case child v p of ANone \<Rightarrow> ANone | u \<Rightarrow> walk u ps)"

text \<open>A float, a bool or \<open>None\<close>.\<close>

definition get_field :: "snapshot \<Rightarrow> string \<Rightarrow> json" where
  "get_field s path =
     (case walk (snapshot_attr s) (split_on CHR ''.'' path) of
        ADec x \<Rightarrow> JNum (fl x)
      | ABool b \<Rightarrow> JBool b
      | AInt n \<Rightarrow> JNum (fl (of_int n))
      | _ \<Rightarrow> JNull)"

end
