(* ===== verification/StrategyRules.thy ===== *)
theory StrategyRules
  imports Snapshot StrategyLifecycle Controls
begin

text \<open>
  The strategies of the strategy service: weighted rules over a snapshot
  (\<open>framework/rule_adapter.py\<close>), the moving-average crossover (\<open>strategies/ma_crossover.py\<close>), what both
  share (\<open>framework/base.py\<close>) and their factory (\<open>framework/factory.py\<close>).
\<close>

section \<open>A rule\<close>

text \<open>\<open>threshold[i]\<close>.\<close>

definition index_of :: "json \<Rightarrow> nat \<Rightarrow> exn + json" where
  "index_of v i =
     (case v of
        JArr xs \<Rightarrow> if i < length xs then Inr (xs ! i) else Inl IndexError
      | JStr s \<Rightarrow> if i < length s then Inr (JStr [s ! i]) else Inl IndexError
      | JObj d \<Rightarrow> Inl KeyError
      | _ \<Rightarrow> Inl TypeError)"

text \<open>The tolerance \<open>1e-9\<close>.\<close>

definition TOLERANCE :: rat where
  "TOLERANCE = fl (1 / 10 ^ 9)"

definition evaluate_rule :: "json \<Rightarrow> string \<Rightarrow> json \<Rightarrow> exn + bool" where
  "evaluate_rule val operator threshold =
     (if operator = ''is_not_none'' then Inr (val \<noteq> JNull)
      else if operator = ''is_none'' then Inr (val = JNull)
      else if val = JNull then Inr False
      else ebind (py_float val) (\<lambda>v.
        if operator = ''gt'' then ebind (py_float threshold) (\<lambda>t. Inr (v > t))
        else if operator = ''lt'' then ebind (py_float threshold) (\<lambda>t. Inr (v < t))
        else if operator = ''gte'' then ebind (py_float threshold) (\<lambda>t. Inr (v \<ge> t))
        else if operator = ''lte'' then ebind (py_float threshold) (\<lambda>t. Inr (v \<le> t))
        else if operator = ''eq'' then ebind (py_float threshold) (\<lambda>t. Inr (\<bar>fl (v - t)\<bar> < TOLERANCE))
        else if operator = ''neq'' then ebind (py_float threshold) (\<lambda>t. Inr (\<bar>fl (v - t)\<bar> \<ge> TOLERANCE))
        else if operator = ''between'' then
          ebind (ebind (index_of threshold 0) py_float) (\<lambda>lo.
          ebind (ebind (index_of threshold 1) py_float) (\<lambda>hi. Inr (lo \<le> v \<and> v \<le> hi)))
        else Inr False))"

section \<open>Intents\<close>

text \<open>The product of a price and a factor is a float, read back as a Decimal.\<close>

definition protective_price :: "env \<Rightarrow> rat option \<Rightarrow> json \<Rightarrow> bool \<Rightarrow> exn + rat option" where
  "protective_price env price pct below =
     (case price of
        None \<Rightarrow> Inr None
      | Some p \<Rightarrow>
          if \<not> truthy pct \<or> p = 0 then Inr None
          else ebind (py_float pct) (\<lambda>x.
               let factor = fl (if below then 1 - fl (x / 100) else 1 + fl (x / 100))
               in ebind (dec_of_str env (JNum (fl (fl p * factor)))) (\<lambda>r. Inr (Some r))))"

text \<open>The enumeration named by a parameter, or its default.\<close>

definition or_default :: "'a \<Rightarrow> exn + 'a \<Rightarrow> 'a" where
  "or_default d r = (case r of Inl e \<Rightarrow> d | Inr x \<Rightarrow> x)"

definition time_in_force_of :: "string \<Rightarrow> exn + time_in_force" where
  "time_in_force_of = enum_of time_in_force_value [GTC, IOC, FOK, GTX, GTD]"

definition build_intent ::
  "env \<Rightarrow> uuid \<Rightarrow> int \<Rightarrow> string \<Rightarrow> (string \<times> json) list \<Rightarrow> snapshot \<Rightarrow> (string \<times> json) list \<Rightarrow> uuid \<Rightarrow> int \<Rightarrow>
   exn + trade_intent" where
  "build_intent env strategy_id version direction parameters s explanation intent_id created_at =
     (let side = (if direction = ''BUY'' then BUY else SELL); price = ma_price (sn_market_state s) in
      ebind (dec_of_str env (dict_get ''size_usd'' (JNum 100) parameters)) (\<lambda>size_usd.
      let size = (case price of Some p \<Rightarrow> if 0 < p then dec (size_usd / p) else size_usd | None \<Rightarrow> size_usd) in
      ebind (protective_price env price (dict_get ''stop_loss_pct'' JNull parameters) (side = BUY)) (\<lambda>stop_loss.
      ebind (protective_price env price (dict_get ''take_profit_pct'' JNull parameters) (side = SELL)) (\<lambda>take_profit.
      let order_type = or_default MARKET
            (order_type_of (upper (str_of env (dict_get ''order_type'' (JStr ''MARKET'') parameters)))) in
        Inr \<lparr>ti_intent_id = intent_id, ti_strategy_id = Some strategy_id, ti_strategy_version = Some version,
             ti_symbol = me_symbol (sn_meta s), ti_market_type = me_market_type (sn_meta s), ti_side = side,
             ti_intent_type = ''OPEN'', ti_order_type = order_type, ti_size = size, ti_size_usd = Some size_usd,
             ti_limit_price = (if order_type = LIMIT then price else None), ti_stop_loss = stop_loss,
             ti_take_profit = take_profit, ti_reduce_only = False,
             ti_time_in_force = or_default GTC
               (time_in_force_of (upper (str_of env (dict_get ''time_in_force'' (JStr ''GTC'') parameters)))),
             ti_position_side = None, ti_explanation = explanation, ti_created_at = created_at,
             ti_expires_at = None, ti_metadata = []\<rparr>))))"

section \<open>Strategies\<close>

datatype strategy_kind = RULE_BASED | MA_CROSSOVER

record strategy =
  sg_kind :: strategy_kind
  sg_id :: uuid
  sg_version :: int
  sg_parameters :: "(string \<times> json) list"
  sg_rules :: json

record evaluation_result =
  er_signal :: bool
  er_direction :: "string option"
  er_confidence :: "rat option"
  er_trade_intent :: "trade_intent option"
  er_explanation :: "(string \<times> json) list"
  er_degraded :: bool
  er_failure_reason :: "string option"

text \<open>The intent of a signal; an intent that is built draws its identifier.\<close>

definition make_intent ::
  "env \<Rightarrow> strategy \<Rightarrow> string \<Rightarrow> snapshot \<Rightarrow> (string \<times> json) list \<Rightarrow> ('r, 'd, 'm, trade_intent) act" where
  "make_intent env st direction s explanation =
     mbind (mget (\<lambda>w. build_intent env (sg_id st) (sg_version st) direction (sg_parameters st) s explanation
                        (e_uuid4 env (w_uuids w)) (w_now w * 1000))) (\<lambda>r.
     mbind (mlift r) (\<lambda>i. mbind (uuid4 env) (\<lambda>_. mret i)))"

section \<open>Weighted rules\<close>

record rule_totals =
  rt_buy_weight :: rat
  rt_buy_total :: rat
  rt_sell_weight :: rat
  rt_sell_total :: rat
  rt_triggered :: "json list"
  rt_blocked :: "json list"

definition no_totals :: rule_totals where
  "no_totals =
     \<lparr>rt_buy_weight = 0, rt_buy_total = 0, rt_sell_weight = 0, rt_sell_total = 0, rt_triggered = [], rt_blocked = []\<rparr>"

definition add_weight :: "bool \<Rightarrow> rat \<Rightarrow> rat \<Rightarrow> rat" where
  "add_weight b w acc = (if b then fl (acc + w) else acc)"

definition count_rule :: "json \<Rightarrow> rat \<Rightarrow> bool \<Rightarrow> json \<Rightarrow> rule_totals \<Rightarrow> rule_totals" where
  "count_rule side weight passed entry t =
     (let buy = (side = JStr ''BUY'' \<or> side = JNull); sell = (side = JStr ''SELL'' \<or> side = JNull) in
      \<lparr>rt_buy_weight = add_weight (passed \<and> buy) weight (rt_buy_weight t),
       rt_buy_total = add_weight buy weight (rt_buy_total t),
       rt_sell_weight = add_weight (passed \<and> sell) weight (rt_sell_weight t),
       rt_sell_total = add_weight sell weight (rt_sell_total t),
       rt_triggered = (if passed then rt_triggered t @ [entry] else rt_triggered t),
       rt_blocked = (if passed then rt_blocked t else rt_blocked t @ [entry])\<rparr>)"

definition apply_rule :: "env \<Rightarrow> snapshot \<Rightarrow> json \<Rightarrow> rule_totals \<Rightarrow> exn + rule_totals" where
  "apply_rule env s rule t =
     (case rule of
        JObj d \<Rightarrow>
          (let field_path = str_of env (dict_get ''field'' (JStr []) d);
               operator = str_of env (dict_get ''operator'' (JStr ''gt'') d);
               threshold = dict_get ''value'' JNull d;
               description = str_of env (dict_get ''description'' (JStr field_path) d);
               val = get_field s field_path
           in ebind (py_float (dict_get ''weight'' (JNum 1) d)) (\<lambda>weight.
              ebind (evaluate_rule val operator threshold) (\<lambda>passed.
              let actual = (case val of JBool b \<Rightarrow> JNum (if b then 1 else 0) | v \<Rightarrow> v);
                  entry = JObj [(''field'', JStr field_path), (''description'', JStr description),
                                (''operator'', JStr operator), (''threshold'', threshold), (''actual'', actual)]
              in Inr (count_rule (dict_get ''side'' JNull d) weight passed entry t))))
      | _ \<Rightarrow> Inl AttributeError)"

fun apply_rules :: "env \<Rightarrow> snapshot \<Rightarrow> json list \<Rightarrow> rule_totals \<Rightarrow> exn + rule_totals" where
  "apply_rules env s [] t = Inr t"
| "apply_rules env s (r # rs) t = ebind (apply_rule env s r t) (apply_rules env s rs)"

definition share :: "rat \<Rightarrow> rat \<Rightarrow> rat" where
  "share weight full = (if 0 < full then fl (weight / full) else 0)"

definition choose_side :: "rat \<Rightarrow> rat \<Rightarrow> string option \<times> rat" where
  "choose_side buy sell =
     (if buy \<ge> sell \<and> 0 < buy then (Some ''BUY'', buy)
      else if sell > buy \<and> 0 < sell then (Some ''SELL'', sell)
      else (None, 0))"

definition rule_explanation :: "rule_totals \<Rightarrow> nat \<Rightarrow> (string \<times> json) list" where
  "rule_explanation t n =
     (let buy = share (rt_buy_weight t) (rt_buy_total t); sell = share (rt_sell_weight t) (rt_sell_total t);
          (direction, confidence) = choose_side buy sell
      in [(''signal'', JBool (0 < confidence)), (''direction'', opt_json JStr direction), (''confidence'', JNum confidence),
          (''buy_confidence'', JNum buy), (''sell_confidence'', JNum sell), (''triggered'', JArr (rt_triggered t)),
          (''blocked'', JArr (rt_blocked t)), (''rules_total'', JInt (int n))])"

definition rule_based :: "env \<Rightarrow> strategy \<Rightarrow> snapshot \<Rightarrow> ('r, 'd, 'm, evaluation_result) act" where
  "rule_based env st s =
     mbind (mlift (ebind (list_items (sg_rules st)) (\<lambda>rules.
              ebind (apply_rules env s rules no_totals) (\<lambda>t. Inr (rules, t))))) (\<lambda>(rules, t).
     let (direction, confidence) = choose_side (share (rt_buy_weight t) (rt_buy_total t))
                                               (share (rt_sell_weight t) (rt_sell_total t));
         explanation = rule_explanation t (length rules);
         result = (\<lambda>intent. \<lparr>er_signal = (0 < confidence), er_direction = direction, er_confidence = Some confidence,
                      er_trade_intent = intent, er_explanation = explanation, er_degraded = False,
                      er_failure_reason = None\<rparr>)
     in case direction of
          Some d \<Rightarrow> if 0 < confidence then mbind (make_intent env st d s explanation) (\<lambda>i. mret (result (Some i)))
                    else mret (result None)
        | None \<Rightarrow> mret (result None))"

section \<open>The moving-average crossover\<close>

definition crossover_interval :: "env \<Rightarrow> strategy \<Rightarrow> string" where
  "crossover_interval env st = str_of env (dict_get ''interval'' (JStr ''1m'') (sg_parameters st))"

text \<open>The two averages of the interval, if both are there.\<close>

definition averages :: "env \<Rightarrow> strategy \<Rightarrow> snapshot \<Rightarrow> (rat \<times> rat) option" where
  "averages env st s =
     (case map_of (sn_by_interval s) (crossover_interval env st) of
        None \<Rightarrow> None
      | Some v \<Rightarrow> (case (iv_ema_9 v, iv_ema_21 v) of (Some a, Some b) \<Rightarrow> Some (a, b) | _ \<Rightarrow> None))"

definition no_signal :: "rat option \<Rightarrow> (string \<times> json) list \<Rightarrow> bool \<Rightarrow> string option \<Rightarrow> evaluation_result" where
  "no_signal confidence explanation degraded reason =
     \<lparr>er_signal = False, er_direction = None, er_confidence = confidence, er_trade_intent = None,
      er_explanation = explanation, er_degraded = degraded, er_failure_reason = reason\<rparr>"

text \<open>Direction and relative gap of the two averages.\<close>

definition crossing :: "rat \<Rightarrow> rat \<Rightarrow> exn + (string \<times> rat) option" where
  "crossing ema9 ema21 =
     (if ema9 = ema21 then Inr None
      else if ema21 = 0 then Inl ZeroDivision
      else if ema9 > ema21 then Inr (Some (''BUY'', fl (fl (ema9 - ema21) / ema21)))
      else Inr (Some (''SELL'', fl (fl (ema21 - ema9) / ema21))))"

definition ma_crossover :: "env \<Rightarrow> strategy \<Rightarrow> snapshot \<Rightarrow> ('r, 'd, 'm, evaluation_result) act" where
  "ma_crossover env st s =
     (case averages env st s of
        None \<Rightarrow> mret (no_signal None
          [(''signal'', JBool False),
           (''reason'', JStr (''EMA9/EMA21 not available for interval='' @ repr_str (crossover_interval env st))),
           (''strategy_type'', JStr ''ma_crossover'')] True (Some ''missing_ema_indicators''))
      | Some (a, b) \<Rightarrow>
          (let ema9 = fl a; ema21 = fl b in
           mbind (mlift (crossing ema9 ema21)) (\<lambda>c.
           case c of
             None \<Rightarrow> mret (no_signal (Some 0)
               [(''signal'', JBool False), (''reason'', JStr ''ema9_equals_ema21''), (''ema9'', JNum ema9),
                (''ema21'', JNum ema21), (''strategy_type'', JStr ''ma_crossover'')] False None)
           | Some (direction, relative_gap) \<Rightarrow>
               (let confidence = min (fl (relative_gap * 100)) 1;
                    explanation =
                      [(''signal'', JBool True), (''direction'', JStr direction), (''confidence'', JNum confidence),
                       (''ema9'', JNum ema9), (''ema21'', JNum ema21),
                       (''relative_gap_pct'', JNum (fl (relative_gap * 100))),
                       (''interval'', JStr (crossover_interval env st)), (''strategy_type'', JStr ''ma_crossover'')]
                in mbind (make_intent env st direction s explanation) (\<lambda>i.
                   mret \<lparr>er_signal = True, er_direction = Some direction, er_confidence = Some confidence,
                         er_trade_intent = Some i, er_explanation = explanation, er_degraded = False,
                         er_failure_reason = None\<rparr>)))))"

section \<open>What strategies share\<close>

definition evaluate_strategy :: "env \<Rightarrow> strategy \<Rightarrow> snapshot \<Rightarrow> ('r, 'd, 'm, evaluation_result) act" where
  "evaluate_strategy env st s =
     (case sg_kind st of RULE_BASED \<Rightarrow> rule_based env st s | MA_CROSSOVER \<Rightarrow> ma_crossover env st s)"

definition missing_sections :: "snapshot \<Rightarrow> string list" where
  "missing_sections s =
     (if me_snapshot_timestamp_ms (sn_meta s) = 0 then [''meta.snapshot_timestamp_ms''] else []) @
     (if ma_price (sn_market_state s) = None then [''market_state.price''] else [])"

definition validate_snapshot :: "env \<Rightarrow> strategy \<Rightarrow> snapshot \<Rightarrow> string list" where
  "validate_snapshot env st s =
     missing_sections s @
     (case sg_kind st of
        RULE_BASED \<Rightarrow> []
      | MA_CROSSOVER \<Rightarrow>
          if averages env st s = None
          then [''indicator_state.by_interval.'' @ crossover_interval env st @ ''.ema_9/ema_21''] else [])"

text \<open>\<open>symbol in symbol_filters\<close>, for what a JSON column holds; no filter matches every symbol.\<close>

definition matches_symbol :: "json \<Rightarrow> string \<Rightarrow> exn + bool" where
  "matches_symbol filters symbol =
     (if \<not> truthy filters then Inr True
      else case filters of
             JArr xs \<Rightarrow> Inr (JStr symbol \<in> set xs)
           | JObj d \<Rightarrow> Inr (symbol \<in> set (map fst d))
           | JStr s \<Rightarrow> Inr (contains symbol s)
           | _ \<Rightarrow> Inl TypeError)"

text \<open>Any type but \<open>ma_crossover\<close> is \<open>rule_based\<close>; parameters that are no dict raise.\<close>

definition build_strategy :: "env \<Rightarrow> uuid \<Rightarrow> int \<Rightarrow> json \<Rightarrow> json \<Rightarrow> exn + strategy" where
  "build_strategy env strategy_id version rules parameters =
     (case parameters of
        JObj d \<Rightarrow>
          Inr \<lparr>sg_kind = (if lower (str_of env (dict_get ''strategy_type'' (JStr ''rule_based'') d)) = ''ma_crossover''
                         then MA_CROSSOVER else RULE_BASED),
               sg_id = strategy_id, sg_version = version, sg_parameters = d, sg_rules = rules\<rparr>
      | _ \<Rightarrow> Inl AttributeError)"

end
