(* ===== verification/StrategyService.thy ===== *)
theory StrategyService
  imports StrategyRules Repository
begin

text \<open>
  The strategy service: its tables and repository (\<open>shared/db/models/strategy.py\<close>,
  \<open>persistence/repository.py\<close>), the evaluator (\<open>framework/evaluator.py\<close>), the registry, versions and
  dry runs (\<open>framework/registry.py\<close>, \<open>version.py\<close>, \<open>simulation.py\<close>), the publisher of intents
  (\<open>intent/publisher.py\<close>) and the consumer of snapshots (\<open>consumer.py\<close>).
\<close>

section \<open>Tables\<close>

record strategy_row =
  sr_id :: uuid
  sr_user_id :: uuid
  sr_name :: string
  sr_description :: string
  sr_market_type :: string
  sr_symbol_filters :: json
  sr_state :: string
  sr_current_version :: int
  sr_created_at :: "int option"
  sr_updated_at :: "int option"

record version_row =
  vr_strategy_id :: uuid
  vr_version :: int
  vr_rules :: json
  vr_parameters :: json
  vr_approval_required :: string
  vr_change_note :: string
  vr_created_by :: string
  vr_created_at_ms :: int

record run_row =
  rn_id :: uuid
  rn_strategy_id :: uuid
  rn_version :: int
  rn_run_type :: string
  rn_status :: string
  rn_start_ms :: "int option"
  rn_end_ms :: "int option"
  rn_stats :: json

record evaluation_row =
  vl_id :: uuid
  vl_run_id :: "uuid option"
  vl_strategy_id :: uuid
  vl_version :: int
  vl_symbol :: string
  vl_market_type :: string
  vl_snapshot_timestamp_ms :: int
  vl_signal :: bool
  vl_direction :: "string option"
  vl_confidence :: "string option"
  vl_explanation :: json
  vl_intent_id :: "uuid option"
  vl_created_at_ms :: int

record action_row =
  an_strategy_id :: uuid
  an_version :: int
  an_action_type :: string
  an_triggered_by :: string
  an_details :: json
  an_created_at_ms :: int

record rollback_row =
  rb_strategy_id :: uuid
  rb_from_version :: int
  rb_to_version :: int
  rb_reason :: string
  rb_rolled_back_by :: string
  rb_created_at_ms :: int

text \<open>The tables of strategies stand beside those of the execution service.\<close>

record strategy_db = exec_db +
  d_strategies :: "strategy_row list"
  d_versions :: "version_row list"
  d_runs :: "run_row list"
  d_evaluations :: "evaluation_row list"
  d_actions :: "action_row list"
  d_rollbacks :: "rollback_row list"

definition find_strategy :: "uuid \<Rightarrow> strategy_db \<Rightarrow> strategy_row option" where
  "find_strategy i d = find (\<lambda>s. sr_id s = i) (d_strategies d)"

definition find_version :: "uuid \<Rightarrow> int \<Rightarrow> strategy_db \<Rightarrow> version_row option" where
  "find_version i n d = find (\<lambda>v. vr_strategy_id v = i \<and> vr_version v = n) (d_versions d)"

section \<open>Evaluations\<close>

record strategy_evaluation =
  sl_id :: uuid
  sl_run_id :: "uuid option"
  sl_strategy_id :: uuid
  sl_version :: int
  sl_symbol :: string
  sl_market_type :: market_type
  sl_snapshot_timestamp_ms :: int
  sl_signal :: bool
  sl_direction :: "string option"
  sl_confidence :: "rat option"
  sl_explanation :: "(string \<times> json) list"
  sl_trade_intent :: "trade_intent option"
  sl_created_at :: int

record evaluator =
  eu_strategy_id :: uuid
  eu_version :: int
  eu_state :: strategy_state
  eu_strategy :: strategy
  eu_symbol_filters :: json

definition new_evaluation ::
  "env \<Rightarrow> evaluator \<Rightarrow> snapshot \<Rightarrow> uuid option \<Rightarrow> bool \<Rightarrow> string option \<Rightarrow> rat option \<Rightarrow> (string \<times> json) list \<Rightarrow>
   trade_intent option \<Rightarrow> ('r, 'd, 'm, strategy_evaluation) act" where
  "new_evaluation env ev s run_id signal direction confidence explanation intent =
     mbind (uuid4 env) (\<lambda>i. mbind (mget w_now) (\<lambda>now. mret
       \<lparr>sl_id = i, sl_run_id = run_id, sl_strategy_id = eu_strategy_id ev, sl_version = eu_version ev,
        sl_symbol = me_symbol (sn_meta s), sl_market_type = me_market_type (sn_meta s),
        sl_snapshot_timestamp_ms = me_snapshot_timestamp_ms (sn_meta s), sl_signal = signal,
        sl_direction = direction, sl_confidence = confidence, sl_explanation = explanation,
        sl_trade_intent = intent, sl_created_at = now * 1000\<rparr>))"

definition blocked_eval :: "env \<Rightarrow> evaluator \<Rightarrow> snapshot \<Rightarrow> uuid option \<Rightarrow> string \<Rightarrow> ('r, 'd, 'm, strategy_evaluation) act" where
  "blocked_eval env ev s run_id reason =
     new_evaluation env ev s run_id False None None
       [(''signal'', JBool False), (''blocked'', JBool True), (''reason'', JStr reason),
        (''state'', JStr (strategy_state_value (eu_state ev)))] None"

text \<open>The intent was built before and keeps the explanation without the annotations.\<close>

definition annotate :: "evaluator \<Rightarrow> snapshot \<Rightarrow> string list \<Rightarrow> (string \<times> json) list \<Rightarrow> (string \<times> json) list" where
  "annotate ev s missing explanation =
     (let has_account = (aa_balances (sn_account_state s) \<noteq> [] \<or> aa_total_equity_usd (sn_account_state s) \<noteq> None);
          noted = (if has_account then explanation
                   else dict_set ''degraded_reason'' (JStr ''account_state_absent'')
                          (dict_set ''degraded'' (JBool True) explanation))
      in dict_set ''snapshot_missing_sections'' (JArr (map JStr missing))
           (dict_set ''context'' (JStr (strategy_state_value (eu_state ev))) noted))"

definition evaluate_snapshot ::
  "env \<Rightarrow> evaluator \<Rightarrow> snapshot \<Rightarrow> uuid option \<Rightarrow> ('r, 'd, 'm, strategy_evaluation) act" where
  "evaluate_snapshot env ev s run_id =
     (if \<not> can_simulate (eu_state ev) then blocked_eval env ev s run_id ''strategy_not_active''
      else let missing = validate_snapshot env (eu_strategy ev) s in
        mbind (evaluate_strategy env (eu_strategy ev) s) (\<lambda>result.
        let explanation = annotate ev s missing (er_explanation result) in
        if missing \<noteq> []
        then new_evaluation env ev s run_id False None None
               (dict_set ''reason'' (JStr ''missing_snapshot_sections'') (dict_set ''blocked'' (JBool True) explanation)) None
        else new_evaluation env ev s run_id (er_signal result) (er_direction result) (er_confidence result)
               explanation (er_trade_intent result)))"

definition can_emit_intent :: "evaluator \<Rightarrow> bool" where
  "can_emit_intent ev = can_emit_intents (eu_state ev)"

text \<open>\<open>SimulationRunner.run\<close>.\<close>

primrec simulate_all :: "env \<Rightarrow> evaluator \<Rightarrow> snapshot list \<Rightarrow> ('r, 'd, 'm, strategy_evaluation list) act" where
  "simulate_all env ev [] = mret []"
| "simulate_all env ev (s # ss) =
     mbind (evaluate_snapshot env ev s None) (\<lambda>r. mbind (simulate_all env ev ss) (\<lambda>rs. mret (r # rs)))"

section \<open>Versions\<close>

text \<open>\<open>VersionResolver\<close>.\<close>

definition resolve_version :: "version_row list \<Rightarrow> int \<Rightarrow> version_row option" where
  "resolve_version versions target_version = find (\<lambda>v. vr_version v = target_version) versions"

definition can_activate :: "approval_level \<Rightarrow> strategy_state \<Rightarrow> approval_level \<Rightarrow> bool \<times> string" where
  "can_activate required target_state user_approval_level =
     (let insufficient = ''user level '' @ repr_str (approval_level_value user_approval_level) @ '' insufficient for '' in
      if \<not> can_activate_strategy user_approval_level target_state
      then (False, insufficient @ ''state '' @ repr_str (strategy_state_value target_state))
      else if \<not> check_approval_level user_approval_level required
      then (False, insufficient @ ''version requiring '' @ repr_str (approval_level_value required))
      else (True, ''ok''))"

section \<open>The repository\<close>

definition active_states :: "string list" where
  "active_states = map strategy_state_value [SIMULATION, PAPER_ACTIVE, ASSISTED_LIVE, BOUNDED_AUTO_LIVE]"

text \<open>The join comes in the order of the rows of the two tables.\<close>

definition active_rows :: "strategy_db \<Rightarrow> (strategy_row \<times> version_row) list" where
  "active_rows d =
     concat (map (\<lambda>s. map (Pair s) (filter (\<lambda>v. vr_strategy_id v = sr_id s \<and> vr_version v = sr_current_version s)
                                       (d_versions d)))
               (filter (\<lambda>s. sr_state s \<in> set active_states) (d_strategies d)))"

definition list_active_strategies :: "env \<Rightarrow> ('r, strategy_db, 'm, (strategy_row \<times> version_row) list) act" where
  "list_active_strategies env = query env active_rows"

definition get_strategy :: "env \<Rightarrow> uuid \<Rightarrow> ('r, strategy_db, 'm, strategy_row option) act" where
  "get_strategy env i = query env (find_strategy i)"

definition get_version :: "env \<Rightarrow> uuid \<Rightarrow> int \<Rightarrow> ('r, strategy_db, 'm, version_row option) act" where
  "get_version env i n = query env (find_version i n)"

definition insert_evaluation :: "evaluation_row \<Rightarrow> strategy_db \<Rightarrow> exn + strategy_db" where
  "insert_evaluation r d =
     ebind (varchars [(32, vl_symbol r), (16, vl_market_type r),
                      (8, case vl_direction r of None \<Rightarrow> [] | Some x \<Rightarrow> x),
                      (8, case vl_confidence r of None \<Rightarrow> [] | Some x \<Rightarrow> x)]) (\<lambda>_.
     if list_ex (\<lambda>k. vl_id k = vl_id r) (d_evaluations d) then Inl (IntegrityError ''strategy_evaluations_pkey'')
     else if (case vl_run_id r of None \<Rightarrow> False | Some i \<Rightarrow> \<not> list_ex (\<lambda>n. rn_id n = i) (d_runs d))
     then Inl (IntegrityError ''strategy_evaluations_run_id'')
     else Inr (d\<lparr>d_evaluations := d_evaluations d @ [r]\<rparr>))"

text \<open>\<open>str(round(confidence, 6))\<close>.\<close>

definition round6 :: "rat \<Rightarrow> rat" where
  "round6 x = fl (of_int (round_half_even (x * 10 ^ 6)) / 10 ^ 6)"

definition evaluation_row_of :: "env \<Rightarrow> strategy_evaluation \<Rightarrow> int \<Rightarrow> evaluation_row" where
  "evaluation_row_of env e now =
     \<lparr>vl_id = sl_id e, vl_run_id = sl_run_id e, vl_strategy_id = sl_strategy_id e, vl_version = sl_version e,
      vl_symbol = sl_symbol e, vl_market_type = market_type_value (sl_market_type e),
      vl_snapshot_timestamp_ms = sl_snapshot_timestamp_ms e, vl_signal = sl_signal e, vl_direction = sl_direction e,
      vl_confidence = map_option (\<lambda>c. str_of env (JNum (round6 c))) (sl_confidence e),
      vl_explanation = JObj (sl_explanation e), vl_intent_id = map_option ti_intent_id (sl_trade_intent e),
      vl_created_at_ms = now\<rparr>"

definition save_evaluation :: "env \<Rightarrow> strategy_evaluation \<Rightarrow> ('r, strategy_db, 'm, unit) act" where
  "save_evaluation env e =
     mbind (mget w_now) (\<lambda>now. session env (\<lambda>d.
       ebind (insert_evaluation (evaluation_row_of env e now) d) (\<lambda>d'. Inr ((), d'))))"

definition insert_action :: "action_row \<Rightarrow> strategy_db \<Rightarrow> exn + strategy_db" where
  "insert_action r d =
     ebind (varchars [(64, an_action_type r), (128, an_triggered_by r)]) (\<lambda>_. Inr (d\<lparr>d_actions := d_actions d @ [r]\<rparr>))"

definition save_action ::
  "env \<Rightarrow> uuid \<Rightarrow> int \<Rightarrow> string \<Rightarrow> string \<Rightarrow> (string \<times> json) list \<Rightarrow> ('r, strategy_db, 'm, unit) act" where
  "save_action env strategy_id version action_type triggered_by details =
     mbind (mget w_now) (\<lambda>now. session env (\<lambda>d.
       ebind (insert_action \<lparr>an_strategy_id = strategy_id, an_version = version, an_action_type = action_type,
                an_triggered_by = triggered_by, an_details = JObj details, an_created_at_ms = now\<rparr> d) (\<lambda>d'. Inr ((), d'))))"

text \<open>A row that changes gets a new \<open>updated_at\<close> (\<open>TimestampMixin\<close>).\<close>

definition set_strategy_state :: "uuid \<Rightarrow> strategy_state \<Rightarrow> int \<Rightarrow> strategy_db \<Rightarrow> strategy_db" where
  "set_strategy_state i s now d =
     d\<lparr>d_strategies := map (\<lambda>r.
         if sr_id r = i \<and> sr_state r \<noteq> strategy_state_value s
         then r\<lparr>sr_state := strategy_state_value s, sr_updated_at := Some (now * 1000)\<rparr> else r) (d_strategies d)\<rparr>"

definition update_strategy_state :: "env \<Rightarrow> uuid \<Rightarrow> strategy_state \<Rightarrow> ('r, strategy_db, 'm, unit) act" where
  "update_strategy_state env i new_state =
     mbind (mget w_now) (\<lambda>now. session env (\<lambda>d.
       Inr ((), if find_strategy i d = None then d else set_strategy_state i new_state now d)))"

definition save_rollback ::
  "env \<Rightarrow> uuid \<Rightarrow> int \<Rightarrow> int \<Rightarrow> string \<Rightarrow> string \<Rightarrow> ('r, strategy_db, 'm, unit) act" where
  "save_rollback env strategy_id from_version to_version reason rolled_back_by =
     mbind (mget w_now) (\<lambda>now. session env (\<lambda>d.
       ebind (varchars [(128, rolled_back_by)]) (\<lambda>_.
         Inr ((), d\<lparr>d_rollbacks := d_rollbacks d @
           [\<lparr>rb_strategy_id = strategy_id, rb_from_version = from_version, rb_to_version = to_version,
             rb_reason = reason, rb_rolled_back_by = rolled_back_by, rb_created_at_ms = now\<rparr>]\<rparr>))))"

definition create_run ::
  "env \<Rightarrow> uuid \<Rightarrow> int \<Rightarrow> string \<Rightarrow> int option \<Rightarrow> int option \<Rightarrow> ('r, strategy_db, 'm, uuid) act" where
  "create_run env strategy_id version run_type start_ms end_ms =
     mbind (uuid4 env) (\<lambda>i. session env (\<lambda>d.
       ebind (varchars [(32, run_type)]) (\<lambda>_.
       if list_ex (\<lambda>n. rn_id n = i) (d_runs d) then Inl (IntegrityError ''strategy_runs_pkey'')
       else if find_strategy strategy_id d = None then Inl (IntegrityError ''strategy_runs_strategy_id'')
       else Inr (i, d\<lparr>d_runs := d_runs d @
              [\<lparr>rn_id = i, rn_strategy_id = strategy_id, rn_version = version, rn_run_type = run_type,
                rn_status = ''running'', rn_start_ms = start_ms, rn_end_ms = end_ms, rn_stats = JObj []\<rparr>]\<rparr>))))"

definition update_run_status :: "env \<Rightarrow> uuid \<Rightarrow> string \<Rightarrow> json option \<Rightarrow> ('r, strategy_db, 'm, unit) act" where
  "update_run_status env run_id status stats =
     session env (\<lambda>d.
       if \<not> list_ex (\<lambda>n. rn_id n = run_id) (d_runs d) then Inr ((), d)
       else ebind (varchars [(32, status)]) (\<lambda>_. Inr ((), d\<lparr>d_runs := map (\<lambda>n.
              if rn_id n = run_id
              then n\<lparr>rn_status := status,
                     rn_stats := (case stats of Some j \<Rightarrow> if truthy j then j else rn_stats n | None \<Rightarrow> rn_stats n)\<rparr>
              else n) (d_runs d)\<rparr>)))"

section \<open>Configuration and state\<close>

record strategy_settings =
  st_consumer_group :: string
  st_consumer_name :: string
  st_batch_size :: int
  st_block_ms :: int
  st_max_intents_per_cycle :: int
  st_strategy_reload_interval_s :: rat
  st_allow_simulation_without_account :: bool

definition default_strategy_settings :: strategy_settings where
  "default_strategy_settings =
     \<lparr>st_consumer_group = ''strategy'', st_consumer_name = ''strategy-1'', st_batch_size = 50, st_block_ms = 500,
      st_max_intents_per_cycle = 10, st_strategy_reload_interval_s = 30,
      st_allow_simulation_without_account = True\<rparr>"

text \<open>\<open>sq_parse_snapshot\<close> is \<open>model_validate_json\<close> of \<open>UnifiedDecisionSnapshot\<close>.\<close>

record 'r strategy_consumer =
  sq_settings :: strategy_settings
  sq_ops :: "'r redis_ops"
  sq_env :: env
  sq_has_repository :: bool
  sq_parse_snapshot :: "rtext \<Rightarrow> exn + snapshot"

record 'r strategy_world = "('r, strategy_db) world" +
  g_registry :: "(uuid \<times> evaluator) list"
  g_last_reload :: rat
  g_clock :: rat

type_synonym ('r, 'a) gract = "('r strategy_world, 'a) prog"

section \<open>The registry\<close>

definition register :: "evaluator \<Rightarrow> ('r, unit) gract" where
  "register ev = mput (\<lambda>w. w\<lparr>g_registry := dict_set (eu_strategy_id ev) ev (g_registry w)\<rparr>)"

definition unregister :: "uuid \<Rightarrow> ('r, unit) gract" where
  "unregister i = mput (\<lambda>w. w\<lparr>g_registry := dict_del i (g_registry w)\<rparr>)"

definition registered :: "uuid \<Rightarrow> ('r, evaluator option) gract" where
  "registered i = mget (\<lambda>w. map_of (g_registry w) i)"

definition matching :: "string \<Rightarrow> evaluator list \<Rightarrow> exn + evaluator list" where
  "matching symbol = efilter (\<lambda>ev. matches_symbol (eu_symbol_filters ev) symbol)"

definition evaluators_for_symbol :: "string \<Rightarrow> ('r, evaluator list) gract" where
  "evaluators_for_symbol symbol = mbind (mget (\<lambda>w. map snd (g_registry w))) (\<lambda>evs. mlift (matching symbol evs))"

section \<open>The consumer of snapshots\<close>

definition intent_fields :: "env \<Rightarrow> trade_intent \<Rightarrow> uuid \<Rightarrow> fields" where
  "intent_fields env i evaluation_id =
     [(''intent'', Json (dump_intent (e_show env) (e_iso env) i)), (''evaluation_id'', Raw evaluation_id),
      (''strategy_id'', Raw (case ti_strategy_id i of None \<Rightarrow> [] | Some s \<Rightarrow> s))]"

definition publish_intent :: "'r strategy_consumer \<Rightarrow> trade_intent \<Rightarrow> uuid \<Rightarrow> ('r, unit) gract" where
  "publish_intent sv i evaluation_id =
     stream_publish (sq_ops sv) STRATEGY_INTENTS (intent_fields (sq_env sv) i evaluation_id)"

definition with_strategies :: "'r strategy_consumer \<Rightarrow> ('r, unit) gract \<Rightarrow> ('r, unit) gract" where
  "with_strategies sv m = mwhen (sq_has_repository sv) (mlogged m)"

definition emit_intent :: "'r strategy_consumer \<Rightarrow> evaluator \<Rightarrow> snapshot \<Rightarrow> strategy_evaluation \<Rightarrow> trade_intent \<Rightarrow> ('r, unit) gract" where
  "emit_intent sv ev s e i =
     mseq (publish_intent sv i (sl_id e))
          (with_strategies sv (save_action (sq_env sv) (eu_strategy_id ev) (eu_version ev) ''intent_published'' ''consumer''
             [(''intent_id'', JStr (ti_intent_id i)), (''symbol'', JStr (me_symbol (sn_meta s))),
              (''direction'', opt_json JStr (sl_direction e))]))"

definition evaluate_one :: "'r strategy_consumer \<Rightarrow> snapshot \<Rightarrow> evaluator \<Rightarrow> ('r, unit) gract" where
  "evaluate_one sv s ev =
     mlogged (mbind (evaluate_snapshot (sq_env sv) ev s None) (\<lambda>e.
       mseq (with_strategies sv (save_evaluation (sq_env sv) e))
            (case sl_trade_intent e of
               None \<Rightarrow> mret ()
             | Some i \<Rightarrow> mwhen (can_emit_intent ev \<and> sl_signal e) (emit_intent sv ev s e i))))"

definition strategy_ack :: "'r strategy_consumer \<Rightarrow> string \<Rightarrow> ('r, unit) gract" where
  "strategy_ack sv msg_id = ack (sq_ops sv) ANALYTICS_DERIVED (st_consumer_group (sq_settings sv)) msg_id"

definition strategy_process :: "'r strategy_consumer \<Rightarrow> string \<Rightarrow> fields \<Rightarrow> ('r, unit) gract" where
  "strategy_process sv msg_id fs =
     (case map_of fs ''snapshot'' of
        None \<Rightarrow> strategy_ack sv msg_id
      | Some raw \<Rightarrow>
          if \<not> text_truthy (Some raw) then strategy_ack sv msg_id
          else case sq_parse_snapshot sv raw of
                 Inl _ \<Rightarrow> strategy_ack sv msg_id
               | Inr s \<Rightarrow>
                   mbind (evaluators_for_symbol (me_symbol (sn_meta s))) (\<lambda>evs.
                   mseq (mfor evs (evaluate_one sv s)) (strategy_ack sv msg_id)))"

text \<open>A row whose state is unknown is passed over; one whose strategy cannot be built ends the reload.\<close>

definition register_row :: "'r strategy_consumer \<Rightarrow> strategy_row \<times> version_row \<Rightarrow> ('r, unit) gract" where
  "register_row sv p =
     (case p of (s, v) \<Rightarrow>
        mbind (mlift (build_strategy (sq_env sv) (sr_id s) (vr_version v) (py_or (vr_rules v) (JArr []))
                        (py_or (vr_parameters v) (JObj [])))) (\<lambda>st.
        case strategy_state_of (sr_state s) of
          Inl _ \<Rightarrow> mret ()
        | Inr state \<Rightarrow>
            register \<lparr>eu_strategy_id = sr_id s, eu_version = vr_version v, eu_state = state, eu_strategy = st,
                      eu_symbol_filters = py_or (sr_symbol_filters s) (JArr [])\<rparr>))"

definition reload_strategies :: "'r strategy_consumer \<Rightarrow> ('r, unit) gract" where
  "reload_strategies sv =
     mwhen (sq_has_repository sv)
       (mlogged (mbind (list_active_strategies (sq_env sv)) (\<lambda>rows.
          mseq (mput (\<lambda>w. w\<lparr>g_registry := []\<rparr>)) (mfor rows (register_row sv)))))"

definition strategy_tick :: "'r strategy_consumer \<Rightarrow> ('r, unit) gract" where
  "strategy_tick sv =
     (let st = sq_settings sv in
      mbind (mget (\<lambda>w. (g_clock w, g_last_reload w))) (\<lambda>(now, reloaded).
      mseq (mwhen (st_strategy_reload_interval_s st \<le> now - reloaded)
              (mseq (reload_strategies sv) (mput (\<lambda>w. w\<lparr>g_last_reload := now\<rparr>))))
     (mbind (stream_read_group (sq_ops sv) ANALYTICS_DERIVED (st_consumer_group st) (st_consumer_name st)
               (st_batch_size st) (st_block_ms st))
        (\<lambda>entries. mfor entries (\<lambda>(msg_id, fs). strategy_process sv msg_id fs)))))"

text \<open>\<open>start\<close>: the strategies are loaded, then each round reads the clock and ticks; an exception is logged.\<close>

primrec strategy_rounds :: "'r strategy_consumer \<Rightarrow> rat list \<Rightarrow> ('r, unit) gract" where
  "strategy_rounds sv [] = mret ()"
| "strategy_rounds sv (t # ts) =
     mseq (mput (\<lambda>w. w\<lparr>g_clock := t\<rparr>)) (mseq (mlogged (strategy_tick sv)) (strategy_rounds sv ts))"

definition strategy_start :: "'r strategy_consumer \<Rightarrow> rat list \<Rightarrow> ('r, unit) gract" where
  "strategy_start sv ts = mseq (reload_strategies sv) (strategy_rounds sv ts)"

end
