(* ===== verification/StrategyProperties.thy ===== *)
theory StrategyProperties
  imports StrategyService Demo
begin

text \<open>
  What the strategy service promises: confidences are shares, directions and intents agree with them, and a
  snapshot publishes only the intents of strategies that may emit, sized by the price of the snapshot.
\<close>

section \<open>Intents\<close>

text \<open>The intent is for the symbol and market of the snapshot and is sized by its price.\<close>

definition sized_by :: "snapshot \<Rightarrow> trade_intent \<Rightarrow> bool" where
  "sized_by s i =
     (case ti_size_usd i of None \<Rightarrow> False | Some u \<Rightarrow>
        ti_size i = (case ma_price (sn_market_state s) of Some p \<Rightarrow> if 0 < p then dec (u / p) else u | None \<Rightarrow> u))"

definition intent_for :: "strategy \<Rightarrow> snapshot \<Rightarrow> string \<Rightarrow> trade_intent \<Rightarrow> bool" where
  "intent_for st s direction i =
     (ti_strategy_id i = Some (sg_id st) \<and> ti_strategy_version i = Some (sg_version st) \<and>
      ti_symbol i = me_symbol (sn_meta s) \<and> ti_market_type i = me_market_type (sn_meta s) \<and>
      ti_side i = (if direction = ''BUY'' then BUY else SELL) \<and> sized_by s i \<and>
      ti_limit_price i = (if ti_order_type i = LIMIT then ma_price (sn_market_state s) else None))"

lemma build_intent_for:
  assumes "build_intent env (sg_id st) (sg_version st) direction parameters s explanation intent_id created_at = Inr i"
  shows "intent_for st s direction i"
  using assms by (auto simp: build_intent_def ebind_Inr intent_for_def sized_by_def Let_def)

lemma make_intent_for:
  assumes "make_intent env st direction s explanation w = (Inr i, w')"
  shows "intent_for st s direction i"
  using assms by (auto simp: make_intent_def mbind_Inr mget_def mlift_def mret_def dest: build_intent_for)

section \<open>Confidence\<close>

text \<open>The weights of rules that are not negative.\<close>

definition weight_ok :: "json \<Rightarrow> bool" where
  "weight_ok rule =
     (case rule of
        JObj d \<Rightarrow> (case py_float (dict_get ''weight'' (JNum 1) d) of Inr w \<Rightarrow> 0 \<le> w | Inl e \<Rightarrow> True)
      | _ \<Rightarrow> True)"

definition balanced :: "rule_totals \<Rightarrow> bool" where
  "balanced t =
     (0 \<le> rt_buy_weight t \<and> rt_buy_weight t \<le> rt_buy_total t \<and>
      0 \<le> rt_sell_weight t \<and> rt_sell_weight t \<le> rt_sell_total t \<and>
      fl (rt_buy_total t) = rt_buy_total t \<and> fl (rt_sell_total t) = rt_sell_total t)"

lemma balanced_no_totals: "balanced no_totals"
  by (simp add: balanced_def no_totals_def fl.zero)

lemma add_weight_balanced:
  assumes "0 \<le> w" "0 \<le> a" "a \<le> b" "fl b = b" "p \<Longrightarrow> q"
  shows "0 \<le> add_weight p w a \<and> add_weight p w a \<le> add_weight q w b \<and> fl (add_weight q w b) = add_weight q w b"
proof -
  have "a \<le> fl (b + w)" using fl.sum_ge [of b w] assms by simp
  then show ?thesis
    using assms fl.mono [of "a + w" "b + w"] by (auto simp: add_weight_def fl.nonneg fl.idem)
qed

lemma count_rule_balanced:
  assumes "balanced t" "0 \<le> w"
  shows "balanced (count_rule side w passed entry t)"
  using assms add_weight_balanced [of w "rt_buy_weight t" "rt_buy_total t"]
    add_weight_balanced [of w "rt_sell_weight t" "rt_sell_total t"]
  by (simp add: balanced_def count_rule_def Let_def)

lemma apply_rules_balanced:
  assumes "apply_rules env s rules t = Inr t'" "list_all weight_ok rules" "balanced t"
  shows "balanced t'"
  using assms
proof (induction rules arbitrary: t)
  case (Cons rule rules)
  then obtain u where u: "apply_rule env s rule t = Inr u" "apply_rules env s rules u = Inr t'"
    by (auto simp: ebind_Inr)
  then have "balanced u"
    using Cons.prems
    by (cases rule) (auto simp: apply_rule_def ebind_Inr Let_def weight_ok_def intro!: count_rule_balanced)
  then show ?case using Cons u by simp
qed simp

lemma fl_pos:
  assumes "0 < x"
  shows "0 < fl x"
proof -
  have "0 < (2 :: rat) powi sig_exp 2 x" by simp
  also have "\<dots> \<le> fl x" using round_sig_bounds [of 2 53 x] assms by (simp add: fl_def)
  finally show ?thesis .
qed

lemma share_unit: "0 \<le> a \<Longrightarrow> a \<le> b \<Longrightarrow> 0 \<le> share a b \<and> share a b \<le> 1"
  by (auto simp: share_def intro!: fl.unit [THEN conjunct1] fl.unit [THEN conjunct2])

lemma choose_side_cases:
  assumes "choose_side a b = (d, c)" "0 \<le> a" "a \<le> 1" "0 \<le> b" "b \<le> 1"
  shows "0 \<le> c \<and> c \<le> 1 \<and> (d = None \<longleftrightarrow> c = 0) \<and> (d = None \<or> d = Some ''BUY'' \<or> d = Some ''SELL'')"
  using assms by (auto simp: choose_side_def split: if_splits)

text \<open>Signal, confidence, direction and intent of a result agree.\<close>

definition coherent :: "strategy \<Rightarrow> snapshot \<Rightarrow> evaluation_result \<Rightarrow> bool" where
  "coherent st s r =
     ((case er_confidence r of None \<Rightarrow> \<not> er_signal r | Some c \<Rightarrow> 0 \<le> c \<and> c \<le> 1 \<and> er_signal r = (0 < c)) \<and>
      (case er_direction r of
         None \<Rightarrow> \<not> er_signal r \<and> er_trade_intent r = None
       | Some d \<Rightarrow> er_signal r \<and> d \<in> {''BUY'', ''SELL''} \<and>
           (case er_trade_intent r of None \<Rightarrow> False | Some i \<Rightarrow> intent_for st s d i)))"

lemma rule_based_coherent:
  assumes "\<And>rules. list_items (sg_rules st) = Inr rules \<Longrightarrow> list_all weight_ok rules"
    and "rule_based env st s w = (Inr r, w')"
  shows "coherent st s r"
proof -
  obtain rules t where t: "list_items (sg_rules st) = Inr rules" "apply_rules env s rules no_totals = Inr t"
    using assms(2) by (auto simp: rule_based_def mbind_Inr mlift_def ebind_Inr)
  have "balanced t" using apply_rules_balanced [OF t(2) assms(1) [OF t(1)] balanced_no_totals] .
  then have units: "0 \<le> share (rt_buy_weight t) (rt_buy_total t)" "share (rt_buy_weight t) (rt_buy_total t) \<le> 1"
      "0 \<le> share (rt_sell_weight t) (rt_sell_total t)" "share (rt_sell_weight t) (rt_sell_total t) \<le> 1"
    by (simp_all add: balanced_def share_unit)
  obtain d c where dc: "choose_side (share (rt_buy_weight t) (rt_buy_total t)) (share (rt_sell_weight t) (rt_sell_total t)) = (d, c)"
    by fastforce
  note choice = choose_side_cases [OF dc units]
  show ?thesis
  proof (cases d)
    case None
    then show ?thesis
      using assms(2) t dc choice by (auto simp: rule_based_def mbind_def mlift_def mret_def Let_def coherent_def)
  next
    case (Some x)
    then have "0 < c" using choice by auto
    then obtain i u where "make_intent env st x s (rule_explanation t (length rules)) w = (Inr i, u)"
        "er_trade_intent r = Some i" "er_signal r" "er_confidence r = Some c" "er_direction r = Some x"
      using assms(2) t dc Some
      by (auto simp: rule_based_def mbind_Inr mlift_def mret_def Let_def)
    then show ?thesis using make_intent_for choice Some \<open>0 < c\<close> by (auto simp: coherent_def)
  qed
qed

lemma crossing_gap:
  assumes "crossing a b = Inr (Some (d, g))" "0 < b"
  shows "0 < g \<and> d = (if a > b then ''BUY'' else ''SELL'') \<and> a \<noteq> b"
  using assms by (auto simp: crossing_def fl_pos split: if_splits)

lemma ma_crossover_coherent:
  assumes "\<And>a b. averages env st s = Some (a, b) \<Longrightarrow> 0 < fl b"
    and "ma_crossover env st s w = (Inr r, w')"
  shows "coherent st s r \<and> er_direction r =
     (case averages env st s of None \<Rightarrow> None
      | Some (a, b) \<Rightarrow> if fl a > fl b then Some ''BUY'' else if fl a < fl b then Some ''SELL'' else None)"
proof (cases "averages env st s")
  case None
  then show ?thesis using assms(2) by (auto simp: ma_crossover_def mret_def no_signal_def coherent_def)
next
  case (Some ab)
  obtain a b where ab: "ab = (a, b)" by fastforce
  obtain c where c: "crossing (fl a) (fl b) = Inr c"
    using assms(2) Some ab by (auto simp: ma_crossover_def mbind_Inr mlift_def Let_def)
  show ?thesis
  proof (cases c)
    case None
    then show ?thesis
      using assms(2) Some ab c
      by (auto simp: ma_crossover_def mbind_def mlift_def mret_def no_signal_def coherent_def Let_def crossing_def
          split: if_splits)
  next
    case (Some dg)
    obtain d g where dg: "dg = (d, g)" by fastforce
    have gap: "0 < g" "d = (if fl a > fl b then ''BUY'' else ''SELL'')" "fl a \<noteq> fl b"
      using crossing_gap [of "fl a" "fl b" d g] c Some dg assms(1) \<open>averages env st s = Some ab\<close> ab by simp_all
    obtain ex i u where "make_intent env st d s ex w = (Inr i, u)"
        "er_trade_intent r = Some i" "er_signal r" "er_confidence r = Some (min (fl (g * 100)) 1)" "er_direction r = Some d"
      using assms(2) \<open>averages env st s = Some ab\<close> ab c Some dg
      by (auto simp: ma_crossover_def mbind_Inr mlift_def mret_def Let_def)
    then show ?thesis
      using make_intent_for gap \<open>averages env st s = Some ab\<close> ab fl_pos [of "g * 100"]
      by (auto simp: coherent_def)
  qed
qed

text \<open>Weights are not negative, and averages of prices are positive.\<close>

definition well_posed :: "env \<Rightarrow> strategy \<Rightarrow> snapshot \<Rightarrow> bool" where
  "well_posed env st s =
     (case sg_kind st of
        RULE_BASED \<Rightarrow> (case list_items (sg_rules st) of Inl e \<Rightarrow> True | Inr rules \<Rightarrow> list_all weight_ok rules)
      | MA_CROSSOVER \<Rightarrow> (case averages env st s of None \<Rightarrow> True | Some (a, b) \<Rightarrow> 0 < fl b))"

text \<open>
  C27: When the weights of the rules are not negative and the averages positive, a strategy that evaluates
  gives a confidence between 0 and 1 although every sum and quotient is rounded; it signals exactly when the
  confidence is positive, exactly then it has a direction and an intent, and the intent is for that side, for
  the symbol of the snapshot, and sized by its price.  The crossover buys when the short average is above the
  long one and sells when it is below.
\<close>

theorem signals_agree_with_confidence:
  assumes "well_posed env st s" "evaluate_strategy env st s w = (Inr r, w')"
  shows "coherent st s r \<and> (sg_kind st = MA_CROSSOVER \<longrightarrow> er_direction r =
     (case averages env st s of None \<Rightarrow> None
      | Some (a, b) \<Rightarrow> if fl a > fl b then Some ''BUY'' else if fl a < fl b then Some ''SELL'' else None))"
proof (cases "sg_kind st")
  case RULE_BASED
  then show ?thesis
    using rule_based_coherent [where st = st and env = env and s = s and w = w and r = r and w' = w'] assms
    by (cases "list_items (sg_rules st)") (auto simp: evaluate_strategy_def well_posed_def)
next
  case MA_CROSSOVER
  then show ?thesis
    using ma_crossover_coherent [where st = st and env = env and s = s and w = w and r = r and w' = w'] assms
    by (cases "averages env st s") (auto simp: evaluate_strategy_def well_posed_def)
qed

section \<open>What a snapshot publishes\<close>

text \<open>A step that leaves the history and the registry alone.\<close>

definition idle :: "'r strategy_world \<Rightarrow> 'r strategy_world \<Rightarrow> bool" where
  "idle w w' = (w_trace w' = w_trace w \<and> g_registry w' = g_registry w)"

interpretation idle: frame idle
  by unfold_locales (auto simp: idle_def)

lemma idle_steps [moves]:
  "moves idle (uuid4 env)" "moves idle (on_redis m)" "moves idle (session env body)"
  by (auto simp: moves_def idle_def uuid4_def on_redis_def session_def Let_def split: prod.splits sum.splits)

lemma idle_make_intent [moves]: "moves idle (make_intent env st d s ex)"
  unfolding make_intent_def by (intro idle.rules moves)

lemma idle_new_evaluation [moves]: "moves idle (new_evaluation env ev s run_id signal d c ex i)"
  unfolding new_evaluation_def by (intro idle.rules moves)

lemma idle_rule_based [moves]: "moves idle (rule_based env st s)"
  unfolding rule_based_def by (auto intro!: idle.rules moves simp: Let_def split: option.split prod.split)

lemma idle_ma_crossover [moves]: "moves idle (ma_crossover env st s)"
  unfolding ma_crossover_def by (auto intro!: idle.rules moves simp: Let_def split: option.split prod.split)

lemma idle_evaluate [moves]: "moves idle (evaluate_snapshot env ev s run_id)"
  unfolding evaluate_snapshot_def blocked_eval_def evaluate_strategy_def
  by (auto intro!: idle.rules moves simp: Let_def split: strategy_kind.split)

lemma idle_saves [moves]:
  "moves idle (save_evaluation env e)" "moves idle (save_action env i n t b ds)"
  unfolding save_evaluation_def save_action_def by (intro idle.rules moves)+

text \<open>An intent in an evaluation: nothing was missing and it is the intent of the strategy.\<close>

lemma new_evaluation_intent:
  "new_evaluation env ev s run_id signal d c ex i w = (Inr e, w') \<Longrightarrow> sl_trade_intent e = i \<and> sl_direction e = d"
  by (auto simp: new_evaluation_def mbind_Inr mret_def)

lemma rule_based_intent:
  assumes "rule_based env st s w = (Inr r, w')" "er_trade_intent r = Some i"
  shows "\<exists>d. er_direction r = Some d \<and> intent_for st s d i"
proof -
  obtain rules t where t: "list_items (sg_rules st) = Inr rules" "apply_rules env s rules no_totals = Inr t"
    using assms(1) by (auto simp: rule_based_def mbind_Inr mlift_def ebind_Inr)
  obtain d c where dc: "choose_side (share (rt_buy_weight t) (rt_buy_total t)) (share (rt_sell_weight t) (rt_sell_total t)) = (d, c)"
    by fastforce
  show ?thesis
    using assms t dc
    by (cases d) (auto simp: rule_based_def mbind_Inr mlift_def mret_def Let_def split: if_splits intro: make_intent_for)
qed

lemma ma_crossover_intent:
  assumes "ma_crossover env st s w = (Inr r, w')" "er_trade_intent r = Some i"
  shows "\<exists>d. er_direction r = Some d \<and> intent_for st s d i"
proof (cases "averages env st s")
  case None
  then show ?thesis using assms by (auto simp: ma_crossover_def mret_def no_signal_def)
next
  case (Some ab)
  obtain a b where ab: "ab = (a, b)" by fastforce
  obtain c where c: "crossing (fl a) (fl b) = Inr c"
    using assms(1) Some ab by (auto simp: ma_crossover_def mbind_Inr mlift_def Let_def)
  show ?thesis
    using assms Some ab c
    by (cases c) (auto simp: ma_crossover_def mbind_Inr mlift_def mret_def no_signal_def Let_def, erule make_intent_for)
qed

lemma strategy_intent:
  assumes "evaluate_strategy env st s w = (Inr r, w')" "er_trade_intent r = Some i"
  shows "\<exists>d. er_direction r = Some d \<and> intent_for st s d i"
  using assms rule_based_intent ma_crossover_intent by (cases "sg_kind st") (auto simp: evaluate_strategy_def)

lemma evaluation_intent:
  assumes "evaluate_snapshot env ev s run_id w = (Inr e, w')" "sl_trade_intent e = Some i"
  shows "validate_snapshot env (eu_strategy ev) s = [] \<and>
    (\<exists>d. sl_direction e = Some d \<and> intent_for (eu_strategy ev) s d i)"
proof (cases "can_simulate (eu_state ev)")
  case False
  then show ?thesis
    using assms by (auto simp: evaluate_snapshot_def blocked_eval_def dest: new_evaluation_intent)
next
  case True
  then obtain r u where r: "evaluate_strategy env (eu_strategy ev) s w = (Inr r, u)"
    using assms(1) by (auto simp: evaluate_snapshot_def mbind_Inr Let_def)
  then have "validate_snapshot env (eu_strategy ev) s = [] \<and> sl_trade_intent e = er_trade_intent r \<and> sl_direction e = er_direction r"
    using assms True by (auto simp: evaluate_snapshot_def mbind_Inr Let_def split: if_splits dest!: new_evaluation_intent)
  then show ?thesis using strategy_intent [OF r] assms(2) by simp
qed

text \<open>What an entry on the stream of intents must have behind it.\<close>

definition justified :: "'r strategy_consumer \<Rightarrow> snapshot \<Rightarrow> evaluator \<Rightarrow> fields \<Rightarrow> bool" where
  "justified sv s ev fs =
     (can_emit_intents (eu_state ev) \<and> validate_snapshot (sq_env sv) (eu_strategy ev) s = [] \<and>
      (\<exists>i d evaluation_id. fs = intent_fields (sq_env sv) i evaluation_id \<and> intent_for (eu_strategy ev) s d i))"

text \<open>A step that publishes at most one intent, with the property \<open>P\<close>.\<close>

definition adds_intent :: "(fields \<Rightarrow> bool) \<Rightarrow> 'r strategy_world \<Rightarrow> 'r strategy_world \<Rightarrow> bool" where
  "adds_intent P w w' =
     (g_registry w' = g_registry w \<and>
      (w_trace w' = w_trace w \<or> (\<exists>fs. w_trace w' = w_trace w @ [Published STRATEGY_INTENTS fs] \<and> P fs)))"

lemma adds_idle: "idle u v \<Longrightarrow> adds_intent P v w \<Longrightarrow> adds_intent P u w"
    "adds_intent P u v \<Longrightarrow> idle v w \<Longrightarrow> adds_intent P u w" "idle v w \<Longrightarrow> adds_intent P v w"
  by (auto simp: adds_intent_def idle_def)

lemma adds_seq:
  assumes "moves (adds_intent P) m" "moves idle k"
  shows "moves (adds_intent P) (mseq m k)"
proof (rule movesI)
  fix w r w'
  assume run: "mseq m k w = (r, w')"
  obtain x v where m: "m w = (x, v)" by fastforce
  show "adds_intent P w w'"
    using run m movesD [OF assms(1) m] adds_idle(2) [OF _ movesD [OF assms(2)]]
    by (cases x) (auto simp: mseq_def mbind_def)
qed

lemma adds_after:
  assumes "moves idle m" "moves (adds_intent P) k"
  shows "moves (adds_intent P) (mseq m k)"
proof (rule movesI)
  fix w r w'
  assume run: "mseq m k w = (r, w')"
  obtain x v where m: "m w = (x, v)" by fastforce
  show "adds_intent P w w'"
    using run m movesD [OF assms(1) m] adds_idle(1) [OF _ movesD [OF assms(2)]] adds_idle(3)
    by (cases x) (auto simp: mseq_def mbind_def)
qed

lemma adds_publish: "P (intent_fields (sq_env sv) i e) \<Longrightarrow> moves (adds_intent P) (publish_intent sv i e)"
  by (auto simp: moves_def publish_intent_def stream_publish_def mseq_def mbind_def on_redis_def record_effect_def
      mput_def adds_intent_def split: prod.splits sum.splits)

lemma idle_with [moves]: "moves idle m \<Longrightarrow> moves idle (with_strategies sv m)"
  unfolding with_strategies_def by (intro idle.rules)

lemma adds_emit: "P (intent_fields (sq_env sv) i (sl_id e)) \<Longrightarrow> moves (adds_intent P) (emit_intent sv ev s e i)"
  unfolding emit_intent_def by (intro adds_seq adds_publish moves)

lemma adds_evaluate_one: "moves (adds_intent (justified sv s ev)) (evaluate_one sv s ev)"
proof (rule movesI)
  fix w r w'
  assume run: "evaluate_one sv s ev w = (r, w')"
  obtain x v where x: "evaluate_snapshot (sq_env sv) ev s None w = (x, v)" by fastforce
  then have v: "idle w v" by (rule movesD [OF idle_evaluate])
  show "adds_intent (justified sv s ev) w w'"
  proof (cases x)
    case (Inl e)
    then show ?thesis
      using run x v by (auto simp: evaluate_one_def mlogged_def mtry_def mbind_def mret_def adds_idle(3))
  next
    case (Inr e)
    have "moves (adds_intent (justified sv s ev)) (emit_intent sv ev s e i)"
      if "sl_trade_intent e = Some i" "can_emit_intent ev" for i
      using evaluation_intent [OF x [unfolded Inr] that(1)] that(2)
      by (intro adds_emit) (auto simp: justified_def can_emit_intent_def)
    then have "moves (adds_intent (justified sv s ev)) (case sl_trade_intent e of
               None \<Rightarrow> mret ()
             | Some i \<Rightarrow> mwhen (can_emit_intent ev \<and> sl_signal e) (emit_intent sv ev s e i))"
      by (auto split: option.split simp: moves_def mwhen_def mret_def adds_intent_def)
    then have "moves (adds_intent (justified sv s ev)) (mseq (with_strategies sv (save_evaluation (sq_env sv) e))
            (case sl_trade_intent e of
               None \<Rightarrow> mret ()
             | Some i \<Rightarrow> mwhen (can_emit_intent ev \<and> sl_signal e) (emit_intent sv ev s e i)))"
      by (intro adds_after moves)
    then have "adds_intent (justified sv s ev) v w'"
      using run x Inr by (auto simp: evaluate_one_def mlogged_def mtry_def mbind_def mret_def split: prod.splits sum.splits
          dest: movesD)
    then show ?thesis using adds_idle(1) [OF v] by simp
  qed
qed

lemma returns_evaluate_one: "returns (evaluate_one sv s ev)"
  unfolding evaluate_one_def by (rule returns)

text \<open>Each strategy has its turn, whatever the others did.\<close>

lemma evaluate_all:
  "\<exists>w' ps. mfor evs (evaluate_one sv s) w = (Inr (), w') \<and> g_registry w' = g_registry w \<and> subseq (map fst ps) evs \<and>
     list_all (\<lambda>(ev, fs). justified sv s ev fs) ps \<and>
     w_trace w' = w_trace w @ map (\<lambda>(ev, fs). Published STRATEGY_INTENTS fs) ps"
proof (induction evs arbitrary: w)
  case Nil
  then show ?case by (auto simp: mret_def intro: exI [of _ "[]"])
next
  case (Cons ev evs)
  obtain v where v: "evaluate_one sv s ev w = (Inr (), v)"
    using returnsD [OF returns_evaluate_one, of sv s ev w] by auto
  have step: "adds_intent (justified sv s ev) w v" using movesD [OF adds_evaluate_one v] .
  obtain w' ps where rest: "mfor evs (evaluate_one sv s) v = (Inr (), w')" "g_registry w' = g_registry v"
      "subseq (map fst ps) evs" "list_all (\<lambda>(ev, fs). justified sv s ev fs) ps"
      "w_trace w' = w_trace v @ map (\<lambda>(ev, fs). Published STRATEGY_INTENTS fs) ps"
    using Cons by blast
  have run: "mfor (ev # evs) (evaluate_one sv s) w = (Inr (), w')"
    using v rest(1) by (simp add: mseq_def mbind_def)
  from step consider "w_trace v = w_trace w" | fs where "w_trace v = w_trace w @ [Published STRATEGY_INTENTS fs]" "justified sv s ev fs"
    by (auto simp: adds_intent_def)
  then show ?case
  proof cases
    case 1
    then show ?thesis using run rest step by (auto simp: adds_intent_def intro!: exI [of _ ps])
  next
    case (2 fs)
    then show ?thesis using run rest step by (auto simp: adds_intent_def intro!: exI [of _ "(ev, fs) # ps"])
  qed
qed

text \<open>The snapshot of an entry, if it has one.\<close>

definition read_snapshot :: "'r strategy_consumer \<Rightarrow> fields \<Rightarrow> snapshot option" where
  "read_snapshot sv fs =
     (case map_of fs ''snapshot'' of
        None \<Rightarrow> None
      | Some raw \<Rightarrow> if text_truthy (Some raw) then the_ok (sq_parse_snapshot sv raw) else None)"

lemma strategy_ack_run:
  "\<exists>w'. strategy_ack sv msg_id w = (Inr (), w') \<and> g_registry w' = g_registry w \<and>
     w_trace w' = w_trace w @ [Acked ANALYTICS_DERIVED (st_consumer_group (sq_settings sv)) msg_id]"
  by (auto simp: strategy_ack_def ack_def mseq_def mbind_def record_effect_def mput_def mlogged_def mtry_def mret_def
      on_redis_def split: prod.splits sum.splits)

lemma strategy_process_cases:
  "strategy_process sv msg_id fs =
     (case read_snapshot sv fs of
        None \<Rightarrow> strategy_ack sv msg_id
      | Some s \<Rightarrow> mbind (evaluators_for_symbol (me_symbol (sn_meta s))) (\<lambda>evs.
                   mseq (mfor evs (evaluate_one sv s)) (strategy_ack sv msg_id)))"
  by (auto simp: strategy_process_def read_snapshot_def the_ok_def split: option.split sum.split)


section \<open>A concrete service\<close>

text \<open>
  A snapshot, and three crossovers on its symbol: one that trades on paper, one whose size is no number, and one
  in simulation.
\<close>

definition demo_indicators :: indicator_values where
  "demo_indicators =
     \<lparr>iv_ema_9 = Some 101, iv_ema_21 = Some 100, iv_ema_50 = None, iv_ema_200 = None, iv_rsi_14 = None, iv_vwap = None,
      iv_bb_upper = None, iv_bb_middle = None, iv_bb_lower = None, iv_bb_width = None, iv_atr_14 = None\<rparr>"

definition demo_snapshot :: snapshot where
  "demo_snapshot =
     default_snapshot \<lparr>me_snapshot_timestamp_ms = 1, me_symbol = ''BTC'', me_market_type = FUTURES,
                       me_account_id = None, me_sources = [], me_staleness_ms = []\<rparr>
       \<lparr>sn_market_state := default_market_state\<lparr>ma_price := Some 50000\<rparr>, sn_by_interval := [(''1m'', demo_indicators)]\<rparr>"

definition demo_strategy :: "string \<Rightarrow> json \<Rightarrow> strategy" where
  "demo_strategy i size_usd =
     \<lparr>sg_kind = MA_CROSSOVER, sg_id = i, sg_version = 1, sg_parameters = [(''size_usd'', size_usd)], sg_rules = JArr []\<rparr>"

definition demo_evaluator :: "string \<Rightarrow> strategy_state \<Rightarrow> json \<Rightarrow> evaluator" where
  "demo_evaluator i state size_usd =
     \<lparr>eu_strategy_id = i, eu_version = 1, eu_state = state, eu_strategy = demo_strategy i size_usd,
      eu_symbol_filters = JArr [JStr ''BTC'']\<rparr>"

definition demo_strategy_db :: strategy_db where
  "demo_strategy_db =
     \<lparr>d_accounts = [], d_approvals = [], d_policies = [], d_credentials = [], d_balances = [], d_positions = [],
      d_orders = [], d_fills = [], d_jobs = [], d_job_events = [], d_incidents = [], d_strategies = [], d_versions = [],
      d_runs = [], d_evaluations = [], d_actions = [], d_rollbacks = []\<rparr>"

definition demo_service :: "mem_redis strategy_world" where
  "demo_service =
     \<lparr>w_redis = empty_mem, w_db = demo_strategy_db, w_sessions = 0, w_uuids = 0, w_now = 1700000000000, w_trace = [],
      g_registry = [(''a'', demo_evaluator ''a'' PAPER_ACTIVE (JStr ''x'')), (''b'', demo_evaluator ''b'' SIMULATION (JInt 100)),
                    (''c'', demo_evaluator ''c'' PAPER_ACTIVE (JInt 100))],
      g_last_reload = 0, g_clock = 0\<rparr>"

definition demo_strategy_consumer :: "mem_redis strategy_consumer" where
  "demo_strategy_consumer =
     \<lparr>sq_settings = default_strategy_settings, sq_ops = mem_ops, sq_env = demo_env, sq_has_repository = True,
      sq_parse_snapshot = (\<lambda>raw. if raw = Raw ''snapshot'' then Inr demo_snapshot else Inl ValidationError)\<rparr>"

lemma demo_strategy_sel [simp]:
  "sg_kind (demo_strategy i v) = MA_CROSSOVER" "sg_id (demo_strategy i v) = i" "sg_version (demo_strategy i v) = 1"
  "sg_parameters (demo_strategy i v) = [(''size_usd'', v)]" "sg_rules (demo_strategy i v) = JArr []"
  by (simp_all add: demo_strategy_def)

lemma demo_values:
  "averages demo_env (demo_strategy i v) demo_snapshot = Some (101, 100)"
  "crossing 101 100 = Inr (Some (''BUY'', fl (1 / 100)))"
  "min (fl (fl (1 / 100) * 100)) 1 = 1" "fl 100 = 100" "fl 101 = 101"
  "dec_of_str demo_env (JInt 100) = Inr 100" "dec_of_str demo_env (JStr ''x'') = Inl InvalidOperation"
proof -
  have "crossover_interval demo_env (demo_strategy i v) = ''1m''"
    by (simp add: crossover_interval_def str_of_def demo_strategy_def dict_get_def)
  then show "averages demo_env (demo_strategy i v) demo_snapshot = Some (101, 100)"
    by (simp add: averages_def demo_snapshot_def default_snapshot_def demo_indicators_def)
  show "crossing 101 100 = Inr (Some (''BUY'', fl (1 / 100)))" "min (fl (fl (1 / 100) * 100)) 1 = 1" "fl 100 = 100" "fl 101 = 101"
    "dec_of_str demo_env (JInt 100) = Inr 100" "dec_of_str demo_env (JStr ''x'') = Inl InvalidOperation"
    by code_simp+
qed

lemma demo_signal:
  "\<exists>i ex. evaluate_strategy demo_env (demo_strategy x (JInt 100)) demo_snapshot w =
     (Inr \<lparr>er_signal = True, er_direction = Some ''BUY'', er_confidence = Some 1, er_trade_intent = Some i,
           er_explanation = ex, er_degraded = False, er_failure_reason = None\<rparr>, w\<lparr>w_uuids := Suc (w_uuids w)\<rparr>)"
proof -
  have "\<exists>i. build_intent demo_env x 1 ''BUY'' [(''size_usd'', JInt 100)] demo_snapshot ex u t = Inr i" for ex u t
    by (simp add: build_intent_def Let_def dict_get_def demo_values protective_price_def split: option.split)
  then obtain i where i: "\<And>ex u t. build_intent demo_env x 1 ''BUY'' [(''size_usd'', JInt 100)] demo_snapshot ex u t = Inr (i ex u t)"
    by metis
  show ?thesis
    by (simp add: evaluate_strategy_def ma_crossover_def demo_values i Let_def mbind_def mlift_def mret_def make_intent_def
        mget_def uuid4_def)
qed

lemma demo_failure:
  "fst (evaluate_strategy demo_env (demo_strategy x (JStr ''y'')) demo_snapshot w) = Inl InvalidOperation"
proof -
  have "dec_of_str demo_env (JStr ''y'') = Inl InvalidOperation" by code_simp
  then have "build_intent demo_env x 1 ''BUY'' [(''size_usd'', JStr ''y'')] demo_snapshot ex u t = Inl InvalidOperation" for ex u t
    by (simp add: build_intent_def Let_def dict_get_def)
  then show ?thesis
    by (simp add: evaluate_strategy_def ma_crossover_def demo_values Let_def mbind_def mlift_def mret_def make_intent_def
        mget_def uuid4_def)
qed

lemma signals_agree_with_confidence_witness:
  "case fst (evaluate_strategy demo_env (demo_strategy ''c'' (JInt 100)) demo_snapshot demo_service) of
     Inl e \<Rightarrow> False
   | Inr r \<Rightarrow> coherent (demo_strategy ''c'' (JInt 100)) demo_snapshot r \<and> er_direction r = Some ''BUY'' \<and>
              er_trade_intent r \<noteq> None"
proof -
  obtain i ex w' where run: "evaluate_strategy demo_env (demo_strategy ''c'' (JInt 100)) demo_snapshot demo_service =
     (Inr \<lparr>er_signal = True, er_direction = Some ''BUY'', er_confidence = Some 1, er_trade_intent = Some i,
           er_explanation = ex, er_degraded = False, er_failure_reason = None\<rparr>, w')"
    using demo_signal by blast
  have "well_posed demo_env (demo_strategy ''c'' (JInt 100)) demo_snapshot" by (simp add: well_posed_def demo_values)
  from signals_agree_with_confidence [OF this run] run show ?thesis by simp
qed

text \<open>The first strategy fails, the second may not emit, and the third publishes its intent.\<close>

lemma demo_publishes:
  "\<exists>fs. w_trace (snd (evaluate_one (demo_strategy_consumer\<lparr>sq_has_repository := False\<rparr>) demo_snapshot
     (demo_evaluator ''c'' PAPER_ACTIVE (JInt 100)) demo_service)) =
     [Published STRATEGY_INTENTS fs]"
proof -
  obtain i ex where run: "evaluate_strategy demo_env (demo_strategy ''c'' (JInt 100)) demo_snapshot demo_service =
     (Inr \<lparr>er_signal = True, er_direction = Some ''BUY'', er_confidence = Some 1, er_trade_intent = Some i,
           er_explanation = ex, er_degraded = False, er_failure_reason = None\<rparr>, demo_service\<lparr>w_uuids := Suc (w_uuids demo_service)\<rparr>)"
    using demo_signal by blast
  have complete: "validate_snapshot demo_env (demo_strategy ''c'' (JInt 100)) demo_snapshot = []"
    by (simp add: validate_snapshot_def demo_values) (simp add: missing_sections_def demo_snapshot_def default_snapshot_def)
  obtain e v where e: "evaluate_snapshot demo_env (demo_evaluator ''c'' PAPER_ACTIVE (JInt 100)) demo_snapshot None demo_service = (Inr e, v)"
      "sl_signal e" "sl_trade_intent e = Some i" "w_trace v = []" "w_redis v = empty_mem"
    using run complete
    by (auto simp: evaluate_snapshot_def demo_evaluator_def can_simulate_def EMIT_STATES_def Let_def mbind_def new_evaluation_def
        uuid4_def mget_def mret_def demo_service_def)
  have emits: "can_emit_intent (demo_evaluator ''c'' PAPER_ACTIVE (JInt 100))"
    by (simp add: demo_evaluator_def can_emit_intent_def can_emit_intents_def EMIT_STATES_def)
  show ?thesis
    using e emits
    by (simp add: evaluate_one_def demo_strategy_consumer_def with_strategies_def emit_intent_def publish_intent_def
        stream_publish_def mlogged_def mtry_def mbind_def mseq_def mwhen_def mret_def on_redis_def record_effect_def mput_def mem_ops_def mem_cmd_def
        empty_mem_def)
qed


text \<open>
  One row whose parameters are no dict ends a reload: the registry was cleared before, and the strategies after the
  row are gone until the row is mended.
\<close>

definition demo_row :: "string \<Rightarrow> json \<Rightarrow> strategy_row \<times> version_row" where
  "demo_row i parameters =
     (\<lparr>sr_id = i, sr_user_id = ''u'', sr_name = i, sr_description = [], sr_market_type = ''futures'', sr_symbol_filters = JArr [],
       sr_state = ''paper_active'', sr_current_version = 1, sr_created_at = None, sr_updated_at = None\<rparr>,
      \<lparr>vr_strategy_id = i, vr_version = 1, vr_rules = JArr [], vr_parameters = parameters, vr_approval_required = ''l1_simulation'',
       vr_change_note = [], vr_created_by = ''u'', vr_created_at_ms = 0\<rparr>)"

lemma broken_row_drops_the_rest:
  "map fst (g_registry (snd (reload_strategies demo_strategy_consumer
     (demo_service\<lparr>w_db := demo_strategy_db
        \<lparr>d_strategies := [fst (demo_row ''a'' (JArr [JInt 1])), fst (demo_row ''b'' (JObj []))],
         d_versions := [snd (demo_row ''a'' (JArr [JInt 1])), snd (demo_row ''b'' (JObj []))]\<rparr>\<rparr>)))) = []"
  by code_simp

end
