(* ===== verification/McpReads.thy ===== *)
theory McpReads
  imports McpAuth StrategyService Listener
begin

text \<open>
  The read-only facades of the MCP server: the market state in Redis (\<open>facades/market.py\<close>), accounts and
  streams (\<open>facades/account.py\<close>), executions and incidents (\<open>facades/execution.py\<close>) and strategies
  (\<open>facades/strategy.py\<close>).  Arguments come from JSON, so each function takes them as they are.
\<close>

type_synonym ('r, 'm, 'a) fact = "(('r, strategy_db, 'm) world_scheme, 'a) prog"

section \<open>Reading\<close>

text \<open>A text of Redis that is there and not empty.\<close>

definition read_text :: "'r redis_ops \<Rightarrow> string \<Rightarrow> ('r, 'm, rtext option) fact" where
  "read_text ops k = mbind (on_redis (r_get ops k)) (\<lambda>t. mret (if text_truthy t then t else None))"

definition read_json :: "'r redis_ops \<Rightarrow> string \<Rightarrow> ('r, 'm, json option) fact" where
  "read_json ops k =
     mbind (read_text ops k) (\<lambda>t. case t of None \<Rightarrow> mret None | Some v \<Rightarrow> mbind (mlift (json_loads v)) (\<lambda>j. mret (Some j)))"

text \<open>\<open>uuid.UUID(v)\<close>: a text that is none is a \<open>ValueError\<close>, anything else has no \<open>replace\<close>.\<close>

definition uuid_of :: "json \<Rightarrow> exn + uuid option" where
  "uuid_of v = (case v of JStr s \<Rightarrow> Inr (parse_uuid s) | _ \<Rightarrow> Inl AttributeError)"

section \<open>The market\<close>

text \<open>A field promoted to the top of a snapshot that does not have it yet.\<close>

definition promote :: "env \<Rightarrow> json \<Rightarrow> string \<Rightarrow> string \<Rightarrow> (string \<times> json) list \<Rightarrow> exn + (string \<times> json) list" where
  "promote env ms k field d =
     ebind (obj_get ms k JNull) (\<lambda>v.
       Inr (if v \<noteq> JNull \<and> map_of d field = None then dict_set field (JStr (str_of env v)) d else d))"

definition inject_price_fields :: "env \<Rightarrow> (string \<times> json) list \<Rightarrow> exn + (string \<times> json) list" where
  "inject_price_fields env d =
     (let ms = py_or (dict_get ''market_state'' JNull d) (JObj []) in
      ebind (promote env ms ''price'' ''last_price'' d) (\<lambda>d.
      ebind (promote env ms ''bid'' ''bid'' d) (promote env ms ''ask'' ''ask'')))"

definition age_field :: "int \<Rightarrow> string \<Rightarrow> json \<Rightarrow> (string \<times> json) list \<Rightarrow> exn + (string \<times> json) list" where
  "age_field now k ts d = (if truthy ts then ebind (py_int ts) (\<lambda>t. Inr (dict_set k (JInt (max 0 (now - t))) d)) else Inr d)"

definition text_field :: "env \<Rightarrow> string \<Rightarrow> json \<Rightarrow> (string \<times> json) list \<Rightarrow> (string \<times> json) list" where
  "text_field env k v d = (if truthy v then dict_set k (JStr (str_of env v)) d else d)"

text \<open>The spread to two places; a price that is no number leaves it out.\<close>

definition spread_field :: "env \<Rightarrow> json \<Rightarrow> json \<Rightarrow> (string \<times> json) list \<Rightarrow> (string \<times> json) list" where
  "spread_field env bid ask d =
     (if truthy bid \<and> truthy ask
      then case ebind (dec_of_str env ask) (\<lambda>a. ebind (dec_of_str env bid) (\<lambda>b. quantize 2 (dec (a - b)))) of
             Inl _ \<Rightarrow> d
           | Inr x \<Rightarrow> dict_set ''spread'' (JStr (show_dec env x)) d
      else d)"

definition price_part :: "env \<Rightarrow> int \<Rightarrow> json \<Rightarrow> (string \<times> json) list \<Rightarrow> exn + (string \<times> json) list" where
  "price_part env now data d =
     ebind (obj_get data ''price'' JNull) (\<lambda>p.
     ebind (obj_get data ''ts'' JNull) (\<lambda>ts.
       age_field now ''price_age_ms'' ts (text_field env ''last_price'' p d)))"

definition book_part :: "env \<Rightarrow> int \<Rightarrow> json \<Rightarrow> (string \<times> json) list \<Rightarrow> exn + (string \<times> json) list" where
  "book_part env now book d =
     ebind (obj_get book ''bid_price'' JNull) (\<lambda>bid.
     ebind (obj_get book ''ask_price'' JNull) (\<lambda>ask.
     ebind (obj_get book ''ts'' JNull) (\<lambda>ts.
       age_field now ''bid_ask_age_ms'' ts
         (spread_field env bid ask (text_field env ''ask'' ask (text_field env ''bid'' bid d))))))"

text \<open>
  The parts that are there, and what they add to the top level.  The state is the pair of the two dicts.
\<close>

type_synonym parts = "(string \<times> json) list \<times> (string \<times> json) list"

definition add_part ::
  "'r redis_ops \<Rightarrow> string \<Rightarrow> string \<Rightarrow> (json \<Rightarrow> (string \<times> json) list \<Rightarrow> exn + (string \<times> json) list) \<Rightarrow> parts \<Rightarrow>
   ('r, 'm, parts) fact" where
  "add_part ops name k f p =
     mbind (read_json ops k) (\<lambda>v. case v of
       None \<Rightarrow> mret p
     | Some j \<Rightarrow> mbind (mlift (f j (fst p))) (\<lambda>d. mret (d, dict_set name j (snd p))))"

definition analytics_key :: "string \<Rightarrow> string \<Rightarrow> string \<Rightarrow> string" where
  "analytics_key mt symbol part = ''analytics:'' @ mt @ '':'' @ symbol @ '':'' @ part"

fun add_parts :: "'r redis_ops \<Rightarrow> (string \<times> string) list \<Rightarrow> parts \<Rightarrow> ('r, 'm, parts) fact" where
  "add_parts ops [] p = mret p"
| "add_parts ops ((name, k) # ks) p = mbind (add_part ops name k (\<lambda>j d. Inr d) p) (add_parts ops ks)"

definition assembled_snapshot :: "'r redis_ops \<Rightarrow> env \<Rightarrow> json \<Rightarrow> json \<Rightarrow> ('r, 'm, json) fact" where
  "assembled_snapshot ops env market_type symbol =
     (let mt = str_of env market_type; sy = str_of env symbol in
      mbind (mget w_now) (\<lambda>now.
      mbind (add_part ops ''price'' (market_price_key mt sy) (price_part env now)
               ([(''symbol'', symbol), (''market_type'', market_type), (''source'', JStr ''assembled''), (''available'', JObj [])], []))
     (\<lambda>p. mbind (add_part ops ''book_ticker'' (market_book_ticker_key mt sy) (book_part env now) p)
     (\<lambda>p. mbind (add_parts ops
            [(''mark'', market_mark_key mt sy), (''funding'', market_funding_key mt sy),
             (''cvd'', analytics_key mt sy ''cvd''), (''delta'', analytics_key mt sy ''delta''),
             (''rvol'', analytics_key mt sy ''rvol''),
             (''liquidation_clusters'', analytics_key mt sy ''liquidation_clusters''),
             (''funding_pressure'', analytics_key mt sy ''funding_pressure'')] p)
     (\<lambda>(d, available). mret (JObj
        (let d = dict_set ''available'' (JObj available) d in
         if available = []
         then dict_set ''message'' (JStr (''No data available for '' @ sy @ ''/'' @ mt @
                ''. Ensure the ingest, normalizer, and analytics services are running.'')) d
         else d)))))))"

definition mcp_symbol_snapshot :: "'r redis_ops \<Rightarrow> env \<Rightarrow> json \<Rightarrow> json \<Rightarrow> ('r, 'm, json) fact" where
  "mcp_symbol_snapshot ops env market_type symbol =
     mbind (read_json ops (analytics_snapshot_key (str_of env market_type) (str_of env symbol))) (\<lambda>v.
     case v of
       None \<Rightarrow> assembled_snapshot ops env market_type symbol
     | Some (JObj d) \<Rightarrow>
         mbind (mlift (inject_price_fields env
           (dict_set ''source'' (JStr ''analytics_snapshot'') (dict_set ''market_type'' market_type (dict_set ''symbol'' symbol d)))))
         (\<lambda>d. mret (JObj d))
     | Some _ \<Rightarrow> mraise TypeError)"

text \<open>\<open>get_current_price\<close>: the last price, else the middle of the book.\<close>

definition mcp_current_price :: "'r redis_ops \<Rightarrow> env \<Rightarrow> string \<Rightarrow> string \<Rightarrow> ('r, 'm, string option) fact" where
  "mcp_current_price ops env mt symbol =
     mbind (read_json ops (market_price_key mt symbol)) (\<lambda>v. case v of
       Some data \<Rightarrow>
         mbind (mlift (obj_get data ''price'' JNull)) (\<lambda>p. mbind (mlift (obj_get data ''mark_price'' JNull)) (\<lambda>m.
           mret (Some (str_of env (py_or p (py_or m (JStr [])))))))
     | None \<Rightarrow>
         mbind (read_json ops (market_book_ticker_key mt symbol)) (\<lambda>b. case b of
           None \<Rightarrow> mret None
         | Some book \<Rightarrow>
             mbind (mlift (obj_get book ''bid_price'' JNull)) (\<lambda>bid. mbind (mlift (obj_get book ''ask_price'' JNull)) (\<lambda>ask.
             if truthy bid \<and> truthy ask
             then mbind (mlift (dec_of_str env bid)) (\<lambda>x. mbind (mlift (dec_of_str env ask)) (\<lambda>y.
                    mret (Some (show_dec env (dec (dec (x + y) / 2))))))
             else mret None))))"

section \<open>Accounts\<close>

definition STREAM_STALE_MS :: int where "STREAM_STALE_MS = 120000"

definition BALANCE_STALE_MS :: int where "BALANCE_STALE_MS = 300000"

definition invalid_account :: json where
  "invalid_account = JObj [(''error'', JStr ''invalid_account_id'')]"

definition stream_age :: "int \<Rightarrow> account_row \<Rightarrow> int option" where
  "stream_age now a = (case ac_stream_last_event_ms a of Some t \<Rightarrow> if t = 0 then None else Some (now - t) | None \<Rightarrow> None)"

text \<open>The cached status of a stream; one that is no JSON counts as absent.\<close>

definition cached_status :: "'r redis_ops \<Rightarrow> account_row \<Rightarrow> ('r, 'm, json option) fact" where
  "cached_status ops a =
     mbind (read_text ops (account_stream_status_key (ac_id a))) (\<lambda>t. mret (case t of None \<Rightarrow> None | Some v \<Rightarrow> the_ok (json_loads v)))"

text \<open>\<open>(redis_data or {}).get(k) or dflt\<close>.\<close>

definition status_field :: "json option \<Rightarrow> string \<Rightarrow> json \<Rightarrow> exn + json" where
  "status_field cached k dflt =
     ebind (obj_get (py_or (case cached of None \<Rightarrow> JNull | Some j \<Rightarrow> j) (JObj [])) k JNull) (\<lambda>v. Inr (py_or v dflt))"

definition connection_json :: "int \<Rightarrow> account_row \<Rightarrow> json option \<Rightarrow> exn + json" where
  "connection_json now a cached =
     ebind (status_field cached ''status'' (JStr (ac_stream_status a))) (\<lambda>status.
     ebind (status_field cached ''error'' (opt_json JStr (ac_stream_error a))) (\<lambda>err.
     let age = stream_age now a in
     Inr (JObj [(''account_id'', JStr (ac_id a)), (''account_label'', JStr (ac_account_label a)),
           (''venue'', JStr (ac_venue a)), (''trading_mode'', JStr (ac_trading_mode a)),
           (''approval_level'', JStr (ac_approval_level a)), (''connection_status'', JStr (ac_connection_status a)),
           (''last_connectivity_check_ms'', opt_json JInt (ac_last_connectivity_check_ms a)),
           (''stream_status'', status), (''stream_last_event_ms'', opt_json JInt (ac_stream_last_event_ms a)),
           (''stream_age_ms'', opt_json JInt age), (''stream_error'', err),
           (''stale'', JBool (case age of None \<Rightarrow> True | Some n \<Rightarrow> STREAM_STALE_MS < n)),
           (''stale_threshold_ms'', JInt STREAM_STALE_MS),
           (''source_of_truth'', JStr (if cached = None then ''db_fallback'' else ''redis_live''))])))"

definition mcp_connection_status :: "'r redis_ops \<Rightarrow> env \<Rightarrow> json \<Rightarrow> ('r, 'm, json) fact" where
  "mcp_connection_status ops env account_id =
     mbind (mget w_now) (\<lambda>now.
     mbind (mlift (if truthy account_id then ebind (uuid_of account_id) (\<lambda>u. Inr (Some u)) else Inr None)) (\<lambda>wanted.
     case wanted of
       Some None \<Rightarrow> mret invalid_account
     | _ \<Rightarrow>
         mbind (query env (\<lambda>d. filter (\<lambda>a. case wanted of Some (Some u) \<Rightarrow> ac_id a = u | _ \<Rightarrow> ac_is_active a) (d_accounts d)))
         (\<lambda>accounts. mbind (mcollect (\<lambda>a. mbind (cached_status ops a) (\<lambda>c. mlift (connection_json now a c))) accounts)
         (\<lambda>rows. mret (if truthy account_id \<and> rows \<noteq> [] then hd rows
                       else JObj [(''accounts'', JArr rows), (''count'', JInt (int (length rows)))])))))"

text \<open>The largest of some numbers; anything else cannot be compared with a time.\<close>

definition number_of :: "json \<Rightarrow> exn + rat" where
  "number_of v =
     (case v of JInt n \<Rightarrow> Inr (of_int n) | JNum x \<Rightarrow> Inr x | JBool b \<Rightarrow> Inr (if b then 1 else 0) | _ \<Rightarrow> Inl TypeError)"

fun largest :: "json \<Rightarrow> json list \<Rightarrow> exn + json" where
  "largest m [] = Inr m"
| "largest m (v # vs) = ebind (number_of m) (\<lambda>a. ebind (number_of v) (\<lambda>b. largest (if b > a then v else m) vs))"

definition last_updated :: "json list \<Rightarrow> exn + json option" where
  "last_updated entries =
     ebind (emap (\<lambda>b. obj_get b ''updated_at_ms'' JNull) entries) (\<lambda>ts.
     case filter truthy ts of
       [] \<Rightarrow> Inr None
     | t # ts \<Rightarrow> ebind (largest t ts) (\<lambda>m. ebind (number_of m) (\<lambda>_. Inr (Some m))))"

definition is_old :: "int \<Rightarrow> json option \<Rightarrow> bool" where
  "is_old now t =
     (case t of None \<Rightarrow> True
      | Some v \<Rightarrow> (case number_of v of Inl _ \<Rightarrow> True
          | Inr x \<Rightarrow> of_int BALANCE_STALE_MS < (case v of JNum _ \<Rightarrow> fl (of_int now - x) | _ \<Rightarrow> of_int now - x)))"

text \<open>The answer of the cache, or an exception that sends the reader to the database.\<close>

definition cached_answer :: "string \<Rightarrow> json \<Rightarrow> int \<Rightarrow> json \<Rightarrow> json list \<Rightarrow> (string \<times> json) list \<Rightarrow> exn + json" where
  "cached_answer name account_id now entries items note =
     ebind (last_updated items) (\<lambda>t.
       Inr (JObj ([(''account_id'', account_id), (''source'', JStr ''redis_cache''),
             (''last_updated_ms'', case t of None \<Rightarrow> JNull | Some v \<Rightarrow> v), (''checked_at_ms'', JInt now),
             (''stale'', JBool (is_old now t)), (name, entries), (''count'', JInt (int (length items)))] @
            (if items = [] then note else []))))"

definition stored_answer :: "string \<Rightarrow> json \<Rightarrow> int \<Rightarrow> json list \<Rightarrow> (string \<times> json) list \<Rightarrow> exn + json" where
  "stored_answer name account_id now rows note =
     ebind (last_updated rows) (\<lambda>t.
       Inr (JObj ([(''account_id'', account_id), (''source'', JStr ''database''),
             (''last_updated_ms'', case t of None \<Rightarrow> JNull | Some v \<Rightarrow> v), (''checked_at_ms'', JInt now),
             (''stale'', JBool True), (name, JArr rows), (''count'', JInt (int (length rows)))] @
            (if rows = [] then note else []))))"

definition at_least :: "rat \<Rightarrow> json \<Rightarrow> exn + bool" where
  "at_least min_total b = ebind (obj_get b ''total'' (JInt 0)) (\<lambda>v. ebind (py_float v) (\<lambda>x. Inr (min_total \<le> x)))"

definition cached_balances :: "json \<Rightarrow> rat \<Rightarrow> int \<Rightarrow> rtext \<Rightarrow> exn + json" where
  "cached_balances account_id min_total now raw =
     ebind (json_loads raw) (\<lambda>balances.
     ebind (list_items balances) (\<lambda>items.
     if 0 < min_total
     then ebind (efilter (at_least min_total) items) (\<lambda>kept. cached_answer ''balances'' account_id now (JArr kept) kept [])
     else cached_answer ''balances'' account_id now balances items []))"

definition stored_balance :: "env \<Rightarrow> balance_row \<Rightarrow> json" where
  "stored_balance env r =
     JObj [(''asset'', JStr (bl_asset r)), (''free'', JStr (show_dec env (bl_free r))),
           (''locked'', JStr (show_dec env (bl_locked r))), (''total'', JStr (show_dec env (bl_total r))),
           (''updated_at_ms'', JInt (bl_updated_at_ms r))]"

definition or_zero :: "rat \<Rightarrow> json" where
  "or_zero x = py_or (JDec x) (JInt 0)"

definition mcp_balances :: "'r redis_ops \<Rightarrow> env \<Rightarrow> json \<Rightarrow> rat \<Rightarrow> ('r, 'm, json) fact" where
  "mcp_balances ops env account_id min_total =
     mbind (mlift (uuid_of account_id)) (\<lambda>u. case u of None \<Rightarrow> mret invalid_account | Some aid \<Rightarrow>
     mbind (mget w_now) (\<lambda>now.
     mbind (read_text ops (account_live_balances_key (str_of env account_id))) (\<lambda>raw.
     case (case raw of None \<Rightarrow> Inl KeyError | Some t \<Rightarrow> cached_balances account_id min_total now t) of
       Inr answer \<Rightarrow> mret answer
     | Inl _ \<Rightarrow>
         mbind (query env (\<lambda>d. filter (\<lambda>r. bl_account_id r = aid) (d_balances d))) (\<lambda>rows.
         mlift (ebind (efilter (\<lambda>r. ebind (py_float (JStr (str_of env (or_zero (bl_total r))))) (\<lambda>x. Inr (min_total \<le> x))) rows)
           (\<lambda>kept. stored_answer ''balances'' account_id now (map (stored_balance env) kept) []))))))"

definition EMPTY_NOTE :: "(string \<times> json) list" where
  "EMPTY_NOTE =
     [(''note'', JStr (''No open positions. Paper trades do not create position records '' @ [CHR 0xE2, CHR 0x80, CHR 0x94] @
         '' use get_recent_fills to see paper execution history.''))]"

definition opt_text :: "env \<Rightarrow> rat option \<Rightarrow> json" where
  "opt_text env x = (case x of None \<Rightarrow> JNull | Some v \<Rightarrow> if v = 0 then JNull else JStr (show_dec env v))"

definition stored_position :: "env \<Rightarrow> position_row \<Rightarrow> json" where
  "stored_position env r =
     JObj [(''symbol'', JStr (ps_symbol r)), (''market_type'', JStr (ps_market_type r)), (''side'', JStr (ps_side r)),
           (''quantity'', JStr (show_dec env (ps_quantity r))), (''entry_price'', JStr (show_dec env (ps_entry_price r))),
           (''mark_price'', opt_text env (ps_mark_price r)), (''unrealized_pnl'', opt_text env (ps_unrealized_pnl r)),
           (''leverage'', opt_text env (ps_leverage r)), (''updated_at_ms'', JInt (ps_updated_at_ms r))]"

definition mcp_positions :: "'r redis_ops \<Rightarrow> env \<Rightarrow> json \<Rightarrow> ('r, 'm, json) fact" where
  "mcp_positions ops env account_id =
     mbind (mlift (uuid_of account_id)) (\<lambda>u. case u of None \<Rightarrow> mret invalid_account | Some aid \<Rightarrow>
     mbind (mget w_now) (\<lambda>now.
     mbind (read_text ops (account_live_positions_key (str_of env account_id))) (\<lambda>raw.
     case (case raw of None \<Rightarrow> Inl KeyError
           | Some t \<Rightarrow> ebind (json_loads t) (\<lambda>ps. ebind (list_items ps) (\<lambda>items.
                cached_answer ''positions'' account_id now ps items EMPTY_NOTE))) of
       Inr answer \<Rightarrow> mret answer
     | Inl _ \<Rightarrow>
         mbind (query env (\<lambda>d. filter (\<lambda>r. ps_account_id r = aid) (d_positions d))) (\<lambda>rows.
         mlift (ebind (efilter (\<lambda>r. ebind (py_float (JStr (str_of env (or_zero (ps_quantity r))))) (\<lambda>x. Inr (x \<noteq> 0))) rows)
           (\<lambda>kept. stored_answer ''positions'' account_id now (map (stored_position env) kept) EMPTY_NOTE))))))"

section \<open>Orders, fills and streams\<close>

definition clamp :: "int \<Rightarrow> int \<Rightarrow> int" where
  "clamp limit hi = min (max 1 limit) hi"

text \<open>\<open>ORDER BY key DESC LIMIT n\<close>; rows of the same key keep the order of the table.\<close>

definition newest :: "('a \<Rightarrow> int) \<Rightarrow> int \<Rightarrow> 'a list \<Rightarrow> 'a list" where
  "newest key n xs = take (nat n) (sort_key (\<lambda>x. - key x) xs)"

text \<open>The condition a symbol adds to a statement; a column is compared with texts only.\<close>

definition symbol_filter :: "json \<Rightarrow> exn + (string \<Rightarrow> bool)" where
  "symbol_filter symbol =
     (if \<not> truthy symbol then Inr (\<lambda>_. True)
      else case symbol of JStr s \<Rightarrow> Inr (\<lambda>x. x = s) | _ \<Rightarrow> Inl (DbError ''symbol''))"

definition order_json :: "env \<Rightarrow> order_row \<Rightarrow> json" where
  "order_json env r =
     JObj [(''client_order_id'', JStr (or_client_order_id r)), (''exchange_order_id'', opt_json JStr (or_exchange_order_id r)),
           (''symbol'', JStr (or_symbol r)), (''market_type'', JStr (or_market_type r)), (''side'', JStr (or_side r)),
           (''order_type'', JStr (or_order_type r)), (''status'', JStr (or_status r)),
           (''quantity'', JStr (show_dec env (or_quantity r))), (''filled_qty'', JStr (show_dec env (or_filled_qty r))),
           (''price'', opt_text env (or_price r)), (''avg_fill_price'', opt_text env (or_avg_fill_price r)),
           (''time_in_force'', JStr (or_time_in_force r)), (''created_at_ms'', JInt (or_created_at_ms r)),
           (''updated_at_ms'', JInt (or_updated_at_ms r))]"

definition open_orders :: "uuid \<Rightarrow> (string \<Rightarrow> bool) \<Rightarrow> strategy_db \<Rightarrow> order_row list" where
  "open_orders aid p d =
     filter (\<lambda>r. or_account_id r = aid \<and> or_status r \<in> {''NEW'', ''PARTIALLY_FILLED''} \<and> p (or_symbol r)) (d_orders d)"

definition mcp_open_orders :: "env \<Rightarrow> json \<Rightarrow> json \<Rightarrow> int \<Rightarrow> ('r, 'm, json) fact" where
  "mcp_open_orders env account_id symbol limit =
     mbind (mlift (uuid_of account_id)) (\<lambda>u. case u of None \<Rightarrow> mret invalid_account | Some aid \<Rightarrow>
     mbind (mlift (symbol_filter symbol)) (\<lambda>p.
     mbind (query env (\<lambda>d. newest or_updated_at_ms (clamp limit 200) (open_orders aid p d))) (\<lambda>rows.
       mret (JObj [(''account_id'', account_id), (''orders'', JArr (map (order_json env) rows)),
                   (''count'', JInt (int (length rows)))]))))"

definition fill_json :: "env \<Rightarrow> fill_row \<times> string option \<Rightarrow> json" where
  "fill_json env p =
     (case p of (f, market) \<Rightarrow>
       JObj [(''exchange_trade_id'', JStr (fl_exchange_trade_id f)), (''symbol'', JStr (fl_symbol f)), (''side'', JStr (fl_side f)),
             (''price'', JStr (show_dec env (fl_price f))), (''qty'', JStr (show_dec env (fl_qty f))),
             (''quote_qty'', JStr (show_dec env (fl_quote_qty f))), (''commission'', JStr (show_dec env (fl_commission f))),
             (''commission_asset'', JStr (fl_commission_asset f)), (''realized_pnl'', opt_text env (fl_realized_pnl f)),
             (''is_maker'', JBool (fl_is_maker f)), (''timestamp_ms'', JInt (fl_timestamp_ms f)),
             (''trading_mode'', JStr (if startswith ''PAPER-'' (fl_exchange_trade_id f) then ''paper'' else ''live'')),
             (''market_type'', JStr (case market of Some m \<Rightarrow> if m = [] then ''unknown'' else m | None \<Rightarrow> ''unknown''))])"

text \<open>The outer join with the order of a fill.\<close>

definition fills_of :: "uuid \<Rightarrow> (string \<Rightarrow> bool) \<Rightarrow> strategy_db \<Rightarrow> (fill_row \<times> string option) list" where
  "fills_of aid p d =
     map (\<lambda>f. (f, map_option or_market_type (find (\<lambda>r. or_id r = fl_order_id f) (d_orders d))))
       (filter (\<lambda>f. fl_account_id f = aid \<and> p (fl_symbol f)) (d_fills d))"

definition mcp_recent_fills :: "env \<Rightarrow> json \<Rightarrow> json \<Rightarrow> int \<Rightarrow> ('r, 'm, json) fact" where
  "mcp_recent_fills env account_id symbol limit =
     mbind (mlift (uuid_of account_id)) (\<lambda>u. case u of None \<Rightarrow> mret invalid_account | Some aid \<Rightarrow>
     mbind (mlift (symbol_filter symbol)) (\<lambda>p.
     mbind (query env (\<lambda>d. newest (fl_timestamp_ms \<circ> fst) (clamp limit 100) (fills_of aid p d))) (\<lambda>rows.
       mret (JObj [(''account_id'', account_id), (''fills'', JArr (map (fill_json env) rows)),
                   (''count'', JInt (int (length rows)))]))))"

definition is_healthy :: "json \<Rightarrow> int option \<Rightarrow> bool" where
  "is_healthy status age = (status = JStr ''connected'' \<and> (case age of None \<Rightarrow> False | Some n \<Rightarrow> n < STREAM_STALE_MS))"

definition account_stream :: "int \<Rightarrow> account_row \<Rightarrow> json option \<Rightarrow> exn + bool \<times> json" where
  "account_stream now a cached =
     ebind (status_field cached ''status'' (py_or (JStr (ac_stream_status a)) (JStr ''unknown''))) (\<lambda>status.
     let age = stream_age now a; healthy = is_healthy status age in
     Inr (healthy, JObj [(''account_id'', JStr (ac_id a)), (''account_label'', JStr (ac_account_label a)),
       (''venue'', JStr (ac_venue a)), (''status'', status),
       (''stream_last_event_ms'', opt_json JInt (ac_stream_last_event_ms a)), (''stream_age_ms'', opt_json JInt age),
       (''healthy'', JBool healthy),
       (''source'', JStr (case cached of Some j \<Rightarrow> if truthy j then ''redis_live'' else ''db_fallback'' | None \<Rightarrow> ''db_fallback''))]))"

definition group_json :: "env \<Rightarrow> json \<Rightarrow> exn + json" where
  "group_json env g =
     ebind (obj_get g ''name'' (JStr [])) (\<lambda>n. ebind (obj_get g ''pending'' (JInt 0)) (\<lambda>p. ebind (obj_get g ''lag'' (JInt 0)) (\<lambda>l.
       Inr (JObj [(''name'', JStr (str_of env n)), (''pending'', p), (''lag'', l)]))))"

definition INTERNAL_STREAMS :: "string list" where
  "INTERNAL_STREAMS = [STRATEGY_INTENTS, EXECUTION_EVENTS, RAW_STREAM, NORMALIZED, ANALYTICS_DERIVED, MCP_AUDIT]"

definition internal_stream :: "'r redis_ops \<Rightarrow> env \<Rightarrow> string \<Rightarrow> ('r, 'm, json) fact" where
  "internal_stream ops env name =
     mbind (mtry (mbind (on_redis (r_xlen ops name)) (\<lambda>n. mret (Some n))) (\<lambda>_. mret None)) (\<lambda>len.
     mbind (mtry (mbind (on_redis (r_xinfo_groups ops name)) (\<lambda>gs. mlift (emap (group_json env) gs))) (\<lambda>_. mret [])) (\<lambda>groups.
       mret (JObj [(''name'', JStr name), (''healthy'', JBool (len \<noteq> None)), (''length'', opt_json JInt len),
                   (''consumer_groups'', JArr groups)])))"

definition mcp_stream_health :: "'r redis_ops \<Rightarrow> env \<Rightarrow> ('r, 'm, json) fact" where
  "mcp_stream_health ops env =
     mbind (mget w_now) (\<lambda>now.
     mbind (query env (\<lambda>d. filter ac_is_active (d_accounts d))) (\<lambda>accounts.
     mbind (mcollect (\<lambda>a. mbind (cached_status ops a) (\<lambda>c. mlift (account_stream now a c))) accounts) (\<lambda>streams.
     mbind (mcollect (internal_stream ops env) INTERNAL_STREAMS) (\<lambda>internal.
       mret (JObj [(''account_streams'', JArr (map snd streams)), (''internal_streams'', JArr internal),
                   (''overall_healthy'', JBool (streams \<noteq> [] \<and> list_all fst streams)), (''checked_at_ms'', JInt now),
                   (''stale_threshold_ms'', JInt STREAM_STALE_MS)])))))"

section \<open>Executions and incidents\<close>

definition result_json :: "json \<Rightarrow> exn + json" where
  "result_json j =
     (case j of
        JObj d \<Rightarrow> Inr (JObj (filter (\<lambda>(k, v). k \<in> {''fill_price'', ''fill_quantity'', ''exchange_order_id'', ''adapter''}) d))
      | _ \<Rightarrow> Inl AttributeError)"

definition execution_json :: "env \<Rightarrow> job_row \<Rightarrow> exn + json" where
  "execution_json env j =
     ebind (case jb_result_json j of
              Some r \<Rightarrow> if truthy r then ebind (result_json r) (\<lambda>x. Inr [(''result'', x)]) else Inr []
            | None \<Rightarrow> Inr []) (\<lambda>res.
     Inr (JObj ([(''job_id'', JStr (jb_id j)), (''status'', JStr (jb_status j)), (''symbol'', JStr (jb_symbol j)),
                 (''side'', JStr (jb_side j)), (''trading_mode'', JStr (jb_trading_mode j)),
                 (''created_at'', JStr (e_iso env (jb_created_at_ms j * 1000)))] @ res @
                (case jb_error j of Some e \<Rightarrow> if e = [] then [] else [(''error'', JStr e)] | None \<Rightarrow> []))))"

text \<open>A strategy identifier that is no UUID filters nothing.\<close>

definition mcp_recent_executions :: "env \<Rightarrow> json \<Rightarrow> json \<Rightarrow> int \<Rightarrow> ('r, 'm, json list) fact" where
  "mcp_recent_executions env strategy_id symbol limit =
     mbind (mlift (symbol_filter symbol)) (\<lambda>p.
     mbind (mlift (if truthy strategy_id then uuid_of strategy_id else Inr None)) (\<lambda>sid.
     mbind (query env (\<lambda>d. newest jb_created_at_ms (clamp limit 100)
              (filter (\<lambda>j. p (jb_symbol j) \<and> (case sid of None \<Rightarrow> True | Some s \<Rightarrow> jb_strategy_id j = Some s)) (d_jobs d))))
       (\<lambda>jobs. mlift (emap (execution_json env) jobs))))"

definition incident_json :: "env \<Rightarrow> incident_row \<Rightarrow> json" where
  "incident_json env i =
     JObj [(''id'', JStr (ic_id i)), (''incident_type'', JStr (ic_incident_type i)), (''severity'', JStr (ic_severity i)),
           (''description'', JStr (ic_description i)), (''job_id'', opt_json JStr (ic_job_id i)), (''context'', ic_context i),
           (''resolved'', JBool (ic_resolved i)), (''created_at'', JStr (e_iso env (ic_created_at_ms i * 1000)))]"

text \<open>The symbol is looked for among the rows that the limit has left; times must be of the years 1 to 9999.\<close>

definition in_calendar :: "int \<Rightarrow> bool" where
  "in_calendar ms = (- 62135596800000 \<le> ms \<and> ms < 253402300800000)"

definition about_symbol :: "json \<Rightarrow> incident_row \<Rightarrow> exn + bool" where
  "about_symbol symbol i =
     (if \<not> truthy symbol then Inr True else ebind (obj_get (ic_context i) ''symbol'' (JStr [])) (\<lambda>v. Inr (v = symbol)))"

definition mcp_incidents :: "env \<Rightarrow> json \<Rightarrow> int option \<Rightarrow> int \<Rightarrow> ('r, 'm, json list) fact" where
  "mcp_incidents env symbol since limit =
     (let after = (case since of Some t \<Rightarrow> if t = 0 then None else Some t | None \<Rightarrow> None) in
      if (case after of Some t \<Rightarrow> \<not> in_calendar t | None \<Rightarrow> False) then mraise ValueError
      else mbind (query env (\<lambda>d. newest ic_created_at_ms (clamp limit 200)
             (filter (\<lambda>i. case after of Some t \<Rightarrow> t \<le> ic_created_at_ms i | None \<Rightarrow> True) (d_incidents d))))
       (\<lambda>rows. mlift (ebind (efilter (about_symbol symbol) rows) (\<lambda>kept. Inr (map (incident_json env) kept)))))"

section \<open>Strategies\<close>

definition time_json :: "env \<Rightarrow> int option \<Rightarrow> json" where
  "time_json env t = opt_json (\<lambda>x. JStr (e_iso env x)) t"

definition strategy_summary :: "env \<Rightarrow> strategy_row \<Rightarrow> (string \<times> json) list" where
  "strategy_summary env s =
     [(''id'', JStr (sr_id s)), (''name'', JStr (sr_name s)), (''state'', JStr (sr_state s)),
      (''market_type'', JStr (sr_market_type s)), (''symbol_filters'', py_or (sr_symbol_filters s) (JArr [])),
      (''current_version'', JInt (sr_current_version s)), (''created_at'', time_json env (sr_created_at s)),
      (''updated_at'', time_json env (sr_updated_at s))]"

text \<open>\<open>x in c\<close>.\<close>

definition py_in :: "json \<Rightarrow> json \<Rightarrow> exn + bool" where
  "py_in x c =
     (case c of
        JArr xs \<Rightarrow> Inr (x \<in> set xs)
      | JObj d \<Rightarrow> (case x of JStr s \<Rightarrow> Inr (s \<in> set (map fst d)) | JArr _ \<Rightarrow> Inl TypeError | JObj _ \<Rightarrow> Inl TypeError
                   | _ \<Rightarrow> Inr False)
      | JStr s \<Rightarrow> (case x of JStr p \<Rightarrow> Inr (contains p s) | _ \<Rightarrow> Inl TypeError)
      | _ \<Rightarrow> Inl TypeError)"

definition mcp_list_strategies :: "env \<Rightarrow> json \<Rightarrow> json \<Rightarrow> int \<Rightarrow> ('r, 'm, json list) fact" where
  "mcp_list_strategies env symbol state limit =
     mbind (mlift (symbol_filter state)) (\<lambda>p.
     mbind (session env (\<lambda>d. if limit < 0 then Inl (DbError ''LIMIT must not be negative'')
                              else Inr (take (nat limit) (filter (\<lambda>s. p (sr_state s)) (d_strategies d)), d))) (\<lambda>rows.
     mlift (ebind (efilter (\<lambda>s. if truthy symbol then py_in symbol (py_or (sr_symbol_filters s) (JArr [])) else Inr True) rows)
       (\<lambda>kept. Inr (map (JObj \<circ> strategy_summary env) kept)))))"

definition version_json :: "version_row \<Rightarrow> json" where
  "version_json v =
     JObj [(''version'', JInt (vr_version v)), (''rules'', vr_rules v), (''parameters'', vr_parameters v),
           (''approval_required'', JStr (vr_approval_required v)), (''change_note'', JStr (vr_change_note v)),
           (''created_by'', JStr (vr_created_by v))]"

definition evaluation_json :: "evaluation_row \<Rightarrow> json" where
  "evaluation_json e =
     JObj [(''snapshot_timestamp_ms'', JInt (vl_snapshot_timestamp_ms e)), (''signal'', JBool (vl_signal e)),
           (''direction'', opt_json JStr (vl_direction e)), (''confidence'', opt_json JStr (vl_confidence e)),
           (''created_at_ms'', JInt (vl_created_at_ms e))]"

definition strategy_details :: "env \<Rightarrow> uuid \<Rightarrow> strategy_db \<Rightarrow> json option" where
  "strategy_details env sid d =
     (case find_strategy sid d of
        None \<Rightarrow> None
      | Some s \<Rightarrow> Some (JObj (strategy_summary env s @
          [(''description'', JStr (sr_description s))] @
          (case find_version sid (sr_current_version s) d of None \<Rightarrow> [] | Some v \<Rightarrow> [(''version_detail'', version_json v)]) @
          (case newest vl_created_at_ms 1 (filter (\<lambda>e. vl_strategy_id e = sid) (d_evaluations d)) of
             [] \<Rightarrow> [] | e # _ \<Rightarrow> [(''last_evaluation'', evaluation_json e)]))))"

definition mcp_strategy_details :: "env \<Rightarrow> json \<Rightarrow> ('r, 'm, json option) fact" where
  "mcp_strategy_details env strategy_id =
     mbind (mlift (uuid_of strategy_id)) (\<lambda>u. case u of None \<Rightarrow> mret None | Some sid \<Rightarrow> query env (strategy_details env sid))"

end
