(* ===== verification/McpTrade.thy ===== *)
theory McpTrade
  imports McpReads Adapters
begin

text \<open>
  The facades of the MCP server that act: a paper trade on request (\<open>request_paper_trade\<close> of
  \<open>facades/execution.py\<close>), a change of a strategy's state and a dry run on the latest snapshot
  (\<open>update_strategy_state\<close> and \<open>simulate_strategy_on_snapshot\<close> of \<open>facades/strategy.py\<close>).
\<close>

text \<open>The answers that say what went wrong.\<close>

definition error_answer :: "string \<Rightarrow> string \<Rightarrow> json" where
  "error_answer code message = JObj [(''error'', JStr code), (''message'', JStr message)]"

definition failure_answer :: "string \<Rightarrow> json" where
  "failure_answer message = JObj [(''success'', JBool False), (''error'', JStr message)]"

text \<open>\<open>str(exc)\<close>.\<close>

definition exn_text :: "env \<Rightarrow> exn \<Rightarrow> string" where
  "exn_text env e = (case e of StrategyLifecycleError m \<Rightarrow> m | _ \<Rightarrow> e_exn_text env e)"

section \<open>Prices for a paper trade\<close>

definition price_word :: "env \<Rightarrow> rtext \<Rightarrow> string option" where
  "price_word env raw =
     (case
        ebind (json_loads raw) (\<lambda>d.
        ebind (obj_get d ''price'' JNull) (\<lambda>p.
        ebind (obj_get d ''mark_price'' JNull) (\<lambda>m.
        let price_str = str_of env (py_or p (py_or m (JStr []))) in
          if price_str \<noteq> [] \<and> price_str \<noteq> ''0''
          then ebind (dec_literal price_str) (\<lambda>c. Inr (if 0 < c then Some price_str else None))
          else Inr None)))
      of Inl _ \<Rightarrow> None | Inr x \<Rightarrow> x)"

definition mid_price :: "env \<Rightarrow> rtext \<Rightarrow> rat option" where
  "mid_price env raw =
     (case
        ebind (json_loads raw) (\<lambda>bk.
        ebind (obj_get bk ''bid_price'' JNull) (\<lambda>bid.
        ebind (obj_get bk ''ask_price'' JNull) (\<lambda>ask.
          if truthy bid \<and> truthy ask
          then ebind (dec_of_str env bid) (\<lambda>b. ebind (dec_of_str env ask) (\<lambda>a.
                 let mid = dec (dec (b + a) / 2) in Inr (if 0 < mid then Some mid else None)))
          else Inr None)))
      of Inl _ \<Rightarrow> None | Inr x \<Rightarrow> x)"

definition price_from_redis :: "'r redis_ops \<Rightarrow> env \<Rightarrow> string \<Rightarrow> string \<Rightarrow> ('r, 'm, string option) fact" where
  "price_from_redis ops env mt symbol =
     mbind (read_text ops (analytics_snapshot_key mt symbol)) (\<lambda>analytics_raw.
     case source_price (snapshot_price env) analytics_raw of Some p \<Rightarrow> mret (Some (show_dec env p)) | None \<Rightarrow>
     mbind (read_text ops (market_price_key mt symbol)) (\<lambda>price_raw.
     case Option.bind price_raw (price_word env) of Some s \<Rightarrow> mret (Some s) | None \<Rightarrow>
     mbind (read_text ops (market_book_ticker_key mt symbol)) (\<lambda>book_raw.
     mret (map_option (show_dec env) (source_price (mid_price env) book_raw)))))"

definition filled_word :: "string option \<Rightarrow> bool" where
  "filled_word s = (s \<noteq> None \<and> s \<noteq> Some [])"

text \<open>The market of the strategy first, then the other one.\<close>

definition paper_price :: "'r redis_ops \<Rightarrow> env \<Rightarrow> string \<Rightarrow> string \<Rightarrow> ('r, 'm, string option) fact" where
  "paper_price ops env mt symbol =
     mbind (price_from_redis ops env mt symbol) (\<lambda>p.
     if filled_word p then mret p
     else case map_of MARKET_TYPE_FALLBACK mt of
            None \<Rightarrow> mret p
          | Some other \<Rightarrow> price_from_redis ops env other symbol)"

section \<open>The size of a paper trade\<close>

definition price_incident :: "env \<Rightarrow> uuid \<Rightarrow> json \<Rightarrow> string \<Rightarrow> json \<Rightarrow> string \<Rightarrow> rat option \<Rightarrow> incident_row" where
  "price_incident env sid strategy_id mt symbol side size_usd =
     \<lparr>ic_id = [], ic_incident_type = ''paper_price_unavailable'', ic_severity = ''error'',
      ic_description = ''Price unavailable for '' @ str_of env symbol @ ''/'' @ mt @ '': cannot derive size from size_usd'',
      ic_job_id = None, ic_strategy_id = Some sid,
      ic_context = JObj
        [(''symbol'', symbol), (''market_type'', JStr mt), (''side'', JStr side), (''size_usd'', opt_json JNum size_usd),
         (''strategy_id'', strategy_id),
         (''sources_tried'', JArr (map JStr
            [''analytics_snapshot'', ''market_price_key'', ''book_ticker'', ''analytics_snapshot_fallback_mtype'',
             ''market_price_key_fallback_mtype'', ''book_ticker_fallback_mtype'']))],
      ic_resolved = False, ic_created_at_ms = 0\<rparr>"

definition add_incident :: "env \<Rightarrow> incident_row \<Rightarrow> ('r, 'm, unit) fact" where
  "add_incident env i =
     mlogged (mbind (uuid4 env) (\<lambda>k. mbind (mget w_now) (\<lambda>now. session env (\<lambda>d.
       ebind (varchars [(64, ic_incident_type i), (16, ic_severity i)]) (\<lambda>_.
         Inr ((), d\<lparr>d_incidents := d_incidents d @ [i\<lparr>ic_id := k, ic_created_at_ms := now\<rparr>]\<rparr>))))))"

text \<open>\<open>(size_usd / price).quantize(Decimal("0.00001"))\<close>; the \<open>ValueError\<close> of the code with its text.\<close>

definition derived_size :: "rat \<Rightarrow> string \<Rightarrow> exn + rat" where
  "derived_size usd price_str =
     ebind (dec_literal price_str) (\<lambda>price.
       if price \<le> 0 then Inl (RuntimeError ''price must be positive'') else quantize 5 (dec (usd / price)))"

definition derivation_text :: "env \<Rightarrow> exn \<Rightarrow> string" where
  "derivation_text env e = (case e of RuntimeError m \<Rightarrow> m | _ \<Rightarrow> e_exn_text env e)"

text \<open>The size, or the answer that there is none.\<close>

definition trade_size ::
  "'r redis_ops \<Rightarrow> env \<Rightarrow> strategy_row \<Rightarrow> json \<Rightarrow> json \<Rightarrow> string \<Rightarrow> rat option \<Rightarrow> rat option \<Rightarrow> rat \<Rightarrow>
   ('r, 'm, json + rat) fact" where
  "trade_size ops env s strategy_id symbol side size_usd amount usd =
     (case amount of
        Some x \<Rightarrow> mret (Inr x)
      | None \<Rightarrow>
          let mt = (if sr_market_type s = [] then ''futures'' else sr_market_type s) in
          mbind (paper_price ops env mt (str_of env symbol)) (\<lambda>p.
          if \<not> filled_word p
          then mseq (add_incident env (price_incident env (sr_id s) strategy_id mt symbol side size_usd))
                 (mret (Inl (error_answer ''price_unavailable''
                    (''Cannot derive size from size_usd='' @ str_of env (opt_json JNum size_usd) @ '' '' @
                     [CHR 0xE2, CHR 0x80, CHR 0x94] @ '' no price data available for '' @ str_of env symbol @
                     ''. Please provide the '' @ quoted ''size'' @ '' parameter directly.''))))
          else case derived_size usd (the p) of
                 Inl e \<Rightarrow> mret (Inl (error_answer ''size_derivation_error'' (derivation_text env e)))
               | Inr x \<Rightarrow> mret (Inr x)))"

section \<open>The paper trade\<close>

definition MCP_EMIT_STATES :: "string list" where
  "MCP_EMIT_STATES = map strategy_state_value [PAPER_ACTIVE, ASSISTED_LIVE, BOUNDED_AUTO_LIVE]"

text \<open>The intent; a symbol that is no text is refused.\<close>

definition paper_intent ::
  "strategy_row \<Rightarrow> json \<Rightarrow> order_side \<Rightarrow> rat \<Rightarrow> rat option \<Rightarrow> json \<Rightarrow> uuid \<Rightarrow> int \<Rightarrow> exn + trade_intent" where
  "paper_intent s symbol side amount size_usd reason intent_id created_at =
     (case symbol of
        JStr sy \<Rightarrow>
          Inr \<lparr>ti_intent_id = intent_id, ti_strategy_id = Some (sr_id s), ti_strategy_version = Some (sr_current_version s),
               ti_symbol = sy,
               ti_market_type = or_default FUTURES
                 (market_type_of (if sr_market_type s = [] then ''futures'' else sr_market_type s)),
               ti_side = side, ti_intent_type = ''OPEN'', ti_order_type = MARKET, ti_size = amount, ti_size_usd = size_usd,
               ti_limit_price = None, ti_stop_loss = None, ti_take_profit = None, ti_reduce_only = False,
               ti_time_in_force = GTC, ti_position_side = None, ti_explanation = [], ti_created_at = created_at,
               ti_expires_at = None,
               ti_metadata = [(''source'', JStr ''mcp_paper_trade''), (''reason'', reason)]\<rparr>
      | _ \<Rightarrow> Inl ValidationError)"

definition trade_fields :: "env \<Rightarrow> trade_intent \<Rightarrow> uuid \<Rightarrow> fields" where
  "trade_fields env i sid =
     [(''intent'', Json (dump_intent (e_show env) (e_iso env) i)), (''evaluation_id'', Raw []), (''strategy_id'', Raw sid)]"

definition queued_answer :: "env \<Rightarrow> trade_intent \<Rightarrow> json \<Rightarrow> json" where
  "queued_answer env i strategy_id =
     JObj [(''status'', JStr ''queued''), (''mode'', JStr ''paper''), (''intent_id'', JStr (ti_intent_id i)),
           (''strategy_id'', strategy_id), (''symbol'', JStr (ti_symbol i)), (''side'', JStr (side_value (ti_side i))),
           (''size'', JStr (show_dec env (ti_size i))), (''size_usd'', opt_text env (ti_size_usd i)),
           (''note'', JStr (''Intent has been published to stream:strategy:intents and will be '' @
              ''processed by the execution service. Paper mode enforced by the risk engine.''))]"

definition publish_paper_trade ::
  "'r redis_ops \<Rightarrow> env \<Rightarrow> strategy_row \<Rightarrow> json \<Rightarrow> json \<Rightarrow> order_side \<Rightarrow> rat \<Rightarrow> rat option \<Rightarrow> json \<Rightarrow> ('r, 'm, json) fact" where
  "publish_paper_trade ops env s strategy_id symbol side amount size_usd reason =
     mbind (uuid4 env) (\<lambda>k. mbind (mget w_now) (\<lambda>now.
     mbind (mlift (paper_intent s symbol side amount size_usd reason k (now * 1000))) (\<lambda>i.
     mseq (stream_publish ops STRATEGY_INTENTS (trade_fields env i (sr_id s)))
       (mret (queued_answer env i strategy_id)))))"

text \<open>\<open>Decimal(str(x))\<close> of an optional number.\<close>

definition opt_decimal :: "env \<Rightarrow> rat option \<Rightarrow> exn + rat option" where
  "opt_decimal env x = (case x of None \<Rightarrow> Inr None | Some v \<Rightarrow> ebind (dec_of_str env (JNum v)) (\<lambda>d. Inr (Some d)))"

definition inactive_answer :: "string \<Rightarrow> json" where
  "inactive_answer state =
     error_answer ''strategy_not_active''
       (''Strategy is in state '' @ quoted state @ ''. Must be in one of: '' @ repr_list (sort MCP_EMIT_STATES) @
        '' to request paper trades.'')"

definition trade_of ::
  "'r redis_ops \<Rightarrow> env \<Rightarrow> strategy_row \<Rightarrow> json \<Rightarrow> json \<Rightarrow> order_side \<Rightarrow> rat option \<Rightarrow> rat option \<Rightarrow> json \<Rightarrow> ('r, 'm, json) fact" where
  "trade_of ops env s strategy_id symbol side size_usd amount reason =
     (if sr_state s \<notin> set MCP_EMIT_STATES then mret (inactive_answer (sr_state s))
      else case ebind (opt_decimal env size_usd) (\<lambda>u. ebind (opt_decimal env amount) (\<lambda>z. Inr (u, z))) of
        Inl e \<Rightarrow> mret (error_answer ''invalid_size'' (e_exn_text env e))
      | Inr (u, z) \<Rightarrow>
          mbind (trade_size ops env s strategy_id symbol (side_value side) size_usd z (case u of None \<Rightarrow> 0 | Some x \<Rightarrow> x)) (\<lambda>r.
          case r of
            Inl answer \<Rightarrow> mret answer
          | Inr x \<Rightarrow> publish_paper_trade ops env s strategy_id symbol side x u reason))"

definition upper_text :: "json \<Rightarrow> exn + string" where
  "upper_text v = (case v of JStr s \<Rightarrow> Inr (upper s) | _ \<Rightarrow> Inl AttributeError)"

definition request_paper_trade ::
  "'r redis_ops \<Rightarrow> env \<Rightarrow> json \<Rightarrow> json \<Rightarrow> json \<Rightarrow> rat option \<Rightarrow> rat option \<Rightarrow> json \<Rightarrow> ('r, 'm, json) fact" where
  "request_paper_trade ops env strategy_id symbol side size_usd amount reason =
     mbind (mlift (uuid_of strategy_id)) (\<lambda>u. case u of
       None \<Rightarrow> mret (error_answer ''invalid_strategy_id'' (''Invalid UUID: '' @ str_of env strategy_id))
     | Some sid \<Rightarrow>
         mbind (mlift (upper_text side)) (\<lambda>side_upper.
         case side_of side_upper of
           Inl _ \<Rightarrow> mret (error_answer ''invalid_side'' (''side must be BUY or SELL, got '' @ quoted (str_of env side)))
         | Inr sd \<Rightarrow>
             if size_usd = None \<and> amount = None
             then mret (error_answer ''missing_size'' ''Provide at least one of size_usd or size.'')
             else mbind (query env (find_strategy sid)) (\<lambda>row. case row of
                    None \<Rightarrow> mret (error_answer ''not_found'' (''Strategy '' @ str_of env strategy_id @ '' not found''))
                  | Some s \<Rightarrow> trade_of ops env s strategy_id symbol sd size_usd amount reason)))"

section \<open>A change of state\<close>

definition state_of_json :: "json \<Rightarrow> exn + strategy_state" where
  "state_of_json v = (case v of JStr s \<Rightarrow> strategy_state_of s | _ \<Rightarrow> Inl ValueError)"

text \<open>A level that is none counts as not given.\<close>

definition level_of_json :: "json \<Rightarrow> approval_level option" where
  "level_of_json v = (case v of JStr s \<Rightarrow> the_ok (approval_level_of s) | _ \<Rightarrow> None)"

definition state_action :: "strategy_row \<Rightarrow> strategy_state \<Rightarrow> json \<Rightarrow> int \<Rightarrow> action_row" where
  "state_action s target justification now =
     \<lparr>an_strategy_id = sr_id s, an_version = sr_current_version s, an_action_type = ''state_change'',
      an_triggered_by = ''mcp_tool'',
      an_details = JObj [(''previous_state'', JStr (sr_state s)), (''new_state'', JStr (strategy_state_value target)),
                         (''justification'', justification)],
      an_created_at_ms = now\<rparr>"

definition moved_answer :: "json \<Rightarrow> string \<Rightarrow> strategy_state \<Rightarrow> json \<Rightarrow> json" where
  "moved_answer strategy_id previous target justification =
     JObj [(''success'', JBool True), (''strategy_id'', strategy_id), (''previous_state'', JStr previous),
           (''new_state'', JStr (strategy_state_value target)), (''justification'', justification)]"

text \<open>The body of the session; every refusal leaves before the commit.\<close>

definition move_strategy ::
  "env \<Rightarrow> uuid \<Rightarrow> json \<Rightarrow> strategy_state \<Rightarrow> json \<Rightarrow> approval_level option \<Rightarrow> int \<Rightarrow> strategy_db \<Rightarrow> exn + json \<times> strategy_db" where
  "move_strategy env sid strategy_id target justification approval now d =
     (case find_strategy sid d of
        None \<Rightarrow> Inr (failure_answer (''Strategy '' @ str_of env strategy_id @ '' not found''), d)
      | Some s \<Rightarrow>
          case strategy_state_of (sr_state s) of
            Inl _ \<Rightarrow> Inr (failure_answer (''Strategy has unknown state '' @ quoted (sr_state s)), d)
          | Inr from_state \<Rightarrow>
              case st_transition from_state target approval of
                Inl e \<Rightarrow> Inr (failure_answer (exn_text env e), d)
              | Inr _ \<Rightarrow>
                  ebind (insert_action (state_action s target justification now) (set_strategy_state sid target now d))
                    (\<lambda>d'. Inr (moved_answer strategy_id (sr_state s) target justification, d')))"

definition mcp_update_strategy_state :: "env \<Rightarrow> json \<Rightarrow> json \<Rightarrow> json \<Rightarrow> json \<Rightarrow> ('r, 'm, json) fact" where
  "mcp_update_strategy_state env strategy_id target_state justification user_approval_level =
     mbind (mlift (uuid_of strategy_id)) (\<lambda>u. case u of
       None \<Rightarrow> mret (failure_answer (''Invalid strategy_id: '' @ str_of env strategy_id))
     | Some sid \<Rightarrow>
         case state_of_json target_state of
           Inl _ \<Rightarrow> mret (failure_answer (''Unknown state '' @ quoted (str_of env target_state) @ ''. Valid: '' @
                            repr_list (map strategy_state_value strategy_states)))
         | Inr target \<Rightarrow>
             mbind (mget w_now) (\<lambda>now. session env
               (move_strategy env sid strategy_id target justification (level_of_json user_approval_level) now)))"

section \<open>A dry run\<close>

text \<open>The strategy and its current version, read in one session.\<close>

definition strategy_and_version :: "uuid \<Rightarrow> strategy_db \<Rightarrow> (strategy_row \<times> version_row option) option" where
  "strategy_and_version sid d =
     (case find_strategy sid d of
        None \<Rightarrow> None | Some s \<Rightarrow> Some (s, find_version sid (sr_current_version s) d))"

definition dry_evaluator :: "env \<Rightarrow> strategy_row \<Rightarrow> version_row \<Rightarrow> exn + evaluator" where
  "dry_evaluator env s v =
     ebind (build_strategy env (sr_id s) (vr_version v) (py_or (vr_rules v) (JArr [])) (py_or (vr_parameters v) (JObj []))) (\<lambda>st.
       Inr \<lparr>eu_strategy_id = sr_id s, eu_version = vr_version v,
            eu_state = or_default SIMULATION (strategy_state_of (sr_state s)), eu_strategy = st,
            eu_symbol_filters = py_or (sr_symbol_filters s) (JArr [])\<rparr>)"

definition hypothetical_json :: "env \<Rightarrow> trade_intent \<Rightarrow> json" where
  "hypothetical_json env i =
     JObj [(''symbol'', JStr (ti_symbol i)), (''side'', JStr (side_value (ti_side i))),
           (''order_type'', JStr (order_type_value (ti_order_type i))), (''size'', JStr (show_dec env (ti_size i))),
           (''size_usd'', opt_text env (ti_size_usd i)), (''intent_type'', JStr (ti_intent_type i))]"

definition dry_run_json :: "env \<Rightarrow> json \<Rightarrow> json \<Rightarrow> json \<Rightarrow> string \<Rightarrow> strategy_evaluation \<Rightarrow> json" where
  "dry_run_json env strategy_id symbol market_type state e =
     JObj ([(''strategy_id'', strategy_id), (''symbol'', symbol), (''market_type'', market_type),
            (''strategy_state'', JStr state), (''snapshot_timestamp_ms'', JInt (sl_snapshot_timestamp_ms e)),
            (''signal'', JBool (sl_signal e)), (''direction'', opt_json JStr (sl_direction e)),
            (''confidence'', opt_json JNum (sl_confidence e)), (''explanation'', JObj (sl_explanation e)),
            (''simulation_note'', JStr ''Dry-run only. No intent was published to the execution stream.'')] @
           (case sl_trade_intent e of None \<Rightarrow> [] | Some i \<Rightarrow> [(''hypothetical_intent'', hypothetical_json env i)]))"

definition dry_run ::
  "'r redis_ops \<Rightarrow> env \<Rightarrow> (rtext \<Rightarrow> exn + snapshot) \<Rightarrow> json \<Rightarrow> json \<Rightarrow> json \<Rightarrow> strategy_row \<Rightarrow> version_row \<Rightarrow>
   ('r, 'm, json) fact" where
  "dry_run ops env parse strategy_id symbol market_type s v =
     mbind (read_text ops (analytics_snapshot_key (str_of env market_type) (str_of env symbol))) (\<lambda>raw. case raw of
       None \<Rightarrow> mret (error_answer ''no_snapshot''
         (''No analytics snapshot for '' @ str_of env symbol @ ''/'' @ str_of env market_type @
          ''. Ensure analytics service is running and has processed data for this symbol.''))
     | Some t \<Rightarrow>
         case parse t of
           Inl e \<Rightarrow> mret (error_answer ''snapshot_parse_error'' (e_exn_text env e))
         | Inr sn \<Rightarrow>
             mbind (mlift (dry_evaluator env s v)) (\<lambda>ev.
             mbind (evaluate_snapshot env ev sn None) (\<lambda>e.
               mret (dry_run_json env strategy_id symbol market_type (sr_state s) e))))"

definition simulate_strategy_on_snapshot ::
  "'r redis_ops \<Rightarrow> env \<Rightarrow> (rtext \<Rightarrow> exn + snapshot) \<Rightarrow> json \<Rightarrow> json \<Rightarrow> json \<Rightarrow> ('r, 'm, json) fact" where
  "simulate_strategy_on_snapshot ops env parse strategy_id symbol market_type =
     mbind (mlift (uuid_of strategy_id)) (\<lambda>u. case u of
       None \<Rightarrow> mret (error_answer ''invalid_strategy_id'' (''Invalid UUID: '' @ str_of env strategy_id))
     | Some sid \<Rightarrow>
         mbind (query env (strategy_and_version sid)) (\<lambda>found. case found of
           None \<Rightarrow> mret (error_answer ''not_found'' (''Strategy '' @ str_of env strategy_id @ '' not found''))
         | Some (s, None) \<Rightarrow> mret (error_answer ''version_not_found''
             (''No version record for strategy '' @ str_of env strategy_id @ '' v'' @ show_int (sr_current_version s)))
         | Some (s, Some v) \<Rightarrow> dry_run ops env parse strategy_id symbol market_type s v))"

end
