(* ===== verification/McpTools.thy ===== *)
theory McpTools
  imports McpTrade
begin

text \<open>
  The tools of the MCP server: their descriptions (\<open>TOOL_DEFINITIONS\<close> of \<open>services/mcp_server/protocol.py\<close>)
  and their handlers (\<open>tools/read.py\<close>, \<open>simulation.py\<close>, \<open>control.py\<close>, \<open>account.py\<close>, and the table \<open>_HANDLERS\<close> of
  \<open>main.py\<close>).
\<close>

section \<open>Descriptions\<close>

definition argument :: "string \<Rightarrow> string \<Rightarrow> json" where
  "argument kind description = JObj [(''type'', JStr kind), (''description'', JStr description)]"

definition choice_of :: "string \<Rightarrow> string list \<Rightarrow> string \<Rightarrow> json" where
  "choice_of kind choices description =
     JObj [(''type'', JStr kind), (''enum'', JArr (map JStr choices)), (''description'', JStr description)]"

text \<open>A tool without required arguments has no entry for them.\<close>

definition tool_definition :: "string \<Rightarrow> string \<Rightarrow> (string \<times> json) list \<Rightarrow> string list option \<Rightarrow> json" where
  "tool_definition name description properties required =
     JObj [(''name'', JStr name), (''description'', JStr description),
           (''inputSchema'', JObj ([(''type'', JStr ''object''), (''properties'', JObj properties)] @
              (case required of None \<Rightarrow> [] | Some ks \<Rightarrow> [(''required'', JArr (map JStr ks))])))]"

definition tool_get_symbol_snapshot :: json where
  "tool_get_symbol_snapshot =
     tool_definition ''get_symbol_snapshot''
       (''Get the latest market state for a trading symbol. Returns market price, order book metrics, '' @
        ''flow analytics (CVD, delta, RVOL), futures data (funding rate, OI, liquidation clusters), and '' @
        ''technical indicators. All data is read-only from the analytics hot-state in Redis.'')
       [(''symbol'', argument ''string'' ''Trading pair, e.g. BTCUSDT''),
        (''market_type'', choice_of ''string'' [''futures'', ''spot'']
          ''Market type. Default: futures'')]
       (Some [''symbol''])"

definition tool_list_strategies :: json where
  "tool_list_strategies =
     tool_definition ''list_strategies''
       (''List all strategies with optional filters by symbol and lifecycle state. Returns id, name, '' @
        ''state, market_type, symbol_filters, and current_version.'')
       [(''symbol'', argument ''string'' ''Filter to strategies that include this symbol''),
        (''state'', argument ''string'' ''Filter by lifecycle state (draft, simulation, paper_active, ...)''),
        (''limit'', argument ''integer'' (''Max rows to return (1'' @ [CHR 0xE2, CHR 0x80, CHR 0x93] @ ''100). Default: 50''))]
       None"

definition tool_get_strategy_details :: json where
  "tool_get_strategy_details =
     tool_definition ''get_strategy_details''
       (''Get full detail for a single strategy: definition, current version rules, parameters, '' @
        ''approval level, and the most recent evaluation result.'')
       [(''strategy_id'', argument ''string'' ''Strategy UUID'')]
       (Some [''strategy_id''])"

definition tool_get_recent_executions :: json where
  "tool_get_recent_executions =
     tool_definition ''get_recent_executions''
       (''List recent execution jobs with their status, symbol, side, and result. Filterable by '' @
        ''strategy and symbol.'')
       [(''strategy_id'', argument ''string'' ''Filter by strategy UUID''),
        (''symbol'', argument ''string'' ''Filter by symbol''),
        (''limit'', argument ''integer'' (''Max rows (1'' @ [CHR 0xE2, CHR 0x80, CHR 0x93] @ ''100). Default: 20''))]
       None"

definition tool_get_incidents :: json where
  "tool_get_incidents =
     tool_definition ''get_incidents''
       (''List recent execution incidents. Captures price unavailability errors, adapter failures, '' @
        ''stream auth errors, and other execution anomalies. Filterable by symbol and start timestamp.'')
       [(''symbol'', argument ''string'' ''Filter by symbol in incident context''),
        (''since_ts'', argument ''integer'' ''Only incidents after this Unix timestamp in milliseconds''),
        (''limit'', argument ''integer'' (''Max rows (1'' @ [CHR 0xE2, CHR 0x80, CHR 0x93] @ ''200). Default: 50''))]
       None"

definition tool_simulate_strategy_on_snapshot :: json where
  "tool_simulate_strategy_on_snapshot =
     tool_definition ''simulate_strategy_on_snapshot''
       (''Dry-run evaluate a strategy against the latest analytics snapshot for a symbol. Returns '' @
        ''signal, direction, confidence, explanation, and a hypothetical TradeIntent if the signal '' @
        ''fires. Nothing is published to the execution stream.'')
       [(''strategy_id'', argument ''string'' ''Strategy UUID''),
        (''symbol'', argument ''string'' ''Symbol to evaluate against, e.g. BTCUSDT''),
        (''market_type'', choice_of ''string'' [''futures'', ''spot'']
          ''Market type. Default: futures'')]
       (Some [''strategy_id'', ''symbol''])"

definition tool_simulate_strategy_on_range :: json where
  "tool_simulate_strategy_on_range =
     tool_definition ''simulate_strategy_on_range''
       (''Request a range-based strategy back-test. NOTE: Full historical replay is not yet '' @
        ''implemented. This tool returns a stub response explaining the limitation and recommends '' @
        ''simulate_strategy_on_snapshot instead.'')
       [(''strategy_id'', JObj [(''type'', JStr ''string'')]),
        (''symbol'', JObj [(''type'', JStr ''string'')]),
        (''start_ms'', JObj [(''type'', JStr ''integer'')]),
        (''end_ms'', JObj [(''type'', JStr ''integer'')])]
       (Some [''strategy_id''])"

definition tool_request_paper_trade :: json where
  "tool_request_paper_trade =
     tool_definition ''request_paper_trade''
       (''Submit a paper-mode trade intent for a strategy. The intent is published to '' @
        ''stream:strategy:intents and processed by the execution service which enforces risk checks, '' @
        ''approval levels, and paper-only mode. The strategy must be in paper_active, assisted_live, or '' @
        ''bounded_auto_live state.'')
       [(''strategy_id'', argument ''string'' ''Strategy UUID''),
        (''symbol'', argument ''string'' ''Trading pair, e.g. BTCUSDT''),
        (''side'', choice_of ''string'' [''BUY'', ''SELL'']
          ''Trade direction''),
        (''size_usd'', argument ''number'' ''Notional USD size. Current price is read from Redis to derive size.''),
        (''size'', argument ''number'' ''Asset size in base units (e.g. BTC quantity). Overrides size_usd.''),
        (''reason'', argument ''string'' ''Optional rationale for the trade (logged in intent metadata)'')]
       (Some [''strategy_id'', ''symbol'', ''side''])"

definition tool_update_strategy_state :: json where
  "tool_update_strategy_state =
     tool_definition ''update_strategy_state''
       (''Advance or revert a strategy'' @ [CHR 0x27] @
        ''s lifecycle state. Enforces the strategy state machine (DRAFT'' @ [CHR 0xE2, CHR 0x86, CHR 0x92] @
        ''SIMULATION'' @ [CHR 0xE2, CHR 0x86, CHR 0x92] @ ''PAPER_ACTIVE'' @ [CHR 0xE2, CHR 0x86, CHR 0x92] @
        [CHR 0xE2, CHR 0x80, CHR 0xA6] @
        '') and approval level requirements. Requires a justification for audit logging.'')
       [(''strategy_id'', argument ''string'' ''Strategy UUID''),
        (''target_state'', argument ''string'' ''Target lifecycle state (e.g. simulation, paper_active, paused)''),
        (''justification'', argument ''string'' ''Required: reason for the transition (used for audit log)''),
        (''approval_level'', argument ''string'' (''Caller approval level (l0_readonly '' @ [CHR 0xE2, CHR 0x80, CHR 0xA6] @
           '' l4_bounded_auto). Optional; enforces minimum required level for target state.''))]
       (Some [''strategy_id'', ''target_state'', ''justification''])"

definition tool_get_account_connection_status :: json where
  "tool_get_account_connection_status =
     tool_definition ''get_account_connection_status''
       (''Get the live exchange connection and WebSocket stream health for an account. Returns '' @
        ''connection_status, stream_status, stream age, last event timestamp, stale flag (true if no '' @
        ''event in 120 s), and source_of_truth (redis_live / db_fallback). Useful for diagnosing why '' @
        ''live account data may be stale or unavailable.'')
       [(''account_id'', argument ''string'' ''Exchange account UUID. Omit to get status for all active accounts.'')]
       None"

definition tool_get_account_balances :: json where
  "tool_get_account_balances =
     tool_definition ''get_account_balances''
       (''Get live account balances (from Redis cache if available, otherwise DB). Shows free, locked, '' @
        ''and total for each asset with non-zero balance.'')
       [(''account_id'', argument ''string'' ''Exchange account UUID''),
        (''min_total'', argument ''number'' ''Only include assets with total >= this value. Default: 0'')]
       None"

definition tool_get_account_positions :: json where
  "tool_get_account_positions =
     tool_definition ''get_account_positions''
       (''Get open positions for an account (futures and spot). Returns symbol, side, quantity, entry '' @
        ''price, mark price, and unrealized PnL.'')
       [(''account_id'', argument ''string'' ''Exchange account UUID'')]
       None"

definition tool_get_open_orders :: json where
  "tool_get_open_orders =
     tool_definition ''get_open_orders''
       ''List open orders (NEW or PARTIALLY_FILLED) for an account. Filterable by symbol.''
       [(''account_id'', argument ''string'' ''Exchange account UUID''),
        (''symbol'', argument ''string'' ''Filter by trading pair, e.g. BTCUSDT''),
        (''limit'', argument ''integer'' (''Max orders to return (1'' @ [CHR 0xE2, CHR 0x80, CHR 0x93] @ ''200). Default: 50''))]
       None"

definition tool_get_recent_fills :: json where
  "tool_get_recent_fills =
     tool_definition ''get_recent_fills''
       (''List recent trade fills for an account, ordered by timestamp descending. Includes price, '' @
        ''quantity, commission, realized PnL, and maker/taker flag.'')
       [(''account_id'', argument ''string'' ''Exchange account UUID''),
        (''symbol'', argument ''string'' ''Filter by trading pair''),
        (''limit'', argument ''integer'' (''Max fills to return (1'' @ [CHR 0xE2, CHR 0x80, CHR 0x93] @ ''100). Default: 20''))]
       None"

definition tool_get_stream_health :: json where
  "tool_get_stream_health =
     tool_definition ''get_stream_health''
       (''Report health of all active account WebSocket streams and internal Redis streams. Shows '' @
        ''per-account stream status, age, and healthy flag; plus length and consumer-group lag for each '' @
        ''internal stream (strategy:intents, execution:events, binance:raw, etc.). Use this to diagnose '' @
        ''data pipeline issues or confirm streams are live.'')
       []
       None"

definition tool_check_live_trade_policy :: json where
  "tool_check_live_trade_policy =
     tool_definition ''check_live_trade_policy''
       (''Dry-run evaluation of the live trading policy for a specific account and symbol. Returns '' @
        ''whether all four gates would pass (enabled flag, account allowlist, symbol allowlist, '' @
        ''notional cap) WITHOUT submitting any order. Use this to understand the current policy state '' @
        ''before attempting live trading.'')
       [(''symbol'', argument ''string'' ''Trading pair to evaluate policy against, e.g. BTCUSDT''),
        (''account_id'', argument ''string'' ''Exchange account UUID to check against allowlist''),
        (''notional_usd'', argument ''number'' ''Hypothetical order size in USD to check against the notional cap'')]
       (Some [''symbol''])"

definition TOOL_DEFINITIONS :: "json list" where
  "TOOL_DEFINITIONS =
     [tool_get_symbol_snapshot, tool_list_strategies, tool_get_strategy_details,
      tool_get_recent_executions, tool_get_incidents, tool_simulate_strategy_on_snapshot,
      tool_simulate_strategy_on_range, tool_request_paper_trade, tool_update_strategy_state,
      tool_get_account_connection_status, tool_get_account_balances, tool_get_account_positions,
      tool_get_open_orders, tool_get_recent_fills, tool_get_stream_health,
      tool_check_live_trade_policy]"

section \<open>Handlers\<close>

text \<open>What the handlers read from the settings of the execution service, and the parser of snapshots.\<close>

record 'r mcp_tools = "'r mcp_server" +
  mt_default_account_id :: string
  mt_live_settings :: live_settings
  mt_parse_snapshot :: "rtext \<Rightarrow> exn + snapshot"

definition arg :: "json \<Rightarrow> string \<Rightarrow> json \<Rightarrow> ('r, 'm, json) fact" where
  "arg args k dflt = mlift (obj_get args k dflt)"

definition int_arg :: "json \<Rightarrow> string \<Rightarrow> int \<Rightarrow> ('r, 'm, int) fact" where
  "int_arg args k dflt = mbind (arg args k (JInt dflt)) (\<lambda>v. mlift (py_int v))"

definition missing_argument :: "string \<Rightarrow> json" where
  "missing_argument name = error_answer ''missing_argument'' (quoted name @ '' is required'')"

definition counted :: "string \<Rightarrow> json list \<Rightarrow> json" where
  "counted name rows = JObj [(name, JArr rows), (''count'', JInt (int (length rows)))]"

subsection \<open>Reading\<close>

definition h_symbol_snapshot :: "'r mcp_tools \<Rightarrow> json \<Rightarrow> ('r, 'm, json) fact" where
  "h_symbol_snapshot sv args =
     mbind (arg args ''symbol'' (JStr [])) (\<lambda>symbol.
     mbind (arg args ''market_type'' (JStr ''futures'')) (\<lambda>market_type.
       if \<not> truthy symbol then mret (missing_argument ''symbol'')
       else mcp_symbol_snapshot (mc_ops sv) (mc_env sv) market_type symbol))"

definition h_list_strategies :: "'r mcp_tools \<Rightarrow> json \<Rightarrow> ('r, 'm, json) fact" where
  "h_list_strategies sv args =
     mbind (arg args ''symbol'' JNull) (\<lambda>symbol. mbind (arg args ''state'' JNull) (\<lambda>state.
     mbind (int_arg args ''limit'' 50) (\<lambda>limit.
     mbind (mcp_list_strategies (mc_env sv) symbol state limit) (\<lambda>rows. mret (counted ''strategies'' rows)))))"

definition h_strategy_details :: "'r mcp_tools \<Rightarrow> json \<Rightarrow> ('r, 'm, json) fact" where
  "h_strategy_details sv args =
     mbind (arg args ''strategy_id'' (JStr [])) (\<lambda>strategy_id.
       if \<not> truthy strategy_id then mret (missing_argument ''strategy_id'')
       else mbind (mcp_strategy_details (mc_env sv) strategy_id) (\<lambda>detail. mret (case detail of
              None \<Rightarrow> error_answer ''not_found'' (''Strategy '' @ quoted (str_of (mc_env sv) strategy_id) @ '' not found'')
            | Some d \<Rightarrow> d)))"

definition h_recent_executions :: "'r mcp_tools \<Rightarrow> json \<Rightarrow> ('r, 'm, json) fact" where
  "h_recent_executions sv args =
     mbind (arg args ''strategy_id'' JNull) (\<lambda>strategy_id. mbind (arg args ''symbol'' JNull) (\<lambda>symbol.
     mbind (int_arg args ''limit'' 20) (\<lambda>limit.
     mbind (mcp_recent_executions (mc_env sv) strategy_id symbol limit) (\<lambda>rows. mret (counted ''executions'' rows)))))"

definition h_incidents :: "'r mcp_tools \<Rightarrow> json \<Rightarrow> ('r, 'm, json) fact" where
  "h_incidents sv args =
     mbind (arg args ''symbol'' JNull) (\<lambda>symbol. mbind (arg args ''since_ts'' JNull) (\<lambda>since_ts.
     mbind (mlift (if truthy since_ts then ebind (py_int since_ts) (\<lambda>t. Inr (Some t)) else Inr None)) (\<lambda>since_ms.
     mbind (int_arg args ''limit'' 50) (\<lambda>limit.
     mbind (mcp_incidents (mc_env sv) symbol since_ms limit) (\<lambda>rows. mret (counted ''incidents'' rows))))))"

subsection \<open>Simulating\<close>

definition h_simulate_on_snapshot :: "'r mcp_tools \<Rightarrow> json \<Rightarrow> ('r, 'm, json) fact" where
  "h_simulate_on_snapshot sv args =
     mbind (arg args ''strategy_id'' (JStr [])) (\<lambda>strategy_id. mbind (arg args ''symbol'' (JStr [])) (\<lambda>symbol.
     mbind (arg args ''market_type'' (JStr ''futures'')) (\<lambda>market_type.
       if \<not> truthy strategy_id then mret (missing_argument ''strategy_id'')
       else if \<not> truthy symbol then mret (missing_argument ''symbol'')
       else simulate_strategy_on_snapshot (mc_ops sv) (mc_env sv) (mt_parse_snapshot sv) strategy_id symbol market_type)))"

definition h_simulate_on_range :: "json \<Rightarrow> ('r, 'm, json) fact" where
  "h_simulate_on_range args = mret (JObj
     [(''status'', JStr ''not_implemented''),
      (''message'', JStr (''Full range simulation requires historical snapshot replay which is '' @
         ''deferred to a future phase. Use '' @ quoted ''simulate_strategy_on_snapshot'' @ '' to '' @
         ''evaluate against the latest available analytics snapshot.'')),
      (''available_tool'', JStr ''simulate_strategy_on_snapshot''),
      (''deferred_reason'', JStr ''historical_snapshot_store_not_implemented'')])"

subsection \<open>Acting\<close>

definition opt_float :: "json \<Rightarrow> exn + rat option" where
  "opt_float v = (if v = JNull then Inr None else ebind (py_float v) (\<lambda>x. Inr (Some x)))"

definition h_paper_trade :: "'r mcp_tools \<Rightarrow> json \<Rightarrow> ('r, 'm, json) fact" where
  "h_paper_trade sv args =
     mbind (arg args ''strategy_id'' (JStr [])) (\<lambda>strategy_id. mbind (arg args ''symbol'' (JStr [])) (\<lambda>symbol.
     mbind (arg args ''side'' (JStr [])) (\<lambda>side. mbind (arg args ''size_usd'' JNull) (\<lambda>size_usd.
     mbind (arg args ''size'' JNull) (\<lambda>amount. mbind (arg args ''reason'' (JStr [])) (\<lambda>reason.
       if \<not> truthy strategy_id then mret (missing_argument ''strategy_id'')
       else if \<not> truthy symbol then mret (missing_argument ''symbol'')
       else if \<not> truthy side then mret (missing_argument ''side'')
       else mbind (mlift (opt_float size_usd)) (\<lambda>u. mbind (mlift (opt_float amount)) (\<lambda>z.
              request_paper_trade (mc_ops sv) (mc_env sv) strategy_id symbol side u z reason))))))))"

definition h_update_state :: "'r mcp_tools \<Rightarrow> json \<Rightarrow> ('r, 'm, json) fact" where
  "h_update_state sv args =
     mbind (arg args ''strategy_id'' (JStr [])) (\<lambda>strategy_id.
     mbind (arg args ''target_state'' (JStr [])) (\<lambda>target_state.
     mbind (arg args ''justification'' (JStr [])) (\<lambda>justification.
       if \<not> truthy strategy_id then mret (missing_argument ''strategy_id'')
       else if \<not> truthy target_state then mret (missing_argument ''target_state'')
       else if \<not> truthy justification
       then mret (error_answer ''missing_argument'' (quoted ''justification'' @ '' is required for audit logging.''))
       else mbind (arg args ''approval_level'' JNull) (\<lambda>approval_level.
              mcp_update_strategy_state (mc_env sv) strategy_id target_state justification approval_level))))"

subsection \<open>Accounts\<close>

text \<open>The account asked for, or the default one.\<close>

definition account_arg :: "'r mcp_tools \<Rightarrow> json \<Rightarrow> ('r, 'm, json) fact" where
  "account_arg sv args =
     mbind (arg args ''account_id'' JNull) (\<lambda>v. mret (py_or v (JStr (mt_default_account_id sv))))"

definition h_connection_status :: "'r mcp_tools \<Rightarrow> json \<Rightarrow> ('r, 'm, json) fact" where
  "h_connection_status sv args =
     mbind (account_arg sv args) (\<lambda>a. mcp_connection_status (mc_ops sv) (mc_env sv) (py_or a JNull))"

definition with_account :: "'r mcp_tools \<Rightarrow> json \<Rightarrow> (json \<Rightarrow> ('r, 'm, json) fact) \<Rightarrow> ('r, 'm, json) fact" where
  "with_account sv args f =
     mbind (account_arg sv args) (\<lambda>a. if \<not> truthy a then mret (missing_argument ''account_id'') else f a)"

definition h_balances :: "'r mcp_tools \<Rightarrow> json \<Rightarrow> ('r, 'm, json) fact" where
  "h_balances sv args = with_account sv args (\<lambda>a.
     mbind (arg args ''min_total'' (JNum 0)) (\<lambda>v. mbind (mlift (py_float v)) (\<lambda>min_total.
       mcp_balances (mc_ops sv) (mc_env sv) a min_total)))"

definition h_positions :: "'r mcp_tools \<Rightarrow> json \<Rightarrow> ('r, 'm, json) fact" where
  "h_positions sv args = with_account sv args (mcp_positions (mc_ops sv) (mc_env sv))"

definition h_open_orders :: "'r mcp_tools \<Rightarrow> json \<Rightarrow> ('r, 'm, json) fact" where
  "h_open_orders sv args = with_account sv args (\<lambda>a.
     mbind (arg args ''symbol'' JNull) (\<lambda>symbol. mbind (int_arg args ''limit'' 50) (\<lambda>limit.
       mcp_open_orders (mc_env sv) a symbol limit)))"

definition h_recent_fills :: "'r mcp_tools \<Rightarrow> json \<Rightarrow> ('r, 'm, json) fact" where
  "h_recent_fills sv args = with_account sv args (\<lambda>a.
     mbind (arg args ''symbol'' JNull) (\<lambda>symbol. mbind (int_arg args ''limit'' 20) (\<lambda>limit.
       mcp_recent_fills (mc_env sv) a symbol limit)))"

text \<open>
  The gates on the arguments as they are: only a hashable account can be looked up, and only a text
  has an upper case.
\<close>

definition json_policy_reasons :: "env \<Rightarrow> live_policy \<Rightarrow> json \<Rightarrow> json \<Rightarrow> rat option \<Rightarrow> exn + string list" where
  "json_policy_reasons env p account symbol notional_usd =
     (if lp_account_allowlist p \<noteq> [] \<and> (case account of JArr _ \<Rightarrow> True | JObj _ \<Rightarrow> True | _ \<Rightarrow> False) then Inl TypeError
      else if lp_symbol_allowlist p \<noteq> [] \<and> (case symbol of JStr _ \<Rightarrow> False | _ \<Rightarrow> True) then Inl AttributeError
      else Inr (gate_reasons env p
             (account_reasons p (account \<in> set (map JStr (lp_account_allowlist p))) (str_of env account))
             (symbol_reasons p (str_of env symbol)) notional_usd))"

definition policy_answer :: "live_settings \<Rightarrow> json \<Rightarrow> json \<Rightarrow> rat option \<Rightarrow> string list \<Rightarrow> json" where
  "policy_answer ls account symbol notional_usd reasons =
     JObj [(''policy_would_allow'', JBool (reasons = [])), (''live_trading_enabled'', JBool (ls_live_trading_enabled ls)),
           (''account_id'', account), (''symbol'', symbol), (''notional_usd'', opt_json JNum notional_usd),
           (''blocked_reasons'', JArr (map JStr reasons)),
           (''note'', JStr (''This is a policy check only '' @ [CHR 0xE2, CHR 0x80, CHR 0x94] @ '' no order was submitted. '' @
              ''All four gates must pass before any live order can be placed.''))]"

definition h_live_policy :: "'r mcp_tools \<Rightarrow> json \<Rightarrow> ('r, 'm, json) fact" where
  "h_live_policy sv args =
     (let env = mc_env sv; ls = mt_live_settings sv in
      mbind (account_arg sv args) (\<lambda>account. mbind (arg args ''symbol'' (JStr [])) (\<lambda>symbol.
      mbind (arg args ''notional_usd'' (JInt 0)) (\<lambda>v. mbind (mlift (py_float v)) (\<lambda>x.
      let notional_usd = (if x = 0 then None else Some x) in
      if \<not> truthy symbol then mret (missing_argument ''symbol'')
      else mbind (mlift (policy_from_settings env ls)) (\<lambda>p.
           mbind (mlift (opt_decimal env notional_usd)) (\<lambda>n.
           mbind (mlift (json_policy_reasons env p account symbol n)) (\<lambda>reasons.
             mret (policy_answer ls account symbol notional_usd reasons)))))))))"

subsection \<open>The table\<close>

definition handlers :: "'r mcp_tools \<Rightarrow> (string \<times> (json \<Rightarrow> ('r, 'm, json) fact)) list" where
  "handlers sv =
     [(''get_symbol_snapshot'', h_symbol_snapshot sv), (''list_strategies'', h_list_strategies sv),
      (''get_strategy_details'', h_strategy_details sv), (''get_recent_executions'', h_recent_executions sv),
      (''get_incidents'', h_incidents sv), (''simulate_strategy_on_snapshot'', h_simulate_on_snapshot sv),
      (''simulate_strategy_on_range'', h_simulate_on_range), (''request_paper_trade'', h_paper_trade sv),
      (''update_strategy_state'', h_update_state sv), (''get_account_connection_status'', h_connection_status sv),
      (''get_account_balances'', h_balances sv), (''get_account_positions'', h_positions sv),
      (''get_open_orders'', h_open_orders sv), (''get_recent_fills'', h_recent_fills sv),
      (''check_live_trade_policy'', h_live_policy sv),
      (''get_stream_health'', \<lambda>args. mcp_stream_health (mc_ops sv) (mc_env sv))]"

end
