(* ===== verification/McpServer.thy ===== *)
theory McpServer
  imports McpTools
begin

text \<open>
  The MCP server itself: the JSON-RPC answers (\<open>services/mcp_server/protocol.py\<close>), the registry of sessions
  (\<open>session.py\<close>), the event stream and the message endpoint (\<open>main.py\<close>).  The queue of a session holds the
  texts that its stream will send.
\<close>

section \<open>Answers\<close>

definition MCP_PROTOCOL_VERSION :: string where "MCP_PROTOCOL_VERSION = ''2024-11-05''"

definition proto_ok :: "json \<Rightarrow> json \<Rightarrow> json" where
  "proto_ok rid result = JObj [(''jsonrpc'', JStr ''2.0''), (''id'', rid), (''result'', result)]"

definition proto_error :: "json \<Rightarrow> int \<Rightarrow> string \<Rightarrow> json" where
  "proto_error rid code message =
     JObj [(''jsonrpc'', JStr ''2.0''), (''id'', rid),
           (''error'', JObj [(''code'', JInt code), (''message'', JStr message)])]"

definition text_content :: "string \<Rightarrow> bool \<Rightarrow> json" where
  "text_content text is_error =
     JObj [(''content'', JArr [JObj [(''type'', JStr ''text''), (''text'', JStr text)]]), (''isError'', JBool is_error)]"

definition tool_content :: "env \<Rightarrow> json \<Rightarrow> json" where
  "tool_content env data = text_content (json_text (e_show env) data) False"

definition tool_error :: "string \<Rightarrow> json" where
  "tool_error message = text_content message True"

definition initialize_result :: "string \<Rightarrow> string \<Rightarrow> json" where
  "initialize_result server_name server_version =
     JObj [(''protocolVersion'', JStr MCP_PROTOCOL_VERSION), (''capabilities'', JObj [(''tools'', JObj [])]),
           (''serverInfo'', JObj [(''name'', JStr server_name), (''version'', JStr server_version)])]"

definition tools_list_result :: json where
  "tools_list_result = JObj [(''tools'', JArr TOOL_DEFINITIONS)]"

section \<open>Sessions\<close>

type_synonym ('r, 'a) tact = "(('r, strategy_db) mcp_world, 'a) prog"

definition mcp_session_key :: "string \<Rightarrow> string" where
  "mcp_session_key sid = ''mcp:session:'' @ sid"

definition set_queue :: "string \<Rightarrow> string list \<Rightarrow> ('r, unit) tact" where
  "set_queue sid q = mput (\<lambda>w. w\<lparr>mw_queues := dict_set sid q (mw_queues w)\<rparr>)"

definition register_session :: "string \<Rightarrow> ('r, unit) tact" where
  "register_session sid = mput (\<lambda>w. w\<lparr>mw_local := sid # mw_local w\<rparr>)"

definition forget_session :: "string \<Rightarrow> ('r, unit) tact" where
  "forget_session sid = mput (\<lambda>w. w\<lparr>mw_local := filter (\<lambda>s. s \<noteq> sid) (mw_local w)\<rparr>)"

definition persist_session :: "'r mcp_tools \<Rightarrow> string \<Rightarrow> json \<Rightarrow> json \<Rightarrow> ('r, unit) tact" where
  "persist_session sv sid user_id client_id =
     mbind (mget w_now) (\<lambda>now.
     mbind (on_redis (r_set (mc_ops sv) (mcp_session_key sid)
        (Json (JObj [(''user_id'', user_id), (''client_id'', client_id), (''created_at'', JInt (seconds now))]))
        False (Some (ms_session_timeout_s (mc_settings sv))))) (\<lambda>_. mret ()))"

definition session_create :: "'r mcp_tools \<Rightarrow> json \<Rightarrow> json \<Rightarrow> ('r, string) tact" where
  "session_create sv user_id client_id =
     mbind (uuid4 (mc_env sv)) (\<lambda>sid.
     mseq (set_queue sid []) (mseq (register_session sid) (mseq (persist_session sv sid user_id client_id) (mret sid))))"

text \<open>A session that has expired in Redis is forgotten; its stream keeps the queue.\<close>

definition session_get :: "'r mcp_tools \<Rightarrow> string \<Rightarrow> ('r, bool) tact" where
  "session_get sv sid =
     mbind (mget (\<lambda>w. sid \<in> set (mw_local w))) (\<lambda>known.
     if \<not> known then mret False
     else mbind (on_redis (r_exists (mc_ops sv) (mcp_session_key sid))) (\<lambda>alive.
          if alive then mret True else mseq (forget_session sid) (mret False)))"

definition session_remove :: "'r mcp_tools \<Rightarrow> string \<Rightarrow> ('r, unit) tact" where
  "session_remove sv sid = mseq (forget_session sid) (on_redis (r_delete (mc_ops sv) (mcp_session_key sid)))"

definition session_refresh :: "'r mcp_tools \<Rightarrow> string \<Rightarrow> ('r, unit) tact" where
  "session_refresh sv sid =
     on_redis (r_expire (mc_ops sv) (mcp_session_key sid) (ms_session_timeout_s (mc_settings sv)))"

definition session_user :: "'r mcp_tools \<Rightarrow> string \<Rightarrow> ('r, json) tact" where
  "session_user sv sid =
     mbind (read_json (mc_ops sv) (mcp_session_key sid)) (\<lambda>v. case v of
       None \<Rightarrow> mret JNull | Some j \<Rightarrow> mlift (obj_get j ''user_id'' JNull))"

section \<open>Requests\<close>

definition unknown_tool :: "'r mcp_tools \<Rightarrow> json \<Rightarrow> string" where
  "unknown_tool sv name =
     ''Unknown tool '' @ quoted (str_of (mc_env sv) name) @ ''. Available: '' @
     repr_list (map fst (handlers sv :: (string \<times> (json \<Rightarrow> ('r, unit, json) fact)) list))"

text \<open>What a tool returns is its answer, and what it raises is an answer that says so.\<close>

definition run_tool :: "'r mcp_tools \<Rightarrow> (json \<Rightarrow> ('r, 'm, json) fact) \<Rightarrow> json \<Rightarrow> ('r, 'm, json) fact" where
  "run_tool sv h args =
     mtry (mbind (h args) (\<lambda>v. mret (tool_content (mc_env sv) v)))
          (\<lambda>e. mret (tool_error (''Internal error: '' @ exn_text (mc_env sv) e)))"

text \<open>A name that cannot be hashed raises when it is looked up.\<close>

definition tools_call :: "'r mcp_tools \<Rightarrow> json \<Rightarrow> json \<Rightarrow> ('r, 'm, json) fact" where
  "tools_call sv rid params =
     mbind (mlift (obj_get params ''name'' (JStr []))) (\<lambda>name.
     mbind (mlift (obj_get params ''arguments'' JNull)) (\<lambda>a.
     case name of
       JArr _ \<Rightarrow> mraise TypeError
     | JObj _ \<Rightarrow> mraise TypeError
     | _ \<Rightarrow>
         (case Option.bind (case name of JStr n \<Rightarrow> Some n | _ \<Rightarrow> None) (map_of (handlers sv)) of
            None \<Rightarrow> mret (proto_ok rid (tool_error (unknown_tool sv name)))
          | Some h \<Rightarrow> mbind (run_tool sv h (py_or a (JObj []))) (\<lambda>r. mret (proto_ok rid r)))))"

definition dispatch :: "'r mcp_tools \<Rightarrow> json \<Rightarrow> json \<Rightarrow> json \<Rightarrow> ('r, 'm, json) fact" where
  "dispatch sv method rid params =
     (if method = JStr ''initialize''
      then mret (proto_ok rid (initialize_result (ms_server_name (mc_settings sv)) (ms_server_version (mc_settings sv))))
      else if method = JStr ''notifications/initialized'' then mret (proto_ok rid (JObj []))
      else if method = JStr ''tools/list'' then mret (proto_ok rid tools_list_result)
      else if method = JStr ''tools/call'' then tools_call sv rid params
      else if method = JStr ''ping'' then mret (proto_ok rid (JObj []))
      else mret (proto_error rid (- 32601) (''Method not found: '' @ str_of (mc_env sv) method)))"

text \<open>The queue of the session gets the answer, whether or not the session is still registered then.\<close>

definition push_answer :: "string \<Rightarrow> string \<Rightarrow> ('r, unit) tact" where
  "push_answer sid text =
     mput (\<lambda>w. w\<lparr>mw_queues := map (\<lambda>(k, q). (k, if k = sid then q @ [text] else q)) (mw_queues w)\<rparr>)"

definition handle_body :: "'r mcp_tools \<Rightarrow> string \<Rightarrow> json \<Rightarrow> ('r, unit) tact" where
  "handle_body sv sid body =
     mbind (mlift (obj_get body ''method'' (JStr []))) (\<lambda>method.
     mbind (mlift (obj_get body ''id'' JNull)) (\<lambda>rid.
     mbind (mlift (obj_get body ''params'' JNull)) (\<lambda>params.
     mbind (dispatch sv method rid (py_or params (JObj []))) (\<lambda>answer.
       push_answer sid (json_text (e_show (mc_env sv)) answer)))))"

definition handle_message ::
  "'r mcp_tools \<Rightarrow> string \<Rightarrow> string \<Rightarrow> string \<Rightarrow> rtext \<Rightarrow> ('r, unit) tact" where
  "handle_message sv authorization api_key sid body =
     mbind (verify_mcp_auth (mcp_server.truncate sv) authorization api_key) (\<lambda>_.
     mbind (session_get sv sid) (\<lambda>found.
       if \<not> found then mraise (HttpError 404 (''Session '' @ quoted sid @ '' not found or expired''))
       else (case json_loads body of
            Inl _ \<Rightarrow> mraise (HttpError 400 ''Invalid JSON body'')
          | Inr j \<Rightarrow> handle_body sv sid j)))"

section \<open>The event stream\<close>

definition sse_event :: "string \<Rightarrow> string \<Rightarrow> string" where
  "sse_event name data = ''event: '' @ name @ [CHR 0x0A] @ ''data: '' @ data @ [CHR 0x0A, CHR 0x0A]"

definition sse_endpoint :: "'r mcp_tools \<Rightarrow> string \<Rightarrow> string \<Rightarrow> ('r, string) tact" where
  "sse_endpoint sv authorization api_key =
     mbind (verify_mcp_auth (mcp_server.truncate sv) authorization api_key) (\<lambda>who.
       session_create sv (mi_user_id who) (mi_client_id who))"

text \<open>
  One round of the stream on a client that is still there: the next message, or, when none has come for
  fifteen seconds, a comment that keeps the connection open.
\<close>

definition sse_round :: "'r mcp_tools \<Rightarrow> string \<Rightarrow> ('r, string) tact" where
  "sse_round sv sid =
     mbind (mget (\<lambda>w. map_of (mw_queues w) sid)) (\<lambda>q. case q of
       Some (m # ms) \<Rightarrow> mseq (set_queue sid ms) (mret (sse_event ''message'' m))
     | _ \<Rightarrow> mseq (session_refresh sv sid) (mret ('': keepalive'' @ [CHR 0x0A, CHR 0x0A])))"

text \<open>\<open>n\<close> rounds until the client goes away; the session is removed in the end, and also when a round raises.\<close>

primrec sse_rounds :: "'r mcp_tools \<Rightarrow> string \<Rightarrow> nat \<Rightarrow> ('r, string list) tact" where
  "sse_rounds sv sid 0 = mret []"
| "sse_rounds sv sid (Suc n) =
     mbind (sse_round sv sid) (\<lambda>c. mbind (sse_rounds sv sid n) (\<lambda>cs. mret (c # cs)))"

definition sse_stream :: "'r mcp_tools \<Rightarrow> string \<Rightarrow> nat \<Rightarrow> ('r, string list) tact" where
  "sse_stream sv sid n =
     mbind (mtry (mbind (sse_rounds sv sid n) (\<lambda>cs. mret (Inr cs))) (\<lambda>e. mret (Inl e))) (\<lambda>r.
     mseq (session_remove sv sid)
       (case r of Inl e \<Rightarrow> mraise e
        | Inr cs \<Rightarrow> mret (sse_event ''endpoint'' (''/messages?session_id='' @ sid) # cs)))"

end
