(* ===== verification/McpServerProperties.thy ===== *)
theory McpServerProperties
  imports McpServer Gateway StrategyProperties
begin

text \<open>
  What the tools of the MCP server do to the platform: the ones the public gateway lets through only read, a
  change of state follows the life cycle and is recorded, a paper trade is published once with the size it was
  asked for, a dry run is the evaluation of the strategy service, and every request gets its answer.
\<close>

section \<open>Tools that read and tools that act\<close>

text \<open>
  A relation between worlds that reading commands, database sessions and fresh identifiers keep is kept by every
  tool that reads; if changes of the tables, the history and the streams keep it too, by every tool.
\<close>

locale reading = frame R
  for R :: "('r, strategy_db, 'm) world_scheme \<Rightarrow> ('r, strategy_db, 'm) world_scheme \<Rightarrow> bool" +
  fixes sv :: "'r mcp_tools"
  assumes got [moves]: "moves R (on_redis (r_get (mc_ops sv) k))"
    and xlen [moves]: "moves R (on_redis (r_xlen (mc_ops sv) st))"
    and xinfo [moves]: "moves R (on_redis (r_xinfo_groups (mc_ops sv) st))"
    and sessions: "R w (w\<lparr>w_sessions := n\<rparr>)"
    and uuids: "R w (w\<lparr>w_uuids := n\<rparr>)"
begin

lemma uuid [moves]: "moves R (uuid4 env)"
  by (simp add: moves_def uuid4_def uuids)

lemma read_session: "(\<And>d x d'. body d = Inr (x, d') \<Longrightarrow> d' = d) \<Longrightarrow> moves R (session env body)"
proof (rule movesI)
  fix w :: "('r, strategy_db, 'm) world_scheme" and r w'
  assume same: "\<And>d x d'. body d = Inr (x, d') \<Longrightarrow> d' = d" and run: "session env body w = (r, w')"
  have "w\<lparr>w_sessions := n, w_db := w_db w\<rparr> = w\<lparr>w_sessions := n\<rparr>" for n by simp
  then have "w' = w\<lparr>w_sessions := Suc (w_sessions w)\<rparr>"
    using run same [of "w_db w"] by (auto simp: session_def Let_def split: if_splits sum.splits prod.splits)
  then show "R w w'" by (simp add: sessions)
qed

lemma queries [moves]: "moves R (query env q)"
  unfolding query_def by (rule read_session) simp

lemma text_json [moves]: "moves R (read_text (mc_ops sv) k)" "moves R (read_json (mc_ops sv) k)"
  unfolding read_json_def read_text_def by (intro rules moves; auto split: option.split intro!: rules)+

lemma market [moves]: "moves R (mcp_symbol_snapshot (mc_ops sv) env mt sy)"
proof -
  have part: "moves R (add_part (mc_ops sv) name k f p)" for name k f p
    unfolding add_part_def by (intro rules moves) (auto split: option.split intro!: rules)
  have parts: "moves R (add_parts (mc_ops sv) ks p)" for ks p
    by (induction ks arbitrary: p) (auto intro!: rules part)
  have "moves R (assembled_snapshot (mc_ops sv) env mt sy)"
    unfolding assembled_snapshot_def Let_def by (auto intro!: rules part parts split: prod.split)
  then show ?thesis
    unfolding mcp_symbol_snapshot_def by (intro rules moves) (auto split: option.split json.split intro!: rules)
qed

lemma status [moves]: "moves R (cached_status (mc_ops sv) a)"
  unfolding cached_status_def by (intro rules moves)

lemma accounts [moves]:
  "moves R (mcp_connection_status (mc_ops sv) env a)"
  "moves R (mcp_balances (mc_ops sv) env a m)"
  "moves R (mcp_positions (mc_ops sv) env a)"
  unfolding mcp_connection_status_def mcp_balances_def mcp_positions_def
  by (auto intro!: rules moves split: option.split sum.split)

lemma health [moves]: "moves R (mcp_stream_health (mc_ops sv) env)"
proof -
  have "moves R (internal_stream (mc_ops sv) env name)" for name
    unfolding internal_stream_def by (intro rules moves)
  then show ?thesis unfolding mcp_stream_health_def by (intro rules moves)
qed

lemma tables [moves]:
  "moves R (mcp_open_orders env a sy n)"
  "moves R (mcp_recent_fills env a sy n)"
  "moves R (mcp_recent_executions env i sy n)"
  "moves R (mcp_incidents env sy t n)"
  "moves R (mcp_list_strategies env sy st n)"
  "moves R (mcp_strategy_details env i)"
  unfolding mcp_open_orders_def mcp_recent_fills_def mcp_recent_executions_def mcp_incidents_def
    mcp_list_strategies_def mcp_strategy_details_def Let_def
  by (auto intro!: rules moves read_session split: option.split if_splits)

lemma args [moves]: "moves R (arg a k d)" "moves R (int_arg a k n)" "moves R (account_arg sv a)"
  unfolding arg_def int_arg_def account_arg_def by (intro rules)+

lemma account: "(\<And>a. moves R (f a)) \<Longrightarrow> moves R (with_account sv b f)"
  unfolding with_account_def by (auto intro!: rules moves)

lemma evaluation [moves]: "moves R (evaluate_snapshot env ev s run_id)"
  unfolding evaluate_snapshot_def blocked_eval_def evaluate_strategy_def new_evaluation_def rule_based_def ma_crossover_def
    make_intent_def Let_def
  by (auto intro!: rules moves split: strategy_kind.split option.split prod.split)

lemma dry [moves]: "moves R (simulate_strategy_on_snapshot (mc_ops sv) env parse i sy mt)"
  unfolding simulate_strategy_on_snapshot_def dry_run_def
  by (auto intro!: rules moves split: option.split sum.split prod.split)

lemma prices [moves]: "moves R (paper_price (mc_ops sv) env mt sy)"
  unfolding paper_price_def price_from_redis_def by (auto intro!: rules moves split: option.split)

text \<open>The handlers that read.\<close>

lemma read_handlers [moves]:
  "moves R (h_symbol_snapshot sv a)" "moves R (h_list_strategies sv a)" "moves R (h_strategy_details sv a)"
  "moves R (h_recent_executions sv a)" "moves R (h_incidents sv a)" "moves R (h_connection_status sv a)"
  "moves R (h_balances sv a)" "moves R (h_positions sv a)" "moves R (h_open_orders sv a)"
  "moves R (h_recent_fills sv a)" "moves R (h_live_policy sv a)" "moves R (h_simulate_on_snapshot sv a)"
  "moves R (h_simulate_on_range a)"
  unfolding h_symbol_snapshot_def h_list_strategies_def h_strategy_details_def h_recent_executions_def h_incidents_def
    h_connection_status_def h_balances_def h_positions_def h_open_orders_def h_recent_fills_def h_live_policy_def
    h_simulate_on_snapshot_def h_simulate_on_range_def Let_def
  by (auto intro!: rules moves account)

lemma reading_tools:
  assumes "map_of (handlers sv) name = Some h" "name \<notin> {''request_paper_trade'', ''update_strategy_state''}"
  shows "moves R (h a)"
  using assms read_handlers health by (auto simp: handlers_def split: if_splits)

lemma runs: "moves R (h a) \<Longrightarrow> moves R (run_tool sv h a)"
  unfolding run_tool_def by (intro rules)

end

locale acting = reading +
  assumes added [moves]: "moves R (on_redis (r_xadd (mc_ops sv) st fs))"
    and tables_change: "R w (w\<lparr>w_sessions := n, w_db := d\<rparr>)"
    and recorded: "R w (w\<lparr>w_trace := t\<rparr>)"
begin

lemma any_session [moves]: "moves R (session env body)"
  by (auto simp: moves_def session_def Let_def tables_change sessions split: sum.split)

lemma effects [moves]: "moves R (record_effect e)"
  by (simp add: moves_def record_effect_def mput_def recorded)

lemma paper_trade [moves]: "moves R (request_paper_trade (mc_ops sv) env i sy sd u z reason)"
proof -
  have "moves R (add_incident env ic)" for ic
    unfolding add_incident_def by (intro rules moves)
  then have "moves R (trade_size (mc_ops sv) env s i sy sd u z v)" for s sd z v
    unfolding trade_size_def Let_def by (auto intro!: rules moves split: option.split sum.split)
  moreover have "moves R (publish_paper_trade (mc_ops sv) env s i sy sd a u reason)" for s sd a u
    unfolding publish_paper_trade_def stream_publish_def by (intro rules moves)
  ultimately have "moves R (trade_of (mc_ops sv) env s i sy sd u z reason)" for s sd
    unfolding trade_of_def by (auto intro!: rules split: sum.split prod.split)
  then show ?thesis
    unfolding request_paper_trade_def by (auto intro!: rules moves split: option.split sum.split)
qed

lemma state_change [moves]: "moves R (mcp_update_strategy_state env i t j l)"
  unfolding mcp_update_strategy_state_def by (auto intro!: rules moves split: option.split sum.split)

lemma every_tool:
  assumes "map_of (handlers sv) name = Some h"
  shows "moves R (h a)"
proof -
  have "moves R (h_paper_trade sv a)" "moves R (h_update_state sv a)"
    unfolding h_paper_trade_def h_update_state_def by (auto intro!: rules moves)
  then show ?thesis
    using assms read_handlers health by (auto simp: handlers_def split: if_splits)
qed

lemma call: "moves R (tools_call sv mid params)"
proof -
  have "moves R (run_tool sv h a)" if "map_of (handlers sv) name = Some h" for h a name
    using every_tool [OF that] by (rule runs)
  then show ?thesis
    unfolding tools_call_def
    by (intro rules) (auto intro!: rules split: json.split option.split)
qed

lemma dispatch_moves: "moves R (dispatch sv method mid params)"
  unfolding dispatch_def by (auto intro!: rules call)

end

text \<open>The queues of the streams and the registered sessions are the same.\<close>

definition same_queues :: "('r, 'd, 'm) mcp_world_scheme \<Rightarrow> ('r, 'd, 'm) mcp_world_scheme \<Rightarrow> bool" where
  "same_queues w w' = (mw_queues w' = mw_queues w \<and> mw_local w' = mw_local w)"

interpretation queues: acting same_queues sv for sv
  by unfold_locales (auto simp: same_queues_def moves_def on_redis_def split: prod.split)

text \<open>Tables, history, clock and the live keys of the store are the same.\<close>

definition unchanged :: "('r \<Rightarrow> string \<Rightarrow> rtext option) \<Rightarrow> ('r, 'd, 'm) world_scheme \<Rightarrow> ('r, 'd, 'm) world_scheme \<Rightarrow> bool" where
  "unchanged live w w' =
     (w_db w' = w_db w \<and> w_trace w' = w_trace w \<and> w_now w' = w_now w \<and> live (w_redis w') = live (w_redis w))"

lemma reading_unchanged: "redis (mc_ops sv) live \<Longrightarrow> reading (unchanged live) sv"
  by unfold_locales
    (auto simp: moves_def unchanged_def on_redis_def split: prod.splits
      dest: redis.get_live redis.xlen_live redis.xinfo_live)

section \<open>Answers\<close>

lemma run_tool_returns: "\<exists>v w'. run_tool sv h a w = (Inr v, w')"
  by (auto simp: run_tool_def mtry_def mbind_def mret_def split: prod.split sum.split)

text \<open>A call whose parameters are an object that names the tool by a text.\<close>

lemma tools_call_named:
  assumes "map_of (handlers sv) name = Some h"
  shows "tools_call sv mid (JObj [(''name'', JStr name), (''arguments'', a)]) =
     mbind (run_tool sv h (py_or a (JObj []))) (\<lambda>r. mret (proto_ok mid r))"
  using assms by (simp add: tools_call_def dict_get_def mbind_def mlift_def fun_eq_iff)

lemma allowed_tools_served:
  "name \<in> set ALLOWED_TOOLS \<Longrightarrow> \<exists>h. map_of (handlers sv) name = Some h \<and> name \<notin> {''request_paper_trade'', ''update_strategy_state''}"
  by (auto simp: ALLOWED_TOOLS_def handlers_def)

text \<open>
  C28: Whatever tool call the policy of the public gateway lets through is served by the MCP server, is answered
  with the identifier it came with, and reads only: the tables, the streams and the keys of the store are
  afterwards what they were before.
\<close>

theorem gateway_tools_only_read:
  fixes w :: "('r, strategy_db, 'm) world_scheme"
  assumes "redis (mc_ops sv) live" "check_tool_call name scopes = Inr ()"
    "dispatch sv (JStr ''tools/call'') mid (JObj [(''name'', JStr name), (''arguments'', a)]) w = (r, w')"
  shows "(\<exists>v. r = Inr (proto_ok mid v)) \<and> w_db w' = w_db w \<and> w_trace w' = w_trace w \<and>
    live (w_redis w') = live (w_redis w)"
proof -
  have "name \<in> set ALLOWED_TOOLS" using assms(2) by (auto simp: check_tool_call_def split: if_splits)
  then obtain h :: "json \<Rightarrow> ('r, 'm, json) fact" where h: "map_of (handlers sv) name = Some h" "name \<notin> {''request_paper_trade'', ''update_strategy_state''}"
    using allowed_tools_served by blast
  have reads: "reading (unchanged live :: ('r, strategy_db, 'm) world_scheme \<Rightarrow> _) sv" using assms(1) by (rule reading_unchanged)
  obtain v u where v: "run_tool sv h (py_or a (JObj [])) w = (Inr v, u)" using run_tool_returns by blast
  have "unchanged live w u"
    using reading.runs [OF reads reading.reading_tools [OF reads h]] v by (rule movesD)
  then show ?thesis
    using assms(3) v by (auto simp: dispatch_def tools_call_named [OF h(1)] mbind_def mret_def unchanged_def)
qed

text \<open>A request as clients send them: a call of a tool has an object of parameters and a name that can be looked up.\<close>

definition proper_request :: "(string \<times> json) list \<Rightarrow> bool" where
  "proper_request d =
     (dict_get ''method'' (JStr []) d = JStr ''tools/call'' \<longrightarrow>
       (case py_or (dict_get ''params'' JNull d) (JObj []) of
          JObj p \<Rightarrow> (case dict_get ''name'' (JStr []) p of JArr _ \<Rightarrow> False | JObj _ \<Rightarrow> False | _ \<Rightarrow> True)
        | _ \<Rightarrow> False))"

definition answers_request :: "json \<Rightarrow> json \<Rightarrow> bool" where
  "answers_request mid a = ((\<exists>v. a = proto_ok mid v) \<or> (\<exists>code text. a = proto_error mid code text))"

lemma tools_call_returns:
  assumes "case dict_get ''name'' (JStr []) p of JArr _ \<Rightarrow> False | JObj _ \<Rightarrow> False | _ \<Rightarrow> True"
  shows "\<exists>v w'. tools_call sv mid (JObj p) w = (Inr (proto_ok mid v), w')"
proof -
  have "\<exists>v w'. mbind (run_tool sv h a) (\<lambda>r. mret (proto_ok mid r)) w = (Inr (proto_ok mid v), w')" for h a
    using run_tool_returns [of sv h a w] by (auto simp: mbind_def mret_def)
  then show ?thesis
    using assms by (auto simp: tools_call_def mbind_def mlift_def mret_def split: json.splits option.split)
qed

lemma dispatch_answers:
  assumes "proper_request d"
  shows "\<exists>answer w'. dispatch sv (dict_get ''method'' (JStr []) d) mid (py_or (dict_get ''params'' JNull d) (JObj [])) w =
    (Inr answer, w') \<and> answers_request mid answer"
proof (cases "dict_get ''method'' (JStr []) d = JStr ''tools/call''")
  case True
  then obtain p where p: "py_or (dict_get ''params'' JNull d) (JObj []) = JObj p"
      "case dict_get ''name'' (JStr []) p of JArr _ \<Rightarrow> False | JObj _ \<Rightarrow> False | _ \<Rightarrow> True"
    using assms by (auto simp: proper_request_def split: json.splits)
  show ?thesis
    using True tools_call_returns [OF p(2), of sv mid w] by (auto simp: p(1) dispatch_def answers_request_def)
next
  case False
  then show ?thesis by (auto simp: dispatch_def mret_def answers_request_def)
qed

text \<open>
  C29: Every proper request on a live session is accepted, and one answer with the request's own identifier is put
  at the end of the queue of that session, whatever the tool did, an exception included; the queues of the other
  sessions and the registry are as they were.
\<close>

theorem every_request_is_answered:
  assumes "json_loads body = Inr (JObj d)" "proper_request d"
    "verify_mcp_auth (mcp_server.truncate sv) authorization api_key w = (Inr who, w1)"
    "session_get sv sid w1 = (Inr True, w2)"
  shows "\<exists>answer w'. handle_message sv authorization api_key sid body w = (Inr (), w') \<and>
    answers_request (dict_get ''id'' JNull d) answer \<and> mw_local w' = mw_local w2 \<and>
    mw_queues w' = map (\<lambda>(k, q). (k, if k = sid then q @ [json_text (e_show (mc_env sv)) answer] else q)) (mw_queues w2)"
proof -
  obtain answer v where v: "dispatch sv (dict_get ''method'' (JStr []) d) (dict_get ''id'' JNull d)
      (py_or (dict_get ''params'' JNull d) (JObj [])) w2 = (Inr answer, v)" "answers_request (dict_get ''id'' JNull d) answer"
    using dispatch_answers [OF assms(2)] by blast
  then have "same_queues w2 v" using queues.dispatch_moves by (blast dest: movesD)
  then show ?thesis
    using assms(1,3,4) v
    by (auto simp: handle_message_def handle_body_def push_answer_def mbind_def mlift_def mput_def same_queues_def)
qed

section \<open>A change of state\<close>

text \<open>The strategy and its new state, if the life cycle and the level given allow it.\<close>

definition legal_move :: "strategy_db \<Rightarrow> uuid \<Rightarrow> json \<Rightarrow> json \<Rightarrow> (strategy_row \<times> strategy_state) option" where
  "legal_move d sid target level =
     (case find_strategy sid d of
        None \<Rightarrow> None
      | Some s \<Rightarrow>
          (case (strategy_state_of (sr_state s), state_of_json target) of
             (Inr from_state, Inr to_state) \<Rightarrow>
               if st_can_transition from_state to_state \<and>
                  (case level_of_json level of None \<Rightarrow> True | Some l \<Rightarrow> can_activate_strategy l to_state)
               then Some (s, to_state) else None
           | _ \<Rightarrow> None))"

lemma insert_state_action:
  "insert_action (state_action s t justification now) d =
     Inr (d\<lparr>d_actions := d_actions d @ [state_action s t justification now]\<rparr>)"
  by (simp add: insert_action_def varchars_def state_action_def)

lemma move_strategy_effect:
  assumes "state_of_json target = Inr t"
  shows "case legal_move d sid target level of
      Some (s, t') \<Rightarrow> t' = t \<and> move_strategy env sid strategy_id t justification (level_of_json level) now d =
        Inr (moved_answer strategy_id (sr_state s) t justification,
             (set_strategy_state sid t now d)\<lparr>d_actions := d_actions d @ [state_action s t justification now]\<rparr>)
    | None \<Rightarrow> \<exists>m. move_strategy env sid strategy_id t justification (level_of_json level) now d = Inr (failure_answer m, d)"
proof (cases "find_strategy sid d")
  case None
  then show ?thesis by (auto simp: legal_move_def move_strategy_def)
next
  case (Some s)
  have "d_actions (set_strategy_state sid t now d) = d_actions d" by (simp add: set_strategy_state_def)
  then show ?thesis
    using Some assms
    by (cases "strategy_state_of (sr_state s)"; cases "level_of_json level")
      (auto simp: legal_move_def move_strategy_def st_transition_def insert_state_action)
qed

text \<open>
  C30: The tool changes the state of a strategy exactly when the life cycle has the transition and the level that
  was given, if any, is enough for the target.  Then the strategy is in the new state, one action with the old
  state, the new one and the justification is recorded, and nothing else changes; otherwise the answer is a
  failure and the tables stay as they were.  Streams and keys are never touched.
\<close>

theorem state_changes_follow_the_lifecycle:
  assumes "mcp_update_strategy_state env strategy_id target justification level w = (r, w')"
    "uuid_of strategy_id = Inr (Some sid)" "\<not> e_db_down env (w_sessions w)"
  shows "w_redis w' = w_redis w \<and> w_trace w' = w_trace w \<and>
    (case legal_move (w_db w) sid target level of
       Some (s, t) \<Rightarrow> r = Inr (moved_answer strategy_id (sr_state s) t justification) \<and>
         w_db w' = (set_strategy_state sid t (w_now w) (w_db w))
           \<lparr>d_actions := d_actions (w_db w) @ [state_action s t justification (w_now w)]\<rparr>
     | None \<Rightarrow> (\<exists>m. r = Inr (failure_answer m)) \<and> w_db w' = w_db w)"
proof (cases "state_of_json target")
  case (Inl e)
  then have "legal_move (w_db w) sid target level = None"
    by (auto simp: legal_move_def split: option.split sum.split)
  then show ?thesis
    using assms Inl by (auto simp: mcp_update_strategy_state_def mbind_def mlift_def mret_def)
next
  case (Inr t)
  have "session env (move_strategy env sid strategy_id t justification (level_of_json level) (w_now w)) w = (r, w')"
    using assms(1,2) Inr by (simp add: mcp_update_strategy_state_def mbind_def mlift_def mget_def)
  then show ?thesis
    using move_strategy_effect [OF Inr, where d = "w_db w" and sid = sid and level = level and env = env and
        strategy_id = strategy_id and justification = justification and now = "w_now w"] assms(3)
    by (auto simp: session_def Let_def split: option.splits prod.splits)
qed

section \<open>A dry run\<close>

lemma find_strategy_id: "find_strategy sid d = Some s \<Longrightarrow> sr_id s = sid"
  by (auto simp: find_strategy_def find_Some_iff)

lemma registered_evaluator:
  assumes "register_row sq (s, v) g = (Inr (), g')" "strategy_state_of (sr_state s) = Inr st"
  shows "\<exists>ev. dry_evaluator (sq_env sq) s v = Inr ev \<and> map_of (g_registry g') (sr_id s) = Some ev"
  using assms
  by (auto simp: register_row_def mbind_Inr mlift_def register_def mput_def dry_evaluator_def or_default_def)

text \<open>
  C31: A dry run on the latest snapshot evaluates the strategy with the evaluator that the strategy service would
  register for its current version, and reports that evaluation; it publishes nothing and changes neither the
  tables nor the keys of the store.
\<close>

theorem dry_run_is_the_evaluation:
  fixes w :: "('r, strategy_db, 'm) world_scheme" and sv :: "'r mcp_tools"
  assumes "redis (mc_ops sv) live" "uuid_of strategy_id = Inr (Some sid)" "\<not> e_db_down (mc_env sv) (w_sessions w)"
    "strategy_and_version sid (w_db w) = Some (s, Some v)" "strategy_state_of (sr_state s) = Inr st"
    "register_row sq (s, v) g = (Inr (), g')" "sq_env sq = mc_env sv"
    "r_get (mc_ops sv) (analytics_snapshot_key (str_of (mc_env sv) mt) (str_of (mc_env sv) symbol)) (w_redis w) = (Inr (Some t), rs)"
    "text_truthy (Some t)" "parse t = Inr sn"
    "simulate_strategy_on_snapshot (mc_ops sv) (mc_env sv) parse strategy_id symbol mt w = (r, w')"
  shows "w_db w' = w_db w \<and> w_trace w' = w_trace w \<and> live (w_redis w') = live (w_redis w) \<and>
    (\<exists>ev w1 x. map_of (g_registry g') sid = Some ev \<and> w_uuids w1 = w_uuids w \<and> w_now w1 = w_now w \<and>
       evaluate_snapshot (mc_env sv) ev sn None w1 = (x, w') \<and>
       r = ebind x (\<lambda>e. Inr (dry_run_json (mc_env sv) strategy_id symbol mt (sr_state s) e)))"
proof -
  have reads: "reading (unchanged live :: ('r, strategy_db, 'm) world_scheme \<Rightarrow> _) sv" using assms(1) by (rule reading_unchanged)
  have same: "unchanged live w w'" using reading.dry [OF reads] assms(11) by (rule movesD)
  have id: "sr_id s = sid"
    using assms(4) find_strategy_id by (auto simp: strategy_and_version_def split: option.splits)
  obtain ev where ev: "dry_evaluator (mc_env sv) s v = Inr ev" "map_of (g_registry g') sid = Some ev"
    using registered_evaluator [OF assms(6,5)] assms(7) id by auto
  define w1 where "w1 = w\<lparr>w_sessions := Suc (w_sessions w), w_redis := rs\<rparr>"
  have "mbind (evaluate_snapshot (mc_env sv) ev sn None)
      (\<lambda>e. mret (dry_run_json (mc_env sv) strategy_id symbol mt (sr_state s) e)) w1 = (r, w')"
    using assms(2-4,8-11) ev
    by (simp add: simulate_strategy_on_snapshot_def dry_run_def mbind_def mlift_def mret_def query_def session_def Let_def
        read_text_def on_redis_def w1_def)
  then obtain x where "evaluate_snapshot (mc_env sv) ev sn None w1 = (x, w')"
      "r = ebind x (\<lambda>e. Inr (dry_run_json (mc_env sv) strategy_id symbol mt (sr_state s) e))"
    by (auto simp: mbind_def mret_def split: prod.splits sum.splits)
  then show ?thesis using same ev by (auto simp: unchanged_def w1_def intro!: exI [of _ w1])
qed

section \<open>A paper trade\<close>

text \<open>Tables and history are the same.\<close>

definition calm :: "('r, 'd, 'm) world_scheme \<Rightarrow> ('r, 'd, 'm) world_scheme \<Rightarrow> bool" where
  "calm w w' = (w_db w' = w_db w \<and> w_trace w' = w_trace w)"

interpretation calm: reading calm sv for sv
  by unfold_locales (auto simp: calm_def moves_def on_redis_def split: prod.split)

text \<open>An answer that says that nothing was done.\<close>

definition refusal :: "json \<Rightarrow> bool" where
  "refusal a = (\<exists>code m. a = error_answer code m)"

lemma refusal_answers [simp]: "refusal (error_answer code m)" "refusal (inactive_answer state)"
  by (auto simp: refusal_def inactive_answer_def)

text \<open>
  The size of the trade: the one asked for, or the notional divided by a positive price, within half a unit of the
  fifth place and the rounding of 28 digits.
\<close>

definition sized :: "env \<Rightarrow> rat option \<Rightarrow> rat option \<Rightarrow> rat \<Rightarrow> bool" where
  "sized env size_usd amount q =
     (case amount of
        Some a \<Rightarrow> dec_of_str env (JNum a) = Inr q
      | None \<Rightarrow> \<exists>u x p. size_usd = Some u \<and> dec_of_str env (JNum u) = Inr x \<and> 0 < p \<and>
                  \<bar>q - x / p\<bar> \<le> 1 / (2 * 10 ^ 5) + \<bar>x / p\<bar> / (2 * 10 ^ 27))"

lemma derived_size_bound:
  assumes "derived_size usd price_str = Inr q"
  shows "\<exists>p. 0 < p \<and> \<bar>q - usd / p\<bar> \<le> 1 / (2 * 10 ^ 5) + \<bar>usd / p\<bar> / (2 * 10 ^ 27)"
proof -
  obtain p where p: "0 < p" "quantize 5 (dec (usd / p)) = Inr q"
    using assms by (auto simp: derived_size_def ebind_Inr not_le split: if_splits)
  have "\<bar>q - usd / p\<bar> \<le> \<bar>q - dec (usd / p)\<bar> + \<bar>dec (usd / p) - usd / p\<bar>" by linarith
  then show ?thesis
    using p(1) quantize_error [OF p(2)] dec_error [of "usd / p"] by (intro exI [of _ p]) linarith
qed

lemma add_incident_trace: "\<exists>w'. add_incident env i w = (Inr (), w') \<and> w_trace w' = w_trace w"
  by (auto simp: add_incident_def mlogged_def mtry_def mbind_def mret_def mget_def uuid4_def session_def Let_def
      split: prod.split sum.split)

lemma trade_size_cases:
  fixes sv :: "'r mcp_tools"
  assumes "trade_size (mc_ops sv) env s i sy sd size_usd amount usd w = (Inr x, w')"
  shows "w_trace w' = w_trace w \<and>
    (case x of
       Inl a \<Rightarrow> refusal a
     | Inr q \<Rightarrow> w_db w' = w_db w \<and>
         (case amount of
            Some a \<Rightarrow> q = a
          | None \<Rightarrow> \<exists>p. 0 < p \<and> \<bar>q - usd / p\<bar> \<le> 1 / (2 * 10 ^ 5) + \<bar>usd / p\<bar> / (2 * 10 ^ 27)))"
proof (cases amount)
  case (Some a)
  then show ?thesis using assms by (auto simp: trade_size_def mret_def)
next
  case None
  define mt where "mt = (if sr_market_type s = [] then ''futures'' else sr_market_type s)"
  obtain p u where p: "paper_price (mc_ops sv) env mt (str_of env sy) w = (Inr p, u)"
    using assms None by (auto simp: trade_size_def Let_def mt_def [symmetric] mbind_Inr)
  have same: "calm w u" using movesD [OF calm.prices p] .
  show ?thesis
  proof (cases "filled_word p")
    case False
    then show ?thesis
      using assms None p same add_incident_trace [of env "price_incident env (sr_id s) i mt sy sd size_usd" u]
      by (auto simp: trade_size_def Let_def mt_def [symmetric] mbind_def mseq_def mret_def calm_def)
  next
    case True
    then show ?thesis
      using assms None p same derived_size_bound [of usd "the p"]
      by (auto simp: trade_size_def Let_def mt_def [symmetric] mbind_def mret_def calm_def split: sum.splits)
  qed
qed

definition trade_intent_for :: "strategy_row \<Rightarrow> json \<Rightarrow> order_side \<Rightarrow> trade_intent \<Rightarrow> bool" where
  "trade_intent_for s symbol sd i =
     (symbol = JStr (ti_symbol i) \<and> ti_side i = sd \<and> ti_order_type i = MARKET \<and> ti_limit_price i = None \<and>
      ti_strategy_id i = Some (sr_id s) \<and> ti_strategy_version i = Some (sr_current_version s))"

lemma paper_intent_fields:
  "paper_intent s symbol sd q u reason k t = Inr i \<Longrightarrow> trade_intent_for s symbol sd i \<and> ti_size i = q"
  by (cases symbol) (auto simp: paper_intent_def trade_intent_for_def)

lemma publish_paper_trade_effect:
  assumes "publish_paper_trade ops env s strategy_id symbol sd q u reason w = (Inr ans, w')"
  shows "\<exists>i. trade_intent_for s symbol sd i \<and> ti_size i = q \<and> ans = queued_answer env i strategy_id \<and> w_db w' = w_db w \<and>
    w_trace w' = w_trace w @ [Published STRATEGY_INTENTS (trade_fields env i (sr_id s))]"
proof -
  obtain i where "paper_intent s symbol sd q u reason (e_uuid4 env (w_uuids w)) (w_now w * 1000) = Inr i"
    using assms by (auto simp: publish_paper_trade_def mbind_Inr mlift_def uuid4_def mget_def)
  moreover obtain s' where "r_xadd ops STRATEGY_INTENTS (trade_fields env i (sr_id s)) (w_redis w) = (Inr (), s')"
      "ans = queued_answer env i strategy_id"
      "w' = w\<lparr>w_uuids := Suc (w_uuids w), w_redis := s', w_trace := w_trace w @ [Published STRATEGY_INTENTS (trade_fields env i (sr_id s))]\<rparr>"
    using assms calculation
    by (auto simp: publish_paper_trade_def mbind_Inr mseq_def mlift_def uuid4_def mget_def mret_def stream_publish_def
        on_redis_def record_effect_def mput_def split: prod.splits)
  ultimately show ?thesis using paper_intent_fields by (intro exI [of _ i]) auto
qed

text \<open>A request that is not refused comes to a trade of a strategy that is there, and a trade that is not refused is published.\<close>

lemma request_reaches_trade:
  fixes sv :: "'r mcp_tools"
  assumes "request_paper_trade (mc_ops sv) env strategy_id symbol side size_usd amount reason w = (Inr ans, w')"
    "\<not> (w_trace w' = w_trace w \<and> refusal ans)"
  obtains s sd u where "uuid_of strategy_id = Inr (Some (sr_id s))" "find_strategy (sr_id s) (w_db w) = Some s"
    "ebind (upper_text side) side_of = Inr sd" "\<not> (size_usd = None \<and> amount = None)" "calm w u"
    "trade_of (mc_ops sv) env s strategy_id symbol sd size_usd amount reason u = (Inr ans, w')"
proof -
  obtain sid where sid: "uuid_of strategy_id = Inr (Some sid)"
    using assms
    by (cases "uuid_of strategy_id"; cases "projr (uuid_of strategy_id)")
      (auto simp: request_paper_trade_def mbind_def mlift_def mret_def)
  obtain t sd where sd: "upper_text side = Inr t" "side_of t = Inr sd"
    using assms sid
    by (cases "upper_text side"; cases "side_of (projr (upper_text side))")
      (auto simp: request_paper_trade_def mbind_def mlift_def mret_def)
  have given: "\<not> (size_usd = None \<and> amount = None)"
  proof
    assume "size_usd = None \<and> amount = None"
    then show False using assms sid sd by (auto simp: request_paper_trade_def mbind_def mlift_def mret_def)
  qed
  obtain row u where row: "query env (find_strategy sid) w = (Inr row, u)"
    using assms sid sd given by (auto simp: request_paper_trade_def mbind_Inr mlift_def split: if_splits)
  have u: "calm w u" "row = find_strategy sid (w_db w)"
    using row by (auto simp: calm_def query_def session_def Let_def split: if_splits)
  have after: "(case row of None \<Rightarrow> mret (error_answer ''not_found'' (''Strategy '' @ str_of env strategy_id @ '' not found''))
     | Some s \<Rightarrow> trade_of (mc_ops sv) env s strategy_id symbol sd size_usd amount reason) u = (Inr ans, w')"
    using assms sid sd given row by (cases row) (simp_all add: request_paper_trade_def mbind_def mlift_def)
  then obtain s where s: "row = Some s"
    using assms(2) u(1) by (cases row) (auto simp: mret_def calm_def)
  moreover have "sr_id s = sid" using find_strategy_id u(2) s by metis
  ultimately show thesis using that [of s sd u] sid sd given u after by simp
qed

lemma trade_is_published:
  fixes sv :: "'r mcp_tools"
  assumes "trade_of (mc_ops sv) env s strategy_id symbol sd size_usd amount reason u = (Inr ans, w')" "calm w u"
    "\<not> (w_trace w' = w_trace w \<and> refusal ans)" "\<not> (size_usd = None \<and> amount = None)"
  obtains i where "sr_state s \<in> set MCP_EMIT_STATES" "trade_intent_for s symbol sd i" "sized env size_usd amount (ti_size i)"
    "ans = queued_answer env i strategy_id" "w_db w' = w_db w"
    "w_trace w' = w_trace w @ [Published STRATEGY_INTENTS (trade_fields env i (sr_id s))]"
proof -
  have emits: "sr_state s \<in> set MCP_EMIT_STATES"
    using assms(1-3) by (auto simp: trade_of_def mret_def calm_def split: if_splits)
  obtain x z where xz: "opt_decimal env size_usd = Inr x" "opt_decimal env amount = Inr z"
    using assms(1-3) emits
    by (cases "opt_decimal env size_usd"; cases "opt_decimal env amount") (auto simp: trade_of_def mret_def calm_def)
  obtain y v where y: "trade_size (mc_ops sv) env s strategy_id symbol (side_value sd) size_usd z (case x of None \<Rightarrow> 0 | Some x \<Rightarrow> x) u = (Inr y, v)"
    using assms(1) emits xz by (auto simp: trade_of_def mbind_Inr)
  note ts = trade_size_cases [OF y]
  obtain q where q: "y = Inr q"
    using assms(1-3) emits xz y ts by (cases y) (auto simp: trade_of_def mbind_def mret_def calm_def)
  have "publish_paper_trade (mc_ops sv) env s strategy_id symbol sd q x reason v = (Inr ans, w')"
    using assms(1) emits xz y q by (simp add: trade_of_def mbind_def)
  from publish_paper_trade_effect [OF this] obtain i where i: "trade_intent_for s symbol sd i" "ti_size i = q"
      "ans = queued_answer env i strategy_id" "w_db w' = w_db v"
      "w_trace w' = w_trace v @ [Published STRATEGY_INTENTS (trade_fields env i (sr_id s))]"
    by blast
  have "sized env size_usd amount q"
    using ts q xz assms(4) by (cases amount; cases size_usd) (auto simp: sized_def opt_decimal_def ebind_Inr simp del: abs_divide)
  then show thesis using that [of i] i emits ts q assms(2) by (simp add: calm_def)
qed

lemma emitting_state: "x \<in> set MCP_EMIT_STATES \<Longrightarrow> \<exists>st. x = strategy_state_value st \<and> can_emit_intents st"
  unfolding MCP_EMIT_STATES_def can_emit_intents_def EMIT_STATES_def set_map by blast


section \<open>A concrete server\<close>

definition demo_sid :: uuid where
  "demo_sid = ''00000000-0000-4000-8000-000000000001''"

definition demo_tools :: "mem_redis mcp_tools" where
  "demo_tools =
     \<lparr>mc_settings = default_mcp_settings ''k'' ''dev'', mc_ops = mem_ops, mc_env = demo_env, mc_random = (\<lambda>n. []),
      mt_default_account_id = [],
      mt_live_settings = \<lparr>ls_live_trading_enabled = False, ls_account_allowlist = [], ls_symbol_allowlist = ''BTCUSDT'',
                          ls_live_max_notional_usd = 100\<rparr>,
      mt_parse_snapshot = (\<lambda>raw. if raw = Raw ''snapshot'' then Inr demo_snapshot else Inl ValidationError)\<rparr>"

text \<open>One strategy that trades on paper, a snapshot of its symbol, and one open session.\<close>

definition demo_strategy_row :: strategy_row where
  "demo_strategy_row = fst (demo_row demo_sid (JObj []))"

definition demo_version_row :: version_row where
  "demo_version_row = snd (demo_row demo_sid (JObj []))"

definition demo_store :: mem_redis where
  "demo_store =
     mem_put (analytics_snapshot_key ''futures'' ''BTC'') (Raw ''snapshot'') None
       (mem_put (mcp_session_key ''s1'') (Json (JObj [])) (Some 300) empty_mem)"

definition demo_mcp_world :: "(mem_redis, strategy_db) mcp_world" where
  "demo_mcp_world =
     \<lparr>w_redis = demo_store, w_db = demo_strategy_db\<lparr>d_strategies := [demo_strategy_row], d_versions := [demo_version_row]\<rparr>,
      w_sessions = 0, w_uuids = 0, w_now = 1700000000000, w_trace = [], mw_tokens = 0, mw_queues = [(''s1'', [])],
      mw_local = [''s1'']\<rparr>"

lemma demo_tools_sel [simp]:
  "mc_ops demo_tools = mem_ops" "mc_env demo_tools = demo_env" "mc_settings demo_tools = default_mcp_settings ''k'' ''dev''"
  "w_redis demo_mcp_world = demo_store" "w_trace demo_mcp_world = []" "w_now demo_mcp_world = 1700000000000"
  "w_sessions demo_mcp_world = 0" "w_uuids demo_mcp_world = 0"
  "mw_queues demo_mcp_world = [(''s1'', [])]" "mw_local demo_mcp_world = [''s1'']"
  "w_db demo_mcp_world = demo_strategy_db\<lparr>d_strategies := [demo_strategy_row], d_versions := [demo_version_row]\<rparr>"
  "e_db_down demo_env n = False" "mr_fail demo_store = []"
  by (simp_all add: demo_tools_def demo_mcp_world_def demo_env_def demo_store_def mem_put_def empty_mem_def)

lemma demo_row_sel [simp]:
  "sr_id demo_strategy_row = demo_sid" "sr_state demo_strategy_row = ''paper_active''" "sr_current_version demo_strategy_row = 1"
  "vr_strategy_id demo_version_row = demo_sid" "vr_version demo_version_row = 1" "vr_parameters demo_version_row = JObj []"
  "sr_symbol_filters demo_strategy_row = JArr []" "vr_rules demo_version_row = JArr []" "sr_market_type demo_strategy_row = ''futures''"
  by (simp_all add: demo_strategy_row_def demo_version_row_def demo_row_def)

lemma demo_sid_parses: "uuid_of (JStr demo_sid) = Inr (Some demo_sid)"
  by code_simp

lemma demo_found:
  "find_strategy demo_sid (w_db demo_mcp_world) = Some demo_strategy_row"
  "strategy_and_version demo_sid (w_db demo_mcp_world) = Some (demo_strategy_row, Some demo_version_row)"
  by (simp_all add: find_strategy_def strategy_and_version_def find_version_def)

lemma gateway_tools_only_read_witness:
  "w_db (snd (dispatch demo_tools (JStr ''tools/call'') (JInt 7)
      (JObj [(''name'', JStr ''get_incidents''), (''arguments'', JNull)]) demo_mcp_world)) = w_db demo_mcp_world"
proof -
  obtain r w' where run: "dispatch demo_tools (JStr ''tools/call'') (JInt 7)
      (JObj [(''name'', JStr ''get_incidents''), (''arguments'', JNull)]) demo_mcp_world = (r, w')"
    by fastforce
  have "check_tool_call ''get_incidents'' [''mcp:tools:read''] = Inr ()"
    by (simp add: check_tool_call_def BLOCKED_TOOLS_def ALLOWED_TOOLS_def TOOL_SCOPE_MAP_def)
  from gateway_tools_only_read [OF _ this run] show ?thesis
    using mem.redis_axioms run by simp
qed

definition demo_call :: "(string \<times> json) list" where
  "demo_call = [(''id'', JInt 7), (''method'', JStr ''tools/call''), (''params'', JObj [(''name'', JStr ''request_paper_trade'')])]"

lemma every_request_is_answered_witness:
  "\<exists>answer w'. handle_message demo_tools [] ''change-me-mcp-key'' ''s1'' (Json (JObj demo_call)) demo_mcp_world = (Inr (), w') \<and>
     answers_request (JInt 7) answer \<and> mw_queues w' = [(''s1'', [json_text (e_show demo_env) answer])]"
proof -
  let ?who = "\<lparr>mi_user_id = JStr ''api-key-user'', mi_client_id = JStr ''mcp-api-key'', mi_auth_method = ''api_key'', mi_scope = JStr []\<rparr>"
  have who: "verify_mcp_auth (mcp_server.truncate demo_tools) [] ''change-me-mcp-key'' demo_mcp_world = (Inr ?who, demo_mcp_world)"
    by (simp add: verify_mcp_auth_def mcp_server.truncate_def default_mcp_settings_def startswith_def mret_def)
  have alive: "session_get demo_tools ''s1'' demo_mcp_world = (Inr True, demo_mcp_world)"
    by (simp add: session_get_def mbind_def mget_def mret_def on_redis_def mem_ops_def mem_cmd_def)
      (simp add: demo_store_def mcp_session_key_def analytics_snapshot_key_def)
  have "proper_request demo_call"
    by (simp add: proper_request_def demo_call_def dict_get_def py_or_def)
  from every_request_is_answered [OF _ this who alive, of "Json (JObj demo_call)"] show ?thesis
    by (auto simp: demo_call_def dict_get_def)
qed

lemma state_changes_follow_the_lifecycle_witness:
  "map sr_state (d_strategies (w_db (snd (mcp_update_strategy_state demo_env (JStr demo_sid) (JStr ''paused'') (JStr ''drawdown'')
      JNull demo_mcp_world)))) = [''paused'']"
proof -
  obtain r w' where run: "mcp_update_strategy_state demo_env (JStr demo_sid) (JStr ''paused'') (JStr ''drawdown'')
      JNull demo_mcp_world = (r, w')"
    by fastforce
  have "strategy_state_of ''paper_active'' = Inr PAPER_ACTIVE" "strategy_state_of ''paused'' = Inr PAUSED"
    using strategy_state_of_value [of PAPER_ACTIVE] strategy_state_of_value [of PAUSED] by simp_all
  then have "legal_move (w_db demo_mcp_world) demo_sid (JStr ''paused'') JNull = Some (demo_strategy_row, PAUSED)"
    by (simp add: legal_move_def demo_found [simplified] state_of_json_def level_of_json_def st_can_transition_iff)
  then show ?thesis
    using state_changes_follow_the_lifecycle [OF run demo_sid_parses] run by (simp add: set_strategy_state_def)
qed

lemma dry_run_is_the_evaluation_witness:
  "w_trace (snd (simulate_strategy_on_snapshot mem_ops demo_env (mt_parse_snapshot demo_tools) (JStr demo_sid) (JStr ''BTC'')
      (JStr ''futures'') demo_mcp_world)) = []"
proof -
  obtain r w' where run: "simulate_strategy_on_snapshot (mc_ops demo_tools) (mc_env demo_tools) (mt_parse_snapshot demo_tools)
      (JStr demo_sid) (JStr ''BTC'') (JStr ''futures'') demo_mcp_world = (r, w')"
    by fastforce
  have state: "strategy_state_of (sr_state demo_strategy_row) = Inr PAPER_ACTIVE"
    using strategy_state_of_value [of PAPER_ACTIVE] by simp
  obtain g' where g: "register_row demo_strategy_consumer (demo_strategy_row, demo_version_row) demo_service = (Inr (), g')"
    using state by (auto simp: register_row_def build_strategy_def py_or_def mbind_def mlift_def register_def mput_def)
  have raw: "r_get (mc_ops demo_tools) (analytics_snapshot_key (str_of (mc_env demo_tools) (JStr ''futures''))
      (str_of (mc_env demo_tools) (JStr ''BTC''))) (w_redis demo_mcp_world) = (Inr (Some (Raw ''snapshot'')), demo_store)"
    by (simp add: mem_ops_def mem_cmd_def str_of_def) (simp add: demo_store_def)
  have parsed: "mt_parse_snapshot demo_tools (Raw ''snapshot'') = Inr demo_snapshot" by (simp add: demo_tools_def)
  have env: "sq_env demo_strategy_consumer = mc_env demo_tools" by (simp add: demo_strategy_consumer_def)
  have axioms: "redis (mc_ops demo_tools) mem_live" using mem.redis_axioms by simp
  from dry_run_is_the_evaluation [OF axioms demo_sid_parses _ demo_found(2) state g env raw _ parsed run] run
  show ?thesis by (simp add: text_truthy_def)
qed

lemma demo_size: "dec_of_str demo_env (JNum 2) = Inr 2"
  by code_simp


end
