(* ===== verification/Engines.thy ===== *)
theory Engines
  imports Snapshot Normalizer
begin

text \<open>
  The analytics engines (\<open>services/analytics/engines\<close>): trade flow, relative volume, liquidations,
  funding, spread and imbalance, walls and the candle indicators.  Each keeps its state in a record and
  every \<open>float\<close> operation is rounded by \<open>fl\<close>; \<open>x ** 2\<close> and \<open>math.sqrt\<close> are the correctly rounded square
  and square root.  An engine gives a \<open>float\<close> as a rational.
\<close>

section \<open>Windows and sums\<close>

text \<open>\<open>deque(maxlen=n).append(x)\<close> and \<open>list(q)[-n:]\<close>.\<close>

definition push :: "nat \<Rightarrow> 'a \<Rightarrow> 'a list \<Rightarrow> 'a list" where
  "push n x q = (let q' = q @ [x] in drop (length q' - n) q')"

definition last_n :: "nat \<Rightarrow> 'a list \<Rightarrow> 'a list" where
  "last_n n q = (if n = 0 then q else drop (length q - n) q)"

text \<open>
  \<open>sum\<close> over floats compensates its rounding errors: it carries the sum \<open>s\<close> and the error \<open>c\<close>.
\<close>

definition sum_step :: "rat \<Rightarrow> rat \<times> rat \<Rightarrow> rat \<times> rat" where
  "sum_step x sc =
     (case sc of (s, c) \<Rightarrow>
        let t = fl (s + x)
        in (t, fl (c + (if \<bar>s\<bar> \<ge> \<bar>x\<bar> then fl (fl (s - t) + x) else fl (fl (x - t) + s)))))"

definition py_sum :: "rat list \<Rightarrow> rat" where
  "py_sum xs =
     (case xs of [] \<Rightarrow> 0
      | x # ys \<Rightarrow> (case fold sum_step ys (x, 0) of (s, c) \<Rightarrow> if c = 0 then s else fl (s + c)))"

text \<open>A count, an integer division by a float, and the square.\<close>

definition count_of :: "'a list \<Rightarrow> rat" where
  "count_of xs = fl (of_int (int (length xs)))"

definition seconds_of :: "int \<Rightarrow> rat" where
  "seconds_of ms = fl (fl (of_int ms) / 1000)"

definition square :: "rat \<Rightarrow> rat" where
  "square x = fl (x * x)"

text \<open>
  The integer square root, and the square root of a float: the root of \<open>x * 4 ^ k\<close> has at least 58
  binary digits, so its integer part and a digit that says whether it is exact decide the rounding.
\<close>

function isqrt :: "int \<Rightarrow> int" where
  "isqrt n = (if n \<le> 0 then 0
              else let r = 2 * isqrt (n div 4) in if (r + 1) * (r + 1) \<le> n then r + 1 else r)"
  by pat_completeness auto
termination
  by (relation "measure nat") auto

declare isqrt.simps [simp del]

definition sqrt_scale :: "rat \<Rightarrow> nat" where
  "sqrt_scale x = nat (60 - sig_exp 2 x div 2)"

definition fsqrt :: "rat \<Rightarrow> rat" where
  "fsqrt x =
     (if x \<le> 0 then 0
      else let k = sqrt_scale x; y = x * 4 ^ k; r = isqrt \<lfloor>y\<rfloor>
           in fl ((of_int r + (if of_int (r * r) = y then 0 else 1 / 2)) / 2 ^ k))"

section \<open>Trade flow\<close>

record trade_record =
  tr_price :: rat
  tr_qty :: rat
  tr_is_buyer_maker :: bool
  tr_timestamp_ms :: int

definition tr_delta :: "trade_record \<Rightarrow> rat" where
  "tr_delta t = (if \<not> tr_is_buyer_maker t then tr_qty t else - tr_qty t)"

record flow_engine =
  fe_trades :: "trade_record list"
  fe_maxlen :: nat
  fe_cvd :: rat
  fe_tape_s :: rat
  fe_agg_n :: nat

definition new_flow :: "nat \<Rightarrow> rat \<Rightarrow> flow_engine" where
  "new_flow cvd_window tape_speed_window_s =
     \<lparr>fe_trades = [], fe_maxlen = cvd_window, fe_cvd = 0, fe_tape_s = tape_speed_window_s, fe_agg_n = 100\<rparr>"

definition flow_on_trade :: "json \<Rightarrow> json \<Rightarrow> bool \<Rightarrow> int \<Rightarrow> flow_engine \<Rightarrow> flow_engine" where
  "flow_on_trade price qty is_buyer_maker timestamp_ms e =
     (case (the_ok (py_float price), the_ok (py_float qty)) of
        (Some p, Some q) \<Rightarrow>
          (let t = \<lparr>tr_price = p, tr_qty = q, tr_is_buyer_maker = is_buyer_maker, tr_timestamp_ms = timestamp_ms\<rparr>
           in e\<lparr>fe_trades := push (fe_maxlen e) t (fe_trades e), fe_cvd := fl (fe_cvd e + tr_delta t)\<rparr>)
      | _ \<Rightarrow> e)"

definition reset_cvd :: "flow_engine \<Rightarrow> flow_engine" where
  "reset_cvd e = e\<lparr>fe_cvd := 0\<rparr>"

text \<open>The sum of an empty window is the integer 0, which is the float 0 wherever it is used but in JSON.\<close>

definition sum_json :: "rat list \<Rightarrow> json" where
  "sum_json xs = (if xs = [] then JInt 0 else JNum (py_sum xs))"

definition deltas :: "nat \<Rightarrow> flow_engine \<Rightarrow> rat list" where
  "deltas window e = map tr_delta (last_n window (fe_trades e))"

definition compute_delta :: "nat \<Rightarrow> flow_engine \<Rightarrow> json" where
  "compute_delta window e = sum_json (deltas window e)"

definition bought :: "trade_record list \<Rightarrow> rat list" where
  "bought ts = map tr_qty (filter (\<lambda>t. \<not> tr_is_buyer_maker t) ts)"

definition sold :: "trade_record list \<Rightarrow> rat list" where
  "sold ts = map tr_qty (filter tr_is_buyer_maker ts)"

definition compute_aggression_ratio :: "flow_engine \<Rightarrow> rat option" where
  "compute_aggression_ratio e =
     (let recent = last_n (fe_agg_n e) (fe_trades e); full = py_sum (map tr_qty recent)
      in if recent = [] \<or> full = 0 then None else Some (fl (py_sum (bought recent) / full)))"

definition compute_tape_speed_per_min :: "int \<Rightarrow> flow_engine \<Rightarrow> rat" where
  "compute_tape_speed_per_min now_ms e =
     (if fe_tape_s e \<le> 0 then 0
      else let cutoff = now_ms - trunc (fl (fe_tape_s e * 1000))
           in fl (fl (count_of (filter (\<lambda>t. cutoff \<le> tr_timestamp_ms t) (fe_trades e)) / fe_tape_s e) * 60))"

definition compute_buy_sell_volumes :: "nat \<Rightarrow> flow_engine \<Rightarrow> json \<times> json" where
  "compute_buy_sell_volumes window e =
     (let recent = last_n window (fe_trades e) in (sum_json (bought recent), sum_json (sold recent)))"

definition compute_large_trade_stats :: "rat \<Rightarrow> rat \<Rightarrow> nat \<Rightarrow> flow_engine \<Rightarrow> int \<times> int" where
  "compute_large_trade_stats price threshold_usd window e =
     (if price \<le> 0 \<or> threshold_usd \<le> 0 then (0, 0)
      else let large = filter (\<lambda>t. threshold_usd \<le> fl (tr_qty t * price)) (last_n window (fe_trades e))
           in (int (length (filter (\<lambda>t. \<not> tr_is_buyer_maker t) large)), int (length (filter tr_is_buyer_maker large))))"

fun running_sums :: "rat \<Rightarrow> rat list \<Rightarrow> rat list" where
  "running_sums r [] = []"
| "running_sums r (x # xs) = fl (r + x) # running_sums (fl (r + x)) xs"

definition cvd_slope :: "nat \<Rightarrow> flow_engine \<Rightarrow> rat option" where
  "cvd_slope window e =
     (let cumulative = running_sums 0 (deltas window e); n = length cumulative;
          x_mean = fl (of_nat (n - 1) / 2);
          y_mean = fl (py_sum cumulative / of_nat n);
          num = py_sum (map (\<lambda>(i, y). fl (fl (of_nat i - x_mean) * fl (y - y_mean))) (enumerate 0 cumulative));
          den = py_sum (map (\<lambda>i. square (fl (of_nat i - x_mean))) [0..<n])
      in if n < 3 then None else if den \<noteq> 0 then Some (fl (num / den)) else None)"

section \<open>Relative volume\<close>

record rvol_calculator =
  rv_bucket_s :: rat
  rv_historical :: "rat list"
  rv_lookback :: nat
  rv_current_volume :: rat
  rv_bucket_start_ms :: int

definition new_rvol :: "nat \<Rightarrow> rvol_calculator" where
  "new_rvol lookback_buckets =
     \<lparr>rv_bucket_s = 300, rv_historical = [], rv_lookback = lookback_buckets, rv_current_volume = 0,
      rv_bucket_start_ms = 0\<rparr>"

definition start_bucket :: "int \<Rightarrow> rvol_calculator \<Rightarrow> rvol_calculator" where
  "start_bucket timestamp_ms r =
     (let r1 = (if rv_bucket_start_ms r = 0 then r\<lparr>rv_bucket_start_ms := timestamp_ms\<rparr> else r)
      in if rv_bucket_s r1 \<le> seconds_of (timestamp_ms - rv_bucket_start_ms r1)
         then r1\<lparr>rv_historical := push (rv_lookback r1) (rv_current_volume r1) (rv_historical r1),
                 rv_current_volume := 0, rv_bucket_start_ms := timestamp_ms\<rparr>
         else r1)"

definition rvol_on_trade :: "json \<Rightarrow> int \<Rightarrow> rvol_calculator \<Rightarrow> rvol_calculator" where
  "rvol_on_trade qty timestamp_ms r =
     (case the_ok (py_float qty) of
        None \<Rightarrow> r
      | Some vol \<Rightarrow>
          (let r1 = start_bucket timestamp_ms r in r1\<lparr>rv_current_volume := fl (rv_current_volume r1 + vol)\<rparr>))"

definition compute_rvol :: "rvol_calculator \<Rightarrow> rat option" where
  "compute_rvol r =
     (let avg = fl (py_sum (rv_historical r) / count_of (rv_historical r))
      in if rv_historical r = [] \<or> avg = 0 then None else Some (fl (rv_current_volume r / avg)))"

section \<open>Liquidations\<close>

record liquidation_record =
  lq_side :: string
  lq_qty :: rat
  lq_price :: rat
  lq_timestamp_ms :: int

record liquidation_cluster =
  lc_price_mid :: rat
  lc_bucket_low :: rat
  lc_bucket_high :: rat
  lc_count :: nat
  lc_total_qty :: rat
  lc_total_usd :: rat
  lc_long_qty :: rat
  lc_short_qty :: rat

record liquidation_detector =
  ld_window_s :: rat
  ld_bucket_pct :: rat
  ld_min_count :: nat
  ld_records :: "liquidation_record list"

definition new_liquidations :: liquidation_detector where
  "new_liquidations =
     \<lparr>ld_window_s = 60, ld_bucket_pct = fl (1 / 4 / 100), ld_min_count = 2, ld_records = []\<rparr>"

definition on_liquidation :: "string \<Rightarrow> string \<Rightarrow> string \<Rightarrow> int \<Rightarrow> liquidation_detector \<Rightarrow> liquidation_detector" where
  "on_liquidation side qty price timestamp_ms e =
     (case (the_ok (py_float (JStr qty)), the_ok (py_float (JStr price))) of
        (Some q, Some p) \<Rightarrow>
          e\<lparr>ld_records := push 500 \<lparr>lq_side = side, lq_qty = q, lq_price = p, lq_timestamp_ms = timestamp_ms\<rparr>
              (ld_records e)\<rparr>
      | _ \<Rightarrow> e)"

definition recent_liquidations :: "int \<Rightarrow> liquidation_detector \<Rightarrow> liquidation_record list" where
  "recent_liquidations now_ms e =
     (let cutoff_ms = now_ms - trunc (fl (ld_window_s e * 1000))
      in filter (\<lambda>r. cutoff_ms \<le> lq_timestamp_ms r) (ld_records e))"

definition on_side :: "string \<Rightarrow> liquidation_record list \<Rightarrow> liquidation_record list" where
  "on_side side recs = filter (\<lambda>r. lq_side r = side) recs"

definition qty_sum :: "liquidation_record list \<Rightarrow> rat" where
  "qty_sum recs = py_sum (map lq_qty recs)"

definition usd_sum :: "liquidation_record list \<Rightarrow> rat" where
  "usd_sum recs = py_sum (map (\<lambda>r. fl (lq_qty r * lq_price r)) recs)"

text \<open>\<open>buckets.setdefault(i, []).append(x)\<close>.\<close>

definition add_to_bucket :: "int \<Rightarrow> 'a \<Rightarrow> (int \<times> 'a list) list \<Rightarrow> (int \<times> 'a list) list" where
  "add_to_bucket i x buckets = dict_set i ((case map_of buckets i of None \<Rightarrow> [] | Some xs \<Rightarrow> xs) @ [x]) buckets"

definition cluster_of :: "rat \<Rightarrow> int \<Rightarrow> liquidation_record list \<Rightarrow> liquidation_cluster" where
  "cluster_of bucket_size idx recs =
     (let low = fl (fl (of_int idx) * bucket_size); high = fl (fl (of_int (idx + 1)) * bucket_size)
      in \<lparr>lc_price_mid = fl (fl (low + high) / 2), lc_bucket_low = low, lc_bucket_high = high,
          lc_count = length recs, lc_total_qty = qty_sum recs, lc_total_usd = usd_sum recs,
          lc_long_qty = qty_sum (on_side ''SELL'' recs), lc_short_qty = qty_sum (on_side ''BUY'' recs)\<rparr>)"

definition compute_clusters :: "rat \<Rightarrow> int \<Rightarrow> liquidation_detector \<Rightarrow> liquidation_cluster list" where
  "compute_clusters current_price now_ms e =
     (let recent = recent_liquidations now_ms e; bucket_size = fl (current_price * ld_bucket_pct e);
          buckets = fold (\<lambda>r. add_to_bucket (trunc (fl (lq_price r / bucket_size))) r) recent []
      in if current_price \<le> 0 \<or> recent = [] \<or> bucket_size \<le> 0 then []
         else sort_key (\<lambda>c. - lc_total_usd c)
                (map (\<lambda>(idx, recs). cluster_of bucket_size idx recs)
                   (filter (\<lambda>(idx, recs). ld_min_count e \<le> length recs) buckets)))"

definition compute_cluster_totals :: "int \<Rightarrow> liquidation_detector \<Rightarrow> json \<times> json" where
  "compute_cluster_totals now_ms e =
     (let usd = \<lambda>side. sum_json (map (\<lambda>r. fl (lq_qty r * lq_price r)) (on_side side (recent_liquidations now_ms e)))
      in (usd ''SELL'', usd ''BUY''))"

section \<open>Funding, spread and imbalance\<close>

definition compute_funding_pressure :: "string \<Rightarrow> string \<Rightarrow> string \<Rightarrow> rat option" where
  "compute_funding_pressure funding_rate mark_price index_price =
     (case (the_ok (py_float (JStr funding_rate)), the_ok (py_float (JStr mark_price)), the_ok (py_float (JStr index_price))) of
        (Some rate, Some mark, Some index) \<Rightarrow>
          (let base_score = fl (rate * 10000);
               divergence_bps = (if 0 < index then fl (fl (fl (mark - index) / index) * 10000) else 0)
           in Some (fl (base_score + fl (divergence_bps * (1 / 2)))))
      | _ \<Rightarrow> None)"

record spread_result =
  sr_spread :: rat
  sr_spread_bps :: rat
  sr_mid_price :: rat
  sr_bid :: rat
  sr_ask :: rat
  sr_bid_size :: rat
  sr_ask_size :: rat

definition compute_spread :: "string \<Rightarrow> string \<Rightarrow> string \<Rightarrow> string \<Rightarrow> spread_result option" where
  "compute_spread bid ask bid_size ask_size =
     (case map (the_ok \<circ> py_float \<circ> JStr) [bid, ask, bid_size, ask_size] of
        [Some b, Some a, Some bs, Some as] \<Rightarrow>
          (if b \<le> 0 \<or> a \<le> 0 \<or> a \<le> b then None
           else let mid = fl (fl (b + a) / 2); spread = fl (a - b)
                in Some \<lparr>sr_spread = spread, sr_spread_bps = fl (fl (spread / mid) * 10000), sr_mid_price = mid,
                         sr_bid = b, sr_ask = a, sr_bid_size = bs, sr_ask_size = as\<rparr>)
      | _ \<Rightarrow> None)"

record imbalance_result =
  im_imbalance_ratio :: rat
  im_bid_depth_usd :: rat
  im_ask_depth_usd :: rat

text \<open>\<open>v[:n]\<close> on an object; a dict has no such key.\<close>

fun slice :: "nat \<Rightarrow> json \<Rightarrow> exn + json list" where
  "slice n (JArr xs) = Inr (take n xs)"
| "slice n (JStr s) = Inr (map (\<lambda>c. JStr [c]) (take n s))"
| "slice n (JObj d) = Inl KeyError"
| "slice n _ = Inl TypeError"

text \<open>\<open>_, q = item\<close>.\<close>

definition second_of :: "json \<Rightarrow> exn + json" where
  "second_of item = ebind (list_items item) (\<lambda>xs. case xs of [_, q] \<Rightarrow> Inr q | _ \<Rightarrow> Inl ValueError)"

definition quantity_sum :: "json list \<Rightarrow> exn + rat" where
  "quantity_sum levels = ebind (emap (\<lambda>l. ebind (second_of l) py_float) levels) (\<lambda>qs. Inr (py_sum qs))"

definition imbalance_of :: "json \<Rightarrow> json \<Rightarrow> rat \<Rightarrow> nat \<Rightarrow> exn + imbalance_result option" where
  "imbalance_of bids asks price top_n =
     ebind (slice top_n bids) (\<lambda>b_levels. ebind (slice top_n asks) (\<lambda>a_levels.
     ebind (quantity_sum b_levels) (\<lambda>bid_qty. ebind (quantity_sum a_levels) (\<lambda>ask_qty.
       let both = fl (bid_qty + ask_qty)
       in Inr (if both = 0 then None
               else Some \<lparr>im_imbalance_ratio = fl (fl (bid_qty - ask_qty) / both),
                          im_bid_depth_usd = fl (bid_qty * price), im_ask_depth_usd = fl (ask_qty * price)\<rparr>)))))"

text \<open>\<open>ValueError\<close>, \<open>TypeError\<close> and \<open>IndexError\<close> are caught.\<close>

definition compute_imbalance :: "json \<Rightarrow> json \<Rightarrow> rat \<Rightarrow> nat \<Rightarrow> exn + imbalance_result option" where
  "compute_imbalance bids asks price top_n =
     (case imbalance_of bids asks price top_n of
        Inl e \<Rightarrow> if e \<in> {ValueError, TypeError, IndexError} then Inr None else Inl e
      | r \<Rightarrow> r)"

section \<open>Walls\<close>

record wall_info =
  wi_price :: string
  wi_qty :: string
  wi_side :: string
  wi_first_seen_ms :: int
  wi_last_seen_ms :: int
  wi_is_spoofing_candidate :: bool
  wi_disappear_count :: nat

record walls_result =
  wr_bid_walls :: "wall_info list"
  wr_ask_walls :: "wall_info list"
  wr_spoofing_alert :: bool

type_synonym wall_key = "string \<times> string"

record wall_detector =
  wd_min_notional :: rat
  wd_threshold :: rat
  wd_depth :: nat
  wd_spoof_age_s :: rat
  wd_known :: "(wall_key \<times> wall_info) list"

definition new_walls :: "rat \<Rightarrow> nat \<Rightarrow> wall_detector" where
  "new_walls min_notional_usd depth_levels =
     \<lparr>wd_min_notional = min_notional_usd, wd_threshold = 3, wd_depth = depth_levels, wd_spoof_age_s = 30, wd_known = []\<rparr>"

text \<open>The quantity of a level, or nothing when \<open>ValueError\<close> or \<open>IndexError\<close> is caught.\<close>

definition skip_bad :: "exn + 'a \<Rightarrow> exn + 'a option" where
  "skip_bad r =
     (case r of Inl e \<Rightarrow> if e \<in> {ValueError, IndexError} then Inr None else Inl e | Inr x \<Rightarrow> Inr (Some x))"

definition positive_qtys :: "json list \<Rightarrow> exn + rat list" where
  "positive_qtys levels =
     ebind (emap (\<lambda>item. skip_bad (ebind (index_json item 1) py_float)) levels) (\<lambda>qs.
       Inr (filter (\<lambda>q. 0 < q) (List.map_filter id qs)))"

definition read_level :: "env \<Rightarrow> json \<Rightarrow> exn + (string \<times> string \<times> rat) option" where
  "read_level env item =
     skip_bad (ebind (index_json item 0) (\<lambda>p. ebind (index_json item 1) (\<lambda>q.
       let p_str = str_of env p; q_str = str_of env q
       in ebind (py_float (JStr p_str)) (\<lambda>_. ebind (py_float (JStr q_str)) (\<lambda>x. Inr (p_str, q_str, x))))))"

definition is_wall :: "wall_detector \<Rightarrow> rat \<Rightarrow> rat \<Rightarrow> rat \<Rightarrow> bool" where
  "is_wall e avg_qty price q =
     (0 < q \<and> wd_min_notional e \<le> fl (q * price) \<and> avg_qty \<noteq> 0 \<and> fl (avg_qty * wd_threshold e) \<le> q)"

text \<open>The wall at a level: the known one, seen again, or a new one.\<close>

definition see_wall :: "string \<Rightarrow> string \<Rightarrow> string \<Rightarrow> int \<Rightarrow> wall_detector \<Rightarrow> wall_info" where
  "see_wall side p_str q_str now_ms e =
     (case map_of (wd_known e) (side, p_str) of
        Some w \<Rightarrow> w\<lparr>wi_last_seen_ms := now_ms, wi_qty := q_str\<rparr>
      | None \<Rightarrow> \<lparr>wi_price = p_str, wi_qty = q_str, wi_side = side, wi_first_seen_ms = now_ms, wi_last_seen_ms = now_ms,
                 wi_is_spoofing_candidate = False, wi_disappear_count = 0\<rparr>)"

text \<open>
  The levels of one side.  The walls found are the objects that \<open>wd_known\<close> holds, so their keys are
  collected; an exception leaves the walls seen so far updated.
\<close>

fun scan_levels :: "env \<Rightarrow> string \<Rightarrow> rat \<Rightarrow> int \<Rightarrow> rat \<Rightarrow> json list \<Rightarrow> (wall_detector, wall_key list) prog" where
  "scan_levels env side price now_ms avg_qty [] = mret []"
| "scan_levels env side price now_ms avg_qty (item # levels) =
     mbind (mlift (read_level env item)) (\<lambda>r. mbind (mget id) (\<lambda>e.
     case r of
       None \<Rightarrow> scan_levels env side price now_ms avg_qty levels
     | Some (p_str, q_str, q) \<Rightarrow>
         if is_wall e avg_qty price q
         then mseq (mput (\<lambda>e. e\<lparr>wd_known := dict_set (side, p_str) (see_wall side p_str q_str now_ms e) (wd_known e)\<rparr>))
             (mbind (scan_levels env side price now_ms avg_qty levels) (\<lambda>ks. mret ((side, p_str) # ks)))
         else scan_levels env side price now_ms avg_qty levels))"

definition scan_side :: "env \<Rightarrow> json list \<Rightarrow> string \<Rightarrow> rat \<Rightarrow> int \<Rightarrow> (wall_detector, wall_key list) prog" where
  "scan_side env levels side price now_ms =
     (if levels = [] then mret []
      else mbind (mlift (positive_qtys levels)) (\<lambda>qtys.
           if qtys = [] then mret []
           else scan_levels env side price now_ms (fl (py_sum qtys / count_of qtys)) levels))"

definition known_walls :: "wall_detector \<Rightarrow> wall_key list \<Rightarrow> wall_info list" where
  "known_walls e ks = List.map_filter (map_of (wd_known e)) ks"

text \<open>The walls that are gone: those that were there for less than \<open>wd_spoof_age_s\<close> are flagged.\<close>

definition gone_walls :: "wall_detector \<Rightarrow> wall_key list \<Rightarrow> int \<Rightarrow> wall_info list" where
  "gone_walls e active now_ms =
     map (\<lambda>(k, w). w\<lparr>wi_is_spoofing_candidate := True, wi_disappear_count := Suc (wi_disappear_count w)\<rparr>)
       (filter (\<lambda>(k, w). k \<notin> set active \<and> seconds_of (now_ms - wi_first_seen_ms w) < wd_spoof_age_s e) (wd_known e))"

definition walls_update :: "env \<Rightarrow> json \<Rightarrow> json \<Rightarrow> rat \<Rightarrow> int \<Rightarrow> (wall_detector, walls_result) prog" where
  "walls_update env bids asks price now_ms =
     mbind (mget wd_depth) (\<lambda>depth.
     mbind (mlift (slice depth bids)) (\<lambda>bid_levels.
     mbind (scan_side env bid_levels ''bid'' price now_ms) (\<lambda>bid_keys.
     mbind (mlift (slice depth asks)) (\<lambda>ask_levels.
     mbind (scan_side env ask_levels ''ask'' price now_ms) (\<lambda>ask_keys.
     mbind (mget id) (\<lambda>e.
       let active = bid_keys @ ask_keys; gone = gone_walls e active now_ms;
           bid_walls = known_walls e bid_keys @ filter (\<lambda>w. wi_side w = ''bid'') gone;
           ask_walls = known_walls e ask_keys @ filter (\<lambda>w. wi_side w \<noteq> ''bid'') gone
       in mseq (mput (\<lambda>e. e\<lparr>wd_known := filter (\<lambda>(k, w). k \<in> set active) (wd_known e)\<rparr>))
               (mret \<lparr>wr_bid_walls = bid_walls, wr_ask_walls = ask_walls,
                      wr_spoofing_alert = list_ex wi_is_spoofing_candidate (bid_walls @ ask_walls)\<rparr>)))))))"

section \<open>Indicators\<close>

definition EMA_PERIODS :: "nat list" where "EMA_PERIODS = [9, 21, 50, 200]"

definition RSI_PERIOD :: nat where "RSI_PERIOD = 14"

definition BB_PERIOD :: nat where "BB_PERIOD = 20"

definition ATR_PERIOD :: nat where "ATR_PERIOD = 14"

definition MAX_HISTORY :: nat where "MAX_HISTORY = 250"

record indicator_engine =
  ie_closes :: "rat list"
  ie_highs :: "rat list"
  ie_lows :: "rat list"
  ie_volumes :: "rat list"
  ie_ema :: "(nat \<times> rat option) list"
  ie_rsi_avg_gain :: "rat option"
  ie_rsi_avg_loss :: "rat option"
  ie_tr_buffer :: "rat list"
  ie_atr :: "rat option"
  ie_prev_close :: "rat option"
  ie_vwap_num :: rat
  ie_vwap_den :: rat

definition new_indicators :: indicator_engine where
  "new_indicators =
     \<lparr>ie_closes = [], ie_highs = [], ie_lows = [], ie_volumes = [], ie_ema = map (\<lambda>p. (p, None)) EMA_PERIODS,
      ie_rsi_avg_gain = None, ie_rsi_avg_loss = None, ie_tr_buffer = [], ie_atr = None, ie_prev_close = None,
      ie_vwap_num = 0, ie_vwap_den = 0\<rparr>"

text \<open>The mean over a period of \<open>n\<close> bars.\<close>

definition mean_of :: "nat \<Rightarrow> rat list \<Rightarrow> rat" where
  "mean_of n xs = fl (py_sum xs / of_nat n)"

definition next_ema :: "rat list \<Rightarrow> rat \<Rightarrow> nat \<Rightarrow> rat option \<Rightarrow> rat option" where
  "next_ema closes close period ema =
     (case ema of
        None \<Rightarrow> if period \<le> length closes then Some (mean_of period (last_n period closes)) else None
      | Some m \<Rightarrow> (let k = fl (2 / of_nat (period + 1)) in Some (fl (fl (close * k) + fl (m * fl (1 - k))))))"

definition update_emas :: "rat \<Rightarrow> indicator_engine \<Rightarrow> indicator_engine" where
  "update_emas close e = e\<lparr>ie_ema := map (\<lambda>(p, m). (p, next_ema (ie_closes e) close p m)) (ie_ema e)\<rparr>"

text \<open>The changes between neighbours that are gains, and those that are losses.\<close>

fun gains :: "rat list \<Rightarrow> rat list" where
  "gains (a # b # cs) = max 0 (fl (b - a)) # gains (b # cs)"
| "gains cs = []"

fun losses :: "rat list \<Rightarrow> rat list" where
  "losses (a # b # cs) = max 0 (fl (a - b)) # losses (b # cs)"
| "losses cs = []"

definition smoothed :: "nat \<Rightarrow> rat \<Rightarrow> rat \<Rightarrow> rat" where
  "smoothed n avg x = fl (fl (fl (avg * of_nat (n - 1)) + x) / of_nat n)"

definition update_rsi :: "rat \<Rightarrow> indicator_engine \<Rightarrow> exn + indicator_engine" where
  "update_rsi close e =
     (case ie_prev_close e of
        None \<Rightarrow> Inr e
      | Some prev \<Rightarrow>
          (let change = fl (close - prev); gain = max 0 change; loss = max 0 (- change) in
           case ie_rsi_avg_gain e of
             None \<Rightarrow>
               Inr (if length (ie_closes e) = RSI_PERIOD + 1
                    then e\<lparr>ie_rsi_avg_gain := Some (mean_of RSI_PERIOD (gains (ie_closes e))),
                           ie_rsi_avg_loss := Some (mean_of RSI_PERIOD (losses (ie_closes e)))\<rparr>
                    else e)
           | Some g \<Rightarrow>
               (case ie_rsi_avg_loss e of
                  None \<Rightarrow> Inl TypeError
                | Some l \<Rightarrow> Inr (e\<lparr>ie_rsi_avg_gain := Some (smoothed RSI_PERIOD g gain),
                                   ie_rsi_avg_loss := Some (smoothed RSI_PERIOD l loss)\<rparr>))))"

definition true_range :: "rat \<Rightarrow> rat \<Rightarrow> rat option \<Rightarrow> rat" where
  "true_range high low prev_close =
     (case prev_close of
        None \<Rightarrow> fl (high - low)
      | Some c \<Rightarrow> max (max (fl (high - low)) \<bar>fl (high - c)\<bar>) \<bar>fl (low - c)\<bar>)"

definition update_atr :: "rat \<Rightarrow> rat \<Rightarrow> indicator_engine \<Rightarrow> indicator_engine" where
  "update_atr high low e =
     (let tr = true_range high low (ie_prev_close e); buffer = push (ATR_PERIOD + 5) tr (ie_tr_buffer e)
      in e\<lparr>ie_tr_buffer := buffer,
           ie_atr := (case ie_atr e of
                        None \<Rightarrow> if ATR_PERIOD \<le> length buffer then Some (mean_of ATR_PERIOD (last_n ATR_PERIOD buffer)) else None
                      | Some a \<Rightarrow> Some (smoothed ATR_PERIOD a tr))\<rparr>)"

definition update_vwap :: "rat \<Rightarrow> rat \<Rightarrow> rat \<Rightarrow> rat \<Rightarrow> indicator_engine \<Rightarrow> indicator_engine" where
  "update_vwap high low close volume e =
     (let typical = fl (fl (fl (high + low) + close) / 3)
      in e\<lparr>ie_vwap_num := fl (ie_vwap_num e + fl (typical * volume)), ie_vwap_den := fl (ie_vwap_den e + volume)\<rparr>)"

definition reset_vwap :: "indicator_engine \<Rightarrow> indicator_engine" where
  "reset_vwap e = e\<lparr>ie_vwap_num := 0, ie_vwap_den := 0\<rparr>"

definition take_bar :: "rat \<Rightarrow> rat \<Rightarrow> rat \<Rightarrow> rat \<Rightarrow> indicator_engine \<Rightarrow> exn + indicator_engine" where
  "take_bar c h lo v e =
     (let e1 = e\<lparr>ie_closes := push MAX_HISTORY c (ie_closes e), ie_highs := push MAX_HISTORY h (ie_highs e),
                 ie_lows := push MAX_HISTORY lo (ie_lows e), ie_volumes := push MAX_HISTORY v (ie_volumes e)\<rparr>
      in ebind (update_rsi c (update_emas c e1)) (\<lambda>e2.
         Inr ((update_vwap h lo c v (update_atr h lo e2))\<lparr>ie_prev_close := Some c\<rparr>)))"

text \<open>The open is not used.  A bar whose numbers cannot be read is dropped.\<close>

definition on_kline_close :: "string \<Rightarrow> string \<Rightarrow> string \<Rightarrow> string \<Rightarrow> indicator_engine \<Rightarrow> exn + indicator_engine" where
  "on_kline_close high low close volume e =
     (case map (the_ok \<circ> py_float \<circ> JStr) [close, high, low, volume] of
        [Some c, Some h, Some lo, Some v] \<Rightarrow> take_bar c h lo v e
      | _ \<Rightarrow> Inr e)"

definition rsi_of :: "indicator_engine \<Rightarrow> rat option" where
  "rsi_of e =
     (case (ie_rsi_avg_gain e, ie_rsi_avg_loss e) of
        (Some g, Some l) \<Rightarrow>
          Some (if l = 0 then 100 else let rs = fl (g / l) in fl (100 - fl (100 / fl (1 + rs))))
      | _ \<Rightarrow> None)"

text \<open>Upper, middle and lower band, and the width.\<close>

definition bollinger :: "rat list \<Rightarrow> (rat \<times> rat \<times> rat \<times> rat option) option" where
  "bollinger closes =
     (if length closes < BB_PERIOD then None
      else let recent = last_n BB_PERIOD closes; sma = mean_of BB_PERIOD recent;
               variance = mean_of BB_PERIOD (map (\<lambda>x. square (fl (x - sma))) recent); std = fsqrt variance;
               upper = fl (sma + fl (2 * std)); lower = fl (sma - fl (2 * std))
           in Some (upper, sma, lower, if sma \<noteq> 0 then Some (fl (fl (upper - lower) / sma)) else None))"

definition compute_indicators :: "indicator_engine \<Rightarrow> indicator_values" where
  "compute_indicators e =
     (let ema = \<lambda>p. (case map_of (ie_ema e) p of Some m \<Rightarrow> m | None \<Rightarrow> None); bb = bollinger (ie_closes e)
      in \<lparr>iv_ema_9 = ema 9, iv_ema_21 = ema 21, iv_ema_50 = ema 50, iv_ema_200 = ema 200, iv_rsi_14 = rsi_of e,
          iv_vwap = (if 0 < ie_vwap_den e then Some (fl (ie_vwap_num e / ie_vwap_den e)) else None),
          iv_bb_upper = map_option (\<lambda>(u, m, l, b). u) bb, iv_bb_middle = map_option (\<lambda>(u, m, l, b). m) bb,
          iv_bb_lower = map_option (\<lambda>(u, m, l, b). l) bb,
          iv_bb_width = Option.bind bb (\<lambda>(u, m, l, b). b), iv_atr_14 = ie_atr e\<rparr>)"

end
