(* ===== verification/AnalyticsState.thy ===== *)
theory AnalyticsState
  imports Engines OrderBooks
begin

text \<open>
  The state of the analytics service in memory (\<open>services/analytics/state.py\<close>), one record per symbol and
  market, and the dispatcher that updates it from a normalized event
  (\<open>services/analytics/dispatcher.py\<close>).  A handler is a program on the record of its symbol: what it has
  changed before it raises stays changed.
\<close>

section \<open>The state of a symbol\<close>

text \<open>A book is the JSON that Redis holds, \<open>JNull\<close> without one.\<close>

record symbol_state =
  sy_symbol :: string
  sy_market_type :: string
  sy_integrity :: book_integrity
  sy_flow :: flow_engine
  sy_rvol :: rvol_calculator
  sy_liquidations :: liquidation_detector
  sy_walls :: wall_detector
  sy_indicators :: "(string \<times> indicator_engine) list"
  sy_last_walls_result :: "walls_result option"
  sy_last_price :: "rat option"
  sy_last_book_ticker :: "(string \<times> json) list option"
  sy_last_mark :: "(string \<times> json) list option"
  sy_last_oi :: "(string \<times> json) list option"
  sy_last_book :: json
  sy_last_update_ms :: int
  sy_event_timestamps :: "(string \<times> int) list"

record state_params =
  sp_flow_cvd_window :: nat
  sp_wall_min_notional :: rat
  sp_wall_depth_levels :: nat
  sp_rvol_lookback :: nat
  sp_tape_speed_window_s :: rat

definition new_symbol_state :: "state_params \<Rightarrow> string \<Rightarrow> string \<Rightarrow> symbol_state" where
  "new_symbol_state p symbol market_type =
     \<lparr>sy_symbol = symbol, sy_market_type = market_type, sy_integrity = new_integrity,
      sy_flow = new_flow (sp_flow_cvd_window p) (sp_tape_speed_window_s p), sy_rvol = new_rvol (sp_rvol_lookback p),
      sy_liquidations = new_liquidations, sy_walls = new_walls (sp_wall_min_notional p) (sp_wall_depth_levels p),
      sy_indicators = [], sy_last_walls_result = None, sy_last_price = None, sy_last_book_ticker = None,
      sy_last_mark = None, sy_last_oi = None, sy_last_book = JNull, sy_last_update_ms = 0, sy_event_timestamps = []\<rparr>"

definition get_indicator :: "string \<Rightarrow> symbol_state \<Rightarrow> indicator_engine" where
  "get_indicator interval s =
     (case map_of (sy_indicators s) interval of None \<Rightarrow> new_indicators | Some e \<Rightarrow> e)"

text \<open>The store: \<open>get\<close> makes the state of a new pair.\<close>

type_synonym state_key = "string \<times> string"
type_synonym state_store = "(state_key \<times> symbol_state) list"

definition store_get :: "state_params \<Rightarrow> string \<Rightarrow> string \<Rightarrow> state_store \<Rightarrow> symbol_state" where
  "store_get p symbol market_type st =
     (case map_of st (symbol, market_type) of None \<Rightarrow> new_symbol_state p symbol market_type | Some s \<Rightarrow> s)"

definition all_states :: "state_store \<Rightarrow> symbol_state list" where
  "all_states st = map snd st"

definition active_symbols :: "state_store \<Rightarrow> state_key list" where
  "active_symbols st = map fst st"

section \<open>Walls of the book\<close>

text \<open>
  A result that is kept shares its walls with the detector: one that is not flagged is the object the
  detector still knows, and shows what a scan did to it before it raised.
\<close>

definition seen_through :: "wall_detector \<Rightarrow> walls_result \<Rightarrow> walls_result" where
  "seen_through e r =
     (let now = (\<lambda>w. if wi_is_spoofing_candidate w then w
                     else case map_of (wd_known e) (wi_side w, wi_price w) of None \<Rightarrow> w | Some v \<Rightarrow> v)
      in r\<lparr>wr_bid_walls := map now (wr_bid_walls r), wr_ask_walls := map now (wr_ask_walls r)\<rparr>)"

definition update_walls :: "env \<Rightarrow> json \<Rightarrow> json \<Rightarrow> rat \<Rightarrow> int \<Rightarrow> (symbol_state, unit) prog" where
  "update_walls env bids asks price ts s =
     (case walls_update env bids asks price ts (sy_walls s) of
        (Inl e, wd) \<Rightarrow>
          (Inl e, s\<lparr>sy_walls := wd, sy_last_walls_result := map_option (seen_through wd) (sy_last_walls_result s)\<rparr>)
      | (Inr r, wd) \<Rightarrow> (Inr (), s\<lparr>sy_walls := wd, sy_last_walls_result := Some r\<rparr>))"

definition refresh_walls :: "env \<Rightarrow> int \<Rightarrow> (symbol_state, unit) prog" where
  "refresh_walls env ts =
     mbind (mget id) (\<lambda>s.
     if \<not> truthy (sy_last_book s) then mret ()
     else case sy_last_price s of
            None \<Rightarrow> mret ()
          | Some price \<Rightarrow>
              if price = 0 then mret ()
              else mbind (mlift (obj_get (sy_last_book s) ''bids'' (JArr []))) (\<lambda>bids.
                   mbind (mlift (obj_get (sy_last_book s) ''asks'' (JArr []))) (\<lambda>asks.
                     update_walls env bids asks price ts)))"

section \<open>The handlers\<close>

definition set_price :: "rat \<Rightarrow> symbol_state \<Rightarrow> symbol_state" where
  "set_price p s = (if 0 < p then s\<lparr>sy_last_price := Some p\<rparr> else s)"

text \<open>\<open>_on_trade\<close> and \<open>_on_agg_trade\<close> are the same.\<close>

definition on_trade :: "(string \<times> json) list \<Rightarrow> int \<Rightarrow> symbol_state \<Rightarrow> symbol_state" where
  "on_trade d ts s =
     (let price = dict_get ''price'' (JStr []) d; qty = dict_get ''qty'' (JStr []) d;
          is_buyer_maker = truthy (dict_get ''is_buyer_maker'' (JBool False) d);
          s1 = s\<lparr>sy_flow := flow_on_trade price qty is_buyer_maker ts (sy_flow s),
                 sy_rvol := rvol_on_trade qty ts (sy_rvol s)\<rparr>
      in case the_ok (py_float price) of None \<Rightarrow> s1 | Some p \<Rightarrow> set_price p s1)"

definition number_or_zero :: "(string \<times> json) list \<Rightarrow> string \<Rightarrow> rat option" where
  "number_or_zero d k = the_ok (py_float (py_or (dict_get k (JInt 0) d) (JInt 0)))"

definition mid_or_side :: "rat \<Rightarrow> rat \<Rightarrow> rat" where
  "mid_or_side bid ask =
     (if 0 < bid \<and> 0 < ask then fl (fl (bid + ask) / 2) else if bid \<noteq> 0 then bid else ask)"

definition on_book_ticker :: "(string \<times> json) list \<Rightarrow> symbol_state \<Rightarrow> symbol_state" where
  "on_book_ticker d s =
     (let s1 = s\<lparr>sy_last_book_ticker := Some d\<rparr> in
      case (number_or_zero d ''bid_price'', number_or_zero d ''ask_price'') of
        (Some bid, Some ask) \<Rightarrow> set_price (mid_or_side bid ask) s1
      | _ \<Rightarrow> s1)"

definition caught :: "exn list \<Rightarrow> exn + 'a option \<Rightarrow> exn + 'a option" where
  "caught es r = (case r of Inl e \<Rightarrow> if e \<in> set es then Inr None else Inl e | _ \<Rightarrow> r)"

text \<open>\<open>float(row[0] if isinstance(row, (list, tuple)) else row)\<close>.\<close>

definition row_price :: "json \<Rightarrow> exn + rat" where
  "row_price row = (case row of JArr _ \<Rightarrow> ebind (index_json row 0) py_float | _ \<Rightarrow> py_float row)"

text \<open>The best bid and ask of a book whose sides are not empty.\<close>

definition best_prices :: "json \<Rightarrow> json \<Rightarrow> exn + (rat \<times> rat) option" where
  "best_prices bids asks =
     caught [ValueError, TypeError, IndexError]
       (if truthy bids \<and> truthy asks
        then ebind (ebind (index_json bids 0) row_price) (\<lambda>bid. ebind (ebind (index_json asks 0) row_price) (\<lambda>ask.
               Inr (Some (bid, ask))))
        else Inr None)"

definition price_from_book :: "json \<Rightarrow> (symbol_state, unit) prog" where
  "price_from_book book =
     mbind (mlift (obj_get book ''bids'' (JArr []))) (\<lambda>bids.
     mbind (mlift (obj_get book ''asks'' (JArr []))) (\<lambda>asks.
     mbind (mlift (best_prices bids asks)) (\<lambda>r.
     case r of
       None \<Rightarrow> mret ()
     | Some (bid, ask) \<Rightarrow>
         mwhen (0 < bid \<and> 0 < ask) (mput (\<lambda>s. s\<lparr>sy_last_price := Some (fl (fl (bid + ask) / 2))\<rparr>)))))"

definition on_orderbook_snapshot :: "env \<Rightarrow> (string \<times> json) list \<Rightarrow> json \<Rightarrow> int \<Rightarrow> (symbol_state, unit) prog" where
  "on_orderbook_snapshot env d current_book ts =
     mbind (mlift (py_int (dict_get ''last_update_id'' (JInt 0) d))) (\<lambda>last_update_id.
     mseq (mput (\<lambda>s. s\<lparr>sy_integrity := on_snapshot last_update_id ts (sy_integrity s)\<rparr>))
    (mseq (mwhen (truthy current_book) (mput (\<lambda>s. s\<lparr>sy_last_book := current_book\<rparr>)))
    (mbind (mget id) (\<lambda>s.
     mseq (mwhen (truthy (sy_last_book s) \<and> bi_is_valid (sy_integrity s)) (refresh_walls env ts))
          (price_from_book (py_or (py_or (sy_last_book s) current_book) (JObj [])))))))"

definition on_orderbook_delta :: "env \<Rightarrow> (string \<times> json) list \<Rightarrow> json \<Rightarrow> int \<Rightarrow> (symbol_state, unit) prog" where
  "on_orderbook_delta env d current_book ts =
     mbind (mlift (py_int (dict_get ''first_update_id'' (JInt 0) d))) (\<lambda>first_uid.
     mbind (mlift (py_int (dict_get ''last_update_id'' (JInt 0) d))) (\<lambda>last_uid.
     mbind (mget (\<lambda>s. on_delta first_uid last_uid ts (sy_integrity s))) (\<lambda>(valid, integrity).
     mseq (mput (\<lambda>s. s\<lparr>sy_integrity := integrity\<rparr>))
          (mwhen (valid \<and> truthy current_book)
             (mseq (mput (\<lambda>s. s\<lparr>sy_last_book := current_book\<rparr>)) (refresh_walls env ts))))))"

definition on_kline :: "env \<Rightarrow> (string \<times> json) list \<Rightarrow> (symbol_state, unit) prog" where
  "on_kline env d =
     (let interval = str_of env (dict_get ''interval'' (JStr []) d);
          field = \<lambda>k. str_of env (dict_get k (JStr ''0'') d) in
      if interval = [] \<or> \<not> truthy (dict_get ''is_closed'' (JBool False) d) then mret ()
      else mbind (mget (get_indicator interval)) (\<lambda>e.
           mbind (mlift (on_kline_close (field ''high'') (field ''low'') (field ''close'') (field ''volume'') e)) (\<lambda>e1.
             mput (\<lambda>s. s\<lparr>sy_indicators := dict_set interval e1 (sy_indicators s)\<rparr>))))"

definition on_mark_price :: "(string \<times> json) list \<Rightarrow> symbol_state \<Rightarrow> symbol_state" where
  "on_mark_price d s =
     (let s1 = s\<lparr>sy_last_mark := Some d\<rparr> in
      case number_or_zero d ''mark_price'' of Some mark \<Rightarrow> set_price mark s1 | None \<Rightarrow> s1)"

definition on_liquidation_event :: "env \<Rightarrow> (string \<times> json) list \<Rightarrow> int \<Rightarrow> symbol_state \<Rightarrow> symbol_state" where
  "on_liquidation_event env d ts s =
     s\<lparr>sy_liquidations :=
         on_liquidation (str_of env (dict_get ''side'' (JStr []) d)) (str_of env (dict_get ''orig_qty'' (JStr ''0'') d))
           (str_of env (dict_get ''price'' (JStr ''0'') d)) ts (sy_liquidations s)\<rparr>"

section \<open>The dispatcher\<close>

definition handle_by_type :: "env \<Rightarrow> normalized_event \<Rightarrow> json \<Rightarrow> (symbol_state, unit) prog" where
  "handle_by_type env ev current_book =
     (let d = ne_data ev; ts = ne_timestamp_ms ev in
      case ne_event_type ev of
        TRADE \<Rightarrow> mput (on_trade d ts)
      | AGG_TRADE \<Rightarrow> mput (on_trade d ts)
      | BOOK_TICKER \<Rightarrow> mput (on_book_ticker d)
      | ORDERBOOK_SNAPSHOT \<Rightarrow> on_orderbook_snapshot env d current_book ts
      | ORDERBOOK_DELTA \<Rightarrow> on_orderbook_delta env d current_book ts
      | KLINE \<Rightarrow> on_kline env d
      | MARK_PRICE \<Rightarrow> mput (on_mark_price d)
      | LIQUIDATION \<Rightarrow> mput (on_liquidation_event env d ts)
      | _ \<Rightarrow> mret ())"

definition note_event :: "normalized_event \<Rightarrow> symbol_state \<Rightarrow> symbol_state" where
  "note_event ev s =
     s\<lparr>sy_last_update_ms := ne_timestamp_ms ev,
       sy_event_timestamps :=
         dict_set (event_type_value (ne_event_type ev)) (ne_timestamp_ms ev) (sy_event_timestamps s)\<rparr>"

definition update_symbol :: "env \<Rightarrow> normalized_event \<Rightarrow> json \<Rightarrow> (symbol_state, unit) prog" where
  "update_symbol env ev current_book = mseq (mput (note_event ev)) (handle_by_type env ev current_book)"

definition dispatch_event :: "env \<Rightarrow> state_params \<Rightarrow> normalized_event \<Rightarrow> json \<Rightarrow> (state_store, unit) prog" where
  "dispatch_event env p ev current_book st =
     (let symbol = ne_symbol ev; mt = market_type_value (ne_market_type ev) in
      case update_symbol env ev current_book (store_get p symbol mt st) of
        (r, s) \<Rightarrow> (r, dict_set (symbol, mt) s st))"

end
