(* ===== verification/AnalyticsService.thy ===== *)
theory AnalyticsService
  imports AnalyticsState
begin

text \<open>
  The analytics service: the snapshot of a symbol (\<open>services/analytics/snapshot/builder.py\<close>), its hot state
  in Redis (\<open>hot_state.py\<close>), its publication (\<open>publisher.py\<close>) and the consumer of normalized events
  (\<open>consumer.py\<close>).
\<close>

section \<open>Sections of the snapshot\<close>

text \<open>\<open>_d\<close>: the Decimal of the text of a float, and \<open>_safe_float\<close>.\<close>

definition to_dec :: "env \<Rightarrow> json \<Rightarrow> exn + rat option" where
  "to_dec env v = (if v = JNull then Inr None else ebind (dec_of_str env v) (\<lambda>x. Inr (Some x)))"

definition opt_to_dec :: "env \<Rightarrow> rat option \<Rightarrow> exn + rat option" where
  "opt_to_dec env x = to_dec env (opt_json JNum x)"

definition safe_float :: "json \<Rightarrow> rat option" where
  "safe_float v = (case the_ok (py_float (py_or v (JInt 0))) of None \<Rightarrow> None | Some f \<Rightarrow> if f \<noteq> 0 then Some f else None)"

text \<open>The float that a sum is, also when it is the integer 0.\<close>

definition num_of :: "json \<Rightarrow> rat" where
  "num_of v = (case v of JNum x \<Rightarrow> x | _ \<Rightarrow> 0)"

definition quote ::
  "env \<Rightarrow> rat option \<Rightarrow> rat option \<Rightarrow> rat option \<Rightarrow> rat option \<Rightarrow> spread_result option \<Rightarrow> market_state \<Rightarrow> exn + market_state" where
  "quote env bid ask bid_size ask_size sr m =
     ebind (opt_to_dec env bid) (\<lambda>b. ebind (opt_to_dec env ask) (\<lambda>a.
     ebind (opt_to_dec env bid_size) (\<lambda>bs. ebind (opt_to_dec env ask_size) (\<lambda>as.
     ebind (opt_to_dec env (map_option sr_spread sr)) (\<lambda>sp. ebind (opt_to_dec env (map_option sr_spread_bps sr)) (\<lambda>bps.
       Inr (m\<lparr>ma_bid := b, ma_ask := a, ma_bid_size := bs, ma_ask_size := as, ma_spread := sp, ma_spread_bps := bps\<rparr>)))))))"

definition ticker_quote :: "env \<Rightarrow> (string \<times> json) list \<Rightarrow> market_state \<Rightarrow> exn + market_state" where
  "ticker_quote env bt m =
     (let field = \<lambda>k. dict_get k JNull bt; text = \<lambda>k. str_of env (field k);
          bid = safe_float (field ''bid_price''); ask = safe_float (field ''ask_price'')
      in quote env bid ask (safe_float (field ''bid_qty'')) (safe_float (field ''ask_qty''))
           (if bid \<noteq> None \<and> ask \<noteq> None
            then compute_spread (text ''bid_price'') (text ''ask_price'') (text ''bid_qty'') (text ''ask_qty'') else None) m)"

text \<open>Price and quantity of a row of the book; only a list has a quantity.\<close>

definition row_quantity :: "json \<Rightarrow> exn + rat option" where
  "row_quantity row =
     (case row of
        JArr xs \<Rightarrow> if 1 < length xs then ebind (py_float (xs ! 1)) (\<lambda>q. Inr (Some q)) else Inr None
      | _ \<Rightarrow> Inr None)"

definition top_of_book :: "json \<Rightarrow> json \<Rightarrow> exn + (rat \<times> rat \<times> rat option \<times> rat option) option" where
  "top_of_book bids asks =
     caught [ValueError, TypeError, IndexError]
       (if truthy bids \<and> truthy asks
        then ebind (index_json bids 0) (\<lambda>best_bid. ebind (index_json asks 0) (\<lambda>best_ask.
             ebind (row_price best_bid) (\<lambda>bid. ebind (row_price best_ask) (\<lambda>ask.
             ebind (row_quantity best_bid) (\<lambda>bid_qty. ebind (row_quantity best_ask) (\<lambda>ask_qty.
               Inr (if 0 < bid \<and> 0 < ask then Some (bid, ask, bid_qty, ask_qty) else None)))))))
        else Inr None)"

definition qty_text :: "env \<Rightarrow> rat option \<Rightarrow> string" where
  "qty_text env q = str_of env (case q of None \<Rightarrow> JInt 0 | Some x \<Rightarrow> if x = 0 then JInt 0 else JNum x)"

definition book_quote :: "env \<Rightarrow> json \<Rightarrow> market_state \<Rightarrow> exn + market_state" where
  "book_quote env book m =
     ebind (obj_get book ''bids'' (JArr [])) (\<lambda>bids. ebind (obj_get book ''asks'' (JArr [])) (\<lambda>asks.
     ebind (top_of_book bids asks) (\<lambda>r.
     case r of
       None \<Rightarrow> Inr m
     | Some (bid, ask, bid_qty, ask_qty) \<Rightarrow>
         quote env (Some bid) (Some ask) bid_qty ask_qty
           (compute_spread (str_of env (JNum bid)) (str_of env (JNum ask)) (qty_text env bid_qty) (qty_text env ask_qty)) m)))"

definition build_market_state :: "env \<Rightarrow> symbol_state \<Rightarrow> exn + market_state" where
  "build_market_state env s =
     ebind (opt_to_dec env (sy_last_price s)) (\<lambda>price.
     let m = default_market_state\<lparr>ma_price := price\<rparr> in
     case sy_last_book_ticker s of
       Some (b # bt) \<Rightarrow> ticker_quote env (b # bt) m
     | _ \<Rightarrow> if truthy (sy_last_book s) then book_quote env (sy_last_book s) m else Inr m)"

text \<open>A wall whose numbers cannot be read is left out.\<close>

definition wall_level_of :: "env \<Rightarrow> wall_info \<Rightarrow> wall_level option" where
  "wall_level_of env w =
     the_ok (ebind (dec_literal (wi_price w)) (\<lambda>price. ebind (dec_literal (wi_qty w)) (\<lambda>sz.
             ebind (py_float (JStr (wi_price w))) (\<lambda>p. ebind (py_float (JStr (wi_qty w))) (\<lambda>q.
             ebind (dec_of_str env (JNum (fl (p * q)))) (\<lambda>n.
               Inr \<lparr>pl_price = price, pl_size = sz, pl_notional_usd = Some n,
                    wl_is_spoofing_candidate = wi_is_spoofing_candidate w, wl_detected_at_ms = Some (wi_first_seen_ms w)\<rparr>))))))"

definition top_walls :: "env \<Rightarrow> wall_info list \<Rightarrow> wall_level list" where
  "top_walls env ws = List.map_filter (wall_level_of env) (take 5 ws)"

definition build_book_state :: "env \<Rightarrow> symbol_state \<Rightarrow> exn + book_state" where
  "build_book_state env s =
     (let book = py_or (sy_last_book s) (JObj []); price = (case sy_last_price s of None \<Rightarrow> 0 | Some p \<Rightarrow> p) in
      ebind (obj_get book ''bids'' (JArr [])) (\<lambda>bids. ebind (obj_get book ''asks'' (JArr [])) (\<lambda>asks.
      ebind (compute_imbalance bids asks price 10) (\<lambda>imb.
      ebind (opt_to_dec env (map_option im_imbalance_ratio imb)) (\<lambda>ratio.
      ebind (opt_to_dec env (map_option im_bid_depth_usd imb)) (\<lambda>bid_depth.
      ebind (opt_to_dec env (map_option im_ask_depth_usd imb)) (\<lambda>ask_depth.
        let b = default_book_state\<lparr>bo_imbalance_ratio := ratio, bo_bid_depth_usd := bid_depth, bo_ask_depth_usd := ask_depth\<rparr>
        in Inr (case sy_last_walls_result s of
                  None \<Rightarrow> b
                | Some wr \<Rightarrow> b\<lparr>bo_spoofing_alert := wr_spoofing_alert wr, bo_top_bid_walls := top_walls env (wr_bid_walls wr),
                               bo_top_ask_walls := top_walls env (wr_ask_walls wr)\<rparr>))))))))"

definition LARGE_TRADE_USD :: rat where "LARGE_TRADE_USD = 10000"

definition build_flow_state :: "env \<Rightarrow> symbol_state \<Rightarrow> int \<Rightarrow> exn + flow_state" where
  "build_flow_state env s now_ms =
     (let f = sy_flow s; (buy_vol, sell_vol) = compute_buy_sell_volumes 100 f in
      ebind (to_dec env (compute_delta 50 f)) (\<lambda>delta. ebind (opt_to_dec env (Some (fe_cvd f))) (\<lambda>cvd.
      ebind (opt_to_dec env (cvd_slope 20 f)) (\<lambda>slope.
      ebind (opt_to_dec env (Some (compute_tape_speed_per_min now_ms f))) (\<lambda>tape.
      ebind (opt_to_dec env (compute_aggression_ratio f)) (\<lambda>ratio.
      ebind (opt_to_dec env (compute_rvol (sy_rvol s))) (\<lambda>rvol.
      ebind (to_dec env buy_vol) (\<lambda>buy. ebind (to_dec env sell_vol) (\<lambda>sell.
      let fs = default_flow_state\<lparr>fw_delta := delta, fw_cvd := cvd, fw_cvd_slope := slope,
                 fw_tape_speed_trades_per_min := tape, fw_aggression_ratio := ratio, fw_rvol := rvol,
                 fw_buy_volume := buy, fw_sell_volume := sell\<rparr>
      in case sy_last_price s of
           None \<Rightarrow> Inr fs
         | Some p \<Rightarrow>
             if p \<le> 0 then Inr fs
             else ebind (opt_to_dec env (Some LARGE_TRADE_USD)) (\<lambda>threshold.
                  let (large_buys, large_sells) = compute_large_trade_stats p LARGE_TRADE_USD 100 f
                  in Inr (fs\<lparr>fw_large_trade_threshold_usd := threshold, fw_large_buy_count := Some large_buys,
                            fw_large_sell_count := Some large_sells\<rparr>)))))))))))"

definition mark_section :: "env \<Rightarrow> (string \<times> json) list \<Rightarrow> futures_state \<Rightarrow> exn + futures_state" where
  "mark_section env mark u =
     (let field = \<lambda>k. dict_get k JNull mark; text = \<lambda>k. str_of env (dict_get k (JStr []) mark);
          mark_price = safe_float (field ''mark_price''); index_price = safe_float (field ''index_price'');
          funding_rate = safe_float (field ''funding_rate''); nft = field ''next_funding_time_ms'' in
      ebind (opt_to_dec env mark_price) (\<lambda>m. ebind (opt_to_dec env index_price) (\<lambda>i.
      ebind (opt_to_dec env funding_rate) (\<lambda>r.
      ebind (if truthy nft then ebind (py_int nft) (\<lambda>n. Inr (Some n)) else Inr None) (\<lambda>n.
      ebind (opt_to_dec env
               (if mark_price \<noteq> None \<and> index_price \<noteq> None \<and> funding_rate \<noteq> None
                then compute_funding_pressure (text ''funding_rate'') (text ''mark_price'') (text ''index_price'')
                else None)) (\<lambda>fp.
        Inr (u\<lparr>fu_mark_price := m, fu_index_price := i, fu_funding_rate := r, fu_next_funding_time_ms := n,
               fu_funding_pressure_score := fp\<rparr>)))))))"

definition interest_section :: "env \<Rightarrow> (string \<times> json) list \<Rightarrow> futures_state \<Rightarrow> exn + futures_state" where
  "interest_section env oi u =
     ebind (opt_to_dec env (safe_float (dict_get ''open_interest'' JNull oi))) (\<lambda>a.
     ebind (opt_to_dec env (safe_float (dict_get ''open_interest_value'' JNull oi))) (\<lambda>b.
       Inr (u\<lparr>fu_open_interest := a, fu_open_interest_value_usd := b\<rparr>)))"

definition positive_dec :: "env \<Rightarrow> json \<Rightarrow> exn + rat option" where
  "positive_dec env v = (if 0 < num_of v then to_dec env v else Inr None)"

definition build_futures_state :: "env \<Rightarrow> symbol_state \<Rightarrow> int \<Rightarrow> exn + futures_state" where
  "build_futures_state env s now_ms =
     ebind (case sy_last_mark s of Some (b # d) \<Rightarrow> mark_section env (b # d) default_futures_state
            | _ \<Rightarrow> Inr default_futures_state) (\<lambda>u1.
     ebind (case sy_last_oi s of Some (b # d) \<Rightarrow> interest_section env (b # d) u1 | _ \<Rightarrow> Inr u1) (\<lambda>u2.
     case sy_last_price s of
       None \<Rightarrow> Inr u2
     | Some price \<Rightarrow>
         if price \<le> 0 then Inr u2
         else let (long_usd, short_usd) = compute_cluster_totals now_ms (sy_liquidations s) in
              ebind (positive_dec env long_usd) (\<lambda>l. ebind (positive_dec env short_usd) (\<lambda>t.
                Inr (u2\<lparr>fu_liquidation_cluster_long_usd := l, fu_liquidation_cluster_short_usd := t\<rparr>)))))"

definition to_indicator_values :: "env \<Rightarrow> indicator_values \<Rightarrow> exn + indicator_values" where
  "to_indicator_values env v =
     ebind (emap (opt_to_dec env)
        [iv_ema_9 v, iv_ema_21 v, iv_ema_50 v, iv_ema_200 v, iv_rsi_14 v, iv_vwap v, iv_bb_upper v, iv_bb_middle v,
         iv_bb_lower v, iv_bb_width v, iv_atr_14 v]) (\<lambda>ds.
       Inr \<lparr>iv_ema_9 = ds ! 0, iv_ema_21 = ds ! 1, iv_ema_50 = ds ! 2, iv_ema_200 = ds ! 3, iv_rsi_14 = ds ! 4,
            iv_vwap = ds ! 5, iv_bb_upper = ds ! 6, iv_bb_middle = ds ! 7, iv_bb_lower = ds ! 8, iv_bb_width = ds ! 9,
            iv_atr_14 = ds ! 10\<rparr>)"

definition build_indicators :: "env \<Rightarrow> symbol_state \<Rightarrow> exn + (string \<times> indicator_values) list" where
  "build_indicators env s =
     emap (\<lambda>(interval, e). ebind (to_indicator_values env (compute_indicators e)) (\<lambda>v. Inr (interval, v))) (sy_indicators s)"

section \<open>The snapshot\<close>

text \<open>The parsers are \<open>model_validate_json\<close> of \<open>AccountState\<close> and \<open>RiskState\<close>.\<close>

record analytics_settings =
  ay_consumer_group :: string
  ay_consumer_name :: string
  ay_batch_size :: int
  ay_block_ms :: int
  ay_snapshot_publish_interval_s :: rat
  ay_cvd_window_trades :: nat
  ay_wall_min_notional_usd :: rat
  ay_wall_depth_levels :: nat
  ay_rvol_lookback_candles :: nat
  ay_tape_speed_window_s :: rat
  ay_default_account_id :: string

definition default_analytics_settings :: analytics_settings where
  "default_analytics_settings =
     \<lparr>ay_consumer_group = ''analytics'', ay_consumer_name = ''analytics-1'', ay_batch_size = 200, ay_block_ms = 500,
      ay_snapshot_publish_interval_s = 1, ay_cvd_window_trades = 1000, ay_wall_min_notional_usd = 100000,
      ay_wall_depth_levels = 10, ay_rvol_lookback_candles = 20, ay_tape_speed_window_s = 10, ay_default_account_id = []\<rparr>"

text \<open>\<open>an_clock\<close> is what \<open>time.monotonic\<close> shows.\<close>

record 'r analytics =
  an_settings :: analytics_settings
  an_ops :: "'r redis_ops"
  an_env :: env
  an_parse_account :: "rtext \<Rightarrow> exn + account_state"
  an_parse_risk :: "rtext \<Rightarrow> exn + risk_state"

record 'r analytics_world = "('r, unit) world" +
  an_states :: state_store
  an_last_publish_at :: rat
  an_clock :: rat

type_synonym ('r, 'a) anact = "('r analytics_world, 'a) prog"

text \<open>The settings leave the tape window at its default.\<close>

definition params_of :: "analytics_settings \<Rightarrow> state_params" where
  "params_of st =
     \<lparr>sp_flow_cvd_window = ay_cvd_window_trades st, sp_wall_min_notional = ay_wall_min_notional_usd st,
      sp_wall_depth_levels = ay_wall_depth_levels st, sp_rvol_lookback = ay_rvol_lookback_candles st,
      sp_tape_speed_window_s = 10\<rparr>"

definition account_snapshot_key :: "string \<Rightarrow> string" where
  "account_snapshot_key user_id = ''account:'' @ user_id @ '':snapshot''"

definition risk_state_key :: "string \<Rightarrow> string" where
  "risk_state_key user_id = ''risk:'' @ user_id @ '':state''"

text \<open>A state that is missing or cannot be read is the default one.\<close>

definition load_state :: "'r redis_ops \<Rightarrow> (rtext \<Rightarrow> exn + 'a) \<Rightarrow> 'a \<Rightarrow> string \<Rightarrow> string \<Rightarrow> ('r, 'a) anact" where
  "load_state ops parse dflt account_id k =
     (if account_id = [] then mret dflt
      else mtry (mbind (on_redis (r_get ops k)) (\<lambda>raw.
                   if text_truthy raw then mlift (parse (the raw)) else mret dflt)) (\<lambda>_. mret dflt))"

definition load_account_state :: "'r analytics \<Rightarrow> string \<Rightarrow> ('r, account_state) anact" where
  "load_account_state sv account_id =
     load_state (an_ops sv) (an_parse_account sv) default_account_state account_id (account_snapshot_key account_id)"

definition load_risk_state :: "'r analytics \<Rightarrow> string \<Rightarrow> ('r, risk_state) anact" where
  "load_risk_state sv account_id =
     load_state (an_ops sv) (an_parse_risk sv) default_risk_state account_id (risk_state_key account_id)"

definition market_of :: "symbol_state \<Rightarrow> market_type" where
  "market_of s = (if sy_market_type s = ''futures'' then FUTURES else SPOT)"

definition build_meta :: "symbol_state \<Rightarrow> string \<Rightarrow> int \<Rightarrow> snapshot_meta" where
  "build_meta s account_id now_ms =
     \<lparr>me_snapshot_timestamp_ms = now_ms, me_symbol = sy_symbol s, me_market_type = market_of s,
      me_account_id = (if account_id = [] then None else Some account_id), me_sources = map fst (sy_event_timestamps s),
      me_staleness_ms = map (\<lambda>(k, v). (k, now_ms - v)) (sy_event_timestamps s)\<rparr>"

text \<open>What the state of the symbol alone gives; the book is used only while its updates are continuous.\<close>

definition build_sections :: "env \<Rightarrow> symbol_state \<Rightarrow> string \<Rightarrow> int \<Rightarrow> exn + snapshot" where
  "build_sections env s account_id now_ms =
     ebind (build_market_state env s) (\<lambda>market.
     ebind (if bi_is_valid (sy_integrity s) \<and> truthy (sy_last_book s) then build_book_state env s
            else Inr default_book_state) (\<lambda>book.
     ebind (build_flow_state env s now_ms) (\<lambda>flow.
     ebind (build_futures_state env s now_ms) (\<lambda>futures.
     ebind (build_indicators env s) (\<lambda>indicators.
       Inr ((default_snapshot (build_meta s account_id now_ms))
             \<lparr>sn_market_state := market, sn_book_state := book, sn_flow_state := flow, sn_futures_state := futures,
              sn_by_interval := indicators\<rparr>))))))"

definition build_snapshot :: "'r analytics \<Rightarrow> symbol_state \<Rightarrow> string \<Rightarrow> int \<Rightarrow> ('r, snapshot) anact" where
  "build_snapshot sv s account_id now_ms =
     mbind (mlift (build_sections (an_env sv) s account_id now_ms)) (\<lambda>sn.
     mbind (load_account_state sv account_id) (\<lambda>account.
     mbind (load_risk_state sv account_id) (\<lambda>risk.
       mret (sn\<lparr>sn_account_state := account, sn_risk_state := risk\<rparr>))))"

section \<open>The snapshot as JSON\<close>

text \<open>\<open>model_dump(mode="json")\<close>: a Decimal becomes its text.\<close>

definition dec_json :: "env \<Rightarrow> rat \<Rightarrow> json" where
  "dec_json env x = JStr (show_dec env x)"

definition opt_dec_json :: "env \<Rightarrow> rat option \<Rightarrow> json" where
  "opt_dec_json env x = opt_json (dec_json env) x"

definition dump_wall :: "env \<Rightarrow> wall_level \<Rightarrow> json" where
  "dump_wall env w = JObj
     [(''price'', dec_json env (pl_price w)), (''size'', dec_json env (pl_size w)),
      (''notional_usd'', opt_dec_json env (pl_notional_usd w)),
      (''is_spoofing_candidate'', JBool (wl_is_spoofing_candidate w)), (''detected_at_ms'', opt_json JInt (wl_detected_at_ms w))]"

definition dump_market :: "env \<Rightarrow> market_state \<Rightarrow> json" where
  "dump_market env m = JObj
     [(''price'', opt_dec_json env (ma_price m)), (''bid'', opt_dec_json env (ma_bid m)), (''ask'', opt_dec_json env (ma_ask m)),
      (''bid_size'', opt_dec_json env (ma_bid_size m)), (''ask_size'', opt_dec_json env (ma_ask_size m)),
      (''spread'', opt_dec_json env (ma_spread m)), (''spread_bps'', opt_dec_json env (ma_spread_bps m)),
      (''high_24h'', opt_dec_json env (ma_high_24h m)), (''low_24h'', opt_dec_json env (ma_low_24h m)),
      (''volume_24h'', opt_dec_json env (ma_volume_24h m)), (''quote_volume_24h'', opt_dec_json env (ma_quote_volume_24h m)),
      (''price_change_pct_24h'', opt_dec_json env (ma_price_change_pct_24h m)), (''trades_24h'', opt_json JInt (ma_trades_24h m))]"

definition dump_book :: "env \<Rightarrow> book_state \<Rightarrow> json" where
  "dump_book env b = JObj
     [(''imbalance_ratio'', opt_dec_json env (bo_imbalance_ratio b)), (''bid_depth_usd'', opt_dec_json env (bo_bid_depth_usd b)),
      (''ask_depth_usd'', opt_dec_json env (bo_ask_depth_usd b)), (''top_bid_walls'', JArr (map (dump_wall env) (bo_top_bid_walls b))),
      (''top_ask_walls'', JArr (map (dump_wall env) (bo_top_ask_walls b))), (''spoofing_alert'', JBool (bo_spoofing_alert b))]"

definition dump_flow :: "env \<Rightarrow> flow_state \<Rightarrow> json" where
  "dump_flow env f = JObj
     [(''delta'', opt_dec_json env (fw_delta f)), (''cvd'', opt_dec_json env (fw_cvd f)), (''cvd_slope'', opt_dec_json env (fw_cvd_slope f)),
      (''tape_speed_trades_per_min'', opt_dec_json env (fw_tape_speed_trades_per_min f)),
      (''aggression_ratio'', opt_dec_json env (fw_aggression_ratio f)), (''rvol'', opt_dec_json env (fw_rvol f)),
      (''buy_volume'', opt_dec_json env (fw_buy_volume f)), (''sell_volume'', opt_dec_json env (fw_sell_volume f)),
      (''large_trade_threshold_usd'', opt_dec_json env (fw_large_trade_threshold_usd f)),
      (''large_buy_count'', opt_json JInt (fw_large_buy_count f)), (''large_sell_count'', opt_json JInt (fw_large_sell_count f))]"

definition dump_futures :: "env \<Rightarrow> futures_state \<Rightarrow> json" where
  "dump_futures env f = JObj
     [(''mark_price'', opt_dec_json env (fu_mark_price f)), (''index_price'', opt_dec_json env (fu_index_price f)),
      (''funding_rate'', opt_dec_json env (fu_funding_rate f)), (''next_funding_time_ms'', opt_json JInt (fu_next_funding_time_ms f)),
      (''open_interest'', opt_dec_json env (fu_open_interest f)),
      (''open_interest_value_usd'', opt_dec_json env (fu_open_interest_value_usd f)),
      (''oi_price_divergence'', opt_dec_json env (fu_oi_price_divergence f)),
      (''funding_pressure_score'', opt_dec_json env (fu_funding_pressure_score f)),
      (''liquidation_cluster_long_usd'', opt_dec_json env (fu_liquidation_cluster_long_usd f)),
      (''liquidation_cluster_short_usd'', opt_dec_json env (fu_liquidation_cluster_short_usd f))]"

text \<open>The eleven values in their order, each as \<open>sh\<close> shows it.\<close>

definition indicator_fields :: "(rat option \<Rightarrow> json) \<Rightarrow> indicator_values \<Rightarrow> (string \<times> json) list" where
  "indicator_fields sh v =
     [(''ema_9'', sh (iv_ema_9 v)), (''ema_21'', sh (iv_ema_21 v)), (''ema_50'', sh (iv_ema_50 v)), (''ema_200'', sh (iv_ema_200 v)),
      (''rsi_14'', sh (iv_rsi_14 v)), (''vwap'', sh (iv_vwap v)), (''bb_upper'', sh (iv_bb_upper v)), (''bb_middle'', sh (iv_bb_middle v)),
      (''bb_lower'', sh (iv_bb_lower v)), (''bb_width'', sh (iv_bb_width v)), (''atr_14'', sh (iv_atr_14 v))]"

definition dump_balance :: "env \<Rightarrow> balance_snapshot \<Rightarrow> json" where
  "dump_balance env b = JObj
     [(''asset'', JStr (bs_asset b)), (''free'', dec_json env (bs_free b)), (''locked'', dec_json env (bs_locked b)),
      (''total'', dec_json env (bs_total b)), (''wallet_balance'', opt_dec_json env (bs_wallet_balance b)),
      (''unrealized_pnl'', opt_dec_json env (bs_unrealized_pnl b))]"

definition dump_position :: "env \<Rightarrow> position_snapshot \<Rightarrow> json" where
  "dump_position env p = JObj
     [(''symbol'', JStr (po_symbol p)), (''market_type'', JStr (market_type_value (po_market_type p))), (''side'', JStr (po_side p)),
      (''quantity'', dec_json env (po_quantity p)), (''entry_price'', dec_json env (po_entry_price p)),
      (''mark_price'', opt_dec_json env (po_mark_price p)), (''unrealized_pnl'', opt_dec_json env (po_unrealized_pnl p)),
      (''leverage'', opt_dec_json env (po_leverage p)), (''margin'', opt_dec_json env (po_margin p)),
      (''liquidation_price'', opt_dec_json env (po_liquidation_price p))]"

definition dump_account :: "env \<Rightarrow> account_state \<Rightarrow> json" where
  "dump_account env a = JObj
     [(''total_equity_usd'', opt_dec_json env (aa_total_equity_usd a)),
      (''available_margin_usd'', opt_dec_json env (aa_available_margin_usd a)),
      (''used_margin_usd'', opt_dec_json env (aa_used_margin_usd a)),
      (''unrealized_pnl_usd'', opt_dec_json env (aa_unrealized_pnl_usd a)), (''balances'', JArr (map (dump_balance env) (aa_balances a))),
      (''positions'', JArr (map (dump_position env) (aa_positions a))), (''open_orders_count'', JInt (aa_open_orders_count a)),
      (''trading_mode'', opt_json JStr (aa_trading_mode a))]"

definition dump_risk :: "env \<Rightarrow> risk_state \<Rightarrow> json" where
  "dump_risk env r = JObj
     [(''daily_pnl_usd'', opt_dec_json env (rs_daily_pnl_usd r)),
      (''daily_loss_limit_pct_used'', opt_dec_json env (rs_daily_loss_limit_pct_used r)),
      (''open_positions_count'', JInt (rs_open_positions_count r)),
      (''max_concurrent_positions'', opt_json JInt (rs_max_concurrent_positions r)),
      (''kill_switch_active'', JBool (rs_kill_switch_active r)), (''circuit_breaker_active'', JBool (rs_circuit_breaker_active r)),
      (''user_paused'', JBool (rs_user_paused r)), (''symbol_paused'', JBool (rs_symbol_paused r)),
      (''daily_trades'', JInt (rs_daily_trades r))]"

definition dump_signal :: "strategy_signal \<Rightarrow> json" where
  "dump_signal s = JObj
     [(''strategy_id'', JStr (ss_strategy_id s)), (''version'', JInt (ss_version s)), (''signal'', JBool (ss_signal s)),
      (''direction'', opt_json JStr (ss_direction s)), (''confidence'', opt_json JNum (ss_confidence s))]"

definition dump_fill :: "env \<Rightarrow> recent_fill \<Rightarrow> json" where
  "dump_fill env f = JObj
     [(''job_id'', JStr (rf_job_id f)), (''symbol'', JStr (rf_symbol f)), (''side'', JStr (rf_side f)), (''qty'', dec_json env (rf_qty f)),
      (''price'', dec_json env (rf_price f)), (''timestamp_ms'', JInt (rf_timestamp_ms f))]"

definition dump_meta :: "snapshot_meta \<Rightarrow> json" where
  "dump_meta m = JObj
     [(''snapshot_timestamp_ms'', JInt (me_snapshot_timestamp_ms m)), (''symbol'', JStr (me_symbol m)),
      (''market_type'', JStr (market_type_value (me_market_type m))), (''account_id'', opt_json JStr (me_account_id m)),
      (''sources'', JArr (map JStr (me_sources m))), (''staleness_ms'', JObj (map (\<lambda>(k, n). (k, JInt n)) (me_staleness_ms m)))]"

definition dump_snapshot :: "env \<Rightarrow> snapshot \<Rightarrow> (string \<times> json) list" where
  "dump_snapshot env s =
     [(''market_state'', dump_market env (sn_market_state s)), (''book_state'', dump_book env (sn_book_state s)),
      (''flow_state'', dump_flow env (sn_flow_state s)), (''futures_state'', dump_futures env (sn_futures_state s)),
      (''indicator_state'', JObj [(''by_interval'',
         JObj (map (\<lambda>(k, v). (k, JObj (indicator_fields (opt_dec_json env) v))) (sn_by_interval s)))]),
      (''account_state'', dump_account env (sn_account_state s)), (''risk_state'', dump_risk env (sn_risk_state s)),
      (''strategy_state'', JObj
        [(''active_strategy_ids'', JArr (map JStr (sx_active_strategy_ids (sn_strategy_state s)))),
         (''last_signals'', JArr (map dump_signal (sx_last_signals (sn_strategy_state s)))),
         (''pending_intents'', JInt (sx_pending_intents (sn_strategy_state s)))]),
      (''execution_state'', JObj
        [(''pending_jobs'', JInt (ex_pending_jobs (sn_execution_state s))),
         (''recent_fills'', JArr (map (dump_fill env) (ex_recent_fills (sn_execution_state s)))),
         (''last_error'', opt_json JStr (ex_last_error (sn_execution_state s)))]),
      (''meta'', dump_meta (sn_meta s))]"

section \<open>Hot state\<close>

definition TTL_ANALYTICS :: int where "TTL_ANALYTICS = 60"

definition TTL_INDICATORS :: int where "TTL_INDICATORS = 3600"

type_synonym key_writes = "(string \<times> rtext \<times> int) list"

definition derived_key :: "symbol_state \<Rightarrow> string \<Rightarrow> string" where
  "derived_key s part = ''analytics:'' @ sy_market_type s @ '':'' @ sy_symbol s @ '':'' @ part"

definition write_of :: "symbol_state \<Rightarrow> int \<Rightarrow> string \<Rightarrow> (string \<times> json) list \<Rightarrow> int \<Rightarrow> string \<times> rtext \<times> int" where
  "write_of s now_ms part d ttl = (derived_key s part, Json (JObj (d @ [(''timestamp_ms'', JInt now_ms)])), ttl)"

text \<open>\<open>d.get(section, {}).get(k, default)\<close>, where a section that is no dict gives the default.\<close>

definition section_get :: "(string \<times> json) list \<Rightarrow> string \<Rightarrow> string \<Rightarrow> json \<Rightarrow> json" where
  "section_get d name k dflt =
     (case dict_get name (JObj []) d of JObj sec \<Rightarrow> dict_get k dflt sec | _ \<Rightarrow> dflt)"

definition derived_writes :: "env \<Rightarrow> symbol_state \<Rightarrow> (string \<times> json) list \<Rightarrow> int \<Rightarrow> key_writes" where
  "derived_writes env s d now_ms =
     (let put = \<lambda>part fields. write_of s now_ms part fields TTL_ANALYTICS;
          fp = section_get d ''futures_state'' ''funding_pressure_score'' JNull in
      [put ''cvd'' [(''cvd'', JNum (fe_cvd (sy_flow s)))], put ''delta'' [(''delta'', compute_delta 50 (sy_flow s))]] @
      (case compute_rvol (sy_rvol s) of None \<Rightarrow> [] | Some r \<Rightarrow> [put ''rvol'' [(''rvol'', JNum r)]]) @
      (case sy_last_price s of
         None \<Rightarrow> []
       | Some p \<Rightarrow> if p \<le> 0 then []
                  else case compute_cluster_totals now_ms (sy_liquidations s) of (long_usd, short_usd) \<Rightarrow>
                         [put ''liquidation_clusters'' [(''long_usd'', long_usd), (''short_usd'', short_usd)]]) @
      [put ''walls'' [(''bid_walls'', section_get d ''book_state'' ''top_bid_walls'' (JArr [])),
                      (''ask_walls'', section_get d ''book_state'' ''top_ask_walls'' (JArr [])),
                      (''spoofing_alert'', section_get d ''book_state'' ''spoofing_alert'' (JBool False))]] @
      (if fp = JNull then [] else [put ''funding_pressure'' [(''funding_pressure_score'', JStr (str_of env fp))]]) @
      [(derived_key s ''snapshot'', Json (JObj d), TTL_ANALYTICS)])"

definition indicator_writes :: "symbol_state \<Rightarrow> int \<Rightarrow> key_writes" where
  "indicator_writes s now_ms =
     List.map_filter (\<lambda>(interval, e). let v = compute_indicators e in
       if iv_ema_9 v = None \<and> iv_rsi_14 v = None \<and> iv_vwap v = None \<and> iv_atr_14 v = None then None
       else Some (write_of s now_ms (''indicators:'' @ interval) (indicator_fields (opt_json JNum) v) TTL_INDICATORS))
     (sy_indicators s)"

text \<open>A pipeline without commands sends nothing.\<close>

definition send_writes :: "'r redis_ops \<Rightarrow> key_writes \<Rightarrow> ('r, unit) anact" where
  "send_writes ops ws = mwhen (ws \<noteq> []) (on_redis (r_set_all ops ws))"

definition write_hot_state :: "'r analytics \<Rightarrow> symbol_state \<Rightarrow> (string \<times> json) list \<Rightarrow> int \<Rightarrow> ('r, unit) anact" where
  "write_hot_state sv s d now_ms =
     mseq (send_writes (an_ops sv) (derived_writes (an_env sv) s d now_ms))
          (send_writes (an_ops sv) (indicator_writes s now_ms))"

definition publish_snapshot :: "'r analytics \<Rightarrow> (string \<times> json) list \<Rightarrow> ('r, unit) anact" where
  "publish_snapshot sv d = stream_publish (an_ops sv) ANALYTICS_DERIVED [(''snapshot'', Json (JObj d))]"

section \<open>The consumer\<close>

definition publish_one :: "'r analytics \<Rightarrow> int \<Rightarrow> symbol_state \<Rightarrow> ('r, unit) anact" where
  "publish_one sv now_ms s =
     mlogged (mbind (build_snapshot sv s (ay_default_account_id (an_settings sv)) now_ms) (\<lambda>sn.
       let d = dump_snapshot (an_env sv) sn
       in mseq (write_hot_state sv s d now_ms) (publish_snapshot sv d)))"

definition publish_all :: "'r analytics \<Rightarrow> int \<Rightarrow> ('r, unit) anact" where
  "publish_all sv now_ms = mbind (mget (\<lambda>w. all_states (an_states w))) (\<lambda>states. mfor states (publish_one sv now_ms))"

text \<open>The book that the normalizer keeps in Redis; anything that fails gives none.\<close>

definition fetch_current_book :: "'r analytics \<Rightarrow> normalized_event \<Rightarrow> ('r, json) anact" where
  "fetch_current_book sv ev =
     mtry (mbind (on_redis (r_get (an_ops sv) (market_book_key (market_type_value (ne_market_type ev)) (ne_symbol ev)))) (\<lambda>raw.
             if text_truthy raw then mlift (json_loads (the raw)) else mret JNull)) (\<lambda>_. mret JNull)"

definition is_book_event :: "normalized_event \<Rightarrow> bool" where
  "is_book_event ev = (ne_event_type ev \<in> {ORDERBOOK_SNAPSHOT, ORDERBOOK_DELTA})"

definition on_states :: "(state_store, 'a) prog \<Rightarrow> ('r, 'a) anact" where
  "on_states m w = (case m (an_states w) of (r, st) \<Rightarrow> (r, w\<lparr>an_states := st\<rparr>))"

definition analytics_ack :: "'r analytics \<Rightarrow> string \<Rightarrow> ('r, unit) anact" where
  "analytics_ack sv msg_id = ack (an_ops sv) NORMALIZED (ay_consumer_group (an_settings sv)) msg_id"

definition analytics_process :: "'r analytics \<Rightarrow> string \<Rightarrow> fields \<Rightarrow> ('r, unit) anact" where
  "analytics_process sv msg_id fs =
     (if \<not> text_truthy (map_of fs ''event'') then analytics_ack sv msg_id
      else case e_parse_event (an_env sv) (the (map_of fs ''event'')) of
             Inl _ \<Rightarrow> analytics_ack sv msg_id
           | Inr ev \<Rightarrow>
               mbind (if is_book_event ev then fetch_current_book sv ev else mret JNull) (\<lambda>current_book.
               mseq (on_states (dispatch_event (an_env sv) (params_of (an_settings sv)) ev current_book))
                    (analytics_ack sv msg_id)))"

definition analytics_tick :: "'r analytics \<Rightarrow> ('r, unit) anact" where
  "analytics_tick sv =
     (let st = an_settings sv in
      mbind (stream_read_group (an_ops sv) NORMALIZED (ay_consumer_group st) (ay_consumer_name st) (ay_batch_size st)
               (ay_block_ms st)) (\<lambda>entries.
      mseq (mfor entries (\<lambda>(msg_id, fs). analytics_process sv msg_id fs))
     (mbind (mget (\<lambda>w. (an_clock w, an_last_publish_at w, w_now w))) (\<lambda>(now, last, now_ms).
      mwhen (ay_snapshot_publish_interval_s st \<le> fl (now - last))
        (mseq (mput (\<lambda>w. w\<lparr>an_last_publish_at := now\<rparr>)) (publish_all sv now_ms))))))"

text \<open>Each round of \<open>start\<close> sees its clocks; an exception is logged.\<close>

primrec analytics_rounds :: "'r analytics \<Rightarrow> (rat \<times> int) list \<Rightarrow> ('r, unit) anact" where
  "analytics_rounds sv [] = mret ()"
| "analytics_rounds sv (t # ts) =
     mseq (mput (\<lambda>w. w\<lparr>an_clock := fst t, w_now := snd t\<rparr>)) (mseq (mlogged (analytics_tick sv)) (analytics_rounds sv ts))"

end
