(* ===== verification/AnalyticsProperties.thy ===== *)
theory AnalyticsProperties
  imports AnalyticsService Demo
begin

text \<open>
  What the analytics service promises: indicators within their bounds whatever the candles, no figure of a
  book whose updates have a gap, the price of the last trade in the next snapshot, and no key but its own.
\<close>

section \<open>Compensated sums\<close>

lemma fl_error: "\<bar>fl x - x\<bar> \<le> \<bar>x\<bar> / 2 ^ 53"
  using round_sig_error [of 2 53 x] by (simp add: fl_def)

lemma fl_twice: "\<bar>fl x\<bar> \<le> 2 * \<bar>x\<bar>"
proof -
  have "\<bar>x\<bar> / 2 ^ 53 \<le> \<bar>x\<bar>" by simp
  then show ?thesis using fl_error [of x] by linarith
qed

lemma fl_half: "0 \<le> x \<Longrightarrow> x \<le> 2 * fl x"
proof -
  assume x: "0 \<le> x"
  then have "\<bar>x\<bar> / 2 ^ 53 \<le> x / 2" by simp
  then show ?thesis using fl_error [of x] by linarith
qed

text \<open>The rounding error of one addition, as the sum computes it.\<close>

lemma sum_error:
  assumes "0 \<le> a" "0 \<le> b" "fl a = a" "t = fl (b + a)"
  shows "\<bar>fl (fl (a - t) + b)\<bar> \<le> t / 2 ^ 50"
proof -
  have t: "a \<le> t" using fl.sum_ge [OF assms(3,2)] by (simp add: assms(4) add.commute)
  have ab: "b + a \<le> 2 * t" using fl_half [of "b + a"] assms by simp
  have "\<bar>t - (b + a)\<bar> \<le> (b + a) / 2 ^ 53" using fl_error [of "b + a"] assms by simp
  also have "\<dots> \<le> 2 * t / 2 ^ 53" using ab by (intro divide_right_mono) simp_all
  finally have 1: "\<bar>t - (b + a)\<bar> \<le> 2 * t / 2 ^ 53" .
  have "\<bar>fl (a - t) - (a - t)\<bar> \<le> \<bar>a - t\<bar> / 2 ^ 53" by (rule fl_error)
  also have "\<dots> \<le> t / 2 ^ 53" using t assms(1) by (intro divide_right_mono) simp_all
  finally have 2: "\<bar>fl (a - t) - (a - t)\<bar> \<le> t / 2 ^ 53" .
  have "\<bar>fl (a - t) + b\<bar> \<le> 3 * t / 2 ^ 53" using 1 2 by linarith
  then have "\<bar>fl (fl (a - t) + b)\<bar> \<le> 2 * (3 * t / 2 ^ 53)" 
    by (intro order_trans [OF fl_twice] mult_left_mono) simp_all
  then show ?thesis using t assms(1) by simp
qed

text \<open>After \<open>k\<close> additions of floats that are not negative, the error stays below the sum.\<close>

definition sum_ok :: "nat \<Rightarrow> rat \<times> rat \<Rightarrow> bool" where
  "sum_ok k sc = (case sc of (s, c) \<Rightarrow> 0 \<le> s \<and> fl s = s \<and> \<bar>c\<bar> \<le> of_nat k / 2 ^ 49 * s)"

lemma sum_step_ok:
  assumes "sum_ok k (s, c)" "0 \<le> x" "fl x = x" "Suc k \<le> 2 ^ 49"
  shows "sum_ok (Suc k) (sum_step x (s, c))"
proof -
  define t where "t = fl (s + x)"
  define e where "e = (if \<bar>s\<bar> \<ge> \<bar>x\<bar> then fl (fl (s - t) + x) else fl (fl (x - t) + s))"
  have s: "0 \<le> s" "fl s = s" "\<bar>c\<bar> \<le> of_nat k / 2 ^ 49 * s" using assms(1) by (simp_all add: sum_ok_def)
  have st: "s \<le> t" using fl.sum_ge [OF s(2) assms(2)] by (simp add: t_def)
  have "\<bar>e\<bar> \<le> t / 2 ^ 50"
    using sum_error [of s x t] sum_error [of x s t] s assms(2,3) by (auto simp: e_def t_def add.commute)
  moreover have k: "of_nat k / 2 ^ 49 \<le> (1 :: rat)"
    using assms(4) by (simp add: divide_le_eq)
  have "\<bar>c\<bar> \<le> of_nat k / 2 ^ 49 * t"
    using s(3) mult_left_mono [OF st, of "of_nat k / 2 ^ 49"] by simp
  moreover have kt: "of_nat k / 2 ^ 49 * t \<le> t" using mult_right_mono [OF k, of t] s(1) st by simp
  ultimately have ce: "\<bar>c + e\<bar> \<le> of_nat k / 2 ^ 49 * t + t / 2 ^ 50" by linarith
  have "\<bar>fl (c + e)\<bar> \<le> \<bar>c + e\<bar> + \<bar>c + e\<bar> / 2 ^ 53" using fl_error [of "c + e"] by linarith
  moreover have "\<bar>c + e\<bar> \<le> 2 * t" using ce kt s(1) st by simp
  then have "\<bar>c + e\<bar> / 2 ^ 53 \<le> t / 2 ^ 52" by simp
  ultimately have "\<bar>fl (c + e)\<bar> \<le> of_nat k / 2 ^ 49 * t + t / 2 ^ 50 + t / 2 ^ 52" using ce by linarith
  also have "\<dots> \<le> of_nat k / 2 ^ 49 * t + t / 2 ^ 49" using s(1) st by simp
  also have "\<dots> = of_nat (Suc k) / 2 ^ 49 * t" by (simp add: field_simps)
  finally have "\<bar>fl (c + e)\<bar> \<le> of_nat (Suc k) / 2 ^ 49 * t" .
  moreover have "sum_step x (s, c) = (t, fl (c + e))" by (simp add: sum_step_def Let_def t_def e_def)
  ultimately show ?thesis using s(1) st by (simp add: sum_ok_def t_def fl.idem)
qed

definition float_nonneg :: "rat \<Rightarrow> bool" where
  "float_nonneg x = (0 \<le> x \<and> fl x = x)"

lemma fold_sum_ok:
  assumes "sum_ok k sc" "list_all float_nonneg xs" "k + length xs \<le> 2 ^ 49"
  shows "sum_ok (k + length xs) (fold sum_step xs sc)"
  using assms
proof (induction xs arbitrary: k sc)
  case (Cons x xs)
  have "sum_ok (Suc k) (sum_step x sc)"
    using Cons.prems sum_step_ok [of k "fst sc" "snd sc" x] by (simp add: float_nonneg_def)
  then show ?case using Cons.IH [of "Suc k" "sum_step x sc"] Cons.prems by simp
qed simp

lemma py_sum_nonneg:
  assumes "list_all float_nonneg xs" "length xs \<le> 2 ^ 49"
  shows "0 \<le> py_sum xs"
proof (cases xs)
  case (Cons x ys)
  have len: "length ys \<le> 2 ^ 49" using assms(2) Cons by simp
  have "sum_ok 0 (x, 0)" using assms(1) Cons by (simp add: sum_ok_def float_nonneg_def)
  then have "sum_ok (length ys) (fold sum_step ys (x, 0))"
    using fold_sum_ok [of 0 "(x, 0)" ys] assms(1) Cons len by simp
  moreover obtain s c where sc: "fold sum_step ys (x, 0) = (s, c)" by fastforce
  ultimately have s: "0 \<le> s" "\<bar>c\<bar> \<le> of_nat (length ys) / 2 ^ 49 * s" by (simp_all add: sum_ok_def)
  have "of_nat (length ys) / 2 ^ 49 \<le> (1 :: rat)"
    using len by (simp add: divide_le_eq)
  then have "of_nat (length ys) / 2 ^ 49 * s \<le> s" using mult_right_mono [OF _ s(1)] by fastforce
  then have "0 \<le> s + c" using s by linarith
  then show ?thesis using s(1) by (simp add: py_sum_def Cons sc fl.nonneg)
qed (simp add: py_sum_def)

lemma mean_nonneg: "list_all float_nonneg xs \<Longrightarrow> length xs \<le> 2 ^ 49 \<Longrightarrow> 0 \<le> mean_of n xs"
  by (simp add: mean_of_def fl.nonneg py_sum_nonneg)

lemma mean_float [simp]: "fl (mean_of n xs) = mean_of n xs"
  by (simp add: mean_of_def fl.idem)

section \<open>Square roots\<close>

lemma isqrt_spec: "0 \<le> n \<Longrightarrow> 0 \<le> isqrt n \<and> isqrt n * isqrt n \<le> n \<and> n < (isqrt n + 1) * (isqrt n + 1)"
proof (induction n rule: isqrt.induct)
  case (1 n)
  show ?case
  proof (cases "n \<le> 0")
    case False
    define r where "r = isqrt (n div 4)"
    have ih: "0 \<le> r" "r * r \<le> n div 4" "n div 4 < (r + 1) * (r + 1)"
      using 1 False by (simp_all add: r_def)
    have n: "isqrt n = (if (2 * r + 1) * (2 * r + 1) \<le> n then 2 * r + 1 else 2 * r)"
      using False by (subst isqrt.simps) (simp add: Let_def r_def)
    have "4 * (n div 4) \<le> n" "n < 4 * (n div 4) + 4" by simp_all
    moreover have "4 * (n div 4) + 4 \<le> 4 * ((r + 1) * (r + 1))" using ih(3) by linarith
    ultimately have "n < 4 * ((r + 1) * (r + 1))" "4 * (r * r) \<le> n" using ih(2) by linarith+
    then show ?thesis using ih(1) by (simp add: n algebra_simps)
  qed (use 1 in \<open>simp add: isqrt.simps\<close>)
qed

lemma fsqrt_nonneg: "0 \<le> fsqrt x"
  using isqrt_spec [of "\<lfloor>x * 4 ^ sqrt_scale x\<rfloor>"]
  by (auto simp: fsqrt_def Let_def intro!: fl.nonneg)

section \<open>Candles\<close>

type_synonym bar = "string \<times> string \<times> string \<times> string"

text \<open>High, low, close and volume of each bar.\<close>

fun run_bars :: "bar list \<Rightarrow> indicator_engine \<Rightarrow> exn + indicator_engine" where
  "run_bars [] e = Inr e"
| "run_bars ((h, l, c, v) # bars) e = ebind (on_kline_close h l c v e) (run_bars bars)"

fun readable :: "bar \<Rightarrow> bool" where
  "readable (h, l, c, v) = list_all (\<lambda>t. the_ok (py_float (JStr t)) \<noteq> None) [h, l, c, v]"

definition engine_ok :: "nat \<Rightarrow> indicator_engine \<Rightarrow> bool" where
  "engine_ok n e =
     (length (ie_closes e) = min n MAX_HISTORY \<and> list_all (\<lambda>x. fl x = x) (ie_closes e) \<and>
      (ie_prev_close e = None) = (n = 0) \<and>
      (case (ie_rsi_avg_gain e, ie_rsi_avg_loss e) of
         (None, None) \<Rightarrow> n \<le> RSI_PERIOD
       | (Some g, Some l) \<Rightarrow> RSI_PERIOD < n \<and> float_nonneg g \<and> float_nonneg l
       | _ \<Rightarrow> False))"

lemma push_length: "length (push n x q) = min n (Suc (length q))"
  by (simp add: push_def Let_def)

lemma set_push: "set (push n x q) \<subseteq> insert x (set q)"
  using set_drop_subset [of "length (q @ [x]) - n" "q @ [x]"] by (simp add: push_def Let_def del: drop_append)

lemma list_all_push: "list_all P q \<Longrightarrow> P x \<Longrightarrow> list_all P (push n x q)"
  using set_push [of n x q] by (auto simp: list_all_iff)

lemma max_float: "fl x = x \<Longrightarrow> float_nonneg (max 0 x)"
  by (simp add: float_nonneg_def max_def fl.zero)

lemma gains_nonneg: "list_all float_nonneg (gains cs)"
  by (induction cs rule: gains.induct) (simp_all add: max_float fl.idem)

lemma losses_nonneg: "list_all float_nonneg (losses cs)"
  by (induction cs rule: losses.induct) (simp_all add: max_float fl.idem)

lemma length_gains: "length (gains cs) \<le> length cs"
  by (induction cs rule: gains.induct) simp_all

lemma length_losses: "length (losses cs) \<le> length cs"
  by (induction cs rule: losses.induct) simp_all

lemma smoothed_nonneg: "float_nonneg a \<Longrightarrow> 0 \<le> x \<Longrightarrow> float_nonneg (smoothed n a x)"
  by (auto simp: float_nonneg_def smoothed_def fl.idem intro!: fl.nonneg divide_nonneg_nonneg add_nonneg_nonneg)

lemma py_float_rounded: "py_float (JStr t) = Inr x \<Longrightarrow> fl x = x"
  by (auto simp: fl.idem split: option.splits)

lemma update_rsi_ok:
  assumes "engine_ok n e" "ie_closes e' = push MAX_HISTORY c (ie_closes e)" "fl c = c"
    "ie_prev_close e' = ie_prev_close e" "ie_rsi_avg_gain e' = ie_rsi_avg_gain e" "ie_rsi_avg_loss e' = ie_rsi_avg_loss e"
  shows "\<exists>e2. update_rsi c e' = Inr e2 \<and> ie_closes e2 = ie_closes e' \<and> engine_ok (Suc n) (e2\<lparr>ie_prev_close := Some c\<rparr>)"
proof -
  have len: "length (ie_closes e') = min (Suc n) MAX_HISTORY"
    using assms(1,2) by (auto simp: engine_ok_def push_length)
  have fls: "list_all (\<lambda>x. fl x = x) (ie_closes e')"
    using assms(1-3) by (simp add: engine_ok_def list_all_push)
  have few: "length (ie_closes e') \<le> 2 ^ 49" using len by (simp add: MAX_HISTORY_def)
  show ?thesis
  proof (cases "ie_prev_close e")
    case None
    then show ?thesis using assms len fls by (auto simp: update_rsi_def engine_ok_def RSI_PERIOD_def split: option.splits)
  next
    case (Some prev)
    show ?thesis
    proof (cases "ie_rsi_avg_gain e")
      case None
      then have n: "ie_rsi_avg_loss e = None" "n \<le> RSI_PERIOD"
        using assms(1) by (auto simp: engine_ok_def split: option.splits)
      have means: "float_nonneg (mean_of k (gains (ie_closes e')))" "float_nonneg (mean_of k (losses (ie_closes e')))" for k
        using gains_nonneg [of "ie_closes e'"] losses_nonneg [of "ie_closes e'"] few
          length_gains [of "ie_closes e'"] length_losses [of "ie_closes e'"]
        by (simp_all add: float_nonneg_def mean_nonneg)
      show ?thesis
        using assms(4-6) len fls n None Some means
        by (auto simp: update_rsi_def Let_def engine_ok_def RSI_PERIOD_def MAX_HISTORY_def)
    next
      case (Some g)
      then obtain l where l: "ie_rsi_avg_loss e = Some l" "RSI_PERIOD < n" "float_nonneg g" "float_nonneg l"
        using assms(1) by (auto simp: engine_ok_def split: option.splits)
      show ?thesis
        using assms(4-6) len fls l Some \<open>ie_prev_close e = Some prev\<close>
        by (auto simp: update_rsi_def Let_def engine_ok_def smoothed_nonneg)
    qed
  qed
qed

lemma atr_fields [simp]:
  "ie_closes (update_atr h l e) = ie_closes e" "ie_prev_close (update_atr h l e) = ie_prev_close e"
  "ie_rsi_avg_gain (update_atr h l e) = ie_rsi_avg_gain e" "ie_rsi_avg_loss (update_atr h l e) = ie_rsi_avg_loss e"
  by (simp_all add: update_atr_def Let_def)

lemma vwap_fields [simp]:
  "ie_closes (update_vwap h l c v e) = ie_closes e" "ie_prev_close (update_vwap h l c v e) = ie_prev_close e"
  "ie_rsi_avg_gain (update_vwap h l c v e) = ie_rsi_avg_gain e" "ie_rsi_avg_loss (update_vwap h l c v e) = ie_rsi_avg_loss e"
  by (simp_all add: update_vwap_def Let_def)

lemma engine_ok_cong:
  assumes "engine_ok n e" "ie_closes e' = ie_closes e" "ie_prev_close e' = ie_prev_close e"
    "ie_rsi_avg_gain e' = ie_rsi_avg_gain e" "ie_rsi_avg_loss e' = ie_rsi_avg_loss e"
  shows "engine_ok n e'"
  using assms(1) unfolding engine_ok_def assms(2-5) .

lemma take_bar_ok:
  assumes "engine_ok n e" "fl c = c"
  shows "\<exists>e'. take_bar c h lo v e = Inr e' \<and> engine_ok (Suc n) e'"
proof -
  define e1 where "e1 = update_emas c (e\<lparr>ie_closes := push MAX_HISTORY c (ie_closes e), ie_highs := push MAX_HISTORY h (ie_highs e),
                 ie_lows := push MAX_HISTORY lo (ie_lows e), ie_volumes := push MAX_HISTORY v (ie_volumes e)\<rparr>)"
  have "ie_closes e1 = push MAX_HISTORY c (ie_closes e)" "ie_prev_close e1 = ie_prev_close e"
    "ie_rsi_avg_gain e1 = ie_rsi_avg_gain e" "ie_rsi_avg_loss e1 = ie_rsi_avg_loss e"
    by (simp_all add: e1_def update_emas_def)
  from update_rsi_ok [OF assms(1) this(1) assms(2) this(2-4)]
  obtain e2 where "update_rsi c e1 = Inr e2" "engine_ok (Suc n) (e2\<lparr>ie_prev_close := Some c\<rparr>)" by blast
  then show ?thesis
    by (auto simp: take_bar_def Let_def simp flip: e1_def elim!: engine_ok_cong)
qed

lemma on_kline_close_ok:
  assumes "engine_ok n e"
  shows "\<exists>e'. on_kline_close h l c v e = Inr e' \<and> engine_ok (if readable (h, l, c, v) then Suc n else n) e'"
proof (cases "readable (h, l, c, v)")
  case True
  then obtain c' h' l' v' where r: "py_float (JStr c) = Inr c'" "py_float (JStr h) = Inr h'" "py_float (JStr l) = Inr l'"
    "py_float (JStr v) = Inr v'"
    by (auto simp: the_ok_def simp del: py_float.simps split: sum.splits)
  have "fl c' = c'" using py_float_rounded [OF r(1)] .
  from take_bar_ok [OF assms this, of h' l' v'] show ?thesis using True by (simp add: on_kline_close_def r del: py_float.simps)
next
  case False
  then have "on_kline_close h l c v e = Inr e"
    by (auto simp: on_kline_close_def simp del: py_float.simps split: option.splits)
  then show ?thesis using False assms by (simp del: readable.simps)
qed

lemma run_bars_ok:
  "engine_ok n e \<Longrightarrow> \<exists>e'. run_bars bars e = Inr e' \<and> engine_ok (n + length (filter readable bars)) e'"
proof (induction bars arbitrary: n e)
  case (Cons b bars)
  obtain h l c v where b: "b = (h, l, c, v)" by (cases b)
  obtain e1 where e1: "on_kline_close h l c v e = Inr e1" "engine_ok (if readable b then Suc n else n) e1"
    using on_kline_close_ok [OF Cons.prems, of h l c v] by (auto simp: b)
  show ?case using Cons.IH [OF e1(2)] by (auto simp: b e1(1) simp del: readable.simps)
qed simp

lemma rsi_bounds:
  assumes "float_nonneg g" "float_nonneg l"
  shows "0 \<le> fl (100 - fl (100 / fl (1 + fl (g / l)))) \<and> fl (100 - fl (100 / fl (1 + fl (g / l)))) \<le> 100"
proof -
  have h: "fl 100 = 100" using fl_of_int [of 100] by simp
  have "0 \<le> fl (g / l)" using assms by (simp add: float_nonneg_def fl.nonneg)
  then have one: "1 \<le> fl (1 + fl (g / l))" using fl.sum_ge [OF fl.one] by simp
  then have "0 \<le> 100 / fl (1 + fl (g / l))" "100 / fl (1 + fl (g / l)) \<le> 100" by (simp_all add: divide_le_eq)
  from fl.between [OF fl.zero h this] have "0 \<le> 100 - fl (100 / fl (1 + fl (g / l)))" "100 - fl (100 / fl (1 + fl (g / l))) \<le> 100"
    by simp_all
  from fl.between [OF fl.zero h this] show ?thesis by simp
qed

lemma bands_ordered:
  assumes "bollinger cs = Some (u, m, l, w)"
  shows "l \<le> m \<and> m \<le> u"
proof -
  define d where "d = fl (2 * fsqrt (mean_of BB_PERIOD (map (\<lambda>x. square (fl (x - m))) (last_n BB_PERIOD cs))))"
  have "m = mean_of BB_PERIOD (last_n BB_PERIOD cs)" "u = fl (m + d)" "l = fl (m - d)"
    using assms by (auto simp: bollinger_def Let_def d_def split: if_splits)
  moreover have "0 \<le> d" by (simp add: d_def fl.nonneg fsqrt_nonneg)
  ultimately show ?thesis using fl.mono [of "m - d" m] fl.mono [of m "m + d"] by simp
qed


section \<open>What an event leaves of a symbol\<close>

text \<open>
  A relation between the states of a symbol that the fields an event sets, and the updates of a book, keep is
  kept by every handler but that of a new book; if a new book keeps it too, by every handler.
\<close>

locale keeping = frame R for R :: "symbol_state \<Rightarrow> symbol_state \<Rightarrow> bool" +
  assumes price: "R s (s\<lparr>sy_last_price := p\<rparr>)"
    and flow: "R s (s\<lparr>sy_flow := f, sy_rvol := r\<rparr>)"
    and ticker: "R s (s\<lparr>sy_last_book_ticker := d\<rparr>)"
    and mark: "R s (s\<lparr>sy_last_mark := d\<rparr>)"
    and book: "R s (s\<lparr>sy_last_book := b\<rparr>)"
    and walls: "R s (s\<lparr>sy_walls := wd, sy_last_walls_result := wr\<rparr>)"
    and liquidations: "R s (s\<lparr>sy_liquidations := l\<rparr>)"
    and indicators: "R s (s\<lparr>sy_indicators := ie\<rparr>)"
    and noted: "R s (s\<lparr>sy_last_update_ms := t, sy_event_timestamps := ts\<rparr>)"
    and delta: "on_delta U u t (sy_integrity s) = (ok, i) \<Longrightarrow> R s (s\<lparr>sy_integrity := i\<rparr>)"
begin

lemma put: "(\<And>s. R s (f s)) \<Longrightarrow> moves R (mput f)"
  by (simp add: moves_def mput_def)

lemma priced: "R s (set_price p s)"
  by (simp add: set_price_def price refl)

lemma traded: "R s (on_trade d ts s)"
  unfolding on_trade_def Let_def by (auto intro: trans [OF flow priced] flow split: option.split)

lemma quoted: "R s (on_book_ticker d s)"
  unfolding on_book_ticker_def Let_def by (auto intro: trans [OF ticker priced] ticker split: option.split)

lemma marked: "R s (on_mark_price d s)"
  unfolding on_mark_price_def Let_def by (auto intro: trans [OF mark priced] mark split: option.split)

lemma walled: "moves R (update_walls env bids asks price ts)"
  by (auto simp: moves_def update_walls_def walls split: prod.splits sum.splits)

lemma refreshed: "moves R (refresh_walls env ts)"
  unfolding refresh_walls_def
  by (intro rules) (simp add: ret bind lift walled split: option.split)

lemma from_book: "moves R (price_from_book b)"
  unfolding price_from_book_def
  by (intro rules) (auto simp: ret intro!: whens put price split: option.split)

lemma book_delta: "moves R (on_orderbook_delta env d b ts)"
proof -
  have step: "moves R (mbind (mget (\<lambda>s. on_delta U u ts (sy_integrity s))) (\<lambda>(valid, i).
      mseq (mput (\<lambda>s. s\<lparr>sy_integrity := i\<rparr>)) (k valid)))" if "\<And>valid. moves R (k valid)" for U u k
  proof (rule movesI)
    fix s r s'
    assume run: "mbind (mget (\<lambda>s. on_delta U u ts (sy_integrity s))) (\<lambda>(valid, i).
      mseq (mput (\<lambda>s. s\<lparr>sy_integrity := i\<rparr>)) (k valid)) s = (r, s')"
    obtain valid i where d: "on_delta U u ts (sy_integrity s) = (valid, i)" by fastforce
    have "k valid (s\<lparr>sy_integrity := i\<rparr>) = (r, s')"
      using run by (simp add: d mbind_def mget_def mseq_def mput_def)
    then show "R s s'" using movesD [OF that] delta [OF d] trans by blast
  qed
  show ?thesis
    unfolding on_orderbook_delta_def
    by (intro bind lift step whens seq put book refreshed)
qed

lemma candle: "moves R (on_kline env d)"
  unfolding on_kline_def Let_def by (auto intro!: rules put indicators)

lemma noting: "R s (note_event ev s)"
  by (simp add: note_event_def noted)

lemma handled: "ne_event_type ev \<noteq> ORDERBOOK_SNAPSHOT \<Longrightarrow> moves R (handle_by_type env ev b)"
  unfolding handle_by_type_def Let_def
  by (cases "ne_event_type ev")
    (auto intro!: put traded quoted marked book_delta candle ret simp: on_liquidation_event_def liquidations)

lemma updated: "ne_event_type ev \<noteq> ORDERBOOK_SNAPSHOT \<Longrightarrow> moves R (update_symbol env ev b)"
  unfolding update_symbol_def by (intro seq put noting handled)

end

locale keeping_all = keeping +
  assumes fresh: "R s (s\<lparr>sy_integrity := on_snapshot n t (sy_integrity s)\<rparr>)"
begin

lemma book_snapshot: "moves R (on_orderbook_snapshot env d b ts)"
  unfolding on_orderbook_snapshot_def by (intro rules put fresh book refreshed from_book)

lemma updated_always: "moves R (update_symbol env ev b)"
proof (cases "ne_event_type ev = ORDERBOOK_SNAPSHOT")
  case True
  then show ?thesis
    by (simp add: update_symbol_def handle_by_type_def Let_def seq put noting book_snapshot)
qed (rule updated)

end

text \<open>The symbol and its market stay; a book that is broken stays broken until there is a new one.\<close>

definition same_symbol :: "symbol_state \<Rightarrow> symbol_state \<Rightarrow> bool" where
  "same_symbol s s' = (sy_symbol s' = sy_symbol s \<and> sy_market_type s' = sy_market_type s)"

definition stays_broken :: "symbol_state \<Rightarrow> symbol_state \<Rightarrow> bool" where
  "stays_broken s s' = (bi_is_valid (sy_integrity s') \<longrightarrow> bi_is_valid (sy_integrity s))"

lemma delta_stays_broken: "on_delta U u t i = (ok, i') \<Longrightarrow> bi_is_valid i' \<Longrightarrow> bi_is_valid i"
  by (auto simp: on_delta_def Let_def skip_delta_def split: if_splits)

interpretation same_symbol: keeping_all same_symbol
  by unfold_locales (auto simp: same_symbol_def)

interpretation stays_broken: keeping stays_broken
  by unfold_locales (auto simp: stays_broken_def dest: delta_stays_broken)

section \<open>The store\<close>

definition store_ok :: "state_store \<Rightarrow> bool" where
  "store_ok st = list_all (\<lambda>((symbol, mt), s). sy_symbol s = symbol \<and> sy_market_type s = mt) st"

definition key_of :: "normalized_event \<Rightarrow> state_key" where
  "key_of ev = (ne_symbol ev, market_type_value (ne_market_type ev))"

lemma dispatch_store:
  assumes "dispatch_event env p ev b st = (r, st')"
  shows "store_get p symbol mt st' =
    (if key_of ev = (symbol, mt) then snd (update_symbol env ev b (store_get p symbol mt st)) else store_get p symbol mt st)"
  using assms by (auto simp: dispatch_event_def Let_def store_get_def key_of_def split: prod.splits)

lemma dispatch_result:
  "dispatch_event env p ev b st = (r, st') \<Longrightarrow>
   r = fst (update_symbol env ev b (store_get p (ne_symbol ev) (market_type_value (ne_market_type ev)) st))"
  by (auto simp: dispatch_event_def Let_def split: prod.splits)

lemma store_get_ok: "store_ok st \<Longrightarrow> sy_symbol (store_get p symbol mt st) = symbol \<and> sy_market_type (store_get p symbol mt st) = mt"
  by (auto simp: store_ok_def store_get_def new_symbol_state_def list_all_iff dest!: map_of_SomeD split: option.split)

text \<open>A series of events, each with the book that Redis had; an exception ends only its event.\<close>

definition dispatch_all :: "env \<Rightarrow> state_params \<Rightarrow> (normalized_event \<times> json) list \<Rightarrow> state_store \<Rightarrow> state_store" where
  "dispatch_all env p evs st = fold (\<lambda>(ev, b) st. snd (dispatch_event env p ev b st)) evs st"

lemma dispatch_all_broken:
  assumes "\<forall>(ev, b) \<in> set evs. ne_event_type ev \<noteq> ORDERBOOK_SNAPSHOT \<or> key_of ev \<noteq> (symbol, mt)"
  shows "stays_broken (store_get p symbol mt st) (store_get p symbol mt (dispatch_all env p evs st))"
  using assms
proof (induction evs arbitrary: st)
  case Nil
  then show ?case by (simp add: dispatch_all_def stays_broken_def)
next
  case (Cons e evs)
  obtain ev b where e: "e = (ev, b)" by (cases e)
  obtain r st1 where st1: "dispatch_event env p ev b st = (r, st1)" by fastforce
  have "stays_broken (store_get p symbol mt st) (store_get p symbol mt st1)"
    using Cons.prems stays_broken.updated [of ev env b]
    by (auto simp: dispatch_store [OF st1] e moves_def stays_broken.refl)
  moreover have "stays_broken (store_get p symbol mt st1) (store_get p symbol mt (dispatch_all env p evs st1))"
    using Cons by simp
  ultimately show ?case by (auto simp: dispatch_all_def e st1 intro: stays_broken.trans)
qed

section \<open>Sections of the snapshot\<close>

lemma quote_keeps: "quote env bid ask bs as sr m = Inr m' \<Longrightarrow> ma_price m' = ma_price m"
  by (auto simp: quote_def ebind_Inr)

lemma ticker_keeps: "ticker_quote env bt m = Inr m' \<Longrightarrow> ma_price m' = ma_price m"
  unfolding ticker_quote_def Let_def by (rule quote_keeps)

lemma book_keeps: "book_quote env bk m = Inr m' \<Longrightarrow> ma_price m' = ma_price m"
  by (auto simp: book_quote_def ebind_Inr split: option.splits dest: quote_keeps)

lemma market_price:
  assumes "build_market_state env s = Inr m"
  shows "opt_to_dec env (sy_last_price s) = Inr (ma_price m)"
proof -
  obtain price where price: "opt_to_dec env (sy_last_price s) = Inr price"
    using assms by (auto simp: build_market_state_def ebind_Inr)
  have "ma_price m = price"
    using assms
    by (cases "sy_last_book_ticker s"; cases "the (sy_last_book_ticker s)")
      (auto simp: build_market_state_def price Let_def dest!: ticker_keeps book_keeps split: if_splits)
  then show ?thesis by (simp add: price)
qed

lemma sections_price:
  "build_sections env s account now = Inr sn \<Longrightarrow> opt_to_dec env (sy_last_price s) = Inr (ma_price (sn_market_state sn))"
  by (auto simp: build_sections_def ebind_Inr dest!: market_price)

lemma sections_meta: "build_sections env s account now = Inr sn \<Longrightarrow> sn_meta sn = build_meta s account now"
  by (auto simp: build_sections_def ebind_Inr default_snapshot_def)

lemma sections_book:
  "build_sections env s account now = Inr sn \<Longrightarrow> \<not> bi_is_valid (sy_integrity s) \<Longrightarrow> sn_book_state sn = default_book_state"
  by (auto simp: build_sections_def ebind_Inr)

text \<open>An update with a gap breaks the book.\<close>

lemma gap_breaks:
  assumes "ne_event_type ev = ORDERBOOK_DELTA" "py_int (dict_get ''first_update_id'' (JInt 0) (ne_data ev)) = Inr U"
    "py_int (dict_get ''last_update_id'' (JInt 0) (ne_data ev)) = Inr u" "bi_has_snapshot (sy_integrity s)"
    "bi_last_update_id (sy_integrity s) < u" "bi_last_update_id (sy_integrity s) + 1 < U"
  shows "\<not> bi_is_valid (sy_integrity (snd (update_symbol env ev b s)))"
proof -
  obtain i where i: "on_delta U u (ne_timestamp_ms ev) (sy_integrity s) = (False, i)" "\<not> bi_is_valid i"
    using assms(4-6) by (auto simp: on_delta_def Let_def skip_delta_def)
  have "sy_integrity (note_event ev s) = sy_integrity s" by (simp add: note_event_def)
  then have "update_symbol env ev b s = (Inr (), (note_event ev s)\<lparr>sy_integrity := i\<rparr>)"
    using assms(1-3) i(1)
    by (simp add: update_symbol_def handle_by_type_def Let_def on_orderbook_delta_def prog_defs)
  then show ?thesis using i(2) by simp
qed

text \<open>
  C34: Once an update of an order book has skipped over update ids, no snapshot of that symbol shows a figure of
  its book (imbalance, depth, walls) until a new book arrives, whatever else arrives for it or for others.
\<close>

theorem gapped_book_is_not_used:
  assumes "ne_event_type ev = ORDERBOOK_DELTA" "key_of ev = (symbol, mt)"
    "py_int (dict_get ''first_update_id'' (JInt 0) (ne_data ev)) = Inr U"
    "py_int (dict_get ''last_update_id'' (JInt 0) (ne_data ev)) = Inr u"
    "bi_has_snapshot (sy_integrity (store_get p symbol mt st))"
    "bi_last_update_id (sy_integrity (store_get p symbol mt st)) < u"
    "bi_last_update_id (sy_integrity (store_get p symbol mt st)) + 1 < U"
    and later: "\<forall>(e, b) \<in> set later. ne_event_type e \<noteq> ORDERBOOK_SNAPSHOT \<or> key_of e \<noteq> (symbol, mt)"
    and built: "build_sections env (store_get p symbol mt (dispatch_all env p ((ev, b) # later) st)) account now = Inr sn"
  shows "sn_book_state sn = default_book_state"
proof -
  obtain r st1 where st1: "dispatch_event env p ev b st = (r, st1)" by fastforce
  have "\<not> bi_is_valid (sy_integrity (store_get p symbol mt st1))"
    using gap_breaks [OF assms(1,3,4,5-7)] assms(2) by (simp add: dispatch_store [OF st1])
  then have "\<not> bi_is_valid (sy_integrity (store_get p symbol mt (dispatch_all env p later st1)))"
    using dispatch_all_broken [OF later] unfolding stays_broken_def by blast
  then show ?thesis using sections_book [OF built] by (simp add: dispatch_all_def st1)
qed

text \<open>The price of a trade.\<close>

lemma map_of_ages: "map_of (map (\<lambda>(k, v). (k, now - v)) ts) k = map_option (\<lambda>v. now - v) (map_of ts k)" for now :: int
  by (induction ts) auto

lemma trade_updates:
  assumes "ne_event_type ev = TRADE" "py_float (dict_get ''price'' (JStr []) (ne_data ev)) = Inr x" "0 < x"
    "update_symbol env ev b s = (r, s')"
  shows "r = Inr () \<and> sy_last_price s' = Some x \<and> map_of (sy_event_timestamps s') ''trade'' = Some (ne_timestamp_ms ev)"
proof -
  have "s' = on_trade (ne_data ev) (ne_timestamp_ms ev) (note_event ev s)" "r = Inr ()"
    using assms(1,4) by (auto simp: update_symbol_def handle_by_type_def prog_defs)
  then show ?thesis
    using assms(1-3) by (simp add: on_trade_def Let_def set_price_def note_event_def)
qed

text \<open>
  C33: The price of a trade that the exchange sends is the price of the next snapshot of its symbol: the
  normalizer puts it in the event, and the snapshot built after the event shows it as a Decimal, under the symbol
  and market of the trade, with the age of the trade.
\<close>

theorem trade_price_reaches_snapshot:
  assumes "handle_trade raw = Inr res" "py_float (dict_get ''p'' (JStr ''0'') (rw_payload raw)) = Inr x" "0 < x" "store_ok st"
    "dispatch_event env p (hr_event res) b st = (r, st')"
    "build_sections env (store_get p (ne_symbol (hr_event res)) (mtype raw) st') account now = Inr sn"
  shows "r = Inr () \<and> to_dec env (JNum x) = Inr (ma_price (sn_market_state sn)) \<and>
    me_symbol (sn_meta sn) = ne_symbol (hr_event res) \<and> me_market_type (sn_meta sn) = rw_market_type raw \<and>
    map_of (me_staleness_ms (sn_meta sn)) ''trade'' = Some (now - ne_timestamp_ms (hr_event res))"
proof -
  let ?ev = "hr_event res"
  have ev: "ne_event_type ?ev = TRADE" "ne_market_type ?ev = rw_market_type raw"
    "dict_get ''price'' (JStr []) (ne_data ?ev) = dict_get ''p'' (JStr ''0'') (rw_payload raw)"
    using assms(1) by (auto simp: handle_trade_def ebind_Inr Let_def result_def normalized_def dict_get_def)
  define s where "s = store_get p (ne_symbol ?ev) (mtype raw) st"
  obtain r1 s1 where s1: "update_symbol env ?ev b s = (r1, s1)" by fastforce
  have key: "key_of ?ev = (ne_symbol ?ev, mtype raw)" by (simp add: key_of_def mtype_def ev(2))
  have st': "store_get p (ne_symbol ?ev) (mtype raw) st' = s1" "r = r1"
    using dispatch_store [OF assms(5), of "ne_symbol ?ev" "mtype raw"] dispatch_result [OF assms(5)] s1
    by (simp_all add: key s_def ev(2) flip: mtype_def)
  have s: "sy_symbol s = ne_symbol ?ev" "sy_market_type s = mtype raw"
    using store_get_ok [OF assms(4)] by (simp_all add: s_def)
  have "same_symbol s s1" using movesD [OF same_symbol.updated_always s1] .
  then have s1': "sy_symbol s1 = ne_symbol ?ev" "sy_market_type s1 = mtype raw" by (simp_all add: same_symbol_def s)
  have price: "py_float (dict_get ''price'' (JStr []) (ne_data ?ev)) = Inr x" using assms(2) by (simp only: ev(3))
  note t = trade_updates [OF ev(1) price assms(3) s1]
  have "market_of s1 = rw_market_type raw" by (cases "rw_market_type raw") (simp_all add: market_of_def s1' mtype_def)
  moreover have "map_of (map (\<lambda>(k, v). (k, now - v)) (sy_event_timestamps s1)) ''trade'' = Some (now - ne_timestamp_ms ?ev)"
    using t by (simp add: map_of_ages)
  ultimately show ?thesis
    using t sections_price [OF assms(6)] sections_meta [OF assms(6)]
    by (simp add: st' build_meta_def s1' opt_to_dec_def opt_json_def)
qed

section \<open>What the service changes\<close>

definition derived_own :: "string \<Rightarrow> bool" where
  "derived_own k = startswith ''analytics:'' k"

definition own_effect :: "effect \<Rightarrow> bool" where
  "own_effect e = (case e of Published s _ \<Rightarrow> s = ANALYTICS_DERIVED | Acked s _ _ \<Rightarrow> s = NORMALIZED | _ \<Rightarrow> False)"

definition only_own ::
  "('r \<Rightarrow> string \<Rightarrow> rtext option) \<Rightarrow> ('r, 'd, 'm) world_scheme \<Rightarrow> ('r, 'd, 'm) world_scheme \<Rightarrow> bool" where
  "only_own live w w' =
     ((\<forall>k. \<not> derived_own k \<longrightarrow> live (w_redis w') k = live (w_redis w) k) \<and> more_trace own_effect w w')"

lemma derived_key_own [simp]: "derived_own (derived_key s part)"
  by (simp add: derived_own_def derived_key_def startswith_def)

lemma derived_writes_own: "list_all (derived_own \<circ> fst) (derived_writes env s d now_ms)"
  by (simp add: derived_writes_def Let_def write_of_def split: option.split prod.split)

lemma indicator_writes_own: "list_all (derived_own \<circ> fst) (indicator_writes s now_ms)"
  by (auto simp: indicator_writes_def list_all_iff List.map_filter_def Let_def write_of_def)

interpretation only_own: frame "only_own live" for live :: "'r \<Rightarrow> string \<Rightarrow> rtext option"
proof
  fix u v w :: "('r, 'd, 'm) world_scheme"
  show "only_own live w w" by (simp add: only_own_def more_trace.refl)
  show "only_own live u v \<Longrightarrow> only_own live v w \<Longrightarrow> only_own live u w"
    by (auto simp: only_own_def intro: more_trace.trans)
qed

lemma only_own_put: "(\<And>w. w_redis (f w) = w_redis w \<and> w_trace (f w) = w_trace w) \<Longrightarrow> moves (only_own live) (mput f)"
  by (simp add: moves_def mput_def only_own_def more_trace_def)

lemma only_own_record: "own_effect e \<Longrightarrow> moves (only_own live) (record_effect e)"
  by (simp add: moves_def mput_def record_effect_def only_own_def more_trace_def)

lemma only_own_redis:
  assumes "\<And>s r s' k. m s = (r, s') \<Longrightarrow> \<not> derived_own k \<Longrightarrow> live s' k = live s k"
  shows "moves (only_own live) (on_redis m)"
  using assms by (auto simp: moves_def only_own_def on_redis_def more_trace_def split: prod.splits)

lemma only_own_states: "moves (only_own live) (on_states m)"
  by (auto simp: moves_def only_own_def on_states_def more_trace_def split: prod.splits)

locale analytics_service = redis "an_ops sv" live
  for sv :: "'r analytics" and live :: "'r \<Rightarrow> string \<Rightarrow> rtext option"
begin

lemma own_writes:
  assumes "list_all (derived_own \<circ> fst) ws"
  shows "moves (only_own live) (send_writes (an_ops sv) ws)"
proof -
  have "live s' k = live s k" if "r_set_all (an_ops sv) ws s = (r, s')" "\<not> derived_own k" for r s s' k
  proof -
    have "k \<notin> fst ` set ws" using assms that(2) by (auto simp: list_all_iff)
    then show ?thesis using set_all_live [OF that(1)] by blast
  qed
  then show ?thesis
    unfolding send_writes_def by (intro only_own.whens only_own_redis)
qed

lemma own_load: "moves (only_own live) (load_state (an_ops sv) parse dflt account k)"
  unfolding load_state_def
  by (auto intro!: only_own.rules only_own_redis dest: get_live)

lemma own_publish: "moves (only_own live) (publish_snapshot sv d)"
  unfolding publish_snapshot_def stream_publish_def
  by (intro only_own.rules only_own_redis only_own_record) (auto dest: xadd_live simp: own_effect_def)

lemma own_publish_one: "moves (only_own live) (publish_one sv now_ms s)"
  unfolding publish_one_def build_snapshot_def load_account_state_def load_risk_state_def write_hot_state_def Let_def
  by (intro only_own.rules own_load own_writes derived_writes_own indicator_writes_own own_publish)

lemma own_ack: "moves (only_own live) (analytics_ack sv msg_id)"
  unfolding analytics_ack_def ack_def
  by (intro only_own.rules only_own_redis only_own_record) (auto dest: xack_live simp: own_effect_def)

lemma own_book: "moves (only_own live) (fetch_current_book sv ev)"
  unfolding fetch_current_book_def by (auto intro!: only_own.rules only_own_redis dest: get_live)

lemma own_process: "moves (only_own live) (analytics_process sv msg_id fs)"
  unfolding analytics_process_def
  by (auto intro!: only_own.rules own_ack own_book only_own_states split: sum.split)

lemma own_tick: "moves (only_own live) (analytics_tick sv)"
  unfolding analytics_tick_def stream_read_group_def publish_all_def Let_def
  by (auto intro!: only_own.rules only_own_redis own_process only_own_put own_publish_one
      dest: xgroup_live xread_live split: prod.split)

lemma own_rounds: "moves (only_own live) (analytics_rounds sv ts)"
  by (induction ts) (auto intro!: only_own.rules only_own_put own_tick)

end

lemma rounds_return: "returns (analytics_rounds sv ts)"
  by (induction ts) (auto intro!: returns)

text \<open>
  C36: However long the analytics service runs, whatever events it reads and whatever Redis does within its laws,
  it goes on, writes no key but those of its own hot state, publishes on no stream but that of the snapshots and
  acknowledges only on that of the normalized events; so it never touches a control.
\<close>

theorem analytics_changes_only_its_own:
  assumes "redis (an_ops sv) live" "analytics_rounds sv ts w = (r, w')"
  shows "r = Inr () \<and> (\<forall>k. \<not> startswith ''analytics:'' k \<longrightarrow> live (w_redis w') k = live (w_redis w) k) \<and>
    (\<exists>es. w_trace w' = w_trace w @ es \<and> list_all own_effect es)"
proof -
  have "analytics_service sv live" using assms(1) by (simp add: analytics_service_def)
  from movesD [OF analytics_service.own_rounds [OF this] assms(2)] show ?thesis
    using returnsD [OF rounds_return, of sv ts w] assms(2) by (auto simp: only_own_def derived_own_def more_trace_def)
qed


section \<open>A run\<close>

text \<open>An environment in which every float is shown as one of two numbers.\<close>

definition demo_show :: "json \<Rightarrow> string" where
  "demo_show j = (if j = JNum 100 then ''100.0'' else ''0.0'')"

definition plain_env :: env where
  "plain_env = demo_env\<lparr>e_show := demo_show\<rparr>"

lemma plain_dec [simp]: "dec_of_str plain_env (JNum x) = Inr (if x = 100 then 100 else 0)"
proof -
  have "dec_literal ''100.0'' = Inr 100" "dec_literal ''0.0'' = Inr 0" by code_simp+
  then show ?thesis by (simp add: dec_of_str_def str_of_def plain_env_def demo_show_def)
qed

lemma plain_sum: "\<exists>y. to_dec plain_env (sum_json xs) = Inr y"
proof -
  have "dec_of_str plain_env (JInt 0) = Inr 0" unfolding dec_of_str_def str_of_def py_str.simps by code_simp
  then show ?thesis by (simp add: to_dec_def sum_json_def)
qed

lemma plain_opt: "\<exists>y. opt_to_dec plain_env x = Inr y"
  by (cases x) (simp_all add: opt_to_dec_def to_dec_def opt_json_def)

lemma plain_flow: "\<exists>f. build_flow_state plain_env s now = Inr f"
proof -
  have o: "\<exists>y. opt_to_dec plain_env x = Inr y" for x by (rule plain_opt)
  obtain bs where bs: "compute_buy_sell_volumes 100 (sy_flow s) = (sum_json (fst bs), sum_json (snd bs))"
    by (simp add: compute_buy_sell_volumes_def Let_def) (metis fst_conv snd_conv)
  obtain a b c where abc: "to_dec plain_env (compute_delta 50 (sy_flow s)) = Inr a" "to_dec plain_env (sum_json (fst bs)) = Inr b"
    "to_dec plain_env (sum_json (snd bs)) = Inr c"
    using plain_sum by (auto simp: compute_delta_def) metis
  obtain d where d: "\<And>x. opt_to_dec plain_env x = Inr (d x)" using o by metis
  show ?thesis
    by (simp add: build_flow_state_def bs abc d Let_def split: option.split prod.split)
qed

text \<open>A symbol that has seen neither a book nor a ticker nor a mark price.\<close>

definition only_trades :: "symbol_state \<Rightarrow> bool" where
  "only_trades s =
     (sy_last_book_ticker s = None \<and> sy_last_book s = JNull \<and> sy_last_mark s = None \<and> sy_last_oi s = None \<and> sy_indicators s = [])"

lemma plain_futures:
  assumes "sy_last_mark s = None" "sy_last_oi s = None"
  shows "\<exists>u. build_futures_state plain_env s now = Inr u"
proof -
  have "\<exists>y. positive_dec plain_env (sum_json xs) = Inr y" for xs
    using plain_sum [of xs] by (simp add: positive_dec_def)
  then obtain e where "\<And>xs. positive_dec plain_env (sum_json xs) = Inr (e xs)" by metis
  then show ?thesis
    using assms by (simp add: build_futures_state_def compute_cluster_totals_def Let_def split: option.split)
qed

lemma plain_sections:
  assumes "only_trades s"
  shows "\<exists>sn. build_sections plain_env s account now = Inr sn"
proof -
  obtain d where d: "\<And>x. opt_to_dec plain_env x = Inr (d x)" using plain_opt by metis
  have "\<exists>m. build_market_state plain_env s = Inr m"
    using assms by (simp add: only_trades_def build_market_state_def d Let_def)
  moreover have "\<exists>f. build_futures_state plain_env s now = Inr f"
    using assms plain_futures by (simp add: only_trades_def)
  ultimately show ?thesis
    using plain_flow [of s now] assms by (auto simp: build_sections_def build_indicators_def only_trades_def)
qed

definition demo_params :: state_params where
  "demo_params = params_of default_analytics_settings"

definition demo_raw_trade :: raw_event where
  "demo_raw_trade =
     \<lparr>rw_market_type = FUTURES, rw_source_stream = ''btcusdt@trade'', rw_received_ms = 7,
      rw_payload = [(''s'', JStr ''BTCUSDT''), (''p'', JStr ''100''), (''q'', JStr ''2''), (''T'', JInt 5)]\<rparr>"

definition demo_trade_event :: normalized_event where
  "demo_trade_event =
     \<lparr>ne_event_type = TRADE, ne_market_type = FUTURES, ne_symbol = ''BTCUSDT'', ne_timestamp_ms = 5, ne_received_ms = 7,
      ne_source_stream = Some ''btcusdt@trade'',
      ne_data = [(''trade_id'', JNull), (''price'', JStr ''100''), (''qty'', JStr ''2''),
                 (''is_buyer_maker'', JBool False), (''trade_time_ms'', JInt 5)]\<rparr>"

lemma demo_normalized:
  "handle_trade demo_raw_trade = Inr (result demo_trade_event [price_write demo_raw_trade ''BTCUSDT'' (JStr ''100'') 5])"
  by code_simp

definition demo_after_trade :: symbol_state where
  "demo_after_trade =
     snd (update_symbol plain_env demo_trade_event JNull (new_symbol_state demo_params ''BTCUSDT'' ''futures''))"

lemma demo_only_trades: "only_trades demo_after_trade"
proof -
  have "only_trades (on_trade d ts s) = only_trades s" for d ts s
    by (simp add: only_trades_def on_trade_def Let_def set_price_def split: option.split)
  moreover have "demo_after_trade = on_trade (ne_data demo_trade_event) 5 (note_event demo_trade_event
      (new_symbol_state demo_params ''BTCUSDT'' ''futures''))"
    by (simp add: demo_after_trade_def update_symbol_def handle_by_type_def prog_defs demo_trade_event_def)
  moreover have "only_trades (note_event demo_trade_event (new_symbol_state demo_params ''BTCUSDT'' ''futures''))"
    by (simp add: only_trades_def note_event_def new_symbol_state_def)
  ultimately show ?thesis by metis
qed

definition demo_snapshot_after :: "exn + snapshot" where
  "demo_snapshot_after = build_sections plain_env demo_after_trade [] 1005"

lemma demo_dispatch:
  "dispatch_event plain_env demo_params demo_trade_event JNull [] =
     (fst (update_symbol plain_env demo_trade_event JNull (new_symbol_state demo_params ''BTCUSDT'' ''futures'')),
      [((''BTCUSDT'', ''futures''), demo_after_trade)])"
  by (simp add: dispatch_event_def demo_trade_event_def Let_def store_get_def split: prod.split)
    (simp add: demo_after_trade_def demo_trade_event_def)

theorem trade_price_reaches_snapshot_witness:
  "case demo_snapshot_after of
     Inl e \<Rightarrow> False
   | Inr sn \<Rightarrow> ma_price (sn_market_state sn) = Some 100 \<and> me_symbol (sn_meta sn) = ''BTCUSDT'' \<and>
       me_market_type (sn_meta sn) = FUTURES \<and> map_of (me_staleness_ms (sn_meta sn)) ''trade'' = Some 1000"
proof -
  obtain sn where sn: "build_sections plain_env demo_after_trade [] 1005 = Inr sn"
    using plain_sections [OF demo_only_trades] by blast
  have ev: "hr_event (result e ws) = e" for e ws by (simp add: result_def)
  have price: "py_float (dict_get ''p'' (JStr ''0'') (rw_payload demo_raw_trade)) = Inr 100" by code_simp
  have at: "store_get demo_params ''BTCUSDT'' ''futures'' [((''BTCUSDT'', ''futures''), demo_after_trade)] = demo_after_trade"
    by (simp add: store_get_def)
  have "store_ok []" by (simp add: store_ok_def)
  from trade_price_reaches_snapshot [OF demo_normalized price _ this, unfolded ev, OF _ demo_dispatch, of "[]" 1005 sn]
  have "to_dec plain_env (JNum 100) = Inr (ma_price (sn_market_state sn)) \<and> me_symbol (sn_meta sn) = ''BTCUSDT'' \<and>
      me_market_type (sn_meta sn) = FUTURES \<and> map_of (me_staleness_ms (sn_meta sn)) ''trade'' = Some (1005 - 5)"
    using sn by (simp add: demo_trade_event_def demo_raw_trade_def mtype_def at)
  then show ?thesis by (simp add: demo_snapshot_after_def sn to_dec_def)
qed

text \<open>The same for a symbol that has a book, too, but one that is broken.\<close>

definition demo_top_book :: json where
  "demo_top_book = JObj [(''bids'', levels_json [(JStr ''100'', JStr ''1'')]), (''asks'', levels_json [(JStr ''101'', JStr ''1'')])]"

definition broken_book :: "symbol_state \<Rightarrow> bool" where
  "broken_book s =
     (only_trades (s\<lparr>sy_last_book := JNull\<rparr>) \<and> sy_last_book s = demo_top_book \<and> \<not> bi_is_valid (sy_integrity s))"

lemma demo_top: "top_of_book (dict_get ''bids'' (JArr []) [(''bids'', levels_json [(JStr ''100'', JStr ''1'')]), (''asks'', levels_json [(JStr ''101'', JStr ''1'')])])
    (dict_get ''asks'' (JArr []) [(''bids'', levels_json [(JStr ''100'', JStr ''1'')]), (''asks'', levels_json [(JStr ''101'', JStr ''1'')])]) =
    Inr (Some (100, 101, Some 1, Some 1))"
  by code_simp

lemma broken_sections:
  assumes "broken_book s"
  shows "\<exists>sn. build_sections plain_env s account now = Inr sn \<and> ma_bid (sn_market_state sn) = Some 100"
proof -
  obtain d where d: "\<And>x. opt_to_dec plain_env x = Inr (d x)" using plain_opt by metis
  have "d (Some 100) = Some 100" using d [of "Some 100"] by (simp add: opt_to_dec_def to_dec_def opt_json_def)
  then have "\<exists>m. build_market_state plain_env s = Inr m \<and> ma_bid m = Some 100"
    using assms demo_top
    by (simp add: broken_book_def only_trades_def build_market_state_def d Let_def demo_top_book_def book_quote_def quote_def)
  moreover obtain f where "build_flow_state plain_env s now = Inr f" using plain_flow by blast
  moreover obtain u where "build_futures_state plain_env s now = Inr u"
    using plain_futures [of s now] assms by (auto simp: broken_book_def only_trades_def)
  ultimately show ?thesis
    using assms by (auto simp: build_sections_def build_indicators_def broken_book_def only_trades_def)
qed

definition demo_gap_event :: normalized_event where
  "demo_gap_event =
     \<lparr>ne_event_type = ORDERBOOK_DELTA, ne_market_type = FUTURES, ne_symbol = ''BTCUSDT'', ne_timestamp_ms = 6, ne_received_ms = 7,
      ne_source_stream = None, ne_data = [(''first_update_id'', JInt 15), (''last_update_id'', JInt 16)]\<rparr>"

definition demo_booked :: symbol_state where
  "demo_booked =
     (new_symbol_state demo_params ''BTCUSDT'' ''futures'')\<lparr>sy_last_book := demo_top_book, sy_integrity := on_snapshot 10 0 new_integrity\<rparr>"

definition demo_gapped :: state_store where
  "demo_gapped = dispatch_all plain_env demo_params [(demo_gap_event, JNull), (demo_trade_event, JNull)] [((''BTCUSDT'', ''futures''), demo_booked)]"

lemma demo_gap_update:
  "\<exists>i. update_symbol plain_env demo_gap_event JNull demo_booked = (Inr (), (note_event demo_gap_event demo_booked)\<lparr>sy_integrity := i\<rparr>) \<and>
       \<not> bi_is_valid i"
  by (rule exI [of _ "snd (on_delta 15 16 6 (sy_integrity demo_booked))"])
    (simp add: update_symbol_def handle_by_type_def Let_def on_orderbook_delta_def prog_defs demo_gap_event_def dict_get_def
      note_event_def demo_booked_def on_delta_def on_snapshot_def skip_delta_def)

lemma demo_gapped_book: "broken_book (store_get demo_params ''BTCUSDT'' ''futures'' demo_gapped)"
proof -
  obtain i where i: "update_symbol plain_env demo_gap_event JNull demo_booked =
      (Inr (), (note_event demo_gap_event demo_booked)\<lparr>sy_integrity := i\<rparr>)" "\<not> bi_is_valid i"
    using demo_gap_update by blast
  define s1 where "s1 = (note_event demo_gap_event demo_booked)\<lparr>sy_integrity := i\<rparr>"
  have b1: "broken_book s1"
    using i(2) by (simp add: s1_def broken_book_def only_trades_def note_event_def demo_booked_def new_symbol_state_def)
  have trade: "snd (update_symbol plain_env demo_trade_event JNull s) = on_trade (ne_data demo_trade_event) 5 (note_event demo_trade_event s)" for s
    by (simp add: update_symbol_def handle_by_type_def prog_defs demo_trade_event_def)
  have "broken_book (on_trade d ts (note_event ev s)) = broken_book s" for d ts ev s
    by (simp add: broken_book_def only_trades_def on_trade_def Let_def set_price_def note_event_def split: option.split)
  then have "broken_book (snd (update_symbol plain_env demo_trade_event JNull s1))" using b1 by (simp only: trade)
  moreover have "key_of demo_gap_event = (''BTCUSDT'', ''futures'')" "key_of demo_trade_event = (''BTCUSDT'', ''futures'')"
    by (simp_all add: key_of_def demo_gap_event_def demo_trade_event_def)
  moreover have "store_get demo_params ''BTCUSDT'' ''futures'' [((''BTCUSDT'', ''futures''), demo_booked)] = demo_booked"
    by (simp add: store_get_def)
  ultimately show ?thesis
    by (simp add: demo_gapped_def dispatch_all_def dispatch_store [OF surjective_pairing] i(1) s1_def)
qed

theorem gapped_book_is_not_used_witness:
  "case build_sections plain_env (store_get demo_params ''BTCUSDT'' ''futures'' demo_gapped) [] 1005 of
     Inl e \<Rightarrow> False | Inr sn \<Rightarrow> sn_book_state sn = default_book_state"
proof -
  obtain sn where sn: "build_sections plain_env (store_get demo_params ''BTCUSDT'' ''futures'' demo_gapped) [] 1005 = Inr sn"
    using broken_sections [OF demo_gapped_book] by blast
  have at: "store_get demo_params ''BTCUSDT'' ''futures'' [((''BTCUSDT'', ''futures''), demo_booked)] = demo_booked"
    by (simp add: store_get_def)
  have "sn_book_state sn = default_book_state"
    by (rule gapped_book_is_not_used [where ev = demo_gap_event and symbol = "''BTCUSDT''" and mt = "''futures''" and U = 15
          and u = 16 and p = demo_params and st = "[((''BTCUSDT'', ''futures''), demo_booked)]" and later = "[(demo_trade_event, JNull)]"
          and b = JNull and env = plain_env])
      (use sn in \<open>simp_all add: at demo_gapped_def\<close>,
       simp_all add: demo_gap_event_def demo_trade_event_def key_of_def dict_get_def demo_booked_def on_snapshot_def)
  then show ?thesis by (simp add: sn)
qed

text \<open>The best bid of a broken book is still shown, though: only the other figures wait for a new book.\<close>

lemma gapped_book_still_quotes:
  "\<exists>s sn. \<not> bi_is_valid (sy_integrity s) \<and> build_sections plain_env s [] 1005 = Inr sn \<and> ma_bid (sn_market_state sn) = Some 100"
  using broken_sections [OF demo_gapped_book] demo_gapped_book by (auto simp: broken_book_def)

definition demo_analytics :: "mem_redis analytics" where
  "demo_analytics =
     \<lparr>an_settings = default_analytics_settings, an_ops = mem_ops, an_env = demo_env,
      an_parse_account = (\<lambda>raw. Inl ValidationError), an_parse_risk = (\<lambda>raw. Inl ValidationError)\<rparr>"

text \<open>A switched-on kill switch and two events, one of them unreadable.\<close>

definition demo_analytics_world :: "mem_redis analytics_world" where
  "demo_analytics_world =
     \<lparr>w_redis = mem_put (kill_switch_key ''a'') (Raw ''1'') None
        (empty_mem\<lparr>mr_log := [(NORMALIZED, [(''event'', Raw ''x'')]), (NORMALIZED, [(''event'', Json (JObj []))])]\<rparr>),
      w_db = (), w_sessions = 0, w_uuids = 0, w_now = 0, w_trace = [], an_states = [((''BTCUSDT'', ''futures''), demo_booked)],
      an_last_publish_at = 0, an_clock = 0\<rparr>"

theorem analytics_changes_only_its_own_witness:
  "fst (analytics_rounds demo_analytics [(1, 1000), (2, 2000)] demo_analytics_world) = Inr () \<and>
   mem_live (w_redis (snd (analytics_rounds demo_analytics [(1, 1000), (2, 2000)] demo_analytics_world))) (kill_switch_key ''a'') =
     Some (Raw ''1'')"
proof -
  have "redis (an_ops demo_analytics) mem_live" by (simp add: demo_analytics_def mem.redis_axioms)
  note kept = analytics_changes_only_its_own [OF this surjective_pairing, of "[(1, 1000), (2, 2000)]" demo_analytics_world]
  have "\<not> startswith ''analytics:'' (kill_switch_key ''a'')" by (simp add: kill_switch_key_def startswith_def)
  moreover have "mem_live (w_redis demo_analytics_world) (kill_switch_key ''a'') = Some (Raw ''1'')"
    by (simp add: demo_analytics_world_def)
  ultimately show ?thesis using kept by metis
qed

text \<open>An event that cannot be handled ends its batch: the rest of it is neither handled nor acknowledged.\<close>

lemma bad_event_ends_batch:
  assumes "e_parse_event (an_env sv) raw = Inr ev" "ne_event_type ev = ORDERBOOK_DELTA" "text_truthy (Some raw)"
    "py_int (dict_get ''first_update_id'' (JInt 0) (ne_data ev)) = Inl e"
  shows "\<exists>w'. mfor ((msg_id, [(''event'', raw)]) # rest) (\<lambda>(i, fs). analytics_process sv i fs) w = (Inl e, w') \<and> w_trace w' = w_trace w"
proof -
  have t: "moves (more_trace (\<lambda>_. False)) (fetch_current_book sv ev)"
    unfolding fetch_current_book_def by (auto intro!: more_trace.rules more_trace_redis)
  have "returns (fetch_current_book sv ev)" unfolding fetch_current_book_def by (intro returns)
  from returnsD [OF this, of w] obtain b v where v: "fetch_current_book sv ev w = (Inr b, v)" by blast
  then have tr: "w_trace v = w_trace w" using movesD [OF t] by (auto simp: more_trace_def list_all_iff)
  have "\<exists>st. dispatch_event (an_env sv) p ev b (an_states v) = (Inl e, st)" for p
    using assms(2,4)
    by (simp add: dispatch_event_def update_symbol_def handle_by_type_def on_orderbook_delta_def prog_defs Let_def)
  then obtain st where "dispatch_event (an_env sv) (params_of (an_settings sv)) ev b (an_states v) = (Inl e, st)" by blast
  then show ?thesis
    using assms v tr by (simp add: analytics_process_def is_book_event_def prog_defs on_states_def)
qed

end
