(* ===== verification/RestApi.thy ===== *)
theory RestApi
  imports Controls McpTrade
begin

text \<open>
  The REST surface of the platform (\<open>services/gateway_api\<close>): the key check with its limit of calls per
  minute (\<open>auth.py\<close>), the routes over the facades of the MCP server (\<open>routes/\<close>) and the endpoints for
  operators (\<open>ops/\<close>).  An \<open>HTTPException\<close> is the exception \<open>HttpError\<close>; a query parameter out of its
  range is the \<open>ValidationError\<close> that the framework answers itself.
\<close>

section \<open>Settings and counters\<close>

record api_settings =
  gs_gateway_api_key :: string
  gs_admin_api_key :: string
  gs_rate_limit_requests_per_min :: int

definition default_api_settings :: api_settings where
  "default_api_settings =
     \<lparr>gs_gateway_api_key = ''change-me-gateway-key'', gs_admin_api_key = ''change-me-admin-key'',
      gs_rate_limit_requests_per_min = 60\<rparr>"

text \<open>The counters and gauges of a process.  Reading a counter creates it.\<close>

record metrics_registry =
  mx_counters :: "(string \<times> int) list"
  mx_gauges :: "(string \<times> rat) list"

definition counter_value :: "metrics_registry \<Rightarrow> string \<Rightarrow> int" where
  "counter_value m name = (case map_of (mx_counters m) name of None \<Rightarrow> 0 | Some n \<Rightarrow> n)"

definition increment :: "string \<Rightarrow> int \<Rightarrow> metrics_registry \<Rightarrow> metrics_registry" where
  "increment name amount m = m\<lparr>mx_counters := dict_set name (counter_value m name + amount) (mx_counters m)\<rparr>"

definition set_gauge :: "string \<Rightarrow> rat \<Rightarrow> metrics_registry \<Rightarrow> metrics_registry" where
  "set_gauge name value m = m\<lparr>mx_gauges := dict_set name value (mx_gauges m)\<rparr>"

definition reset_counter :: "string \<Rightarrow> metrics_registry \<Rightarrow> metrics_registry" where
  "reset_counter name m = m\<lparr>mx_counters := dict_set name 0 (mx_counters m)\<rparr>"

definition get_counter :: "string \<Rightarrow> metrics_registry \<Rightarrow> int \<times> metrics_registry" where
  "get_counter name m = (counter_value m name, increment name 0 m)"

definition get_gauge :: "string \<Rightarrow> metrics_registry \<Rightarrow> rat option" where
  "get_gauge name m = map_of (mx_gauges m) name"

definition metrics_snapshot :: "metrics_registry \<Rightarrow> json" where
  "metrics_snapshot m =
     JObj [(''counters'', JObj (map (\<lambda>(k, n). (k, JInt n)) (mx_counters m))),
           (''gauges'', JObj (map (\<lambda>(k, x). (k, JNum x)) (mx_gauges m)))]"

section \<open>Keys\<close>

definition rate_limit_key :: "string \<Rightarrow> int \<Rightarrow> string" where
  "rate_limit_key api_key bucket = ''rate_limit:'' @ api_key @ '':'' @ show_int bucket"

definition minute_of :: "int \<Rightarrow> int" where
  "minute_of now = (now div 1000) div 60"

definition verify_gateway_api_key :: "'r redis_ops \<Rightarrow> api_settings \<Rightarrow> string \<Rightarrow> ('r, 'm, string) fact" where
  "verify_gateway_api_key ops cfg x_api_key =
     (if x_api_key \<noteq> gs_gateway_api_key cfg then mraise (HttpError 401 ''Invalid or missing X-API-Key'')
      else
        mbind (mget w_now) (\<lambda>now.
        let rl_key = rate_limit_key x_api_key (minute_of now) in
        mbind (on_redis (r_incr ops rl_key)) (\<lambda>count.
        mseq (if count = 1 then on_redis (r_expire ops rl_key 120) else mret ())
          (if gs_rate_limit_requests_per_min cfg < count
           then mraise (HttpError 429 (''Rate limit exceeded: '' @ show_int (gs_rate_limit_requests_per_min cfg) @ '' req/min''))
           else mret x_api_key))))"

definition verify_admin_api_key :: "api_settings \<Rightarrow> string \<Rightarrow> ('r, 'm, unit) fact" where
  "verify_admin_api_key cfg x_api_key =
     (if x_api_key \<noteq> gs_admin_api_key cfg then mraise (HttpError 401 ''Invalid or missing admin X-API-Key'') else mret ())"

section \<open>Routes for clients\<close>

definition market_snapshot :: "'r redis_ops \<Rightarrow> env \<Rightarrow> string \<Rightarrow> string \<Rightarrow> ('r, 'm, json) fact" where
  "market_snapshot ops env market_type symbol =
     mbind (mcp_symbol_snapshot ops env (JStr market_type) (JStr symbol)) (\<lambda>result.
       if result = JNull then mraise (HttpError 404 (''No snapshot for '' @ market_type @ ''/'' @ symbol)) else mret result)"

text \<open>\<open>Query(ge=lo, le=hi)\<close>.\<close>

definition in_range :: "int \<Rightarrow> int \<Rightarrow> int \<Rightarrow> ('w, unit) prog" where
  "in_range lo hi n = (if lo \<le> n \<and> n \<le> hi then mret () else mraise ValidationError)"

definition list_strategies_route :: "env \<Rightarrow> string option \<Rightarrow> string option \<Rightarrow> int \<Rightarrow> ('r, 'm, json) fact" where
  "list_strategies_route env symbol state limit =
     mseq (in_range 1 100 limit)
       (mbind (mcp_list_strategies env (opt_json JStr symbol) (opt_json JStr state) limit) (\<lambda>xs. mret (JArr xs)))"

definition get_strategy_route :: "env \<Rightarrow> string \<Rightarrow> ('r, 'm, json) fact" where
  "get_strategy_route env strategy_id =
     mbind (mcp_strategy_details env (JStr strategy_id)) (\<lambda>r. case r of
       None \<Rightarrow> mraise (HttpError 404 (''Strategy '' @ quoted strategy_id @ '' not found''))
     | Some j \<Rightarrow> mret j)"

definition recent_executions :: "env \<Rightarrow> string option \<Rightarrow> string option \<Rightarrow> int \<Rightarrow> ('r, 'm, json) fact" where
  "recent_executions env strategy_id symbol limit =
     mseq (in_range 1 100 limit)
       (mbind (mcp_recent_executions env (opt_json JStr strategy_id) (opt_json JStr symbol) limit) (\<lambda>xs. mret (JArr xs)))"

definition incidents_route :: "env \<Rightarrow> string option \<Rightarrow> int option \<Rightarrow> int \<Rightarrow> ('r, 'm, json) fact" where
  "incidents_route env symbol since_ts limit =
     mseq (in_range 1 200 limit)
       (mbind (mcp_incidents env (opt_json JStr symbol) since_ts limit) (\<lambda>xs. mret (JArr xs)))"

text \<open>An error of the facade becomes the detail of the answer.\<close>

type_synonym http_answer = "nat \<times> json"

record paper_trade_request =
  pq_strategy_id :: string
  pq_symbol :: string
  pq_side :: string
  pq_size_usd :: "rat option"
  pq_size :: "rat option"
  pq_reason :: "string option"

definition trade_status :: "json \<Rightarrow> nat" where
  "trade_status err = (if err \<in> set [JStr ''strategy_not_found''] then 404 else 400)"

definition paper_trade :: "'r redis_ops \<Rightarrow> env \<Rightarrow> paper_trade_request \<Rightarrow> ('r, 'm, http_answer) fact" where
  "paper_trade ops env body =
     (if pq_side body \<notin> {''BUY'', ''SELL''} then mraise (HttpError 422 ''side must be BUY or SELL'')
      else
        mbind (request_paper_trade ops env (JStr (pq_strategy_id body)) (JStr (pq_symbol body)) (JStr (pq_side body))
                 (pq_size_usd body) (pq_size body) (opt_json JStr (pq_reason body))) (\<lambda>result.
        mbind (mlift (obj_get result ''error'' JNull)) (\<lambda>err.
          mret (if truthy err then (trade_status err, JObj [(''detail'', result)]) else (200, result)))))"

section \<open>Endpoints for operators\<close>

definition ops_group_json :: "env \<Rightarrow> json \<Rightarrow> exn + json" where
  "ops_group_json env g =
     ebind (obj_get g ''name'' (JStr [])) (\<lambda>n.
     ebind (obj_get g ''consumers'' (JInt 0)) (\<lambda>c.
     ebind (obj_get g ''pending'' (JInt 0)) (\<lambda>p.
     ebind (obj_get g ''last-delivered-id'' (JStr [])) (\<lambda>d.
     ebind (obj_get g ''lag'' JNull) (\<lambda>l.
       Inr (JObj [(''name'', n), (''consumers'', c), (''pending'', p), (''last_delivered_id'', JStr (str_of env d)), (''lag'', l)]))))))"

definition stream_names :: "string list" where
  "stream_names = [RAW_STREAM, NORMALIZED, ANALYTICS_DERIVED, STRATEGY_INTENTS, EXECUTION_EVENTS, MCP_AUDIT]"

text \<open>The groups of a stream; a failure counts as no groups.\<close>

definition stream_groups :: "'r redis_ops \<Rightarrow> (json \<Rightarrow> exn + json) \<Rightarrow> string \<Rightarrow> ('r, 'm, json list) fact" where
  "stream_groups ops f stream =
     mtry (mbind (on_redis (r_xinfo_groups ops stream)) (\<lambda>gs. mlift (emap f gs))) (\<lambda>_. mret [])"

definition stream_entry :: "'r redis_ops \<Rightarrow> env \<Rightarrow> string \<Rightarrow> ('r, 'm, json) fact" where
  "stream_entry ops env stream =
     mtry
       (mbind (on_redis (r_xlen ops stream)) (\<lambda>n.
        mbind (stream_groups ops (ops_group_json env) stream) (\<lambda>groups.
          mret (JObj [(''stream'', JStr stream), (''length'', JInt n), (''consumer_groups'', JArr groups)]))))
       (\<lambda>e. mret (JObj [(''stream'', JStr stream), (''error'', JStr (e_exn_text env e)), (''length'', JNull),
                        (''consumer_groups'', JArr [])]))"

definition stream_stats :: "'r redis_ops \<Rightarrow> env \<Rightarrow> ('r, 'm, json) fact" where
  "stream_stats ops env =
     mbind (mcollect (stream_entry ops env) stream_names) (\<lambda>results.
       mret (JObj [(''streams'', JArr results), (''total_streams'', JInt (int (length results)))]))"

text \<open>\<open>updated_at\<close> is a column the database sets; the argument gives its value.\<close>

definition ops_job_json :: "env \<Rightarrow> (job_row \<Rightarrow> int option) \<Rightarrow> job_row \<Rightarrow> json" where
  "ops_job_json env updated_at j =
     JObj [(''job_id'', JStr (jb_id j)), (''status'', JStr (jb_status j)), (''symbol'', JStr (jb_symbol j)),
           (''side'', JStr (jb_side j)), (''market_type'', JStr (jb_market_type j)), (''trading_mode'', JStr (jb_trading_mode j)),
           (''strategy_id'', opt_json JStr (jb_strategy_id j)), (''account_id'', JStr (jb_account_id j)),
           (''client_order_id'', JStr (jb_client_order_id j)),
           (''result'', opt_json id (jb_result_json j)), (''error'', opt_json JStr (jb_error j)),
           (''created_at'', JStr (e_iso env (jb_created_at_ms j * 1000))), (''updated_at'', time_json env (updated_at j))]"

definition wanted :: "string option \<Rightarrow> string \<Rightarrow> bool" where
  "wanted filter_text column = (case filter_text of None \<Rightarrow> True | Some t \<Rightarrow> t = [] \<or> column = t)"

definition of_strategy :: "string option \<Rightarrow> job_row \<Rightarrow> bool" where
  "of_strategy strategy_id j =
     (case strategy_id of
        None \<Rightarrow> True
      | Some t \<Rightarrow> t = [] \<or> (case parse_uuid t of None \<Rightarrow> True | Some sid \<Rightarrow> jb_strategy_id j = Some sid))"

definition list_jobs ::
  "env \<Rightarrow> (job_row \<Rightarrow> int option) \<Rightarrow> string option \<Rightarrow> string option \<Rightarrow> string option \<Rightarrow> int \<Rightarrow> ('r, 'm, json) fact" where
  "list_jobs env updated_at status symbol strategy_id limit =
     mseq (in_range 1 200 limit)
       (mbind (query env (\<lambda>d. newest jb_created_at_ms limit
          (filter (\<lambda>j. wanted status (jb_status j) \<and> wanted symbol (jb_symbol j) \<and> of_strategy strategy_id j) (d_jobs d)))) (\<lambda>jobs.
        mret (JObj [(''jobs'', JArr (map (ops_job_json env updated_at) jobs)), (''count'', JInt (int (length jobs))),
                    (''filters'', JObj [(''status'', opt_json JStr status), (''symbol'', opt_json JStr symbol),
                                        (''strategy_id'', opt_json JStr strategy_id)])])))"

definition OPS_EMIT_STATES :: "string list" where
  "OPS_EMIT_STATES = map strategy_state_value [PAPER_ACTIVE, ASSISTED_LIVE, BOUNDED_AUTO_LIVE]"

definition status_fields :: "env \<Rightarrow> string \<Rightarrow> strategy_row \<Rightarrow> (string \<times> json) list" where
  "status_fields env strategy_id s =
     [(''strategy_id'', JStr strategy_id), (''name'', JStr (sr_name s)), (''state'', JStr (sr_state s)),
      (''current_version'', JInt (sr_current_version s)), (''market_type'', JStr (sr_market_type s)),
      (''symbol_filters'', py_or (sr_symbol_filters s) (JArr [])),
      (''is_emitting_intents'', JBool (sr_state s \<in> set OPS_EMIT_STATES)),
      (''created_at'', time_json env (sr_created_at s)), (''updated_at'', time_json env (sr_updated_at s))]"

definition last_evaluation_json :: "evaluation_row \<Rightarrow> json" where
  "last_evaluation_json e =
     JObj [(''created_at_ms'', JInt (vl_created_at_ms e)), (''symbol'', JStr (vl_symbol e)), (''signal'', JBool (vl_signal e)),
           (''direction'', opt_json JStr (vl_direction e)), (''confidence'', opt_json JStr (vl_confidence e)),
           (''intent_emitted'', JBool (vl_intent_id e \<noteq> None))]"

definition last_action_json :: "action_row \<Rightarrow> json" where
  "last_action_json a =
     JObj [(''action_type'', JStr (an_action_type a)), (''triggered_by'', JStr (an_triggered_by a)), (''details'', an_details a),
           (''created_at_ms'', JInt (an_created_at_ms a))]"

definition last_intent_json :: "evaluation_row \<Rightarrow> json" where
  "last_intent_json e =
     JObj [(''intent_id'', JStr (case vl_intent_id e of None \<Rightarrow> ''None'' | Some i \<Rightarrow> i)), (''symbol'', JStr (vl_symbol e)),
           (''created_at_ms'', JInt (vl_created_at_ms e))]"

text \<open>The newest row of a kind, as a section of the answer when there is one.\<close>

definition newest_section :: "string \<Rightarrow> ('a \<Rightarrow> int) \<Rightarrow> ('a \<Rightarrow> json) \<Rightarrow> 'a list \<Rightarrow> (string \<times> json) list" where
  "newest_section name key f rows = (case newest key 1 rows of [] \<Rightarrow> [] | r # _ \<Rightarrow> [(name, f r)])"

definition status_of :: "env \<Rightarrow> string \<Rightarrow> uuid \<Rightarrow> strategy_db \<Rightarrow> json option" where
  "status_of env strategy_id sid d =
     (case find_strategy sid d of
        None \<Rightarrow> None
      | Some s \<Rightarrow>
          let evaluations = filter (\<lambda>e. vl_strategy_id e = sid) (d_evaluations d) in
          Some (JObj (status_fields env strategy_id s @
            newest_section ''last_evaluation'' vl_created_at_ms last_evaluation_json evaluations @
            newest_section ''last_action'' an_created_at_ms last_action_json (filter (\<lambda>a. an_strategy_id a = sid) (d_actions d)) @
            newest_section ''last_intent_emission'' vl_created_at_ms last_intent_json
              (filter (\<lambda>e. vl_intent_id e \<noteq> None) evaluations))))"

definition strategy_status :: "env \<Rightarrow> string \<Rightarrow> ('r, 'm, json) fact" where
  "strategy_status env strategy_id =
     (case parse_uuid strategy_id of
        None \<Rightarrow> mraise (HttpError 422 (''Invalid strategy UUID: '' @ strategy_id))
      | Some sid \<Rightarrow>
          mbind (query env (status_of env strategy_id sid)) (\<lambda>r. case r of
            None \<Rightarrow> mraise (HttpError 404 (''Strategy '' @ quoted strategy_id @ '' not found''))
          | Some j \<Rightarrow> mret j))"

definition lag_json :: "json \<Rightarrow> exn + json" where
  "lag_json g =
     ebind (obj_get g ''name'' JNull) (\<lambda>n. ebind (obj_get g ''lag'' JNull) (\<lambda>l. ebind (obj_get g ''pending'' JNull) (\<lambda>p.
       Inr (JObj [(''group'', n), (''lag'', l), (''pending'', p)]))))"

definition stream_metrics :: "'r redis_ops \<Rightarrow> string \<Rightarrow> ('r, 'm, (string \<times> json) \<times> (string \<times> json)) fact" where
  "stream_metrics ops stream =
     mtry
       (mbind (on_redis (r_xlen ops stream)) (\<lambda>n.
        mbind (stream_groups ops lag_json stream) (\<lambda>groups. mret ((stream, JInt n), (stream, JArr groups)))))
       (\<lambda>_. mret ((stream, JNull), (stream, JArr [])))"

text \<open>The incidents of each severity, and those not resolved.\<close>

definition severity_counts :: "incident_row list \<Rightarrow> (string \<times> json) list" where
  "severity_counts rows =
     map (\<lambda>s. (s, JInt (int (length (filter (\<lambda>i. ic_severity i = s) rows))))) (remdups (map ic_severity rows))"

definition incident_counts :: "strategy_db \<Rightarrow> (string \<times> json) list" where
  "incident_counts d =
     dict_set ''_unresolved_total'' (JInt (int (length (filter (\<lambda>i. \<not> ic_resolved i) (d_incidents d)))))
       (severity_counts (d_incidents d))"

definition metrics :: "'r redis_ops \<Rightarrow> env \<Rightarrow> metrics_registry \<Rightarrow> ('r, 'm, json) fact" where
  "metrics ops env registry =
     mbind (mget w_now) (\<lambda>now.
     mbind (mcollect (stream_metrics ops) stream_names) (\<lambda>streams.
     mbind (read_text ops global_trading_mode_key) (\<lambda>mode.
     mbind (on_redis (r_exists ops global_emergency_stop_key)) (\<lambda>emergency.
     mbind (mtry (query env incident_counts) (\<lambda>_. mret [(''_db_error'', JInt 1)])) (\<lambda>counts.
       mret (JObj [(''timestamp'', JInt (now div 1000)),
         (''streams'', JObj [(''lengths'', JObj (map fst streams)), (''consumer_lag'', JObj (map snd streams))]),
         (''safety'', JObj [(''trading_mode'', JStr (case mode of Some (Raw m) \<Rightarrow> m | _ \<Rightarrow> ''paper_only'')),
                           (''emergency_stop_active'', JBool emergency)]),
         (''incidents'', JObj counts), (''gateway_counters'', metrics_snapshot registry)]))))))"

section \<open>Calls\<close>

datatype rest_call =
    CallSnapshot string string
  | CallStrategies "string option" "string option" int
  | CallStrategy string
  | CallSimulate string string string
  | CallState string string string "string option"
  | CallExecutions "string option" "string option" int
  | CallIncidents "string option" "int option" int
  | CallPaperTrade paper_trade_request
  | OpsStreams
  | OpsStrategy string
  | OpsJobs "string option" "string option" "string option" int
  | OpsSetMode string string
  | OpsGetMode
  | OpsKillSwitch kill_switch_request
  | OpsKillStatus string
  | OpsMetrics

fun is_ops :: "rest_call \<Rightarrow> bool" where
  "is_ops OpsStreams = True" | "is_ops (OpsStrategy _) = True" | "is_ops (OpsJobs _ _ _ _) = True"
| "is_ops (OpsSetMode _ _) = True" | "is_ops OpsGetMode = True" | "is_ops (OpsKillSwitch _) = True"
| "is_ops (OpsKillStatus _) = True" | "is_ops OpsMetrics = True" | "is_ops _ = False"

text \<open>What the application serves with: Redis and the tables, and what it takes from outside.\<close>

record 'r rest_app =
  ra_ops :: "'r redis_ops"
  ra_env :: env
  ra_settings :: api_settings
  ra_parse_snapshot :: "rtext \<Rightarrow> exn + snapshot"
  ra_updated_at :: "job_row \<Rightarrow> int option"
  ra_registry :: metrics_registry

definition ok :: "('w, json) prog \<Rightarrow> ('w, http_answer) prog" where
  "ok m = mbind m (\<lambda>j. mret (200, j))"

fun rest_handler :: "'r rest_app \<Rightarrow> rest_call \<Rightarrow> ('r, 'm, http_answer) fact" where
  "rest_handler app (CallSnapshot mt sy) = ok (market_snapshot (ra_ops app) (ra_env app) mt sy)"
| "rest_handler app (CallStrategies sy st n) = ok (list_strategies_route (ra_env app) sy st n)"
| "rest_handler app (CallStrategy i) = ok (get_strategy_route (ra_env app) i)"
| "rest_handler app (CallSimulate i sy mt) =
     ok (simulate_strategy_on_snapshot (ra_ops app) (ra_env app) (ra_parse_snapshot app) (JStr i) (JStr sy) (JStr mt))"
| "rest_handler app (CallState i target why level) =
     ok (mcp_update_strategy_state (ra_env app) (JStr i) (JStr target) (JStr why) (opt_json JStr level))"
| "rest_handler app (CallExecutions i sy n) = ok (recent_executions (ra_env app) i sy n)"
| "rest_handler app (CallIncidents sy since n) = ok (incidents_route (ra_env app) sy since n)"
| "rest_handler app (CallPaperTrade body) = paper_trade (ra_ops app) (ra_env app) body"
| "rest_handler app OpsStreams = ok (stream_stats (ra_ops app) (ra_env app))"
| "rest_handler app (OpsStrategy i) = ok (strategy_status (ra_env app) i)"
| "rest_handler app (OpsJobs st sy i n) = ok (list_jobs (ra_env app) (ra_updated_at app) st sy i n)"
| "rest_handler app (OpsSetMode mode reason) =
     ok (mbind (mget w_now) (\<lambda>now. on_redis (set_trading_mode (ra_ops app) mode reason (now div 1000))))"
| "rest_handler app OpsGetMode = ok (on_redis (get_trading_mode (ra_ops app)))"
| "rest_handler app (OpsKillSwitch q) = ok (on_redis (kill_switch_post (ra_ops app) q))"
| "rest_handler app (OpsKillStatus a) = ok (on_redis (kill_switch_status (ra_ops app) a))"
| "rest_handler app OpsMetrics = ok (metrics (ra_ops app) (ra_env app) (ra_registry app))"

definition rest_check :: "'r rest_app \<Rightarrow> rest_call \<Rightarrow> string \<Rightarrow> ('r, 'm, unit) fact" where
  "rest_check app c x_api_key =
     (if is_ops c then verify_admin_api_key (ra_settings app) x_api_key
      else mbind (verify_gateway_api_key (ra_ops app) (ra_settings app) x_api_key) (\<lambda>_. mret ()))"

text \<open>The dependency of the router runs first; an \<open>HTTPException\<close> is the answer.\<close>

definition http_detail :: "exn \<Rightarrow> ('w, http_answer) prog" where
  "http_detail e = (case e of HttpError n d \<Rightarrow> mret (n, JObj [(''detail'', JStr d)]) | _ \<Rightarrow> mraise e)"

definition rest_serve :: "'r rest_app \<Rightarrow> rest_call \<Rightarrow> string \<Rightarrow> ('r, 'm, http_answer) fact" where
  "rest_serve app c x_api_key = mtry (mseq (rest_check app c x_api_key) (rest_handler app c)) http_detail"

end
