(* ===== verification/RestProperties.thy ===== *)
theory RestProperties
  imports RestApi McpServerProperties
begin

text \<open>
  What the REST surface guarantees: nothing happens without the right key, the routes that read only read, and no
  more calls than the limit are let through in a minute.
\<close>

section \<open>Who may call\<close>

definition right_key :: "api_settings \<Rightarrow> rest_call \<Rightarrow> string" where
  "right_key cfg c = (if is_ops c then gs_admin_api_key cfg else gs_gateway_api_key cfg)"

lemma wrong_key:
  assumes "key \<noteq> right_key (ra_settings app) c"
  shows "\<exists>d. rest_serve app c key w = (Inr (401, d), w)"
  using assms
  by (auto simp: rest_serve_def rest_check_def right_key_def verify_admin_api_key_def verify_gateway_api_key_def
      mseq_def mtry_def mbind_def mraise_def mret_def http_detail_def split: if_splits)

text \<open>The calls that change the tables or the streams, and those that change the controls in the store.\<close>

fun acts :: "rest_call \<Rightarrow> bool" where
  "acts (CallState _ _ _ _) = True" | "acts (CallPaperTrade _) = True" | "acts _ = False"

fun sets_controls :: "rest_call \<Rightarrow> bool" where
  "sets_controls (OpsSetMode _ _) = True" | "sets_controls (OpsKillSwitch _) = True" | "sets_controls _ = False"

text \<open>A program on the store inside a world, step by step.\<close>

lemma on_redis_steps:
  "on_redis (mbind m f) = mbind (on_redis m) (\<lambda>x. on_redis (f x))" "on_redis (mret x) = mret x"
  by (auto simp: fun_eq_iff on_redis_def mbind_def mret_def split: prod.splits sum.splits)

text \<open>A relation between worlds that the reading commands keep is kept by every call that reads.\<close>

locale serving = reading +
  fixes app :: "'a rest_app"
  assumes app_store: "ra_ops app = mc_ops sv"
    and there [moves]: "moves R (on_redis (r_exists (mc_ops sv) k))"
begin

lemma route_moves [moves]:
  "moves R (market_snapshot (mc_ops sv) env mt sy)" "moves R (list_strategies_route env a b n)"
  "moves R (get_strategy_route env i)" "moves R (recent_executions env a b n)" "moves R (incidents_route env a t n)"
  unfolding market_snapshot_def list_strategies_route_def get_strategy_route_def recent_executions_def incidents_route_def
    in_range_def
  by (auto intro!: rules moves split: option.split)

lemma group_moves [moves]: "moves R (stream_groups (mc_ops sv) f st)"
  unfolding stream_groups_def by (intro rules moves)

lemma ops_moves [moves]:
  "moves R (stream_stats (mc_ops sv) env)" "moves R (strategy_status env sid)" "moves R (list_jobs env u a b i n)"
  "moves R (metrics (mc_ops sv) env reg)"
  unfolding stream_stats_def stream_entry_def strategy_status_def list_jobs_def metrics_def stream_metrics_def in_range_def
  by (auto intro!: rules moves split: option.split)

lemma control_moves [moves]:
  "moves R (on_redis (get_trading_mode (mc_ops sv)))" "moves R (on_redis (kill_switch_status (mc_ops sv) a))"
  unfolding get_trading_mode_def kill_switch_status_def is_kill_switch_active_def is_user_paused_def
    is_circuit_breaker_active_def on_redis_steps Let_def
  by (intro rules moves)+

lemma reading_calls: "\<not> acts c \<Longrightarrow> \<not> sets_controls c \<Longrightarrow> moves R (rest_handler app c)"
  by (cases c) (auto simp: ok_def app_store intro!: rules moves)

end

text \<open>The facades of the application, as the MCP server calls them.\<close>

definition app_tools :: "'r rest_app \<Rightarrow> 'r mcp_tools" where
  "app_tools app =
     \<lparr>mc_settings = default_mcp_settings [] [], mc_ops = ra_ops app, mc_env = ra_env app, mc_random = (\<lambda>n. []),
      mt_default_account_id = [],
      mt_live_settings = \<lparr>ls_live_trading_enabled = False, ls_account_allowlist = [], ls_symbol_allowlist = [],
                          ls_live_max_notional_usd = 0\<rparr>,
      mt_parse_snapshot = ra_parse_snapshot app\<rparr>"

lemma app_tools_ops [simp]: "mc_ops (app_tools app) = ra_ops app"
  by (simp add: app_tools_def)

text \<open>Tables and history are the same.\<close>

definition same_record :: "('r, 'd, 'm) world_scheme \<Rightarrow> ('r, 'd, 'm) world_scheme \<Rightarrow> bool" where
  "same_record w w' = (w_db w' = w_db w \<and> w_trace w' = w_trace w)"

lemma same_record_redis [moves]: "moves same_record (on_redis m)"
  by (auto simp: moves_def same_record_def on_redis_def split: prod.split)

interpretation recorded: serving same_record "app_tools app" app for app
  by unfold_locales (auto simp: same_record_def intro: same_record_redis)

lemma record_kept: "\<not> acts c \<Longrightarrow> moves same_record (rest_handler app c)"
proof (cases "sets_controls c")
  case True
  then show ?thesis
    by (cases c) (auto simp: ok_def intro!: recorded.rules same_record_redis)
qed (rule recorded.reading_calls)

lemma check_record: "moves same_record (rest_check app c key)"
  unfolding rest_check_def verify_admin_api_key_def verify_gateway_api_key_def Let_def
  by (auto intro!: recorded.rules same_record_redis)

text \<open>The keys of the store but the counters of the calls are the same.\<close>

definition same_keys ::
  "('r \<Rightarrow> string \<Rightarrow> rtext option) \<Rightarrow> string \<Rightarrow> ('r, 'd, 'm) world_scheme \<Rightarrow> ('r, 'd, 'm) world_scheme \<Rightarrow> bool" where
  "same_keys live key w w' =
     (\<forall>k. (\<forall>b. k \<noteq> rate_limit_key key b) \<longrightarrow> live (w_redis w') k = live (w_redis w) k)"

interpretation same_keys: frame "same_keys live key" for live key
  by unfold_locales (auto simp: same_keys_def)

lemma same_keys_redis:
  "(\<And>s r s' k. m s = (r, s') \<Longrightarrow> (\<And>b. k \<noteq> rate_limit_key key b) \<Longrightarrow> live s' k = live s k) \<Longrightarrow>
     moves (same_keys live key) (on_redis m)"
  by (auto simp: moves_def same_keys_def on_redis_def split: prod.split)

lemma app_reads:
  assumes "redis (ra_ops app) live"
  shows "serving (same_keys live key) (app_tools app) app"
  by unfold_locales
    (auto intro!: same_keys_redis simp: same_keys_def
      dest: redis.get_live [OF assms] redis.xlen_live [OF assms] redis.xinfo_live [OF assms] redis.exists_live [OF assms])

lemma check_keys:
  assumes "redis (ra_ops app) live"
  shows "moves (same_keys live key) (rest_check app c key)"
  using redis.expire_live [OF assms, of _ 120]
  unfolding rest_check_def verify_admin_api_key_def verify_gateway_api_key_def Let_def
  by (auto intro!: same_keys.rules same_keys_redis dest: redis.incr_live [OF assms])

lemma detail_moves: "frame R \<Longrightarrow> moves R (http_detail e)"
  unfolding http_detail_def by (auto split: exn.split intro: frame.rules)

lemma served_moves:
  "frame R \<Longrightarrow> moves R (rest_check app c key) \<Longrightarrow> moves R (rest_handler app c) \<Longrightarrow> moves R (rest_serve app c key)"
  unfolding rest_serve_def by (intro frame.rules detail_moves)

text \<open>
  C37: Whatever Redis and the database do, a call without its key (that of operators for the endpoints under ops, that of
  clients for the others) is answered 401 and changes nothing at all; only a paper trade and a change of state touch
  the tables or the streams; and every call but these and the two that set controls leaves all keys of the store as
  they were, except the counters of calls.
\<close>

theorem rest_calls_keep_to_their_rights:
  assumes "redis (ra_ops app) live" "rest_serve app c key w = (r, w')"
  shows "(key \<noteq> right_key (ra_settings app) c \<longrightarrow> (\<exists>d. r = Inr (401, d)) \<and> w' = w) \<and>
    (\<not> acts c \<longrightarrow> w_db w' = w_db w \<and> w_trace w' = w_trace w) \<and>
    (\<not> acts c \<and> \<not> sets_controls c \<longrightarrow>
       (\<forall>k. (\<forall>b. k \<noteq> rate_limit_key key b) \<longrightarrow> live (w_redis w') k = live (w_redis w) k))"
proof -
  have "(\<exists>d. r = Inr (401, d)) \<and> w' = w" if "key \<noteq> right_key (ra_settings app) c"
    using wrong_key [OF that, of w] assms(2) by auto
  moreover have "same_record w w'" if "\<not> acts c"
    using served_moves [OF recorded.frame_axioms check_record record_kept [OF that]] assms(2)
    by (rule movesD)
  moreover have "same_keys live key w w'" if "\<not> acts c" "\<not> sets_controls c"
    using served_moves [OF same_keys.frame_axioms check_keys [OF assms(1)]
        serving.reading_calls [OF app_reads [OF assms(1)] that]] assms(2)
    by (rule movesD)
  ultimately show ?thesis by (auto simp: same_keys_def same_record_def)
qed

section \<open>The limit of calls\<close>

text \<open>
  \<open>minute_calls ops live cfg b n w\<close>: the minute \<open>b\<close> began without a counter, since then \<open>n\<close> calls were let
  through, and \<open>w\<close> is the world now.  Between the calls anything happens that leaves the counter alone.
\<close>

inductive minute_calls ::
  "'r redis_ops \<Rightarrow> ('r \<Rightarrow> string \<Rightarrow> rtext option) \<Rightarrow> api_settings \<Rightarrow> int \<Rightarrow> nat \<Rightarrow> ('r, strategy_db, 'm) world_scheme \<Rightarrow> bool"
  for ops live cfg b where
    minute_begins: "live (w_redis w) (rate_limit_key (gs_gateway_api_key cfg) b) = None \<Longrightarrow> minute_calls ops live cfg b 0 w"
  | meanwhile: "minute_calls ops live cfg b n w \<Longrightarrow>
      live (w_redis w') (rate_limit_key (gs_gateway_api_key cfg) b) = live (w_redis w) (rate_limit_key (gs_gateway_api_key cfg) b) \<Longrightarrow>
      minute_calls ops live cfg b n w'"
  | let_through: "minute_calls ops live cfg b n w \<Longrightarrow> minute_of (w_now w) = b \<Longrightarrow>
      verify_gateway_api_key ops cfg key w = (Inr k, w') \<Longrightarrow> minute_calls ops live cfg b (Suc n) w'"
  | refused: "minute_calls ops live cfg b n w \<Longrightarrow> minute_of (w_now w) = b \<Longrightarrow>
      verify_gateway_api_key ops cfg key w = (Inl e, w') \<Longrightarrow> minute_calls ops live cfg b n w'"

text \<open>The counter is at least the number of calls let through.\<close>

definition counts_calls :: "int \<Rightarrow> nat \<Rightarrow> rtext option \<Rightarrow> bool" where
  "counts_calls limit n t =
     (int n \<le> max 0 limit \<and> (t = None \<and> n = 0 \<or> (\<exists>c. t = Some (Raw (show_int c)) \<and> int n \<le> c)))"

lemma check_counts:
  fixes w :: "('r, strategy_db, 'm) world_scheme"
  assumes "redis ops live" "verify_gateway_api_key ops cfg key w = (r, w')"
    "counts_calls (gs_rate_limit_requests_per_min cfg) n (live (w_redis w) k)"
    "k = rate_limit_key (gs_gateway_api_key cfg) (minute_of (w_now w))"
  shows "counts_calls (gs_rate_limit_requests_per_min cfg) (case r of Inl _ \<Rightarrow> n | Inr _ \<Rightarrow> Suc n) (live (w_redis w') k)"
proof (cases "key = gs_gateway_api_key cfg")
  case False
  then show ?thesis using assms(2,3) by (auto simp: verify_gateway_api_key_def mraise_def)
next
  case True
  obtain ri s where incr: "r_incr ops k (w_redis w) = (ri, s)" by fastforce
  have expired: "live s' = live s" if "r_expire ops k 120 s = (ru, s')" for ru s'
    using redis.expire_live [OF assms(1) that] by simp
  show ?thesis
  proof (cases ri)
    case (Inl e)
    then have "w' = w\<lparr>w_redis := s\<rparr>" "r = Inl e"
      using True assms(2,4) incr by (auto simp: verify_gateway_api_key_def Let_def mbind_def mget_def on_redis_def)
    then show ?thesis
      using assms(3) redis.incr_fails [OF assms(1) incr [unfolded Inl]] by (fastforce simp: counts_calls_def)
  next
    case (Inr m)
    have now: "live s k = Some (Raw (show_int m))" "int n < m"
      using redis.incr_live [OF assms(1) incr] Inr assms(3) by (auto simp: counts_calls_def)
    have "live (w_redis w') k = live s k \<and> (\<forall>x. r = Inr x \<longrightarrow> m \<le> gs_rate_limit_requests_per_min cfg)"
      using True assms(2,4) incr Inr expired
      by (auto simp: verify_gateway_api_key_def Let_def mseq_def mbind_def mget_def mret_def mraise_def on_redis_def
          split: prod.splits sum.splits if_splits)
    then show ?thesis using now assms(3) by (auto simp: counts_calls_def split: sum.split)
  qed
qed

text \<open>
  C38: In each minute at most as many calls as the limit says are let through, whatever Redis does within its laws (lost
  answers included), however the calls interleave with other work, and whatever keys the refused calls came with.
\<close>

theorem minute_lets_the_limit_through:
  assumes "redis ops live" "minute_calls ops live cfg b n w"
  shows "int n \<le> max 0 (gs_rate_limit_requests_per_min cfg)"
proof -
  have "counts_calls (gs_rate_limit_requests_per_min cfg) n (live (w_redis w) (rate_limit_key (gs_gateway_api_key cfg) b))"
    using assms(2)
  proof induction
    case (let_through n w key k w')
    then show ?case using check_counts [OF assms(1) let_through(3)] by auto
  next
    case (refused n w key e w')
    then show ?case using check_counts [OF assms(1) refused(3)] by auto
  qed (auto simp: counts_calls_def)
  then show ?thesis by (simp add: counts_calls_def)
qed

section \<open>Answers that are never given\<close>

text \<open>The facade always finds something to say about a symbol, so the route never answers that there is no snapshot.\<close>

lemma snapshot_is_an_object:
  assumes "mcp_symbol_snapshot ops env mt sy w = (Inr j, w')"
  shows "j \<noteq> JNull"
  using assms
  by (auto simp: mcp_symbol_snapshot_def assembled_snapshot_def Let_def mbind_def mret_def mraise_def
      split: prod.splits sum.splits option.splits json.splits)

text \<open>A paper trade for a strategy that does not exist is a bad request, not one for something not found.\<close>

lemma unknown_strategy_is_a_bad_request:
  assumes "parse_uuid (pq_strategy_id body) = Some sid" "pq_side body = ''BUY''" "pq_size body = Some x"
    "find_strategy sid (w_db w) = None" "\<not> e_db_down env (w_sessions w)"
  shows "\<exists>d w'. paper_trade ops env body w = (Inr (400, d), w')"
proof -
  have "side_of (upper ''BUY'') = Inr BUY" by code_simp
  then show ?thesis
    using assms
    by (auto simp: paper_trade_def request_paper_trade_def uuid_of_def upper_text_def mbind_def mlift_def mret_def query_def
        session_def error_answer_def dict_get_def trade_status_def)
qed

section \<open>A concrete application\<close>

definition demo_app :: "mem_redis rest_app" where
  "demo_app =
     \<lparr>ra_ops = mem_ops, ra_env = demo_env, ra_settings = default_api_settings\<lparr>gs_rate_limit_requests_per_min := 1\<rparr>,
      ra_parse_snapshot = (\<lambda>_. Inl ValidationError), ra_updated_at = (\<lambda>_. None),
      ra_registry = \<lparr>mx_counters = [], mx_gauges = []\<rparr>\<rparr>"

lemma demo_app_sel [simp]:
  "ra_ops demo_app = mem_ops" "gs_gateway_api_key (ra_settings demo_app) = ''change-me-gateway-key''"
  "gs_admin_api_key (ra_settings demo_app) = ''change-me-admin-key''"
  "gs_rate_limit_requests_per_min (ra_settings demo_app) = 1"
  by (simp_all add: demo_app_def default_api_settings_def)

text \<open>The key of a client does not open the endpoints of operators; that of operators does, and reading them changes nothing.\<close>

lemma rest_calls_keep_to_their_rights_witness:
  "snd (rest_serve demo_app OpsGetMode ''change-me-gateway-key'' demo_mcp_world) = demo_mcp_world \<and>
   w_db (snd (rest_serve demo_app OpsGetMode ''change-me-admin-key'' demo_mcp_world)) = w_db demo_mcp_world"
proof -
  have ops: "redis (ra_ops demo_app) mem_live" by (simp add: mem.redis_axioms)
  obtain r w' where run: "rest_serve demo_app OpsGetMode ''change-me-gateway-key'' demo_mcp_world = (r, w')" by fastforce
  obtain r2 w2 where run2: "rest_serve demo_app OpsGetMode ''change-me-admin-key'' demo_mcp_world = (r2, w2)" by fastforce
  show ?thesis
    using rest_calls_keep_to_their_rights [OF ops run] rest_calls_keep_to_their_rights [OF ops run2] run run2
    by (simp add: right_key_def)
qed

lemma demo_counter: "mr_kv demo_store (rate_limit_key key b) = None"
  by (simp add: demo_store_def mem_put_def empty_mem_def rate_limit_key_def analytics_snapshot_key_def key2_def mcp_session_key_def)

text \<open>With a limit of one the first call of a minute is let through, and the second is not.\<close>

lemma demo_first_call:
  "verify_gateway_api_key mem_ops (ra_settings demo_app) ''change-me-gateway-key'' demo_mcp_world =
     (Inr ''change-me-gateway-key'', demo_mcp_world\<lparr>w_redis :=
        mem_put (rate_limit_key ''change-me-gateway-key'' 28333333) (Raw (show_int 1)) (Some 120)
          (mem_put (rate_limit_key ''change-me-gateway-key'' 28333333) (Raw (show_int 1)) None demo_store)\<rparr>)"
  using demo_counter
  by (simp add: verify_gateway_api_key_def Let_def minute_of_def mseq_def mbind_def mget_def mret_def on_redis_def mem_ops_def
      mem_cmd_def mem_incr_def mem_expiry_def mem_live_def mem_put_def)

lemma minute_lets_the_limit_through_witness:
  "int 1 \<le> max 0 (gs_rate_limit_requests_per_min (ra_settings demo_app))"
proof -
  have "minute_calls mem_ops mem_live (ra_settings demo_app) 28333333 0 demo_mcp_world"
    by (rule minute_begins) (simp add: mem_live_def demo_counter)
  then have "minute_calls mem_ops mem_live (ra_settings demo_app) 28333333 (Suc 0)
      (demo_mcp_world\<lparr>w_redis :=
        mem_put (rate_limit_key ''change-me-gateway-key'' 28333333) (Raw (show_int 1)) (Some 120)
          (mem_put (rate_limit_key ''change-me-gateway-key'' 28333333) (Raw (show_int 1)) None demo_store)\<rparr>)"
    by (rule let_through [OF _ _ demo_first_call]) (simp add: minute_of_def)
  then have "int (Suc 0) \<le> max 0 (gs_rate_limit_requests_per_min (ra_settings demo_app))"
    by (rule minute_lets_the_limit_through [OF mem.redis_axioms])
  then show ?thesis by simp
qed

end
