(* ===== verification/Credentials.thy ===== *)
theory Credentials
  imports AccountContext JsonText Listener Normalizer
begin

text \<open>
  Access to exchange accounts: the encrypted credentials (\<open>shared/crypto/credentials.py\<close>,
  \<open>services/execution/credentials.py\<close>, \<open>account/credential_store.py\<close>, \<open>decrypt_credentials\<close> of
  \<open>account/context.py\<close>), the connectivity check (\<open>account/connectivity.py\<close>), the reader of account state
  (\<open>account/state_reader.py\<close>) and the start of the streams (\<open>account_stream/manager.py\<close>).  The cipher, the
  digest and the random source are arguments; bytes are lists of numbers below 256.
\<close>

section \<open>Bytes and texts\<close>

type_synonym bytes = "nat list"

definition are_bytes :: "bytes \<Rightarrow> bool" where
  "are_bytes bs = list_all (\<lambda>n. n < 256) bs"

text \<open>\<open>base64.b64encode\<close> and \<open>b64decode\<close>, which skips the two characters of the other alphabet.\<close>

definition std_digit :: "char \<Rightarrow> char" where
  "std_digit c = (if c = CHR ''-'' then CHR ''+'' else if c = CHR ''_'' then CHR ''/'' else c)"

definition b64encode :: "bytes \<Rightarrow> string" where
  "b64encode bs = map std_digit (b64_bytes bs) @ b64_pad (length bs)"

definition ascii_text :: "string \<Rightarrow> bool" where
  "ascii_text s = list_all (\<lambda>c. byte c < 128) s"

definition b64decode :: "string \<Rightarrow> exn + bytes" where
  "b64decode s =
     (if \<not> ascii_text s then Inl ValueError
      else case a2b 0 0 0 (filter (\<lambda>c. c \<noteq> CHR ''-'' \<and> c \<noteq> CHR ''_'') s) of None \<Rightarrow> Inl ValueError | Some bs \<Rightarrow> Inr bs)"

definition urlsafe_b64decode :: "string \<Rightarrow> exn + bytes" where
  "urlsafe_b64decode s =
     (if \<not> ascii_text s then Inl ValueError else case a2b 0 0 0 s of None \<Rightarrow> Inl ValueError | Some bs \<Rightarrow> Inr bs)"

text \<open>\<open>encode("utf-8")\<close> and \<open>decode("utf-8")\<close> of the texts of the model.\<close>

definition utf8 :: "string \<Rightarrow> bytes" where
  "utf8 s = map byte s"

definition text_of_bytes :: "bytes \<Rightarrow> exn + string" where
  "text_of_bytes bs = (if list_all (\<lambda>n. n < 128) bs then Inr (map char_of bs) else Inl ValueError)"

section \<open>Ciphers\<close>

text \<open>\<open>AESGCM(key).encrypt(nonce, data, None)\<close> and \<open>decrypt\<close>, \<open>sha256(s).digest()\<close>, \<open>os.urandom(12)\<close>.\<close>

record crypto =
  cr_seal :: "bytes \<Rightarrow> bytes \<Rightarrow> bytes \<Rightarrow> bytes"
  cr_open :: "bytes \<Rightarrow> bytes \<Rightarrow> bytes \<Rightarrow> bytes option"
  cr_digest :: "string \<Rightarrow> bytes"
  cr_urandom12 :: "nat \<Rightarrow> bytes"

definition urandom12 :: "crypto \<Rightarrow> ('r, 'd, 'm, bytes) act" where
  "urandom12 cr w = (Inr (cr_urandom12 cr (w_uuids w)), w\<lparr>w_uuids := Suc (w_uuids w)\<rparr>)"

definition get_encryption_key :: "string \<Rightarrow> exn + bytes" where
  "get_encryption_key key_b64 =
     (let padding = (if length key_b64 mod 4 = 0 then [] else replicate (4 - length key_b64 mod 4) CHR ''='') in
      ebind (urlsafe_b64decode (key_b64 @ padding)) (\<lambda>raw.
        if length raw < 32 then Inl ValueError else Inr (take 32 raw)))"

definition encrypt :: "crypto \<Rightarrow> string \<Rightarrow> bytes \<Rightarrow> ('r, 'd, 'm, string \<times> string) act" where
  "encrypt cr plaintext key =
     mbind (urandom12 cr) (\<lambda>nonce. mret (b64encode (cr_seal cr key nonce (utf8 plaintext)), b64encode nonce))"

definition decrypt :: "crypto \<Rightarrow> string \<Rightarrow> string \<Rightarrow> bytes \<Rightarrow> exn + string" where
  "decrypt cr ciphertext_b64 nonce_b64 key =
     ebind (b64decode ciphertext_b64) (\<lambda>ciphertext.
     ebind (b64decode nonce_b64) (\<lambda>nonce.
       case cr_open cr key nonce ciphertext of None \<Rightarrow> Inl DecryptError | Some bs \<Rightarrow> text_of_bytes bs))"

text \<open>The other pair of functions derives its key from the secret of the service.\<close>

definition derive_key :: "crypto \<Rightarrow> string \<Rightarrow> bytes" where
  "derive_key cr secret_key = cr_digest cr secret_key"

definition encrypt_credential :: "crypto \<Rightarrow> string \<Rightarrow> string \<Rightarrow> ('r, 'd, 'm, string \<times> string) act" where
  "encrypt_credential cr plaintext secret_key =
     mbind (urandom12 cr) (\<lambda>iv. mret (b64encode (cr_seal cr (derive_key cr secret_key) iv (utf8 plaintext)), b64encode iv))"

definition decrypt_credential :: "crypto \<Rightarrow> string \<Rightarrow> string \<Rightarrow> string \<Rightarrow> exn + string" where
  "decrypt_credential cr ciphertext_b64 iv_b64 secret_key =
     (case
        ebind (b64decode iv_b64) (\<lambda>iv. ebind (b64decode ciphertext_b64) (\<lambda>ct.
          case cr_open cr (derive_key cr secret_key) iv ct of None \<Rightarrow> Inl DecryptError | Some bs \<Rightarrow> text_of_bytes bs))
      of Inl _ \<Rightarrow> Inl ValueError | Inr s \<Rightarrow> Inr s)"

section \<open>The store of credentials\<close>

text \<open>A key that cannot be read counts as none.\<close>

definition store_key :: "string \<Rightarrow> bytes option" where
  "store_key encryption_key_b64 =
     (if encryption_key_b64 = [] then None else the_ok (get_encryption_key encryption_key_b64))"

definition is_configured :: "bytes option \<Rightarrow> bool" where
  "is_configured key = (key \<noteq> None)"

definition require_key :: "bytes option \<Rightarrow> exn + bytes" where
  "require_key key = (case key of None \<Rightarrow> Inl (RuntimeError ''CREDENTIAL_ENCRYPTION_KEY is not configured'') | Some k \<Rightarrow> Inr k)"

definition find_credential :: "uuid \<Rightarrow> exec_db \<Rightarrow> credential_row option" where
  "find_credential a d = find (\<lambda>c. cd_account_id c = a) (d_credentials d)"

definition put_credential :: "uuid \<Rightarrow> string \<Rightarrow> string \<Rightarrow> string \<Rightarrow> exec_db \<Rightarrow> exn + exec_db" where
  "put_credential a enc_k enc_s iv d =
     ebind (varchars [(64, iv)]) (\<lambda>_.
     if find_credential a d \<noteq> None
     then Inr (d\<lparr>d_credentials := map (\<lambda>c. if cd_account_id c = a
            then c\<lparr>cd_encrypted_key := enc_k, cd_encrypted_secret := enc_s, cd_iv := iv\<rparr> else c) (d_credentials d)\<rparr>)
     else if \<not> has_account d a then Inl (IntegrityError ''api_credentials_ref_account_id'')
     else Inr (d\<lparr>d_credentials := d_credentials d @
            [\<lparr>cd_account_id = a, cd_credential_type = ''hmac'', cd_encrypted_key = enc_k, cd_encrypted_secret = enc_s, cd_iv = iv\<rparr>]\<rparr>))"

definition credentials_save ::
  "crypto \<Rightarrow> env \<Rightarrow> bytes option \<Rightarrow> uuid \<Rightarrow> string \<Rightarrow> string \<Rightarrow> ('r, exec_db, 'm, unit) act" where
  "credentials_save cr env key account_id api_key api_secret =
     mbind (mlift (require_key key)) (\<lambda>k.
     mbind (encrypt cr api_key k) (\<lambda>(enc_k, iv_k).
     mbind (encrypt cr api_secret k) (\<lambda>(enc_s, iv_s).
       session env (\<lambda>d. ebind (put_credential account_id enc_k enc_s (iv_k @ ''|'' @ iv_s) d) (\<lambda>d'. Inr ((), d'))))))"

text \<open>\<open>ref.iv.split("|", 1)\<close>; without the separator both texts have the same nonce.\<close>

definition iv_parts :: "string \<Rightarrow> string \<times> string" where
  "iv_parts iv =
     (let k = takeWhile (\<lambda>c. c \<noteq> CHR ''|'') iv in
      (k, case dropWhile (\<lambda>c. c \<noteq> CHR ''|'') iv of [] \<Rightarrow> k | _ # s \<Rightarrow> s))"

definition read_credential :: "crypto \<Rightarrow> bytes \<Rightarrow> credential_row \<Rightarrow> exn + string \<times> string" where
  "read_credential cr key c =
     (let (iv_k, iv_s) = iv_parts (cd_iv c) in
      ebind (decrypt cr (cd_encrypted_key c) iv_k key) (\<lambda>a. ebind (decrypt cr (cd_encrypted_secret c) iv_s key) (\<lambda>b. Inr (a, b))))"

definition credentials_get ::
  "crypto \<Rightarrow> env \<Rightarrow> bytes option \<Rightarrow> uuid \<Rightarrow> ('r, exec_db, 'm, (string \<times> string) option) act" where
  "credentials_get cr env key account_id =
     mbind (mlift (require_key key)) (\<lambda>k.
     mbind (query env (find_credential account_id)) (\<lambda>row.
       mret (case row of None \<Rightarrow> None | Some c \<Rightarrow> the_ok (read_credential cr k c))))"

definition credentials_delete :: "env \<Rightarrow> uuid \<Rightarrow> ('r, exec_db, 'm, unit) act" where
  "credentials_delete env account_id =
     session env (\<lambda>d. Inr ((), d\<lparr>d_credentials := filter (\<lambda>c. cd_account_id c \<noteq> account_id) (d_credentials d)\<rparr>))"

definition has_credentials :: "env \<Rightarrow> uuid \<Rightarrow> ('r, exec_db, 'm, bool) act" where
  "has_credentials env account_id = query env (\<lambda>d. find_credential account_id d \<noteq> None)"

text \<open>The loader of account contexts reads the same rows with the other functions and one nonce.\<close>

definition decrypt_credentials ::
  "crypto \<Rightarrow> env \<Rightarrow> string \<Rightarrow> string \<Rightarrow> ('r, exec_db, 'm, (string \<times> string) option) act" where
  "decrypt_credentials cr env secret_key account_id =
     (if secret_key = [] then mret None
      else case parse_uuid account_id of
        None \<Rightarrow> mret None
      | Some a \<Rightarrow>
          mbind (query env (find_credential a)) (\<lambda>row. mret (case row of
            None \<Rightarrow> None
          | Some c \<Rightarrow> the_ok
              (ebind (decrypt_credential cr (cd_encrypted_key c) (cd_iv c) secret_key) (\<lambda>k.
               ebind (decrypt_credential cr (cd_encrypted_secret c) (cd_iv c) secret_key) (\<lambda>s. Inr (k, s)))))))"

section \<open>Connectivity\<close>

text \<open>What the HTTP client comes back with, and the milliseconds it took.\<close>

datatype http_reply = HttpReply int "exn + json" string | HttpTimeout | HttpFailure string

record connectivity_result =
  cn_status :: string
  cn_code :: "int option"
  cn_message :: json
  cn_latency_ms :: int

definition account_path :: "string \<Rightarrow> string" where
  "account_path market_type = (if market_type = ''futures'' then ''/fapi/v2/account'' else ''/api/v3/account'')"

definition account_request :: "env \<Rightarrow> string \<Rightarrow> int \<Rightarrow> (string \<times> json) list" where
  "account_request env api_secret now =
     (let params = [(''timestamp'', JInt now), (''recvWindow'', JInt 5000)] in
      params @ [(''signature'', JStr (e_hmac env api_secret (''timestamp='' @ show_int now @ ''&recvWindow=5000'')))])"

definition status_of_code :: "int \<Rightarrow> string" where
  "status_of_code code =
     (if code = - 2014 \<or> code = - 1022 then ''auth_error''
      else if code = - 1021 then ''timestamp_error''
      else if code = - 2015 then ''ip_restricted''
      else if code = - 2012 then ''perm_error''
      else ''auth_error'')"

text \<open>The error code of the exchange; an answer that is no such JSON has the status and the text of the response.\<close>

definition error_of :: "int \<Rightarrow> exn + json \<Rightarrow> string \<Rightarrow> int \<times> json" where
  "error_of status body content =
     (case ebind body (\<lambda>b. ebind (obj_get b ''code'' (JInt status)) (\<lambda>c. ebind (py_int c) (\<lambda>n.
             ebind (obj_get b ''msg'' (JStr [])) (\<lambda>m. Inr (n, m))))) of
        Inr p \<Rightarrow> p
      | Inl _ \<Rightarrow> (status, JStr (if content = [] then ''unknown error'' else content)))"

definition check_account_connectivity ::
  "env \<Rightarrow> (string \<Rightarrow> (string \<times> json) list \<Rightarrow> string \<Rightarrow> http_reply \<times> int) \<Rightarrow> string \<Rightarrow> string \<Rightarrow> string \<Rightarrow>
   ('r, 'd, 'm, connectivity_result) act" where
  "check_account_connectivity env http api_key api_secret market_type =
     mbind (mget w_now) (\<lambda>now.
     case http (account_path market_type) (account_request env api_secret now) api_key of (reply, latency) \<Rightarrow>
       mret (case reply of
         HttpReply status body content \<Rightarrow>
           if status = 200 then \<lparr>cn_status = ''connected'', cn_code = Some 200, cn_message = JStr ''OK'', cn_latency_ms = latency\<rparr>
           else (case error_of status body content of (code, msg) \<Rightarrow>
             \<lparr>cn_status = status_of_code code, cn_code = Some code, cn_message = msg, cn_latency_ms = latency\<rparr>)
       | HttpTimeout \<Rightarrow> \<lparr>cn_status = ''network_error'', cn_code = None, cn_message = JStr ''timeout'', cn_latency_ms = latency\<rparr>
       | HttpFailure msg \<Rightarrow> \<lparr>cn_status = ''network_error'', cn_code = None, cn_message = JStr msg, cn_latency_ms = latency\<rparr>))"

definition INCIDENT_TYPE_MAP :: "(string \<times> string) list" where
  "INCIDENT_TYPE_MAP =
     [(''auth_error'', ''auth_key_invalid''), (''ip_restricted'', ''auth_ip_restricted''), (''perm_error'', ''auth_perm_error''),
      (''timestamp_error'', ''auth_timestamp_drift''), (''network_error'', ''connectivity_network_error'')]"

definition set_connection :: "uuid \<Rightarrow> string \<Rightarrow> int \<Rightarrow> exec_db \<Rightarrow> exec_db" where
  "set_connection a status now d =
     d\<lparr>d_accounts := map (\<lambda>r. if ac_id r = a
        then r\<lparr>ac_connection_status := status, ac_last_connectivity_check_ms := Some now\<rparr> else r) (d_accounts d)\<rparr>"

definition connectivity_incident :: "env \<Rightarrow> uuid \<Rightarrow> string \<Rightarrow> connectivity_result \<Rightarrow> incident_row" where
  "connectivity_incident env account_id market_type r =
     (let status = cn_status r in
      incident (case map_of INCIDENT_TYPE_MAP status of None \<Rightarrow> ''connectivity_unknown'' | Some t \<Rightarrow> t)
        (if status \<in> {''auth_error'', ''ip_restricted'', ''perm_error''} then ''error'' else ''warning'')
        (''Exchange connectivity check failed ['' @ status @ '']: '' @ str_of env (cn_message r)) None None
        [(''account_id'', JStr account_id), (''market_type'', JStr market_type), (''error_code'', opt_json JInt (cn_code r)),
         (''error_message'', cn_message r), (''latency_ms'', JInt (cn_latency_ms r))])"

definition check_and_persist ::
  "env \<Rightarrow> (string \<Rightarrow> (string \<times> json) list \<Rightarrow> string \<Rightarrow> http_reply \<times> int) \<Rightarrow> bool \<Rightarrow> uuid \<Rightarrow> string \<Rightarrow> string \<Rightarrow> string \<Rightarrow>
   ('r, exec_db, 'm, connectivity_result) act" where
  "check_and_persist env http has_logger account_id api_key api_secret market_type =
     mbind (mget w_now) (\<lambda>now.
     mbind (check_account_connectivity env http api_key api_secret market_type) (\<lambda>r.
     mseq (mlogged (session env (\<lambda>d. Inr ((), set_connection account_id (cn_status r) now d))))
     (mseq (mwhen (cn_status r \<noteq> ''connected'' \<and> has_logger)
             (mlogged (log_incident env (connectivity_incident env account_id market_type r))))
       (mret r))))"

section \<open>Account state from Redis\<close>

definition stored_positions :: "rtext \<Rightarrow> exn + json list" where
  "stored_positions raw = ebind (json_loads raw) (\<lambda>data. ebind (obj_get data ''positions'' (JArr [])) list_items)"

definition state_reader :: "'r redis_ops \<Rightarrow> string \<Rightarrow> (json list \<Rightarrow> exn + 'a) \<Rightarrow> ('r, 'd, 'm, 'a option) act" where
  "state_reader ops user_id f =
     mbind (on_redis (r_get ops (account_positions_key user_id))) (\<lambda>raw.
       mret (if text_truthy raw then (case raw of None \<Rightarrow> None | Some t \<Rightarrow> the_ok (ebind (stored_positions t) f)) else None))"

definition get_open_position_count :: "'r redis_ops \<Rightarrow> string \<Rightarrow> ('r, 'd, 'm, int option) act" where
  "get_open_position_count ops user_id =
     state_reader ops user_id (\<lambda>ps.
       ebind (efilter (\<lambda>p. ebind (obj_get p ''position_amt'' (JStr ''0'')) (\<lambda>v. ebind (py_float v) (\<lambda>x. Inr (x \<noteq> 0)))) ps)
         (\<lambda>kept. Inr (int (length kept))))"

fun add_realized :: "env \<Rightarrow> rat \<Rightarrow> json list \<Rightarrow> exn + rat" where
  "add_realized env acc [] = Inr acc"
| "add_realized env acc (p # ps) =
     ebind (obj_get p ''accumulated_realized'' (JStr ''0'')) (\<lambda>v. ebind (dec_of_str env v) (\<lambda>x.
       add_realized env (dec (acc + x)) ps))"

definition get_accumulated_realized_pnl :: "'r redis_ops \<Rightarrow> env \<Rightarrow> string \<Rightarrow> ('r, 'd, 'm, rat option) act" where
  "get_accumulated_realized_pnl ops env user_id = state_reader ops user_id (add_realized env 0)"

section \<open>The streams of the accounts\<close>

record 'r stream_manager =
  sm_enabled :: bool
  sm_key :: "bytes option"
  sm_crypto :: crypto
  sm_env :: env
  sm_ops :: "'r redis_ops"
  sm_has_incident_logger :: bool
  sm_stop :: "uuid \<Rightarrow> nat \<Rightarrow> bool"

definition account_listener :: "'r stream_manager \<Rightarrow> account_row \<Rightarrow> string \<times> string \<Rightarrow> 'r listener" where
  "account_listener sm a creds =
     \<lparr>li_account = ac_id a, li_api_key = fst creds, li_api_secret = snd creds,
      li_market_type = (if ac_venue a = ''binance_futures'' then ''futures'' else ''spot''),
      li_ops = sm_ops sm, li_env = sm_env sm, li_has_incident_logger = sm_has_incident_logger sm,
      li_stop = sm_stop sm (ac_id a)\<rparr>"

text \<open>The credentials are read twice, and the second answer is the one that is used.\<close>

definition start_stream ::
  "'r stream_manager \<Rightarrow> account_row \<Rightarrow> ('r, exec_db, 'm, (string \<times> 'r listener) option) act" where
  "start_stream sm a =
     mbind (credentials_get (sm_crypto sm) (sm_env sm) (sm_key sm) (ac_id a)) (\<lambda>creds.
     case creds of None \<Rightarrow> mret None | Some _ \<Rightarrow>
       mbind (credentials_get (sm_crypto sm) (sm_env sm) (sm_key sm) (ac_id a)) (\<lambda>creds_full.
         mret (map_option (\<lambda>c. (ac_id a, account_listener sm a c)) creds_full)))"

definition start_streams :: "'r stream_manager \<Rightarrow> ('r, exec_db, 'm, (string \<times> 'r listener) list) act" where
  "start_streams sm =
     (if \<not> sm_enabled sm then mret []
      else if \<not> is_configured (sm_key sm) then mret []
      else mbind (query (sm_env sm) (\<lambda>d. filter ac_is_active (d_accounts d))) (\<lambda>accounts.
           mbind (mcollect (start_stream sm) accounts) (\<lambda>ls. mret (List.map_filter id ls))))"

end
