(* ===== verification/CredentialProperties.thy ===== *)
theory CredentialProperties
  imports Credentials Demo
begin

text \<open>
  Stored credentials read back as what was stored, for every cipher that opens what it sealed; the loader of account
  contexts cannot read them; and a failed connectivity check is recorded with the account and as an incident.
\<close>

section \<open>Base64\<close>

lemma std_value [simp]: "b64_value (std_digit c) = b64_value c" "(std_digit c = CHR ''='') = (c = CHR ''='')"
  by (auto simp: std_digit_def b64_value_def byte_special Let_def)

lemma a2b_std: "a2b q left pads (map std_digit s @ t) = a2b q left pads (s @ t)"
  by (induction s arbitrary: q left pads) (auto split: option.split)

lemma b64_bytes_values: "list_all (\<lambda>n. n < 256) bs \<Longrightarrow> c \<in> set (b64_bytes bs) \<Longrightarrow> b64_value c \<noteq> None"
  by (induction bs rule: b64_bytes.induct) (auto simp: sextets b64_value_digit)

lemma std_digit_chars: "b64_value c \<noteq> None \<Longrightarrow> std_digit c \<notin> {CHR ''-'', CHR ''_'', CHR ''|''}"
  by (auto simp: std_digit_def b64_value_def Let_def byte_def split: if_splits)

lemma b64encode_chars: "are_bytes bs \<Longrightarrow> c \<in> set (b64encode bs) \<Longrightarrow> c \<notin> {CHR ''-'', CHR ''_'', CHR ''|''}"
  using std_digit_chars b64_bytes_values [of bs] by (force simp: b64encode_def are_bytes_def b64_pad_def split: if_splits)

lemma b64encode_ascii: "are_bytes bs \<Longrightarrow> ascii_text (b64encode bs)"
  using b64_bytes_ascii [of bs]
  by (auto simp: b64encode_def are_bytes_def ascii_text_def b64_pad_def std_digit_def byte_special list_all_iff)

lemma b64_round_trip:
  assumes "are_bytes bs"
  shows "b64decode (b64encode bs) = Inr bs"
proof -
  have "filter (\<lambda>c. c \<noteq> CHR ''-'' \<and> c \<noteq> CHR ''_'') (b64encode bs) = b64encode bs"
    using b64encode_chars [OF assms] by (auto simp: filter_id_conv)
  then show ?thesis
    using b64encode_ascii [OF assms] a2b_b64_bytes [of bs 0 0] assms
    by (simp add: b64decode_def b64encode_def a2b_std are_bytes_def)
qed

lemma utf8_round_trip: "ascii_text s \<Longrightarrow> text_of_bytes (utf8 s) = Inr s"
  by (auto simp: text_of_bytes_def utf8_def ascii_text_def byte_def list_all_iff intro!: map_idI)

lemma utf8_bytes: "ascii_text s \<Longrightarrow> are_bytes (utf8 s)"
  by (auto simp: are_bytes_def utf8_def byte_def ascii_text_def list_all_iff)

lemma iv_parts_joined:
  assumes "are_bytes n1"
  shows "iv_parts (b64encode n1 @ ''|'' @ s) = (b64encode n1, s)"
proof -
  have "CHR ''|'' \<notin> set (b64encode n1)" using b64encode_chars [OF assms] by blast
  then have "takeWhile (\<lambda>c. c \<noteq> CHR ''|'') (b64encode n1 @ ''|'' @ s) = b64encode n1"
      "dropWhile (\<lambda>c. c \<noteq> CHR ''|'') (b64encode n1 @ ''|'' @ s) = ''|'' @ s"
    by (auto simp: takeWhile_append dropWhile_append)
  then show ?thesis by (simp add: iv_parts_def Let_def)
qed

section \<open>Credentials\<close>

text \<open>The documented behaviour of an authenticated cipher and of the random source.\<close>

definition opens_what_it_seals :: "crypto \<Rightarrow> bool" where
  "opens_what_it_seals cr = (\<forall>k n p. cr_open cr k n (cr_seal cr k n p) = Some p)"

definition makes_bytes :: "crypto \<Rightarrow> bool" where
  "makes_bytes cr = ((\<forall>i. are_bytes (cr_urandom12 cr i)) \<and> (\<forall>k n p. are_bytes n \<and> are_bytes p \<longrightarrow> are_bytes (cr_seal cr k n p)))"

lemma decrypt_encrypted:
  assumes "opens_what_it_seals cr" "makes_bytes cr" "ascii_text s"
  shows "decrypt cr (b64encode (cr_seal cr k (cr_urandom12 cr i) (utf8 s))) (b64encode (cr_urandom12 cr i)) k = Inr s"
  using assms by (simp add: decrypt_def b64_round_trip makes_bytes_def opens_what_it_seals_def utf8_round_trip utf8_bytes)

lemma put_credential_found:
  assumes "put_credential a k s iv d = Inr d'"
  shows "\<exists>c. find_credential a d' = Some c \<and> cd_encrypted_key c = k \<and> cd_encrypted_secret c = s \<and> cd_iv c = iv"
proof -
  have map: "find (\<lambda>c. cd_account_id c = a) (map (\<lambda>c. if cd_account_id c = a then f c else c) cs) = map_option f (find (\<lambda>c. cd_account_id c = a) cs)"
    if "\<And>c. cd_account_id (f c) = cd_account_id c" for f and cs :: "credential_row list"
    using that by (induction cs) auto
  have app: "find P (xs @ [x]) = (case find P xs of None \<Rightarrow> if P x then Some x else None | Some y \<Rightarrow> Some y)"
    for P xs and x :: credential_row
    by (induction xs) auto
  show ?thesis
    using assms by (auto simp: put_credential_def find_credential_def ebind_Inr map app split: if_splits)
qed

text \<open>What a save leaves in the table.\<close>

lemma saved_row:
  assumes "credentials_save cr env (Some k) a api_key api_secret w = (Inr (), w')"
  shows "\<exists>c i. find_credential a (w_db w') = Some c \<and>
    cd_encrypted_key c = b64encode (cr_seal cr k (cr_urandom12 cr i) (utf8 api_key)) \<and>
    cd_encrypted_secret c = b64encode (cr_seal cr k (cr_urandom12 cr (Suc i)) (utf8 api_secret)) \<and>
    cd_iv c = b64encode (cr_urandom12 cr i) @ ''|'' @ b64encode (cr_urandom12 cr (Suc i))"
  using assms put_credential_found
  by (fastforce simp: credentials_save_def require_key_def encrypt_def urandom12_def mbind_def mlift_def mret_def session_def
      Let_def ebind_Inr split: if_splits sum.splits)

text \<open>A save for an account that exists succeeds: two nonces of twelve bytes fit the column.\<close>

lemma b64_length: "length (b64_bytes bs) = (4 * length bs + 2) div 3"
  by (induction bs rule: b64_bytes.induct) auto

lemma save_succeeds:
  assumes "\<And>i. length (cr_urandom12 cr i) = 12" "has_account (w_db w) a" "\<not> e_db_down env (w_sessions w)"
  shows "\<exists>w1. credentials_save cr env (Some k) a api_key api_secret w = (Inr (), w1)"
proof -
  have len: "length (b64encode (cr_urandom12 cr i)) = 16" for i
    by (simp add: b64encode_def b64_length assms(1) b64_pad_def)
  let ?seal = "\<lambda>i s. b64encode (cr_seal cr k (cr_urandom12 cr i) (utf8 s))"
  have "\<exists>d'. put_credential a (?seal (w_uuids w) api_key) (?seal (Suc (w_uuids w)) api_secret)
      (b64encode (cr_urandom12 cr (w_uuids w)) @ ''|'' @ b64encode (cr_urandom12 cr (Suc (w_uuids w)))) (w_db w) = Inr d'"
    using assms(2) by (auto simp: put_credential_def varchars_def len ebind_def)
  then obtain d' where "put_credential a (?seal (w_uuids w) api_key) (?seal (Suc (w_uuids w)) api_secret)
      (b64encode (cr_urandom12 cr (w_uuids w)) @ ''|'' @ b64encode (cr_urandom12 cr (Suc (w_uuids w)))) (w_db w) = Inr d'"
    by blast
  then show ?thesis
    using assms(3)
    by (simp add: credentials_save_def require_key_def encrypt_def urandom12_def mbind_def mlift_def mret_def session_def
        ebind_def Let_def)
qed

text \<open>
  C39: Credentials that were saved for an account read back as the same key and secret, whatever the random source gave as
  nonces, for every cipher that opens what it sealed; a read fails only when the database does.
\<close>

theorem stored_credentials_read_back:
  assumes "opens_what_it_seals cr" "makes_bytes cr" "ascii_text api_key" "ascii_text api_secret"
    "credentials_save cr env (Some k) a api_key api_secret w = (Inr (), w1)" "w_db w2 = w_db w1"
    "credentials_get cr env (Some k) a w2 = (r, w3)"
  shows "r = Inr (Some (api_key, api_secret)) \<or> e_db_down env (w_sessions w2)"
proof -
  obtain c i where c: "find_credential a (w_db w2) = Some c"
      "cd_encrypted_key c = b64encode (cr_seal cr k (cr_urandom12 cr i) (utf8 api_key))"
      "cd_encrypted_secret c = b64encode (cr_seal cr k (cr_urandom12 cr (Suc i)) (utf8 api_secret))"
      "cd_iv c = b64encode (cr_urandom12 cr i) @ ''|'' @ b64encode (cr_urandom12 cr (Suc i))"
    using saved_row [OF assms(5)] assms(6) by auto
  have "are_bytes (cr_urandom12 cr i)" using assms(2) by (simp add: makes_bytes_def)
  then have "iv_parts (cd_iv c) = (b64encode (cr_urandom12 cr i), b64encode (cr_urandom12 cr (Suc i)))"
    unfolding c(4) by (rule iv_parts_joined)
  then have "read_credential cr k c = Inr (api_key, api_secret)"
    using decrypt_encrypted [OF assms(1,2)] assms(3,4) by (simp add: read_credential_def c(2,3))
  then show ?thesis
    using assms(7) c(1)
    by (auto simp: credentials_get_def require_key_def mbind_def mlift_def mret_def query_def session_def split: if_splits)
qed

text \<open>
  The loader of account contexts opens the same row with the digest of another secret; a cipher that opens nothing
  with a key it was not sealed with leaves it without credentials.
\<close>

lemma loader_cannot_read_stored_credentials:
  assumes "makes_bytes cr" "ascii_text api_key" "credentials_save cr env (Some k) a api_key api_secret w = (Inr (), w1)"
    "\<And>n n' p. cr_open cr (cr_digest cr secret) n' (cr_seal cr k n p) = None"
    "parse_uuid account_id = Some a" "decrypt_credentials cr env secret account_id w1 = (Inr x, w2)"
  shows "x = None"
proof -
  obtain c i where c: "find_credential a (w_db w1) = Some c"
      "cd_encrypted_key c = b64encode (cr_seal cr k (cr_urandom12 cr i) (utf8 api_key))"
    using saved_row [OF assms(3)] by auto
  have "are_bytes (cr_seal cr k (cr_urandom12 cr i) (utf8 api_key))"
    using assms(1) utf8_bytes [OF assms(2)] by (simp add: makes_bytes_def)
  then have "decrypt_credential cr (cd_encrypted_key c) (cd_iv c) secret = Inl ValueError"
    using assms(4) by (auto simp: decrypt_credential_def c(2) b64_round_trip derive_key_def ebind_def split: sum.split)
  then show ?thesis
    using assms(5,6) c(1)
    by (auto simp: decrypt_credentials_def mbind_def mret_def query_def session_def Let_def split: if_splits)
qed

section \<open>Connectivity\<close>

text \<open>Every status a check ends with has its type of incident.\<close>

lemma status_known: "map_of INCIDENT_TYPE_MAP (status_of_code n) \<noteq> None"
  by (simp add: status_of_code_def INCIDENT_TYPE_MAP_def)

lemma network_known: "map_of INCIDENT_TYPE_MAP ''network_error'' \<noteq> None"
  by (simp add: INCIDENT_TYPE_MAP_def)

lemma checked:
  "\<exists>c. check_account_connectivity env http k s mt w = (Inr c, w) \<and>
     (cn_status c = ''connected'' \<or> map_of INCIDENT_TYPE_MAP (cn_status c) \<noteq> None)"
proof -
  obtain reply latency where "http (account_path mt) (account_request env s (w_now w)) k = (reply, latency)" by fastforce
  then show ?thesis
    using status_known network_known
    by (auto simp: check_account_connectivity_def mbind_def mget_def mret_def simp del: not_None_eq
        split: prod.split http_reply.split)
qed

text \<open>
  Whatever the exchange answers, a check returns its result; the account has its status and time, and no other table
  but that of the incidents is touched.
\<close>

lemma connectivity_check_is_recorded:
  assumes "check_and_persist env http logger a k s mt w = (r, w')" "\<not> e_db_down env (w_sessions w)"
  shows "\<exists>c. r = Inr c \<and> ledger (w_db w') = ledger (set_connection a (cn_status c) (w_now w) (w_db w))"
proof -
  obtain c where c: "check_account_connectivity env http k s mt w = (Inr c, w)" using checked by blast
  define v where "v = w\<lparr>w_sessions := Suc (w_sessions w), w_db := set_connection a (cn_status c) (w_now w) (w_db w)\<rparr>"
  obtain u where u: "log_incident env (connectivity_incident env a mt c) v = (Inr (), u)" "ledger (w_db u) = ledger (w_db v)"
    using log_incident_effect [of env "connectivity_incident env a mt c" v] by (auto simp: wp_def split: prod.splits)
  have "wp (mseq (mwhen (cn_status c \<noteq> ''connected'' \<and> logger)
      (mlogged (log_incident env (connectivity_incident env a mt c)))) (mret c))
    (\<lambda>r u. r = Inr c \<and> ledger (w_db u) = ledger (w_db v)) v"
    using u by (simp add: wp_def mseq_def mbind_def mwhen_def mlogged_def mtry_def mret_def)
  moreover have "check_and_persist env http logger a k s mt w =
    mseq (mwhen (cn_status c \<noteq> ''connected'' \<and> logger)
      (mlogged (log_incident env (connectivity_incident env a mt c)))) (mret c) v"
    using assms(2) c
    by (simp add: check_and_persist_def v_def mseq_def mbind_def mget_def mlogged_def mtry_def session_def Let_def)
  ultimately show ?thesis using assms(1) by (auto simp: wp_def v_def)
qed

section \<open>A concrete account\<close>

definition demo_crypto :: crypto where
  "demo_crypto =
     \<lparr>cr_seal = (\<lambda>k n p. n @ p), cr_open = (\<lambda>k n c. if take (length n) c = n then Some (drop (length n) c) else None),
      cr_digest = (\<lambda>s. utf8 s), cr_urandom12 = (\<lambda>i. replicate 12 (i mod 256))\<rparr>"

lemma demo_crypto_ok: "opens_what_it_seals demo_crypto" "makes_bytes demo_crypto"
  by (auto simp: opens_what_it_seals_def makes_bytes_def demo_crypto_def are_bytes_def list_all_iff)

lemma demo_save: "\<exists>w1. credentials_save demo_crypto demo_env (Some [1]) demo_account ''key'' ''secret'' demo_world = (Inr (), w1)"
proof (rule save_succeeds)
  show "length (cr_urandom12 demo_crypto i) = 12" for i by (simp add: demo_crypto_def)
  show "has_account (w_db demo_world) demo_account" by (simp add: demo_db_def has_account_def empty_exec_db_def)
  show "\<not> e_db_down demo_env (w_sessions demo_world)" by (simp add: demo_env_def)
qed

lemma stored_credentials_read_back_witness:
  "\<exists>w1 w2. credentials_save demo_crypto demo_env (Some [1]) demo_account ''key'' ''secret'' demo_world = (Inr (), w1) \<and>
     credentials_get demo_crypto demo_env (Some [1]) demo_account w1 = (Inr (Some (''key'', ''secret'')), w2)"
proof -
  obtain w1 where save: "credentials_save demo_crypto demo_env (Some [1]) demo_account ''key'' ''secret'' demo_world = (Inr (), w1)"
    using demo_save by blast
  obtain r w2 where get: "credentials_get demo_crypto demo_env (Some [1]) demo_account w1 = (r, w2)" by fastforce
  have "ascii_text ''key''" "ascii_text ''secret''" by (simp_all add: ascii_text_def byte_def)
  then have "r = Inr (Some (''key'', ''secret'')) \<or> e_db_down demo_env (w_sessions w1)"
    using save get by (rule stored_credentials_read_back [OF demo_crypto_ok _ _ _ refl])
  then show ?thesis using save get by (simp add: demo_env_def)
qed

end
