(* ===== verification/Ingest.thy ===== *)
theory Ingest
  imports Listener
begin

text \<open>
  The ingest service (\<open>services/binance_ingest\<close>): one task per connection to the exchange, public
  (\<open>streams/public.py\<close>) or private (\<open>streams/private.py\<close>), that publishes what it reads as raw events
  (\<open>streams/publisher.py\<close>), reconnects with a random delay (\<open>connection/backoff.py\<close>) and keeps the state that
  the health endpoint shows (\<open>connection/state.py\<close>, \<open>health.py\<close>); and the manager that makes the tasks
  (\<open>connection/manager.py\<close>).
\<close>

section \<open>Settings\<close>

record ingest_settings =
  ig_api_key :: string
  ig_futures_api_key :: string
  ig_use_testnet :: bool
  ig_ws_spot_base :: string
  ig_ws_futures_base :: string
  ig_ws_testnet_spot :: string
  ig_ws_testnet_futures :: string
  ig_rest_spot :: string
  ig_rest_futures :: string
  ig_rest_testnet_spot :: string
  ig_rest_testnet_futures :: string
  ig_reconnect_delay_s :: rat
  ig_reconnect_max_delay_s :: rat
  ig_reconnect_factor :: rat
  ig_refresh_interval_s :: rat
  ig_spot_streams :: string
  ig_futures_streams :: string

definition default_ingest_settings :: ingest_settings where
  "default_ingest_settings =
     \<lparr>ig_api_key = [], ig_futures_api_key = [], ig_use_testnet = False,
      ig_ws_spot_base = ''wss://stream.binance.com:9443'', ig_ws_futures_base = ''wss://fstream.binance.com'',
      ig_ws_testnet_spot = ''wss://testnet.binance.vision'', ig_ws_testnet_futures = ''wss://stream.binancefuture.com'',
      ig_rest_spot = ''https://api.binance.com'', ig_rest_futures = ''https://fapi.binance.com'',
      ig_rest_testnet_spot = ''https://testnet.binance.vision'', ig_rest_testnet_futures = ''https://testnet.binancefuture.com'',
      ig_reconnect_delay_s = 1, ig_reconnect_max_delay_s = 60, ig_reconnect_factor = 2, ig_refresh_interval_s = 1800,
      ig_spot_streams = [], ig_futures_streams = []\<rparr>"

section \<open>The state of a connection\<close>

datatype connection_state =
    CONNECTING | CONNECTED | DISCONNECTING | DISCONNECTED | RECONNECTING | FAILED | STOPPED

fun connection_state_value :: "connection_state \<Rightarrow> string" where
  "connection_state_value CONNECTING = ''connecting''"
| "connection_state_value CONNECTED = ''connected''"
| "connection_state_value DISCONNECTING = ''disconnecting''"
| "connection_state_value DISCONNECTED = ''disconnected''"
| "connection_state_value RECONNECTING = ''reconnecting''"
| "connection_state_value FAILED = ''failed''"
| "connection_state_value STOPPED = ''stopped''"

record connection_info =
  ci_connection_id :: string
  ci_market_type :: string
  ci_stream_type :: string
  ci_state :: connection_state
  ci_connected_at :: rat
  ci_last_message_at :: rat
  ci_messages_received :: nat
  ci_reconnect_count :: nat
  ci_error :: "string option"

definition new_info :: "string \<Rightarrow> string \<Rightarrow> string \<Rightarrow> connection_info" where
  "new_info conn_id mt stream_type =
     \<lparr>ci_connection_id = conn_id, ci_market_type = mt, ci_stream_type = stream_type, ci_state = DISCONNECTED,
      ci_connected_at = 0, ci_last_message_at = 0, ci_messages_received = 0, ci_reconnect_count = 0, ci_error = None\<rparr>"

definition mark_connected :: "rat \<Rightarrow> connection_info \<Rightarrow> connection_info" where
  "mark_connected t i = i\<lparr>ci_state := CONNECTED, ci_connected_at := t, ci_error := None\<rparr>"

definition mark_message :: "rat \<Rightarrow> connection_info \<Rightarrow> connection_info" where
  "mark_message t i = i\<lparr>ci_last_message_at := t, ci_messages_received := Suc (ci_messages_received i)\<rparr>"

definition mark_reconnecting :: "string option \<Rightarrow> connection_info \<Rightarrow> connection_info" where
  "mark_reconnecting err i = i\<lparr>ci_state := RECONNECTING, ci_reconnect_count := Suc (ci_reconnect_count i), ci_error := err\<rparr>"

definition mark_stopped :: "connection_info \<Rightarrow> connection_info" where
  "mark_stopped i = i\<lparr>ci_state := STOPPED\<rparr>"

section \<open>Delays\<close>

record exp_backoff =
  bo_base :: rat
  bo_max :: rat
  bo_factor :: rat
  bo_attempt :: nat

text \<open>A power of floats beyond the largest one is an \<open>OverflowError\<close>.\<close>

definition float_pow :: "rat \<Rightarrow> nat \<Rightarrow> exn + rat" where
  "float_pow x n = (let y = fl (x ^ n) in if 2 ^ 1024 \<le> y then Inl OverflowError else Inr y)"

text \<open>The delay for a number drawn from the unit interval.\<close>

definition next_delay :: "rat \<Rightarrow> exp_backoff \<Rightarrow> exn + rat \<times> exp_backoff" where
  "next_delay u b =
     ebind (float_pow (bo_factor b) (bo_attempt b)) (\<lambda>p.
       let cap = min (bo_max b) (fl (bo_base b * p)) in
       Inr (fl (cap * u), b\<lparr>bo_attempt := Suc (bo_attempt b)\<rparr>))"

definition reset_backoff :: "exp_backoff \<Rightarrow> exp_backoff" where
  "reset_backoff b = b\<lparr>bo_attempt := 0\<rparr>"

section \<open>Tasks\<close>

text \<open>
  A session of the web socket: whether it opens, the messages it brings, and how it ends.  The world of a task
  counts the questions to its stop event and the numbers drawn, and keeps the delays slept, the addresses
  connected to and the requests to the REST interface.
\<close>

record ws_session =
  wx_open :: "exn + unit"
  wx_messages :: "rtext list"
  wx_end :: "exn option"

record 'r ingest_world = "('r, unit) world" +
  in_info :: connection_info
  in_backoff :: exp_backoff
  in_checks :: nat
  in_draws :: nat
  in_delays :: "rat list"
  in_urls :: "string list"
  in_requests :: "(string \<times> string \<times> string option) list"

type_synonym ('r, 'a) iact = "('r ingest_world, 'a) prog"

record 'r ws_task =
  tk_ws_base :: string
  tk_market_type :: market_type
  tk_ops :: "'r redis_ops"
  tk_env :: env
  tk_stop :: "nat \<Rightarrow> bool"
  tk_uniform :: "nat \<Rightarrow> rat"
  tk_monotonic :: "int \<Rightarrow> rat"

definition with_info :: "(connection_info \<Rightarrow> connection_info) \<Rightarrow> ('r, unit) iact" where
  "with_info f = mput (\<lambda>w. w\<lparr>in_info := f (in_info w)\<rparr>)"

text \<open>The same with the monotonic clock.\<close>

definition with_time :: "('r, 'x) ws_task_scheme \<Rightarrow> (rat \<Rightarrow> connection_info \<Rightarrow> connection_info) \<Rightarrow> ('r, unit) iact" where
  "with_time tk f = mbind (mget w_now) (\<lambda>now. with_info (f (tk_monotonic tk now)))"

definition task_stopped :: "('r, 'x) ws_task_scheme \<Rightarrow> ('r, bool) iact" where
  "task_stopped tk = mbind (mget in_checks) (\<lambda>n. mseq (mput (\<lambda>w. w\<lparr>in_checks := Suc n\<rparr>)) (mret (tk_stop tk n)))"

section \<open>Publishing\<close>

definition dump_raw :: "raw_event \<Rightarrow> json" where
  "dump_raw e =
     JObj [(''venue'', JStr ''binance''), (''market_type'', JStr (market_type_value (rw_market_type e))),
           (''source_stream'', JStr (rw_source_stream e)), (''received_ms'', JInt (rw_received_ms e)),
           (''payload'', JObj (rw_payload e))]"

text \<open>The envelope takes a text and a dict, anything else is refused.\<close>

definition raw_envelope :: "market_type \<Rightarrow> json \<Rightarrow> int \<Rightarrow> json \<Rightarrow> exn + raw_event" where
  "raw_envelope mt source_stream now payload =
     (case (source_stream, payload) of
        (JStr s, JObj d) \<Rightarrow> Inr \<lparr>rw_market_type = mt, rw_source_stream = s, rw_received_ms = now, rw_payload = d\<rparr>
      | _ \<Rightarrow> Inl ValidationError)"

definition publish_raw :: "('r, 'x) ws_task_scheme \<Rightarrow> json \<Rightarrow> json \<Rightarrow> ('r, unit) iact" where
  "publish_raw tk source_stream payload =
     mbind (mget w_now) (\<lambda>now.
     mbind (mlift (raw_envelope (tk_market_type tk) source_stream now payload)) (\<lambda>e.
       stream_publish (tk_ops tk) RAW_STREAM [(''event'', Json (dump_raw e))]))"

text \<open>A message of the combined stream has its name and its data; one of the private stream is its data.\<close>

definition public_message :: "('r, 'x) ws_task_scheme \<Rightarrow> rtext \<Rightarrow> ('r, unit) iact" where
  "public_message tk raw =
     mbind (mlift (json_loads raw)) (\<lambda>msg.
     mbind (mlift (obj_get msg ''stream'' (JStr ''unknown''))) (\<lambda>source_stream.
     mbind (mlift (obj_get msg ''data'' msg)) (\<lambda>payload.
     mseq (with_time tk mark_message) (publish_raw tk source_stream payload))))"

definition private_message :: "('r, 'x) ws_task_scheme \<Rightarrow> rtext \<Rightarrow> ('r, unit) iact" where
  "private_message tk raw =
     mbind (mlift (json_loads raw)) (\<lambda>payload.
     mbind (mlift (obj_get payload ''e'' (JStr ''unknown''))) (\<lambda>event_type.
     mseq (with_time tk mark_message) (publish_raw tk (JStr (''user_data.'' @ str_of (tk_env tk) event_type)) payload)))"

section \<open>The loop of a task\<close>

text \<open>A message that cannot be handled is only logged.\<close>

primrec ws_messages ::
  "('r, 'x) ws_task_scheme \<Rightarrow> (rtext \<Rightarrow> ('r, unit) iact) \<Rightarrow> rtext list \<Rightarrow> exn option \<Rightarrow> ('r, unit) iact" where
  "ws_messages tk handle [] e = (case e of None \<Rightarrow> mret () | Some x \<Rightarrow> mraise x)"
| "ws_messages tk handle (raw # raws) e =
     mbind (task_stopped tk) (\<lambda>stop.
     if stop then mret () else mseq (mlogged (handle raw)) (ws_messages tk handle raws e))"

definition ws_connected ::
  "('r, 'x) ws_task_scheme \<Rightarrow> (rtext \<Rightarrow> ('r, unit) iact) \<Rightarrow> string \<Rightarrow> ws_session \<Rightarrow> ('r, unit) iact" where
  "ws_connected tk handle url c =
     mseq (mput (\<lambda>w. w\<lparr>in_urls := in_urls w @ [url]\<rparr>))
    (mseq (mlift (wx_open c))
    (mseq (with_time tk mark_connected)
    (mseq (mput (\<lambda>w. w\<lparr>in_backoff := reset_backoff (in_backoff w)\<rparr>))
          (ws_messages tk handle (wx_messages c) (wx_end c)))))"

definition sleep_delay :: "('r, 'x) ws_task_scheme \<Rightarrow> ('r, unit) iact" where
  "sleep_delay tk =
     mbind (mget (\<lambda>w. next_delay (tk_uniform tk (in_draws w)) (in_backoff w))) (\<lambda>r.
     mbind (mlift r) (\<lambda>(delay, b).
       mput (\<lambda>w. w\<lparr>in_backoff := b, in_draws := Suc (in_draws w), in_delays := in_delays w @ [delay]\<rparr>)))"

text \<open>The answer is whether the task was stopped; when the sessions are used up it is still running.\<close>

fun ws_loop ::
  "('r, 'x) ws_task_scheme \<Rightarrow> (rtext \<Rightarrow> ('r, unit) iact) \<Rightarrow> string \<Rightarrow> ws_session list \<Rightarrow> ('r, bool) iact" where
  "ws_loop tk handle url [] = mret False"
| "ws_loop tk handle url (c # cs) =
     mbind (task_stopped tk) (\<lambda>stop.
     if stop then mret True
     else
       mseq (with_info (\<lambda>i. i\<lparr>ci_state := CONNECTING\<rparr>))
      (mseq (mtry (ws_connected tk handle url c) (\<lambda>e. with_info (mark_reconnecting (Some (e_exn_text (tk_env tk) e)))))
      (mbind (task_stopped tk) (\<lambda>stop.
       if stop then mret True else mseq (sleep_delay tk) (ws_loop tk handle url cs)))))"

record 'r subscriber = "'r ws_task" +
  su_streams :: "string list"

definition subscriber_url :: "'r subscriber \<Rightarrow> string" where
  "subscriber_url su = tk_ws_base su @ ''/stream?streams='' @ join ''/'' (map lower (su_streams su))"

definition run_subscriber :: "'r subscriber \<Rightarrow> ws_session list \<Rightarrow> ('r, bool) iact" where
  "run_subscriber su cs =
     mbind (ws_loop su (public_message su) (subscriber_url su) cs) (\<lambda>stopped.
       mseq (mwhen stopped (with_info mark_stopped)) (mret stopped))"

section \<open>Private streams\<close>

text \<open>The answer of the exchange to the request for a key, and to each request that keeps it alive.\<close>

record 'r private_handler = "'r ws_task" +
  ph_api_key :: string
  ph_refresh_interval_s :: rat
  ph_created :: "exn + json"

definition listen_key_path :: "('r, 'x) ws_task_scheme \<Rightarrow> string" where
  "listen_key_path tk = (if tk_market_type tk = FUTURES then ''/fapi/v1/listenKey'' else ''/api/v3/userDataStream'')"

definition rest_request :: "('r, 'x) ws_task_scheme \<Rightarrow> string \<Rightarrow> string option \<Rightarrow> ('r, unit) iact" where
  "rest_request tk verb key = mput (\<lambda>w. w\<lparr>in_requests := in_requests w @ [(verb, listen_key_path tk, key)]\<rparr>)"

definition create_listen_key :: "'r private_handler \<Rightarrow> ('r, json) iact" where
  "create_listen_key ph =
     mseq (rest_request ph ''POST'' None)
       (mbind (mlift (ph_created ph)) (\<lambda>data. mlift (case data of
          JObj d \<Rightarrow> (case map_of d ''listenKey'' of None \<Rightarrow> Inl KeyError | Some k \<Rightarrow> Inr k) | _ \<Rightarrow> Inl TypeError)))"

text \<open>\<open>_refresh_loop\<close>: one request per interval, whose failure is only logged.\<close>

primrec refresh_loop :: "'r private_handler \<Rightarrow> string \<Rightarrow> (exn + unit) list \<Rightarrow> ('r, unit) iact" where
  "refresh_loop ph key [] = mret ()"
| "refresh_loop ph key (reply # replies) =
     mseq (mlogged (mseq (rest_request ph ''PUT'' (Some key)) (mlift reply))) (refresh_loop ph key replies)"

definition stop_listen_key :: "'r private_handler \<Rightarrow> json \<Rightarrow> ('r, unit) iact" where
  "stop_listen_key ph k = mwhen (truthy k) (rest_request ph ''DELETE'' (Some (str_of (tk_env ph) k)))"

definition run_private :: "'r private_handler \<Rightarrow> ws_session list \<Rightarrow> ('r, bool) iact" where
  "run_private ph cs =
     mbind (mtry (mbind (create_listen_key ph) (\<lambda>k. mret (Some k))) (\<lambda>_. mret None)) (\<lambda>listen_key.
     case listen_key of
       None \<Rightarrow> mseq (with_info mark_stopped) (mret True)
     | Some k \<Rightarrow>
         let key = str_of (tk_env ph) k in
         mbind (ws_loop ph (private_message ph) (tk_ws_base ph @ ''/ws/'' @ key) cs) (\<lambda>stopped.
           mseq (mwhen stopped (mseq (stop_listen_key ph k) (with_info mark_stopped))) (mret stopped)))"

section \<open>The manager\<close>

datatype ingest_task =
    PublicTask string market_type "string list"
  | PrivateTask string market_type string

definition ws_base :: "ingest_settings \<Rightarrow> market_type \<Rightarrow> string" where
  "ws_base s mt =
     (if mt = FUTURES then (if ig_use_testnet s then ig_ws_testnet_futures s else ig_ws_futures_base s)
      else if ig_use_testnet s then ig_ws_testnet_spot s else ig_ws_spot_base s)"

definition rest_base :: "ingest_settings \<Rightarrow> market_type \<Rightarrow> string" where
  "rest_base s mt =
     (if mt = FUTURES then (if ig_use_testnet s then ig_rest_testnet_futures s else ig_rest_futures s)
      else if ig_use_testnet s then ig_rest_testnet_spot s else ig_rest_spot s)"

definition make_backoff :: "ingest_settings \<Rightarrow> exp_backoff" where
  "make_backoff s =
     \<lparr>bo_base = ig_reconnect_delay_s s, bo_max = ig_reconnect_max_delay_s s, bo_factor = ig_reconnect_factor s, bo_attempt = 0\<rparr>"

definition stream_list :: "string \<Rightarrow> string list" where
  "stream_list s = filter (\<lambda>x. x \<noteq> []) (map strip (split_on CHR '','' s))"

definition task_info :: "ingest_task \<Rightarrow> string \<times> connection_info" where
  "task_info t = (case t of
     PublicTask i mt _ \<Rightarrow> (i, new_info i (market_type_value mt) ''public'')
   | PrivateTask i mt _ \<Rightarrow> (i, new_info i (market_type_value mt) ''private''))"

text \<open>The tasks that are started, in order; the connections are keyed by their names.\<close>

definition manager_start :: "ingest_settings \<Rightarrow> string list \<Rightarrow> string list \<Rightarrow> ingest_task list" where
  "manager_start s spot_streams futures_streams =
     (if spot_streams = [] then [] else [PublicTask ''spot-public'' SPOT spot_streams]) @
     (if futures_streams = [] then [] else [PublicTask ''futures-public'' FUTURES futures_streams]) @
     (if ig_api_key s = [] then [] else [PrivateTask ''spot-private'' SPOT (ig_api_key s)]) @
     (if ig_futures_api_key s = [] then [] else [PrivateTask ''futures-private'' FUTURES (ig_futures_api_key s)])"

definition ingest_start :: "ingest_settings \<Rightarrow> ingest_task list" where
  "ingest_start s = manager_start s (stream_list (ig_spot_streams s)) (stream_list (ig_futures_streams s))"

definition ingest_connection_json :: "connection_info \<Rightarrow> json" where
  "ingest_connection_json i =
     JObj [(''market_type'', JStr (ci_market_type i)), (''stream_type'', JStr (ci_stream_type i)),
           (''state'', JStr (connection_state_value (ci_state i))), (''reconnect_count'', JInt (int (ci_reconnect_count i))),
           (''messages_received'', JInt (int (ci_messages_received i))), (''error'', opt_json JStr (ci_error i))]"

definition ingest_health :: "(string \<times> connection_info) list option \<Rightarrow> json" where
  "ingest_health conns =
     (case conns of
        None \<Rightarrow> JObj [(''status'', JStr ''starting''), (''connections'', JObj [])]
      | Some cs \<Rightarrow>
          JObj [(''status'', JStr (if cs \<noteq> [] \<and> list_all (\<lambda>(k, i). connection_state_value (ci_state i) = ''connected'') cs
                                 then ''ok'' else ''degraded'')),
                (''connections'', JObj (map (\<lambda>(k, i). (k, ingest_connection_json i)) cs))])"

end
