(* ===== verification/IngestProperties.thy ===== *)
theory IngestProperties
  imports Ingest Demo
begin

text \<open>
  What the ingest service promises: every message of every connection becomes one raw event, in order, however the
  connections end, and no wait between connections is longer than the limit.
\<close>

section \<open>Messages\<close>

text \<open>The raw event of a message, if it has one.\<close>

definition public_raw :: "market_type \<Rightarrow> int \<Rightarrow> rtext \<Rightarrow> raw_event option" where
  "public_raw mt now raw =
     (case json_loads raw of
        Inr (JObj d) \<Rightarrow> the_ok (raw_envelope mt (dict_get ''stream'' (JStr ''unknown'') d) now (dict_get ''data'' (JObj d) d))
      | _ \<Rightarrow> None)"

definition raw_effect :: "raw_event \<Rightarrow> effect" where
  "raw_effect e = Published RAW_STREAM [(''event'', Json (dump_raw e))]"

definition raw_effects :: "market_type \<Rightarrow> int \<Rightarrow> rtext list \<Rightarrow> effect list" where
  "raw_effects mt now raws = map raw_effect (List.map_filter (public_raw mt now) raws)"

lemma raw_effects_simps [simp]:
  "raw_effects mt now [] = []"
  "raw_effects mt now (r # rs) = (case public_raw mt now r of None \<Rightarrow> [] | Some e \<Rightarrow> [raw_effect e]) @ raw_effects mt now rs"
  "raw_effects mt now (rs @ ss) = raw_effects mt now rs @ raw_effects mt now ss"
  by (auto simp: raw_effects_def map_filter_def split: option.split)

text \<open>Steps that keep the clock and the parameters of the delays, publish \<open>es\<close> and do not wait.\<close>

definition emits :: "effect list \<Rightarrow> 'r ingest_world \<Rightarrow> 'r ingest_world \<Rightarrow> bool" where
  "emits es w w' =
     (w_trace w' = w_trace w @ es \<and> w_now w' = w_now w \<and> in_delays w' = in_delays w \<and>
      (in_backoff w' = in_backoff w \<or> in_backoff w' = reset_backoff (in_backoff w)))"

lemma emits_refl [simp]: "emits [] w w"
  by (simp add: emits_def)

lemma emits_trans: "emits es u v \<Longrightarrow> emits fs v w \<Longrightarrow> emits (es @ fs) u w"
  by (auto simp: emits_def reset_backoff_def)

lemma stream_publish_run:
  assumes "\<And>st fs. returns (r_xadd ops st fs)"
  shows "\<exists>s. stream_publish ops st fs w = (Inr (), w\<lparr>w_redis := s, w_trace := w_trace w @ [Published st fs]\<rparr>)"
proof -
  obtain s where "r_xadd ops st fs (w_redis w) = (Inr (), s)" using assms [of st fs] by (auto simp: returns_def)
  then show ?thesis
    by (auto simp: stream_publish_def mseq_def mbind_def on_redis_def record_effect_def mput_def)
qed

lemma published:
  assumes "\<And>st fs. returns (r_xadd (tk_ops tk) st fs)"
  shows "\<exists>w'. mlogged (public_message tk raw) w = (Inr (), w') \<and>
    emits (case public_raw (tk_market_type tk) (w_now w) raw of None \<Rightarrow> [] | Some e \<Rightarrow> [raw_effect e]) w w'"
proof (cases "\<exists>d. json_loads raw = Inr (JObj d)")
  case False
  then show ?thesis
    by (auto simp: mlogged_def mtry_def public_message_def mbind_def mlift_def mret_def public_raw_def
        split: sum.split json.split)
next
  case True
  then obtain d where d: "json_loads raw = Inr (JObj d)" by blast
  define v where "v = w\<lparr>in_info := mark_message (tk_monotonic tk (w_now w)) (in_info w)\<rparr>"
  define src where "src = dict_get ''stream'' (JStr ''unknown'') d"
  define payload where "payload = dict_get ''data'' (JObj d) d"
  have run: "mlogged (public_message tk raw) w =
      mlogged (mbind (mlift (raw_envelope (tk_market_type tk) src (w_now w) payload))
        (\<lambda>e. stream_publish (tk_ops tk) RAW_STREAM [(''event'', Json (dump_raw e))])) v"
    by (simp add: mlogged_def mtry_def public_message_def mbind_def mseq_def mlift_def mget_def mput_def d
        with_time_def with_info_def publish_raw_def v_def src_def payload_def)
  show ?thesis
  proof (cases "raw_envelope (tk_market_type tk) src (w_now w) payload")
    case (Inl x)
    then show ?thesis
      unfolding run
      by (simp add: public_raw_def d src_def payload_def mlogged_def mtry_def mbind_def mlift_def mret_def emits_def v_def)
  next
    case (Inr e)
    then show ?thesis
      using stream_publish_run [OF assms, of RAW_STREAM "[(''event'', Json (dump_raw e))]" v]
      unfolding run
      by (auto simp: public_raw_def d src_def [symmetric] payload_def [symmetric] mlogged_def mtry_def mbind_def mlift_def
          emits_def v_def raw_effect_def)
  qed
qed

text \<open>A connection: all its messages, then its end.\<close>

lemma messages_published:
  assumes "\<And>st fs. returns (r_xadd (tk_ops tk) st fs)" "\<And>n. \<not> tk_stop tk n"
  shows "\<exists>w'. ws_messages tk (public_message tk) raws e w = (case e of None \<Rightarrow> Inr () | Some x \<Rightarrow> Inl x, w') \<and>
    emits (raw_effects (tk_market_type tk) (w_now w) raws) w w'"
proof (induction raws arbitrary: w)
  case Nil
  then show ?case by (auto simp: mret_def mraise_def split: option.split)
next
  case (Cons raw raws)
  let ?u = "w\<lparr>in_checks := Suc (in_checks w)\<rparr>"
  obtain v where v: "mlogged (public_message tk raw) ?u = (Inr (), v)"
      "emits (case public_raw (tk_market_type tk) (w_now w) raw of None \<Rightarrow> [] | Some e \<Rightarrow> [raw_effect e]) ?u v"
    using published [OF assms(1), of raw ?u] by auto
  obtain w' where w': "ws_messages tk (public_message tk) raws e v = (case e of None \<Rightarrow> Inr () | Some x \<Rightarrow> Inl x, w')"
      "emits (raw_effects (tk_market_type tk) (w_now v) raws) v w'"
    using Cons.IH by blast
  have "ws_messages tk (public_message tk) (raw # raws) e w = (case e of None \<Rightarrow> Inr () | Some x \<Rightarrow> Inl x, w')"
    using v(1) w'(1) assms(2) by (simp add: task_stopped_def mbind_def mseq_def mget_def mput_def mret_def)
  moreover have "w_now v = w_now w" using v(2) by (simp add: emits_def)
  then have "emits (raw_effects (tk_market_type tk) (w_now w) (raw # raws)) ?u w'"
    using emits_trans [OF v(2) w'(2)] by simp
  ultimately show ?case by (auto simp: emits_def)
qed

text \<open>What a session brings: nothing when it does not open.\<close>

definition session_raws :: "ws_session \<Rightarrow> rtext list" where
  "session_raws c = (case wx_open c of Inl _ \<Rightarrow> [] | Inr _ \<Rightarrow> wx_messages c)"

lemma session_published:
  assumes "\<And>st fs. returns (r_xadd (tk_ops tk) st fs)" "\<And>n. \<not> tk_stop tk n"
  shows "\<exists>w'. mtry (ws_connected tk (public_message tk) url c) (\<lambda>e. with_info (mark_reconnecting (Some (e_exn_text env e)))) w = (Inr (), w') \<and>
    emits (raw_effects (tk_market_type tk) (w_now w) (session_raws c)) w w'"
proof (cases "wx_open c")
  case (Inl e)
  then show ?thesis
    by (simp add: session_raws_def mtry_def ws_connected_def mseq_def mbind_def mlift_def mput_def with_info_def emits_def)
next
  case (Inr u)
  define v where "v = w\<lparr>in_urls := in_urls w @ [url], in_info := mark_connected (tk_monotonic tk (w_now w)) (in_info w),
      in_backoff := reset_backoff (in_backoff w)\<rparr>"
  have run: "ws_connected tk (public_message tk) url c w = ws_messages tk (public_message tk) (wx_messages c) (wx_end c) v"
    by (simp add: ws_connected_def Inr v_def mseq_def mbind_def mlift_def mput_def mget_def with_info_def with_time_def)
  obtain w' where w': "ws_messages tk (public_message tk) (wx_messages c) (wx_end c) v =
      (case wx_end c of None \<Rightarrow> Inr () | Some x \<Rightarrow> Inl x, w')"
      "emits (raw_effects (tk_market_type tk) (w_now v) (wx_messages c)) v w'"
    using messages_published [OF assms] by blast
  then have "emits (raw_effects (tk_market_type tk) (w_now w) (wx_messages c)) w w'"
    by (auto simp: emits_def v_def reset_backoff_def)
  then show ?thesis
    using w' by (auto simp: mtry_def run session_raws_def Inr with_info_def mput_def emits_def split: option.split)
qed

section \<open>Delays\<close>

lemma fl_power2: "fl (2 ^ n) = 2 ^ n"
  using round_sig_exact [of 2 53 1 "int n"] by (simp add: fl_def)

text \<open>With the factor two a delay is computed for the first 1024 attempts, and is at most the longest one.\<close>

definition plain_backoff :: "exp_backoff \<Rightarrow> bool" where
  "plain_backoff b = (bo_factor b = 2 \<and> 0 \<le> bo_base b \<and> 0 \<le> bo_max b \<and> fl (bo_max b) = bo_max b)"

lemma delay_bounded:
  assumes "plain_backoff b" "bo_attempt b < 1024" "0 \<le> u" "u \<le> 1"
  shows "\<exists>t. next_delay u b = Inr (t, b\<lparr>bo_attempt := Suc (bo_attempt b)\<rparr>) \<and> 0 \<le> t \<and> t \<le> bo_max b"
proof -
  have pow: "float_pow (bo_factor b) (bo_attempt b) = Inr (2 ^ bo_attempt b)"
    using assms(1,2) power_strict_increasing [of "bo_attempt b" 1024 "2 :: rat"]
    by (simp add: float_pow_def plain_backoff_def fl_power2 Let_def)
  let ?x = "min (bo_max b) (fl (bo_base b * 2 ^ bo_attempt b))"
  have "0 \<le> ?x" using assms(1) fl.nonneg by (simp add: plain_backoff_def)
  then have "0 \<le> ?x * u \<and> ?x * u \<le> bo_max b"
    using assms(3,4) mult_left_le [of u ?x] by simp
  then have "0 \<le> fl (?x * u) \<and> fl (?x * u) \<le> bo_max b"
    using fl.nonneg fl.mono [of "?x * u" "bo_max b"] assms(1) by (simp add: plain_backoff_def)
  then show ?thesis by (simp add: next_delay_def pow ebind_def Let_def)
qed

lemma float_pow_overflow: "float_pow 2 1024 = Inl OverflowError"
  unfolding float_pow_def fl_power2 Let_def by simp

lemma overflow_ends_the_task:
  assumes "bo_factor (in_backoff w) = 2" "bo_attempt (in_backoff w) = 1024" "\<And>n. \<not> tk_stop tk n" "wx_open c = Inl e"
  shows "\<exists>w'. ws_loop tk handle url (c # cs) w = (Inl OverflowError, w')"
  using assms
  by (simp add: task_stopped_def mbind_def mseq_def mget_def mput_def mret_def mlift_def mtry_def with_info_def ws_connected_def
      sleep_delay_def next_delay_def float_pow_overflow ebind_def)

section \<open>The loop\<close>

text \<open>What a run of the loop leaves: the events \<open>es\<close> published, and waits within the limit.\<close>

definition ingests :: "effect list \<Rightarrow> 'r ingest_world \<Rightarrow> 'r ingest_world \<Rightarrow> bool" where
  "ingests es w w' =
     (w_trace w' = w_trace w @ es \<and> w_now w' = w_now w \<and>
      (\<exists>ts. in_delays w' = in_delays w @ ts \<and> list_all (\<lambda>t. 0 \<le> t \<and> t \<le> bo_max (in_backoff w)) ts))"

lemma slept:
  assumes "plain_backoff (in_backoff w)" "bo_attempt (in_backoff w) < 1024" "0 \<le> tk_uniform tk (in_draws w)"
    "tk_uniform tk (in_draws w) \<le> 1"
  shows "\<exists>w'. sleep_delay tk w = (Inr (), w') \<and> ingests [] w w' \<and>
    in_backoff w' = in_backoff w\<lparr>bo_attempt := Suc (bo_attempt (in_backoff w))\<rparr>"
  using delay_bounded [OF assms]
  by (auto simp: sleep_delay_def mbind_def mget_def mlift_def mput_def ingests_def)

lemma loop_published:
  assumes "\<And>st fs. returns (r_xadd (tk_ops tk) st fs)" "\<And>n. \<not> tk_stop tk n" "\<And>n. 0 \<le> tk_uniform tk n \<and> tk_uniform tk n \<le> 1"
  shows "plain_backoff (in_backoff w) \<Longrightarrow> bo_attempt (in_backoff w) + length cs \<le> 1024 \<Longrightarrow>
    \<exists>w'. ws_loop tk (public_message tk) url cs w = (Inr False, w') \<and>
      ingests (raw_effects (tk_market_type tk) (w_now w) (concat (map session_raws cs))) w w'"
proof (induction cs arbitrary: w)
  case Nil
  then show ?case by (simp add: mret_def ingests_def)
next
  case (Cons c cs)
  define u where "u = w\<lparr>in_checks := Suc (in_checks w), in_info := (in_info w)\<lparr>ci_state := CONNECTING\<rparr>\<rparr>"
  obtain v where v: "mtry (ws_connected tk (public_message tk) url c)
        (\<lambda>e. with_info (mark_reconnecting (Some (e_exn_text (tk_env tk) e)))) u = (Inr (), v)"
      "emits (raw_effects (tk_market_type tk) (w_now u) (session_raws c)) u v"
    using session_published [OF assms(1,2)] by blast
  define x where "x = v\<lparr>in_checks := Suc (in_checks v)\<rparr>"
  have x: "plain_backoff (in_backoff x)" "bo_attempt (in_backoff x) + length cs < 1024" "bo_max (in_backoff x) = bo_max (in_backoff w)"
    using v(2) Cons.prems by (auto simp: emits_def u_def x_def reset_backoff_def plain_backoff_def)
  obtain y where y: "sleep_delay tk x = (Inr (), y)" "ingests [] x y"
      "in_backoff y = in_backoff x\<lparr>bo_attempt := Suc (bo_attempt (in_backoff x))\<rparr>"
    using slept [OF x(1)] x(2) assms(3) by fastforce
  obtain w' where w': "ws_loop tk (public_message tk) url cs y = (Inr False, w')"
      "ingests (raw_effects (tk_market_type tk) (w_now y) (concat (map session_raws cs))) y w'"
    using Cons.IH [of y] x(1,2) y(3) by (auto simp: plain_backoff_def)
  have "ws_loop tk (public_message tk) url (c # cs) w = (Inr False, w')"
    using v(1) y(1) w'(1) assms(2)
    by (simp add: task_stopped_def mbind_def mseq_def mget_def mput_def mret_def with_info_def [of "\<lambda>i. i\<lparr>ci_state := CONNECTING\<rparr>"]
        u_def x_def)
  moreover have "ingests (raw_effects (tk_market_type tk) (w_now w) (concat (map session_raws (c # cs)))) w w'"
    using v(2) y(2,3) w'(2) x(3) by (auto simp: emits_def ingests_def u_def x_def)
  ultimately show ?case by blast
qed

text \<open>
  C40: While Redis answers and the task is not stopped, a public connection turns every message of every session that opens
  into one raw event, in order, with the name and the data of its envelope, whatever exceptions end the sessions; a
  message that is no such envelope is left out and nothing else; the task is still running, and no wait between two
  sessions was longer than the limit.  (Beyond 1024 attempts without a connection the delay overflows and ends the task.)
\<close>

theorem every_message_becomes_a_raw_event:
  assumes "\<And>st fs. returns (r_xadd (tk_ops su) st fs)" "\<And>n. \<not> tk_stop su n" "\<And>n. 0 \<le> tk_uniform su n \<and> tk_uniform su n \<le> 1"
    "plain_backoff (in_backoff w)" "bo_attempt (in_backoff w) + length cs \<le> 1024"
  shows "\<exists>w' ts. run_subscriber su cs w = (Inr False, w') \<and>
    w_trace w' = w_trace w @
      map (\<lambda>e. Published RAW_STREAM [(''event'', Json (dump_raw e))])
        (List.map_filter (public_raw (tk_market_type su) (w_now w)) (concat (map session_raws cs))) \<and>
    in_delays w' = in_delays w @ ts \<and> list_all (\<lambda>t. 0 \<le> t \<and> t \<le> bo_max (in_backoff w)) ts"
proof -
  obtain w' where w': "ws_loop su (public_message su) (subscriber_url su) cs w = (Inr False, w')"
      "ingests (raw_effects (tk_market_type su) (w_now w) (concat (map session_raws cs))) w w'"
    using loop_published [of su w cs] assms by blast
  then have "run_subscriber su cs w = (Inr False, w')"
    by (simp add: run_subscriber_def mbind_def mseq_def mwhen_def mret_def)
  then show ?thesis using w'(2) by (auto simp: ingests_def raw_effects_def raw_effect_def [abs_def])
qed

section \<open>A concrete connection\<close>

definition demo_subscriber :: "mem_redis subscriber" where
  "demo_subscriber =
     \<lparr>tk_ws_base = ''wss://stream.binance.com:9443'', tk_market_type = SPOT,
      tk_ops = mem_ops\<lparr>r_xadd := (\<lambda>st fs s. (Inr (), s\<lparr>mr_log := mr_log s @ [(st, fs)]\<rparr>))\<rparr>, tk_env = demo_env,
      tk_stop = (\<lambda>n. False), tk_uniform = (\<lambda>n. 1 / 2), tk_monotonic = (\<lambda>t. 0), su_streams = [''btcusdt@trade'']\<rparr>"

definition demo_ingest :: "mem_redis ingest_world" where
  "demo_ingest =
     \<lparr>w_redis = empty_mem, w_db = (), w_sessions = 0, w_uuids = 0, w_now = 1700000000000, w_trace = [],
      in_info = new_info ''spot-public'' ''spot'' ''public'', in_backoff = make_backoff default_ingest_settings, in_checks = 0,
      in_draws = 0, in_delays = [], in_urls = [], in_requests = []\<rparr>"

text \<open>A session that does not open, and one that brings a trade and a text that is no JSON before it is cut.\<close>

definition demo_sessions :: "ws_session list" where
  "demo_sessions =
     [\<lparr>wx_open = Inl (ConnectionClosed []), wx_messages = [], wx_end = None\<rparr>,
      \<lparr>wx_open = Inr (),
       wx_messages = [Json (JObj [(''stream'', JStr ''btcusdt@trade''), (''data'', JObj [(''p'', JStr ''100'')])]), Raw ''?''],
       wx_end = Some (ConnectionClosed [])\<rparr>]"

lemma every_message_becomes_a_raw_event_witness:
  "\<exists>w'. run_subscriber demo_subscriber demo_sessions demo_ingest = (Inr False, w') \<and>
     w_trace w' = [Published RAW_STREAM [(''event'', Json (dump_raw
       \<lparr>rw_market_type = SPOT, rw_source_stream = ''btcusdt@trade'', rw_received_ms = 1700000000000,
        rw_payload = [(''p'', JStr ''100'')]\<rparr>))]]"
proof -
  have ops: "returns (r_xadd (tk_ops demo_subscriber) st fs)" for st fs
    by (simp add: demo_subscriber_def returns_def)
  have stop: "\<not> tk_stop demo_subscriber n" "0 \<le> tk_uniform demo_subscriber n \<and> tk_uniform demo_subscriber n \<le> 1" for n
    by (simp_all add: demo_subscriber_def)
  have delays: "plain_backoff (in_backoff demo_ingest)" "bo_attempt (in_backoff demo_ingest) + length demo_sessions \<le> 1024"
    using fl_of_int [of 60]
    by (simp_all add: demo_ingest_def demo_sessions_def plain_backoff_def make_backoff_def default_ingest_settings_def)
  show ?thesis
    using every_message_becomes_a_raw_event [OF ops stop delays]
    by (auto simp: demo_sessions_def demo_ingest_def demo_subscriber_def session_raws_def public_raw_def raw_envelope_def
        dict_get_def map_filter_def)
qed

end
