(* ===== verification/ListenKeys.thy ===== *)
theory ListenKeys
  imports Credentials
begin

text \<open>
  The listen key of a futures stream (\<open>_create_listen_key\<close>, \<open>_delete_listen_key\<close> and \<open>_keepalive_loop\<close> of
  \<open>services/execution/account_stream/listener.py\<close>).  The answers of the exchange are arguments; a request is
  the verb and the key it names.
\<close>

type_synonym key_request = "string \<times> string option"

text \<open>\<open>raise_for_status\<close>, and what a client that gets no answer raises.\<close>

definition accepted :: "http_reply \<Rightarrow> exn + (exn + json)" where
  "accepted reply =
     (case reply of
        HttpReply status body _ \<Rightarrow> if 400 \<le> status then Inl (HttpError (nat status) []) else Inr body
      | HttpTimeout \<Rightarrow> Inl Timeout
      | HttpFailure msg \<Rightarrow> Inl (ConnectionClosed msg))"

text \<open>A key that is no text is used as its text.\<close>

definition futures_listen_key :: "env \<Rightarrow> http_reply \<Rightarrow> exn + string" where
  "futures_listen_key env reply =
     (case reply of
        HttpReply status _ _ \<Rightarrow>
          if status = 401 \<or> status = 403 then Inl (AuthError (''listen key HTTP '' @ show_int status))
          else ebind (accepted reply) (\<lambda>body. ebind body (\<lambda>data.
                 case data of
                   JObj d \<Rightarrow> (case map_of d ''listenKey'' of
                     None \<Rightarrow> Inl KeyError | Some k \<Rightarrow> Inr (str_of env k))
                 | _ \<Rightarrow> Inl TypeError))
      | _ \<Rightarrow> ebind (accepted reply) (\<lambda>_. Inl KeyError))"

definition delete_listen_key :: "string option \<Rightarrow> key_request list" where
  "delete_listen_key key = (case key of None \<Rightarrow> [] | Some k \<Rightarrow> if k = [] then [] else [(''DELETE'', Some k)])"

text \<open>One round of the loop per answer: a key that is refused is logged as an incident, and the loop goes on.\<close>

definition keepalive :: "'r listener \<Rightarrow> http_reply \<Rightarrow> ('r, key_request list) sact" where
  "keepalive li reply =
     mbind (mget sl_listen_key) (\<lambda>key.
     case key of
       None \<Rightarrow> mret []
     | Some k \<Rightarrow>
         if k = [] then mret []
         else mseq (case accepted reply of
                      Inl e \<Rightarrow> stream_incident li ''stream_keepalive_failed'' (e_exn_text (li_env li) e) ''warning''
                    | Inr _ \<Rightarrow> mret ())
                (mret [(''PUT'', Some k)]))"

primrec keepalive_loop :: "'r listener \<Rightarrow> http_reply list \<Rightarrow> ('r, key_request list) sact" where
  "keepalive_loop li [] = mret []"
| "keepalive_loop li (reply # replies) =
     mbind (keepalive li reply) (\<lambda>sent. mbind (keepalive_loop li replies) (\<lambda>rest. mret (sent @ rest)))"

text \<open>
  The futures stream from the answer to the request for its key: however it ends, the key is deleted and the requests
  for that are returned; while it is running there are none.
\<close>

definition run_futures_stream ::
  "'r listener \<Rightarrow> http_reply \<Rightarrow> ws_connection list \<Rightarrow> ('r, (exn + stream_outcome) \<times> key_request list) sact" where
  "run_futures_stream li reply cs =
     mbind (mtry (mbind (run_listener li (futures_listen_key (li_env li) reply) cs) (\<lambda>out. mret (Inr out))) (\<lambda>e. mret (Inl e)))
       (\<lambda>res. mbind (mget sl_listen_key) (\<lambda>key.
          mret (res, if res = Inr Listening then [] else delete_listen_key key)))"

text \<open>
  A key that the exchange refuses ends the stream before a connection is opened: its status says so, and one
  incident is left.
\<close>

lemma refused_key_ends_the_stream:
  assumes "li_market_type li = ''futures''" "status = 401 \<or> status = 403"
  shows "run_listener li (futures_listen_key (li_env li) (HttpReply status body content)) cs =
    mseq (stream_set_status li ''connecting'' None)
      (auth_failed li (e_exn_text (li_env li) (AuthError (''listen key HTTP '' @ show_int status))))"
  using assms by (auto simp: run_listener_def run_legacy_stream_def futures_listen_key_def)

end
