(* ===== verification/Spec2Isabelle.thy ===== *)
theory Spec2Isabelle
  imports ExecutionProperties AccountStreamProperties ReconciliationProperties OrderBooks NormalizerProperties McpAuthProperties
    GatewayProperties StrategyLifecycle Policies StrategyProperties McpServerProperties AnalyticsProperties RestProperties
    CredentialProperties IngestProperties ListenKeys
begin

text \<open>
  A verification development of the trading platform (Python, under \<open>services/\<close> and \<open>shared/\<close>).

  \<^bold>\<open>The program.\<close>  Services that share Redis (keys with the current state, streams between services) and a
  database.  \<open>binance_ingest\<close> puts what the exchange sends into the raw stream; the \<open>normalizer\<close> turns it into
  normalized events and current-state keys; \<open>analytics\<close> folds the events into one state per symbol and publishes decision snapshots;
  \<open>strategy_service\<close> evaluates the registered strategies on each snapshot and publishes trade intents;
  \<open>execution\<close> takes an intent through lock, approval, risk gate, adapter (paper or live) and tables, matches the
  order updates of the exchange with its jobs (\<open>reconciliation\<close>) and mirrors the accounts
  (\<open>account_stream\<close>).  \<open>mcp_server\<close> offers all this as tools, \<open>mcp_web_gateway\<close> lets the public use the reading
  ones, \<open>gateway_api\<close> is the REST surface for clients and operators.

  \<^bold>\<open>How a coroutine is modelled.\<close>  A function with effects is a \<open>('w, 'a) prog\<close> (Prelude): it takes a state and
  returns the new state with either a value (\<open>Inr\<close>) or the exception raised (\<open>Inl\<close>, of type \<open>exn\<close>); the changes
  made before a raise stay.  \<open>try\<close> is \<open>mtry\<close>, a handler that only logs is \<open>mlogged\<close>.  The state is a record that
  extends \<open>world\<close> (World): Redis, tables, clock, counters of sessions and of fresh identifiers, and the trace of
  what was published, acknowledged and submitted.  A database session that fails or raises before its commit
  leaves the tables as they were.  Python values that came from JSON are the datatype \<open>json\<close> (PyVal), and an
  access of the wrong kind raises as Python does.  A text in Redis is raw or the JSON it stands for.

  \<^bold>\<open>What is outside\<close> is an argument.  Redis is a record of commands with the laws of the locale \<open>redis\<close>
  (RedisStore), any of which may fail at any time; a store in memory with a script of failures interprets it and
  runs the witnesses.  The record \<open>env\<close> holds hash functions, \<open>str\<close> of floats and containers, the rounding of a
  numeric column, failures of the database, fresh identifiers and the parsers of the data library.  The exchange,
  the JWT library, the HTTP client, the cipher and the stop events of a task are arguments of the functions that
  use them.

  \<^bold>\<open>Numbers.\<close>  A float and a Decimal are both rational; \<open>fl\<close> rounds to 53 bits and \<open>dec\<close> to 28 digits, half to
  even, after every operation (PyNum).  Overflow (but for the powers in the delays between connections),
  infinities and NaN are not modelled: a text that denotes one is rejected.  \<open>math.sqrt\<close> and \<open>x ** 2\<close> are taken as correctly rounded.  \<open>statistics\<close> and \<open>sum\<close> on floats follow
  the compensated summation of the interpreter; the bounds on a mean hold for fewer than two to the power 49
  items, far above the buffers of the code.

  \<^bold>\<open>Loops.\<close>  A service loop is a list of rounds (what each iteration reads, or how often the stop event said no),
  so a property holds after any number of iterations and a single iteration always ends.  The recursive parsers
  and the pattern matcher of \<open>fnmatch\<close> have termination proofs.
\<close>

text \<open>
  \<^bold>\<open>Theories and sources.\<close>

  Shared: Schemas (\<open>shared/schemas\<close>, \<open>shared/risk/limits.py\<close>), Events (\<open>shared/schemas/events.py\<close>), Policies
  (\<open>shared/policies\<close>), RedisStore (\<open>shared/redis\<close>), World (\<open>shared/db/session.py\<close>, the publishers), JsonText
  (JSON and base64 as bytes), Snapshot (\<open>shared/schemas/analytics.py\<close>).

  Execution (\<open>services/execution\<close>): JobLifecycle (\<open>jobs\<close>), Repository (\<open>repository.py\<close>, \<open>shared/db/models\<close>),
  Controls (\<open>controls\<close> and \<open>gateway_api/ops\<close> for them), Risk (\<open>risk\<close>), Adapters (\<open>adapter\<close>, \<open>policy\<close>),
  AccountContext and Credentials (\<open>account\<close>, \<open>credentials.py\<close>, \<open>shared/crypto\<close>), ExecutionConsumer
  (\<open>consumer.py\<close>), Reconciliation (\<open>reconciliation\<close>), AccountState, ListenKeys and Listener (\<open>account_stream\<close>).

  Market data: Ingest (\<open>services/binance_ingest\<close>), Normalizer (\<open>services/normalizer\<close>), OrderBooks (\<open>normalizer/handlers/orderbook.py\<close>,
  \<open>analytics/engines/book_integrity.py\<close>), Engines, AnalyticsState and AnalyticsService (\<open>services/analytics\<close>).

  Strategies (\<open>services/strategy_service\<close>): StrategyLifecycle (\<open>lifecycle\<close>), StrategyRules (\<open>framework\<close>,
  \<open>strategies\<close>), StrategyService (\<open>runtime\<close>, \<open>repository.py\<close>, \<open>consumer.py\<close>).

  Access: McpAuth (\<open>services/mcp_server\<close>: cookie, login, OAuth, keys), McpReads and McpTrade (\<open>facades\<close>), McpTools
  and McpServer (\<open>protocol.py\<close>, \<open>sessions\<close>, \<open>main.py\<close>), Gateway (\<open>services/mcp_web_gateway\<close>), RestApi
  (\<open>services/gateway_api\<close>).

  \<^bold>\<open>What the lemmas show.\<close>  Prelude gives the two calculi the rest uses: \<open>wp\<close>, weakest preconditions, and
  \<open>moves\<close>, the frame conditions a program keeps, with one locale (\<open>frame\<close>) whose interpretations are the relations
  between states that a property is about.  ConsumerSafety proves by the first that an order is submitted by the
  holder of the lock, after the gate has seen every control off, and at most once; ExecutionProperties the
  decisions of the gate, the effect of operator controls, answers to every entry, duplicates, prices of paper
  fills, the gates of a live order and the consistency of the tables.  ReconciliationSafety and
  ReconciliationProperties show that settled jobs stay, that status changes follow the life cycle, that a
  redelivery changes nothing and that fills balance.  AccountStreamProperties is about the mirrored account and
  the connection, IngestProperties about messages and raw events, CredentialProperties about stored credentials and
  the connectivity check, NormalizerProperties and OrderBooks about events, keys and books, AnalyticsProperties about
  bounds of indicators, gaps and the price in a snapshot, StrategyProperties and StrategyLifecycle about signals,
  intents and states, McpAuthProperties about logins, codes and tokens, GatewayProperties, McpServerProperties
  and RestProperties about who may call what and what a call may change.  Demo and DemoRun are the configuration
  the witnesses run on.
\<close>

text \<open>
  \<^bold>\<open>Not modelled.\<close>  Start-up code, health endpoints and HTTP
  framework; HTML pages and the constant discovery documents of OAuth; logging; the migrations and the scripts for
  operators; tables and schemas that no service uses; Redis, the database, ciphers, hashes and JWT themselves.
  Concurrency inside a process is only what the code awaits on: services interleave through Redis and the tables,
  whose state a theorem leaves arbitrary before each step; two coroutines of the same process are not
  interleaved.
\<close>

end
